(* ===== verification/KernelPrelude.thy ===== *)
theory KernelPrelude
  imports Complex_Main "HOL-Library.AList" "HOL-Library.List_Lexorder" "HOL-Library.Char_ord"
begin

text \<open>
  Shared vocabulary of the development: the library's \<open>named_theorems\<close> collections, assertion
  lists with error codes (\<open>kernelAssertV2\<close>), insertion-ordered string-keyed records (the
  \<open>Record\<close> and \<open>Map\<close> objects of the TypeScript code), JSON values and their canonical form, sorted
  duplicate-free identifier lists, and the few \<open>String\<close>, \<open>Number\<close> and \<open>Date\<close> library functions
  the kernel calls. Strings are ASCII strings: every identifier the kernel admits is checked
  against an ASCII pattern, and on ASCII the functions below agree with the JavaScript ones.
\<close>

section \<open>Collections\<close>

named_theorems guard_simps \<open>unfolding of assertion lists\<close>
named_theorems frame \<open>fields an operation leaves alone\<close>
named_theorems effect \<open>what an accepted operation returns\<close>

section \<open>Assertions\<close>

text \<open>
  \<open>kernelAssertV2(condition, code, message)\<close> throws \<open>AssignmentKernelErrorV2\<close> with a stable code. An
  error is its code; a sequence of assertions is a list of condition and code pairs, of which the
  first failing one is thrown.
\<close>

type_synonym kernel_error = string

fun first_failure :: "(bool \<times> kernel_error) list \<Rightarrow> kernel_error option" where
  "first_failure [] = None"
| "first_failure ((c, e) # gs) = (if c then first_failure gs else Some e)"

definition guard :: "(bool \<times> kernel_error) list \<Rightarrow> kernel_error + 'a \<Rightarrow> kernel_error + 'a" where
  "guard gs k = (case first_failure gs of Some e \<Rightarrow> Inl e | None \<Rightarrow> k)"

fun kbind :: "kernel_error + 'a \<Rightarrow> ('a \<Rightarrow> kernel_error + 'b) \<Rightarrow> kernel_error + 'b" where
  "kbind (Inl e) f = Inl e"
| "kbind (Inr x) f = f x"

text \<open>
  Evaluation inlines the two sequencing functions as case distinctions, so that a continuation is not
  evaluated before the value it continues with.
\<close>

lemma guard_code [code_unfold]: "guard gs k = (case first_failure gs of Some e \<Rightarrow> Inl e | None \<Rightarrow> k)"
  by (rule guard_def)

lemma kbind_code [code_unfold]: "kbind x f = (case x of Inl e \<Rightarrow> Inl e | Inr y \<Rightarrow> f y)"
  by (cases x) simp_all

lemma first_failure_None_iff: "first_failure gs = None \<longleftrightarrow> (\<forall>(c, e) \<in> set gs. c)"
  by (induction gs rule: first_failure.induct) auto

lemma if_Some_None_iff [simp]: "((if c then x else Some e) = None) = (c \<and> x = None)"
  by simp

lemma first_failure_append:
  "first_failure (gs @ hs) = (case first_failure gs of None \<Rightarrow> first_failure hs | Some e \<Rightarrow> Some e)"
  by (induction gs rule: first_failure.induct) auto

lemma first_failure_in: "first_failure gs = Some e \<Longrightarrow> (False, e) \<in> set gs"
  by (induction gs rule: first_failure.induct) (auto split: if_splits)

lemma guard_Inr_iff [guard_simps]: "guard gs k = Inr x \<longleftrightarrow> first_failure gs = None \<and> k = Inr x"
  by (simp add: guard_def split: option.split)

lemma guard_Nil [simp]: "guard [] k = k"
  by (simp add: guard_def)

lemma kbind_Inr_iff [guard_simps]: "kbind m f = Inr y \<longleftrightarrow> (\<exists>x. m = Inr x \<and> f x = Inr y)"
  by (cases m) auto

lemma first_failure_Cons_None [guard_simps]:
  "first_failure ((c, e) # gs) = None \<longleftrightarrow> c \<and> first_failure gs = None"
  by simp

lemma first_failure_append_None [guard_simps]:
  "first_failure (gs @ hs) = None \<longleftrightarrow> first_failure gs = None \<and> first_failure hs = None"
  by (simp add: first_failure_append split: option.split)

lemma first_failure_map_None [guard_simps]:
  "first_failure (map (\<lambda>x. (P x, e)) xs) = None \<longleftrightarrow> (\<forall>x \<in> set xs. P x)"
  by (induction xs) auto

section \<open>Insertion-ordered records\<close>

text \<open>
  A \<open>Record<string, T>\<close> (and a \<open>Map\<close>) keeps its keys in insertion order and overwrites in place:
  an association list with the library's \<open>AList.update\<close> and \<open>AList.delete\<close>.
\<close>

type_synonym 'v krecord = "(string \<times> 'v) list"

abbreviation rget :: "'v krecord \<Rightarrow> string \<Rightarrow> 'v option" where
  "rget r k \<equiv> map_of r k"

abbreviation rput :: "string \<Rightarrow> 'v \<Rightarrow> 'v krecord \<Rightarrow> 'v krecord" where
  "rput k v r \<equiv> AList.update k v r"

abbreviation rdel :: "string \<Rightarrow> 'v krecord \<Rightarrow> 'v krecord" where
  "rdel k r \<equiv> AList.delete k r"

definition rkeys :: "'v krecord \<Rightarrow> string list" where
  "rkeys r = map fst r"

definition rvals :: "'v krecord \<Rightarrow> 'v list" where
  "rvals r = map snd r"

definition rhas :: "'v krecord \<Rightarrow> string \<Rightarrow> bool" where
  "rhas r k = (rget r k \<noteq> None)"

lemma rhas_iff: "rhas r k \<longleftrightarrow> k \<in> set (rkeys r)"
  by (auto simp: rhas_def rkeys_def map_of_eq_None_iff)

lemma rget_rput [simp]: "rget (rput k v r) k' = (if k' = k then Some v else rget r k')"
  by (simp add: update_conv')

lemma rget_rdel [simp]: "rget (rdel k r) k' = (if k' = k then None else rget r k')"
  by (simp add: delete_conv')

lemma rkeys_rput: "rkeys (rput k v r) = (if k \<in> set (rkeys r) then rkeys r else rkeys r @ [k])"
  by (induction r) (auto simp: rkeys_def)

lemma rkeys_rput_set [simp]: "set (rkeys (rput k v r)) = insert k (set (rkeys r))"
  by (auto simp: rkeys_rput)

lemma rput_new: "k \<notin> set (rkeys r) \<Longrightarrow> rput k v r = r @ [(k, v)]"
  by (induction r) (auto simp: rkeys_def)

lemma distinct_rkeys_rput [simp]: "distinct (rkeys (rput k v r)) \<longleftrightarrow> distinct (rkeys r)"
  by (auto simp: rkeys_rput)

lemma rvals_iff: "distinct (rkeys r) \<Longrightarrow> v \<in> set (rvals r) \<longleftrightarrow> (\<exists>k. rget r k = Some v)"
  by (force simp: rvals_def rkeys_def)

lemma rget_in_rvals: "rget r k = Some v \<Longrightarrow> v \<in> set (rvals r)"
  by (force simp: rvals_def dest: map_of_SomeD)

lemma length_rput: "length (rput k v r) = (if k \<in> set (rkeys r) then length r else Suc (length r))"
  by (induction r) (auto simp: rkeys_def)

text \<open>
  The contract the kernel relies on in its tables, stated once: what a lookup returns after a
  store, which keys there are, and that replacing an entry adds none.
\<close>

locale keyed_table =
  fixes get :: "'t \<Rightarrow> 'k \<Rightarrow> 'v option"
    and put :: "'k \<Rightarrow> 'v \<Rightarrow> 't \<Rightarrow> 't"
    and keys :: "'t \<Rightarrow> 'k list"
  assumes get_put: "get (put k v t) k' = (if k' = k then Some v else get t k')"
    and keys_put: "keys (put k v t) = (if k \<in> set (keys t) then keys t else keys t @ [k])"
    and keys_get: "k \<in> set (keys t) \<longleftrightarrow> get t k \<noteq> None"
begin

definition well_keyed :: "('v \<Rightarrow> 'k) \<Rightarrow> 't \<Rightarrow> bool" where
  "well_keyed ident t \<longleftrightarrow> distinct (keys t) \<and> (\<forall>k v. get t k = Some v \<longrightarrow> ident v = k)"

lemma well_keyed_put: "well_keyed ident t \<Longrightarrow> ident v = k \<Longrightarrow> well_keyed ident (put k v t)"
  by (auto simp: well_keyed_def get_put keys_put)

lemma put_replace_keys: "get t k \<noteq> None \<Longrightarrow> keys (put k v t) = keys t"
  by (simp add: keys_put keys_get)

lemma put_extends: "get t k = None \<Longrightarrow> get t k' = Some w \<Longrightarrow> get (put k v t) k' = Some w"
  by (auto simp: get_put)

lemma keys_put_mono: "set (keys t) \<subseteq> set (keys (put k v t))"
  by (auto simp: keys_put)

end

interpretation kr: keyed_table map_of AList.update rkeys
  by unfold_locales (simp_all add: rkeys_rput rhas_iff [symmetric] rhas_def)

section \<open>JSON values\<close>

datatype json =
    JNull
  | JBool bool
  | JNum rat
  | JStr string
  | JArr "json list"
  | JObj "(string \<times> json) list"

text \<open>
  \<open>canonicalJsonV2\<close> writes a value with the keys of every object in ordinal order and no
  insignificant space. Two values have the same canonical text exactly if they are equal once every
  object is sorted, so the model compares sorted values: \<open>canonicalJsonV2 a = canonicalJsonV2 b\<close>
  stands for the equality of the two texts.
\<close>

fun canonicalJsonV2 :: "json \<Rightarrow> json" where
  "canonicalJsonV2 (JArr xs) = JArr (map canonicalJsonV2 xs)"
| "canonicalJsonV2 (JObj kvs) = JObj (sort_key fst (map (\<lambda>kv. (fst kv, canonicalJsonV2 (snd kv))) kvs))"
| "canonicalJsonV2 v = v"

lemma map_key_canonical:
  "\<forall>kv \<in> set kvs. f (snd kv) = snd kv \<Longrightarrow> map (\<lambda>kv. (fst kv, f (snd kv))) kvs = kvs"
  by (induction kvs) auto

lemma canonicalJsonV2_idem: "canonicalJsonV2 (canonicalJsonV2 v) = canonicalJsonV2 v"
proof (induction v rule: canonicalJsonV2.induct)
  case (2 kvs)
  let ?c = "map (\<lambda>kv. (fst kv, canonicalJsonV2 (snd kv))) kvs"
  have "map (\<lambda>kv. (fst kv, canonicalJsonV2 (snd kv))) (sort_key fst ?c) = sort_key fst ?c"
    by (rule map_key_canonical) (auto simp: 2)
  moreover have "sort_key fst (sort_key fst ?c) = sort_key fst ?c"
    by (simp add: sort_key_id_if_sorted)
  ultimately show ?case by simp
qed auto

section \<open>Identifier lists\<close>

text \<open>\<open>[...new Set(xs)].sort()\<close>: ordinal order, no duplicates.\<close>

definition unique_sorted :: "string list \<Rightarrow> string list" where
  "unique_sorted xs = sort (remdups xs)"

lemma set_unique_sorted [simp]: "set (unique_sorted xs) = set xs"
  by (simp add: unique_sorted_def)

lemma unique_sorted_sorted: "sorted (unique_sorted xs)"
  by (simp add: unique_sorted_def)

lemma unique_sorted_distinct: "distinct (unique_sorted xs)"
  by (simp add: unique_sorted_def)

lemma unique_sorted_idem: "unique_sorted (unique_sorted xs) = unique_sorted xs"
  by (simp add: unique_sorted_def distinct_remdups_id sorted_sort_id)

text \<open>\<open>[...new Set(xs)]\<close>: first occurrences, in order.\<close>

definition unique_in_order :: "string list \<Rightarrow> string list" where
  "unique_in_order xs = rev (remdups (rev xs))"

lemma set_unique_in_order [simp]: "set (unique_in_order xs) = set xs"
  by (simp add: unique_in_order_def)

text \<open>A string used as a condition: neither \<open>undefined\<close> nor empty.\<close>

definition truthy :: "string option \<Rightarrow> bool" where
  "truthy v \<longleftrightarrow> v \<noteq> None \<and> v \<noteq> Some []"

lemma truthy_simps [simp]: "truthy None = False" "truthy (Some s) = (s \<noteq> [])"
  by (simp_all add: truthy_def)

section \<open>Numbers\<close>

definition max_safe_integer :: int where
  "max_safe_integer = 9007199254740991"

text \<open>\<open>Number.isSafeInteger\<close> of a number that is an integer.\<close>

definition isSafeInteger :: "int \<Rightarrow> bool" where
  "isSafeInteger n \<longleftrightarrow> \<bar>n\<bar> \<le> max_safe_integer"

section \<open>Strings\<close>

definition char_code :: "char \<Rightarrow> nat" where
  "char_code c = of_char c"

definition is_digit :: "char \<Rightarrow> bool" where
  "is_digit c \<longleftrightarrow> 48 \<le> char_code c \<and> char_code c \<le> 57"

definition is_lower :: "char \<Rightarrow> bool" where
  "is_lower c \<longleftrightarrow> 97 \<le> char_code c \<and> char_code c \<le> 122"

definition is_upper :: "char \<Rightarrow> bool" where
  "is_upper c \<longleftrightarrow> 65 \<le> char_code c \<and> char_code c \<le> 90"

definition is_space :: "char \<Rightarrow> bool" where
  "is_space c \<longleftrightarrow> char_code c = 32 \<or> (9 \<le> char_code c \<and> char_code c \<le> 13)"

text \<open>\<open>/[\u0000-\u001f]/\<close> and \<open>/[\u0000-\u001f\u007f]/\<close>.\<close>

definition is_control :: "char \<Rightarrow> bool" where
  "is_control c \<longleftrightarrow> char_code c < 32"

definition is_control_or_del :: "char \<Rightarrow> bool" where
  "is_control_or_del c \<longleftrightarrow> char_code c < 32 \<or> char_code c = 127"

definition js_trim :: "string \<Rightarrow> string" where
  "js_trim s = rev (dropWhile is_space (rev (dropWhile is_space s)))"

definition to_lower_char :: "char \<Rightarrow> char" where
  "to_lower_char c = (if is_upper c then char_of (char_code c + 32) else c)"

definition toLowerCase :: "string \<Rightarrow> string" where
  "toLowerCase s = map to_lower_char s"

definition to_upper_char :: "char \<Rightarrow> char" where
  "to_upper_char c = (if is_lower c then char_of (char_code c - 32) else c)"

definition toUpperCase :: "string \<Rightarrow> string" where
  "toUpperCase s = map to_upper_char s"

fun starts_with :: "string \<Rightarrow> string \<Rightarrow> bool" where
  "starts_with [] s = True"
| "starts_with (p # ps) [] = False"
| "starts_with (p # ps) (c # cs) = (p = c \<and> starts_with ps cs)"

definition ends_with :: "string \<Rightarrow> string \<Rightarrow> bool" where
  "ends_with suffix s = starts_with (rev suffix) (rev s)"

fun str_contains :: "string \<Rightarrow> string \<Rightarrow> bool" where
  "str_contains [] p = (p = [])"
| "str_contains (c # cs) p = (starts_with p (c # cs) \<or> str_contains cs p)"

text \<open>\<open>/^[A-Za-z0-9][A-Za-z0-9._:-]{0,n}$/\<close>, the identity pattern of commands and failures.\<close>

definition is_alnum :: "char \<Rightarrow> bool" where
  "is_alnum c \<longleftrightarrow> is_digit c \<or> is_lower c \<or> is_upper c"

fun bounded_identity :: "nat \<Rightarrow> string \<Rightarrow> bool" where
  "bounded_identity n [] = False"
| "bounded_identity n (c # cs) =
     (is_alnum c \<and> length cs \<le> n \<and> list_all (\<lambda>d. is_alnum d \<or> d \<in> set ''._:-'') cs)"

text \<open>\<open>/^[a-z][a-z0-9<extra>]{0,n}$/\<close>, the pattern of declared variables and plan items.\<close>

fun lower_identity :: "string \<Rightarrow> nat \<Rightarrow> string \<Rightarrow> bool" where
  "lower_identity extra n [] = False"
| "lower_identity extra n (c # cs) =
     (is_lower c \<and> length cs \<le> n \<and> list_all (\<lambda>d. is_lower d \<or> is_digit d \<or> d \<in> set extra) cs)"

definition is_lower_hex :: "char \<Rightarrow> bool" where
  "is_lower_hex c \<longleftrightarrow> is_digit c \<or> (97 \<le> char_code c \<and> char_code c \<le> 102)"

text \<open>\<open>/^[a-f0-9]{n}$/\<close>.\<close>

definition lower_hex :: "nat \<Rightarrow> string \<Rightarrow> bool" where
  "lower_hex n s \<longleftrightarrow> length s = n \<and> list_all is_lower_hex s"

section \<open>Decimal numerals\<close>

fun nat_digits :: "nat \<Rightarrow> string" where
  "nat_digits n = (if n < 10 then [char_of (48 + n)] else nat_digits (n div 10) @ [char_of (48 + n mod 10)])"

declare nat_digits.simps [simp del]

definition int_text :: "int \<Rightarrow> string" where
  "int_text n = (if n < 0 then CHR ''-'' # nat_digits (nat (- n)) else nat_digits (nat n))"

section \<open>Dates\<close>

text \<open>
  \<open>Date.parse\<close> on the date-time format of ECMA-262, \<open>YYYY-MM-DDTHH:mm:ss\<close> with an optional
  fraction and a zone \<open>Z\<close> or \<open>+HH:mm\<close>; the kernel's timestamps are written by \<open>toISOString\<close>. Any
  other text is not a number (\<open>None\<close>). The result is in milliseconds since 1970.
\<close>

definition digit_value :: "char \<Rightarrow> int" where
  "digit_value c = int (char_code c) - 48"

definition number_of_digits :: "string \<Rightarrow> int option" where
  "number_of_digits s = (if s \<noteq> [] \<and> list_all is_digit s
     then Some (foldl (\<lambda>n c. 10 * n + digit_value c) 0 s) else None)"

text \<open>Days from 1970-01-01 of a proleptic Gregorian date.\<close>

definition days_from_civil :: "int \<Rightarrow> int \<Rightarrow> int \<Rightarrow> int" where
  "days_from_civil y m d =
     (let y' = (if m \<le> 2 then y - 1 else y);
          era = y' div 400;
          yoe = y' - era * 400;
          mp = (if m > 2 then m - 3 else m + 9);
          doy = (153 * mp + 2) div 5 + d - 1;
          doe = yoe * 365 + yoe div 4 - yoe div 100 + doy
      in era * 146097 + doe - 719468)"

definition is_leap :: "int \<Rightarrow> bool" where
  "is_leap y \<longleftrightarrow> y mod 4 = 0 \<and> (y mod 100 \<noteq> 0 \<or> y mod 400 = 0)"

definition month_days :: "int \<Rightarrow> int \<Rightarrow> int" where
  "month_days y m = (if m = 2 then (if is_leap y then 29 else 28)
     else if m \<in> {4, 6, 9, 11} then 30 else 31)"

definition parse_zone :: "string \<Rightarrow> int option" where
  "parse_zone s = (case s of
      [] \<Rightarrow> None
    | c # rest \<Rightarrow>
        if s = ''Z'' then Some 0
        else if length rest = 5 \<and> rest ! 2 = CHR '':'' \<and> c \<in> {CHR ''+'', CHR ''-''}
        then (case (number_of_digits (take 2 rest), number_of_digits (drop 3 rest)) of
            (Some h, Some m) \<Rightarrow> if h \<le> 23 \<and> m \<le> 59
              then Some ((if c = CHR ''+'' then 1 else - 1) * (h * 60 + m)) else None
          | _ \<Rightarrow> None)
        else None)"

definition parse_fraction :: "string \<Rightarrow> (int \<times> string) option" where
  "parse_fraction s = (case s of
      c # rest \<Rightarrow>
        if c = CHR ''.'' then
          (let ds = takeWhile is_digit rest in
           if ds = [] then None
           else map_option (\<lambda>n. (n, dropWhile is_digit rest))
                  (number_of_digits (take 3 (ds @ ''00''))))
        else Some (0, s)
    | [] \<Rightarrow> Some (0, s))"

definition parse_date :: "string \<Rightarrow> int option" where
  "parse_date s = (case (number_of_digits (take 4 s), number_of_digits (take 2 (drop 5 s)),
        number_of_digits (take 2 (drop 8 s))) of
      (Some y, Some m, Some d) \<Rightarrow>
        if 1 \<le> m \<and> m \<le> 12 \<and> 1 \<le> d \<and> d \<le> month_days y m
        then Some (days_from_civil y m d) else None
    | _ \<Rightarrow> None)"

definition parse_time :: "string \<Rightarrow> int option" where
  "parse_time s = (case (number_of_digits (take 2 s), number_of_digits (take 2 (drop 3 s)),
        number_of_digits (take 2 (drop 6 s))) of
      (Some h, Some mi, Some se) \<Rightarrow>
        if h \<le> 23 \<and> mi \<le> 59 \<and> se \<le> 59 then Some ((h * 60 + mi) * 60 + se) else None
    | _ \<Rightarrow> None)"

definition date_parse :: "string \<Rightarrow> int option" where
  "date_parse s =
     (if length s \<ge> 20 \<and> s ! 4 = CHR ''-'' \<and> s ! 7 = CHR ''-'' \<and> s ! 10 = CHR ''T''
         \<and> s ! 13 = CHR '':'' \<and> s ! 16 = CHR '':'' then
        (case (parse_date (take 10 s), parse_time (take 8 (drop 11 s)), parse_fraction (drop 19 s)) of
           (Some d, Some t, Some (ms, rest)) \<Rightarrow>
             map_option (\<lambda>z. (d * 86400 + t - z * 60) * 1000 + ms) (parse_zone rest)
         | _ \<Rightarrow> None)
      else None)"

definition finite_time :: "string \<Rightarrow> bool" where
  "finite_time s \<longleftrightarrow> date_parse s \<noteq> None"

text \<open>Comparisons of parsed times: every comparison with \<open>NaN\<close> is false.\<close>

definition time_le :: "int option \<Rightarrow> int option \<Rightarrow> bool" where
  "time_le a b = (case (a, b) of (Some x, Some y) \<Rightarrow> x \<le> y | _ \<Rightarrow> False)"

definition time_less :: "int option \<Rightarrow> int option \<Rightarrow> bool" where
  "time_less a b = (case (a, b) of (Some x, Some y) \<Rightarrow> x < y | _ \<Rightarrow> False)"

section \<open>Sorting by a comparison of the host\<close>

fun insert_by :: "('a \<Rightarrow> 'a \<Rightarrow> bool) \<Rightarrow> 'a \<Rightarrow> 'a list \<Rightarrow> 'a list" where
  "insert_by le x [] = [x]"
| "insert_by le x (y # ys) = (if le x y then x # y # ys else y # insert_by le x ys)"

definition sort_by :: "('a \<Rightarrow> 'a \<Rightarrow> bool) \<Rightarrow> 'a list \<Rightarrow> 'a list" where
  "sort_by le xs = foldr (insert_by le) xs []"

lemma set_insert_by [simp]: "set (insert_by le x ys) = insert x (set ys)"
  by (induction ys) auto

lemma set_sort_by [simp]: "set (sort_by le xs) = set xs"
  by (induction xs) (simp_all add: sort_by_def)

lemma length_insert_by [simp]: "length (insert_by le x ys) = Suc (length ys)"
  by (induction ys) auto

lemma length_sort_by [simp]: "length (sort_by le xs) = length xs"
  by (induction xs) (simp_all add: sort_by_def)

end
