(* ===== verification/KernelTypes.thy ===== *)
theory KernelTypes
  imports KernelPrelude
begin

text \<open>
  The data of the assignment kernel (\<open>domain/assignment-kernel/\<close>: \<open>identity\<close>, \<open>assignment_spec\<close>,
  \<open>criteria\<close>, \<open>semantic_admissibility\<close>, \<open>operation\<close>, \<open>observation\<close>, \<open>work_plan\<close>,
  \<open>advisory_followups\<close>, \<open>execution_policy\<close>, \<open>user_followup_allocation\<close>, \<open>provider_usage_hold\<close>,
  \<open>progress/contracts\<close>, \<open>progress/provider_call\<close>, \<open>progress/execution_failure\<close>, \<open>snapshot\<close>,
  \<open>events\<close>). An optional property is an \<open>option\<close>, a string union a \<open>datatype\<close>, a string-keyed
  object an insertion-ordered record; fields whose TypeScript type is one literal (most \<open>schema\<close>
  tags) carry no information and are left out, unless the code checks them at run time.
\<close>

section \<open>Identity\<close>

record binding =
  b_assignment_id :: string
  b_run_id :: string
  b_generation :: int
  b_session_id :: string
  b_principal_id :: string
  b_document_fingerprint :: "string option"

definition sameAssignmentBindingV2 :: "binding \<Rightarrow> binding \<Rightarrow> bool" where
  "sameAssignmentBindingV2 left right \<longleftrightarrow>
     b_assignment_id left = b_assignment_id right
     \<and> b_run_id left = b_run_id right
     \<and> b_generation left = b_generation right
     \<and> b_session_id left = b_session_id right
     \<and> b_principal_id left = b_principal_id right
     \<and> b_document_fingerprint left = b_document_fingerprint right"

lemma sameAssignmentBindingV2_iff [simp]: "sameAssignmentBindingV2 a b \<longleftrightarrow> a = b"
  by (auto simp: sameAssignmentBindingV2_def intro: binding.equality)

section \<open>Roles and classes of operations and evidence\<close>

datatype requested_effect = ReadEffect | PreviewEffect | ApplyEffect
datatype execution_class = Analysis | Independent | CoupledAtomic
datatype operation_purpose = Work | Discovery | Verification | EvidenceRead | Reconciliation
datatype operation_role = RootRole | PrerequisiteRole | ChildRole
datatype fulfillment_role = SupportingControl | PrerequisiteFulfillment | DelegatedTaskExecution
  | VerificationFulfillment | ReconciliationFulfillment | TelemetryFulfillment
datatype evidence_class = ControlEvidence | PrerequisiteEvidence | TaskResultEvidence
  | VerificationEvidence | ReconciliationEvidence | TelemetryEvidence
datatype fact_class = ControlFact | DomainFact | VerificationFact | ReconciliationFact | TelemetryFact

record criterion_evidence_policy =
  cep_schema :: string
  cep_allowed_evidence_classes :: "evidence_class list"
  cep_allowed_fulfillment_roles :: "fulfillment_role list"
  cep_allowed_fact_classes :: "fact_class list"
  cep_allowed_capability_ids :: "string list"
  cep_allowed_result_schema_ids :: "string list"
  cep_required_fact_ids :: "string list"
  cep_require_native_dispatch :: bool
  cep_require_current_generation :: bool

section \<open>Observations and semantic facts\<close>

datatype fact_scalar = FStr string | FNum rat | FBool bool | FNull
datatype fact_value = FOne fact_scalar | FMany "fact_scalar list"
datatype fact_cardinality = CardOne | CardMany

type_synonym scope = "fact_scalar krecord"

record semantic_fact =
  fact_id :: string
  fact_class_of :: "fact_class option"
  fact_value_of :: fact_value
  fact_cardinality_of :: "fact_cardinality option"
  fact_dimensions :: "scope option"
  fact_identity_dimensions :: "string list option"
  fact_unit :: "string option"
  fact_target_id :: "string option"

record observation =
  obs_id :: string
  obs_operation_id :: string
  obs_fulfillment_role :: "fulfillment_role option"
  obs_evidence_class :: "evidence_class option"
  obs_capability_id :: "string option"
  obs_eligible_criterion_ids :: "string list option"
  obs_binding :: binding
  obs_authority :: string
  obs_result_schema_id :: string
  obs_raw_payload_ref :: string
  obs_raw_payload_hash :: string
  obs_payload_provenance :: "json option"
  obs_facts :: "semantic_fact list"
  obs_target_scope :: scope
  obs_observed_at :: string
  obs_freshness_deadline :: "string option"
  obs_before_observation_id :: "string option"
  obs_after_observation_id :: "string option"
  obs_verification_relevance :: "string list"

section \<open>Assignment specification\<close>

datatype variable_state = ValueKnown | ValueNeedsInput | ValueNeedsReview

record input_variable =
  iv_variable_id :: string
  iv_value_state :: variable_state
  iv_value :: "json option"
  iv_required :: bool
  iv_sensitive :: bool

record desired_state_comparison =
  dsc_fact_id :: string
  dsc_input_variable_id :: string
  dsc_dimensions :: "scope option"
  dsc_target_id :: "string option"

record criterion_spec =
  cs_criterion_id :: string
  cs_requirement :: string
  cs_required :: bool
  cs_semantic_fact_requirements :: "string list"
  cs_accepted_evaluator_authority_ids :: "string list"
  cs_accepted_observation_authority_ids :: "string list"
  cs_evidence_policy :: "criterion_evidence_policy option"
  cs_desired_state_comparisons :: "desired_state_comparison list option"

datatype rollback_scope = RollbackNone | RollbackOperation | RollbackWorkUnit | RollbackAssignment

record work_unit_spec =
  wu_id :: string
  wu_requested_effect :: requested_effect
  wu_execution_class :: execution_class
  wu_dependency_ids :: "string list"
  wu_criterion_ids :: "string list"
  wu_input_variable_ids :: "string list"
  wu_independently_useful :: bool
  wu_safe_to_retain :: bool
  wu_rollback_scope :: rollback_scope

datatype work_unit_state = WuPending | WuActive | WuComplete | WuRetained | WuBlocked | WuFailed

datatype prerequisite_kind = InformationPrerequisite | ApprovalPrerequisite

record scope_prerequisite =
  pr_variable_id :: string
  pr_kind :: prerequisite_kind
  pr_question :: string
  pr_source_quote :: string

record interpreted_scope =
  is_schema :: string
  is_requested_effect :: requested_effect
  is_model_effect :: requested_effect
  is_protected_clauses :: "string list"
  is_prerequisites :: "scope_prerequisite list"

record bound_interpreted_scope =
  bis_source_message_id :: string
  bis_source_request_sha256 :: string
  bis_scope :: interpreted_scope

section \<open>Execution policy\<close>

datatype policy_mode = LocalAdvisoryV1 | SingleActorReviewV1
datatype policy_selector = TrustedLocalHost | TrustedRuntimeHost

record pdf_sheet =
  sheet_page :: int
  sheet_comments :: int
  sheet_units :: int

record pdf_source =
  src_sha256 :: string
  src_page_count :: int
  src_sheets :: "pdf_sheet list"

record pdf_work_allowance =
  pwa_mode :: string
  pwa_units :: int
  pwa_sources :: "pdf_source list"

record native_scope_planning =
  nsp_mode :: string
  nsp_scope_kind :: string
  nsp_source_request_sha256 :: string
  nsp_items_per_unit :: int
  nsp_max_units :: int

datatype allowance_mode = VerifiedNativeChangesV1 | ObservedNativeWorkV1
datatype credit_unit = DistinctVerifiedTargetsV1 | DistinctObservedPhysicalTargetsV1

record progress_allowance =
  pa_mode :: allowance_mode
  pa_max_provider_calls :: int
  pa_max_operations :: int
  pa_max_total_tokens :: int
  pa_max_wall_clock_ms :: "int option"
  pa_credit_unit :: "credit_unit option"

record execution_policy =
  ep_mode :: policy_mode
  ep_selected_by :: policy_selector
  ep_session_id :: string
  ep_document_fingerprint :: string
  ep_max_turns :: int
  ep_max_provider_calls :: int
  ep_max_operations :: int
  ep_max_total_tokens :: int
  ep_max_wall_clock_ms :: int
  ep_ready_work_handoff :: "string option"
  ep_source_work_allowance :: "pdf_work_allowance option"
  ep_native_scope_planning :: "native_scope_planning option"
  ep_progress_allowance :: "progress_allowance option"
  ep_principal_id :: string

record advisory_proposal =
  ap_claimed_completed :: "string list"
  ap_remaining_work :: "string list"
  ap_uncertainties :: "string list"
  ap_user_facing_text :: "string option"

record assignment_spec =
  sp_binding :: binding
  sp_source_user_request :: string
  sp_requested_effect :: requested_effect
  sp_semantic_evidence_contract :: "string option"
  sp_interpreted_scope :: "bound_interpreted_scope option"
  sp_result_delivery_required :: bool
  sp_result_assessment_required :: bool
  sp_work_plan_required :: bool
  sp_work_plan_min_items :: "int option"
  sp_execution_policy :: "execution_policy option"
  sp_criteria :: "criterion_spec list"
  sp_input_variables :: "input_variable list"
  sp_work_units :: "work_unit_spec list"
  sp_authorization_policy_id :: string
  sp_deviation_policy_id :: "string option"
  sp_target_binding :: "json option"
  sp_created_at :: string

section \<open>Criteria and outcomes\<close>

datatype criterion_status = CsPass | CsPartial | CsNeedsInput | CsNeedsReview | CsFailed
  | CsNotApplicable | CsUncertain
datatype assignment_outcome = Active | AwaitingUserInput | AwaitingUserReview | Complete
  | CompleteWithIssues | VerifiedNoop | Blocked | Failed
datatype evaluation_basis = ObservationBasis | ExecutionBasis | DesiredStateEquivalence
  | UserInputBasis | PolicyBasis

record fact_ref =
  fr_observation_id :: string
  fr_fact_id :: string

record criterion_evaluation =
  ce_criterion_id :: string
  ce_status :: criterion_status
  ce_basis :: evaluation_basis
  ce_supporting_operation_ids :: "string list"
  ce_supporting_facts :: "fact_ref list"
  ce_evaluator_authority :: string
  ce_reason :: string
  ce_evaluated_at :: string

section \<open>Operations and results\<close>

datatype http_method = HttpGet | HttpPost
datatype admission_state = Proposed | Admitted | Rejected
datatype dispatch_state = NotDispatched | Dispatching | Dispatched
datatype persistent_effect = NoEffect | UnknownEffect | AppliedEffect
datatype settlement_state = SettleOpen | AwaitingResult | RetainingObservation
  | ObservationCommitFailed | Settled
datatype retry_basis = CorrectedInput | CorrectedAdmission | NewTarget | ReconciledNone | ChangedPlan
  | AuthorizationRestored | HostRecovered | CommittedTargetChange | FamilySessionCapacityReleased
  | NativePreDispatchRead | CommittedTargetRead | CommittedDocumentRead
datatype dispatch_authority = McpAuthority | BackendAuthority | NativeAuthority
  | DynamicRuntimeAuthority | CourierAuthority
datatype transaction_state = TxNotApplicable | TxNotStarted | TxCommitted | TxRolledBack | TxUnknown
datatype result_status = Succeeded | CompletedWithoutNativeDispatch | FailedBeforeDispatch
  | FailedAfterDispatch | TimedOut | Canceled

record request_identity =
  ri_capability_id :: string
  ri_method :: "http_method option"
  ri_path :: "string option"
  ri_request_signature :: string

record canonical_target =
  tg_target_id :: "string option"
  tg_target_kind :: "string option"
  tg_document_fingerprint :: "string option"
  tg_semantic_scope :: "scope option"

record input_schema_gap =
  isg_gap_id :: string
  isg_operation_id :: string
  isg_capability_id :: string
  isg_input_schema_id :: string
  isg_input_schema_digest :: string
  isg_method :: http_method
  isg_path :: string
  isg_request_signature :: string
  isg_issues :: "json list"

datatype semantic_gap_reason = PreviewSemanticAdapterMissing | PreviewResultContractInvalid

record result_semantic_gap =
  rsg_schema :: string
  rsg_gap_id :: string
  rsg_operation_id :: string
  rsg_capability_id :: string
  rsg_result_schema_id :: string
  rsg_reason_code :: string
  rsg_retryable :: bool
  rsg_provider_correctable :: bool
  rsg_native_replay_allowed :: bool

record observation_commit_input =
  oc_result_id :: string
  oc_raw_payload :: json
  oc_semantic_facts :: "semantic_fact list"
  oc_target_scope :: "scope option"
  oc_verification_relevance :: "string list option"

record operation_result =
  r_result_id :: string
  r_operation_id :: string
  r_binding :: binding
  r_status :: result_status
  r_dispatch_state :: dispatch_state
  r_persistent_effect :: persistent_effect
  r_native_transaction_state :: transaction_state
  r_native_artifact_receipt :: "json option"
  r_authority :: string
  r_result_schema_id :: string
  r_observation_required :: bool
  r_raw_payload_hash :: "string option"
  r_payload_provenance :: "json option"
  r_affected_target_identities :: "string list option"
  r_receipt_id :: "string option"
  r_native_correlation_id :: "string option"
  r_completed_at :: string
  r_error_code :: "string option"
  r_diagnostics :: "string list option"
  r_request_identity :: "request_identity option"
  r_input_schema_gap :: "input_schema_gap option"
  r_result_semantic_gap :: "result_semantic_gap option"

text \<open>
  The contexts the reducer derives from a retained native payload before it leaves the snapshot
  (\<open>native_failure_context.ts\<close>, \<open>native_inventory_workload.ts\<close>, \<open>template_reassignment.ts\<close>,
  \<open>schedule_filter_restoration.ts\<close>).
\<close>

record failure_dependency =
  fd_element_id :: string
  fd_target_element_ids :: "string list"

record native_failure_context =
  nf_operation_id :: string
  nf_result_id :: string
  nf_raw_payload_hash :: string
  nf_receipt_id :: string
  nf_native_correlation_id :: string
  nf_request_signature :: string
  nf_dependencies :: "failure_dependency list"

record native_inventory_workload =
  nw_operation_id :: string
  nw_result_id :: string
  nw_raw_payload_hash :: string
  nw_receipt_id :: string
  nw_native_correlation_id :: string
  nw_request_signature :: string
  nw_inventory_kind :: string
  nw_item_count :: int

record native_template_state =
  nt_result_id :: string
  nt_raw_payload_hash :: string
  nt_view_id :: int
  nt_template_id :: int

record native_filter_state =
  ns_result_id :: string
  ns_raw_payload_hash :: string
  ns_schedule_id :: int
  ns_state_hash :: string

text \<open>
  \<open>OperationV2\<close> in three layers: the contract it is admitted with, its relations to other operations
  (both fixed at admission), and the lifecycle state the reducer advances.
\<close>

record operation_contract =
  op_id :: string
  op_binding :: binding
  op_work_unit_id :: string
  op_capability_id :: string
  op_requested_effect :: requested_effect
  op_purpose :: operation_purpose
  op_role :: "operation_role option"
  op_fulfillment_role :: "fulfillment_role option"
  op_delegation_authority_id :: "string option"
  op_parent_id :: "string option"
  op_root_id :: "string option"
  op_blocks_parent_settlement :: "bool option"
  op_request_identity :: "request_identity option"
  op_advances_criterion_ids :: "string list"
  op_eligible_criterion_ids :: "string list option"
  op_resolves_gap_ids :: "string list"
  op_target :: canonical_target
  op_input :: "json krecord"

record operation_relations = operation_contract +
  op_verification_of :: "string option"
  op_retry_of :: "string option"
  op_retry_basis :: "retry_basis option"
  op_retry_after :: "string option"
  op_checkpoint_of :: "string option"
  op_checkpoint_after :: "string option"
  op_reassignment_of :: "string option"
  op_reassignment_after :: "string option"
  op_filter_restoration_of :: "string option"
  op_filter_restoration_after :: "string option"
  op_reconciliation_of :: "string option"
  op_opened_at :: string
  op_deadline_at :: string

record operation = operation_relations +
  op_admission_state :: admission_state
  op_dispatch_state :: dispatch_state
  op_persistent_effect :: persistent_effect
  op_settlement_state :: settlement_state
  op_result :: "operation_result option"
  op_native_completion_reconciliation :: "json option"
  op_native_failure_context :: "native_failure_context option"
  op_native_inventory_workload :: "native_inventory_workload option"
  op_native_template_state :: "native_template_state option"
  op_native_schedule_filter_state :: "native_filter_state option"
  op_observation_commit :: "observation_commit_input option"
  op_observation_commit_attempts :: "int option"
  op_observation_ids :: "string list"
  op_verification_operation_ids :: "string list"
  op_admitted_version :: "int option"
  op_settled_version :: "int option"
  op_dispatch_started_at :: "string option"
  op_dispatched_at :: "string option"
  op_dispatch_authority :: "dispatch_authority option"
  op_settled_at :: "string option"
  op_observation_retention_error :: "string option"

section \<open>Provider calls and execution failures\<close>

datatype provider_call_state = CallAdmitted | CallDispatched | CallResponseStarted
  | CallUsageReceived | CallCompleted | CallTransportCompleted
datatype provider_error_class = ProviderError | TransportError | CanceledError | ResourceExhaustedError

record provider_usage =
  pu_input_tokens :: "int option"
  pu_cached_input_tokens :: "int option"
  pu_cache_write_input_tokens :: "int option"
  pu_output_tokens :: "int option"
  pu_reasoning_tokens :: "int option"
  pu_total_tokens :: "int option"
  pu_estimated_cost_usd :: "rat option"

record upstream_receipt =
  ur_call_id :: string
  ur_route :: string
  ur_requested_model :: string
  ur_model :: string
  ur_started_at_utc :: string
  ur_duration_ms :: "int option"

record provider_call =
  pc_call_id :: string
  pc_controller_turn_id :: "string option"
  pc_upstream_receipt :: "upstream_receipt option"
  pc_binding :: binding
  pc_state :: provider_call_state
  pc_provider :: string
  pc_model :: string
  pc_reasoning_effort :: "string option"
  pc_gap_ids :: "string list"
  pc_criterion_ids :: "string list"
  pc_expected_information :: "string list"
  pc_admitted_at :: string
  pc_dispatched_at :: "string option"
  pc_response_started_at :: "string option"
  pc_usage_received_at :: "string option"
  pc_completed_at :: "string option"
  pc_provider_duration_ms :: "int option"
  pc_transport_completed_at :: "string option"
  pc_usage :: "provider_usage option"
  pc_success :: "bool option"
  pc_error_class :: "provider_error_class option"

datatype failure_class = ProviderFailure | TransportFailure | RuntimeFailure | CanceledFailure
  | ResourceExhaustedFailure
datatype failure_phase = RequestValidation | RuntimeSetup | ProviderStart | ProviderTurn | ResponseHandoff

record execution_failure =
  ef_schema :: string
  ef_failure_id :: string
  ef_binding :: binding
  ef_error_class :: failure_class
  ef_phase :: failure_phase
  ef_code :: string

section \<open>Progress contracts\<close>

record progress_budget =
  max_reasoning_turns :: int
  max_provider_calls :: int
  max_operations :: int
  max_equivalent_operations :: int
  max_no_progress_epochs :: int
  max_reconciliation_attempts :: int
  max_wall_clock_ms :: int
  max_total_tokens :: int

definition DEFAULT_ASSIGNMENT_PROGRESS_BUDGET_V2 :: progress_budget where
  "DEFAULT_ASSIGNMENT_PROGRESS_BUDGET_V2 = \<lparr>
     max_reasoning_turns = 32, max_provider_calls = 32, max_operations = 128,
     max_equivalent_operations = 1, max_no_progress_epochs = 4,
     max_reconciliation_attempts = 2, max_wall_clock_ms = 30 * 60000,
     max_total_tokens = 4000000\<rparr>"

datatype progress_gap_kind = CriterionFactMissing | CriterionUncertainGap | ResultDeliveryRequired
  | WorkPlanRequired | OperationInputSchemaInvalid | OperationResultSemanticInvalid | InputMissing
  | ReviewRequired | OperationUnsettled | EffectUnknown | VerificationRequired | EvidenceStale
  | EvidenceConflicting | ResourceExhausted

text \<open>The prose \<open>reason\<close> of a gap is a message to the model provider and is left out.\<close>

record progress_gap =
  gap_id :: string
  gap_kind :: progress_gap_kind
  gap_criterion_ids :: "string list"
  gap_work_unit_ids :: "string list"
  gap_required_fact_ids :: "string list"
  gap_current_observation_ids :: "string list"

datatype progress_decision =
    DecidePaused
  | DecideEvaluateCriteria "string list" "string list"
  | DecideRequestUserInput "string list" "string list"
  | DecideRequestUserReview "string list"
  | DecideAdmitReasoningTurn "string list" "string list" "string list"
  | DecideAwaitProvider "string list"
  | DecideAwaitProviderResume string
  | DecideAwaitOperation "string list"
  | DecideReconcileOperation string "string list"
  | DecideTerminal assignment_outcome
  | DecideBlocked string assignment_outcome "string list"

datatype progress_reason = CriterionAdvanced | GapNarrowed | CorrectionGapIdentified
  | AuthoritativeObservationAdded | NativeChangeCommitted | VerificationObservationAdded
  | ControllerKnowledgeAdded | InputRequestedReason | InputResolvedReason | ReviewRequestedReason
  | ReviewResolvedReason | UncertaintyReconciled | ExecutionStrategySelected | WorkUnitChanged
  | TerminalDerived

record criterion_delta =
  cd_criterion_id :: string
  cd_before_status :: "criterion_status option"
  cd_after_status :: "criterion_status option"

record progress_epoch =
  pe_epoch_id :: string
  pe_binding :: binding
  pe_before_assignment_version :: int
  pe_after_assignment_version :: int
  pe_unresolved_gap_ids :: "string list"
  pe_admitted_reasoning_call_ids :: "string list"
  pe_admitted_operation_ids :: "string list"
  pe_new_observation_ids :: "string list"
  pe_new_fact_identities :: "string list"
  pe_criterion_deltas :: "criterion_delta list"
  pe_progress_fingerprint :: string
  pe_genuine_progress :: bool
  pe_progress_reasons :: "progress_reason list"
  pe_recorded_at :: string

section \<open>Work plans and follow-ups\<close>

datatype plan_item_kind = EditItem | InspectionItem

record plan_inspection =
  wi_observation_ids :: "string list"
  wi_target_ids :: "string list"

record plan_deferral =
  wd_reason :: string
  wd_deferred_at :: string
  wd_prior_claim_count :: "int option"
  wd_resumed_at :: "string option"
  wd_resume_reason :: "string option"

record plan_item =
  pi_item_id :: string
  pi_description :: string
  pi_source_basis :: string
  pi_declared_at :: string
  pi_kind :: "plan_item_kind option"
  pi_depends_on :: "string list option"
  pi_inspection :: "plan_inspection option"
  pi_operation_ids :: "string list"
  pi_completed_at :: "string option"
  pi_location_history :: "json list option"
  pi_deferrals :: "plan_deferral list option"

record work_plan =
  wp_items :: "plan_item list"
  wp_assumptions :: "string list"

record plan_item_declaration =
  pd_item_id :: string
  pd_description :: string
  pd_source_basis :: string
  pd_kind :: "plan_item_kind option"
  pd_depends_on :: "string list option"

record plan_declaration =
  wpd_items :: "plan_item_declaration list"
  wpd_assumptions :: "string list"

record plan_claim =
  wc_item_id :: string
  wc_operation_ids :: "string list"
  wc_claimed_at :: string

record scope_request =
  wsr_item_id :: string
  wsr_scope :: json
  wsr_operation_ids :: "string list"
  wsr_requested_at :: string
  wsr_read_selection :: "string option"

datatype followup_kind = RemainingWork | Uncertainties
datatype followup_field = FromRemainingWork | FromUncertainties | FromReplacements
datatype followup_state = FollowupOpen | FollowupResolved | FollowupDeferred | FollowupSuperseded
datatype followup_disposition_kind = DispositionResolved | DispositionDeferred | DispositionSuperseded

record advisory_followup =
  af_item_id :: string
  af_kind :: followup_kind
  af_text :: string
  af_source_version :: int
  af_source_field :: followup_field
  af_source_index :: nat
  af_parent_item_id :: "string option"
  af_last_mentioned_version :: int
  af_version :: int
  af_state :: followup_state
  af_disposition_reason :: "string option"

record followup_replacement =
  fp_kind :: followup_kind
  fp_text :: string

record followup_disposition =
  fd_command_id :: string
  fd_item_id :: string
  fd_expected_version :: int
  fd_disposition :: followup_disposition_kind
  fd_reason :: string
  fd_replacements :: "followup_replacement list option"

end
