(* ===== verification/KernelState.thy ===== *)
theory KernelState
  imports KernelTypes
begin

text \<open>
  The retained state of an assignment (\<open>AssignmentSnapshotV2\<close>), the event stream that produces it
  (\<open>AssignmentEventV2\<close>), the reducer's bookkeeping (\<open>ReducerStateV2\<close>) and the environment: the
  functions of the shared contract packages and of the native evidence readers that the reducer
  calls and that this development takes as parameters.
\<close>

section \<open>Parts of the snapshot\<close>

datatype control_state = ControlPaused | ControlRunning

record execution_control =
  xc_state :: control_state
  xc_command_id :: string
  xc_changed_at :: string

record discovered_input =
  di_variable :: input_variable
  di_dependent_work_unit_ids :: "string list"

record clarification =
  cl_id :: string
  cl_variable_id :: string
  cl_question :: string
  cl_requested_at :: string
  cl_resolved_at :: "string option"

record pending_proposal =
  pp_proposal :: advisory_proposal
  pp_review_id :: string
  pp_proposed_at :: string

record progress_blocker =
  bl_code :: string
  bl_gap_ids :: "string list"
  bl_recorded_at :: string

record provider_usage_hold =
  h_schema :: string
  h_hold_id :: string
  h_binding :: binding
  h_attempt_id :: string
  h_provider_thread_id :: string
  h_provider_turn_id :: string
  h_code :: string
  h_recorded_at :: string
  h_resume_budget :: progress_budget
  h_worker_identity :: "json option"

record work_limits =
  lim_provider_calls :: int
  lim_operations :: int
  lim_total_tokens :: int
  lim_wall_clock_ms :: int

record resource_renewal_request =
  rr_provider_calls :: int
  rr_total_tokens :: int

record renewal_authorization =
  ra_command_id :: string
  ra_authorized_at :: string
  ra_request :: resource_renewal_request
  ra_ceiling_provider_calls :: int
  ra_ceiling_total_tokens :: int

record followup_allocation =
  fa_command_id :: string
  fa_allocated_at :: string
  fa_earned_baseline :: work_limits
  fa_limits :: work_limits
  fa_resource_renewal :: "renewal_authorization option"

record result_item =
  it_label :: string
  it_observation_id :: string
  it_path :: "json list"
  it_value :: "json option"
  it_value_source :: "string option"
  it_evidence_ref :: string
  it_payload_hash :: string
  it_presentation_kind :: "string option"

record assessment_finding =
  fi_priority :: string
  fi_title :: string
  fi_text :: string
  fi_evidence_indices :: "int list"

record assessment =
  as_overview :: string
  as_findings :: "assessment_finding list"
  as_limitations :: "string list"
  as_questions :: "string list"

record result_delivery =
  rd_items :: "result_item list"
  rd_assessment :: "assessment option"

section \<open>Snapshot\<close>

text \<open>
  \<open>AssignmentSnapshotV2\<close>: first the fields events write, then those \<open>withDerivedState\<close> recomputes
  after every event.
\<close>

record snapshot_core =
  sn_assignment_version :: int
  sn_spec :: assignment_spec
  sn_current_binding :: binding
  sn_user_followup_allocation :: "followup_allocation option"
  sn_work_plan_scope_requests :: "scope_request list"
  sn_execution_control :: "execution_control option"
  sn_provider_usage_hold :: "provider_usage_hold option"
  sn_discovered_inputs :: "discovered_input krecord"
  sn_input_values :: "json krecord"
  sn_input_invalidated_operation_ids :: "string list"
  sn_pending_input_variable_ids :: "string list"
  sn_clarifications :: "clarification krecord"
  sn_pending_review_ids :: "string list"
  sn_completion_proposal :: "pending_proposal option"
  sn_provider_call_ids :: "string list"
  sn_provider_calls :: "provider_call krecord"
  sn_provider_budget_exhausted :: bool
  sn_execution_failure_ids :: "string list"
  sn_execution_failures :: "execution_failure krecord"
  sn_progress_epochs :: "progress_epoch list"
  sn_progress_blocker :: "progress_blocker option"

record snapshot_work = snapshot_core +
  sn_operations :: "operation krecord"
  sn_observations :: "observation krecord"
  sn_observation_versions :: "int krecord"
  sn_criteria :: "criterion_evaluation krecord"
  sn_criterion_evaluation_versions :: "int krecord"
  sn_terminal :: bool
  sn_result_delivery :: "result_delivery option"
  sn_advisory_followups :: "advisory_followup list"
  sn_work_plan_claims :: "plan_claim list"
  sn_work_plan :: "work_plan option"
  sn_terminal_reason :: "string option"
  sn_finished_at :: "string option"

record snapshot = snapshot_work +
  sn_work_unit_states :: "work_unit_state krecord"
  sn_in_flight_provider_call_ids :: "string list"
  sn_operation_children :: "string list krecord"
  sn_blocking_child_operation_ids :: "string list"
  sn_in_flight_operation_ids :: "string list"
  sn_unresolved_unknown_operation_ids :: "string list"
  sn_quiescent :: bool
  sn_outcome :: assignment_outcome

section \<open>Events\<close>

datatype control_action = PauseAction | ResumeAction
datatype resolved_effect = ResolvedNone | ResolvedApplied

record checkpoint_continuation =
  cc_command_id :: string
  cc_expected_control_command_id :: "string option"
  cc_document_fingerprint :: string
  cc_direction_variable_id :: string
  cc_direction_text :: string
  cc_resource_renewal :: "resource_renewal_request option"

record provider_state_change =
  ps_call_id :: string
  ps_state :: provider_call_state
  ps_provider :: "string option"
  ps_model :: "string option"
  ps_reasoning_effort :: "string option"
  ps_gap_ids :: "string list"
  ps_criterion_ids :: "string list"
  ps_expected_information :: "string list"
  ps_usage :: "provider_usage option"
  ps_upstream_receipt :: "upstream_receipt option"
  ps_success :: "bool option"
  ps_error_class :: "provider_error_class option"

record control_request =
  cr_command_id :: string
  cr_action :: control_action
  cr_expected_command_id :: "string option"
  cr_expected_hold_id :: "string option"
  cr_expected_assignment_version :: "int option"

datatype event_body =
    AssignmentCreated assignment_spec
  | RunStarted
  | ExecutionControlRequested control_request
  | ProviderUsageHoldRecorded provider_usage_hold
  | RunSuperseded int
  | WorkUnitStateChanged string work_unit_state string
  | InputRequested string string string "discovered_input option"
  | InputSupplied string string json "string option"
  | ProviderCallRecorded string string string "string option" bool
  | ProviderCallStateRecorded provider_state_change
  | ProviderCallReceiptRecorded provider_call
  | ExecutionFailureRecorded execution_failure
  | ProviderBudgetExhausted int
  | ProgressEpochRecorded progress_epoch
  | ProgressBlocked string "string list"
  | OperationAdmitted operation
  | OperationDispatchStarted string
  | OperationDispatchRecorded string dispatch_authority
  | NativeDispatchRecorded string
  | OperationResultRecorded operation_result "observation_commit_input option"
  | ObservationRetained observation
  | ObservationCommitRetryRecorded string string int string
  | ObservationCommitFailedEvent string string int string
  | ObservationRetentionFailed string string
  | CriterionEvaluated criterion_evaluation
  | ResultDelivered result_delivery
  | WorkPlanDeclared plan_declaration
  | WorkPlanLocationRecorded string json
  | AdvisoryFollowupDispositionRecorded followup_disposition
  | WorkPlanItemClaimed string "string list"
  | WorkPlanScopeRequested string json "string list" "string option"
  | WorkPlanItemDeferred string bool string
  | WorkPlanItemCompleted string "string list" "plan_inspection option"
  | ReviewRequested string "string list" string "advisory_proposal option"
  | ReviewResolved string string "checkpoint_continuation option"
  | ReconciliationRecorded string resolved_effect "string list"
  | NativeCompletionReconciled string json
  | OutcomeDerived assignment_outcome string
  | AssignmentTerminal assignment_outcome string

record event =
  ev_event_id :: string
  ev_assignment_id :: string
  ev_assignment_version :: int
  ev_binding :: binding
  ev_occurred_at :: string
  ev_actor :: string
  ev_body :: event_body

record reducer_state =
  rs_snapshot :: "snapshot option"
  rs_superseded :: bool
  rs_clarification_by_variable :: "string krecord"
  rs_provider_usage_hold_ids :: "string list"

definition initial_reducer_state :: reducer_state where
  "initial_reducer_state = \<lparr>rs_snapshot = None, rs_superseded = False,
     rs_clarification_by_variable = [], rs_provider_usage_hold_ids = []\<rparr>"

section \<open>Environment\<close>

text \<open>
  What the host supplies: \<open>sha256\<close> is Node's hash of a text, \<open>locale_less_eq\<close> its
  \<open>localeCompare\<close>, \<open>number_text\<close> its \<open>Number.prototype.toString\<close>, and \<open>canonicalEventText\<close> the text
  \<open>canonicalJsonV2\<close> writes of an event. No theorem assumes anything about them that its statement does
  not say.
\<close>

record kernel_env =
  sha256 :: "string \<Rightarrow> string"
  locale_less_eq :: "string \<Rightarrow> string \<Rightarrow> bool"
  number_text :: "rat \<Rightarrow> string"
  canonicalEventText :: "event \<Rightarrow> string"

end
