(* ===== verification/ExecutionTime.thy ===== *)
theory ExecutionTime
  imports KernelState
begin

text \<open>
  \<open>progress/execution_time.ts\<close>: cumulative wall time with admitted work. The sweep over sorted
  intervals is shown to measure exactly the union of the intervals. \<open>None\<close> is \<open>Infinity\<close>.
\<close>

type_synonym interval = "int \<times> int"

definition parse_or_now :: "string \<Rightarrow> string option \<Rightarrow> int option" where
  "parse_or_now now t = date_parse (case t of None \<Rightarrow> now | Some v \<Rightarrow> v)"

definition both_finite :: "int option \<Rightarrow> int option \<Rightarrow> interval option" where
  "both_finite a b = (case (a, b) of (Some x, Some y) \<Rightarrow> Some (x, y) | _ \<Rightarrow> None)"

definition call_interval :: "string \<Rightarrow> provider_call \<Rightarrow> interval option" where
  "call_interval now c =
     (let start = date_parse (pc_admitted_at c) in
      both_finite start (case pc_provider_duration_ms c of
          Some d \<Rightarrow> map_option (\<lambda>t. t + d) start
        | None \<Rightarrow> parse_or_now now (case pc_completed_at c of
              Some t \<Rightarrow> Some t | None \<Rightarrow> pc_transport_completed_at c)))"

definition operation_interval :: "string \<Rightarrow> operation \<Rightarrow> interval option" where
  "operation_interval now p = both_finite (date_parse (op_opened_at p)) (parse_or_now now (op_settled_at p))"

definition clip :: "int \<Rightarrow> int \<Rightarrow> interval \<Rightarrow> interval" where
  "clip created until iv = (min until (max created (fst iv)), min until (max (max created (fst iv)) (snd iv)))"

definition later :: "int option \<Rightarrow> int \<Rightarrow> int" where
  "later covered t = (case covered of None \<Rightarrow> t | Some c \<Rightarrow> max t c)"

fun sweep :: "int option \<Rightarrow> interval list \<Rightarrow> int" where
  "sweep covered [] = 0"
| "sweep covered ((a, b) # ivs) = max 0 (b - later covered a) + sweep (Some (later covered b)) ivs"

definition assignmentActiveExecutionTimeMsV2 :: "snapshot \<Rightarrow> string \<Rightarrow> int option" where
  "assignmentActiveExecutionTimeMsV2 s now =
     (case (date_parse now, date_parse (sp_created_at (sn_spec s))) of
        (Some until, Some created) \<Rightarrow>
          (let ivs = map (call_interval now) (rvals (sn_provider_calls s))
                   @ map (operation_interval now) (rvals (sn_operations s)) in
           if list_ex (\<lambda>iv. iv = None) ivs then None
           else Some (sweep None (sort_key fst (map (clip created until \<circ> the) ivs))))
      | _ \<Rightarrow> None)"

section \<open>The sweep measures the union\<close>

definition cover :: "int option \<Rightarrow> interval list \<Rightarrow> int set" where
  "cover covered ivs = (\<Union>(a, b) \<in> set ivs. {later covered a ..< b})"

lemma finite_cover [simp]: "finite (cover covered ivs)"
  by (auto simp: cover_def)

lemma cover_Cons: "cover c ((a, b) # ivs) = {later c a ..< b} \<union> cover c ivs"
  by (simp add: cover_def)

lemma cover_split:
  assumes "\<forall>iv \<in> set ivs. a \<le> fst iv"
  shows "cover c ((a, b) # ivs) = {later c a ..< b} \<union> cover (Some (later c b)) ivs"
    "{later c a ..< b} \<inter> cover (Some (later c b)) ivs = {}"
  using assms by (fastforce simp: cover_def later_def max_def split: option.splits if_splits)+

lemma sweep_measures:
  "sorted (map fst ivs) \<Longrightarrow> sweep c ivs = int (card (cover c ivs))"
proof (induction c ivs rule: sweep.induct)
  case (2 c a b ivs)
  then have ge: "\<forall>iv \<in> set ivs. a \<le> fst iv" by simp
  have "card (cover c ((a, b) # ivs)) = card {later c a ..< b} + card (cover (Some (later c b)) ivs)"
    unfolding cover_split(1) [OF ge] using cover_split(2) [OF ge] by (intro card_Un_disjoint) simp_all
  with 2 show ?case by simp
qed (simp add: cover_def)

text \<open>The instants at which admitted work is charged, after clipping to the task's life.\<close>

definition charged :: "snapshot \<Rightarrow> string \<Rightarrow> int \<Rightarrow> int \<Rightarrow> int set" where
  "charged s now created until = (\<Union>iv \<in> set (map (call_interval now) (rvals (sn_provider_calls s))
       @ map (operation_interval now) (rvals (sn_operations s))).
     {fst (clip created until (the iv)) ..< snd (clip created until (the iv))})"

lemma execution_time_charged:
  assumes "assignmentActiveExecutionTimeMsV2 s now = Some t"
  obtains created until where "date_parse (sp_created_at (sn_spec s)) = Some created" "date_parse now = Some until"
    "t = int (card (charged s now created until))" "charged s now created until \<subseteq> {created ..< until}"
proof -
  let ?ivs = "map (call_interval now) (rvals (sn_provider_calls s)) @ map (operation_interval now) (rvals (sn_operations s))"
  from assms obtain created until where times: "date_parse (sp_created_at (sn_spec s)) = Some created"
      "date_parse now = Some until"
    and t: "t = sweep None (sort_key fst (map (clip created until \<circ> the) ?ivs))"
    by (auto simp: assignmentActiveExecutionTimeMsV2_def Let_def split: option.splits if_splits)
  have "cover None (sort_key fst (map (clip created until \<circ> the) ?ivs)) = charged s now created until"
    by (simp add: cover_def charged_def later_def case_prod_beta image_image)
  with t have "t = int (card (charged s now created until))"
    using sweep_measures [of "sort_key fst (map (clip created until \<circ> the) ?ivs)" None] by simp
  moreover have "charged s now created until \<subseteq> {created ..< until}"
    by (auto simp: charged_def clip_def)
  ultimately show thesis using times that by blast
qed

lemma execution_time_bounds:
  assumes "assignmentActiveExecutionTimeMsV2 s now = Some t"
    "date_parse (sp_created_at (sn_spec s)) = Some created" "date_parse now = Some until"
  shows "0 \<le> t" "t \<le> max 0 (until - created)"
proof -
  from assms have t: "t = int (card (charged s now created until))"
    and sub: "charged s now created until \<subseteq> {created ..< until}"
    by (auto elim!: execution_time_charged)
  show "0 \<le> t" by (simp add: t)
  have "card (charged s now created until) \<le> card {created ..< until}"
    using sub by (rule card_mono [rotated]) simp
  then show "t \<le> max 0 (until - created)" by (simp add: t)
qed

end
