(* ===== verification/ExecutionPolicy.thy ===== *)
theory ExecutionPolicy
  imports KernelState
begin

text \<open>
  \<open>execution_policy.ts\<close>: the host-selected advisory policies, their bounds at creation, and the
  shape of an advisory completion proposal.
\<close>

definition nonblank :: "string \<Rightarrow> bool" where
  "nonblank s \<longleftrightarrow> js_trim s \<noteq> []"

definition advisoryVerificationV2 :: "snapshot \<Rightarrow> bool" where
  "advisoryVerificationV2 s = (case sp_execution_policy (sn_spec s) of
     None \<Rightarrow> False
   | Some p \<Rightarrow> ep_mode p = LocalAdvisoryV1 \<or> ep_mode p = SingleActorReviewV1)"

text \<open>The \<open>bounded\<close> helper of \<open>validLocalAdvisoryPolicyV1\<close>.\<close>

definition policy_bounded :: "int \<Rightarrow> int \<Rightarrow> bool" where
  "policy_bounded v mx \<longleftrightarrow> isSafeInteger v \<and> v > 0 \<and> v \<le> mx"

text \<open>\<open>Math.max(1, Math.ceil(comments / 5))\<close>\<close>

definition sheet_units_for :: "int \<Rightarrow> int" where
  "sheet_units_for comments = max 1 ((comments + 4) div 5)"

definition valid_pdf_sheet :: "int \<Rightarrow> pdf_sheet \<Rightarrow> bool" where
  "valid_pdf_sheet pages p \<longleftrightarrow> policy_bounded (sheet_page p) pages
     \<and> isSafeInteger (sheet_comments p) \<and> sheet_comments p \<ge> 0
     \<and> sheet_units p = sheet_units_for (sheet_comments p)"

definition valid_pdf_source :: "pdf_source \<Rightarrow> bool" where
  "valid_pdf_source s \<longleftrightarrow> lower_hex 64 (src_sha256 s) \<and> policy_bounded (src_page_count s) 100
     \<and> src_sheets s \<noteq> [] \<and> int (length (src_sheets s)) \<le> src_page_count s
     \<and> distinct (map sheet_page (src_sheets s))
     \<and> list_all (valid_pdf_sheet (src_page_count s)) (src_sheets s)"

definition valid_source_allowance :: "assignment_spec \<Rightarrow> pdf_work_allowance \<Rightarrow> bool" where
  "valid_source_allowance spec a \<longleftrightarrow> pwa_mode a = ''marked_pdf_sheets_v1''
     \<and> sp_requested_effect spec = ApplyEffect \<and> policy_bounded (pwa_units a) 24
     \<and> pwa_sources a \<noteq> [] \<and> length (pwa_sources a) \<le> 8
     \<and> distinct (map src_sha256 (pwa_sources a))
     \<and> list_all valid_pdf_source (pwa_sources a)
     \<and> pwa_units a = sum_list (map (\<lambda>s. sum_list (map sheet_units (src_sheets s))) (pwa_sources a))"

definition validNativeScopePlanningPolicyV1 :: "kernel_env \<Rightarrow> assignment_spec \<Rightarrow> bool" where
  "validNativeScopePlanningPolicyV1 env spec = (case sp_execution_policy spec of
     None \<Rightarrow> False
   | Some p \<Rightarrow> (case ep_native_scope_planning p of
       None \<Rightarrow> False
     | Some n \<Rightarrow> ep_mode p = LocalAdvisoryV1 \<and> ep_selected_by p = TrustedLocalHost
         \<and> sp_requested_effect spec = ApplyEffect
         \<and> (case ep_progress_allowance p of Some a \<Rightarrow> pa_mode a = VerifiedNativeChangesV1 | None \<Rightarrow> False)
         \<and> ep_source_work_allowance p = None
         \<and> nsp_mode n = ''native_inventory_planning_v1'' \<and> nsp_scope_kind n = ''schedules''
         \<and> nsp_items_per_unit n = 5 \<and> nsp_max_units n = 4
         \<and> nonblank (sp_source_user_request spec)
         \<and> nsp_source_request_sha256 n = sha256 env (sp_source_user_request spec)))"

definition call_ceiling :: "execution_policy \<Rightarrow> int" where
  "call_ceiling p = (if ep_source_work_allowance p \<noteq> None then 2048 else 256)"

definition operation_ceiling :: "execution_policy \<Rightarrow> int" where
  "operation_ceiling p = (if ep_source_work_allowance p \<noteq> None then 8192 else 1024)"

definition token_ceiling :: "execution_policy \<Rightarrow> int" where
  "token_ceiling p = (if ep_source_work_allowance p \<noteq> None then 256000000 else 32000000)"

definition ready_work_token :: string where
  "ready_work_token = ''continue_ready_work_v1''"

definition valid_policy_selection :: "assignment_spec \<Rightarrow> execution_policy \<Rightarrow> bool" where
  "valid_policy_selection spec p =
     (if ep_mode p = SingleActorReviewV1 then
        ep_selected_by p = TrustedRuntimeHost \<and> ep_principal_id p \<noteq> []
        \<and> ep_principal_id p = b_principal_id (sp_binding spec) \<and> sp_requested_effect spec = ApplyEffect
        \<and> ep_ready_work_handoff p = Some ready_work_token
        \<and> ep_source_work_allowance p = None \<and> ep_native_scope_planning p = None
        \<and> ep_progress_allowance p = None \<and> ep_max_turns p \<le> 8
        \<and> ep_max_provider_calls p \<le> max_provider_calls DEFAULT_ASSIGNMENT_PROGRESS_BUDGET_V2
        \<and> ep_max_operations p \<le> max_operations DEFAULT_ASSIGNMENT_PROGRESS_BUDGET_V2
        \<and> ep_max_total_tokens p \<le> max_total_tokens DEFAULT_ASSIGNMENT_PROGRESS_BUDGET_V2
        \<and> ep_max_wall_clock_ms p \<le> max_wall_clock_ms DEFAULT_ASSIGNMENT_PROGRESS_BUDGET_V2
      else ep_mode p = LocalAdvisoryV1 \<and> ep_selected_by p = TrustedLocalHost)"

definition valid_progress_allowance :: "assignment_spec \<Rightarrow> execution_policy \<Rightarrow> progress_allowance \<Rightarrow> bool" where
  "valid_progress_allowance spec p a \<longleftrightarrow>
     (pa_mode a = VerifiedNativeChangesV1
        \<and> (pa_credit_unit a = None \<or> pa_credit_unit a = Some DistinctVerifiedTargetsV1)
      \<or> pa_mode a = ObservedNativeWorkV1
        \<and> pa_credit_unit a = Some DistinctObservedPhysicalTargetsV1
        \<and> ep_ready_work_handoff p = Some ready_work_token)
     \<and> sp_requested_effect spec = ApplyEffect
     \<and> policy_bounded (pa_max_provider_calls a) (call_ceiling p)
     \<and> pa_max_provider_calls a \<ge> ep_max_provider_calls p
     \<and> policy_bounded (pa_max_operations a) (operation_ceiling p)
     \<and> pa_max_operations a \<ge> ep_max_operations p
     \<and> policy_bounded (pa_max_total_tokens a) (token_ceiling p)
     \<and> pa_max_total_tokens a \<ge> ep_max_total_tokens p
     \<and> (case pa_max_wall_clock_ms a of None \<Rightarrow> True
        | Some w \<Rightarrow> policy_bounded w (120 * 60000) \<and> w \<ge> ep_max_wall_clock_ms p)"

definition validLocalAdvisoryPolicyV1 :: "kernel_env \<Rightarrow> assignment_spec \<Rightarrow> bool" where
  "validLocalAdvisoryPolicyV1 env spec = (case sp_execution_policy spec of
     None \<Rightarrow> True
   | Some p \<Rightarrow> valid_policy_selection spec p
       \<and> ep_session_id p = b_session_id (sp_binding spec) \<and> ep_document_fingerprint p \<noteq> []
       \<and> Some (ep_document_fingerprint p) = b_document_fingerprint (sp_binding spec)
       \<and> (case ep_source_work_allowance p of None \<Rightarrow> True | Some a \<Rightarrow> valid_source_allowance spec a)
       \<and> policy_bounded (ep_max_turns p) 16
       \<and> policy_bounded (ep_max_provider_calls p) (call_ceiling p)
       \<and> (ep_ready_work_handoff p = None
          \<or> ep_ready_work_handoff p = Some ready_work_token \<and> sp_requested_effect spec = ApplyEffect)
       \<and> (ep_native_scope_planning p = None \<or> validNativeScopePlanningPolicyV1 env spec)
       \<and> policy_bounded (ep_max_operations p) (operation_ceiling p)
       \<and> policy_bounded (ep_max_total_tokens p) (token_ceiling p)
       \<and> policy_bounded (ep_max_wall_clock_ms p) (120 * 60000)
       \<and> (case ep_progress_allowance p of None \<Rightarrow> True | Some a \<Rightarrow> valid_progress_allowance spec p a))"

definition valid_claim_list :: "string list \<Rightarrow> bool" where
  "valid_claim_list items \<longleftrightarrow> length items \<le> 24 \<and> list_all (\<lambda>i. nonblank i \<and> length i \<le> 1000) items"

definition validAdvisoryProposalV1 :: "advisory_proposal \<Rightarrow> bool" where
  "validAdvisoryProposalV1 p \<longleftrightarrow>
     list_all valid_claim_list [ap_claimed_completed p, ap_remaining_work p, ap_uncertainties p]
     \<and> list_ex (\<lambda>items. items \<noteq> []) [ap_claimed_completed p, ap_remaining_work p, ap_uncertainties p]
     \<and> (case ap_user_facing_text p of None \<Rightarrow> True | Some t \<Rightarrow> nonblank t \<and> length t \<le> 8000)"

section \<open>Lemmas\<close>

lemma policy_boundedD: "policy_bounded v mx \<Longrightarrow> 0 < v \<and> v \<le> mx"
  by (simp add: policy_bounded_def)

lemma advisory_spec_cong: "sn_spec s = sn_spec t \<Longrightarrow> advisoryVerificationV2 s = advisoryVerificationV2 t"
  by (simp add: advisoryVerificationV2_def)

lemma advisory_iff: "advisoryVerificationV2 s \<longleftrightarrow> sp_execution_policy (sn_spec s) \<noteq> None"
proof (cases "sp_execution_policy (sn_spec s)")
  case (Some p)
  then show ?thesis by (cases "ep_mode p") (simp_all add: advisoryVerificationV2_def)
qed (simp add: advisoryVerificationV2_def)

lemma ceilings_bounded: "call_ceiling p \<le> 2048" "operation_ceiling p \<le> 8192" "token_ceiling p \<le> 256000000"
  by (simp_all add: call_ceiling_def operation_ceiling_def token_ceiling_def)

lemma sheet_units_pos: "1 \<le> sheet_units_for c"
  by (simp add: sheet_units_for_def)

lemma sum_list_ge_length:
  "\<forall>x \<in> set xs. (1::int) \<le> f x \<Longrightarrow> int (length xs) \<le> sum_list (map f xs)"
  by (induction xs) auto

lemma valid_pdf_source_units:
  assumes "valid_pdf_source s"
  shows "int (length (src_sheets s)) \<le> sum_list (map sheet_units (src_sheets s))"
    and "1 \<le> sum_list (map sheet_units (src_sheets s))"
proof -
  have units: "\<forall>p \<in> set (src_sheets s). 1 \<le> sheet_units p"
    using assms by (auto simp: valid_pdf_source_def valid_pdf_sheet_def list_all_iff sheet_units_pos)
  then show le: "int (length (src_sheets s)) \<le> sum_list (map sheet_units (src_sheets s))"
    by (rule sum_list_ge_length)
  have "1 \<le> int (length (src_sheets s))"
    using assms by (cases "src_sheets s") (auto simp: valid_pdf_source_def)
  with le show "1 \<le> sum_list (map sheet_units (src_sheets s))" by simp
qed

end
