(* ===== verification/FollowupAllocation.thy ===== *)
theory FollowupAllocation
  imports ExecutionTime ExecutionPolicy
begin

text \<open>
  \<open>user_followup_allocation.ts\<close>: work allowance an authenticated user grants when continuing a
  checkpoint. Limits are read by key, as the source indexes its budget objects.
\<close>

definition USER_FOLLOWUP_ALLOCATION_V1 :: string where
  "USER_FOLLOWUP_ALLOCATION_V1 = ''continue_advisory_checkpoint_with_work_allowance_v1''"

datatype limit_key = KCalls | KOperations | KTokens | KWallClock

definition limit_keys :: "limit_key list" where
  "limit_keys = [KCalls, KOperations, KTokens, KWallClock]"

fun limit_of :: "work_limits \<Rightarrow> limit_key \<Rightarrow> int" where
  "limit_of l KCalls = lim_provider_calls l"
| "limit_of l KOperations = lim_operations l"
| "limit_of l KTokens = lim_total_tokens l"
| "limit_of l KWallClock = lim_wall_clock_ms l"

definition limits_by :: "(limit_key \<Rightarrow> int) \<Rightarrow> work_limits" where
  "limits_by f = \<lparr>lim_provider_calls = f KCalls, lim_operations = f KOperations,
     lim_total_tokens = f KTokens, lim_wall_clock_ms = f KWallClock\<rparr>"

fun budget_of :: "progress_budget \<Rightarrow> limit_key \<Rightarrow> int" where
  "budget_of b KCalls = max_provider_calls b"
| "budget_of b KOperations = max_operations b"
| "budget_of b KTokens = max_total_tokens b"
| "budget_of b KWallClock = max_wall_clock_ms b"

fun policy_limit :: "execution_policy \<Rightarrow> limit_key \<Rightarrow> int" where
  "policy_limit p KCalls = ep_max_provider_calls p"
| "policy_limit p KOperations = ep_max_operations p"
| "policy_limit p KTokens = ep_max_total_tokens p"
| "policy_limit p KWallClock = ep_max_wall_clock_ms p"

fun allowance_limit :: "progress_allowance \<Rightarrow> limit_key \<Rightarrow> int option" where
  "allowance_limit a KCalls = Some (pa_max_provider_calls a)"
| "allowance_limit a KOperations = Some (pa_max_operations a)"
| "allowance_limit a KTokens = Some (pa_max_total_tokens a)"
| "allowance_limit a KWallClock = pa_max_wall_clock_ms a"

fun renewal_ceiling :: "renewal_authorization \<Rightarrow> limit_key \<Rightarrow> int option" where
  "renewal_ceiling r KCalls = Some (ra_ceiling_provider_calls r)"
| "renewal_ceiling r KTokens = Some (ra_ceiling_total_tokens r)"
| "renewal_ceiling r _ = None"

definition policy_allowance :: "snapshot \<Rightarrow> progress_allowance option" where
  "policy_allowance s = Option.bind (sp_execution_policy (sn_spec s)) ep_progress_allowance"

definition retained_renewal :: "snapshot \<Rightarrow> renewal_authorization option" where
  "retained_renewal s = Option.bind (sn_user_followup_allocation s) fa_resource_renewal"

text \<open>The hard limit of a key: the renewed allowed where there is one, the policy's otherwise.\<close>

definition hard_limit :: "snapshot \<Rightarrow> limit_key \<Rightarrow> int option" where
  "hard_limit s k =
     (case Option.bind (retained_renewal s) (\<lambda>r. renewal_ceiling r k) of
        Some c \<Rightarrow> Some c
      | None \<Rightarrow> Option.bind (policy_allowance s) (\<lambda>a. allowance_limit a k))"

definition userFollowupLimitV1 :: "snapshot \<Rightarrow> limit_key \<Rightarrow> int \<Rightarrow> int" where
  "userFollowupLimitV1 s k earned =
     (case (sn_user_followup_allocation s, hard_limit s k) of
        (Some a, Some hard) \<Rightarrow> min hard (max earned
           (limit_of (fa_limits a) k + max 0 (earned - limit_of (fa_earned_baseline a) k)))
      | _ \<Rightarrow> earned)"

definition applyUserFollowupAllocationV1 :: "snapshot \<Rightarrow> progress_budget \<Rightarrow> progress_budget" where
  "applyUserFollowupAllocationV1 s earned =
     earned\<lparr>max_provider_calls := userFollowupLimitV1 s KCalls (max_provider_calls earned),
            max_operations := userFollowupLimitV1 s KOperations (max_operations earned),
            max_total_tokens := userFollowupLimitV1 s KTokens (max_total_tokens earned),
            max_wall_clock_ms := userFollowupLimitV1 s KWallClock (max_wall_clock_ms earned),
            max_reasoning_turns := userFollowupLimitV1 s KCalls (max_provider_calls earned)\<rparr>"

definition call_tokens :: "provider_call \<Rightarrow> int option" where
  "call_tokens c = Option.bind (pc_usage c) pu_total_tokens"

definition known_usage :: "int option \<Rightarrow> bool" where
  "known_usage v = (case v of None \<Rightarrow> False | Some n \<Rightarrow> isSafeInteger n \<and> 0 \<le> n)"

definition renewal_request_ok :: "resource_renewal_request \<Rightarrow> bool" where
  "renewal_request_ok r \<longleftrightarrow> isSafeInteger (rr_provider_calls r) \<and> 0 < rr_provider_calls r \<and> rr_provider_calls r \<le> 64
     \<and> isSafeInteger (rr_total_tokens r) \<and> 0 < rr_total_tokens r \<and> rr_total_tokens r \<le> 16000000"

definition paused :: "snapshot \<Rightarrow> bool" where
  "paused s = (case sn_execution_control s of None \<Rightarrow> False | Some x \<Rightarrow> xc_state x = ControlPaused)"

definition consumed_calls :: "snapshot \<Rightarrow> int" where
  "consumed_calls s = int (length (rvals (sn_provider_calls s)))"

definition consumed_tokens :: "snapshot \<Rightarrow> int" where
  "consumed_tokens s = sum_list (map (\<lambda>c. case call_tokens c of None \<Rightarrow> 0 | Some n \<Rightarrow> n) (rvals (sn_provider_calls s)))"

definition consumed :: "snapshot \<Rightarrow> string \<Rightarrow> limit_key \<Rightarrow> int option" where
  "consumed s now k = (case k of
      KCalls \<Rightarrow> Some (consumed_calls s)
    | KOperations \<Rightarrow> Some (int (length (rkeys (sn_operations s))))
    | KTokens \<Rightarrow> Some (consumed_tokens s)
    | KWallClock \<Rightarrow> assignmentActiveExecutionTimeMsV2 s now)"

text \<open>The limit of a key without a renewal: never more than what is authorized.\<close>

definition followup_limit :: "snapshot \<Rightarrow> execution_policy \<Rightarrow> progress_budget \<Rightarrow> (limit_key \<Rightarrow> int) \<Rightarrow> limit_key \<Rightarrow> int" where
  "followup_limit s policy current used k =
     (case hard_limit s k of
        None \<Rightarrow> budget_of current k
      | Some authorized \<Rightarrow> min authorized (max (budget_of current k) (used k + policy_limit policy k)))"

definition allocate_limits :: "snapshot \<Rightarrow> string \<Rightarrow> string \<Rightarrow> execution_policy \<Rightarrow> progress_allowance \<Rightarrow> progress_budget
     \<Rightarrow> progress_budget \<Rightarrow> (limit_key \<Rightarrow> int) \<Rightarrow> resource_renewal_request option \<Rightarrow> kernel_error + snapshot" where
  "allocate_limits s command now policy allowed earned current used renewal =
     (case renewal of
        None \<Rightarrow> Inr (s\<lparr>sn_user_followup_allocation := Some \<lparr>fa_command_id = command, fa_allocated_at = now,
           fa_earned_baseline = limits_by (budget_of earned),
           fa_limits = limits_by (followup_limit s policy current used),
           fa_resource_renewal = retained_renewal s\<rparr>\<rparr>)
      | Some r \<Rightarrow>
          (let calls = used KCalls + rr_provider_calls r; tokens = used KTokens + rr_total_tokens r;
               limits = (limits_by (budget_of current))\<lparr>lim_provider_calls := max (max_provider_calls current) calls,
                  lim_total_tokens := max (max_total_tokens current) tokens\<rparr> in
           guard [(calls \<le> 2048 \<and> tokens \<le> 256000000, ''advisory_resource_renewal_ceiling'')]
             (Inr (s\<lparr>sn_user_followup_allocation := Some \<lparr>fa_command_id = command, fa_allocated_at = now,
                fa_earned_baseline = limits_by (budget_of earned), fa_limits = limits,
                fa_resource_renewal = Some \<lparr>ra_command_id = command, ra_authorized_at = now, ra_request = r,
                  ra_ceiling_provider_calls = max (pa_max_provider_calls allowed) (lim_provider_calls limits),
                  ra_ceiling_total_tokens = max (pa_max_total_tokens allowed) (lim_total_tokens limits)\<rparr>\<rparr>\<rparr>))))"

definition allocateUserFollowupV1 :: "snapshot \<Rightarrow> string \<Rightarrow> string \<Rightarrow> progress_budget \<Rightarrow> progress_budget
     \<Rightarrow> resource_renewal_request option \<Rightarrow> kernel_error + snapshot" where
  "allocateUserFollowupV1 s command now earned current renewal =
     (let policy = sp_execution_policy (sn_spec s); apply_unpaused = (sp_requested_effect (sn_spec s) = ApplyEffect \<and> \<not> paused s) in
      guard
        (case renewal of None \<Rightarrow> [] | Some r \<Rightarrow>
          [(renewal_request_ok r, ''advisory_resource_renewal_invalid''),
           ((case policy of None \<Rightarrow> False | Some p \<Rightarrow> ep_mode p = LocalAdvisoryV1) \<and> policy_allowance s \<noteq> None
              \<and> apply_unpaused, ''advisory_resource_renewal_not_enabled'')])
        (case (policy, policy_allowance s) of
           (Some p, Some allowed) \<Rightarrow>
             if \<not> apply_unpaused then Inr s
             else guard
               [(list_all (\<lambda>c. known_usage (call_tokens c)) (rvals (sn_provider_calls s)),
                   ''advisory_continuation_usage_unconfirmed''),
                (list_all (\<lambda>k. known_usage (consumed s now k)) limit_keys,
                   ''advisory_continuation_usage_unconfirmed'')]
               (allocate_limits s command now p allowed earned current (\<lambda>k. the (consumed s now k)) renewal)
         | _ \<Rightarrow> Inr s))"

section \<open>Lemmas\<close>

lemma limit_of_limits_by [simp]: "limit_of (limits_by f) k = f k"
  by (cases k) (simp_all add: limits_by_def)

lemma userFollowupLimitV1_le_hard:
  "sn_user_followup_allocation s \<noteq> None \<Longrightarrow> hard_limit s k = Some h \<Longrightarrow> userFollowupLimitV1 s k earned \<le> h"
  by (auto simp: userFollowupLimitV1_def)

lemma userFollowupLimitV1_ge_earned:
  "(\<And>h. hard_limit s k = Some h \<Longrightarrow> earned \<le> h) \<Longrightarrow> earned \<le> userFollowupLimitV1 s k earned"
  by (auto simp: userFollowupLimitV1_def split: option.splits)

lemma userFollowupLimitV1_mono:
  "e \<le> e' \<Longrightarrow> userFollowupLimitV1 s k e \<le> userFollowupLimitV1 s k e'"
  by (auto simp: userFollowupLimitV1_def split: option.splits)

lemma allocateUserFollowupV1_effect:
  assumes "allocateUserFollowupV1 s command now earned current renewal = Inr s'"
  obtains (unchanged) "s' = s" "renewal = None"
    | (granted) p allowed where "sp_execution_policy (sn_spec s) = Some p" "policy_allowance s = Some allowed"
        "sp_requested_effect (sn_spec s) = ApplyEffect" "\<not> paused s"
        "\<forall>k. known_usage (consumed s now k)" "renewal \<noteq> None \<longrightarrow> renewal_request_ok (the renewal)"
        "allocate_limits s command now p allowed earned current (\<lambda>k. the (consumed s now k)) renewal = Inr s'"
proof -
  let ?ok = "sp_requested_effect (sn_spec s) = ApplyEffect \<and> \<not> paused s"
  have all_keys: "list_all P limit_keys \<longleftrightarrow> (\<forall>k. P k)" for P
    by (auto simp: limit_keys_def) (metis limit_key.exhaust)
  show thesis
  proof (cases "\<exists>p c. sp_execution_policy (sn_spec s) = Some p \<and> policy_allowance s = Some c \<and> ?ok")
    case True
    with assms granted show thesis
      by (auto simp: allocateUserFollowupV1_def Let_def guard_simps all_keys split: option.splits)
  next
    case False
    with assms have "s' = s \<and> renewal = None"
      by (auto simp: allocateUserFollowupV1_def Let_def guard_simps split: option.splits if_splits)
    then show thesis using unchanged by simp
  qed
qed

text \<open>An allocation changes nothing but itself.\<close>

lemma allocate_limits_frame [frame]:
  "allocate_limits s command now p c earned current used renewal = Inr s' \<Longrightarrow>
     s' = s\<lparr>sn_user_followup_allocation := sn_user_followup_allocation s'\<rparr>"
  by (auto simp: allocate_limits_def Let_def guard_simps split: option.splits)

lemma allocateUserFollowupV1_frame [frame]:
  assumes "allocateUserFollowupV1 s command now earned current renewal = Inr s'"
  shows "s' = s\<lparr>sn_user_followup_allocation := sn_user_followup_allocation s'\<rparr>"
  using assms by (rule allocateUserFollowupV1_effect) (simp_all add: allocate_limits_frame)

text \<open>Without a renewal the new limits stay within the authorized hard limits.\<close>

lemma allocateUserFollowupV1_within:
  assumes "allocateUserFollowupV1 s command now earned current None = Inr s'" "hard_limit s k = Some h"
    "sn_user_followup_allocation s' \<noteq> sn_user_followup_allocation s" "sn_user_followup_allocation s' = Some a"
  shows "limit_of (fa_limits a) k \<le> h"
  using assms(1)
proof (rule allocateUserFollowupV1_effect)
  show "s' = s \<Longrightarrow> ?thesis" using assms(3) by simp
next
  fix p c
  assume "allocate_limits s command now p c earned current (\<lambda>k. the (consumed s now k)) None = Inr s'"
  then show ?thesis
    using assms(2,4) by (auto simp: allocate_limits_def followup_limit_def)
qed

end
