(* ===== verification/DependencyOrder.thy ===== *)
theory DependencyOrder
  imports KernelPrelude
begin

text \<open>
  The dependency check of \<open>declareWorkPlanV2\<close>: a depth-first visit that throws when it meets an item
  on its own path. \<open>visiting\<close> of the source is the current path, \<open>visited\<close> the finished items. The
  fuel bounds the depth; one more than the number of items is enough, since a path repeats none.
\<close>

definition CYCLE :: kernel_error where
  "CYCLE = ''work_plan_dependency_cycle''"

fun visit :: "nat \<Rightarrow> (string \<Rightarrow> string list) \<Rightarrow> string list \<Rightarrow> string \<Rightarrow> string list \<Rightarrow> kernel_error + string list"
  and visit_all :: "nat \<Rightarrow> (string \<Rightarrow> string list) \<Rightarrow> string list \<Rightarrow> string list \<Rightarrow> string list \<Rightarrow> kernel_error + string list"
where
  "visit 0 g visiting i visited = Inl ''out_of_fuel''"
| "visit (Suc n) g visiting i visited =
     (if i \<in> set visiting then Inl CYCLE
      else if i \<in> set visited then Inr visited
      else kbind (visit_all n g (i # visiting) (g i) visited) (\<lambda>v. Inr (i # v)))"
| "visit_all n g visiting [] visited = Inr visited"
| "visit_all n g visiting (d # ds) visited =
     kbind (visit n g visiting d visited) (\<lambda>v. visit_all n g visiting ds v)"

definition graph_deps :: "string list krecord \<Rightarrow> string \<Rightarrow> string list" where
  "graph_deps graph i = (case rget graph i of None \<Rightarrow> [] | Some ds \<Rightarrow> ds)"

definition dependency_order :: "string list krecord \<Rightarrow> kernel_error + string list" where
  "dependency_order graph =
     visit_all (Suc (length (rkeys graph))) (graph_deps graph) [] (rkeys graph) []"

text \<open>A list is a work order if every item stands before (to the left of) what it depends on.\<close>

fun work_order :: "(string \<Rightarrow> string list) \<Rightarrow> string list \<Rightarrow> bool" where
  "work_order g [] = True"
| "work_order g (x # xs) = (set (g x) \<subseteq> set xs \<and> x \<notin> set xs \<and> work_order g xs)"

definition depends :: "(string \<Rightarrow> string list) \<Rightarrow> (string \<times> string) set" where
  "depends g = {(a, b). b \<in> set (g a)}"

section \<open>An accepted visit is a work order\<close>

lemma visit_work_order:
  "visit n g path i vis = Inr vis' \<Longrightarrow> work_order g vis \<Longrightarrow> set path \<inter> set vis = {} \<Longrightarrow>
     work_order g vis' \<and> set vis \<subseteq> set vis' \<and> i \<in> set vis' \<and> set path \<inter> set vis' = {}"
  "visit_all n g path ds vis = Inr vis' \<Longrightarrow> work_order g vis \<Longrightarrow> set path \<inter> set vis = {} \<Longrightarrow>
     work_order g vis' \<and> set vis \<subseteq> set vis' \<and> set ds \<subseteq> set vis' \<and> set path \<inter> set vis' = {}"
proof (induction n g path i vis and n g path ds vis arbitrary: vis' and vis' rule: visit_visit_all.induct)
  case (2 n g path i vis)
  show ?case
  proof (cases "i \<in> set vis")
    case True
    with 2 show ?thesis by (auto split: if_splits)
  next
    case False
    with "2.prems"(1) obtain v where notp: "i \<notin> set path" and v: "visit_all n g (i # path) (g i) vis = Inr v"
      and vis': "vis' = i # v"
      by (auto simp: guard_simps split: if_splits)
    have "set (i # path) \<inter> set vis = {}" using "2.prems"(3) False by simp
    with "2.IH" [OF notp False v "2.prems"(2)]
    have "work_order g v" "set vis \<subseteq> set v" "set (g i) \<subseteq> set v" "set (i # path) \<inter> set v = {}"
      by simp_all
    then show ?thesis using vis' notp by auto
  qed
next
  case (4 n g path d ds vis)
  then obtain v where v: "visit n g path d vis = Inr v" and vis': "visit_all n g path ds v = Inr vis'"
    by (auto simp: guard_simps)
  from "4.IH"(1) [OF v "4.prems"(2,3)]
  have *: "work_order g v" "set vis \<subseteq> set v" "d \<in> set v" "set path \<inter> set v = {}" by simp_all
  from "4.IH"(2) [OF vis' *(1) *(4)] * show ?case by auto
qed simp_all

lemma work_order_closed: "work_order g xs \<Longrightarrow> x \<in> set xs \<Longrightarrow> set (g x) \<subseteq> set xs"
  by (induction xs) auto

lemma work_order_rank:
  "work_order g xs \<Longrightarrow> x \<in> set xs \<Longrightarrow> y \<in> set (g x) \<Longrightarrow>
     length (dropWhile (\<lambda>z. z \<noteq> y) xs) < length (dropWhile (\<lambda>z. z \<noteq> x) xs)"
proof (induction xs)
  case (Cons a xs)
  have short: "length (dropWhile P xs) \<le> length xs" for P :: "string \<Rightarrow> bool"
    by (rule length_dropWhile_le)
  show ?case
  proof (cases "x = a")
    case True
    with Cons.prems have "y \<in> set xs" "a \<notin> set xs" by auto
    with True short show ?thesis by (auto simp: less_Suc_eq_le)
  next
    case False
    with Cons.prems have x: "x \<in> set xs" and "work_order g xs" and a: "a \<notin> set xs" by auto
    with work_order_closed Cons.prems(3) have "y \<in> set xs" by blast
    with a have "y \<noteq> a" by blast
    with False Cons x show ?thesis by auto
  qed
qed simp

lemma work_order_acyclic:
  assumes "work_order g xs" "\<forall>x. x \<notin> set xs \<longrightarrow> g x = []"
  shows "acyclic (depends g)"
proof (rule acyclic_subset)
  show "acyclic ((measure (\<lambda>x. length (dropWhile (\<lambda>z. z \<noteq> x) xs)))\<inverse>)"
    by (simp add: wf_acyclic)
  show "depends g \<subseteq> (measure (\<lambda>x. length (dropWhile (\<lambda>z. z \<noteq> x) xs)))\<inverse>"
    using assms by (force simp: depends_def intro: work_order_rank)
qed

section \<open>Enough fuel, and what an error means\<close>

lemma visit_fuel:
  assumes "finite K"
  shows "\<forall>x. x \<notin> K \<longrightarrow> g x = [] \<Longrightarrow> card (K - set path) < n \<Longrightarrow>
      visit n g path i vis \<noteq> Inl ''out_of_fuel''"
    and "\<forall>x. x \<notin> K \<longrightarrow> g x = [] \<Longrightarrow> card (K - set path) < n \<or> ds = [] \<Longrightarrow>
      visit_all n g path ds vis \<noteq> Inl ''out_of_fuel''"
proof (induction n g path i vis and n g path ds vis rule: visit_visit_all.induct)
  case (2 n g path i vis)
  show ?case
  proof (cases "i \<in> set path \<or> i \<in> set vis")
    case True
    then show ?thesis by (auto simp: CYCLE_def)
  next
    case False
    have few: "card (K - set (i # path)) < n \<or> g i = []"
    proof (cases "i \<in> K")
      case True
      have "K - set (i # path) = (K - set path) - {i}" by auto
      moreover have "card ((K - set path) - {i}) < card (K - set path)"
        using True False assms by (intro card_Diff1_less) auto
      ultimately show ?thesis using "2.prems"(2) by simp
    next
      case False
      then show ?thesis using "2.prems"(1) by blast
    qed
    have "visit_all n g (i # path) (g i) vis \<noteq> Inl ''out_of_fuel''"
      by (rule "2.IH" [OF _ _ "2.prems"(1) few]) (use False in simp_all)
    with False show ?thesis by (cases "visit_all n g (i # path) (g i) vis") auto
  qed
next
  case (4 n g path d ds vis)
  then have "visit n g path d vis \<noteq> Inl ''out_of_fuel''" by simp
  with 4 show ?case by (cases "visit n g path d vis") auto
qed simp_all

lemma visit_error_cycle:
  "visit n g path i vis = Inl e \<Longrightarrow> e = ''out_of_fuel'' \<or> e = CYCLE"
  "visit_all n g path ds vis = Inl e \<Longrightarrow> e = ''out_of_fuel'' \<or> e = CYCLE"
proof (induction n g path i vis and n g path ds vis rule: visit_visit_all.induct)
  case (2 n g path i vis)
  then show ?case by (cases "visit_all n g (i # path) (g i) vis") (auto split: if_splits)
next
  case (4 n g path d ds vis)
  then show ?case by (cases "visit n g path d vis") auto
qed simp_all

text \<open>A cycle error is a real cycle: the path walked so far leads to an item already on it.\<close>

lemma visit_cycle_sound:
  "visit n g path i vis = Inl CYCLE \<Longrightarrow> acyclic (depends g) \<Longrightarrow> \<forall>p \<in> set path. (p, i) \<in> (depends g)\<^sup>+ \<Longrightarrow> False"
  "visit_all n g path ds vis = Inl CYCLE \<Longrightarrow> acyclic (depends g) \<Longrightarrow>
     \<forall>d \<in> set ds. \<forall>p \<in> set path. (p, d) \<in> (depends g)\<^sup>+ \<Longrightarrow> False"
proof (induction n g path i vis and n g path ds vis rule: visit_visit_all.induct)
  case (1 g path i vis)
  then show ?case by (simp add: CYCLE_def)
next
  case (2 n g path i vis)
  show ?case
  proof (cases "i \<in> set path")
    case True
    with "2.prems" show ?thesis by (auto simp: acyclic_def)
  next
    case False
    with "2.prems"(1) have nv: "i \<notin> set vis" by (auto split: if_splits)
    with False "2.prems"(1) have va: "visit_all n g (i # path) (g i) vis = Inl CYCLE"
      by (cases "visit_all n g (i # path) (g i) vis") auto
    have "\<forall>d \<in> set (g i). \<forall>p \<in> set (i # path). (p, d) \<in> (depends g)\<^sup>+"
    proof (intro ballI)
      fix d p assume d: "d \<in> set (g i)" and p: "p \<in> set (i # path)"
      from d have e: "(i, d) \<in> depends g" by (simp add: depends_def)
      show "(p, d) \<in> (depends g)\<^sup>+"
        using p e "2.prems"(3) by (auto intro: trancl_into_trancl)
    qed
    with "2.IH" [OF False nv va "2.prems"(2)] show ?thesis by blast
  qed
next
  case (4 n g path d ds vis)
  then show ?case by (cases "visit n g path d vis") auto
qed simp_all

lemma graph_deps_outside: "i \<notin> set (rkeys graph) \<Longrightarrow> graph_deps graph i = []"
  by (simp add: graph_deps_def rhas_iff [symmetric] rhas_def)

lemma dependency_order_error: "dependency_order graph = Inl e \<Longrightarrow> e = CYCLE"
proof -
  let ?r = "visit_all (Suc (length (rkeys graph))) (graph_deps graph) [] (rkeys graph) []"
  have "card (set (rkeys graph) - set []) < Suc (length (rkeys graph))"
    by (simp add: card_length less_Suc_eq_le)
  then have "?r \<noteq> Inl ''out_of_fuel''"
    by (intro visit_fuel(2) [where K = "set (rkeys graph)"]) (simp_all add: graph_deps_outside)
  then show "dependency_order graph = Inl e \<Longrightarrow> e = CYCLE"
    unfolding dependency_order_def using visit_error_cycle(2) by blast
qed

lemma dependency_order_complete:
  assumes "acyclic (depends (graph_deps graph))"
  shows "\<exists>order. dependency_order graph = Inr order"
proof (cases "dependency_order graph")
  case (Inl e)
  then have "dependency_order graph = Inl CYCLE" using dependency_order_error by blast
  then show ?thesis
    using visit_cycle_sound(2) [OF _ assms, of _ "[]"] by (auto simp: dependency_order_def)
qed simp

lemma dependency_order_sound:
  assumes "dependency_order graph = Inr order"
  shows "work_order (graph_deps graph) order" "set (rkeys graph) \<subseteq> set order"
    "acyclic (depends (graph_deps graph))"
proof -
  from assms visit_work_order(2) [of _ "graph_deps graph" "[]" "rkeys graph" "[]" order]
  show wo: "work_order (graph_deps graph) order" and sub: "set (rkeys graph) \<subseteq> set order"
    by (auto simp: dependency_order_def)
  show "acyclic (depends (graph_deps graph))"
    by (rule work_order_acyclic [OF wo]) (use sub in \<open>blast intro: graph_deps_outside\<close>)
qed

end
