(* ===== verification/OperationScope.thy ===== *)
theory OperationScope
  imports ExecutionPolicy
begin

text \<open>
  \<open>operation_scope.ts\<close>: the interpreted scope of a request, its diagnostics and the receipt that
  binds it to the exact source text; \<open>operationScopeIssues\<close> reports the first issue.
\<close>

definition OPERATION_SCOPE_SCHEMA :: string where
  "OPERATION_SCOPE_SCHEMA = ''revit-operator.interpreted-operation-scope/v1''"

fun effect_rank :: "requested_effect \<Rightarrow> nat" where
  "effect_rank ReadEffect = 0"
| "effect_rank PreviewEffect = 1"
| "effect_rank ApplyEffect = 2"

definition scope_text_bounded :: "string \<Rightarrow> bool" where
  "scope_text_bounded v \<longleftrightarrow> nonblank v \<and> length v \<le> 1200"

definition prerequisiteValueSatisfied :: "prerequisite_kind \<Rightarrow> json option \<Rightarrow> bool" where
  "prerequisiteValueSatisfied kind v =
     (if kind = ApprovalPrerequisite then v = Some (JBool True)
      else (case v of
          None \<Rightarrow> False
        | Some JNull \<Rightarrow> False
        | Some (JStr s) \<Rightarrow> nonblank s
        | Some (JArr xs) \<Rightarrow> xs \<noteq> []
        | Some (JObj kvs) \<Rightarrow> kvs \<noteq> []
        | Some (JBool b) \<Rightarrow> True
        | Some (JNum n) \<Rightarrow> True))"

definition quote_exact :: "string option \<Rightarrow> string \<Rightarrow> bool" where
  "quote_exact source q = (case source of None \<Rightarrow> True | Some text \<Rightarrow> str_contains text q)"

fun prerequisite_issues :: "string option \<Rightarrow> string list \<Rightarrow> scope_prerequisite list \<Rightarrow> kernel_error option" where
  "prerequisite_issues source ids [] = None"
| "prerequisite_issues source ids (p # ps) =
     (case first_failure
        [(lower_identity ''_'' 159 (pr_variable_id p), ''prerequisite_id''),
         (pr_variable_id p \<notin> set ids, ''prerequisite_duplicate_id''),
         (scope_text_bounded (pr_question p), ''prerequisite_question''),
         (scope_text_bounded (pr_source_quote p), ''prerequisite_quote_length''),
         (quote_exact source (pr_source_quote p), ''prerequisite_quote_not_exact'')]
      of Some e \<Rightarrow> Some e
       | None \<Rightarrow> prerequisite_issues source (pr_variable_id p # ids) ps)"

definition operationScopeIssues :: "interpreted_scope \<Rightarrow> string option \<Rightarrow> kernel_error option" where
  "operationScopeIssues row source =
     (case first_failure
        ([(is_schema row = OPERATION_SCOPE_SCHEMA, ''scope_schema''),
          (effect_rank (is_model_effect row) \<le> effect_rank (is_requested_effect row), ''model_effect_exceeds_scope''),
          (length (is_protected_clauses row) \<le> 8, ''protected_clauses_shape'')]
         @ concat (map (\<lambda>c. [(scope_text_bounded c, ''protected_clause_length''),
                              (quote_exact source c, ''protected_clause_not_exact'')]) (is_protected_clauses row))
         @ [(length (is_prerequisites row) \<le> 8, ''prerequisites_shape'')])
      of Some e \<Rightarrow> Some e
       | None \<Rightarrow> prerequisite_issues source [] (is_prerequisites row))"

definition validOperationScope :: "interpreted_scope \<Rightarrow> string option \<Rightarrow> bool" where
  "validOperationScope v source \<longleftrightarrow> operationScopeIssues v source = None"

definition validBoundOperationScope :: "kernel_env \<Rightarrow> assignment_spec \<Rightarrow> bool" where
  "validBoundOperationScope env spec = (case sp_interpreted_scope spec of
     None \<Rightarrow> False
   | Some bound \<Rightarrow> nonblank (bis_source_message_id bound) \<and> length (bis_source_message_id bound) \<le> 200
       \<and> bis_source_request_sha256 bound = sha256 env (sp_source_user_request spec)
       \<and> validOperationScope (bis_scope bound) (Some (sp_source_user_request spec))
       \<and> is_requested_effect (bis_scope bound) = sp_requested_effect spec
       \<and> list_all (\<lambda>p. list_ex (\<lambda>v. iv_variable_id v = pr_variable_id p \<and> iv_required v
                            \<and> iv_value_state v = ValueNeedsInput) (sp_input_variables spec)
                  \<and> list_all (\<lambda>w. wu_requested_effect w \<noteq> ReadEffect \<longrightarrow>
                            pr_variable_id p \<in> set (wu_input_variable_ids w)) (sp_work_units spec))
           (is_prerequisites (bis_scope bound)))"

section \<open>Lemmas\<close>

lemma prerequisite_issues_distinct:
  "prerequisite_issues source ids ps = None \<Longrightarrow>
     distinct (map pr_variable_id ps) \<and> set (map pr_variable_id ps) \<inter> set ids = {}"
  by (induction source ids ps rule: prerequisite_issues.induct) (auto split: option.splits if_splits)

lemma prerequisite_issues_quoted:
  "prerequisite_issues source ids ps = None \<Longrightarrow> p \<in> set ps \<Longrightarrow>
     quote_exact source (pr_source_quote p) \<and> scope_text_bounded (pr_question p)"
  by (induction source ids ps rule: prerequisite_issues.induct) (auto split: option.splits if_splits)

lemma starts_with_iff: "starts_with p s \<longleftrightarrow> (\<exists>t. s = p @ t)"
  by (induction p s rule: starts_with.induct) auto

lemma str_contains_iff: "str_contains s p \<longleftrightarrow> (\<exists>u t. s = u @ p @ t)"
proof (induction s)
  case Nil
  then show ?case by auto
next
  case (Cons c cs)
  show ?case
  proof
    assume "str_contains (c # cs) p"
    then show "\<exists>u t. c # cs = u @ p @ t"
      using Cons by (auto simp: starts_with_iff simp del: starts_with.simps) (metis append_Cons append_Nil)+
  next
    assume "\<exists>u t. c # cs = u @ p @ t"
    then obtain u t where ut: "c # cs = u @ p @ t" by blast
    then show "str_contains (c # cs) p"
    proof (cases u)
      case Nil
      with ut have "starts_with p (c # cs)" by (auto simp: starts_with_iff)
      then show ?thesis by simp
    next
      case (Cons d ds)
      with ut have "cs = ds @ p @ t" by simp
      then show ?thesis using Cons.IH by auto
    qed
  qed
qed

end
