(* ===== verification/InputRegistry.thy ===== *)
theory InputRegistry
  imports OperationScope
begin

text \<open>
  \<open>input_registry.ts\<close> and \<open>input_result_freshness.ts\<close>: input variables of the specification and
  those discovered later, and the invalidation of results that depend on a fresh answer.
\<close>

definition assignmentInputVariablesV2 :: "snapshot \<Rightarrow> input_variable list" where
  "assignmentInputVariablesV2 s =
     sp_input_variables (sn_spec s) @ map di_variable (rvals (sn_discovered_inputs s))"

definition find_work_unit :: "snapshot \<Rightarrow> string \<Rightarrow> work_unit_spec option" where
  "find_work_unit s wid = find (\<lambda>u. wu_id u = wid) (sp_work_units (sn_spec s))"

definition workUnitInputVariableIdsV2 :: "snapshot \<Rightarrow> string \<Rightarrow> string list" where
  "workUnitInputVariableIdsV2 s wid = unique_in_order
     ((case find_work_unit s wid of None \<Rightarrow> [] | Some u \<Rightarrow> wu_input_variable_ids u)
      @ map (\<lambda>d. iv_variable_id (di_variable d))
          (filter (\<lambda>d. wid \<in> set (di_dependent_work_unit_ids d)) (rvals (sn_discovered_inputs s))))"

definition discoveredInputDependenciesV2 :: "snapshot \<Rightarrow> string list" where
  "discoveredInputDependenciesV2 s = sort (map wu_id
     (filter (\<lambda>u. wu_independently_useful u \<or> wu_requested_effect u \<noteq> ReadEffect) (sp_work_units (sn_spec s))))"

definition reserved_input_ids :: "string list" where
  "reserved_input_ids = [''assignmentid'', ''runid'', ''generation'', ''sessionid'', ''principalid'',
     ''documentfingerprint'', ''constructor'', ''prototype'', ''proto'']"

definition validDiscoveredInputIdV2 :: "string \<Rightarrow> bool" where
  "validDiscoveredInputIdV2 v \<longleftrightarrow> lower_identity ''_'' 159 v
     \<and> filter (\<lambda>c. c \<noteq> CHR ''_'') v \<notin> set reserved_input_ids"

text \<open>\<open>value.normalize("NFKC").replace(/[\s_-]+/g, "").toLowerCase()\<close>; \<open>NFKC\<close> fixes ASCII text.\<close>

definition normalize_input_id :: "string \<Rightarrow> string" where
  "normalize_input_id v = toLowerCase (filter (\<lambda>c. \<not> (is_space c \<or> c = CHR ''_'' \<or> c = CHR ''-'')) v)"

definition appendDiscoveredInputV2 :: "snapshot \<Rightarrow> discovered_input \<Rightarrow> kernel_error + snapshot" where
  "appendDiscoveredInputV2 s d = (let v = di_variable d; deps = discoveredInputDependenciesV2 s in
     guard
       [(validDiscoveredInputIdV2 (iv_variable_id v), ''input_declaration_id_invalid''),
        (iv_required v \<and> \<not> iv_sensitive v \<and> iv_value_state v = ValueNeedsInput \<and> iv_value v = None,
          ''input_declaration_value_forbidden''),
        (list_all (\<lambda>c. normalize_input_id (iv_variable_id c) \<noteq> normalize_input_id (iv_variable_id v))
           (assignmentInputVariablesV2 s), ''input_declaration_conflict''),
        (length (rkeys (sn_discovered_inputs s)) < 64, ''input_declaration_limit''),
        (deps \<noteq> [] \<and> di_dependent_work_unit_ids d = deps, ''input_declaration_dependencies_invalid'')]
       (Inr (s\<lparr>sn_discovered_inputs := rput (iv_variable_id v) d (sn_discovered_inputs s)\<rparr>)))"

definition dependent_units :: "snapshot \<Rightarrow> string \<Rightarrow> work_unit_spec list" where
  "dependent_units s vid =
     filter (\<lambda>u. vid \<in> set (workUnitInputVariableIdsV2 s (wu_id u))) (sp_work_units (sn_spec s))"

definition invalidateDependentInputResultsV2 :: "snapshot \<Rightarrow> string \<Rightarrow> snapshot" where
  "invalidateDependentInputResultsV2 s vid =
     (let units = dependent_units s vid;
          unit_ids = map wu_id units;
          criterion_ids = concat (map wu_criterion_ids units);
          stale = sn_input_invalidated_operation_ids s
            @ map op_id (filter (\<lambda>p. op_work_unit_id p \<in> set unit_ids) (rvals (sn_operations s)))
      in if units = [] then s
         else s\<lparr>sn_criteria := fold rdel criterion_ids (sn_criteria s),
                sn_criterion_evaluation_versions := fold rdel criterion_ids (sn_criterion_evaluation_versions s),
                sn_work_unit_states := fold (\<lambda>i. rput i WuPending) unit_ids (sn_work_unit_states s),
                sn_result_delivery := None,
                sn_input_invalidated_operation_ids := unique_sorted stale\<rparr>)"

definition operationUsesCurrentInputsV2 :: "snapshot \<Rightarrow> operation \<Rightarrow> bool" where
  "operationUsesCurrentInputsV2 s p \<longleftrightarrow>
     op_id p \<notin> set (sn_input_invalidated_operation_ids s)
     \<and> (\<not> truthy (op_verification_of p)
        \<or> the (op_verification_of p) \<notin> set (sn_input_invalidated_operation_ids s))"

section \<open>Lemmas\<close>

lemma appendDiscoveredInputV2_effect [effect]:
  "appendDiscoveredInputV2 s d = Inr s' \<Longrightarrow>
     s' = s\<lparr>sn_discovered_inputs := rput (iv_variable_id (di_variable d)) d (sn_discovered_inputs s)\<rparr>
     \<and> iv_variable_id (di_variable d) \<notin> set (map iv_variable_id (assignmentInputVariablesV2 s))"
  by (auto simp: appendDiscoveredInputV2_def Let_def guard_simps list_all_iff)

lemma rget_fold_rdel: "rget (fold rdel ks r) k = (if k \<in> set ks then None else rget r k)"
  by (induction ks arbitrary: r) auto

lemma rget_fold_rput_const:
  "rget (fold (\<lambda>i. rput i c) ks r) k = (if k \<in> set ks then Some c else rget r k)"
  by (induction ks arbitrary: r) auto

lemma invalidate_stale_mono:
  "set (sn_input_invalidated_operation_ids s)
     \<subseteq> set (sn_input_invalidated_operation_ids (invalidateDependentInputResultsV2 s v))"
  by (auto simp: invalidateDependentInputResultsV2_def Let_def)

lemma invalidate_frame [frame]:
  "sn_operations (invalidateDependentInputResultsV2 s v) = sn_operations s"
  "sn_observations (invalidateDependentInputResultsV2 s v) = sn_observations s"
  "sn_spec (invalidateDependentInputResultsV2 s v) = sn_spec s"
  "sn_current_binding (invalidateDependentInputResultsV2 s v) = sn_current_binding s"
  "sn_assignment_version (invalidateDependentInputResultsV2 s v) = sn_assignment_version s"
  "sn_provider_calls (invalidateDependentInputResultsV2 s v) = sn_provider_calls s"
  "sn_terminal (invalidateDependentInputResultsV2 s v) = sn_terminal s"
  "sn_pending_input_variable_ids (invalidateDependentInputResultsV2 s v) = sn_pending_input_variable_ids s"
  "sn_input_values (invalidateDependentInputResultsV2 s v) = sn_input_values s"
  by (simp_all add: invalidateDependentInputResultsV2_def Let_def)

end
