(* ===== verification/JsonRecords.thy ===== *)
theory JsonRecords
  imports KernelState
begin

text \<open>
  Untyped JSON as the code reads it: the fields of an object that may not be one, the type tests of
  JavaScript on a value, and the text \<open>JSON.stringify\<close> and \<open>canonicalJsonV2\<close> write.
\<close>

type_synonym json_object = "(string \<times> json) list"

section \<open>Fields\<close>

text \<open>\<open>record(value)\<close>: the fields of an object, no fields of anything else.\<close>

fun jrow :: "json \<Rightarrow> json_object" where
  "jrow (JObj kvs) = kvs"
| "jrow _ = []"

definition sub_row :: "json_object \<Rightarrow> string \<Rightarrow> json_object" where
  "sub_row v k = (case map_of v k of None \<Rightarrow> [] | Some x \<Rightarrow> jrow x)"

definition json_field :: "json \<Rightarrow> string \<Rightarrow> json option" where
  "json_field v k = (case v of JObj kvs \<Rightarrow> map_of kvs k | _ \<Rightarrow> None)"

definition only_fields :: "string list \<Rightarrow> json_object \<Rightarrow> bool" where
  "only_fields ks v \<longleftrightarrow> list_all (\<lambda>kv. fst kv \<in> set ks) v"

definition jfield_is :: "json_object \<Rightarrow> string \<Rightarrow> (json \<Rightarrow> bool) \<Rightarrow> bool" where
  "jfield_is v k P = (case map_of v k of None \<Rightarrow> False | Some x \<Rightarrow> P x)"

definition jfield_absent_or :: "json_object \<Rightarrow> string \<Rightarrow> (json \<Rightarrow> bool) \<Rightarrow> bool" where
  "jfield_absent_or v k P = (case map_of v k of None \<Rightarrow> True | Some x \<Rightarrow> P x)"

text \<open>\<open>v[k] === t\<close>, \<open>v[k] === b\<close>, \<open>v[k] === n\<close>, \<open>v[k] === null\<close> and \<open>v[k] == null\<close>.\<close>

definition jtext :: "json_object \<Rightarrow> string \<Rightarrow> string \<Rightarrow> bool" where
  "jtext v k t \<longleftrightarrow> map_of v k = Some (JStr t)"

definition jflag :: "json_object \<Rightarrow> string \<Rightarrow> bool \<Rightarrow> bool" where
  "jflag v k b \<longleftrightarrow> map_of v k = Some (JBool b)"

definition jnumber :: "json_object \<Rightarrow> string \<Rightarrow> int \<Rightarrow> bool" where
  "jnumber v k n \<longleftrightarrow> map_of v k = Some (JNum (of_int n))"

definition jnull :: "json_object \<Rightarrow> string \<Rightarrow> bool" where
  "jnull v k \<longleftrightarrow> map_of v k = Some JNull"

definition jnullish :: "json_object \<Rightarrow> string \<Rightarrow> bool" where
  "jnullish v k \<longleftrightarrow> map_of v k = None \<or> map_of v k = Some JNull"

section \<open>Type tests\<close>

fun js_string :: "(string \<Rightarrow> bool) \<Rightarrow> json \<Rightarrow> bool" where
  "js_string P (JStr t) = P t"
| "js_string P _ = False"

fun js_bool :: "json \<Rightarrow> bool" where
  "js_bool (JBool b) = True"
| "js_bool _ = False"

fun js_array :: "(json list \<Rightarrow> bool) \<Rightarrow> json \<Rightarrow> bool" where
  "js_array P (JArr xs) = P xs"
| "js_array P _ = False"

fun js_truthy :: "json \<Rightarrow> bool" where
  "js_truthy JNull = False"
| "js_truthy (JBool b) = b"
| "js_truthy (JNum q) = (q \<noteq> 0)"
| "js_truthy (JStr t) = (t \<noteq> [])"
| "js_truthy _ = True"

text \<open>\<open>Number.isInteger\<close> and \<open>Number.isSafeInteger\<close>, with the integer.\<close>

fun json_integer :: "json \<Rightarrow> int option" where
  "json_integer (JNum q) = (if q = of_int \<lfloor>q\<rfloor> then Some \<lfloor>q\<rfloor> else None)"
| "json_integer _ = None"

definition json_int :: "json \<Rightarrow> int option" where
  "json_int v = (case json_integer v of None \<Rightarrow> None | Some n \<Rightarrow> if isSafeInteger n then Some n else None)"

definition field_int :: "json_object \<Rightarrow> string \<Rightarrow> int option" where
  "field_int v k = Option.bind (map_of v k) json_int"

text \<open>\<open>Number.isSafeInteger(n) && n>0\<close>\<close>

definition positive_safe_integer :: "json \<Rightarrow> bool" where
  "positive_safe_integer v = (case json_int v of None \<Rightarrow> False | Some n \<Rightarrow> 0 < n)"

definition positive_field :: "json_object \<Rightarrow> string \<Rightarrow> int option" where
  "positive_field v k = (case field_int v k of None \<Rightarrow> None | Some n \<Rightarrow> if 0 < n then Some n else None)"

text \<open>\<open>/^[1-9]\d*$/\<close>\<close>

fun positive_digits :: "string \<Rightarrow> bool" where
  "positive_digits [] = False"
| "positive_digits (c # cs) = (is_digit c \<and> c \<noteq> CHR ''0'' \<and> list_all is_digit cs)"

section \<open>Text\<close>

fun join_text :: "string \<Rightarrow> string list \<Rightarrow> string" where
  "join_text sep [] = []"
| "join_text sep [x] = x"
| "join_text sep (x # y # xs) = x @ sep @ join_text sep (y # xs)"

definition hex_char :: "nat \<Rightarrow> char" where
  "hex_char n = char_of (if n < 10 then 48 + n else 87 + n)"

definition escape_char :: "char \<Rightarrow> string" where
  "escape_char c = (let n = char_code c in
     if c = CHR 0x22 \<or> c = CHR 0x5C then [CHR 0x5C, c]
     else if n = 8 then [CHR 0x5C, CHR ''b''] else if n = 9 then [CHR 0x5C, CHR ''t'']
     else if n = 10 then [CHR 0x5C, CHR ''n''] else if n = 12 then [CHR 0x5C, CHR ''f'']
     else if n = 13 then [CHR 0x5C, CHR ''r'']
     else if n < 32 then [CHR 0x5C] @ ''u00'' @ [hex_char (n div 16), hex_char (n mod 16)]
     else [c])"

definition json_string :: "string \<Rightarrow> string" where
  "json_string t = [CHR 0x22] @ concat (map escape_char t) @ [CHR 0x22]"

text \<open>\<open>JSON.stringify\<close>; \<open>num\<close> is \<open>Number.prototype.toString\<close>.\<close>

fun json_text :: "(rat \<Rightarrow> string) \<Rightarrow> json \<Rightarrow> string" where
  "json_text num JNull = ''null''"
| "json_text num (JBool b) = (if b then ''true'' else ''false'')"
| "json_text num (JNum q) = num q"
| "json_text num (JStr t) = json_string t"
| "json_text num (JArr xs) = ''['' @ join_text '','' (map (json_text num) xs) @ '']''"
| "json_text num (JObj kvs) =
     ''{'' @ join_text '','' (map (\<lambda>kv. json_string (fst kv) @ '':'' @ json_text num (snd kv)) kvs) @ ''}''"

definition canonicalJsonText :: "kernel_env \<Rightarrow> json \<Rightarrow> string" where
  "canonicalJsonText env v = json_text (number_text env) (canonicalJsonV2 v)"

text \<open>\<open>utf8TextSha256V2(canonicalJsonV2(v))\<close>\<close>

definition payload_hash_of :: "kernel_env \<Rightarrow> json \<Rightarrow> string" where
  "payload_hash_of env v = sha256 env (canonicalJsonText env v)"

section \<open>Names of the enumerations on the wire\<close>

fun effect_text :: "requested_effect \<Rightarrow> string" where
  "effect_text ReadEffect = ''read''"
| "effect_text PreviewEffect = ''preview''"
| "effect_text ApplyEffect = ''apply''"

fun method_text :: "http_method \<Rightarrow> string" where
  "method_text HttpGet = ''GET''"
| "method_text HttpPost = ''POST''"

text \<open>The optional fields of a request identity that may itself be missing: \<open>operation.request_identity?.path\<close>.\<close>

definition request_method :: "operation \<Rightarrow> string option" where
  "request_method p = Option.bind (op_request_identity p) (\<lambda>q. map_option method_text (ri_method q))"

definition request_path :: "operation \<Rightarrow> string option" where
  "request_path p = Option.bind (op_request_identity p) ri_path"

text \<open>An optional text in a template literal: a missing one is written \<open>undefined\<close>.\<close>

definition literal_text :: "string option \<Rightarrow> string" where
  "literal_text p = (case p of None \<Rightarrow> ''undefined'' | Some t \<Rightarrow> t)"

text \<open>\<open>operation.operation_role ?? 'root'\<close>\<close>

definition role_or_root :: "operation \<Rightarrow> operation_role" where
  "role_or_root p = (case op_role p of None \<Rightarrow> RootRole | Some r \<Rightarrow> r)"

text \<open>\<open>operation.input[k] === v\<close> for an optional string \<open>v\<close>.\<close>

definition input_text_is :: "operation \<Rightarrow> string \<Rightarrow> string option \<Rightarrow> bool" where
  "input_text_is p k v \<longleftrightarrow> rget (op_input p) k = map_option JStr v"

section \<open>Lemmas\<close>

lemma json_int_simps [simp]:
  "json_int JNull = None" "json_int (JBool b) = None" "json_int (JStr t) = None"
  "json_int (JArr xs) = None" "json_int (JObj kvs) = None"
  by (simp_all add: json_int_def)

lemma json_int_of_int: "json_int (JNum (of_int n)) = (if isSafeInteger n then Some n else None)"
  by (simp add: json_int_def)

lemma js_stringE: "js_string P v \<Longrightarrow> \<exists>t. v = JStr t \<and> P t"
  by (cases v) simp_all

end
