(* ===== verification/NativeArtifact.thy ===== *)
theory NativeArtifact
  imports JsonRecords
begin

text \<open>
  \<open>native-artifact.js\<close> and \<open>native-affected-targets.js\<close> of the kernel contract package: what a native file
  receipt proves about an export or a document save, and the identity of a Windows path. The receipt is
  untyped wire data and is read field by field.
\<close>

section \<open>Affected targets\<close>

definition MAX_NATIVE_AFFECTED_TARGETS_V2 :: int where
  "MAX_NATIVE_AFFECTED_TARGETS_V2 = 4096"

definition isNativeAffectedTargetIdentityV2 :: "string \<Rightarrow> bool" where
  "isNativeAffectedTargetIdentityV2 v \<longleftrightarrow> v = js_trim v \<and> v \<noteq> [] \<and> int (length v) \<le> 500 \<and> \<not> list_ex is_control_or_del v"

definition isCanonicalNativeAffectedTargetSetV2 :: "string list \<Rightarrow> bool" where
  "isCanonicalNativeAffectedTargetSetV2 vs \<longleftrightarrow> int (length vs) \<le> MAX_NATIVE_AFFECTED_TARGETS_V2
     \<and> list_all isNativeAffectedTargetIdentityV2 vs \<and> list_all2 (<) (butlast vs) (tl vs)"

section \<open>Paths and documents\<close>

definition NATIVE_ARTIFACT_RECEIPT_V1_SCHEMA :: string where
  "NATIVE_ARTIFACT_RECEIPT_V1_SCHEMA = ''revit-operator.native-artifact-receipt.v1''"

definition is_separator :: "char \<Rightarrow> bool" where
  "is_separator c \<longleftrightarrow> c = CHR 0x5C \<or> c = CHR ''/''"

definition is_letter :: "char \<Rightarrow> bool" where
  "is_letter c \<longleftrightarrow> is_lower c \<or> is_upper c"

fun drive_rooted :: "string \<Rightarrow> bool" where
  "drive_rooted (d # colon # sep # rest) = (is_letter d \<and> colon = CHR '':'' \<and> is_separator sep)"
| "drive_rooted _ = False"

definition absolute_path :: "string \<Rightarrow> bool" where
  "absolute_path v \<longleftrightarrow> 1 < length v \<and> length v \<le> 2000 \<and> \<not> list_ex is_control v
     \<and> (drive_rooted v \<or> starts_with ''/'' v \<or> starts_with [CHR 0x5C, CHR 0x5C] v)"

definition normalized_path :: "string \<Rightarrow> string" where
  "normalized_path v = toLowerCase (map (\<lambda>c. if c = CHR 0x5C then CHR ''/'' else c) v)"

definition samePath :: "string \<Rightarrow> string \<Rightarrow> bool" where
  "samePath a b \<longleftrightarrow> normalized_path a = normalized_path b"

definition document_identity :: "json_object \<Rightarrow> bool" where
  "document_identity v \<longleftrightarrow>
     jfield_is v ''session_id'' (js_string (\<lambda>t. js_trim t \<noteq> [] \<and> length t \<le> 200 \<and> \<not> list_ex is_control_or_del t))
     \<and> jfield_is v ''project_fingerprint'' (js_string (lower_hex 64))
     \<and> jfield_is v ''path'' (js_string (\<lambda>t. t = [] \<or> absolute_path t))"

text \<open>The text of a field that \<open>documentIdentity\<close> has shown to be a string.\<close>

definition text_of :: "json_object \<Rightarrow> string \<Rightarrow> string" where
  "text_of v k = (case map_of v k of Some (JStr t) \<Rightarrow> t | _ \<Rightarrow> [])"

definition saved_document :: "json_object \<Rightarrow> string \<Rightarrow> bool" where
  "saved_document r path =
     (let before = sub_row r ''before''; after = sub_row r ''after'' in
      jflag r ''native_save_returned'' True \<and> document_identity before \<and> document_identity after
      \<and> jflag r ''same_document'' True \<and> samePath (text_of after ''path'') path
      \<and> jflag r ''document_session_changed'' (map_of before ''session_id'' \<noteq> map_of after ''session_id'')
      \<and> jflag r ''document_path_changed'' (\<not> samePath (text_of before ''path'') (text_of after ''path''))
      \<and> jflag r ''project_binding_changed''
          (map_of before ''project_fingerprint'' \<noteq> map_of after ''project_fingerprint''))"

section \<open>Print settings\<close>

definition PRINT_FIELDS_REQUIRED :: "string list" where
  "PRINT_FIELDS_REQUIRED = [''PrinterName'', ''PrintToFile'', ''CombinedFile'', ''PrintToFileName'', ''PrintRange'',
     ''CopyNumber'', ''PrintOrderReverse'']"

definition PRINT_FIELDS_ALLOWED :: "string list" where
  "PRINT_FIELDS_ALLOWED = PRINT_FIELDS_REQUIRED @ [''Collate'', ''ViewSelection'']"

fun print_scalar :: "json \<Rightarrow> bool" where
  "print_scalar (JStr t) = True"
| "print_scalar (JBool b) = True"
| "print_scalar (JNum q) = True"
| "print_scalar _ = False"

definition print_row_ok :: "json_object \<Rightarrow> bool" where
  "print_row_ok item \<longleftrightarrow> jfield_is item ''field'' (js_string (\<lambda>t. t \<in> set PRINT_FIELDS_ALLOWED))
     \<and> jflag item ''read_succeeded'' True \<and> jflag item ''matches'' True \<and> jnull item ''error''
     \<and> jfield_is item ''before'' print_scalar \<and> jfield_is item ''after'' print_scalar
     \<and> map_of item ''before'' = map_of item ''after''"

definition nativePrintSettingsRestorationVerifiedV1 :: "json_object \<Rightarrow> bool" where
  "nativePrintSettingsRestorationVerifiedV1 r \<longleftrightarrow> jtext r ''path'' ''/revit/print''
     \<and> jflag r ''print_settings_restored'' True
     \<and> jfield_is r ''print_settings_restoration_readback'' (js_array (\<lambda>rows.
          length PRINT_FIELDS_REQUIRED \<le> length rows \<and> length rows \<le> length PRINT_FIELDS_ALLOWED
          \<and> list_all (\<lambda>row. print_row_ok (jrow row)) rows
          \<and> distinct (map (\<lambda>row. text_of (jrow row) ''field'') rows)
          \<and> set PRINT_FIELDS_REQUIRED \<subseteq> set (map (\<lambda>row. text_of (jrow row) ''field'') rows)))"

section \<open>What a receipt proves\<close>

definition SAVE_AS :: string where "SAVE_AS = ''/revit/save-as''"
definition PRINT_PATH :: string where "PRINT_PATH = ''/revit/print''"

definition no_output :: "json_object \<Rightarrow> bool" where
  "no_output r \<longleftrightarrow> map_of r ''export_calls'' = Some (JArr []) \<and> map_of r ''outputs'' = Some (JArr [])"

definition nothing_started :: "json_object \<Rightarrow> json option \<Rightarrow> bool" where
  "nothing_started r requested \<longleftrightarrow> requested \<in> {Some (JStr ''apply''), Some (JStr ''preview'')}
     \<and> map_of r ''phase'' = requested \<and> jtext r ''status'' ''not_started''
     \<and> map_of r ''expected_output_paths'' = Some (JArr []) \<and> jnumber r ''expected_export_calls'' 0 \<and> no_output r"

definition save_not_started :: "json_object \<Rightarrow> json option \<Rightarrow> bool" where
  "save_not_started r requested \<longleftrightarrow> nothing_started r requested \<and> jflag r ''save_io_not_started'' True
     \<and> jtext r ''not_started_reason'' ''save_preflight_failed'' \<and> jnullish r ''save_document''"

definition print_not_started :: "json_object \<Rightarrow> json option \<Rightarrow> bool" where
  "print_not_started r requested \<longleftrightarrow> nothing_started r requested \<and> jflag r ''print_settings_untouched'' True
     \<and> jfield_is r ''not_started_reason'' (js_string (\<lambda>t. t \<in> {''interactive_printer_destination'',
          ''printer_capability_unavailable'', ''printer_unavailable'', ''no_printer_configured''}))"

fun string_values :: "json list \<Rightarrow> string list option" where
  "string_values [] = Some []"
| "string_values (JStr t # xs) = map_option ((#) t) (string_values xs)"
| "string_values _ = None"

text \<open>The expected outputs of a receipt that names any: distinct absolute paths and a number of export calls within them.\<close>

definition expected_outputs :: "json_object \<Rightarrow> (string list \<times> int) option" where
  "expected_outputs r =
     (case (map_of r ''expected_output_paths'', Option.bind (map_of r ''expected_export_calls'') json_integer) of
        (Some (JArr xs), Some n) \<Rightarrow> (case string_values xs of
            None \<Rightarrow> None
          | Some paths \<Rightarrow>
              if paths \<noteq> [] \<and> length paths \<le> 2000 \<and> list_all absolute_path paths \<and> distinct (map toLowerCase paths)
                 \<and> 1 \<le> n \<and> n \<le> int (length paths)
                 \<and> jfield_is r ''export_calls'' (js_array (\<lambda>_. True)) \<and> jfield_is r ''outputs'' (js_array (\<lambda>_. True))
              then Some (paths, n) else None)
      | _ \<Rightarrow> None)"

definition output_ok :: "string \<Rightarrow> json \<Rightarrow> string \<Rightarrow> bool" where
  "output_ok path entry expected =
     (let file = jrow entry in
      jtext file ''path'' expected \<and> positive_field file ''size_bytes'' \<noteq> None
      \<and> jfield_is file ''sha256'' (js_string (lower_hex 64)) \<and> jflag file ''fresh_output'' True
      \<and> (path \<noteq> SAVE_AS \<or> jflag file ''stable_read'' True))"

definition receipt_complete :: "json_object \<Rightarrow> string \<Rightarrow> string list \<Rightarrow> int \<Rightarrow> bool" where
  "receipt_complete r path paths n \<longleftrightarrow> jtext r ''phase'' ''apply'' \<and> jtext r ''status'' ''complete''
     \<and> (path = PRINT_PATH \<longrightarrow> jflag r ''print_settings_restored'' True
          \<and> (map_of r ''print_settings_restoration_readback'' \<noteq> None \<longrightarrow> nativePrintSettingsRestorationVerifiedV1 r))
     \<and> jfield_is r ''export_calls'' (js_array (\<lambda>cs. int (length cs) = n \<and> list_all (\<lambda>c. c = JBool True) cs))
     \<and> (path = SAVE_AS \<longrightarrow> length paths = 1 \<and> n = 1 \<and> saved_document (sub_row r ''save_document'') (hd paths))
     \<and> jfield_is r ''outputs'' (js_array (\<lambda>os. list_all2 (output_ok path) os paths))"

definition ARTIFACT_PATHS :: "string list" where
  "ARTIFACT_PATHS = [''/revit/export-pdf'', PRINT_PATH, ''/revit/export-elements-xlsx'', SAVE_AS]"

definition nativeArtifactReceiptEffectV1 ::
  "json_object \<Rightarrow> string option \<Rightarrow> string option \<Rightarrow> json option \<Rightarrow> persistent_effect option" where
  "nativeArtifactReceiptEffectV1 r meth path requested =
     (case path of None \<Rightarrow> None | Some p \<Rightarrow>
       if meth \<noteq> Some ''POST'' \<or> p \<notin> set ARTIFACT_PATHS \<or> \<not> jtext r ''schema'' NATIVE_ARTIFACT_RECEIPT_V1_SCHEMA
          \<or> \<not> jtext r ''method'' ''POST'' \<or> \<not> jtext r ''path'' p then None
       else if p = SAVE_AS \<and> save_not_started r requested then Some NoEffect
       else if p = PRINT_PATH \<and> print_not_started r requested then Some NoEffect
       else (case expected_outputs r of
           None \<Rightarrow> None
         | Some (paths, n) \<Rightarrow>
             if requested = Some (JStr ''preview'') \<and> jtext r ''phase'' ''preview'' \<and> jtext r ''status'' ''not_started''
                \<and> no_output r
             then (if p = SAVE_AS \<and> (length paths \<noteq> 1 \<or> n \<noteq> 1 \<or> \<not> jnullish r ''save_document'') then None
                   else Some NoEffect)
             else if requested = Some (JStr ''apply'') \<and> receipt_complete r p paths n then Some AppliedEffect
             else None))"

definition receipt_of :: "operation_result \<Rightarrow> json_object" where
  "receipt_of r = (case r_native_artifact_receipt r of None \<Rightarrow> [] | Some v \<Rightarrow> jrow v)"

definition nativeArtifactResultEffectV2 :: "operation_result \<Rightarrow> persistent_effect option" where
  "nativeArtifactResultEffectV2 r =
     (let meth = Option.bind (r_request_identity r) (\<lambda>q. map_option method_text (ri_method q));
          path = Option.bind (r_request_identity r) ri_path;
          receipt = receipt_of r in
      if r_authority r \<noteq> ''native-host'' \<or> r_dispatch_state r \<noteq> Dispatched
         \<or> r_native_transaction_state r \<noteq> TxNotApplicable \<or> \<not> r_observation_required r
         \<or> (case r_raw_payload_hash r of None \<Rightarrow> True | Some h \<Rightarrow> \<not> lower_hex 64 h)
         \<or> r_result_schema_id r \<noteq> ''operator-native/POST:'' @ literal_text path @ ''/v2'' then None
      else (case nativeArtifactReceiptEffectV1 receipt meth path (map_of receipt ''phase'') of
          None \<Rightarrow> None
        | Some e \<Rightarrow> if r_persistent_effect r = e then Some e else None))"

definition nativeDocumentCheckpointResultV2 :: "operation_result \<Rightarrow> bool" where
  "nativeDocumentCheckpointResultV2 r \<longleftrightarrow> r_status r = Succeeded \<and> jtext (receipt_of r) ''path'' SAVE_AS
     \<and> jflag (sub_row (receipt_of r) ''save_document'') ''same_document'' True
     \<and> nativeArtifactResultEffectV2 r = Some AppliedEffect"

definition isNativeDocumentCheckpointRequestV2 :: "operation \<Rightarrow> bool" where
  "isNativeDocumentCheckpointRequestV2 p \<longleftrightarrow> input_text_is p ''method'' (Some ''POST'') \<and> input_text_is p ''path'' (Some SAVE_AS)
     \<and> request_method p = Some ''POST'' \<and> request_path p = Some SAVE_AS"

section \<open>Windows path identity\<close>

definition windowsAbsolute :: "string \<Rightarrow> bool" where
  "windowsAbsolute p \<longleftrightarrow> drive_rooted p \<or> (case p of [] \<Rightarrow> False | c # cs \<Rightarrow> is_separator c)"

definition slash :: char where "slash = CHR ''/''"

definition before_slash :: "string \<Rightarrow> string" where
  "before_slash t = takeWhile (\<lambda>c. c \<noteq> slash) t"

text \<open>The length of the prefix \<open>C:/\<close>, \<open>//server/share/\<close> or \<open>/\<close>.\<close>

definition path_prefix :: "string \<Rightarrow> nat option" where
  "path_prefix t =
     (if drive_rooted t then Some 3
      else if starts_with [slash, slash] t \<and> before_slash (drop 2 t) \<noteq> []
         \<and> drop (2 + length (before_slash (drop 2 t))) t \<noteq> []
         \<and> before_slash (drop (3 + length (before_slash (drop 2 t))) t) \<noteq> []
      then (let m = 3 + length (before_slash (drop 2 t)); k = m + length (before_slash (drop m t)) in
            Some (if drop k t = [] then k else Suc k))
      else if starts_with [slash] t then Some 1 else None)"

fun split_path :: "string \<Rightarrow> string \<Rightarrow> string list" where
  "split_path cur [] = [rev cur]"
| "split_path cur (c # cs) = (if c = slash then rev cur # split_path [] cs else split_path (c # cur) cs)"

text \<open>The parts pushed so far, the last one first.\<close>

fun path_parts :: "string list \<Rightarrow> string list \<Rightarrow> string list" where
  "path_parts acc [] = rev acc"
| "path_parts acc (p # ps) =
     (if p = [] \<or> p = ''.'' then path_parts acc ps
      else if p = ''..'' then path_parts (tl acc) ps else path_parts (p # acc) ps)"

definition without_final_slash :: "string \<Rightarrow> string" where
  "without_final_slash t = (if t \<noteq> [] \<and> last t = slash then butlast t else t)"

definition windowsPathIdentity :: "string \<Rightarrow> string option" where
  "windowsPathIdentity p =
     (if \<not> windowsAbsolute p \<or> 2000 < length p \<or> list_ex is_control p then None
      else (let text = map (\<lambda>c. if c = CHR 0x5C then slash else c) p in
            case path_prefix text of
              None \<Rightarrow> None
            | Some n \<Rightarrow> Some (toLowerCase (without_final_slash (take n text) @ [slash]
                @ join_text [slash] (path_parts [] (split_path [] (drop n text)))))))"

text \<open>\<open>path.replace(/[\\/][^\\/]*$/, '')\<close>: the folder of a path.\<close>

definition folder_of :: "string \<Rightarrow> string" where
  "folder_of p = (if list_ex is_separator p then rev (tl (dropWhile (\<lambda>c. \<not> is_separator c) (rev p))) else p)"

definition drive_relative :: "string \<Rightarrow> bool" where
  "drive_relative t = (case t of d # colon # rest \<Rightarrow> is_letter d \<and> colon = CHR '':'' | _ \<Rightarrow> False)"

definition requested_path :: "string \<Rightarrow> string \<Rightarrow> string" where
  "requested_path file base = (if windowsAbsolute file then file
     else if drive_relative file then [] else folder_of base @ [slash] @ file)"

definition first_output :: "json_object \<Rightarrow> json_object" where
  "first_output receipt = (case map_of receipt ''outputs'' of Some (JArr (x # xs)) \<Rightarrow> jrow x | _ \<Rightarrow> [])"

definition checkpoint_body :: "operation \<Rightarrow> json_object" where
  "checkpoint_body p = (case rget (op_input p) ''body'' of None \<Rightarrow> [] | Some b \<Rightarrow> jrow b)"

definition nativeDocumentCheckpointRequestMatchesV2 :: "operation \<Rightarrow> string option \<Rightarrow> bool" where
  "nativeDocumentCheckpointRequestMatchesV2 p fingerprint =
     (case (op_result p, fingerprint, map_of (checkpoint_body p) ''filePath'') of
        (Some r, Some fp, Some (JStr file)) \<Rightarrow>
          (let receipt = receipt_of r; saved = sub_row receipt ''save_document'';
               before = sub_row saved ''before''; after = sub_row saved ''after''; output = first_output receipt in
           lower_hex 64 fp \<and> isNativeDocumentCheckpointRequestV2 p \<and> nativeDocumentCheckpointResultV2 r
           \<and> \<not> jflag (checkpoint_body p) ''dryRun'' True \<and> file \<noteq> [] \<and> length file \<le> 2000 \<and> \<not> list_ex is_control file
           \<and> jflag output ''stable_read'' True
           \<and> (case map_of saved ''project_binding_changed'' of None \<Rightarrow> True | Some v \<Rightarrow> \<not> js_truthy v)
           \<and> jtext before ''project_fingerprint'' fp \<and> jtext after ''project_fingerprint'' fp
           \<and> (case (map_of after ''path'', map_of before ''path'', map_of output ''path'') of
                (Some (JStr a), Some (JStr b), Some (JStr out)) \<Rightarrow> windowsPathIdentity a \<noteq> None
                  \<and> windowsPathIdentity (requested_path file b) = windowsPathIdentity a
                  \<and> windowsPathIdentity out = windowsPathIdentity a
              | _ \<Rightarrow> False))
      | _ \<Rightarrow> False)"

section \<open>Lemmas\<close>

text \<open>A canonical set of affected targets is strictly increasing, so it repeats nothing.\<close>

lemma canonical_targets_sorted:
  assumes "isCanonicalNativeAffectedTargetSetV2 vs"
  shows "sorted_wrt (<) vs" "distinct vs"
proof -
  have "list_all2 (<) (butlast xs) (tl xs) \<Longrightarrow> sorted_wrt (<) xs" for xs :: "string list"
  proof (induction xs)
    case (Cons a xs)
    show ?case
    proof (cases xs)
      case (Cons b ys)
      with Cons.prems have ab: "a < b" and rest: "list_all2 (<) (butlast xs) (tl xs)" by simp_all
      from Cons.IH [OF rest] have "sorted_wrt (<) xs" .
      with ab Cons show ?thesis by (auto intro: less_trans)
    qed simp
  qed simp
  with assms show s: "sorted_wrt (<) vs" by (simp add: isCanonicalNativeAffectedTargetSetV2_def)
  then show "distinct vs" by (simp add: strict_sorted_iff)
qed

text \<open>The effect a result claims is the one its receipt proves; an applied one completed every declared output.\<close>

lemma artifact_result_effect:
  "nativeArtifactResultEffectV2 r = Some e \<Longrightarrow> r_persistent_effect r = e \<and> r_native_transaction_state r = TxNotApplicable
     \<and> r_authority r = ''native-host'' \<and> r_dispatch_state r = Dispatched \<and> r_observation_required r"
  by (auto simp: nativeArtifactResultEffectV2_def Let_def split: if_splits option.splits)

lemma artifact_receipt_applied:
  assumes "nativeArtifactReceiptEffectV1 r meth path requested = Some AppliedEffect"
  shows "requested = Some (JStr ''apply'') \<and> (\<exists>p paths n. path = Some p \<and> expected_outputs r = Some (paths, n)
     \<and> receipt_complete r p paths n)"
  using assms by (auto simp: nativeArtifactReceiptEffectV1_def split: option.splits if_splits prod.splits)

lemma artifact_receipt_not_unknown: "nativeArtifactReceiptEffectV1 r meth path requested \<noteq> Some UnknownEffect"
  by (auto simp: nativeArtifactReceiptEffectV1_def split: option.splits if_splits prod.splits)

end
