(* ===== verification/SemanticAdmissibility.thy ===== *)
theory SemanticAdmissibility
  imports InputRegistry NativeArtifact
begin

text \<open>
  \<open>semantic_admissibility.ts\<close>: which evidence an observation carries for a criterion.
  \<open>observationAdmissibilityForCriterionV2\<close> is the single admission predicate that progress
  discovery, evaluation and the reducer share; a denial keeps its reason code.
\<close>

definition CRITERION_EVIDENCE_POLICY_V2_SCHEMA :: string where
  "CRITERION_EVIDENCE_POLICY_V2_SCHEMA = ''revit-operator.criterion-evidence-policy/v2''"

definition SEMANTIC_EVIDENCE_CONTRACT_V2 :: string where
  "SEMANTIC_EVIDENCE_CONTRACT_V2 = ''revit-operator.semantic-evidence-contract/v2''"

definition semantic_contract :: "snapshot \<Rightarrow> bool" where
  "semantic_contract s \<longleftrightarrow> sp_semantic_evidence_contract (sn_spec s) = Some SEMANTIC_EVIDENCE_CONTRACT_V2"

definition artifact_effect :: "operation \<Rightarrow> persistent_effect option" where
  "artifact_effect p = Option.bind (op_result p) nativeArtifactResultEffectV2"

definition operationHasAppliedNativeArtifactV2 :: "operation \<Rightarrow> bool" where
  "operationHasAppliedNativeArtifactV2 p \<longleftrightarrow> artifact_effect p = Some AppliedEffect"

text \<open>
  The control capabilities of \<open>index.js\<close>: their identifiers, whether their results are durable evidence, and
  the collection fields of those results.
\<close>

definition CONTROL_CAPABILITY_DEFINITIONS_V2 :: "(bool \<times> string list) krecord" where
  "CONTROL_CAPABILITY_DEFINITIONS_V2 =
     [(''operator_record_execution_strategy'', (False, [])),
      (''operator_discover_capabilities'', (True, [''capabilities''])),
      (''operator_retrieve_evidence'', (True, [])),
      (''operator_validate_existing_conditions_interpretation'', (True, [])),
      (''operator_register_existing_conditions_interpretation'', (True, [])),
      (''revit_search_tools'', (True, [''matches'', ''tools'', ''results''])),
      (''revit_tool_registry'', (True, [''tools''])),
      (''revit_tool_doc'', (True, [])),
      (''revit_tool_examples'', (True, [])),
      (''operator_native_tool_registry'', (True, [''tools''])),
      (''operator_native_tool_search'', (True, [''matches'', ''tools'', ''results''])),
      (''operator_native_tool_doc'', (True, [])),
      (''operator_native_tool_examples'', (True, []))]"

definition isAssignmentKernelControlCapabilityV2 :: "string \<Rightarrow> bool" where
  "isAssignmentKernelControlCapabilityV2 i \<longleftrightarrow> rhas CONTROL_CAPABILITY_DEFINITIONS_V2 i"

definition isAssignmentKernelDurableControlEvidenceProducerV2 :: "string \<Rightarrow> bool" where
  "isAssignmentKernelDurableControlEvidenceProducerV2 i =
     (case rget CONTROL_CAPABILITY_DEFINITIONS_V2 i of None \<Rightarrow> False | Some d \<Rightarrow> fst d)"

definition operationFulfillmentRoleForAdmissionV2 ::
  "operation_purpose \<Rightarrow> string \<Rightarrow> bool \<Rightarrow> fulfillment_role" where
  "operationFulfillmentRoleForAdmissionV2 purpose capability prerequisite =
     (if prerequisite then PrerequisiteFulfillment
      else if purpose = Verification then VerificationFulfillment
      else if purpose = Reconciliation then ReconciliationFulfillment
      else if purpose = EvidenceRead then SupportingControl
      else if isAssignmentKernelControlCapabilityV2 capability \<or> purpose = Discovery then SupportingControl
      else DelegatedTaskExecution)"

definition fulfillmentRoleCanCarryTaskCriteriaV2 :: "fulfillment_role \<Rightarrow> bool" where
  "fulfillmentRoleCanCarryTaskCriteriaV2 role \<longleftrightarrow>
     role = DelegatedTaskExecution \<or> role = VerificationFulfillment"

definition has_comparisons :: "criterion_spec \<Rightarrow> bool" where
  "has_comparisons c = (case cs_desired_state_comparisons c of None \<Rightarrow> False | Some xs \<Rightarrow> xs \<noteq> [])"

definition operationEffectAdmissibleForCriterionV2 ::
  "requested_effect \<Rightarrow> requested_effect \<Rightarrow> criterion_spec \<Rightarrow> evaluation_basis option \<Rightarrow> bool" where
  "operationEffectAdmissibleForCriterionV2 assignment_effect operation_effect c basis =
     (if operation_effect = assignment_effect then True
      else basis = Some DesiredStateEquivalence \<and> assignment_effect = ApplyEffect
           \<and> operation_effect = ReadEffect \<and> has_comparisons c)"

fun evidenceClassForFulfillmentRoleV2 :: "fulfillment_role \<Rightarrow> evidence_class" where
  "evidenceClassForFulfillmentRoleV2 SupportingControl = ControlEvidence"
| "evidenceClassForFulfillmentRoleV2 PrerequisiteFulfillment = PrerequisiteEvidence"
| "evidenceClassForFulfillmentRoleV2 DelegatedTaskExecution = TaskResultEvidence"
| "evidenceClassForFulfillmentRoleV2 VerificationFulfillment = VerificationEvidence"
| "evidenceClassForFulfillmentRoleV2 ReconciliationFulfillment = ReconciliationEvidence"
| "evidenceClassForFulfillmentRoleV2 TelemetryFulfillment = TelemetryEvidence"

fun allowed_fact_classes :: "evidence_class \<Rightarrow> fact_class list" where
  "allowed_fact_classes TaskResultEvidence = [ControlFact, DomainFact]"
| "allowed_fact_classes VerificationEvidence = [ControlFact, VerificationFact]"
| "allowed_fact_classes ReconciliationEvidence = [ControlFact, ReconciliationFact]"
| "allowed_fact_classes TelemetryEvidence = [ControlFact, TelemetryFact]"
| "allowed_fact_classes _ = [ControlFact]"

fun normalizeSemanticFactsForEvidenceV2 ::
  "evidence_class \<Rightarrow> semantic_fact list \<Rightarrow> kernel_error + semantic_fact list" where
  "normalizeSemanticFactsForEvidenceV2 ec [] = Inr []"
| "normalizeSemanticFactsForEvidenceV2 ec (f # fs) =
     (if fact_id f = ''result.available'' then
        kbind (normalizeSemanticFactsForEvidenceV2 ec fs)
          (\<lambda>gs. Inr (f\<lparr>fact_id := ''control.result_available'', fact_class_of := Some ControlFact\<rparr> # gs))
      else
        (let fc = (case fact_class_of f of None \<Rightarrow> ControlFact | Some c \<Rightarrow> c) in
         if fc \<notin> set (allowed_fact_classes ec) then Inl ''semantic_fact_class_incompatible''
         else kbind (normalizeSemanticFactsForEvidenceV2 ec fs)
                (\<lambda>gs. Inr (f\<lparr>fact_class_of := Some fc\<rparr> # gs))))"

record observation_admissibility =
  adm_admissible :: bool
  adm_reason :: string
  adm_operation :: "operation option"
  adm_supporting_facts :: "semantic_fact list"

definition denied :: "string \<Rightarrow> operation option \<Rightarrow> observation_admissibility" where
  "denied reason p = \<lparr>adm_admissible = False, adm_reason = reason, adm_operation = p, adm_supporting_facts = []\<rparr>"

definition result_is :: "operation \<Rightarrow> (operation_result \<Rightarrow> bool) \<Rightarrow> bool" where
  "result_is p P = (case op_result p of None \<Rightarrow> False | Some r \<Rightarrow> P r)"

text \<open>The effect checks of a delegated task execution.\<close>

definition task_effect_checks ::
  "snapshot \<Rightarrow> criterion_spec \<Rightarrow> operation \<Rightarrow> evaluation_basis option \<Rightarrow> (bool \<times> kernel_error) list" where
  "task_effect_checks s c p basis =
     (let assignment_effect = sp_requested_effect (sn_spec s);
          desired_state_read = (op_requested_effect p \<noteq> assignment_effect) in
      [(operationEffectAdmissibleForCriterionV2 assignment_effect (op_requested_effect p) c basis,
          ''task_operation_effect_mismatch''),
       (desired_state_read \<longrightarrow> op_persistent_effect p = NoEffect
          \<and> result_is p (\<lambda>r. r_native_transaction_state r = TxNotApplicable), ''desired_state_read_effect_invalid''),
       (\<not> desired_state_read \<and> assignment_effect = ApplyEffect \<longrightarrow> op_persistent_effect p = AppliedEffect
          \<and> (result_is p (\<lambda>r. r_native_transaction_state r = TxCommitted)
             \<or> artifact_effect p = Some AppliedEffect), ''apply_task_effect_not_committed''),
       (\<not> desired_state_read \<and> assignment_effect = PreviewEffect \<longrightarrow> op_persistent_effect p = NoEffect
          \<and> (result_is p (\<lambda>r. r_native_transaction_state r = TxRolledBack)
             \<or> artifact_effect p = Some NoEffect), ''preview_task_effect_not_rolled_back'')])"

definition policy_checks ::
  "snapshot \<Rightarrow> criterion_spec \<Rightarrow> criterion_evidence_policy \<Rightarrow> observation \<Rightarrow> operation \<Rightarrow> string option
     \<Rightarrow> (bool \<times> kernel_error) list" where
  "policy_checks s c policy ob p evaluated_at =
     [(obs_fulfillment_role ob \<noteq> None \<and> obs_fulfillment_role ob = op_fulfillment_role p,
         ''observation_fulfillment_role_mismatch''),
      (obs_capability_id ob = Some (op_capability_id p), ''observation_capability_mismatch''),
      ((case obs_eligible_criterion_ids ob of None \<Rightarrow> False | Some cs \<Rightarrow> cs_criterion_id c \<in> set cs),
         ''observation_not_eligible_for_criterion''),
      ((case op_fulfillment_role p of None \<Rightarrow> False | Some role \<Rightarrow> role \<in> set (cep_allowed_fulfillment_roles policy)),
         ''fulfillment_role_not_allowed''),
      ((case obs_evidence_class ob of None \<Rightarrow> False | Some ec \<Rightarrow> ec \<in> set (cep_allowed_evidence_classes policy)),
         ''evidence_class_not_allowed''),
      (cep_allowed_capability_ids policy = [] \<or> op_capability_id p \<in> set (cep_allowed_capability_ids policy),
         ''capability_not_allowed''),
      (cep_allowed_result_schema_ids policy = []
         \<or> obs_result_schema_id ob \<in> set (cep_allowed_result_schema_ids policy), ''result_schema_not_allowed''),
      (cep_require_native_dispatch policy \<longrightarrow> result_is p (\<lambda>r. r_dispatch_state r = Dispatched),
         ''required_task_execution_not_dispatched''),
      (cep_require_current_generation policy \<longrightarrow>
         b_generation (obs_binding ob) = b_generation (sn_current_binding s), ''observation_generation_not_current''),
      (\<not> (truthy (obs_freshness_deadline ob) \<and> truthy evaluated_at
           \<and> time_less (date_parse (the (obs_freshness_deadline ob))) (date_parse (the evaluated_at))),
         ''observation_not_fresh''),
      (list_all (\<lambda>f. case fact_class_of f of None \<Rightarrow> False | Some fc \<Rightarrow> fc \<in> set (cep_allowed_fact_classes policy))
         (filter (\<lambda>f. fact_id f \<in> set (cep_required_fact_ids policy)) (obs_facts ob)),
         ''semantic_fact_class_not_allowed'')]"

definition operation_checks :: "snapshot \<Rightarrow> criterion_spec \<Rightarrow> operation \<Rightarrow> (bool \<times> kernel_error) list" where
  "operation_checks s c p =
     [(operationUsesCurrentInputsV2 s p, ''operation_predates_authenticated_input''),
      (op_settlement_state p = Settled \<and> result_is p (\<lambda>r. r_status r = Succeeded),
         ''operation_not_successfully_settled''),
      (op_fulfillment_role p \<noteq> None \<and> op_eligible_criterion_ids p \<noteq> None,
         ''operation_fulfillment_contract_missing''),
      (cs_criterion_id c \<in> set (the (op_eligible_criterion_ids p)), ''operation_not_eligible_for_criterion'')]"

definition observationAdmissibilityForCriterionV2 ::
  "snapshot \<Rightarrow> criterion_spec \<Rightarrow> observation \<Rightarrow> string option \<Rightarrow> evaluation_basis option
     \<Rightarrow> observation_admissibility" where
  "observationAdmissibilityForCriterionV2 s c ob evaluated_at basis =
     (case cs_evidence_policy c of
        None \<Rightarrow> denied ''criterion_evidence_policy_missing'' None
      | Some policy \<Rightarrow>
          if \<not> semantic_contract s then denied ''criterion_evidence_policy_missing'' None
          else if \<not> sameAssignmentBindingV2 (sn_current_binding s) (obs_binding ob)
            then denied ''observation_binding_not_current'' None
          else (case rget (sn_operations s) (obs_operation_id ob) of
            None \<Rightarrow> denied ''observation_operation_missing'' None
          | Some p \<Rightarrow>
              (case first_failure
                 (operation_checks s c p
                  @ (if op_fulfillment_role p = Some DelegatedTaskExecution
                     then task_effect_checks s c p basis else [])
                  @ policy_checks s c policy ob p evaluated_at)
               of Some reason \<Rightarrow> denied reason (Some p)
                | None \<Rightarrow> \<lparr>adm_admissible = True, adm_reason = ''admitted'', adm_operation = Some p,
                    adm_supporting_facts =
                      filter (\<lambda>f. fact_id f \<in> set (cep_required_fact_ids policy)) (obs_facts ob)\<rparr>)))"

section \<open>Lemmas\<close>

lemma denied_not_admissible [simp]: "\<not> adm_admissible (denied r p)"
  by (simp add: denied_def)

text \<open>What an admission guarantees.\<close>

lemma admissibleD:
  assumes "adm_admissible (observationAdmissibilityForCriterionV2 s c ob ea basis)"
  obtains p policy where "cs_evidence_policy c = Some policy" "semantic_contract s"
    "obs_binding ob = sn_current_binding s"
    "rget (sn_operations s) (obs_operation_id ob) = Some p"
    "first_failure (operation_checks s c p) = None"
    "op_fulfillment_role p = Some DelegatedTaskExecution \<Longrightarrow> first_failure (task_effect_checks s c p basis) = None"
    "first_failure (policy_checks s c policy ob p ea) = None"
    "adm_supporting_facts (observationAdmissibilityForCriterionV2 s c ob ea basis)
       = filter (\<lambda>f. fact_id f \<in> set (cep_required_fact_ids policy)) (obs_facts ob)"
proof -
  from assms obtain policy where pol: "cs_evidence_policy c = Some policy"
    by (auto simp: observationAdmissibilityForCriterionV2_def split: option.splits)
  from assms pol have sc: "semantic_contract s" and b: "sn_current_binding s = obs_binding ob"
    by (auto simp: observationAdmissibilityForCriterionV2_def split: if_splits)
  from assms pol sc b obtain p where p: "rget (sn_operations s) (obs_operation_id ob) = Some p"
    by (auto simp: observationAdmissibilityForCriterionV2_def split: option.splits)
  let ?checks = "operation_checks s c p
    @ (if op_fulfillment_role p = Some DelegatedTaskExecution then task_effect_checks s c p basis else [])
    @ policy_checks s c policy ob p ea"
  from assms pol sc b p have ff: "first_failure ?checks = None"
    by (auto simp: observationAdmissibilityForCriterionV2_def split: option.splits)
  show thesis
  proof (rule that [OF pol sc _ p])
    show "obs_binding ob = sn_current_binding s" using b by simp
    show "first_failure (operation_checks s c p) = None"
      "first_failure (policy_checks s c policy ob p ea) = None"
      using ff by (simp_all only: first_failure_append_None)
    show "first_failure (task_effect_checks s c p basis) = None"
      if "op_fulfillment_role p = Some DelegatedTaskExecution"
      using ff that by (simp add: first_failure_append_None)
    show "adm_supporting_facts (observationAdmissibilityForCriterionV2 s c ob ea basis)
        = filter (\<lambda>f. fact_id f \<in> set (cep_required_fact_ids policy)) (obs_facts ob)"
      using pol sc b p ff by (simp add: observationAdmissibilityForCriterionV2_def)
  qed
qed

lemma admissible_settled:
  assumes "adm_admissible (observationAdmissibilityForCriterionV2 s c ob ea basis)"
  shows "\<exists>p r. rget (sn_operations s) (obs_operation_id ob) = Some p \<and> op_result p = Some r
    \<and> op_settlement_state p = Settled \<and> r_status r = Succeeded \<and> operationUsesCurrentInputsV2 s p"
  using assms
  by (elim admissibleD) (auto simp: operation_checks_def result_is_def split: option.splits)

lemma normalize_length:
  "normalizeSemanticFactsForEvidenceV2 ec fs = Inr gs \<Longrightarrow> length gs = length fs"
  by (induction ec fs arbitrary: gs rule: normalizeSemanticFactsForEvidenceV2.induct)
     (auto simp: guard_simps Let_def split: if_splits)

lemma normalize_classes:
  "normalizeSemanticFactsForEvidenceV2 ec fs = Inr gs \<Longrightarrow> g \<in> set gs \<Longrightarrow>
     \<exists>fc. fact_class_of g = Some fc \<and> fc \<in> set (allowed_fact_classes ec)"
proof (induction ec fs arbitrary: gs rule: normalizeSemanticFactsForEvidenceV2.induct)
  case (2 ec f fs)
  have "ControlFact \<in> set (allowed_fact_classes ec)" by (cases ec) auto
  with 2 show ?case
    by (auto simp: guard_simps Let_def split: if_splits)
qed simp

end
