(* ===== verification/TargetIdentity.thy ===== *)
theory TargetIdentity
  imports KernelState
begin

text \<open>
  \<open>operation_target_identity.ts\<close>: the aliases under which an admitted target and a native settlement
  identity may name the same element.
\<close>

definition identity_kind :: "string \<Rightarrow> string" where
  "identity_kind identity =
     filter (\<lambda>c. is_lower c \<or> is_digit c) (takeWhile (\<lambda>c. c \<noteq> CHR '':'') identity)"

definition identity_value :: "string \<Rightarrow> string" where
  "identity_value identity = tl (dropWhile (\<lambda>c. c \<noteq> CHR '':'') identity)"

definition element_id_kind :: "string \<Rightarrow> bool" where
  "element_id_kind kind \<longleftrightarrow> kind = ''id'' \<or> ends_with ''id'' kind
     \<or> kind \<in> set [''ids'', ''elementids'', ''requestedelementids'', ''viewids'']"

definition all_digits :: "string \<Rightarrow> bool" where
  "all_digits s \<longleftrightarrow> s \<noteq> [] \<and> list_all is_digit s"

text \<open>\<open>identity.indexOf(":") > 0\<close>\<close>

definition has_kind :: "string \<Rightarrow> bool" where
  "has_kind identity \<longleftrightarrow> CHR '':'' \<in> set identity \<and> hd identity \<noteq> CHR '':''"

definition operationTargetIdentityAliasesV2 :: "string \<Rightarrow> string list" where
  "operationTargetIdentityAliasesV2 v =
     (let identity = toLowerCase (js_trim v);
          kind = identity_kind identity;
          identifier = identity_value identity in
      if identity = [] \<or> length identity > 500 \<or> list_ex is_control_or_del identity then []
      else unique_sorted ([identity]
        @ (if has_kind identity \<and> kind = ''artifactpath''
           then [''artifact_path:'' @ map (\<lambda>c. if c = CHR 92 then CHR ''/'' else c) identifier] else [])
        @ (if has_kind identity \<and> element_id_kind kind \<and> all_digits identifier
           then [''id:'' @ identifier] else [])))"

definition string_scalars :: "fact_scalar list \<Rightarrow> string list" where
  "string_scalars vs = concat (map (\<lambda>v. case v of FStr s \<Rightarrow> [s] | _ \<Rightarrow> []) vs)"

definition target_scope_strings :: "operation \<Rightarrow> string list" where
  "target_scope_strings p =
     (case tg_semantic_scope (op_target p) of None \<Rightarrow> [] | Some sc \<Rightarrow> string_scalars (rvals sc))"

definition option_list :: "'a option \<Rightarrow> 'a list" where
  "option_list v = (case v of None \<Rightarrow> [] | Some x \<Rightarrow> [x])"

definition result_affected_targets :: "operation \<Rightarrow> string list option" where
  "result_affected_targets p = (case op_result p of None \<Rightarrow> None | Some r \<Rightarrow> r_affected_target_identities r)"

definition effectiveOperationTargetIdentitiesV2 :: "operation \<Rightarrow> string list" where
  "effectiveOperationTargetIdentitiesV2 p = unique_sorted (concat (map operationTargetIdentityAliasesV2
     (option_list (tg_target_id (op_target p))
      @ (case result_affected_targets p of None \<Rightarrow> [] | Some ts \<Rightarrow> ts))))"

definition declared_target_strings :: "operation \<Rightarrow> string list" where
  "declared_target_strings p =
     filter (\<lambda>v. v \<noteq> []) (option_list (tg_target_id (op_target p)) @ target_scope_strings p)"

definition reportedOperationTargetIdentitiesV2 :: "operation \<Rightarrow> string list" where
  "reportedOperationTargetIdentitiesV2 p = unique_sorted (filter (\<lambda>v. v \<noteq> [])
     (option_list (tg_target_id (op_target p)) @ target_scope_strings p
      @ (case result_affected_targets p of None \<Rightarrow> [] | Some ts \<Rightarrow> ts)))"

definition affectedOperationTargetIdentitiesV2 :: "operation \<Rightarrow> string list" where
  "affectedOperationTargetIdentitiesV2 p =
     (case result_affected_targets p of
        Some ts \<Rightarrow> ts
      | None \<Rightarrow> if op_persistent_effect p \<noteq> AppliedEffect then []
                else unique_sorted (declared_target_strings p))"

definition operationMatchesTargetIdentityV2 :: "operation \<Rightarrow> string list \<Rightarrow> bool" where
  "operationMatchesTargetIdentityV2 p candidates =
     (let cs = concat (map operationTargetIdentityAliasesV2 candidates) in
      list_ex (\<lambda>i. i \<in> set cs) (effectiveOperationTargetIdentitiesV2 p))"

section \<open>Lemmas\<close>

lemma alias_self:
  assumes "identity = toLowerCase (js_trim v)" "identity \<noteq> []" "length identity \<le> 500"
    "\<not> list_ex is_control_or_del identity"
  shows "identity \<in> set (operationTargetIdentityAliasesV2 v)"
  using assms by (simp add: operationTargetIdentityAliasesV2_def Let_def)

lemma operationMatchesTargetIdentityV2_iff:
  "operationMatchesTargetIdentityV2 p candidates \<longleftrightarrow>
     (\<exists>c \<in> set candidates. \<exists>a \<in> set (operationTargetIdentityAliasesV2 c).
        a \<in> set (effectiveOperationTargetIdentitiesV2 p))"
  by (auto simp: operationMatchesTargetIdentityV2_def Let_def list_ex_iff)

end
