(* ===== verification/Postcondition.thy ===== *)
theory Postcondition
  imports SemanticAdmissibility TargetIdentity
begin

text \<open>
  The first half of \<open>outcome.ts\<close>, which decides whether an applied operation has an independently
  verified postcondition, and \<open>verified_work_targets.ts\<close>, the targets such verifications prove.
\<close>

definition postcondition_fact :: "semantic_fact \<Rightarrow> bool" where
  "postcondition_fact f \<longleftrightarrow> fact_id f = ''verification.postcondition_satisfied''
     \<and> fact_class_of f = Some VerificationFact \<and> fact_value_of f = FOne (FBool True)"

definition provesAppliedPostcondition :: "snapshot \<Rightarrow> string \<Rightarrow> bool" where
  "provesAppliedPostcondition s vid = (case rget (sn_operations s) vid of
     None \<Rightarrow> False
   | Some v \<Rightarrow> list_ex (\<lambda>oid. case rget (sn_observations s) oid of
         None \<Rightarrow> False | Some ob \<Rightarrow> list_ex postcondition_fact (obs_facts ob)) (op_observation_ids v))"

definition applied_and_settled :: "operation \<Rightarrow> bool" where
  "applied_and_settled p \<longleftrightarrow> op_requested_effect p = ApplyEffect
     \<and> op_persistent_effect p = AppliedEffect \<and> op_settlement_state p = Settled"

definition truthy_lookup :: "'v krecord \<Rightarrow> string option \<Rightarrow> 'v option" where
  "truthy_lookup r k = (if truthy k then rget r (the k) else None)"

definition verificationOperationHasVerifiedPostconditionV2 :: "snapshot \<Rightarrow> string \<Rightarrow> bool" where
  "verificationOperationHasVerifiedPostconditionV2 s vid =
     (case rget (sn_operations s) vid of
        None \<Rightarrow> False
      | Some v \<Rightarrow> (case truthy_lookup (sn_operations s) (op_verification_of v) of
          None \<Rightarrow> False
        | Some applied \<Rightarrow> applied_and_settled applied
            \<and> vid \<in> set (op_verification_operation_ids applied)
            \<and> op_requested_effect v = ReadEffect \<and> op_purpose v = Verification
            \<and> op_persistent_effect v = NoEffect \<and> op_settlement_state v = Settled
            \<and> result_is v (\<lambda>r. r_status r = Succeeded)
            \<and> op_observation_ids v \<noteq> []
            \<and> provesAppliedPostcondition s vid))"

definition appliedOperationHasVerifiedPostconditionV2 :: "snapshot \<Rightarrow> string \<Rightarrow> bool" where
  "appliedOperationHasVerifiedPostconditionV2 s aid =
     (case rget (sn_operations s) aid of
        None \<Rightarrow> False
      | Some p \<Rightarrow> applied_and_settled p
          \<and> list_ex (\<lambda>vid. (case rget (sn_operations s) vid of
                None \<Rightarrow> False | Some v \<Rightarrow> op_verification_of v = Some (op_id p))
              \<and> verificationOperationHasVerifiedPostconditionV2 s vid) (op_verification_operation_ids p))"

section \<open>Verified deliverable targets\<close>

definition VERIFIED_DELIVERABLE_TARGETS_FACT_V2 :: string where
  "VERIFIED_DELIVERABLE_TARGETS_FACT_V2 = ''verification.deliverable_target_identities''"

text \<open>\<open>/^<prefix>[1-9][0-9]*$/\<close>\<close>

definition positive_numeral :: "string \<Rightarrow> bool" where
  "positive_numeral s \<longleftrightarrow> s \<noteq> [] \<and> list_all is_digit s \<and> hd s \<noteq> CHR ''0''"

definition prefixed_numeral :: "string \<Rightarrow> string \<Rightarrow> bool" where
  "prefixed_numeral prefix s \<longleftrightarrow> starts_with prefix s \<and> positive_numeral (drop (length prefix) s)"

definition native_current_observation :: "snapshot \<Rightarrow> string \<Rightarrow> observation \<Rightarrow> bool" where
  "native_current_observation s rid ob \<longleftrightarrow> obs_operation_id ob = rid
     \<and> obs_authority ob = ''native-host'' \<and> obs_binding ob = sn_current_binding s"

definition read_observations :: "snapshot \<Rightarrow> operation \<Rightarrow> observation list" where
  "read_observations s p = concat (map (\<lambda>oid. option_list (rget (sn_observations s) oid)) (op_observation_ids p))"

definition usable_verification_read :: "snapshot \<Rightarrow> string \<Rightarrow> string \<Rightarrow> operation \<Rightarrow> bool" where
  "usable_verification_read s aid rid v \<longleftrightarrow>
     verificationOperationHasVerifiedPostconditionV2 s rid
     \<and> op_verification_of v = Some aid
     \<and> result_is v (\<lambda>r. r_authority r = ''native-host'' \<and> r_binding r = sn_current_binding s)
     \<and> op_binding v = sn_current_binding s
     \<and> list_ex (\<lambda>ob. native_current_observation s rid ob \<and> list_ex postcondition_fact (obs_facts ob))
         (read_observations s v)"

definition deliverable_facts :: "snapshot \<Rightarrow> string \<Rightarrow> operation \<Rightarrow> semantic_fact list" where
  "deliverable_facts s rid v = concat (map (\<lambda>ob.
     if native_current_observation s rid ob
     then filter (\<lambda>f. fact_id f = VERIFIED_DELIVERABLE_TARGETS_FACT_V2
                    \<and> fact_class_of f = Some VerificationFact) (obs_facts ob)
     else []) (read_observations s v))"

text \<open>The identities one verification read proves, or none if its deliverables are malformed.\<close>

definition deliverable_identities :: "snapshot \<Rightarrow> string \<Rightarrow> operation \<Rightarrow> string list" where
  "deliverable_identities s rid v = (case deliverable_facts s rid v of
      [] \<Rightarrow> option_list (tg_target_id (op_target v)) @ target_scope_strings v
    | [f] \<Rightarrow> (case fact_value_of f of
          FOne _ \<Rightarrow> []
        | FMany vs \<Rightarrow> if vs \<noteq> [] \<and> length vs \<le> 256 \<and> distinct vs
              \<and> list_all (\<lambda>x. case x of FStr t \<Rightarrow> prefixed_numeral ''element_id:'' t | _ \<Rightarrow> False) vs
            then string_scalars vs else [])
    | _ \<Rightarrow> [])"

definition verified_alias :: "string \<Rightarrow> string list" where
  "verified_alias a = (if prefixed_numeral ''id:'' a then [''element_id:'' @ drop 3 a]
     else if starts_with ''artifact_path:'' a then [a] else [])"

definition verifiedNativeWorkTargetIdentitiesV2 :: "snapshot \<Rightarrow> string \<Rightarrow> string list" where
  "verifiedNativeWorkTargetIdentitiesV2 s aid =
     (case rget (sn_operations s) aid of
        None \<Rightarrow> []
      | Some applied \<Rightarrow>
          if op_requested_effect applied \<noteq> ApplyEffect \<or> op_binding applied \<noteq> sn_current_binding s then []
          else unique_sorted (concat (map (\<lambda>rid. case rget (sn_operations s) rid of
              None \<Rightarrow> []
            | Some v \<Rightarrow> if usable_verification_read s aid rid v
                then concat (map verified_alias
                       (concat (map operationTargetIdentityAliasesV2 (deliverable_identities s rid v))))
                else []) (op_verification_operation_ids applied))))"

section \<open>Lemmas\<close>

lemma verificationOperationHasVerifiedPostconditionV2D:
  assumes "verificationOperationHasVerifiedPostconditionV2 s vid" "rget (sn_operations s) vid = Some v"
  shows "op_purpose v = Verification" "op_requested_effect v = ReadEffect"
    "op_persistent_effect v = NoEffect" "op_settlement_state v = Settled"
    "provesAppliedPostcondition s vid"
  using assms by (simp_all add: verificationOperationHasVerifiedPostconditionV2_def split: option.splits)

lemma appliedOperationHasVerifiedPostconditionV2D:
  assumes "appliedOperationHasVerifiedPostconditionV2 s aid"
  obtains p vid v where "rget (sn_operations s) aid = Some p" "applied_and_settled p"
    "vid \<in> set (op_verification_operation_ids p)" "rget (sn_operations s) vid = Some v"
    "op_verification_of v = Some (op_id p)" "verificationOperationHasVerifiedPostconditionV2 s vid"
proof -
  from assms obtain p where p: "rget (sn_operations s) aid = Some p"
    by (auto simp: appliedOperationHasVerifiedPostconditionV2_def split: option.splits)
  with assms obtain vid where "applied_and_settled p" and vid: "vid \<in> set (op_verification_operation_ids p)"
    and v: "case rget (sn_operations s) vid of None \<Rightarrow> False | Some v \<Rightarrow> op_verification_of v = Some (op_id p)"
    and "verificationOperationHasVerifiedPostconditionV2 s vid"
    by (auto simp: appliedOperationHasVerifiedPostconditionV2_def list_ex_iff)
  with p that show thesis by (cases "rget (sn_operations s) vid") simp_all
qed

lemma postcondition_read_cong:
  assumes "sn_operations s = sn_operations t" "sn_observations s = sn_observations t"
  shows "verificationOperationHasVerifiedPostconditionV2 s = verificationOperationHasVerifiedPostconditionV2 t"
proof -
  have proves: "provesAppliedPostcondition s = provesAppliedPostcondition t"
    unfolding provesAppliedPostcondition_def assms ..
  show ?thesis
    unfolding verificationOperationHasVerifiedPostconditionV2_def proves assms ..
qed

lemma postcondition_cong:
  assumes "sn_operations s = sn_operations t" "sn_observations s = sn_observations t"
  shows "appliedOperationHasVerifiedPostconditionV2 s = appliedOperationHasVerifiedPostconditionV2 t"
  unfolding appliedOperationHasVerifiedPostconditionV2_def postcondition_read_cong [OF assms]
  unfolding assms ..

lemma verified_targets_cong:
  assumes "sn_operations s = sn_operations t" "sn_observations s = sn_observations t"
    "sn_current_binding s = sn_current_binding t"
  shows "verifiedNativeWorkTargetIdentitiesV2 s = verifiedNativeWorkTargetIdentitiesV2 t"
  unfolding verifiedNativeWorkTargetIdentitiesV2_def usable_verification_read_def
    deliverable_identities_def deliverable_facts_def native_current_observation_def
    read_observations_def postcondition_read_cong [OF assms(1,2)] assms ..

end
