(* ===== verification/WorkPlan.thy ===== *)
theory WorkPlan
  imports DependencyOrder Postcondition
begin

text \<open>
  \<open>work_plan.ts\<close>: the declared scope of a model-editing assignment. Items are appended, completed with
  independently verified operations, inspected, deferred and resumed; none is ever removed.
\<close>

section \<open>Lookups and small readers\<close>

definition validText :: "string \<Rightarrow> nat \<Rightarrow> bool" where
  "validText v mx \<longleftrightarrow> nonblank v \<and> length v \<le> mx \<and> list_all (\<lambda>c. char_code c > 8) v"

definition plan_items :: "snapshot \<Rightarrow> plan_item list" where
  "plan_items s = (case sn_work_plan s of None \<Rightarrow> [] | Some p \<Rightarrow> wp_items p)"

definition plan_item_of :: "plan_item list \<Rightarrow> string \<Rightarrow> plan_item option" where
  "plan_item_of items i = find (\<lambda>p. pi_item_id p = i) items"

definition is_inspection :: "plan_item \<Rightarrow> bool" where
  "is_inspection p \<longleftrightarrow> pi_kind p = Some InspectionItem"

definition item_deps :: "plan_item \<Rightarrow> string list" where
  "item_deps p = (case pi_depends_on p of None \<Rightarrow> [] | Some ds \<Rightarrow> ds)"

definition replace_item :: "string \<Rightarrow> (plan_item \<Rightarrow> plan_item) \<Rightarrow> plan_item list \<Rightarrow> plan_item list" where
  "replace_item i f items = map (\<lambda>c. if pi_item_id c = i then f c else c) items"

definition item_deferrals :: "plan_item \<Rightarrow> plan_deferral list" where
  "item_deferrals p = (case pi_deferrals p of None \<Rightarrow> [] | Some ds \<Rightarrow> ds)"

definition workPlanItemDeferredV2 :: "plan_item \<Rightarrow> bool" where
  "workPlanItemDeferredV2 p \<longleftrightarrow> item_deferrals p \<noteq> [] \<and> \<not> truthy (wd_resumed_at (last (item_deferrals p)))"

section \<open>Declaration\<close>

definition declared_kind_ok :: "snapshot \<Rightarrow> (string \<times> plan_item_kind option) list \<Rightarrow> plan_item_declaration \<Rightarrow> bool" where
  "declared_kind_ok s known d =
     (let bounded = (\<lambda>ds. ds \<noteq> [] \<and> length ds \<le> 128 \<and> distinct ds) in
      if pd_kind d = Some InspectionItem then
        (case pd_depends_on d of
           None \<Rightarrow> advisoryVerificationV2 s
         | Some ds \<Rightarrow> bounded ds
             \<and> list_all (\<lambda>i. list_ex (\<lambda>(k, kind). k = i \<and> kind \<noteq> Some InspectionItem) known) ds)
      else
        (case pd_depends_on d of
           None \<Rightarrow> True
         | Some ds \<Rightarrow> bounded ds
             \<and> list_all (\<lambda>i. i \<noteq> pd_item_id d \<and> list_ex (\<lambda>(k, kind). k = i) known) ds))"

definition new_plan_item :: "string \<Rightarrow> plan_item_declaration \<Rightarrow> plan_item" where
  "new_plan_item now d = \<lparr>pi_item_id = pd_item_id d, pi_description = pd_description d,
     pi_source_basis = pd_source_basis d, pi_declared_at = now, pi_kind = pd_kind d,
     pi_depends_on = pd_depends_on d, pi_inspection = None, pi_operation_ids = [],
     pi_completed_at = None, pi_location_history = None, pi_deferrals = None\<rparr>"

fun add_items :: "snapshot \<Rightarrow> (string \<times> plan_item_kind option) list \<Rightarrow> string \<Rightarrow> string list
    \<Rightarrow> plan_item_declaration list \<Rightarrow> kernel_error + plan_item list" where
  "add_items s known now ids [] = Inr []"
| "add_items s known now ids (d # ds) =
     guard
       [(lower_identity ''_-'' 79 (pd_item_id d) \<and> validText (pd_description d) 800
           \<and> validText (pd_source_basis d) 800 \<and> pd_item_id d \<notin> set ids, ''work_plan_item_invalid''),
        (declared_kind_ok s known d, ''work_plan_dependencies_invalid'')]
       (kbind (add_items s known now (pd_item_id d # ids) ds) (\<lambda>items. Inr (new_plan_item now d # items)))"

definition plan_graph :: "plan_item list \<Rightarrow> string list krecord" where
  "plan_graph items = fold (\<lambda>p. rput (pi_item_id p) (item_deps p)) items []"

definition edit_dispatched :: "snapshot \<Rightarrow> bool" where
  "edit_dispatched s \<longleftrightarrow>
     list_ex (\<lambda>p. op_requested_effect p = ApplyEffect \<and> op_dispatch_state p \<noteq> NotDispatched) (rvals (sn_operations s))"

definition prior_assumptions :: "snapshot \<Rightarrow> string list" where
  "prior_assumptions s = (case sn_work_plan s of None \<Rightarrow> [] | Some p \<Rightarrow> wp_assumptions p)"

definition minimum_items :: "snapshot \<Rightarrow> nat" where
  "minimum_items s = (if sp_work_plan_min_items (sn_spec s) = Some 1 then 1 else 2)"

definition declareWorkPlanV2 :: "snapshot \<Rightarrow> plan_declaration \<Rightarrow> string \<Rightarrow> kernel_error + work_plan" where
  "declareWorkPlanV2 s d now =
     (let prior = plan_items s;
          known = map (\<lambda>p. (pi_item_id p, pi_kind p)) prior @ map (\<lambda>i. (pd_item_id i, pd_kind i)) (wpd_items d) in
      guard
        [(sp_requested_effect (sn_spec s) = ApplyEffect, ''work_plan_effect_unsupported''),
         (wpd_items d \<noteq> [] \<and> length (wpd_items d) \<le> 128 \<and> length (wpd_assumptions d) \<le> 16
            \<and> list_all (\<lambda>a. validText a 800) (wpd_assumptions d), ''work_plan_invalid''),
         (advisoryVerificationV2 s \<or> prior \<noteq> [] \<or> \<not> edit_dispatched s, ''work_plan_after_apply'')]
        (kbind (add_items s known now (map pi_item_id prior) (wpd_items d)) (\<lambda>added.
         kbind (dependency_order (plan_graph (prior @ added))) (\<lambda>order.
           let assumptions = unique_in_order (prior_assumptions s @ wpd_assumptions d) in
           guard
             [(length (remdups (map pi_item_id (prior @ added))) \<le> 128
                 \<and> (advisoryVerificationV2 s \<or> \<not> sp_work_plan_required (sn_spec s) \<or> prior \<noteq> []
                    \<or> length added \<ge> minimum_items s), ''work_plan_scope_incomplete''),
              (length assumptions \<le> 32, ''work_plan_assumption_limit'')]
             (Inr \<lparr>wp_items = prior @ added, wp_assumptions = assumptions\<rparr>)))))"

section \<open>Inspections\<close>

text \<open>\<open>Math.max\<close> of parsed dates: \<open>NaN\<close> as soon as one does not parse.\<close>

fun max_time :: "int option \<Rightarrow> int option list \<Rightarrow> int option" where
  "max_time t [] = t"
| "max_time t (u # us) = (case (t, u) of
     (Some x, Some y) \<Rightarrow> max_time (Some (max x y)) us
   | _ \<Rightarrow> max_time None us)"

definition last_edit :: "snapshot \<Rightarrow> plan_item \<Rightarrow> int option" where
  "last_edit s item = max_time (date_parse (pi_declared_at item))
     (map (\<lambda>p. case op_result p of None \<Rightarrow> None | Some r \<Rightarrow> date_parse (r_completed_at r))
        (filter (\<lambda>p. op_persistent_effect p = AppliedEffect) (rvals (sn_operations s))))"

definition inspection_dependency_ok :: "snapshot \<Rightarrow> plan_item option \<Rightarrow> bool" where
  "inspection_dependency_ok s dep = (case dep of
     None \<Rightarrow> False
   | Some p \<Rightarrow> \<not> workPlanItemDeferredV2 p \<and> \<not> is_inspection p \<and> truthy (pi_completed_at p)
       \<and> pi_operation_ids p \<noteq> []
       \<and> list_all (appliedOperationHasVerifiedPostconditionV2 s) (pi_operation_ids p))"

definition inspection_read_ok :: "snapshot \<Rightarrow> plan_inspection \<Rightarrow> int option \<Rightarrow> string \<Rightarrow> bool" where
  "inspection_read_ok s insp edit oid = (case rget (sn_operations s) oid of
     None \<Rightarrow> False
   | Some p \<Rightarrow> (case op_result p of
       None \<Rightarrow> False
     | Some r \<Rightarrow> op_requested_effect p = ReadEffect \<and> op_persistent_effect p = NoEffect
         \<and> op_settlement_state p = Settled
         \<and> r_authority r = ''native-host'' \<and> r_status r = Succeeded \<and> r_dispatch_state r = Dispatched
         \<and> time_less edit (date_parse (op_opened_at p))
         \<and> op_binding p = sn_current_binding s \<and> r_binding r = sn_current_binding s
         \<and> list_ex (\<lambda>k. k \<in> set (op_observation_ids p)
             \<and> (case rget (sn_observations s) k of
                  None \<Rightarrow> False
                | Some ob \<Rightarrow> obs_authority ob = ''native-host''
                    \<and> Some (obs_raw_payload_hash ob) = r_raw_payload_hash r
                    \<and> obs_binding ob = sn_current_binding s)) (wi_observation_ids insp)))"

definition expected_targets :: "snapshot \<Rightarrow> plan_item list \<Rightarrow> string list" where
  "expected_targets s deps =
     concat (map (\<lambda>p. concat (map (verifiedNativeWorkTargetIdentitiesV2 s) (pi_operation_ids p))) deps)"

definition inspectionIsCurrentV2 :: "snapshot \<Rightarrow> plan_item \<Rightarrow> bool" where
  "inspectionIsCurrentV2 s item = (case pi_inspection item of
     None \<Rightarrow> False
   | Some insp \<Rightarrow>
       (let deps = map (plan_item_of (plan_items s)) (item_deps item);
            expected = expected_targets s (concat (map option_list deps));
            edit = last_edit s item in
        is_inspection item \<and> truthy (pi_completed_at item) \<and> item_deps item \<noteq> []
        \<and> pi_operation_ids item \<noteq> []
        \<and> list_all (inspection_dependency_ok s) deps
        \<and> expected \<noteq> [] \<and> set expected \<subseteq> set (wi_target_ids insp)
        \<and> edit \<noteq> None
        \<and> list_all (inspection_read_ok s insp edit) (pi_operation_ids item)))"

section \<open>Completion\<close>

definition prerequisite_done :: "snapshot \<Rightarrow> plan_item option \<Rightarrow> bool" where
  "prerequisite_done s dep = (case dep of
     None \<Rightarrow> False
   | Some p \<Rightarrow> truthy (pi_completed_at p) \<and> \<not> workPlanItemDeferredV2 p
       \<and> (if is_inspection p then inspectionIsCurrentV2 s p
          else list_all (appliedOperationHasVerifiedPostconditionV2 s) (pi_operation_ids p)))"

definition cited_operation_checks :: "snapshot \<Rightarrow> plan_item \<Rightarrow> string list \<Rightarrow> string \<Rightarrow> (bool \<times> kernel_error) list" where
  "cited_operation_checks s item used oid = (case rget (sn_operations s) oid of
     None \<Rightarrow> [(False, ''work_plan_operation_unverified'')]
   | Some p \<Rightarrow>
       [(time_le (date_parse (pi_declared_at item)) (date_parse (op_opened_at p)),
           ''work_plan_operation_predates_item''),
        (oid \<notin> set used \<and> op_binding p = sn_current_binding s
           \<and> op_requested_effect p = ApplyEffect \<and> op_persistent_effect p = AppliedEffect
           \<and> op_settlement_state p = Settled
           \<and> appliedOperationHasVerifiedPostconditionV2 s oid, ''work_plan_operation_unverified'')])"

definition completeWorkPlanItemV2 ::
  "snapshot \<Rightarrow> string \<Rightarrow> string list \<Rightarrow> string \<Rightarrow> plan_inspection option \<Rightarrow> kernel_error + work_plan" where
  "completeWorkPlanItemV2 s item_id oids now insp =
     (case sn_work_plan s of
        None \<Rightarrow> Inl ''work_plan_item_not_pending''
      | Some plan \<Rightarrow> (case plan_item_of (wp_items plan) item_id of
          None \<Rightarrow> Inl ''work_plan_item_not_pending''
        | Some item \<Rightarrow>
            guard
              [(\<not> truthy (pi_completed_at item) \<or> is_inspection item \<and> \<not> inspectionIsCurrentV2 s item,
                  ''work_plan_item_not_pending''),
               (\<not> workPlanItemDeferredV2 item
                  \<and> (is_inspection item
                     \<or> list_all (\<lambda>i. prerequisite_done s (plan_item_of (wp_items plan) i)) (item_deps item)),
                  ''work_plan_prerequisite_pending''),
               (oids \<noteq> [] \<and> length oids \<le> 128 \<and> distinct oids, ''work_plan_proof_missing'')]
              (if is_inspection item then
                 (let completed = item\<lparr>pi_operation_ids := sort oids, pi_completed_at := Some now,
                        pi_inspection := insp\<rparr> in
                  guard [(inspectionIsCurrentV2 s completed, ''work_plan_inspection_unverified'')]
                    (Inr (plan\<lparr>wp_items := replace_item item_id (\<lambda>_. completed) (wp_items plan)\<rparr>)))
               else
                 guard ([(insp = None, ''work_plan_edit_inspection_invalid'')]
                   @ concat (map (cited_operation_checks s item (concat (map pi_operation_ids (wp_items plan)))) oids))
                   (Inr (plan\<lparr>wp_items := replace_item item_id
                      (\<lambda>c. c\<lparr>pi_operation_ids := sort oids, pi_completed_at := Some now\<rparr>) (wp_items plan)\<rparr>)))))"

section \<open>Deferral\<close>

definition claim_count :: "snapshot \<Rightarrow> string \<Rightarrow> int" where
  "claim_count s i = int (length (filter (\<lambda>c. wc_item_id c = i) (sn_work_plan_claims s)))"

definition next_deferrals :: "snapshot \<Rightarrow> plan_item \<Rightarrow> bool \<Rightarrow> string \<Rightarrow> string \<Rightarrow> plan_deferral list" where
  "next_deferrals s item defer reason now = (let history = item_deferrals item in
     if defer then history @ [\<lparr>wd_reason = reason, wd_deferred_at = now,
       wd_prior_claim_count = Some (claim_count s (pi_item_id item)), wd_resumed_at = None, wd_resume_reason = None\<rparr>]
     else history[length history - 1 := (last history)\<lparr>wd_resumed_at := Some now, wd_resume_reason := Some reason\<rparr>])"

definition deferWorkPlanItemV2 ::
  "snapshot \<Rightarrow> string \<Rightarrow> bool \<Rightarrow> string \<Rightarrow> string \<Rightarrow> kernel_error + work_plan" where
  "deferWorkPlanItemV2 s item_id defer reason now =
     (case sn_work_plan s of
        None \<Rightarrow> Inl ''work_plan_deferral_invalid''
      | Some plan \<Rightarrow> (case plan_item_of (wp_items plan) item_id of
          None \<Rightarrow> Inl ''work_plan_deferral_invalid''
        | Some item \<Rightarrow>
            guard
              [(\<not> truthy (pi_completed_at item) \<and> validText reason 800, ''work_plan_deferral_invalid''),
               (if defer then \<not> workPlanItemDeferredV2 item \<and> length (item_deferrals item) < 16
                else workPlanItemDeferredV2 item, ''work_plan_deferral_state'')]
              (Inr (plan\<lparr>wp_items := replace_item item_id
                 (\<lambda>p. p\<lparr>pi_deferrals := Some (next_deferrals s item defer reason now)\<rparr>) (wp_items plan)\<rparr>))))"

section \<open>Pending work\<close>

definition workPlanItemPendingV2 :: "snapshot \<Rightarrow> plan_item \<Rightarrow> bool" where
  "workPlanItemPendingV2 s item \<longleftrightarrow> \<not> truthy (pi_completed_at item)
     \<or> (if is_inspection item then \<not> inspectionIsCurrentV2 s item
        else list_ex (\<lambda>i. \<not> appliedOperationHasVerifiedPostconditionV2 s i) (pi_operation_ids item))"

definition allRemainingWorkPlanItemsDeferredV2 :: "snapshot \<Rightarrow> bool" where
  "allRemainingWorkPlanItemsDeferredV2 s =
     (let pending = filter (workPlanItemPendingV2 s) (plan_items s) in
      pending \<noteq> [] \<and> list_all workPlanItemDeferredV2 pending)"

definition workPlanPendingV2 :: "snapshot \<Rightarrow> bool" where
  "workPlanPendingV2 s \<longleftrightarrow> sp_work_plan_required (sn_spec s) \<and> sn_work_plan s = None
     \<or> list_ex (workPlanItemPendingV2 s) (plan_items s)"

section \<open>Well-formed plans\<close>

text \<open>
  Item identities are unique, dependencies have a work order, the plan is bounded, and no applied
  operation is credited to two edit items.
\<close>

definition plan_orderable :: "plan_item list \<Rightarrow> bool" where
  "plan_orderable items = (case dependency_order (plan_graph items) of Inl e \<Rightarrow> False | Inr order \<Rightarrow> True)"

definition credited :: "plan_item list \<Rightarrow> string list" where
  "credited items = concat (map (\<lambda>p. if is_inspection p then [] else pi_operation_ids p) items)"

definition well_formed_items :: "plan_item list \<Rightarrow> bool" where
  "well_formed_items items \<longleftrightarrow> distinct (map pi_item_id items) \<and> length items \<le> 128
     \<and> plan_orderable items \<and> distinct (credited items)"

definition well_formed_plan :: "work_plan \<Rightarrow> bool" where
  "well_formed_plan p \<longleftrightarrow> well_formed_items (wp_items p) \<and> length (wp_assumptions p) \<le> 32"

lemma plan_orderable_iff: "plan_orderable items \<longleftrightarrow> acyclic (depends (graph_deps (plan_graph items)))"
  using dependency_order_sound(3) dependency_order_complete
  by (auto simp: plan_orderable_def split: sum.splits) (metis Inl_Inr_False)

lemma plan_graph_map:
  "plan_graph items = fold (\<lambda>(i, ds). rput i ds) (map (\<lambda>p. (pi_item_id p, item_deps p)) items) []"
  by (simp add: plan_graph_def fold_map comp_def case_prod_beta)

lemma plan_item_of_Some: "plan_item_of items i = Some p \<Longrightarrow> p \<in> set items \<and> pi_item_id p = i"
  by (auto simp: plan_item_of_def find_Some_iff)

lemma plan_item_of_unique:
  assumes "distinct (map pi_item_id items)" "plan_item_of items i = Some p" "q \<in> set items" "pi_item_id q = i"
  shows "q = p"
  using assms plan_item_of_Some [OF assms(2)] by (auto simp: distinct_map inj_on_def)

lemma replace_item_map:
  assumes "\<And>p. p \<in> set items \<Longrightarrow> pi_item_id p = i \<Longrightarrow> g (f p) = g p"
  shows "map g (replace_item i f items) = map g items"
  using assms by (simp add: replace_item_def)

lemma replace_item_other: "i \<notin> set (map pi_item_id items) \<Longrightarrow> replace_item i f items = items"
  by (induction items) (auto simp: replace_item_def)

lemma set_credited_replace:
  assumes "\<And>p. \<not> is_inspection p \<Longrightarrow> pi_operation_ids (f p) = xs"
  assumes "\<And>p. is_inspection (f p) = is_inspection p"
  shows "set (credited (replace_item i f items)) \<subseteq> set xs \<union> set (credited items)"
  using assms by (induction items) (auto simp: credited_def replace_item_def split: if_splits)

lemma distinct_credited_replace:
  assumes "distinct (map pi_item_id items)" "distinct (credited items)" "distinct xs"
    "set xs \<inter> set (credited items) = {}"
    "\<And>p. \<not> is_inspection p \<Longrightarrow> pi_operation_ids (f p) = xs" "\<And>p. is_inspection (f p) = is_inspection p"
  shows "distinct (credited (replace_item i f items))"
  using assms(1,2,4)
proof (induction items)
  case (Cons p items)
  have split: "credited (q # qs) = (if is_inspection q then [] else pi_operation_ids q) @ credited qs" for q qs
    by (simp add: credited_def)
  show ?case
  proof (cases "pi_item_id p = i")
    case True
    with Cons.prems have "replace_item i f (p # items) = f p # items"
      using replace_item_other [of i items f] by (simp add: replace_item_def)
    with Cons.prems assms(3,5,6) show ?thesis by (auto simp: split)
  next
    case False
    then have "replace_item i f (p # items) = p # replace_item i f items"
      by (simp add: replace_item_def)
    moreover have "distinct (credited (replace_item i f items))"
      using Cons by (auto simp: split)
    moreover have "set (if is_inspection p then [] else pi_operation_ids p)
        \<inter> set (credited (replace_item i f items)) = {}"
      using set_credited_replace [OF assms(5,6), of i items] Cons.prems(2,3) unfolding split
      by (cases "is_inspection p") (simp, simp, blast)
    ultimately show ?thesis
      using Cons.prems(2) by (simp only: split distinct_append simp_thms)
  qed
qed (simp add: credited_def replace_item_def)

section \<open>Effects of the operations\<close>

lemma add_items_effect:
  "add_items s known now ids ds = Inr items \<Longrightarrow> items = map (new_plan_item now) ds
     \<and> distinct (map pd_item_id ds) \<and> set (map pd_item_id ds) \<inter> set ids = {}
     \<and> list_all (declared_kind_ok s known) ds"
proof (induction s known now ids ds arbitrary: items rule: add_items.induct)
  case (2 s known now ids d ds)
  from "2.prems" obtain rest where ok: "pd_item_id d \<notin> set ids" "declared_kind_ok s known d"
    and rest: "add_items s known now (pd_item_id d # ids) ds = Inr rest" and items: "items = new_plan_item now d # rest"
    by (auto simp: guard_simps)
  from "2.IH" [OF rest] ok items show ?case by auto
qed simp

lemma new_plan_item_simps [simp]:
  "pi_item_id (new_plan_item now d) = pd_item_id d" "pi_operation_ids (new_plan_item now d) = []"
  "pi_completed_at (new_plan_item now d) = None" "item_deps (new_plan_item now d)
     = (case pd_depends_on d of None \<Rightarrow> [] | Some ds \<Rightarrow> ds)"
  by (simp_all add: new_plan_item_def item_deps_def)

lemma credited_append: "credited (xs @ ys) = credited xs @ credited ys"
  by (simp add: credited_def)

lemma credited_new: "credited (map (new_plan_item now) ds) = []"
  by (auto simp: credited_def)

text \<open>An accepted declaration appends new items and keeps the plan well formed.\<close>

lemma declareWorkPlanV2_effect:
  assumes "declareWorkPlanV2 s d now = Inr plan"
  shows "wp_items plan = plan_items s @ map (new_plan_item now) (wpd_items d)"
    "set (prior_assumptions s) \<subseteq> set (wp_assumptions plan)"
    "distinct (map pi_item_id (plan_items s)) \<Longrightarrow> distinct (credited (plan_items s)) \<Longrightarrow> well_formed_plan plan"
proof -
  let ?prior = "plan_items s"
  let ?known = "map (\<lambda>p. (pi_item_id p, pi_kind p)) ?prior @ map (\<lambda>i. (pd_item_id i, pd_kind i)) (wpd_items d)"
  from assms obtain added order where
      add: "add_items s ?known now (map pi_item_id ?prior) (wpd_items d) = Inr added"
    and order: "dependency_order (plan_graph (?prior @ added)) = Inr order"
    and bounded: "length (remdups (map pi_item_id (?prior @ added))) \<le> 128"
    and plan: "plan = \<lparr>wp_items = ?prior @ added,
         wp_assumptions = unique_in_order (prior_assumptions s @ wpd_assumptions d)\<rparr>"
    and assumptions: "length (unique_in_order (prior_assumptions s @ wpd_assumptions d)) \<le> 32"
    unfolding declareWorkPlanV2_def Let_def guard_simps by blast
  from add_items_effect [OF add] have added: "added = map (new_plan_item now) (wpd_items d)"
    and fresh: "distinct (map pd_item_id (wpd_items d))"
      "set (map pd_item_id (wpd_items d)) \<inter> set (map pi_item_id ?prior) = {}" by simp_all
  show "wp_items plan = ?prior @ map (new_plan_item now) (wpd_items d)"
    "set (prior_assumptions s) \<subseteq> set (wp_assumptions plan)"
    by (simp_all add: plan added)
  assume prior: "distinct (map pi_item_id ?prior)" "distinct (credited ?prior)"
  have ids: "distinct (map pi_item_id (?prior @ added))"
    using prior(1) fresh by (auto simp: added comp_def)
  have "length (?prior @ added) \<le> 128"
    using bounded by (simp only: distinct_remdups_id [OF ids] length_map)
  with ids prior(2) order assumptions show "well_formed_plan plan"
    by (simp add: well_formed_plan_def well_formed_items_def plan plan_orderable_def added
        credited_append credited_new)
qed

lemma completeWorkPlanItemV2_cases:
  assumes "completeWorkPlanItemV2 s i oids now insp = Inr plan'"
  obtains plan item f where "sn_work_plan s = Some plan" "plan_item_of (wp_items plan) i = Some item"
    "plan' = plan\<lparr>wp_items := replace_item i f (wp_items plan)\<rparr>"
    "is_inspection item \<Longrightarrow> f = (\<lambda>_. item\<lparr>pi_operation_ids := sort oids, pi_completed_at := Some now, pi_inspection := insp\<rparr>)
       \<and> inspectionIsCurrentV2 s (f item)"
    "\<not> is_inspection item \<Longrightarrow> f = (\<lambda>c. c\<lparr>pi_operation_ids := sort oids, pi_completed_at := Some now\<rparr>)
       \<and> (\<forall>oid \<in> set oids. first_failure
             (cited_operation_checks s item (concat (map pi_operation_ids (wp_items plan))) oid) = None)
       \<and> list_all (\<lambda>d. prerequisite_done s (plan_item_of (wp_items plan) d)) (item_deps item)"
    "\<not> workPlanItemDeferredV2 item" "distinct oids" "oids \<noteq> []"
proof -
  from assms obtain plan where plan: "sn_work_plan s = Some plan"
    by (auto simp: completeWorkPlanItemV2_def split: option.splits)
  from assms plan obtain item where item: "plan_item_of (wp_items plan) i = Some item"
    by (auto simp: completeWorkPlanItemV2_def split: option.splits)
  have concat_ok: "first_failure (concat (map g xs)) = None \<longleftrightarrow> (\<forall>x \<in> set xs. first_failure (g x) = None)"
    for g :: "string \<Rightarrow> (bool \<times> kernel_error) list" and xs
    by (induction xs) (simp_all add: first_failure_append_None)
  show thesis
  proof (cases "is_inspection item")
    case True
    with assms plan item show thesis
      by (intro that [OF plan item, of "\<lambda>_. item\<lparr>pi_operation_ids := sort oids, pi_completed_at := Some now, pi_inspection := insp\<rparr>"])
         (auto simp: completeWorkPlanItemV2_def Let_def guard_simps)
  next
    case False
    with assms plan item show thesis
      by (intro that [OF plan item, of "\<lambda>c. c\<lparr>pi_operation_ids := sort oids, pi_completed_at := Some now\<rparr>"])
         (auto simp: completeWorkPlanItemV2_def guard_simps concat_ok)
  qed
qed

text \<open>What a plan update leaves alone: which items there are, and what they depend on.\<close>

definition item_scope ::
  "plan_item \<Rightarrow> string \<times> string \<times> string \<times> string \<times> plan_item_kind option \<times> string list option" where
  "item_scope p = (pi_item_id p, pi_description p, pi_source_basis p, pi_declared_at p, pi_kind p, pi_depends_on p)"

definition same_scope :: "plan_item list \<Rightarrow> plan_item list \<Rightarrow> bool" where
  "same_scope xs ys \<longleftrightarrow> map item_scope xs = map item_scope ys"

lemma same_scope_ids: "same_scope xs ys \<Longrightarrow> map pi_item_id xs = map pi_item_id ys"
  unfolding same_scope_def by (drule arg_cong [where f = "map fst"]) (simp add: comp_def item_scope_def)

lemma same_scope_deps:
  "same_scope xs ys \<Longrightarrow> map (\<lambda>p. (pi_item_id p, item_deps p)) xs = map (\<lambda>p. (pi_item_id p, item_deps p)) ys"
  unfolding same_scope_def item_deps_def
  by (drule arg_cong [where f = "map (\<lambda>(i, _, _, _, _, ds). (i, case ds of None \<Rightarrow> [] | Some ds \<Rightarrow> ds))"])
     (simp add: comp_def item_scope_def)

lemma same_scope_graph: "same_scope xs ys \<Longrightarrow> plan_graph xs = plan_graph ys"
  by (simp add: plan_graph_map same_scope_deps)

lemma same_scope_length: "same_scope xs ys \<Longrightarrow> length xs = length ys"
  by (auto dest: same_scope_ids map_eq_imp_length_eq)

lemma same_scope_replace:
  "(\<And>p. p \<in> set xs \<Longrightarrow> pi_item_id p = i \<Longrightarrow> item_scope (f p) = item_scope p) \<Longrightarrow>
     same_scope (replace_item i f xs) xs"
  unfolding same_scope_def by (rule replace_item_map)

lemma complete_same_scope:
  assumes "completeWorkPlanItemV2 s i oids now insp = Inr plan'" "sn_work_plan s = Some plan"
    "distinct (map pi_item_id (wp_items plan))"
  shows "same_scope (wp_items plan') (wp_items plan) \<and> wp_assumptions plan' = wp_assumptions plan"
  using assms(1)
proof (rule completeWorkPlanItemV2_cases, goal_cases)
  case (1 p item f)
  then have item: "plan_item_of (wp_items plan) i = Some item" and "plan' = plan\<lparr>wp_items := replace_item i f (wp_items plan)\<rparr>"
    using assms(2) by simp_all
  moreover have "item_scope (f q) = item_scope q" if "q \<in> set (wp_items plan)" "pi_item_id q = i" for q
    using plan_item_of_unique [OF assms(3) item that] 1(4,5)
    by (cases "is_inspection item") (auto simp: item_scope_def)
  ultimately show ?case by (simp add: same_scope_replace)
qed

text \<open>Completion keeps a plan well formed: credits stay distinct.\<close>

lemma complete_well_formed:
  assumes "completeWorkPlanItemV2 s i oids now insp = Inr plan'" "sn_work_plan s = Some plan"
    "well_formed_plan plan"
  shows "well_formed_plan plan'"
proof -
  let ?items = "wp_items plan"
  from assms(3) have ids: "distinct (map pi_item_id ?items)" and cr: "distinct (credited ?items)"
    by (simp_all add: well_formed_plan_def well_formed_items_def)
  have scope: "same_scope (wp_items plan') ?items" "wp_assumptions plan' = wp_assumptions plan"
    using complete_same_scope [OF assms(1,2) ids] by simp_all
  have "distinct (credited (wp_items plan'))"
    using assms(1)
  proof (rule completeWorkPlanItemV2_cases, goal_cases)
    case (1 p item f)
    then have item: "plan_item_of ?items i = Some item" and plan': "wp_items plan' = replace_item i f ?items"
      using assms(2) by simp_all
    show ?case
    proof (cases "is_inspection item")
      case True
      have "(if is_inspection (f q) then [] else pi_operation_ids (f q)) = (if is_inspection q then [] else pi_operation_ids q)"
        if "q \<in> set ?items" "pi_item_id q = i" for q
        using plan_item_of_unique [OF ids item that] 1(4) True by (simp add: is_inspection_def)
      then have "credited (wp_items plan') = credited ?items"
        unfolding credited_def plan' by (intro arg_cong [where f = concat] replace_item_map) simp
      with cr show ?thesis by simp
    next
      case False
      with 1 have f: "f = (\<lambda>c. c\<lparr>pi_operation_ids := sort oids, pi_completed_at := Some now\<rparr>)"
        and checks: "\<forall>oid \<in> set oids. first_failure
          (cited_operation_checks s item (concat (map pi_operation_ids ?items)) oid) = None"
        using assms(2) by simp_all
      have "oid \<notin> set (concat (map pi_operation_ids ?items))" if "oid \<in> set oids" for oid
        using checks that by (auto simp: cited_operation_checks_def split: option.splits)
      moreover have "set (credited ?items) \<subseteq> set (concat (map pi_operation_ids ?items))"
        by (auto simp: credited_def split: if_splits)
      ultimately have "set (sort oids) \<inter> set (credited ?items) = {}" by auto
      then show ?thesis
        unfolding plan' using ids cr 1(7) by (intro distinct_credited_replace [where xs = "sort oids"])
          (simp_all add: f is_inspection_def)
    qed
  qed
  with assms(3) scope same_scope_ids [OF scope(1)] same_scope_graph [OF scope(1)] same_scope_length [OF scope(1)]
  show ?thesis
    by (simp add: well_formed_plan_def well_formed_items_def plan_orderable_def)
qed

lemma deferWorkPlanItemV2_effect:
  assumes "deferWorkPlanItemV2 s i defer reason now = Inr plan'"
  obtains plan item where "sn_work_plan s = Some plan" "plan_item_of (wp_items plan) i = Some item"
    "\<not> truthy (pi_completed_at item)" "workPlanItemDeferredV2 item \<longleftrightarrow> \<not> defer"
    "plan' = plan\<lparr>wp_items := replace_item i
       (\<lambda>p. p\<lparr>pi_deferrals := Some (next_deferrals s item defer reason now)\<rparr>) (wp_items plan)\<rparr>"
  using assms by (auto simp: deferWorkPlanItemV2_def guard_simps split: option.splits if_splits)

lemma defer_well_formed:
  assumes "deferWorkPlanItemV2 s i defer reason now = Inr plan'" "sn_work_plan s = Some plan"
  shows "same_scope (wp_items plan') (wp_items plan)" "wp_assumptions plan' = wp_assumptions plan"
    "credited (wp_items plan') = credited (wp_items plan)"
    "well_formed_plan plan \<Longrightarrow> well_formed_plan plan'"
proof -
  from assms(1) obtain p item where "sn_work_plan s = Some p"
    "plan' = p\<lparr>wp_items := replace_item i
       (\<lambda>p. p\<lparr>pi_deferrals := Some (next_deferrals s item defer reason now)\<rparr>) (wp_items p)\<rparr>"
    by (rule deferWorkPlanItemV2_effect)
  with assms(2) have plan': "plan' = plan\<lparr>wp_items := replace_item i
       (\<lambda>p. p\<lparr>pi_deferrals := Some (next_deferrals s item defer reason now)\<rparr>) (wp_items plan)\<rparr>"
    by simp
  show scope: "same_scope (wp_items plan') (wp_items plan)"
    by (simp add: plan' same_scope_replace item_scope_def)
  show as: "wp_assumptions plan' = wp_assumptions plan" by (simp add: plan')
  show cr: "credited (wp_items plan') = credited (wp_items plan)"
    by (simp add: plan' credited_def replace_item_map is_inspection_def)
  show "well_formed_plan plan \<Longrightarrow> well_formed_plan plan'"
    using scope as cr same_scope_ids [OF scope] same_scope_graph [OF scope] same_scope_length [OF scope]
    by (simp add: well_formed_plan_def well_formed_items_def plan_orderable_def)
qed

end
