(* ===== verification/NativeProgress.thy ===== *)
theory NativeProgress
  imports WorkPlan
begin

text \<open>
  \<open>progress/native_work_progress.ts\<close>: which operations the native host demonstrably executed, the
  identity under which a commit or a verification counts as progress once, and the physical targets
  trusted reads observed after a commit. None of this proves that work is correct.
\<close>

section \<open>Retained native executions\<close>

definition fact_is :: "string \<Rightarrow> fact_value \<Rightarrow> semantic_fact \<Rightarrow> bool" where
  "fact_is i v f \<longleftrightarrow> fact_id f = i \<and> fact_value_of f = v"

definition domain_succeeded :: "observation \<Rightarrow> bool" where
  "domain_succeeded ob = list_ex (fact_is ''control.domain_succeeded'' (FOne (FBool True))) (obs_facts ob)"

definition execution_observed :: "snapshot \<Rightarrow> operation \<Rightarrow> operation_result \<Rightarrow> string \<Rightarrow> bool" where
  "execution_observed s p r i = (case rget (sn_observations s) i of
     None \<Rightarrow> False
   | Some ob \<Rightarrow> obs_authority ob = ''native-host'' \<and> obs_operation_id ob = op_id p
       \<and> obs_binding ob = op_binding p \<and> obs_capability_id ob = Some (op_capability_id p)
       \<and> obs_raw_payload_hash ob \<noteq> [] \<and> Some (obs_raw_payload_hash ob) = r_raw_payload_hash r
       \<and> domain_succeeded ob)"

definition retainedNativeExecutionSuccess :: "snapshot \<Rightarrow> operation \<Rightarrow> bool" where
  "retainedNativeExecutionSuccess s p \<longleftrightarrow>
     op_admission_state p = Admitted \<and> op_dispatch_state p = Dispatched \<and> op_settlement_state p = Settled
     \<and> op_binding p = sn_current_binding s
     \<and> result_is p (\<lambda>r. r_authority r = ''native-host'' \<and> r_status r = Succeeded
         \<and> r_dispatch_state r = Dispatched \<and> r_operation_id r = op_id p \<and> r_binding r = op_binding p
         \<and> r_result_semantic_gap r = None
         \<and> list_ex (execution_observed s p r) (op_observation_ids p))"

definition retainedNativeSuccess :: "snapshot \<Rightarrow> operation \<Rightarrow> bool" where
  "retainedNativeSuccess s p \<longleftrightarrow>
     op_id p \<notin> set (sn_input_invalidated_operation_ids s) \<and> retainedNativeExecutionSuccess s p"

definition hex_digest :: "string \<Rightarrow> bool" where
  "hex_digest s \<longleftrightarrow> lower_hex 64 (toLowerCase s)"

definition target_matches_subject :: "operation \<Rightarrow> operation \<Rightarrow> bool" where
  "target_matches_subject p subject \<longleftrightarrow> declared_target_strings p \<noteq> []
     \<and> list_all (\<lambda>t. operationMatchesTargetIdentityV2 subject [t]) (declared_target_strings p)"

definition evidence_retained :: "snapshot \<Rightarrow> operation \<Rightarrow> operation_result \<Rightarrow> string \<Rightarrow> bool" where
  "evidence_retained s p r i = (case rget (sn_observations s) i of
     None \<Rightarrow> False
   | Some ob \<Rightarrow> obs_authority ob = ''native-host'' \<and> obs_operation_id ob = op_id p
       \<and> obs_binding ob = op_binding p \<and> obs_capability_id ob = Some (op_capability_id p)
       \<and> obs_result_schema_id ob = r_result_schema_id r \<and> obs_raw_payload_ref ob \<noteq> []
       \<and> hex_digest (obs_raw_payload_hash ob) \<and> Some (obs_raw_payload_hash ob) = r_raw_payload_hash r
       \<and> time_le (date_parse (r_completed_at r)) (date_parse (obs_observed_at ob))
       \<and> domain_succeeded ob)"

definition retainedEvidence :: "snapshot \<Rightarrow> operation \<Rightarrow> bool" where
  "retainedEvidence s p = result_is p (\<lambda>r. list_ex (evidence_retained s p r) (op_observation_ids p))"

definition result_time :: "operation \<Rightarrow> int option" where
  "result_time p = (case op_result p of None \<Rightarrow> None | Some r \<Rightarrow> date_parse (r_completed_at r))"

definition attempted_verification :: "snapshot \<Rightarrow> operation \<Rightarrow> string \<Rightarrow> bool" where
  "attempted_verification s applied i = (case rget (sn_operations s) i of
     None \<Rightarrow> False
   | Some read \<Rightarrow> op_verification_of read = Some (op_id applied)
       \<and> op_purpose read = Verification \<and> op_fulfillment_role read = Some VerificationFulfillment
       \<and> op_requested_effect read = ReadEffect \<and> op_persistent_effect read = NoEffect
       \<and> result_is read (\<lambda>r. r_persistent_effect r = NoEffect \<and> r_native_transaction_state r = TxNotApplicable)
       \<and> retainedNativeSuccess s read \<and> retainedEvidence s read
       \<and> time_le (result_time applied) (date_parse (op_opened_at read))
       \<and> time_le (date_parse (op_opened_at read)) (result_time read)
       \<and> tg_document_fingerprint (op_target read) = tg_document_fingerprint (op_target applied)
       \<and> tg_document_fingerprint (op_target applied) = b_document_fingerprint (sn_current_binding s)
       \<and> target_matches_subject read applied)"

definition nativeVerificationAttemptIsRetainedV2 :: "snapshot \<Rightarrow> string \<Rightarrow> bool" where
  "nativeVerificationAttemptIsRetainedV2 s aid = (case rget (sn_operations s) aid of
     None \<Rightarrow> False
   | Some applied \<Rightarrow> op_requested_effect applied = ApplyEffect \<and> op_persistent_effect applied = AppliedEffect
       \<and> result_is applied (\<lambda>r. r_persistent_effect r = AppliedEffect
            \<and> r_native_transaction_state r = TxCommitted \<and> truthy (r_receipt_id r))
       \<and> retainedNativeSuccess s applied \<and> retainedEvidence s applied
       \<and> list_ex (attempted_verification s applied) (op_verification_operation_ids applied))"

section \<open>Progress identities\<close>

text \<open>
  \<open>canonicalJsonV2\<close> of the small object an identity is made of; two identities are compared as texts,
  here as values.
\<close>

definition opt_json :: "string option \<Rightarrow> json" where
  "opt_json v = (case v of None \<Rightarrow> JNull | Some t \<Rightarrow> JStr t)"

definition nativeModelCommitProgressIdentityV2 :: "snapshot \<Rightarrow> operation \<Rightarrow> bool \<Rightarrow> json option" where
  "nativeModelCommitProgressIdentityV2 s p historicalPacing =
     (case op_result p of
        None \<Rightarrow> None
      | Some r \<Rightarrow>
          if sp_requested_effect (sn_spec s) = ApplyEffect \<and> op_requested_effect p = ApplyEffect
             \<and> op_purpose p = Work \<and> op_fulfillment_role p = Some DelegatedTaskExecution
             \<and> op_persistent_effect p = AppliedEffect \<and> r_persistent_effect r = AppliedEffect
             \<and> r_native_transaction_state r = TxCommitted \<and> truthy (r_receipt_id r)
             \<and> (case r_affected_target_identities r of None \<Rightarrow> False | Some ts \<Rightarrow> ts \<noteq> [])
             \<and> (if historicalPacing then retainedNativeExecutionSuccess s p else retainedNativeSuccess s p)
          then Some (JObj [(''document'', opt_json (b_document_fingerprint (op_binding p))),
                           (''native_receipt'', opt_json (r_receipt_id r))])
          else None)"

text \<open>The checks on the tracked \<open>SaveAs\<close> request and its receipt.\<close>

definition checkpoint_commit :: "snapshot \<Rightarrow> operation \<Rightarrow> operation_result \<Rightarrow> request_identity \<Rightarrow> bool" where
  "checkpoint_commit s p r q \<longleftrightarrow>
     sp_requested_effect (sn_spec s) = ApplyEffect \<and> op_requested_effect p = ApplyEffect
     \<and> op_purpose p = Work \<and> op_fulfillment_role p = Some DelegatedTaskExecution
     \<and> op_persistent_effect p = AppliedEffect
     \<and> nativeDocumentCheckpointRequestMatchesV2 p (b_document_fingerprint (op_binding p))
     \<and> retainedNativeSuccess s p
     \<and> ri_method q = Some HttpPost \<and> rget (op_input p) ''path'' = map_option JStr (ri_path q)
     \<and> hex_digest (ri_request_signature q)
     \<and> map_option ri_request_signature (r_request_identity r) = Some (ri_request_signature q)
     \<and> truthy (r_receipt_id r) \<and> truthy (r_native_correlation_id r)
     \<and> (case rget (op_input p) ''body'' of
          None \<Rightarrow> False
        | Some b \<Rightarrow> json_field b ''dryRun'' \<noteq> Some (JBool True)
            \<and> (case json_field b ''filePath'' of
                 Some (JStr f) \<Rightarrow> length f \<le> 2000 \<and> \<not> list_ex is_control f
               | _ \<Rightarrow> False))
     \<and> time_le (date_parse (op_opened_at p)) (date_parse (r_completed_at r))"

definition preceding_commits :: "snapshot \<Rightarrow> operation \<Rightarrow> operation list" where
  "preceding_commits s p = filter (\<lambda>q. op_id q \<noteq> op_id p
      \<and> nativeModelCommitProgressIdentityV2 s q False \<noteq> None
      \<and> time_le (result_time q) (date_parse (op_opened_at p))) (rvals (sn_operations s))"

definition settled_version_or_0 :: "operation \<Rightarrow> int" where
  "settled_version_or_0 p = (case op_settled_version p of None \<Rightarrow> 0 | Some v \<Rightarrow> v)"

text \<open>
  The latest preceding commit: sorted by completion time and then by journal version, both
  descending, the order of equal elements kept. Every listed commit has a parsable time.
\<close>

definition latest_commit :: "operation list \<Rightarrow> operation option" where
  "latest_commit ps = (case sort_key (\<lambda>q. - the (result_time q)) (sort_key (\<lambda>q. - settled_version_or_0 q) ps)
     of [] \<Rightarrow> None | q # _ \<Rightarrow> Some q)"

definition nativeCommitProgressIdentityV2 :: "snapshot \<Rightarrow> operation \<Rightarrow> json option" where
  "nativeCommitProgressIdentityV2 s p =
     (case nativeModelCommitProgressIdentityV2 s p False of
        Some i \<Rightarrow> Some i
      | None \<Rightarrow> (case (op_result p, op_request_identity p) of
          (Some r, Some q) \<Rightarrow>
            if checkpoint_commit s p r q
            then Some (JObj [(''document'', opt_json (b_document_fingerprint (op_binding p))),
                   (''saved_native_change'', case latest_commit (preceding_commits s p) of
                      None \<Rightarrow> JStr ''initial_document''
                    | Some c \<Rightarrow> the (nativeModelCommitProgressIdentityV2 s c False))])
            else None
        | _ \<Rightarrow> None))"

definition nativeVerificationProgressIdentityV2 ::
  "snapshot \<Rightarrow> operation \<Rightarrow> string krecord \<Rightarrow> json option" where
  "nativeVerificationProgressIdentityV2 s p readIdentities =
     (case truthy_lookup (sn_operations s) (op_verification_of p) of
        None \<Rightarrow> None
      | Some subject \<Rightarrow> (case (nativeCommitProgressIdentityV2 s subject, rget readIdentities (op_id p)) of
          (Some native, Some read) \<Rightarrow>
            if read \<noteq> [] \<and> length read \<le> 100000
               \<and> op_purpose p = Verification \<and> op_requested_effect p = ReadEffect
               \<and> op_fulfillment_role p = Some VerificationFulfillment \<and> op_persistent_effect p = NoEffect
               \<and> result_is p (\<lambda>r. r_persistent_effect r = NoEffect \<and> r_native_transaction_state r = TxNotApplicable)
               \<and> op_id p \<in> set (op_verification_operation_ids subject) \<and> retainedNativeSuccess s p
               \<and> time_le (result_time subject) (date_parse (op_opened_at p))
               \<and> tg_document_fingerprint (op_target p) = tg_document_fingerprint (op_target subject)
               \<and> target_matches_subject p subject
            then Some (JObj [(''native_change'', native), (''read'', JStr read)])
            else None
        | _ \<Rightarrow> None))"

section \<open>Observed physical targets\<close>

definition NATIVE_OBSERVED_PHYSICAL_TARGETS_V1 :: string where
  "NATIVE_OBSERVED_PHYSICAL_TARGETS_V1 = ''control.native_observed_physical_targets''"

definition same_request_signature :: "operation \<Rightarrow> operation_result \<Rightarrow> bool" where
  "same_request_signature p r = (case op_request_identity p of
     None \<Rightarrow> False
   | Some q \<Rightarrow> ri_request_signature q \<noteq> []
       \<and> map_option ri_request_signature (r_request_identity r) = Some (ri_request_signature q))"

definition observing_mutation :: "snapshot \<Rightarrow> int \<Rightarrow> operation \<Rightarrow> bool" where
  "observing_mutation s declared p \<longleftrightarrow> nativeModelCommitProgressIdentityV2 s p True \<noteq> None
     \<and> result_time p \<noteq> None \<and> time_le (Some declared) (date_parse (op_opened_at p))
     \<and> result_is p (same_request_signature p)"

definition observing_read :: "snapshot \<Rightarrow> int \<Rightarrow> operation \<Rightarrow> bool" where
  "observing_read s declared p \<longleftrightarrow> op_requested_effect p = ReadEffect \<and> op_persistent_effect p = NoEffect
     \<and> retainedNativeExecutionSuccess s p
     \<and> result_is p (\<lambda>r. r_persistent_effect r = NoEffect \<and> r_native_transaction_state r = TxNotApplicable
         \<and> truthy (r_receipt_id r) \<and> truthy (r_native_correlation_id r) \<and> same_request_signature p r)
     \<and> time_le (Some declared) (date_parse (op_opened_at p))
     \<and> time_le (date_parse (op_opened_at p)) (result_time p)
     \<and> tg_document_fingerprint (op_target p) = b_document_fingerprint (sn_current_binding s)"

definition reported_physical_targets :: "operation \<Rightarrow> operation_result \<Rightarrow> observation \<Rightarrow> string list" where
  "reported_physical_targets p r ob =
     (if obs_authority ob = ''native-host'' \<and> obs_operation_id ob = op_id p \<and> obs_binding ob = op_binding p
         \<and> Some (obs_raw_payload_hash ob) = r_raw_payload_hash r \<and> obs_raw_payload_ref ob \<noteq> []
         \<and> obs_result_schema_id ob = r_result_schema_id r
      then (case filter (\<lambda>f. fact_id f = NATIVE_OBSERVED_PHYSICAL_TARGETS_V1
                \<and> fact_class_of f = Some ControlFact) (obs_facts ob) of
          [f] \<Rightarrow> (case fact_value_of f of
              FMany vs \<Rightarrow> if vs \<noteq> [] \<and> length vs \<le> 500 \<and> distinct vs
                  \<and> list_all (\<lambda>v. case v of FStr t \<Rightarrow> prefixed_numeral ''element_id:'' t | _ \<Rightarrow> False) vs
                then string_scalars vs else []
            | FOne _ \<Rightarrow> [])
        | _ \<Rightarrow> [])
      else [])"

definition observed_targets_of :: "snapshot \<Rightarrow> operation list \<Rightarrow> operation \<Rightarrow> string list" where
  "observed_targets_of s mutations read = (case op_result read of
     None \<Rightarrow> []
   | Some r \<Rightarrow>
       (let readTargets = concat (map operationTargetIdentityAliasesV2 (reportedOperationTargetIdentitiesV2 read)) in
        unique_sorted (filter (\<lambda>t.
            list_ex (\<lambda>a. a \<in> set readTargets) (operationTargetIdentityAliasesV2 t)
            \<and> list_ex (\<lambda>m. time_le (result_time m) (date_parse (op_opened_at read))
                 \<and> (case result_affected_targets m of None \<Rightarrow> False | Some ts \<Rightarrow> t \<in> set ts)) mutations)
          (concat (map (reported_physical_targets read r) (read_observations s read))))))"

definition observedNativeWorkReadEventsV1 :: "snapshot \<Rightarrow> (string \<times> string list) list" where
  "observedNativeWorkReadEventsV1 s =
     (case (Option.bind (sp_execution_policy (sn_spec s)) ep_progress_allowance, date_parse (sp_created_at (sn_spec s))) of
        (Some a, Some declared) \<Rightarrow>
          if sp_requested_effect (sn_spec s) = ApplyEffect \<and> pa_mode a = ObservedNativeWorkV1 then
            (let mutations = filter (observing_mutation s declared) (rvals (sn_operations s)) in
             concat (map (\<lambda>read. (let ts = observed_targets_of s mutations read in
                 case op_result read of
                   None \<Rightarrow> []
                 | Some r \<Rightarrow> if ts = [] then [] else [(r_completed_at r, ts)]))
               (filter (observing_read s declared) (rvals (sn_operations s)))))
          else []
      | _ \<Rightarrow> [])"

definition observedNativeWorkTargetIdentitiesV1 :: "snapshot \<Rightarrow> string list" where
  "observedNativeWorkTargetIdentitiesV1 s = unique_sorted (concat (map snd (observedNativeWorkReadEventsV1 s)))"

section \<open>Lemmas\<close>

text \<open>A commit's identity names its native receipt, so equal identities are one native transaction.\<close>

lemma nativeModelCommitProgressIdentityV2_receipt:
  assumes "nativeModelCommitProgressIdentityV2 s p h = Some i" "nativeModelCommitProgressIdentityV2 s q h' = Some i"
  shows "map_option r_receipt_id (op_result p) = map_option r_receipt_id (op_result q)"
  using assms
  by (auto simp: nativeModelCommitProgressIdentityV2_def opt_json_def truthy_def split: option.splits if_splits)

lemma nativeModelCommitProgressIdentityV2_effect:
  assumes "nativeModelCommitProgressIdentityV2 s p h = Some i"
  shows "op_requested_effect p = ApplyEffect \<and> op_persistent_effect p = AppliedEffect
    \<and> result_is p (\<lambda>r. r_native_transaction_state r = TxCommitted) \<and> retainedNativeExecutionSuccess s p"
  using assms
  by (auto simp: nativeModelCommitProgressIdentityV2_def result_is_def retainedNativeSuccess_def
      split: option.splits if_splits)

lemma observed_targets_changed:
  assumes "t \<in> set (observedNativeWorkTargetIdentitiesV1 s)"
  shows "\<exists>m \<in> set (rvals (sn_operations s)). op_requested_effect m = ApplyEffect \<and> op_persistent_effect m = AppliedEffect
    \<and> (\<exists>ts. result_affected_targets m = Some ts \<and> t \<in> set ts)"
proof -
  from assms obtain declared read where read: "read \<in> set (rvals (sn_operations s))"
    and t: "t \<in> set (observed_targets_of s (filter (observing_mutation s declared) (rvals (sn_operations s))) read)"
    by (auto simp: observedNativeWorkTargetIdentitiesV1_def observedNativeWorkReadEventsV1_def Let_def
        split: option.splits if_splits)
  then obtain m where "m \<in> set (rvals (sn_operations s))" "observing_mutation s declared m"
    and "case result_affected_targets m of None \<Rightarrow> False | Some ts \<Rightarrow> t \<in> set ts"
    by (auto simp: observed_targets_of_def Let_def list_ex_iff split: option.splits)
  moreover from this(2) obtain i where "nativeModelCommitProgressIdentityV2 s m True = Some i"
    by (auto simp: observing_mutation_def)
  note nativeModelCommitProgressIdentityV2_effect [OF this]
  ultimately show ?thesis
    by (intro bexI [of _ m]) (auto split: option.splits)
qed

end
