(* ===== verification/SavedPartial.thy ===== *)
theory SavedPartial
  imports NativeProgress
begin

text \<open>
  \<open>verified_saved_partial.ts\<close>: when a saved, independently verified part of a declared scope may be
  evaluated as partial although the rest of it is deferred.
\<close>

definition observation_bound_to :: "snapshot \<Rightarrow> operation \<Rightarrow> operation_result \<Rightarrow> string \<Rightarrow> bool" where
  "observation_bound_to s p r i = (case rget (sn_observations s) i of
     None \<Rightarrow> False
   | Some v \<Rightarrow> obs_authority v = ''native-host'' \<and> obs_operation_id v = op_id p
       \<and> obs_binding v = sn_current_binding s \<and> obs_capability_id v = Some (op_capability_id p)
       \<and> obs_result_schema_id v = r_result_schema_id r \<and> obs_raw_payload_ref v \<noteq> []
       \<and> hex_digest (obs_raw_payload_hash v) \<and> Some (obs_raw_payload_hash v) = r_raw_payload_hash r)"

definition boundNativeResult :: "snapshot \<Rightarrow> operation \<Rightarrow> bool" where
  "boundNativeResult s p = (case (op_result p, op_request_identity p) of
     (Some r, Some q) \<Rightarrow> retainedNativeSuccess s p
       \<and> truthy (r_receipt_id r) \<and> truthy (r_native_correlation_id r)
       \<and> ri_capability_id q = op_capability_id p
       \<and> input_text_is p ''method'' (map_option method_text (ri_method q)) \<and> input_text_is p ''path'' (ri_path q)
       \<and> hex_digest (ri_request_signature q)
       \<and> r_request_identity r = Some q
       \<and> op_observation_ids p \<noteq> [] \<and> list_all (observation_bound_to s p r) (op_observation_ids p)
   | _ \<Rightarrow> False)"

definition saved_partial_fences :: "snapshot \<Rightarrow> bool" where
  "saved_partial_fences s \<longleftrightarrow>
     sp_requested_effect (sn_spec s) = ApplyEffect \<and> sp_work_plan_required (sn_spec s)
     \<and> \<not> advisoryVerificationV2 s \<and> sn_quiescent s
     \<and> (case sn_execution_control s of None \<Rightarrow> True | Some x \<Rightarrow> xc_state x \<noteq> ControlPaused)
     \<and> sn_provider_usage_hold s = None \<and> \<not> sn_provider_budget_exhausted s \<and> sn_progress_blocker s = None
     \<and> sn_pending_input_variable_ids s = [] \<and> sn_pending_review_ids s = []
     \<and> sn_in_flight_operation_ids s = [] \<and> sn_in_flight_provider_call_ids s = []
     \<and> sn_unresolved_unknown_operation_ids s = [] \<and> sn_execution_failure_ids s = []
     \<and> sn_completion_proposal s = None
     \<and> (sp_result_delivery_required (sn_spec s) \<longrightarrow> sn_result_delivery s \<noteq> None)"

definition single_result_criterion :: "snapshot \<Rightarrow> bool" where
  "single_result_criterion s =
     (map cs_semantic_fact_requirements (filter cs_required (sp_criteria (sn_spec s))) = [[''task.result_available'']])"

definition deferred_item_ok :: "plan_item \<Rightarrow> bool" where
  "deferred_item_ok i \<longleftrightarrow> \<not> truthy (pi_completed_at i) \<and> \<not> is_inspection i \<and> pi_operation_ids i = []
     \<and> item_deferrals i \<noteq> [] \<and> nonblank (wd_reason (last (item_deferrals i)))
     \<and> finite_time (wd_deferred_at (last (item_deferrals i)))"

definition applied_edits :: "snapshot \<Rightarrow> operation list" where
  "applied_edits s = filter (\<lambda>p. op_requested_effect p = ApplyEffect \<and> op_persistent_effect p = AppliedEffect)
     (rvals (sn_operations s))"

definition saved_edit_ok :: "snapshot \<Rightarrow> string list \<Rightarrow> operation \<Rightarrow> bool" where
  "saved_edit_ok s represented p \<longleftrightarrow> op_id p \<in> set represented
     \<and> result_is p (\<lambda>r. r_authority r = ''native-host'' \<and> r_status r = Succeeded \<and> r_binding r = sn_current_binding s)
     \<and> op_settlement_state p = Settled \<and> op_binding p = sn_current_binding s
     \<and> boundNativeResult s p \<and> nativeCommitProgressIdentityV2 s p \<noteq> None
     \<and> op_id p \<notin> set (sn_input_invalidated_operation_ids s)
     \<and> appliedOperationHasVerifiedPostconditionV2 s (op_id p)"

definition saved_read_ok :: "snapshot \<Rightarrow> string \<Rightarrow> bool" where
  "saved_read_ok s i = (case rget (sn_operations s) i of
     None \<Rightarrow> False
   | Some p \<Rightarrow> (case op_result p of
       None \<Rightarrow> False
     | Some r \<Rightarrow> boundNativeResult s p \<and> i \<notin> set (sn_input_invalidated_operation_ids s)
         \<and> r_authority r = ''native-host'' \<and> r_status r = Succeeded
         \<and> op_requested_effect p = ReadEffect \<and> op_persistent_effect p = NoEffect \<and> r_persistent_effect r = NoEffect
         \<and> r_native_transaction_state r = TxNotApplicable \<and> op_settlement_state p = Settled
         \<and> op_binding p = sn_current_binding s \<and> r_binding r = sn_current_binding s
         \<and> op_observation_ids p \<noteq> []
         \<and> list_all (\<lambda>k. case rget (sn_observations s) k of
              None \<Rightarrow> False
            | Some ob \<Rightarrow> obs_operation_id ob = i \<and> obs_authority ob = ''native-host''
                \<and> obs_binding ob = sn_current_binding s \<and> Some (obs_raw_payload_hash ob) = r_raw_payload_hash r)
              (op_observation_ids p)))"

text \<open>
  The latest saved checkpoint. The order of unparsable times does not matter: one of them already
  makes the last conjunct of \<open>verifiedSavedPartialV2\<close> false.
\<close>

definition latest_checkpoint :: "operation list \<Rightarrow> operation option" where
  "latest_checkpoint applied =
     (case sort_key (\<lambda>p. case result_time p of None \<Rightarrow> 0 | Some t \<Rightarrow> - t)
        (filter (\<lambda>p. isNativeDocumentCheckpointRequestV2 p
           \<and> result_is p nativeDocumentCheckpointResultV2) applied)
      of [] \<Rightarrow> None | p # _ \<Rightarrow> Some p)"

definition verifiedSavedPartialV2 :: "snapshot \<Rightarrow> bool" where
  "verifiedSavedPartialV2 s =
     (let items = plan_items s;
          deferred = filter workPlanItemDeferredV2 items;
          finished = filter (\<lambda>i. \<not> workPlanItemDeferredV2 i) items;
          inspections = filter is_inspection finished;
          edits = filter (\<lambda>i. \<not> is_inspection i) finished;
          inspected = concat (map item_deps inspections);
          applied = applied_edits s;
          represented = concat (map pi_operation_ids edits);
          reads = concat (map pi_operation_ids inspections) @ concat (map op_verification_operation_ids applied) in
      saved_partial_fences s \<and> single_result_criterion s \<and> items \<noteq> []
      \<and> deferred \<noteq> [] \<and> list_all deferred_item_ok deferred
      \<and> finished \<noteq> [] \<and> list_all (\<lambda>i. truthy (pi_completed_at i) \<and> pi_operation_ids i \<noteq> []) finished
      \<and> inspections \<noteq> [] \<and> list_all (inspectionIsCurrentV2 s) inspections \<and> edits \<noteq> []
      \<and> list_all (\<lambda>i. pi_item_id i \<in> set inspected) edits
      \<and> 2 \<le> length applied \<and> length (remdups represented) = length applied
      \<and> list_all (saved_edit_ok s represented) applied
      \<and> list_all (saved_read_ok s) reads
      \<and> (case latest_checkpoint applied of
           None \<Rightarrow> False
         | Some saved \<Rightarrow> result_time saved \<noteq> None
             \<and> list_all (\<lambda>p. time_le (result_time p) (result_time saved)) applied
             \<and> list_ex (\<lambda>p. \<not> isNativeDocumentCheckpointRequestV2 p) applied))"

lemma verifiedSavedPartialV2D:
  assumes "verifiedSavedPartialV2 s"
  shows "saved_partial_fences s" "list_all (\<lambda>p. appliedOperationHasVerifiedPostconditionV2 s (op_id p)) (applied_edits s)"
    "2 \<le> length (applied_edits s)" "list_ex workPlanItemDeferredV2 (plan_items s)"
proof -
  from assms show "saved_partial_fences s" "2 \<le> length (applied_edits s)"
    unfolding verifiedSavedPartialV2_def Let_def by blast+
  from assms have "list_all (saved_edit_ok s (concat (map pi_operation_ids
      (filter (\<lambda>i. \<not> is_inspection i) (filter (\<lambda>i. \<not> workPlanItemDeferredV2 i) (plan_items s)))))) (applied_edits s)"
    unfolding verifiedSavedPartialV2_def Let_def by blast
  then show "list_all (\<lambda>p. appliedOperationHasVerifiedPostconditionV2 s (op_id p)) (applied_edits s)"
    by (rule list.pred_mono_strong) (simp add: saved_edit_ok_def)
  from assms have "filter workPlanItemDeferredV2 (plan_items s) \<noteq> []"
    unfolding verifiedSavedPartialV2_def Let_def by blast
  then show "list_ex workPlanItemDeferredV2 (plan_items s)"
    by (auto simp: list_ex_iff filter_empty_conv)
qed

end
