(* ===== verification/Outcome.thy ===== *)
theory Outcome
  imports SavedPartial
begin

text \<open>
  The second half of \<open>outcome.ts\<close>, \<open>progress/execution_failure.ts\<close>, \<open>criterion_projection.ts\<close> and the
  reducer's \<open>withDerivedState\<close>: what the retained state says the assignment's outcome is.
\<close>

section \<open>Execution failures\<close>

fun executionFailureCodeV2 :: "failure_class \<Rightarrow> string" where
  "executionFailureCodeV2 TransportFailure = ''provider_transport_failed''"
| "executionFailureCodeV2 CanceledFailure = ''execution_canceled''"
| "executionFailureCodeV2 ResourceExhaustedFailure = ''provider_resource_exhausted''"
| "executionFailureCodeV2 RuntimeFailure = ''assignment_runtime_failed''"
| "executionFailureCodeV2 ProviderFailure = ''provider_execution_failed''"

definition executionFailureOutcomeV2 :: "failure_class \<Rightarrow> assignment_outcome" where
  "executionFailureOutcomeV2 c = (if c = ProviderFailure \<or> c = RuntimeFailure then Failed else Blocked)"

section \<open>Outcome\<close>

definition requiredInputsKnown :: "snapshot \<Rightarrow> bool" where
  "requiredInputsKnown s \<longleftrightarrow> list_all (\<lambda>v. \<not> iv_required v \<or> iv_value_state v = ValueKnown
     \<or> rhas (sn_input_values s) (iv_variable_id v)) (assignmentInputVariablesV2 s)"

definition required_criteria :: "snapshot \<Rightarrow> criterion_spec list" where
  "required_criteria s = filter cs_required (sp_criteria (sn_spec s))"

definition requiredEvaluations :: "snapshot \<Rightarrow> criterion_evaluation list" where
  "requiredEvaluations s =
     concat (map (\<lambda>c. option_list (rget (sn_criteria s) (cs_criterion_id c))) (required_criteria s))"

definition some_status :: "criterion_status \<Rightarrow> criterion_evaluation list \<Rightarrow> bool" where
  "some_status st evs = list_ex (\<lambda>e. ce_status e = st) evs"

definition latest_failure :: "snapshot \<Rightarrow> execution_failure option" where
  "latest_failure s = (if sn_execution_failure_ids s = [] then None
     else truthy_lookup (sn_execution_failures s) (Some (last (sn_execution_failure_ids s))))"

definition work_finished :: "snapshot \<Rightarrow> bool" where
  "work_finished s = list_all (\<lambda>st. st \<in> {WuComplete, WuBlocked, WuFailed, WuRetained}) (rvals (sn_work_unit_states s))"

definition deriveAssignmentOutcomeV2 :: "snapshot \<Rightarrow> assignment_outcome" where
  "deriveAssignmentOutcomeV2 s =
     (let evs = requiredEvaluations s; specs = required_criteria s; applied = applied_edits s in
      if sn_pending_input_variable_ids s \<noteq> [] \<or> \<not> requiredInputsKnown s then AwaitingUserInput
      else if sn_pending_review_ids s \<noteq> [] \<and> (sn_completion_proposal s = None \<or> sn_quiescent s)
        then AwaitingUserReview
      else if \<not> sn_quiescent s then Active
      else if sn_progress_blocker s \<noteq> None then Blocked
      else if sn_unresolved_unknown_operation_ids s \<noteq> [] then Active
      else (case latest_failure s of
        Some f \<Rightarrow> executionFailureOutcomeV2 (ef_error_class f)
      | None \<Rightarrow>
        if sn_provider_budget_exhausted s then Failed
        else if sn_provider_usage_hold s \<noteq> None then Active
        else if advisoryVerificationV2 s
          then (if sn_completion_proposal s \<noteq> None then AwaitingUserReview else Active)
        else if specs = [] \<or> length evs \<noteq> length specs then Active
        else if some_status CsNeedsInput evs then AwaitingUserInput
        else if some_status CsNeedsReview evs then AwaitingUserReview
        else if some_status CsUncertain evs then Active
        else if some_status CsFailed evs then
          (if some_status CsPass evs then CompleteWithIssues
           else if list_ex (\<lambda>st. st = WuBlocked) (rvals (sn_work_unit_states s)) then Blocked else Failed)
        else if some_status CsPartial evs then
          (if work_finished s \<or> verifiedSavedPartialV2 s then CompleteWithIssues else Active)
        else if \<not> list_all (\<lambda>e. ce_status e = CsPass \<or> ce_status e = CsNotApplicable) evs then Active
        else if sp_result_delivery_required (sn_spec s) \<and> sn_result_delivery s = None then Active
        else if workPlanPendingV2 s then Active
        else if sp_requested_effect (sn_spec s) \<noteq> ApplyEffect then Complete
        else if applied \<noteq> [] \<and> list_all (\<lambda>p. appliedOperationHasVerifiedPostconditionV2 s (op_id p)) applied
          then Complete
        else if applied \<noteq> [] then Active
        else if list_ex (\<lambda>e. ce_basis e = DesiredStateEquivalence) evs then VerifiedNoop
        else Active))"

section \<open>Criterion projection\<close>

fun criterion_status_text :: "criterion_status \<Rightarrow> string" where
  "criterion_status_text CsPass = ''pass''"
| "criterion_status_text CsPartial = ''partial''"
| "criterion_status_text CsNeedsInput = ''needs_input''"
| "criterion_status_text CsNeedsReview = ''needs_review''"
| "criterion_status_text CsFailed = ''failed''"
| "criterion_status_text CsNotApplicable = ''not_applicable''"
| "criterion_status_text CsUncertain = ''uncertain''"

definition mergeEvaluation :: "criterion_evaluation option \<Rightarrow> criterion_evaluation \<Rightarrow> criterion_evaluation" where
  "mergeEvaluation previous n = (case previous of
     None \<Rightarrow> n
   | Some p \<Rightarrow>
       if ce_status p = ce_status n \<or> ce_status p \<in> {CsNeedsInput, CsNeedsReview, CsPartial, CsUncertain} then n
       else n\<lparr>ce_status := CsUncertain, ce_basis := PolicyBasis,
              ce_supporting_operation_ids := unique_sorted (ce_supporting_operation_ids p @ ce_supporting_operation_ids n),
              ce_supporting_facts := ce_supporting_facts p @ ce_supporting_facts n,
              ce_reason := ''Conflicting authoritative criterion evaluations: '' @ criterion_status_text (ce_status p)
                @ '' versus '' @ criterion_status_text (ce_status n) @ ''.''\<rparr>)"

definition ASSIGNMENT_VERIFICATION_WORK_UNIT_ID_V2 :: string where
  "ASSIGNMENT_VERIFICATION_WORK_UNIT_ID_V2 = ''work-verification''"

definition verification_unit_ids :: "snapshot \<Rightarrow> string list" where
  "verification_unit_ids s = ASSIGNMENT_VERIFICATION_WORK_UNIT_ID_V2
     # map op_work_unit_id (filter (\<lambda>p. op_purpose p = Verification) (rvals (sn_operations s)))"

definition unit_evaluations :: "snapshot \<Rightarrow> work_unit_spec \<Rightarrow> criterion_evaluation list" where
  "unit_evaluations s u = concat (map (\<lambda>c. option_list (rget (sn_criteria s) c)) (wu_criterion_ids u))"

definition unit_effect_verified :: "snapshot \<Rightarrow> work_unit_spec \<Rightarrow> criterion_evaluation list \<Rightarrow> bool" where
  "unit_effect_verified s u evs =
     (let applied = applied_edits s in
      applied = [] \<and> list_ex (\<lambda>e. ce_basis e = DesiredStateEquivalence) evs
      \<or> applied \<noteq> [] \<and> list_all (\<lambda>p. appliedOperationHasVerifiedPostconditionV2 s (op_id p)) applied)"

definition projected_unit_state :: "snapshot \<Rightarrow> work_unit_spec \<Rightarrow> work_unit_state option" where
  "projected_unit_state s u =
     (let evs = unit_evaluations s u in
      if wu_criterion_ids u = [] \<or> length evs \<noteq> length (wu_criterion_ids u) then None
      else if list_all (\<lambda>e. ce_status e = CsPass \<or> ce_status e = CsNotApplicable) evs then
        (if sp_requested_effect (sn_spec s) = ApplyEffect \<and> wu_id u \<in> set (verification_unit_ids s)
            \<and> \<not> unit_effect_verified s u evs
         then None else Some WuComplete)
      else if wu_safe_to_retain u \<and> list_ex (\<lambda>e. ce_status e = CsPass \<or> ce_status e = CsPartial) evs
        then Some WuRetained
      else None)"

definition projectWorkUnitCriteria :: "snapshot \<Rightarrow> snapshot" where
  "projectWorkUnitCriteria s = s\<lparr>sn_work_unit_states :=
     fold (\<lambda>u states. case projected_unit_state s u of None \<Rightarrow> states | Some st \<Rightarrow> rput (wu_id u) st states)
       (sp_work_units (sn_spec s)) (sn_work_unit_states s)\<rparr>"

section \<open>Derived state\<close>

definition in_flight_settlement :: "settlement_state \<Rightarrow> bool" where
  "in_flight_settlement st \<longleftrightarrow> st \<in> {SettleOpen, AwaitingResult, RetainingObservation}"

definition derived_in_flight :: "snapshot \<Rightarrow> string list" where
  "derived_in_flight s = sort (map op_id
     (filter (\<lambda>p. in_flight_settlement (op_settlement_state p)) (rvals (sn_operations s))))"

definition derived_unknown :: "snapshot \<Rightarrow> string list" where
  "derived_unknown s = sort (map op_id
     (filter (\<lambda>p. op_persistent_effect p = UnknownEffect) (rvals (sn_operations s))))"

definition derived_in_flight_calls :: "snapshot \<Rightarrow> string list" where
  "derived_in_flight_calls s = sort (map pc_call_id
     (filter (\<lambda>c. \<not> truthy (pc_completed_at c)) (rvals (sn_provider_calls s))))"

definition add_child :: "operation \<Rightarrow> string list krecord \<Rightarrow> string list krecord" where
  "add_child p children = (if truthy (op_parent_id p)
     then rput (the (op_parent_id p))
       ((case rget children (the (op_parent_id p)) of None \<Rightarrow> [] | Some cs \<Rightarrow> cs) @ [op_id p]) children
     else children)"

definition derived_children :: "snapshot \<Rightarrow> string list krecord" where
  "derived_children s = map (\<lambda>(k, cs). (k, sort cs)) (fold add_child (rvals (sn_operations s)) [])"

definition blocks_parent :: "operation \<Rightarrow> bool" where
  "blocks_parent p \<longleftrightarrow> op_blocks_parent_settlement p \<noteq> Some False \<and> op_settlement_state p \<noteq> Settled"

definition derived_blocking :: "snapshot \<Rightarrow> string list" where
  "derived_blocking s = sort (map op_id
     (filter (\<lambda>p. truthy (op_parent_id p) \<and> blocks_parent p) (rvals (sn_operations s))))"

definition with_relations :: "snapshot \<Rightarrow> snapshot" where
  "with_relations s = s\<lparr>
     sn_in_flight_operation_ids := derived_in_flight s,
     sn_in_flight_provider_call_ids := derived_in_flight_calls s,
     sn_operation_children := derived_children s,
     sn_blocking_child_operation_ids := derived_blocking s,
     sn_unresolved_unknown_operation_ids := derived_unknown s,
     sn_quiescent := (derived_in_flight s = [] \<and> derived_in_flight_calls s = [])\<rparr>"

definition withDerivedState :: "snapshot \<Rightarrow> snapshot" where
  "withDerivedState s =
     (let n = projectWorkUnitCriteria (with_relations s) in n\<lparr>sn_outcome := deriveAssignmentOutcomeV2 n\<rparr>)"

section \<open>What an outcome guarantees\<close>

definition everything_verified :: "snapshot \<Rightarrow> bool" where
  "everything_verified s \<longleftrightarrow> applied_edits s \<noteq> []
     \<and> list_all (\<lambda>p. appliedOperationHasVerifiedPostconditionV2 s (op_id p)) (applied_edits s)"

definition criteria_satisfied :: "snapshot \<Rightarrow> bool" where
  "criteria_satisfied s \<longleftrightarrow> required_criteria s \<noteq> []
     \<and> list_all (\<lambda>c. case rget (sn_criteria s) (cs_criterion_id c) of None \<Rightarrow> False
          | Some e \<Rightarrow> ce_status e = CsPass \<or> ce_status e = CsNotApplicable) (required_criteria s)"

text \<open>Nothing an assignment waits for: inputs, reviews, work in flight, unknown effects, failures, holds.\<close>

definition unencumbered :: "snapshot \<Rightarrow> bool" where
  "unencumbered s \<longleftrightarrow> sn_pending_input_variable_ids s = [] \<and> requiredInputsKnown s
     \<and> (sn_pending_review_ids s = [] \<or> sn_completion_proposal s \<noteq> None \<and> \<not> sn_quiescent s)
     \<and> sn_quiescent s \<and> sn_progress_blocker s = None \<and> sn_unresolved_unknown_operation_ids s = []
     \<and> latest_failure s = None \<and> \<not> sn_provider_budget_exhausted s \<and> sn_provider_usage_hold s = None
     \<and> \<not> advisoryVerificationV2 s"

lemma all_lookups_found:
  "length (concat (map (\<lambda>c. option_list (f c)) cs)) = length cs \<Longrightarrow> list_all P (concat (map (\<lambda>c. option_list (f c)) cs)) \<Longrightarrow>
     list_all (\<lambda>c. case f c of None \<Rightarrow> False | Some e \<Rightarrow> P e) cs"
proof (induction cs)
  case (Cons c cs)
  have le: "length (concat (map (\<lambda>c. option_list (f c)) cs)) \<le> length cs" for cs
    by (induction cs) (auto simp: option_list_def split: option.splits)
  show ?case
    using Cons le [of cs] by (cases "f c") (auto simp: option_list_def)
qed simp

lemma unencumbered_iff_reaches_criteria:
  "unencumbered s \<longleftrightarrow> \<not> (sn_pending_input_variable_ids s \<noteq> [] \<or> \<not> requiredInputsKnown s)
     \<and> \<not> (sn_pending_review_ids s \<noteq> [] \<and> (sn_completion_proposal s = None \<or> sn_quiescent s))
     \<and> sn_quiescent s \<and> sn_progress_blocker s = None \<and> sn_unresolved_unknown_operation_ids s = []
     \<and> latest_failure s = None \<and> \<not> sn_provider_budget_exhausted s \<and> sn_provider_usage_hold s = None
     \<and> \<not> advisoryVerificationV2 s"
  by (auto simp: unencumbered_def)

lemma executionFailureOutcomeV2_not_success [simp]:
  "executionFailureOutcomeV2 c \<noteq> Complete" "executionFailureOutcomeV2 c \<noteq> VerifiedNoop"
  "executionFailureOutcomeV2 c \<noteq> CompleteWithIssues" "executionFailureOutcomeV2 c \<noteq> Active"
  "executionFailureOutcomeV2 c \<noteq> AwaitingUserInput" "executionFailureOutcomeV2 c \<noteq> AwaitingUserReview"
  by (simp_all add: executionFailureOutcomeV2_def)

lemma outcome_success_unencumbered:
  assumes "deriveAssignmentOutcomeV2 s \<in> {Complete, CompleteWithIssues, VerifiedNoop}"
  shows "unencumbered s \<and> required_criteria s \<noteq> [] \<and> length (requiredEvaluations s) = length (required_criteria s)"
  using assms unfolding deriveAssignmentOutcomeV2_def Let_def unencumbered_iff_reaches_criteria
  by (simp split: if_split_asm option.splits)

lemma outcome_satisfied:
  assumes "deriveAssignmentOutcomeV2 s \<in> {Complete, VerifiedNoop}"
  shows "criteria_satisfied s" "\<not> workPlanPendingV2 s"
    "sp_result_delivery_required (sn_spec s) \<longrightarrow> sn_result_delivery s \<noteq> None"
proof -
  from assms have u: "required_criteria s \<noteq> []" "length (requiredEvaluations s) = length (required_criteria s)"
    using outcome_success_unencumbered [of s] by auto
  from assms have all: "list_all (\<lambda>e. ce_status e = CsPass \<or> ce_status e = CsNotApplicable) (requiredEvaluations s)"
    and rest: "\<not> workPlanPendingV2 s" "sp_result_delivery_required (sn_spec s) \<longrightarrow> sn_result_delivery s \<noteq> None"
    unfolding deriveAssignmentOutcomeV2_def Let_def by (simp_all split: if_split_asm option.splits)
  show "criteria_satisfied s"
    unfolding criteria_satisfied_def using u all all_lookups_found
    by (simp add: requiredEvaluations_def)
  show "\<not> workPlanPendingV2 s" "sp_result_delivery_required (sn_spec s) \<longrightarrow> sn_result_delivery s \<noteq> None"
    by (fact rest)+
qed

lemma outcome_complete_edits:
  assumes "deriveAssignmentOutcomeV2 s = Complete" "sp_requested_effect (sn_spec s) = ApplyEffect"
  shows "everything_verified s"
  using assms unfolding deriveAssignmentOutcomeV2_def Let_def everything_verified_def
  by (simp split: if_split_asm option.splits)

lemma outcome_noop_edits:
  assumes "deriveAssignmentOutcomeV2 s = VerifiedNoop"
  shows "applied_edits s = [] \<and> sp_requested_effect (sn_spec s) = ApplyEffect
    \<and> list_ex (\<lambda>e. ce_basis e = DesiredStateEquivalence) (requiredEvaluations s)"
  using assms unfolding deriveAssignmentOutcomeV2_def Let_def
  by (simp split: if_split_asm option.splits)

lemma outcome_with_issues:
  assumes "deriveAssignmentOutcomeV2 s = CompleteWithIssues"
  shows "some_status CsFailed (requiredEvaluations s) \<and> some_status CsPass (requiredEvaluations s)
    \<or> some_status CsPartial (requiredEvaluations s) \<and> (work_finished s \<or> verifiedSavedPartialV2 s)"
  using assms unfolding deriveAssignmentOutcomeV2_def Let_def
  by (simp split: if_split_asm option.splits)

section \<open>Merging evaluations\<close>

lemma mergeEvaluation_conflict:
  assumes "ce_status p \<noteq> ce_status n" "ce_status p \<in> {CsPass, CsFailed, CsNotApplicable}"
  shows "ce_status (mergeEvaluation (Some p) n) = CsUncertain"
    and "set (ce_supporting_facts (mergeEvaluation (Some p) n)) = set (ce_supporting_facts p) \<union> set (ce_supporting_facts n)"
  using assms by (auto simp: mergeEvaluation_def)

lemma mergeEvaluation_criterion: "ce_criterion_id (mergeEvaluation p n) = ce_criterion_id n"
  by (cases p) (simp_all add: mergeEvaluation_def)

lemma mergeEvaluation_pass:
  assumes "ce_status (mergeEvaluation prev n) = CsPass"
  shows "mergeEvaluation prev n = n \<and> ce_status n = CsPass"
  using assms by (cases prev) (auto simp: mergeEvaluation_def split: if_splits)

end
