(* ===== verification/NativeContinuation.thy ===== *)
theory NativeContinuation
  imports JsonRecords
begin

text \<open>
  \<open>native-continuation.js\<close> and \<open>schedule-filter-state.js\<close> of the kernel contract package: the decoding of
  native requests and of the payloads the native host returned for them. Nothing here decides admission
  or trusts an observation.
\<close>

section \<open>Requests sent as they were admitted\<close>

text \<open>A \<open>POST\<close> whose input repeats the method and the path of its request identity.\<close>

definition posted_as_admitted :: "operation \<Rightarrow> bool" where
  "posted_as_admitted p \<longleftrightarrow> request_method p = Some ''POST'' \<and> input_text_is p ''method'' (request_method p)
     \<and> input_text_is p ''path'' (request_path p)"

definition body_of :: "operation \<Rightarrow> json_object" where
  "body_of p = sub_row (op_input p) ''body''"

definition hex_char_i :: "char \<Rightarrow> bool" where
  "hex_char_i c \<longleftrightarrow> is_lower_hex (to_lower_char c)"

text \<open>\<open>/^[a-f0-9]{32}$/i\<close> and \<open>/^[A-Za-z0-9_-]{16,160}$/\<close>\<close>

definition session_text :: "string \<Rightarrow> bool" where
  "session_text t \<longleftrightarrow> length t = 32 \<and> list_all hex_char_i t"

definition unique_id_text :: "string \<Rightarrow> bool" where
  "unique_id_text t \<longleftrightarrow> 16 \<le> length t \<and> length t \<le> 160
     \<and> list_all (\<lambda>c. is_alnum c \<or> c = CHR ''_'' \<or> c = CHR ''-'') t"

section \<open>Source inventories\<close>

text \<open>\<open>typeof v === 'string' ? v.trim().toLowerCase() : v ?? dflt\<close>; \<open>None\<close> for any other value.\<close>

definition lowered :: "json_object \<Rightarrow> string \<Rightarrow> string \<Rightarrow> string option" where
  "lowered v k dflt = (case map_of v k of
      None \<Rightarrow> Some dflt
    | Some JNull \<Rightarrow> Some dflt
    | Some (JStr t) \<Rightarrow> Some (toLowerCase (js_trim t))
    | _ \<Rightarrow> None)"

definition requested_max :: "json_object \<Rightarrow> int option" where
  "requested_max body = (if jnullish body ''max'' then Some 200 else positive_field body ''max'')"

definition nativeSourceInventoryRequestV1 :: "operation \<Rightarrow> (string \<times> int) option" where
  "nativeSourceInventoryRequestV1 p =
     (let body = body_of p; action = lowered body ''action'' ''list''; kind = lowered body ''kind'' ''regular'' in
      if op_requested_effect p = ReadEffect \<and> posted_as_admitted p \<and> request_path p = Some ''/revit/schedules''
         \<and> action \<in> {Some ''list'', Some ''circuits''} \<and> jnullish body ''scheduleId''
         \<and> (jnullish body ''query'' \<or> jfield_is body ''query'' (js_string (\<lambda>t. js_trim t = [])))
         \<and> (jnullish body ''offset'' \<or> jnumber body ''offset'' 0)
      then (case requested_max body of
          None \<Rightarrow> None
        | Some mx \<Rightarrow>
            if action = Some ''circuits'' then (if jnullish body ''kind'' \<and> mx \<le> 500 then Some (''power_circuits'', mx) else None)
            else (case kind of
                None \<Rightarrow> None
              | Some k \<Rightarrow> if k \<in> {''regular'', ''panel'', ''all''} \<and> mx \<le> 2000 then Some (k, mx) else None))
      else None)"

definition inventory_page_ok :: "json_object \<Rightarrow> string \<Rightarrow> int \<Rightarrow> bool" where
  "inventory_page_ok p kind mx \<longleftrightarrow> jtext p ''status'' ''Ok'' \<and> jnumber p ''offset'' 0 \<and> jnumber p ''max'' mx
     \<and> (case positive_field p ''matched'' of None \<Rightarrow> False | Some n \<Rightarrow> n \<le> mx \<and> jnumber p ''returned'' n)
     \<and> jflag p ''complete'' True \<and> jflag p ''hasMore'' False \<and> jnull p ''nextOffset''
     \<and> (if kind = ''power_circuits''
        then jtext p ''schema'' ''operator.electrical_circuit_inventory.v1'' \<and> jtext p ''scope'' ''project_power_circuits''
          \<and> jflag p ''read_only'' True
        else jtext p ''schema'' ''operator.schedule_inventory.v1'' \<and> jtext p ''action'' ''list'' \<and> jtext p ''kind'' kind
          \<and> jnull p ''query'')"

definition schedule_row_ok :: "string \<Rightarrow> json_object \<Rightarrow> bool" where
  "schedule_row_ok kind v \<longleftrightarrow> jfield_is v ''isTemplate'' js_bool
     \<and> (jtext v ''kind'' ''schedule'' \<or> jtext v ''kind'' ''panel_schedule'')
     \<and> (kind = ''panel'' \<longrightarrow> jtext v ''kind'' ''panel_schedule'') \<and> (kind = ''regular'' \<longrightarrow> jtext v ''kind'' ''schedule'')
     \<and> (jtext v ''kind'' ''panel_schedule'' \<longrightarrow> \<not> jflag v ''isTemplate'' True \<and> positive_field v ''panelElementId'' \<noteq> None
          \<and> jfield_is v ''panelUniqueId'' (js_string unique_id_text))"

definition inventory_row_ok :: "string \<Rightarrow> json_object \<Rightarrow> bool" where
  "inventory_row_ok kind v \<longleftrightarrow> positive_field v ''id'' \<noteq> None \<and> jfield_is v ''uniqueId'' (js_string unique_id_text)
     \<and> (if kind = ''power_circuits''
        then jfield_is v ''circuitType'' (js_string (\<lambda>t. t \<in> {''Circuit'', ''Spare'', ''Space''}))
        else schedule_row_ok kind v)"

definition counts_as_item :: "string \<Rightarrow> json_object \<Rightarrow> bool" where
  "counts_as_item kind v \<longleftrightarrow>
     (if kind = ''power_circuits'' then jtext v ''circuitType'' ''Circuit'' else jflag v ''isTemplate'' False)"

text \<open>The kind of the inventory and the number of items a complete page of it holds.\<close>

definition nativeSourceInventoryWorkloadV1 :: "operation \<Rightarrow> json \<Rightarrow> (string \<times> int) option" where
  "nativeSourceInventoryWorkloadV1 op raw =
     (case nativeSourceInventoryRequestV1 op of
        None \<Rightarrow> None
      | Some (kind, mx) \<Rightarrow>
          (let p = jrow raw in
           if \<not> inventory_page_ok p kind mx then None
           else (case map_of p ''items'' of
               Some (JArr items) \<Rightarrow>
                 (let rows = map jrow items; n = int (length (filter (counts_as_item kind) rows)) in
                  if jnumber p ''returned'' (int (length items)) \<and> list_all (inventory_row_ok kind) rows
                     \<and> distinct (map (\<lambda>v. positive_field v ''id'') rows) \<and> distinct (map (\<lambda>v. map_of v ''uniqueId'') rows)
                     \<and> 0 < n
                  then Some (kind, n) else None)
             | _ \<Rightarrow> None)))"

section \<open>View templates\<close>

definition idText :: "json option \<Rightarrow> int option" where
  "idText v = (case v of
      Some (JStr t) \<Rightarrow> if positive_digits t then
          (case number_of_digits t of Some n \<Rightarrow> if isSafeInteger n then Some n else None | None \<Rightarrow> None) else None
    | _ \<Rightarrow> None)"

record parameter_change =
  ch_element_id :: int
  ch_value :: int
  ch_expected_old_value :: int

text \<open>
  The two identifiers are kept as numbers; \<open>idText\<close> reads each from its only decimal text, so the texts
  differ just when the numbers do.
\<close>

definition nativeTemplateParameterChangeV1 :: "operation \<Rightarrow> parameter_change option" where
  "nativeTemplateParameterChangeV1 p =
     (let body = (if op_capability_id p = ''revit_set_parameters'' then op_input p else body_of p) in
      (case map_of body ''changes'' of
         Some (JArr [x]) \<Rightarrow>
           (let c = jrow x in
            (case (positive_field c ''elementId'', idText (map_of c ''value''), idText (map_of c ''expectedOldValue'')) of
               (Some e, Some v, Some old) \<Rightarrow>
                 if jflag body ''apply'' True \<and> jflag body ''dryRun'' False
                    \<and> only_fields [''elementId'', ''parameterName'', ''value'', ''expectedOldValue''] c
                    \<and> jtext c ''parameterName'' ''View Template''
                    \<and> map_of c ''value'' \<noteq> map_of c ''expectedOldValue''
                 then Some \<lparr>ch_element_id = e, ch_value = v, ch_expected_old_value = old\<rparr> else None
             | _ \<Rightarrow> None))
       | _ \<Rightarrow> None))"

datatype template_request =
    TypedParameter int int int
  | NativeParameter int int int
  | NativeVisibility int string

fun template_view :: "template_request \<Rightarrow> int" where
  "template_view (TypedParameter v old new) = v"
| "template_view (NativeParameter v old new) = v"
| "template_view (NativeVisibility v name) = v"

fun is_typed :: "template_request \<Rightarrow> bool" where
  "is_typed (TypedParameter v old new) = True"
| "is_typed _ = False"

fun is_native_parameter :: "template_request \<Rightarrow> bool" where
  "is_native_parameter (NativeParameter v old new) = True"
| "is_native_parameter _ = False"

definition target_is :: "operation \<Rightarrow> int \<Rightarrow> bool" where
  "target_is p n \<longleftrightarrow> tg_target_id (op_target p) = Some (''id:'' @ int_text n)"

definition applies_own_request :: "operation \<Rightarrow> bool" where
  "applies_own_request p \<longleftrightarrow> op_requested_effect p = ApplyEffect
     \<and> (case op_request_identity p of None \<Rightarrow> False
        | Some q \<Rightarrow> ri_capability_id q = op_capability_id p \<and> ri_request_signature q \<noteq> [])"

definition parameter_request :: "operation \<Rightarrow> template_request option" where
  "parameter_request p = (case nativeTemplateParameterChangeV1 p of
      None \<Rightarrow> None
    | Some c \<Rightarrow>
        if \<not> target_is p (ch_element_id c) then None
        else if op_capability_id p = ''revit_set_parameters'' then
          (if role_or_root p = RootRole \<and> request_method p = None \<and> \<not> truthy (request_path p)
           then Some (TypedParameter (ch_element_id c) (ch_expected_old_value c) (ch_value c)) else None)
        else if posted_as_admitted p
          then Some (NativeParameter (ch_element_id c) (ch_expected_old_value c) (ch_value c)) else None)"

definition visibility_request :: "operation \<Rightarrow> template_request option" where
  "visibility_request p =
     (let body = body_of p in
      (case (positive_field body ''viewId'', map_of body ''templateName'') of
         (Some v, Some (JStr name)) \<Rightarrow>
           if role_or_root p = RootRole \<and> posted_as_admitted p \<and> request_path p = Some ''/revit/visibility''
              \<and> jtext body ''action'' ''set_template'' \<and> js_trim name \<noteq> [] \<and> \<not> jflag body ''dryRun'' True
              \<and> target_is p v
           then Some (NativeVisibility v (toLowerCase (js_trim name))) else None
       | _ \<Rightarrow> None))"

definition nativeTemplateRequestV1 :: "operation \<Rightarrow> template_request option" where
  "nativeTemplateRequestV1 p =
     (if \<not> applies_own_request p then None
      else if op_capability_id p = ''revit_set_parameters'' \<or> request_path p = Some ''/revit/set-parameter''
        then parameter_request p
      else visibility_request p)"

definition single_change_verified :: "json_object \<Rightarrow> bool" where
  "single_change_verified p \<longleftrightarrow> jtext p ''status'' ''Applied and Verified'' \<and> jflag p ''dryRun'' False
     \<and> jtext (sub_row p ''transaction'') ''status'' ''committed'' \<and> jflag (sub_row p ''transaction'') ''committed'' True
     \<and> jnumber p ''requestedCount'' 1 \<and> jnumber p ''effectiveCount'' 1 \<and> jnumber p ''excludedCount'' 0
     \<and> jnumber p ''changedCount'' 1 \<and> jnumber p ''writeFailedCount'' 0 \<and> jflag p ''verificationPerformed'' True
     \<and> jnumber p ''verifiedCount'' 1 \<and> jnumber p ''verificationFailedCount'' 0
     \<and> map_of p ''unresolvedElementIds'' = Some (JArr []) \<and> map_of p ''missingAfterElementIds'' = Some (JArr [])"

definition template_check_ok :: "json_object \<Rightarrow> int \<Rightarrow> int \<Rightarrow> bool" where
  "template_check_ok c view new \<longleftrightarrow> jnumber c ''elementId'' view \<and> jtext c ''parameterName'' ''View Template''
     \<and> jtext c ''status'' ''verified'' \<and> jnullish c ''error'' \<and> jtext c ''expectedValue'' (int_text new)
     \<and> jtext (sub_row c ''actual'') ''storageType'' ''ElementId'' \<and> jnumber (sub_row c ''actual'') ''value'' new"

definition template_diff_ok :: "json_object \<Rightarrow> int \<Rightarrow> int \<Rightarrow> int \<Rightarrow> bool" where
  "template_diff_ok d view old new \<longleftrightarrow> jnumber d ''elementId'' view \<and> jtext d ''parameterName'' ''View Template''
     \<and> jflag d ''ok'' True \<and> jflag d ''changed'' True
     \<and> jtext (sub_row d ''after'') ''storageType'' ''ElementId'' \<and> jnumber (sub_row d ''after'') ''value'' new
     \<and> jtext (sub_row d ''before'') ''storageType'' ''ElementId'' \<and> jnumber (sub_row d ''before'') ''value'' old"

text \<open>The view and the template it is proven to have.\<close>

definition nativeTemplateResultStateV1 :: "operation \<Rightarrow> json \<Rightarrow> (int \<times> int) option" where
  "nativeTemplateResultStateV1 op raw =
     (let p = jrow raw; view = sub_row p ''view'' in
      (case nativeTemplateRequestV1 op of
         Some (NativeParameter v old new) \<Rightarrow>
           (case (map_of p ''verification'', map_of p ''diffs'') of
              (Some (JArr [c]), Some (JArr [d])) \<Rightarrow>
                if single_change_verified p \<and> template_check_ok (jrow c) v new \<and> template_diff_ok (jrow d) v old new
                then Some (v, new) else None
            | _ \<Rightarrow> None)
       | Some (NativeVisibility v name) \<Rightarrow>
           (case positive_field view ''viewTemplateId'' of
              None \<Rightarrow> None
            | Some t \<Rightarrow>
                if jflag p ''success'' True \<and> jtext p ''action'' ''set_template'' \<and> jflag p ''dryRun'' False
                   \<and> jtext (sub_row p ''transaction'') ''status'' ''committed'' \<and> jnumber view ''id'' v
                   \<and> jfield_is view ''viewTemplate'' (js_string (\<lambda>n. toLowerCase (js_trim n) = name))
                then Some (v, t) else None)
       | _ \<Rightarrow> None))"

section \<open>Family sessions\<close>

datatype family_request = OpenFamily | CloseWithoutSave string

definition nativeFamilySessionRequestV1 :: "operation \<Rightarrow> family_request option" where
  "nativeFamilySessionRequestV1 p =
     (let body = body_of p in
      if \<not> posted_as_admitted p then None
      else if request_path p \<in> {Some ''/revit/open-family-doc'', Some ''/revit/edit-family-from-instance''} then Some OpenFamily
      else (case (if jnullish body ''docId'' then map_of body ''familyDocumentId'' else map_of body ''docId'') of
          Some (JStr i) \<Rightarrow>
            if request_path p = Some ''/revit/close-doc'' \<and> jflag body ''saveChanges'' False \<and> session_text i
            then Some (CloseWithoutSave i) else None
        | _ \<Rightarrow> None))"

section \<open>Schedule filters\<close>

definition FILTER_OPS :: "(string \<times> string) list" where
  "FILTER_OPS = [(''equals'', ''Equal''), (''not_equals'', ''NotEqual''), (''contains'', ''Contains''),
     (''not_contains'', ''NotContains''), (''begins_with'', ''BeginsWith''), (''ends_with'', ''EndsWith''),
     (''has_value'', ''HasValue''), (''has_no_value'', ''HasNoValue'')]"

definition rule_op :: "bool \<Rightarrow> json_object \<Rightarrow> string option" where
  "rule_op native f = (case map_of f ''op'' of
      Some (JStr t) \<Rightarrow> if native then map_option fst (find (\<lambda>kv. snd kv = t) FILTER_OPS)
                       else if t \<in> set (map fst FILTER_OPS) then Some t else None
    | _ \<Rightarrow> None)"

fun rule_value :: "json \<Rightarrow> bool" where
  "rule_value (JStr t) = (length t \<le> 8192)"
| "rule_value (JNum q) = True"
| "rule_value _ = False"

definition filter_rule :: "bool \<Rightarrow> json \<Rightarrow> json option" where
  "filter_rule native item =
     (let f = jrow item in
      (case (field_int f ''fieldId'', rule_op native f) of
         (Some n, Some op) \<Rightarrow>
           (let no_value = (op = ''has_value'' \<or> op = ''has_no_value'') in
            if 0 \<le> n \<and> (no_value \<or> jfield_is f ''value'' rule_value)
               \<and> (native \<or> only_fields [''fieldId'', ''op'', ''value'', ''valueType''] f)
            then Some (JArr [JNum (of_int n), JStr op,
              if no_value then JNull else (case map_of f ''value'' of Some v \<Rightarrow> v | None \<Rightarrow> JNull)])
            else None)
       | _ \<Rightarrow> None))"

fun filter_rules :: "bool \<Rightarrow> json list \<Rightarrow> json list option" where
  "filter_rules native [] = Some []"
| "filter_rules native (x # xs) = (case filter_rule native x of
     None \<Rightarrow> None
   | Some r \<Rightarrow> map_option ((#) r) (filter_rules native xs))"

definition rules_text :: "kernel_env \<Rightarrow> json option \<Rightarrow> bool \<Rightarrow> string option" where
  "rules_text env v native = (case v of
      Some (JArr xs) \<Rightarrow>
        if length xs \<le> 8 then map_option (\<lambda>rs. json_text (number_text env) (JArr rs)) (filter_rules native xs) else None
    | _ \<Rightarrow> None)"

text \<open>The schedule and the text of its requested filters.\<close>

definition nativeScheduleFilterRequestV1 :: "kernel_env \<Rightarrow> operation \<Rightarrow> (int \<times> string) option" where
  "nativeScheduleFilterRequestV1 env p =
     (let body = body_of p in
      (case (positive_field body ''scheduleId'', rules_text env (map_of body ''filters'') False) of
         (Some i, Some state) \<Rightarrow>
           if applies_own_request p \<and> role_or_root p = RootRole \<and> posted_as_admitted p
              \<and> request_path p = Some ''/revit/configure-schedule'' \<and> target_is p i
              \<and> jflag body ''replaceFilters'' True \<and> jflag body ''dryRun'' False
              \<and> (jnullish body ''replaceSortGroup'' \<or> jflag body ''replaceSortGroup'' False)
              \<and> only_fields [''scheduleId'', ''filters'', ''replaceFilters'', ''replaceSortGroup'', ''dryRun''] body
           then Some (i, state) else None
       | _ \<Rightarrow> None))"

definition filter_change_committed :: "json_object \<Rightarrow> int \<Rightarrow> bool" where
  "filter_change_committed p i \<longleftrightarrow>
     (case map_of p ''error'' of None \<Rightarrow> True | Some e \<Rightarrow> \<not> js_truthy e)
     \<and> \<not> jflag p ''truncated'' True \<and> jflag p ''success'' True \<and> jtext p ''status'' ''Success'' \<and> jflag p ''dryRun'' False
     \<and> jnumber (sub_row p ''schedule'') ''id'' i \<and> jfield_is (sub_row p ''schedule'') ''uniqueId'' (js_string (\<lambda>t. t \<noteq> []))
     \<and> jtext (sub_row p ''transaction'') ''status'' ''committed'' \<and> jflag (sub_row p ''transaction'') ''committed'' True
     \<and> jflag (sub_row p ''changeTracking'') ''documentChangedObserved'' True
     \<and> jflag (sub_row p ''changeTracking'') ''exhaustiveChangeInventory'' True
     \<and> jnumber (sub_row p ''changeTracking'') ''captureFailureCount'' 0"

definition nativeScheduleFilterResultStateV1 :: "kernel_env \<Rightarrow> operation \<Rightarrow> json \<Rightarrow> (int \<times> string) option" where
  "nativeScheduleFilterResultStateV1 env op raw =
     (case nativeScheduleFilterRequestV1 env op of
        None \<Rightarrow> None
      | Some (i, state) \<Rightarrow>
          (let p = jrow raw in
           if filter_change_committed p i \<and> rules_text env (map_of p ''filterReadback'') True = Some state
           then Some (i, state) else None))"

section \<open>Lemmas\<close>

text \<open>What was read back is what was asked for.\<close>

lemma filter_result_is_request:
  "nativeScheduleFilterResultStateV1 env op raw = Some x \<Longrightarrow> nativeScheduleFilterRequestV1 env op = Some x"
  by (auto simp: nativeScheduleFilterResultStateV1_def Let_def split: option.splits if_splits)

lemma template_result_is_request:
  "nativeTemplateResultStateV1 op raw = Some (v, t)
     \<Longrightarrow> \<exists>q. nativeTemplateRequestV1 op = Some q \<and> template_view q = v \<and> \<not> is_typed q"
  by (auto simp: nativeTemplateResultStateV1_def Let_def split: option.splits template_request.splits json.splits list.splits if_splits)

text \<open>The item count of a workload is positive and within the requested page.\<close>

lemma inventory_workload_bounds:
  assumes "nativeSourceInventoryWorkloadV1 op raw = Some (kind, n)"
  shows "\<exists>mx. nativeSourceInventoryRequestV1 op = Some (kind, mx) \<and> 0 < n \<and> n \<le> mx \<and> mx \<le> 2000"
proof -
  obtain mx items where r: "nativeSourceInventoryRequestV1 op = Some (kind, mx)" "inventory_page_ok (jrow raw) kind mx"
      "map_of (jrow raw) ''items'' = Some (JArr items)" "jnumber (jrow raw) ''returned'' (int (length items))"
      "n = int (length (filter (counts_as_item kind) (map jrow items)))" "0 < n"
    using assms by (auto simp: nativeSourceInventoryWorkloadV1_def Let_def filter_map split: option.splits prod.splits json.splits if_splits)
  have "int (length items) \<le> mx"
    using r(2,4) by (auto simp: inventory_page_ok_def jnumber_def split: option.splits)
  moreover have "n \<le> int (length items)" using r(5) length_filter_le [of "counts_as_item kind" "map jrow items"] by simp
  moreover have "mx \<le> 2000"
    using r(1) by (auto simp: nativeSourceInventoryRequestV1_def Let_def split: option.splits if_splits)
  ultimately show ?thesis using r(1,6) by (metis order_trans)
qed

text \<open>A typed parameter request is a root operation, so it can have no parent of its own kind.\<close>

lemma typed_request_root:
  "nativeTemplateRequestV1 p = Some q \<Longrightarrow> is_typed q \<Longrightarrow> role_or_root p = RootRole"
  by (auto simp: nativeTemplateRequestV1_def parameter_request_def visibility_request_def Let_def
      split: option.splits json.splits if_splits)

end
