(* ===== verification/NativeReaders.thy ===== *)
theory NativeReaders
  imports ExecutionPolicy NativeContinuation
begin

text \<open>
  What the reducer keeps of a retained native payload before the payload leaves the snapshot: the
  dependencies a rolled-back write failed on (\<open>native_failure_context.ts\<close> and
  \<open>nativeFailureDependencyLinksV1\<close>), the size of a source inventory (\<open>native_inventory_workload.ts\<close>), the
  template of a view (\<open>template_reassignment.ts\<close>) and the filters of a schedule
  (\<open>schedule_filter_restoration.ts\<close>).
\<close>

section \<open>Shared readings of an operation\<close>

text \<open>The operation is bound to a document and its target is in that document.\<close>

definition bound_to_document :: "operation \<Rightarrow> bool" where
  "bound_to_document p \<longleftrightarrow> truthy (b_document_fingerprint (op_binding p))
     \<and> tg_document_fingerprint (op_target p) = b_document_fingerprint (op_binding p)"

definition no_result_gaps :: "operation_result \<Rightarrow> bool" where
  "no_result_gaps r \<longleftrightarrow> r_input_schema_gap r = None \<and> r_result_semantic_gap r = None"

definition host_receipt :: "operation_result \<Rightarrow> bool" where
  "host_receipt r \<longleftrightarrow> truthy (r_receipt_id r) \<and> truthy (r_native_correlation_id r)"

text \<open>The result answers exactly this operation's native request, and its retained payload has the hash it names.\<close>

definition answers_request :: "operation \<Rightarrow> operation_result \<Rightarrow> bool" where
  "answers_request p r \<longleftrightarrow> r_operation_id r = op_id p \<and> r_binding r = op_binding p
     \<and> r_result_schema_id r = ''operator-native/POST:'' @ literal_text (request_path p) @ ''/v2''
     \<and> r_request_identity r = op_request_identity p"

definition committed_payload :: "kernel_env \<Rightarrow> operation \<Rightarrow> operation_result \<Rightarrow> json option" where
  "committed_payload env p r = (case op_observation_commit p of
      None \<Rightarrow> None
    | Some c \<Rightarrow> if oc_result_id c = r_result_id r \<and> Some (payload_hash_of env (oc_raw_payload c)) = r_raw_payload_hash r
        then Some (oc_raw_payload c) else None)"

text \<open>Some observation the operation cites was made by the native host under the binding and carries the payload hash.\<close>

definition host_observed :: "snapshot \<Rightarrow> binding \<Rightarrow> operation \<Rightarrow> string option \<Rightarrow> bool" where
  "host_observed s b p h = list_ex (\<lambda>i. case rget (sn_observations s) i of
      None \<Rightarrow> False
    | Some ob \<Rightarrow> obs_operation_id ob = op_id p \<and> obs_authority ob = ''native-host'' \<and> obs_binding ob = b
        \<and> Some (obs_raw_payload_hash ob) = h) (op_observation_ids p)"

text \<open>The reducer stamped the admission before the settlement, neither later than the snapshot.\<close>

definition versions_ordered :: "snapshot \<Rightarrow> operation \<Rightarrow> bool" where
  "versions_ordered s p = (case (op_admitted_version p, op_settled_version p) of
      (Some a, Some v) \<Rightarrow> isSafeInteger a \<and> 0 < a \<and> isSafeInteger v \<and> a < v \<and> v \<le> sn_assignment_version s
    | _ \<Rightarrow> False)"

fun strip_id :: "string \<Rightarrow> string option" where
  "strip_id t = (if starts_with ''id:'' t \<and> positive_digits (drop 3 t) then Some (drop 3 t) else None)"

definition scope_strings :: "scope option \<Rightarrow> string list" where
  "scope_strings sc = (case sc of None \<Rightarrow> []
    | Some kvs \<Rightarrow> List.map_filter (\<lambda>v. case v of FStr t \<Rightarrow> Some t | _ \<Rightarrow> None) (rvals kvs))"

text \<open>The document-wide element identifiers a target declares.\<close>

definition declaredElementIds :: "operation \<Rightarrow> string list" where
  "declaredElementIds p = List.map_filter strip_id
     ((case tg_target_id (op_target p) of None \<Rightarrow> [] | Some t \<Rightarrow> [t]) @ scope_strings (tg_semantic_scope (op_target p)))"

text \<open>\<open>/^(?:element_id|id):([1-9]\d*)$/\<close>: the element an affected target identity names.\<close>

definition affected_element :: "string \<Rightarrow> string option" where
  "affected_element t = (if starts_with ''element_id:'' t \<and> positive_digits (drop 11 t) then Some (drop 11 t) else strip_id t)"

definition affected_elements :: "operation_result \<Rightarrow> string list" where
  "affected_elements r = (case r_affected_target_identities r of None \<Rightarrow> [] | Some ts \<Rightarrow> List.map_filter affected_element ts)"

section \<open>Native failures\<close>

fun uuid_groups :: "nat list \<Rightarrow> string \<Rightarrow> bool" where
  "uuid_groups [] t = (t = [])"
| "uuid_groups [n] t = (length t = n \<and> list_all hex_char_i t)"
| "uuid_groups (n # ns) t = (list_all hex_char_i (take n t) \<and> length (take n t) = n
     \<and> (case drop n t of c # cs \<Rightarrow> c = CHR ''-'' \<and> uuid_groups ns cs | [] \<Rightarrow> False))"

definition uuid_text :: "string \<Rightarrow> bool" where
  "uuid_text t = uuid_groups [8, 4, 4, 4, 12] t"

definition failure_row_ok :: "json_object \<Rightarrow> bool" where
  "failure_row_ok row \<longleftrightarrow> jfield_is row ''severity'' (js_string (\<lambda>t. t \<in> {''Error'', ''Warning'', ''DocumentCorruption''}))
     \<and> jfield_is row ''message'' (js_string (\<lambda>t. js_trim t \<noteq> []))
     \<and> jfield_is row ''failureDefinitionId'' (js_string uuid_text)
     \<and> map_of row ''captureErrors'' = Some (JArr [])
     \<and> jfield_is row ''elementIds'' (js_array (\<lambda>ids. length ids \<le> 32 \<and> list_all positive_safe_integer ids))"

definition row_elements :: "json_object \<Rightarrow> string list" where
  "row_elements row = (case map_of row ''elementIds'' of
      Some (JArr ids) \<Rightarrow> map int_text (List.map_filter json_int ids) | _ \<Rightarrow> [])"

definition link :: "string list \<Rightarrow> string \<Rightarrow> string list krecord \<Rightarrow> string list krecord" where
  "link matched i m = rput i ((case rget m i of None \<Rightarrow> [] | Some ts \<Rightarrow> ts) @ matched) m"

text \<open>Every element a failure names together with declared targets depends on those targets.\<close>

definition link_row :: "string list \<Rightarrow> json_object \<Rightarrow> string list krecord \<Rightarrow> string list krecord" where
  "link_row targets row m =
     (let named = row_elements row; matched = filter (\<lambda>i. i \<in> set targets) named in
      if matched = [] then m else fold (link matched) (filter (\<lambda>i. i \<notin> set targets) named) m)"

definition nativeFailureDependencyLinksV1 :: "json \<Rightarrow> string list \<Rightarrow> failure_dependency list option" where
  "nativeFailureDependencyLinksV1 payload targets =
     (let p = jrow payload; transaction = sub_row p ''transaction'' in
      (case map_of p ''capturedFailures'' of
         Some (JArr rows) \<Rightarrow>
           (let found = fold (\<lambda>row. link_row targets (jrow row)) rows [] in
            if jtext transaction ''status'' ''rolled_back'' \<and> jflag transaction ''committed'' False
               \<and> jflag p ''failureRollbackRequested'' True \<and> jflag p ''applied'' False \<and> jflag p ''success'' False
               \<and> rows \<noteq> [] \<and> length rows \<le> 64 \<and> list_all (\<lambda>row. failure_row_ok (jrow row)) rows
               \<and> length found \<le> 256 \<and> found \<noteq> []
            then Some (map (\<lambda>kv. \<lparr>fd_element_id = fst kv, fd_target_element_ids = unique_sorted (snd kv)\<rparr>)
                   (sort_key fst found))
            else None)
       | _ \<Rightarrow> None))"

definition failed_and_rolled_back :: "operation \<Rightarrow> operation_result \<Rightarrow> bool" where
  "failed_and_rolled_back p r \<longleftrightarrow> op_requested_effect p = ApplyEffect \<and> role_or_root p = RootRole
     \<and> op_dispatch_authority p = Some NativeAuthority \<and> bound_to_document p
     \<and> r_status r = FailedAfterDispatch \<and> r_dispatch_state r = Dispatched \<and> r_authority r = ''native-host''
     \<and> r_persistent_effect r = NoEffect \<and> r_native_transaction_state r = TxRolledBack \<and> r_observation_required r
     \<and> host_receipt r \<and> truthy (r_raw_payload_hash r) \<and> no_result_gaps r \<and> answers_request p r
     \<and> request_method p = Some ''POST'' \<and> truthy (request_path p)"

text \<open>The two readers as the reducer composes them when it retains an observation.\<close>

definition deriveNativeFailureContextV1 :: "kernel_env \<Rightarrow> operation \<Rightarrow> native_failure_context option" where
  "deriveNativeFailureContextV1 env p = (case (op_result p, op_request_identity p) of
      (Some r, Some q) \<Rightarrow>
        if \<not> failed_and_rolled_back p r then None
        else (case committed_payload env p r of
            None \<Rightarrow> None
          | Some payload \<Rightarrow> map_option (\<lambda>ds. \<lparr>nf_operation_id = op_id p, nf_result_id = r_result_id r,
                nf_raw_payload_hash = the (r_raw_payload_hash r), nf_receipt_id = the (r_receipt_id r),
                nf_native_correlation_id = the (r_native_correlation_id r),
                nf_request_signature = ri_request_signature q, nf_dependencies = ds\<rparr>)
              (nativeFailureDependencyLinksV1 payload (declaredElementIds p)))
    | _ \<Rightarrow> None)"

definition context_matches :: "operation \<Rightarrow> native_failure_context \<Rightarrow> operation_result \<Rightarrow> bool" where
  "context_matches prior c r \<longleftrightarrow> nf_operation_id c = op_id prior \<and> nf_result_id c = r_result_id r
     \<and> Some (nf_raw_payload_hash c) = r_raw_payload_hash r \<and> Some (nf_receipt_id c) = r_receipt_id r
     \<and> Some (nf_native_correlation_id c) = r_native_correlation_id r
     \<and> Some (nf_request_signature c) = map_option ri_request_signature (op_request_identity prior)"

definition committedNativeFailureDependencyV1 ::
  "operation \<Rightarrow> string list \<Rightarrow> string list \<Rightarrow> string list \<Rightarrow> bool" where
  "committedNativeFailureDependencyV1 prior declared affected targets =
     (case (op_native_failure_context prior, op_result prior) of
        (Some c, Some r) \<Rightarrow> context_matches prior c r
          \<and> list_ex (\<lambda>d. fd_element_id d \<in> set declared \<and> fd_element_id d \<in> set affected
               \<and> list_ex (\<lambda>i. i \<in> set targets \<and> i \<in> set affected) (fd_target_element_ids d)) (nf_dependencies c)
      | _ \<Rightarrow> False)"

section \<open>Source inventories\<close>

definition inventory_read :: "operation \<Rightarrow> operation_result \<Rightarrow> bool" where
  "inventory_read p r \<longleftrightarrow> op_requested_effect p = ReadEffect \<and> op_dispatch_authority p = Some NativeAuthority
     \<and> op_persistent_effect p = NoEffect \<and> r_authority r = ''native-host'' \<and> r_status r = Succeeded
     \<and> r_dispatch_state r = Dispatched \<and> r_persistent_effect r = NoEffect
     \<and> r_native_transaction_state r = TxNotApplicable \<and> r_observation_required r
     \<and> host_receipt r \<and> truthy (r_raw_payload_hash r) \<and> no_result_gaps r \<and> answers_request p r
     \<and> op_request_identity p \<noteq> None"

definition deriveNativeInventoryWorkloadV1 :: "kernel_env \<Rightarrow> operation \<Rightarrow> native_inventory_workload option" where
  "deriveNativeInventoryWorkloadV1 env p = (case (op_result p, op_request_identity p) of
      (Some r, Some q) \<Rightarrow>
        if \<not> bound_to_document p \<or> \<not> inventory_read p r then None
        else (case committed_payload env p r of
            None \<Rightarrow> None
          | Some payload \<Rightarrow> map_option (\<lambda>kn. \<lparr>nw_operation_id = op_id p, nw_result_id = r_result_id r,
                nw_raw_payload_hash = the (r_raw_payload_hash r), nw_receipt_id = the (r_receipt_id r),
                nw_native_correlation_id = the (r_native_correlation_id r),
                nw_request_signature = ri_request_signature q, nw_inventory_kind = fst kn, nw_item_count = snd kn\<rparr>)
              (nativeSourceInventoryWorkloadV1 p payload))
    | _ \<Rightarrow> None)"

definition workload_matches ::
  "native_inventory_workload \<Rightarrow> operation \<Rightarrow> operation_result \<Rightarrow> request_identity \<Rightarrow> bool" where
  "workload_matches w p r q \<longleftrightarrow> nw_operation_id w = op_id p \<and> nw_result_id w = r_result_id r
     \<and> Some (nw_raw_payload_hash w) = r_raw_payload_hash r \<and> Some (nw_receipt_id w) = r_receipt_id r
     \<and> Some (nw_native_correlation_id w) = r_native_correlation_id r \<and> nw_request_signature w = ri_request_signature q
     \<and> (case nativeSourceInventoryRequestV1 p of
          None \<Rightarrow> False
        | Some (kind, mx) \<Rightarrow> nw_inventory_kind w = kind \<and> isSafeInteger (nw_item_count w)
            \<and> 1 \<le> nw_item_count w \<and> nw_item_count w \<le> mx)"

text \<open>A time that parses and does not precede another one (which need not parse).\<close>

definition not_before :: "int option \<Rightarrow> int option \<Rightarrow> bool" where
  "not_before t u \<longleftrightarrow> t \<noteq> None \<and> \<not> time_less t u"

definition inventory_times_ok :: "snapshot \<Rightarrow> operation \<Rightarrow> operation_result \<Rightarrow> bool" where
  "inventory_times_ok s p r \<longleftrightarrow> not_before (date_parse (op_opened_at p)) (date_parse (sp_created_at (sn_spec s)))
     \<and> not_before (date_parse (r_completed_at r)) (date_parse (op_opened_at p))
     \<and> not_before (Option.bind (op_settled_at p) date_parse) (date_parse (r_completed_at r))"

definition inventory_versions_ok :: "snapshot \<Rightarrow> operation \<Rightarrow> bool" where
  "inventory_versions_ok s p = (case (op_admitted_version p, op_settled_version p) of
      (Some a, Some v) \<Rightarrow> isSafeInteger a \<and> isSafeInteger v \<and> a < v \<and> v \<le> sn_assignment_version s
    | _ \<Rightarrow> False)"

definition inventory_parent_ok :: "snapshot \<Rightarrow> operation \<Rightarrow> bool" where
  "inventory_parent_ok s p =
     (if op_role p = Some ChildRole then
        (case (if truthy (op_parent_id p) then rget (sn_operations s) (the (op_parent_id p)) else None) of
           None \<Rightarrow> False
         | Some parent \<Rightarrow> op_root_id p = Some (op_id parent) \<and> op_settlement_state parent = Settled
             \<and> op_binding parent = sn_current_binding s)
      else role_or_root p = RootRole)"

definition current_inventory :: "snapshot \<Rightarrow> operation \<Rightarrow> int option" where
  "current_inventory s p = (case (op_native_inventory_workload p, op_result p, op_request_identity p) of
      (Some w, Some r, Some q) \<Rightarrow>
        if workload_matches w p r q \<and> inventory_read p r \<and> op_dispatch_state p = Dispatched
           \<and> op_settlement_state p = Settled \<and> \<not> truthy (op_observation_retention_error p)
           \<and> op_binding p = sn_current_binding s
           \<and> tg_document_fingerprint (op_target p) = b_document_fingerprint (sn_current_binding s)
           \<and> inventory_times_ok s p r \<and> inventory_versions_ok s p
           \<and> host_observed s (sn_current_binding s) p (r_raw_payload_hash r) \<and> inventory_parent_ok s p
        then Some (nw_item_count w) else None
    | _ \<Rightarrow> None)"

definition ceil_div :: "int \<Rightarrow> int \<Rightarrow> int" where
  "ceil_div n d = - ((- n) div d)"

text \<open>The units and the items of the largest complete inventory.\<close>

definition nativeInventoryPlanningV1 :: "kernel_env \<Rightarrow> snapshot \<Rightarrow> (int \<times> int) option" where
  "nativeInventoryPlanningV1 env s =
     (if truthy (b_document_fingerprint (sn_current_binding s)) \<and> validNativeScopePlanningPolicyV1 env (sn_spec s)
      then (case Option.bind (sp_execution_policy (sn_spec s)) ep_native_scope_planning of
          None \<Rightarrow> None
        | Some policy \<Rightarrow>
            (let count = fold max (List.map_filter (current_inventory s) (rvals (sn_operations s))) 0 in
             Some (min (nsp_max_units policy) (max 1 (ceil_div count (nsp_items_per_unit policy))), count)))
      else None)"

section \<open>Template and filter states\<close>

definition applied_and_committed :: "operation_result \<Rightarrow> bool" where
  "applied_and_committed r \<longleftrightarrow> r_authority r = ''native-host'' \<and> r_status r = Succeeded
     \<and> r_persistent_effect r = AppliedEffect \<and> r_native_transaction_state r = TxCommitted"

definition native_change_retained :: "operation \<Rightarrow> operation_result \<Rightarrow> bool" where
  "native_change_retained p r \<longleftrightarrow> bound_to_document p \<and> op_dispatch_authority p = Some NativeAuthority
     \<and> applied_and_committed r \<and> r_dispatch_state r = Dispatched
     \<and> host_receipt r \<and> no_result_gaps r \<and> answers_request p r"

definition affects_element :: "operation_result \<Rightarrow> int \<Rightarrow> bool" where
  "affects_element r n = (case r_affected_target_identities r of None \<Rightarrow> False
    | Some ts \<Rightarrow> ''element_id:'' @ int_text n \<in> set ts)"

definition deriveNativeTemplateStateV1 :: "kernel_env \<Rightarrow> operation \<Rightarrow> native_template_state option" where
  "deriveNativeTemplateStateV1 env p = (case op_result p of
      None \<Rightarrow> None
    | Some r \<Rightarrow>
        if \<not> native_change_retained p r then None
        else (case Option.bind (committed_payload env p r) (nativeTemplateResultStateV1 p) of
            None \<Rightarrow> None
          | Some (view, template) \<Rightarrow>
              if affects_element r view
              then Some \<lparr>nt_result_id = r_result_id r, nt_raw_payload_hash = the (r_raw_payload_hash r),
                nt_view_id = view, nt_template_id = template\<rparr> else None))"

definition deriveNativeScheduleFilterStateV1 :: "kernel_env \<Rightarrow> operation \<Rightarrow> native_filter_state option" where
  "deriveNativeScheduleFilterStateV1 env p = (case op_result p of
      None \<Rightarrow> None
    | Some r \<Rightarrow>
        if \<not> native_change_retained p r then None
        else (case Option.bind (committed_payload env p r) (nativeScheduleFilterResultStateV1 env p) of
            None \<Rightarrow> None
          | Some (schedule, state) \<Rightarrow>
              if affects_element r schedule
              then Some \<lparr>ns_result_id = r_result_id r, ns_raw_payload_hash = the (r_raw_payload_hash r),
                ns_schedule_id = schedule, ns_state_hash = sha256 env state\<rparr> else None))"

section \<open>Lemmas\<close>

lemma positive_digits_not_nil: "positive_digits t \<Longrightarrow> t \<noteq> []"
  by (cases t) simp_all

text \<open>Every retained context names the result it was read from, and the hash it was checked against.\<close>

lemma committed_payload_hash:
  "committed_payload env p r = Some v \<Longrightarrow> r_raw_payload_hash r = Some (payload_hash_of env v)"
  by (auto simp: committed_payload_def split: option.splits if_splits)

lemma template_state_sound:
  assumes "deriveNativeTemplateStateV1 env p = Some t"
  shows "\<exists>r v. op_result p = Some r \<and> applied_and_committed r \<and> nt_result_id t = r_result_id r
    \<and> nt_raw_payload_hash t = payload_hash_of env v \<and> nativeTemplateResultStateV1 p v = Some (nt_view_id t, nt_template_id t)"
  using assms
  by (auto simp: deriveNativeTemplateStateV1_def native_change_retained_def bind_eq_Some_conv
      split: option.splits if_splits prod.splits dest!: committed_payload_hash)

text \<open>A planned allocation stays within the policy, and never asks for less than one unit.\<close>

lemma inventory_planning_bounds:
  assumes "nativeInventoryPlanningV1 env s = Some (units, items)"
  shows "1 \<le> units \<and> units \<le> 4 \<and> 0 \<le> items"
proof -
  obtain policy where p: "Option.bind (sp_execution_policy (sn_spec s)) ep_native_scope_planning = Some policy"
      "validNativeScopePlanningPolicyV1 env (sn_spec s)"
      "items = fold max (List.map_filter (current_inventory s) (rvals (sn_operations s))) 0"
      "units = min (nsp_max_units policy) (max 1 (ceil_div items (nsp_items_per_unit policy)))"
    using assms by (auto simp: nativeInventoryPlanningV1_def Let_def split: option.splits if_splits)
  have "nsp_max_units policy = 4"
    using p(1,2) by (auto simp: validNativeScopePlanningPolicyV1_def bind_eq_Some_conv split: option.splits)
  moreover have "0 \<le> fold max xs (0 :: int)" for xs
    using Max.set_eq_fold [of 0 xs] by (metis Max_ge List.finite_set list.set_intros(1))
  ultimately show ?thesis using p(3,4) by simp
qed

end
