(* ===== verification/WorkBudget.thy ===== *)
theory WorkBudget
  imports FollowupAllocation Outcome NativeReaders
begin

text \<open>
  \<open>progress/ready_native_preview.ts\<close> and \<open>effective_work_budget.ts\<close>: the budget an assignment has earned.
  Sorts by timestamp place an unparsable time first; the code's comparator leaves its place open.
\<close>

section \<open>A ready native preview\<close>

definition parsed_or_0 :: "string \<Rightarrow> int" where
  "parsed_or_0 t = (case date_parse t of None \<Rightarrow> 0 | Some v \<Rightarrow> v)"

definition preview_parent_ok :: "snapshot \<Rightarrow> operation \<Rightarrow> bool" where
  "preview_parent_ok s p \<longleftrightarrow> op_role p = Some ChildRole \<and> truthy (op_parent_id p)
     \<and> op_root_id p = op_parent_id p
     \<and> (case rget (sn_operations s) (the (op_parent_id p)) of
          None \<Rightarrow> False
        | Some q \<Rightarrow> op_role q = Some RootRole \<and> op_capability_id q = ''revit_call_tool''
            \<and> op_requested_effect q = PreviewEffect \<and> op_settlement_state q = Settled
            \<and> Option.bind (op_request_identity q) ri_path = Option.bind (op_request_identity p) ri_path
            \<and> op_binding q = sn_current_binding s
            \<and> op_id q \<notin> set (sn_input_invalidated_operation_ids s))"

definition dry_run_ready :: "snapshot \<Rightarrow> operation \<Rightarrow> string \<Rightarrow> bool" where
  "dry_run_ready s p i = (case rget (sn_observations s) i of
     None \<Rightarrow> False
   | Some ob \<Rightarrow> obs_authority ob = ''native-host'' \<and> obs_operation_id ob = op_id p
       \<and> obs_binding ob = sn_current_binding s
       \<and> list_ex (fact_is ''control.field.status'' (FOne (FStr ''DryRunReady''))) (obs_facts ob))"

definition ready_preview :: "snapshot \<Rightarrow> operation \<Rightarrow> bool" where
  "ready_preview s p \<longleftrightarrow> op_requested_effect p = PreviewEffect \<and> op_settlement_state p = Settled
     \<and> op_id p \<notin> set (sn_input_invalidated_operation_ids s) \<and> op_binding p = sn_current_binding s
     \<and> result_is p (\<lambda>r. r_authority r = ''native-host'' \<and> r_status r = Succeeded
          \<and> r_native_transaction_state r = TxRolledBack \<and> r_binding r = sn_current_binding s)
     \<and> (op_role p = Some RootRole \<or> preview_parent_ok s p)
     \<and> list_ex (dry_run_ready s p) (op_observation_ids p)"

definition readyNativeRollbackPreviewV2 :: "snapshot \<Rightarrow> operation option" where
  "readyNativeRollbackPreviewV2 s =
     (if sp_requested_effect (sn_spec s) \<noteq> ApplyEffect \<or> sn_work_plan s = None
         \<or> length (filter (\<lambda>i. \<not> is_inspection i) (plan_items s)) \<noteq> 1 then None
      else (case sort_key (\<lambda>p. - parsed_or_0 (op_opened_at p)) (filter (ready_preview s) (rvals (sn_operations s)))
        of [] \<Rightarrow> None | p # _ \<Rightarrow> Some p))"

section \<open>Earned allowance\<close>

definition plan_item_after_creation :: "int \<Rightarrow> plan_item \<Rightarrow> bool" where
  "plan_item_after_creation created i = time_le (Some created) (date_parse (pi_declared_at i))"

definition sourceRequiredBatchPlan :: "kernel_env \<Rightarrow> snapshot \<Rightarrow> bool" where
  "sourceRequiredBatchPlan env s =
     (let spec = sn_spec s; items = plan_items s; edits = map pi_item_id (filter (\<lambda>i. \<not> is_inspection i) items) in
      sp_work_plan_required spec \<and> sp_work_plan_min_items spec \<noteq> Some 1
      \<and> validBoundOperationScope env spec
      \<and> (case sp_interpreted_scope spec of None \<Rightarrow> False | Some b \<Rightarrow> is_model_effect (bis_scope b) = ApplyEffect)
      \<and> 2 \<le> length items
      \<and> (case date_parse (sp_created_at spec) of
           None \<Rightarrow> False
         | Some created \<Rightarrow> list_all (plan_item_after_creation created) items)
      \<and> edits \<noteq> []
      \<and> list_ex (\<lambda>i. is_inspection i \<and> item_deps i \<noteq> [] \<and> set (item_deps i) \<subseteq> set edits) items)"

record work_allowance =
  wa_broad :: bool
  wa_verified_changes :: nat
  wa_verified_targets :: "nat option"
  wa_observed_targets :: "nat option"
  wa_resource_targets :: "nat option"
  wa_source_planning_units :: "int option"
  wa_source_planning_items :: "int option"
  wa_source_required_plan :: bool
  wa_provider_calls :: int

definition plain_allowance :: "bool \<Rightarrow> int \<Rightarrow> work_allowance" where
  "plain_allowance broad calls = \<lparr>wa_broad = broad, wa_verified_changes = 0, wa_verified_targets = None,
     wa_observed_targets = None, wa_resource_targets = None, wa_source_planning_units = None,
     wa_source_planning_items = None, wa_source_required_plan = False, wa_provider_calls = calls\<rparr>"

text \<open>The ledger of the credit loop: signatures seen, targets credited, changes counted.\<close>

record credit_ledger =
  cl_signatures :: "string list"
  cl_targets :: "string list"
  cl_verified :: nat

definition credit_candidate :: "snapshot \<Rightarrow> int option \<Rightarrow> operation \<Rightarrow> bool" where
  "credit_candidate s declared p \<longleftrightarrow>
     time_le declared (date_parse (op_opened_at p))
     \<and> op_binding p = sn_current_binding s
     \<and> result_is p (\<lambda>r. r_binding r = sn_current_binding s \<and> r_authority r = ''native-host''
          \<and> r_status r = Succeeded \<and> r_native_transaction_state r = TxCommitted)
     \<and> appliedOperationHasVerifiedPostconditionV2 s (op_id p)"

definition credit_step :: "snapshot \<Rightarrow> int option \<Rightarrow> bool \<Rightarrow> operation \<Rightarrow> credit_ledger \<Rightarrow> credit_ledger" where
  "credit_step s declared target_credits p l =
     (let affected = verifiedNativeWorkTargetIdentitiesV2 s (op_id p);
          signature = map_option ri_request_signature (op_request_identity p) in
      if truthy signature \<and> the signature \<notin> set (cl_signatures l) \<and> affected \<noteq> []
         \<and> (target_credits \<or> set affected \<inter> set (cl_targets l) = {})
         \<and> credit_candidate s declared p
      then (let l' = l\<lparr>cl_signatures := the signature # cl_signatures l\<rparr> in
            if set affected \<subseteq> set (cl_targets l) then l'
            else l'\<lparr>cl_targets := remdups (affected @ cl_targets l), cl_verified := Suc (cl_verified l)\<rparr>)
      else l)"

definition credit_ledger_of :: "snapshot \<Rightarrow> int option \<Rightarrow> bool \<Rightarrow> credit_ledger" where
  "credit_ledger_of s declared target_credits =
     fold (credit_step s declared target_credits)
       (sort_key (\<lambda>p. parsed_or_0 (op_opened_at p)) (rvals (sn_operations s)))
       \<lparr>cl_signatures = [], cl_targets = [], cl_verified = 0\<rparr>"

fun min_time :: "int option \<Rightarrow> int option list \<Rightarrow> int option" where
  "min_time t [] = t"
| "min_time t (u # us) = (case (t, u) of
     (Some x, Some y) \<Rightarrow> min_time (Some (min x y)) us
   | _ \<Rightarrow> min_time None us)"

definition first_declaration :: "plan_item list \<Rightarrow> int option" where
  "first_declaration items = (case map (\<lambda>i. date_parse (pi_declared_at i)) items of
     [] \<Rightarrow> None | t # ts \<Rightarrow> min_time t ts)"

definition active_policy :: "snapshot \<Rightarrow> execution_policy option" where
  "active_policy s = (if advisoryVerificationV2 s then sp_execution_policy (sn_spec s) else None)"

definition observed_credits :: "snapshot \<Rightarrow> bool" where
  "observed_credits s = (case Option.bind (active_policy s) ep_progress_allowance of
     None \<Rightarrow> False | Some a \<Rightarrow> pa_mode a = ObservedNativeWorkV1)"

definition target_credits :: "snapshot \<Rightarrow> bool" where
  "target_credits s \<longleftrightarrow> observed_credits s \<or> (case Option.bind (active_policy s) ep_progress_allowance of
     None \<Rightarrow> False | Some a \<Rightarrow> pa_credit_unit a = Some DistinctVerifiedTargetsV1)"

definition broad_work :: "kernel_env \<Rightarrow> snapshot \<Rightarrow> bool" where
  "broad_work env s \<longleftrightarrow> sp_requested_effect (sn_spec s) = ApplyEffect
     \<and> (Option.bind (active_policy s) ep_progress_allowance \<noteq> None \<or> sourceRequiredBatchPlan env s
        \<or> 2 \<le> length (filter (\<lambda>i. \<not> is_inspection i) (plan_items s)))"

definition planning_units :: "(int \<times> int) option \<Rightarrow> int" where
  "planning_units pl = (case pl of None \<Rightarrow> 1 | Some (units, items) \<Rightarrow> units)"

definition broad_allowance :: "kernel_env \<Rightarrow> snapshot \<Rightarrow> work_allowance" where
  "broad_allowance env s =
     (let policy = active_policy s;
          declared = (case policy of Some _ \<Rightarrow> date_parse (sp_created_at (sn_spec s)) | None \<Rightarrow> first_declaration (plan_items s));
          ledger = credit_ledger_of s declared (target_credits s);
          observed = (if observed_credits s then observedNativeWorkTargetIdentitiesV1 s else []);
          resource = remdups (cl_targets ledger @ observed);
          units = (if target_credits s then min 24 (length resource) else cl_verified ledger);
          planning = nativeInventoryPlanningV1 env s in
      \<lparr>wa_broad = True, wa_verified_changes = cl_verified ledger,
       wa_verified_targets = (if target_credits s then Some (length (cl_targets ledger)) else None),
       wa_observed_targets = (if observed_credits s then Some (length observed) else None),
       wa_resource_targets = (if observed_credits s then Some (length resource) else None),
       wa_source_planning_units = map_option fst planning, wa_source_planning_items = map_option snd planning,
       wa_source_required_plan = sourceRequiredBatchPlan env s,
       wa_provider_calls = (case policy of
           None \<Rightarrow> min 256 (64 + int (cl_verified ledger) * 8)
         | Some p \<Rightarrow> (case ep_progress_allowance p of
               None \<Rightarrow> 0
             | Some a \<Rightarrow> min (pa_max_provider_calls a)
                 (ep_max_provider_calls p * planning_units planning + int units * 8)))\<rparr>)"

definition earnedAssignmentWorkAllowanceV2 :: "kernel_env \<Rightarrow> snapshot \<Rightarrow> work_allowance" where
  "earnedAssignmentWorkAllowanceV2 env s =
     (case active_policy s of
        Some p \<Rightarrow>
          if ep_progress_allowance p = None \<or> sp_requested_effect (sn_spec s) \<noteq> ApplyEffect
          then plain_allowance True (ep_max_provider_calls p)
          else broad_allowance env s
      | None \<Rightarrow>
          if broad_work env s then broad_allowance env s
          else plain_allowance False (if readyNativeRollbackPreviewV2 s \<noteq> None then 48 else 32))"

definition assignmentWorkAllowanceV2 :: "kernel_env \<Rightarrow> snapshot \<Rightarrow> work_allowance" where
  "assignmentWorkAllowanceV2 env s = (let earned = earnedAssignmentWorkAllowanceV2 env s in
     earned\<lparr>wa_provider_calls := userFollowupLimitV1 s KCalls (wa_provider_calls earned)\<rparr>)"

section \<open>Budgets\<close>

definition earned_units :: "work_allowance \<Rightarrow> nat" where
  "earned_units a = (case wa_resource_targets a of
     Some n \<Rightarrow> n
   | None \<Rightarrow> (case wa_verified_targets a of Some n \<Rightarrow> n | None \<Rightarrow> wa_verified_changes a))"

definition work_credit :: "work_allowance \<Rightarrow> int" where
  "work_credit a = min 24 (int (earned_units a))"

definition source_units :: "work_allowance \<Rightarrow> int" where
  "source_units a = (case wa_source_planning_units a of None \<Rightarrow> 1 | Some u \<Rightarrow> u)"

definition advisory_budget :: "execution_policy \<Rightarrow> work_allowance \<Rightarrow> progress_budget \<Rightarrow> progress_budget" where
  "advisory_budget p a ordinary =
     (let credit = work_credit a; units = source_units a in
      ordinary\<lparr>max_provider_calls := wa_provider_calls a, max_reasoning_turns := wa_provider_calls a,
        max_operations := (case ep_progress_allowance p of
            None \<Rightarrow> ep_max_operations p
          | Some c \<Rightarrow> min (pa_max_operations c) (ep_max_operations p * units + credit * 32)),
        max_total_tokens := (case ep_progress_allowance p of
            None \<Rightarrow> ep_max_total_tokens p
          | Some c \<Rightarrow> min (pa_max_total_tokens c) (ep_max_total_tokens p * units + credit * 1000000)),
        max_wall_clock_ms := (case Option.bind (ep_progress_allowance p) pa_max_wall_clock_ms of
            None \<Rightarrow> ep_max_wall_clock_ms p
          | Some w \<Rightarrow> min w (ep_max_wall_clock_ms p * units + credit * 5 * 60000))\<rparr>)"

definition defaultAssignmentWorkBudgetV2 :: "kernel_env \<Rightarrow> snapshot \<Rightarrow> progress_budget \<Rightarrow> progress_budget" where
  "defaultAssignmentWorkBudgetV2 env s ordinary =
     (let a = earnedAssignmentWorkAllowanceV2 env s in
      case active_policy s of
        Some p \<Rightarrow> applyUserFollowupAllocationV1 s (advisory_budget p a ordinary)
      | None \<Rightarrow>
          if \<not> wa_broad a then
            (if wa_provider_calls a > max_provider_calls ordinary
             then ordinary\<lparr>max_provider_calls := wa_provider_calls a,
                    max_reasoning_turns := max (max_reasoning_turns ordinary) (wa_provider_calls a),
                    max_total_tokens := max (max_total_tokens ordinary) 6000000\<rparr>
             else ordinary)
          else
            (let credit = min 24 (int (wa_verified_changes a)) in
             ordinary\<lparr>max_provider_calls := wa_provider_calls a, max_reasoning_turns := wa_provider_calls a,
               max_operations := min 1024 (256 + credit * 32),
               max_total_tokens := min 32000000 (8000000 + credit * 1000000),
               max_wall_clock_ms := min 120 (30 + credit * 5) * 60000\<rparr>))"

text \<open>The policy read as a budget (\<open>{...policy, max_reasoning_turns: policy.max_provider_calls, ...}\<close>).\<close>

definition policy_budget :: "execution_policy \<Rightarrow> progress_budget" where
  "policy_budget p = \<lparr>max_reasoning_turns = ep_max_provider_calls p, max_provider_calls = ep_max_provider_calls p,
     max_operations = ep_max_operations p, max_equivalent_operations = 0, max_no_progress_epochs = 0,
     max_reconciliation_attempts = 0, max_wall_clock_ms = ep_max_wall_clock_ms p,
     max_total_tokens = ep_max_total_tokens p\<rparr>"

definition advisoryWorkBudget :: "kernel_env \<Rightarrow> snapshot \<Rightarrow> progress_budget" where
  "advisoryWorkBudget env s =
     defaultAssignmentWorkBudgetV2 env s (policy_budget (the (sp_execution_policy (sn_spec s))))"

definition allocateAuthenticatedFollowupV1 ::
  "kernel_env \<Rightarrow> snapshot \<Rightarrow> string \<Rightarrow> string \<Rightarrow> resource_renewal_request option \<Rightarrow> kernel_error + snapshot" where
  "allocateAuthenticatedFollowupV1 env s command now renewal =
     allocateUserFollowupV1 s command now
       (advisoryWorkBudget env (s\<lparr>sn_user_followup_allocation := None\<rparr>)) (advisoryWorkBudget env s) renewal"

section \<open>Lemmas\<close>

lemma credit_step_mono:
  "set (cl_targets l) \<subseteq> set (cl_targets (credit_step s d tc p l))"
  "set (cl_signatures l) \<subseteq> set (cl_signatures (credit_step s d tc p l))"
  by (auto simp: credit_step_def Let_def)

text \<open>Each counted change adds at least one new target, so a target is paid for at most once.\<close>

definition ledger_ok :: "credit_ledger \<Rightarrow> bool" where
  "ledger_ok l \<longleftrightarrow> distinct (cl_targets l) \<and> distinct (cl_signatures l)
     \<and> cl_verified l \<le> length (cl_targets l) \<and> cl_verified l \<le> length (cl_signatures l)"

lemma length_new_targets:
  assumes "\<not> set xs \<subseteq> set ts" "distinct ts"
  shows "Suc (length ts) \<le> length (remdups (xs @ ts))"
proof -
  from assms(1) have "set ts \<subset> set (xs @ ts)" by auto
  then have "card (set ts) < card (set (xs @ ts))" by (intro psubset_card_mono) simp_all
  then show ?thesis
    using assms(2) by (simp only: length_remdups_card_conv distinct_card Suc_le_eq)
qed

lemma credit_step_ok:
  assumes "ledger_ok l"
  shows "ledger_ok (credit_step s d tc p l)"
proof (cases "set (verifiedNativeWorkTargetIdentitiesV2 s (op_id p)) \<subseteq> set (cl_targets l)")
  case True
  with assms show ?thesis by (auto simp: credit_step_def ledger_ok_def Let_def)
next
  case False
  let ?ts = "remdups (verifiedNativeWorkTargetIdentitiesV2 s (op_id p) @ cl_targets l)"
  have "Suc (cl_verified l) \<le> length ?ts"
    using length_new_targets [OF False] assms by (simp add: ledger_ok_def)
  with assms False show ?thesis by (simp add: credit_step_def ledger_ok_def Let_def)
qed

lemma fold_invariant_list: "(\<And>x a. P a \<Longrightarrow> P (f x a)) \<Longrightarrow> P a \<Longrightarrow> P (fold f xs a)"
  by (induction xs arbitrary: a) simp_all

lemma credit_ledger_ok: "ledger_ok (credit_ledger_of s d tc)"
  unfolding credit_ledger_of_def by (rule fold_invariant_list) (simp_all add: credit_step_ok, simp add: ledger_ok_def)

lemma work_credit_bounds: "0 \<le> work_credit a" "work_credit a \<le> 24"
  by (simp_all add: work_credit_def)

end
