(* ===== verification/ProgressController.thy ===== *)
theory ProgressController
  imports WorkBudget
begin

text \<open>
  \<open>progress/controller.ts\<close>, first half: the unresolved gaps of an assignment, the criteria whose evidence
  is newer than their evaluation, the budget blockers and the next decision. The prose \<open>reason\<close> of a
  gap is left out; the reason of a decision is kept.
\<close>

section \<open>Relevant observations\<close>

definition criterion_basis :: "snapshot \<Rightarrow> criterion_spec \<Rightarrow> evaluation_basis" where
  "criterion_basis s c = (if sp_requested_effect (sn_spec s) = ApplyEffect \<and> has_comparisons c
     then DesiredStateEquivalence else ObservationBasis)"

definition relevantObservationIds :: "snapshot \<Rightarrow> criterion_spec \<Rightarrow> string list" where
  "relevantObservationIds s c = sort (map obs_id
     (filter (\<lambda>ob. adm_admissible (observationAdmissibilityForCriterionV2 s c ob None (Some (criterion_basis s c)))
         \<and> list_ex (\<lambda>f. fact_id f \<in> set (cs_semantic_fact_requirements c)) (obs_facts ob))
       (rvals (sn_observations s))))"

section \<open>Input schema gaps\<close>

definition INPUT_SCHEMA_DOCUMENTATION_CAPABILITIES :: "string list" where
  "INPUT_SCHEMA_DOCUMENTATION_CAPABILITIES = [''revit_tool_doc'', ''revit_tool_examples'']"

definition input_gap :: "operation \<Rightarrow> input_schema_gap option" where
  "input_gap p = Option.bind (op_result p) r_input_schema_gap"

definition operationProposalCanResolveInputSchemaGapV2 ::
  "operation \<Rightarrow> string \<Rightarrow> http_method option \<Rightarrow> string option \<Rightarrow> string \<Rightarrow> bool" where
  "operationProposalCanResolveInputSchemaGapV2 rejected capability meth path signature =
     (case input_gap rejected of
        None \<Rightarrow> False
      | Some g \<Rightarrow> meth = Some (isg_method g) \<and> path = Some (isg_path g)
          \<and> (capability = op_capability_id rejected \<and> signature \<noteq> isg_request_signature g
             \<or> capability \<in> set INPUT_SCHEMA_DOCUMENTATION_CAPABILITIES))"

definition text_field :: "json option \<Rightarrow> string" where
  "text_field v = (case v of Some (JStr t) \<Rightarrow> t | _ \<Rightarrow> [])"

text \<open>
  \<open>inputSchemaIssueRequirementV2\<close> on the wire form of an issue, whose text fields are strings.
\<close>

definition inputSchemaIssueRequirementV2 :: "kernel_env \<Rightarrow> json \<Rightarrow> string" where
  "inputSchemaIssueRequirementV2 env issue =
     (let text = (\<lambda>k. text_field (json_field issue k));
          con = (case json_field issue ''expected_constraint'' of None \<Rightarrow> JObj [] | Some c \<Rightarrow> c);
          kind = text_field (json_field con ''kind'');
          detail = (if kind = ''enum'' then ''allowed_values=''
                @ canonicalJsonText env (case json_field con ''allowed_values'' of None \<Rightarrow> JArr [] | Some v \<Rightarrow> v)
            else if kind = ''json_type'' then ''required_type=''
                @ (case json_field con ''type'' of Some (JStr t) \<Rightarrow> t | _ \<Rightarrow> text ''expected_type'')
            else canonicalJsonText env con)
      in text ''field_path'' @ '':'' @ text ''expected_type'' @ '';actual='' @ text ''actual_type'' @ '';'' @ detail
         @ '';correction='' @ text ''correction_action'')"

definition documentation_child :: "operation \<Rightarrow> operation \<Rightarrow> bool" where
  "documentation_child candidate child \<longleftrightarrow> op_parent_id child = Some (op_id candidate)
     \<and> op_settlement_state child = Settled \<and> result_is child (\<lambda>r. r_status r = Succeeded)
     \<and> op_observation_ids child \<noteq> []
     \<and> (op_fulfillment_role child = Some SupportingControl \<or> op_fulfillment_role child = Some PrerequisiteFulfillment)"

text \<open>\<open>String(input[k] ?? "")\<close> compared with a text: only a string (or nothing) can be equal to it.\<close>

definition input_text :: "operation \<Rightarrow> string \<Rightarrow> string option" where
  "input_text p k = (case rget (op_input p) k of
     None \<Rightarrow> Some [] | Some JNull \<Rightarrow> Some [] | Some (JStr t) \<Rightarrow> Some t | _ \<Rightarrow> None)"

definition corrected_retry :: "operation \<Rightarrow> operation \<Rightarrow> bool" where
  "corrected_retry rejected c \<longleftrightarrow> op_retry_of c = Some (op_id rejected) \<and> op_retry_basis c = Some CorrectedInput
     \<and> (case op_request_identity c of
          None \<Rightarrow> False
        | Some q \<Rightarrow> operationProposalCanResolveInputSchemaGapV2 rejected (op_capability_id c)
            (ri_method q) (ri_path q) (ri_request_signature q))
     \<and> result_is c (\<lambda>r. r_dispatch_state r = Dispatched) \<and> op_observation_ids c \<noteq> []"

definition documentation_read :: "snapshot \<Rightarrow> input_schema_gap \<Rightarrow> operation \<Rightarrow> bool" where
  "documentation_read s g c \<longleftrightarrow> op_fulfillment_role c = Some SupportingControl
     \<and> op_capability_id c \<in> set INPUT_SCHEMA_DOCUMENTATION_CAPABILITIES
     \<and> map_option toUpperCase (input_text c ''method'') = Some (method_text (isg_method g))
     \<and> input_text c ''path'' = Some (isg_path g)
     \<and> (op_observation_ids c \<noteq> [] \<or> list_ex (documentation_child c) (rvals (sn_operations s)))"

definition inputSchemaGapResolvedV2 :: "snapshot \<Rightarrow> operation \<Rightarrow> bool" where
  "inputSchemaGapResolvedV2 s rejected = (case input_gap rejected of
     None \<Rightarrow> False
   | Some g \<Rightarrow> list_ex (\<lambda>c. op_id c \<noteq> op_id rejected \<and> isg_gap_id g \<in> set (op_resolves_gap_ids c)
         \<and> op_settlement_state c = Settled
         \<and> result_is c (\<lambda>r. r_status r = Succeeded \<or> r_status r = CompletedWithoutNativeDispatch)
         \<and> b_run_id (op_binding c) = b_run_id (op_binding rejected)
         \<and> b_generation (op_binding c) = b_generation (op_binding rejected)
         \<and> (corrected_retry rejected c \<or> documentation_read s g c)) (rvals (sn_operations s)))"

section \<open>Gaps\<close>

definition required_criterion_ids :: "snapshot \<Rightarrow> string list" where
  "required_criterion_ids s = map cs_criterion_id (required_criteria s)"

definition work_plan_gaps :: "snapshot \<Rightarrow> progress_gap list" where
  "work_plan_gaps s = (if workPlanPendingV2 s then [\<lparr>gap_id = ''work-plan:scope'', gap_kind = WorkPlanRequired,
     gap_criterion_ids = required_criterion_ids s,
     gap_work_unit_ids = [''work-primary'', ''work-discovery'', ''work-evidence''],
     gap_required_fact_ids = [], gap_current_observation_ids = []\<rparr>] else [])"

definition delivery_gaps :: "snapshot \<Rightarrow> progress_gap list" where
  "delivery_gaps s = (if sp_result_delivery_required (sn_spec s) \<and> sn_result_delivery s = None then
     [\<lparr>gap_id = ''result:delivery'', gap_kind = ResultDeliveryRequired,
       gap_criterion_ids = required_criterion_ids s, gap_work_unit_ids = [''work-primary'', ''work-evidence''],
       gap_required_fact_ids = [],
       gap_current_observation_ids = map obs_id
         (filter (\<lambda>ob. obs_evidence_class ob = Some TaskResultEvidence) (rvals (sn_observations s)))\<rparr>] else [])"

definition preview_proof_missing :: "snapshot \<Rightarrow> operation \<Rightarrow> bool" where
  "preview_proof_missing s p \<longleftrightarrow> op_requested_effect p = PreviewEffect
     \<and> op_fulfillment_role p = Some DelegatedTaskExecution \<and> op_settlement_state p = Settled
     \<and> result_is p (\<lambda>r. r_status r = Succeeded)
     \<and> \<not> list_ex (\<lambda>i. case rget (sn_observations s) i of None \<Rightarrow> False
           | Some ob \<Rightarrow> list_ex (\<lambda>f. fact_is ''task.preview_valid'' (FOne (FBool True)) f
                \<and> fact_class_of f = Some DomainFact) (obs_facts ob)) (op_observation_ids p)"

definition semantic_gaps :: "snapshot \<Rightarrow> progress_gap list" where
  "semantic_gaps s = concat (map (\<lambda>p.
     (let sg = Option.bind (op_result p) r_result_semantic_gap in
      if sg = None \<and> \<not> preview_proof_missing s p then []
      else [\<lparr>gap_id = (case sg of Some g \<Rightarrow> rsg_gap_id g | None \<Rightarrow> ''result-semantics:'' @ op_id p),
             gap_kind = OperationResultSemanticInvalid, gap_criterion_ids = op_advances_criterion_ids p,
             gap_work_unit_ids = [op_work_unit_id p], gap_required_fact_ids = [],
             gap_current_observation_ids = op_observation_ids p\<rparr>])) (rvals (sn_operations s)))"

definition schema_gaps :: "kernel_env \<Rightarrow> snapshot \<Rightarrow> progress_gap list" where
  "schema_gaps env s = concat (map (\<lambda>p. (case input_gap p of
       None \<Rightarrow> []
     | Some g \<Rightarrow> if inputSchemaGapResolvedV2 s p then []
         else [\<lparr>gap_id = isg_gap_id g, gap_kind = OperationInputSchemaInvalid,
                gap_criterion_ids = op_advances_criterion_ids p, gap_work_unit_ids = [op_work_unit_id p],
                gap_required_fact_ids = sort (map (inputSchemaIssueRequirementV2 env) (isg_issues g)),
                gap_current_observation_ids = []\<rparr>])) (rvals (sn_operations s)))"

definition input_gaps :: "snapshot \<Rightarrow> progress_gap list" where
  "input_gaps s = map (\<lambda>v. (let units = dependent_units s v in
     \<lparr>gap_id = ''input:'' @ v, gap_kind = InputMissing,
      gap_criterion_ids = unique_sorted (concat (map wu_criterion_ids units)),
      gap_work_unit_ids = unique_sorted (map wu_id units),
      gap_required_fact_ids = [], gap_current_observation_ids = []\<rparr>)) (sn_pending_input_variable_ids s)"

definition effect_gaps :: "snapshot \<Rightarrow> progress_gap list" where
  "effect_gaps s = map (\<lambda>i. (let p = rget (sn_operations s) i in
     \<lparr>gap_id = ''effect:'' @ i, gap_kind = EffectUnknown,
      gap_criterion_ids = (case p of None \<Rightarrow> [] | Some p \<Rightarrow> op_advances_criterion_ids p),
      gap_work_unit_ids = (case p of None \<Rightarrow> [] | Some p \<Rightarrow> [op_work_unit_id p]),
      gap_required_fact_ids = [],
      gap_current_observation_ids = (case p of None \<Rightarrow> [] | Some p \<Rightarrow> op_observation_ids p)\<rparr>))
     (sn_unresolved_unknown_operation_ids s)"

definition verification_gaps :: "snapshot \<Rightarrow> progress_gap list" where
  "verification_gaps s = map (\<lambda>p.
     \<lparr>gap_id = ''verification:'' @ op_id p, gap_kind = VerificationRequired,
      gap_criterion_ids = op_advances_criterion_ids p,
      gap_work_unit_ids = (if list_ex (\<lambda>u. wu_id u = ASSIGNMENT_VERIFICATION_WORK_UNIT_ID_V2) (sp_work_units (sn_spec s))
        then [ASSIGNMENT_VERIFICATION_WORK_UNIT_ID_V2] else [op_work_unit_id p]),
      gap_required_fact_ids = [''verification.postcondition_satisfied''],
      gap_current_observation_ids = sort (concat (map (\<lambda>i. case rget (sn_operations s) i of
          None \<Rightarrow> [] | Some v \<Rightarrow> op_observation_ids v) (op_verification_operation_ids p)))\<rparr>)
     (filter (\<lambda>p. applied_and_settled p \<and> \<not> appliedOperationHasVerifiedPostconditionV2 s (op_id p))
        (rvals (sn_operations s)))"

definition criterion_gap :: "snapshot \<Rightarrow> criterion_spec \<Rightarrow> progress_gap list" where
  "criterion_gap s c =
     (let status = map_option ce_status (rget (sn_criteria s) (cs_criterion_id c));
          observations = relevantObservationIds s c;
          present = concat (map (\<lambda>i. case rget (sn_observations s) i of None \<Rightarrow> [] | Some ob \<Rightarrow> map fact_id (obs_facts ob)) observations);
          missing = filter (\<lambda>f. f \<notin> set present) (cs_semantic_fact_requirements c) in
      if status = Some CsPass \<or> status = Some CsNotApplicable then []
      else [\<lparr>gap_id = ''criterion:'' @ cs_criterion_id c,
             gap_kind = (if status = Some CsUncertain then CriterionUncertainGap else CriterionFactMissing),
             gap_criterion_ids = [cs_criterion_id c],
             gap_work_unit_ids = sort (map wu_id
               (filter (\<lambda>u. cs_criterion_id c \<in> set (wu_criterion_ids u)) (sp_work_units (sn_spec s)))),
             gap_required_fact_ids = (if missing \<noteq> [] then missing else cs_semantic_fact_requirements c),
             gap_current_observation_ids = observations\<rparr>])"

definition criterion_gaps :: "snapshot \<Rightarrow> progress_gap list" where
  "criterion_gaps s = concat (map (criterion_gap s) (required_criteria s))"

definition deriveProgressGapsV2 :: "kernel_env \<Rightarrow> snapshot \<Rightarrow> progress_gap list" where
  "deriveProgressGapsV2 env s = sort_by (\<lambda>l r. locale_less_eq env (gap_id l) (gap_id r))
     (work_plan_gaps s @ delivery_gaps s @ semantic_gaps s @ schema_gaps env s @ input_gaps s @ effect_gaps s
      @ verification_gaps s @ criterion_gaps s)"

section \<open>Criteria with newer evidence\<close>

definition version_of :: "int krecord \<Rightarrow> string \<Rightarrow> int" where
  "version_of r k = (case rget r k of None \<Rightarrow> 0 | Some v \<Rightarrow> v)"

definition result_criterion_held_back :: "snapshot \<Rightarrow> criterion_spec \<Rightarrow> bool" where
  "result_criterion_held_back s c \<longleftrightarrow> sp_requested_effect (sn_spec s) = ApplyEffect
     \<and> workPlanPendingV2 s \<and> \<not> verifiedSavedPartialV2 s
     \<and> cs_semantic_fact_requirements c = [''task.result_available'']"

definition pending_observations :: "snapshot \<Rightarrow> criterion_spec \<Rightarrow> string list option" where
  "pending_observations s c =
     (let observations = relevantObservationIds s c in
      if result_criterion_held_back s c \<or> observations = [] then None
      else if Max (set (map (version_of (sn_observation_versions s)) observations))
              > version_of (sn_criterion_evaluation_versions s) (cs_criterion_id c)
      then Some observations else None)"

definition criteriaPendingEvaluationV2 :: "snapshot \<Rightarrow> string list krecord" where
  "criteriaPendingEvaluationV2 s = fold (\<lambda>c r. case pending_observations s c of
     None \<Rightarrow> r | Some obs \<Rightarrow> rput (cs_criterion_id c) obs r) (sp_criteria (sn_spec s)) []"

section \<open>Budget blockers\<close>

definition assignmentConsecutiveNoProgressEpochsV2 :: "snapshot \<Rightarrow> int" where
  "assignmentConsecutiveNoProgressEpochsV2 s = (case rev (sn_progress_epochs s) of
     [] \<Rightarrow> 0
   | latest # _ \<Rightarrow> if pe_genuine_progress latest then 0
       else int (length (takeWhile (\<lambda>e. \<not> pe_genuine_progress e \<and> pe_unresolved_gap_ids e = pe_unresolved_gap_ids latest)
                   (rev (sn_progress_epochs s)))))"

definition time_exhausted :: "int option \<Rightarrow> int \<Rightarrow> bool" where
  "time_exhausted spent limit = (case spent of None \<Rightarrow> True | Some t \<Rightarrow> limit \<le> t)"

definition assignmentNativeReadbackResourceBlockerV2 ::
  "snapshot \<Rightarrow> progress_budget \<Rightarrow> string \<Rightarrow> int \<Rightarrow> string option" where
  "assignmentNativeReadbackResourceBlockerV2 s budget now additional = first_failure
     [(isSafeInteger additional \<and> 0 \<le> additional, ''invalid_readback_operation_count''),
      (int (length (rkeys (sn_operations s))) + additional \<le> max_operations budget, ''operation_budget_exhausted''),
      (advisoryVerificationV2 s \<or> assignmentConsecutiveNoProgressEpochsV2 s < max_no_progress_epochs budget,
         ''no_progress_budget_exhausted''),
      (consumed_tokens s < max_total_tokens budget, ''token_budget_exhausted''),
      (\<not> time_exhausted (assignmentActiveExecutionTimeMsV2 s now) (max_wall_clock_ms budget),
         ''execution_lease_exhausted'')]"

definition assignmentProgressBudgetBlockerV2 :: "snapshot \<Rightarrow> progress_budget \<Rightarrow> string \<Rightarrow> string option" where
  "assignmentProgressBudgetBlockerV2 s budget now =
     (case first_failure
        [(int (length (rkeys (sn_provider_calls s))) < max_provider_calls budget, ''provider_call_budget_exhausted''),
         (int (length (filter (\<lambda>c. pc_state c \<noteq> CallAdmitted) (rvals (sn_provider_calls s)))) < max_reasoning_turns budget,
            ''reasoning_turn_budget_exhausted''),
         (int (length (rkeys (sn_operations s))) < max_operations budget, ''operation_budget_exhausted'')]
      of Some e \<Rightarrow> Some e
       | None \<Rightarrow> assignmentNativeReadbackResourceBlockerV2 s budget now 0)"

end
