(* ===== verification/ProgressDecision.thy ===== *)
theory ProgressDecision
  imports ProgressController
begin

text \<open>
  \<open>progress/controller.ts\<close>, second half: the next decision, the identity under which an operation counts
  as a repeat, and the admission checks of the progress boundary.
\<close>

section \<open>Decisions\<close>

record decision =
  dn_assignment_version :: int
  dn_binding :: binding
  dn_decision_id :: string
  dn_decided_at :: string
  dn_reason :: string
  dn_decision :: progress_decision

definition decisionBase :: "kernel_env \<Rightarrow> snapshot \<Rightarrow> string \<Rightarrow> string \<Rightarrow> string \<Rightarrow> progress_decision \<Rightarrow> decision" where
  "decisionBase env s now name reason d =
     \<lparr>dn_assignment_version = sn_assignment_version s, dn_binding = sn_current_binding s,
      dn_decision_id = canonicalJsonText env (JObj [
         (''assignment_id'', JStr (b_assignment_id (sn_current_binding s))),
         (''version'', JNum (of_int (sn_assignment_version s))), (''decision'', JStr name), (''reason'', JStr reason)]),
      dn_decided_at = now, dn_reason = reason, dn_decision = d\<rparr>"

definition interactive_expected :: "string list" where
  "interactive_expected = [''Supply only the owned Revit placement interaction or await its original native result. No other native call, report, save or task completion while it remains pending.'']"

definition advisory_expected :: "string list" where
  "advisory_expected = [''Continue the original task within the immutable host budget; retain results for independent review.'']"

text \<open>The owned interactive operation, if its input may be supplied now.\<close>

definition owned_interaction :: "snapshot \<Rightarrow> (snapshot \<Rightarrow> string option) \<Rightarrow> string option" where
  "owned_interaction s interactive = (case interactive s of
     None \<Rightarrow> None
   | Some i \<Rightarrow>
       if i \<noteq> [] \<and> sn_in_flight_operation_ids s = [i] \<and> sn_outcome s = Active
          \<and> (case sn_execution_control s of None \<Rightarrow> True | Some x \<Rightarrow> xc_state x = ControlRunning)
          \<and> \<not> sn_quiescent s \<and> sn_provider_usage_hold s = None \<and> \<not> sn_provider_budget_exhausted s
          \<and> sn_completion_proposal s = None \<and> sn_unresolved_unknown_operation_ids s = []
          \<and> sn_pending_input_variable_ids s = [] \<and> sn_pending_review_ids s = []
       then Some i else None)"

definition decide_in_flight :: "kernel_env \<Rightarrow> snapshot \<Rightarrow> progress_budget \<Rightarrow> string \<Rightarrow> (snapshot \<Rightarrow> string option) \<Rightarrow> decision" where
  "decide_in_flight env s budget now interactive = (case owned_interaction s interactive of
     None \<Rightarrow> decisionBase env s now ''await_operation'' ''Canonical operations remain in flight.''
               (DecideAwaitOperation (sn_in_flight_operation_ids s))
   | Some i \<Rightarrow> (case assignmentProgressBudgetBlockerV2 s budget now of
       Some e \<Rightarrow> decisionBase env s now ''blocked'' e (DecideBlocked e Blocked [''effect:'' @ i])
     | None \<Rightarrow> decisionBase env s now ''admit_reasoning_turn'' ''owned_native_interaction_requires_ui_input''
                 (DecideAdmitReasoningTurn [''effect:'' @ i] [] interactive_expected)))"

definition decide_reconciliation :: "kernel_env \<Rightarrow> snapshot \<Rightarrow> progress_budget \<Rightarrow> string \<Rightarrow> decision" where
  "decide_reconciliation env s budget now =
     (if int (length (filter (\<lambda>p. op_purpose p = Reconciliation) (rvals (sn_operations s)))) \<ge> max_reconciliation_attempts budget
      then decisionBase env s now ''blocked'' ''reconciliation_budget_exhausted''
        (DecideBlocked ''reconciliation_budget_exhausted'' Blocked
          (map (\<lambda>i. ''effect:'' @ i) (sn_unresolved_unknown_operation_ids s)))
      else decisionBase env s now ''reconcile_operation'' ''Unknown persistent effect must be reconciled before other work.''
        (DecideReconcileOperation (hd (sn_unresolved_unknown_operation_ids s))
          [''effect:'' @ hd (sn_unresolved_unknown_operation_ids s)]))"

definition gaps_of_kind :: "progress_gap_kind \<Rightarrow> progress_gap list \<Rightarrow> progress_gap list" where
  "gaps_of_kind k gaps = filter (\<lambda>g. gap_kind g = k) gaps"

definition unverified_edits :: "snapshot \<Rightarrow> operation list" where
  "unverified_edits s = filter (\<lambda>p. \<not> appliedOperationHasVerifiedPostconditionV2 s (op_id p)) (applied_edits s)"

definition deferred_stop :: "snapshot \<Rightarrow> bool" where
  "deferred_stop s \<longleftrightarrow> \<not> advisoryVerificationV2 s \<and> sn_quiescent s
     \<and> sp_requested_effect (sn_spec s) = ApplyEffect \<and> sp_work_plan_required (sn_spec s)
     \<and> allRemainingWorkPlanItemsDeferredV2 s
     \<and> list_all (\<lambda>p. nativeVerificationAttemptIsRetainedV2 s (op_id p)) (unverified_edits s)"

definition budget_exhausted :: "snapshot \<Rightarrow> progress_budget \<Rightarrow> string \<Rightarrow> string option" where
  "budget_exhausted s budget now = (case assignmentProgressBudgetBlockerV2 s budget now of
     Some e \<Rightarrow> Some e
   | None \<Rightarrow> (case sn_provider_usage_hold s of
       None \<Rightarrow> None
     | Some h \<Rightarrow> assignmentProgressBudgetBlockerV2 s (h_resume_budget h) now))"

definition terminal_reason_text :: "snapshot \<Rightarrow> string" where
  "terminal_reason_text s = (case sn_progress_blocker s of
     Some b \<Rightarrow> bl_code b
   | None \<Rightarrow> (case sn_terminal_reason s of
       Some r \<Rightarrow> r | None \<Rightarrow> ''Canonical criteria and operation state derive a terminal outcome.''))"

text \<open>The decision once nothing is waited for and the outcome is still active.\<close>

definition decide_active :: "kernel_env \<Rightarrow> snapshot \<Rightarrow> progress_budget \<Rightarrow> string \<Rightarrow> decision" where
  "decide_active env s budget now =
     (let gaps = deriveProgressGapsV2 env s; gids = map gap_id gaps in
      case budget_exhausted s budget now of
        Some e \<Rightarrow> decisionBase env s now ''blocked'' e (DecideBlocked e Blocked gids)
      | None \<Rightarrow> (case sn_provider_usage_hold s of
          Some h \<Rightarrow> decisionBase env s now ''await_provider_resume'' ''Provider usage is held until an explicit fenced Resume.''
                      (DecideAwaitProviderResume (h_hold_id h))
        | None \<Rightarrow>
            if deferred_stop s then
              (let reason = (if unverified_edits s \<noteq> [] then ''all_remaining_work_deferred_verification_unresolved''
                             else ''all_remaining_work_deferred'') in
               decisionBase env s now ''blocked'' reason (DecideBlocked reason Blocked gids))
            else if \<not> advisoryVerificationV2 s \<and> gaps = [] then
              (let reason = ''Active quiescent Assignment has no admissible unresolved work.'' in
               decisionBase env s now ''blocked'' reason (DecideBlocked reason Blocked []))
            else decisionBase env s now ''admit_reasoning_turn''
              (if advisoryVerificationV2 s
               then ''Host-bounded local advisory work; semantic checks are observations, not completion certificates.''
               else ''Bounded reasoning is justified by explicit unresolved criterion gaps.'')
              (DecideAdmitReasoningTurn gids (unique_sorted (concat (map gap_criterion_ids gaps)))
                (if advisoryVerificationV2 s then advisory_expected
                 else unique_sorted (concat (map gap_required_fact_ids gaps))))))"

definition decide_waiting :: "kernel_env \<Rightarrow> snapshot \<Rightarrow> progress_budget \<Rightarrow> string \<Rightarrow> decision" where
  "decide_waiting env s budget now =
     (let gaps = deriveProgressGapsV2 env s;
          pending = criteriaPendingEvaluationV2 s;
          criterion_ids = sort (rkeys pending);
          semantic = gaps_of_kind OperationResultSemanticInvalid gaps;
          inputs = gaps_of_kind InputMissing gaps in
      if \<not> advisoryVerificationV2 s \<and> criterion_ids \<noteq> [] then
        decisionBase env s now ''evaluate_criteria'' ''New authoritative observations can advance criteria.''
          (DecideEvaluateCriteria criterion_ids (unique_sorted (concat (rvals pending))))
      else if \<not> advisoryVerificationV2 s \<and> semantic \<noteq> [] then
        decisionBase env s now ''blocked'' ''operation_result_semantic_invalid''
          (DecideBlocked ''operation_result_semantic_invalid'' Blocked (map gap_id semantic))
      else if sn_pending_input_variable_ids s \<noteq> [] \<or> sn_outcome s = AwaitingUserInput then
        decisionBase env s now ''request_user_input'' ''Authenticated execution-critical input is missing.''
          (DecideRequestUserInput (map gap_id inputs) (unique_sorted (concat (map gap_criterion_ids inputs))))
      else if sn_pending_review_ids s \<noteq> [] \<or> sn_outcome s = AwaitingUserReview then
        decisionBase env s now ''request_user_review'' ''A bounded user review decision is pending.''
          (DecideRequestUserReview (map (\<lambda>i. ''review:'' @ i) (sn_pending_review_ids s)))
      else if sn_outcome s \<noteq> Active then
        decisionBase env s now ''terminal'' (terminal_reason_text s) (DecideTerminal (sn_outcome s))
      else decide_active env s budget now)"

definition decideAssignmentProgressV2 ::
  "kernel_env \<Rightarrow> snapshot \<Rightarrow> progress_budget \<Rightarrow> string \<Rightarrow> (snapshot \<Rightarrow> string option) \<Rightarrow> decision" where
  "decideAssignmentProgressV2 env s budget now interactive =
     (if sn_terminal s then
        decisionBase env s now ''terminal'' ''Assignment is already terminal.'' (DecideTerminal (sn_outcome s))
      else if sn_in_flight_provider_call_ids s \<noteq> [] then
        (if paused s \<and> sn_in_flight_operation_ids s = []
         then decisionBase env s now ''paused'' ''user_requested_pause'' DecidePaused
         else decisionBase env s now ''await_provider'' ''Canonical provider requests remain in flight.''
           (DecideAwaitProvider (sn_in_flight_provider_call_ids s)))
      else if sn_in_flight_operation_ids s \<noteq> [] then decide_in_flight env s budget now interactive
      else if paused s then decisionBase env s now ''paused'' ''user_requested_pause'' DecidePaused
      else if sn_unresolved_unknown_operation_ids s \<noteq> [] then decide_reconciliation env s budget now
      else decide_waiting env s budget now)"

section \<open>Repeats\<close>

text \<open>
  \<open>operationProgressIdentityV2\<close> is the canonical text of an object; here its canonical value, with the
  sorted lists the code writes into it.
\<close>

record progress_identity =
  pid_capability_id :: string
  pid_requested_effect :: requested_effect
  pid_purpose :: operation_purpose
  pid_target :: canonical_target
  pid_input :: json
  pid_advances :: "string list"
  pid_eligible :: "string list"
  pid_fulfillment_role :: "fulfillment_role option"
  pid_resolves :: "string list"
  pid_role :: operation_role
  pid_parent :: "string option"
  pid_request :: "request_identity option"

definition eligible_ids :: "operation \<Rightarrow> string list" where
  "eligible_ids p = (case op_eligible_criterion_ids p of None \<Rightarrow> [] | Some cs \<Rightarrow> cs)"

definition operationProgressIdentityV2 :: "operation \<Rightarrow> progress_identity" where
  "operationProgressIdentityV2 p = \<lparr>pid_capability_id = op_capability_id p,
     pid_requested_effect = op_requested_effect p, pid_purpose = op_purpose p,
     pid_target = (op_target p)\<lparr>tg_semantic_scope := map_option (sort_key fst) (tg_semantic_scope (op_target p))\<rparr>,
     pid_input = canonicalJsonV2 (JObj (op_input p)), pid_advances = sort (op_advances_criterion_ids p),
     pid_eligible = sort (eligible_ids p), pid_fulfillment_role = op_fulfillment_role p,
     pid_resolves = sort (op_resolves_gap_ids p), pid_role = role_or_root p, pid_parent = op_parent_id p,
     pid_request = op_request_identity p\<rparr>"

definition repeats_rejected_input :: "operation \<Rightarrow> operation \<Rightarrow> bool" where
  "repeats_rejected_input p c = (case (input_gap c, op_request_identity p) of
     (Some g, Some q) \<Rightarrow> op_capability_id c = op_capability_id p \<and> ri_method q = Some (isg_method g)
        \<and> ri_path q = Some (isg_path g) \<and> ri_request_signature q = isg_request_signature g
   | _ \<Rightarrow> False)"

definition assertOperationDoesNotRepeatSchemaRejectedInputV2 :: "snapshot \<Rightarrow> operation \<Rightarrow> kernel_error option" where
  "assertOperationDoesNotRepeatSchemaRejectedInputV2 s p =
     (if list_ex (repeats_rejected_input p) (rvals (sn_operations s))
      then Some ''operation_progress_identical_input_schema_retry'' else None)"

definition assertOperationAdvancesProgressV2 ::
  "kernel_env \<Rightarrow> snapshot \<Rightarrow> operation \<Rightarrow> progress_budget \<Rightarrow> kernel_error option" where
  "assertOperationAdvancesProgressV2 env s p budget =
     (if advisoryVerificationV2 s then assertOperationDoesNotRepeatSchemaRejectedInputV2 s p
      else (let gaps = deriveProgressGapsV2 env s;
                unresolved = concat (map gap_criterion_ids gaps);
                equivalents = filter (\<lambda>q. operationProgressIdentityV2 q = operationProgressIdentityV2 p) (rvals (sn_operations s)) in
        first_failure
          [(op_advances_criterion_ids p \<noteq> [] \<or> op_resolves_gap_ids p \<noteq> [], ''operation_progress_binding_missing''),
           (set (op_resolves_gap_ids p) \<subseteq> set (map gap_id gaps), ''operation_progress_gap_not_current''),
           (set (op_advances_criterion_ids p) \<subseteq> set unresolved, ''operation_progress_criterion_not_unresolved''),
           (assertOperationDoesNotRepeatSchemaRejectedInputV2 s p = None, ''operation_progress_identical_input_schema_retry''),
           (int (length equivalents) < max_equivalent_operations budget \<or> truthy (op_retry_of p)
              \<or> op_purpose p = Reconciliation, ''operation_progress_equivalent_budget_exhausted'')]))"

section \<open>What a decision guarantees\<close>

lemma decisionBase_decision [simp]: "dn_decision (decisionBase env s now name reason d) = d"
  by (simp add: decisionBase_def)

lemma budget_blocker_None:
  assumes "assignmentProgressBudgetBlockerV2 s budget now = None"
  shows "int (length (rkeys (sn_provider_calls s))) < max_provider_calls budget"
    "int (length (filter (\<lambda>c. pc_state c \<noteq> CallAdmitted) (rvals (sn_provider_calls s)))) < max_reasoning_turns budget"
    "int (length (rkeys (sn_operations s))) < max_operations budget"
    "advisoryVerificationV2 s \<or> assignmentConsecutiveNoProgressEpochsV2 s < max_no_progress_epochs budget"
    "consumed_tokens s < max_total_tokens budget"
    "\<exists>t. assignmentActiveExecutionTimeMsV2 s now = Some t \<and> t < max_wall_clock_ms budget"
  using assms by (auto simp: assignmentProgressBudgetBlockerV2_def assignmentNativeReadbackResourceBlockerV2_def
      time_exhausted_def split: option.splits if_splits)

lemma decide_in_flight_reasoning:
  assumes "dn_decision (decide_in_flight env s budget now interactive) = DecideAdmitReasoningTurn g c e"
  shows "assignmentProgressBudgetBlockerV2 s budget now = None \<and> sn_provider_usage_hold s = None
    \<and> sn_unresolved_unknown_operation_ids s = [] \<and> \<not> paused s \<and> sn_pending_input_variable_ids s = []
    \<and> sn_pending_review_ids s = [] \<and> g \<noteq> [] \<and> e \<noteq> []"
  using assms
  by (auto simp: decide_in_flight_def owned_interaction_def interactive_expected_def paused_def split: option.splits if_splits)

lemma decide_active_reasoning:
  assumes "dn_decision (decide_active env s budget now) = DecideAdmitReasoningTurn g c e"
  shows "assignmentProgressBudgetBlockerV2 s budget now = None \<and> sn_provider_usage_hold s = None
    \<and> g = map gap_id (deriveProgressGapsV2 env s) \<and> (advisoryVerificationV2 s \<or> g \<noteq> []) \<and> (advisoryVerificationV2 s \<longrightarrow> e \<noteq> [])"
  using assms by (auto simp: decide_active_def budget_exhausted_def advisory_expected_def Let_def split: option.splits if_splits)

lemma sort_eq_Nil: "sort (xs :: string list) = [] \<longleftrightarrow> xs = []"
  by (metis length_0_conv length_sort)

lemma decide_waiting_reasoning:
  assumes "dn_decision (decide_waiting env s budget now) = DecideAdmitReasoningTurn g c e"
  shows "dn_decision (decide_active env s budget now) = DecideAdmitReasoningTurn g c e
    \<and> sn_pending_input_variable_ids s = [] \<and> sn_pending_review_ids s = [] \<and> sn_outcome s = Active
    \<and> (advisoryVerificationV2 s \<or> criteriaPendingEvaluationV2 s = [])"
  using assms by (auto simp: decide_waiting_def Let_def rkeys_def sort_eq_Nil split: if_splits)

text \<open>A reasoning turn is admitted only inside the budget and with nothing held, paused or unknown.\<close>

lemma decide_reasoning:
  assumes "dn_decision (decideAssignmentProgressV2 env s budget now interactive) = DecideAdmitReasoningTurn g c e"
  shows "assignmentProgressBudgetBlockerV2 s budget now = None" "sn_provider_usage_hold s = None"
    "sn_unresolved_unknown_operation_ids s = []" "\<not> paused s" "\<not> sn_terminal s"
    "sn_in_flight_provider_call_ids s = []" "sn_pending_input_variable_ids s = []" "sn_pending_review_ids s = []"
    "advisoryVerificationV2 s \<or> g \<noteq> []" "advisoryVerificationV2 s \<Longrightarrow> e \<noteq> []"
proof -
  let ?d = "dn_decision (decideAssignmentProgressV2 env s budget now interactive)"
  have "sn_in_flight_operation_ids s \<noteq> [] \<longrightarrow> ?d = dn_decision (decide_in_flight env s budget now interactive)
      \<or> (\<forall>g c e. ?d \<noteq> DecideAdmitReasoningTurn g c e)"
    "sn_in_flight_operation_ids s = [] \<longrightarrow> ?d = dn_decision (decide_waiting env s budget now) \<and> \<not> paused s
        \<and> sn_unresolved_unknown_operation_ids s = [] \<or> (\<forall>g c e. ?d \<noteq> DecideAdmitReasoningTurn g c e)"
    by (simp_all add: decideAssignmentProgressV2_def decide_reconciliation_def)
  with assms have cases: "dn_decision (decide_in_flight env s budget now interactive) = DecideAdmitReasoningTurn g c e
      \<or> dn_decision (decide_waiting env s budget now) = DecideAdmitReasoningTurn g c e
          \<and> \<not> paused s \<and> sn_unresolved_unknown_operation_ids s = []"
    by metis
  have "assignmentProgressBudgetBlockerV2 s budget now = None \<and> sn_provider_usage_hold s = None
      \<and> sn_unresolved_unknown_operation_ids s = [] \<and> \<not> paused s \<and> sn_pending_input_variable_ids s = []
      \<and> sn_pending_review_ids s = [] \<and> (advisoryVerificationV2 s \<or> g \<noteq> []) \<and> (advisoryVerificationV2 s \<longrightarrow> e \<noteq> [])"
    using cases
  proof (elim disjE conjE)
    assume w: "dn_decision (decide_waiting env s budget now) = DecideAdmitReasoningTurn g c e"
      and rest: "\<not> paused s" "sn_unresolved_unknown_operation_ids s = []"
    note a = decide_waiting_reasoning [OF w]
    from decide_active_reasoning [of env s budget now g c e] a rest show ?thesis by blast
  next
    assume "dn_decision (decide_in_flight env s budget now interactive) = DecideAdmitReasoningTurn g c e"
    from decide_in_flight_reasoning [OF this] show ?thesis by simp
  qed
  then show "assignmentProgressBudgetBlockerV2 s budget now = None" "sn_provider_usage_hold s = None"
    "sn_unresolved_unknown_operation_ids s = []" "\<not> paused s"
    "sn_pending_input_variable_ids s = []" "sn_pending_review_ids s = []"
    "advisoryVerificationV2 s \<or> g \<noteq> []" "advisoryVerificationV2 s \<Longrightarrow> e \<noteq> []"
    by simp_all
  show "\<not> sn_terminal s" "sn_in_flight_provider_call_ids s = []"
    using assms by (auto simp: decideAssignmentProgressV2_def split: if_splits)
qed

lemma paused_never_reasons:
  "paused s \<Longrightarrow> dn_decision (decideAssignmentProgressV2 env s budget now interactive) \<noteq> DecideAdmitReasoningTurn g c e"
  using decide_reasoning(4) by blast

lemma assertOperationAdvancesProgressV2_None:
  assumes "assertOperationAdvancesProgressV2 env s p budget = None" "\<not> advisoryVerificationV2 s"
  shows "set (op_resolves_gap_ids p) \<subseteq> set (map gap_id (deriveProgressGapsV2 env s))"
    "\<forall>c \<in> set (op_advances_criterion_ids p). \<exists>g \<in> set (deriveProgressGapsV2 env s). c \<in> set (gap_criterion_ids g)"
  using assms by (auto simp: assertOperationAdvancesProgressV2_def Let_def)

end
