(* ===== verification/ContractChecks.thy ===== *)
theory ContractChecks
  imports NativeArtifact
begin

text \<open>
  The remaining validators of the kernel contract package: the correction diagnostics of a rejected
  input (\<open>input-schema-gap.js\<close>), the worker shown with a provider hold (\<open>provider-usage-hold.js\<close>) and the
  proof of a completion the host lost track of (\<open>native-completion.js\<close>).
\<close>

section \<open>Input schema gaps\<close>

definition CONSTRAINT_KINDS :: "string list" where
  "CONSTRAINT_KINDS = [''required'', ''json_type'', ''enum'', ''numeric_range'', ''string_length'', ''string_pattern'',
     ''array_length'', ''property_set'', ''schema_depth'', ''schema_bounds'', ''schema_alternative'', ''unique_items'']"

definition CONSTRAINT_KEYS :: "string list" where
  "CONSTRAINT_KEYS = [''kind'', ''type'', ''pattern'', ''allowed_values'', ''minimum'', ''maximum'', ''min_length'',
     ''max_length'', ''min_items'', ''max_items'']"

definition gap_text :: "nat \<Rightarrow> json \<Rightarrow> bool" where
  "gap_text n = js_string (\<lambda>t. js_trim t \<noteq> [] \<and> length t \<le> n)"

fun allowed_value :: "json \<Rightarrow> bool" where
  "allowed_value (JStr t) = (length t \<le> 256)"
| "allowed_value (JArr xs) = False"
| "allowed_value (JObj kvs) = False"
| "allowed_value _ = True"

fun js_number :: "json \<Rightarrow> bool" where
  "js_number (JNum q) = True"
| "js_number _ = False"

definition schema_issue_checks :: "kernel_env \<Rightarrow> json \<Rightarrow> (bool \<times> kernel_error) list" where
  "schema_issue_checks env candidate =
     (let issue = jrow candidate; constraint = sub_row issue ''expected_constraint'' in
      [(jfield_is issue ''field_path'' (gap_text 512) \<and> jfield_is issue ''expected_type'' (gap_text 160)
          \<and> jfield_is issue ''actual_type'' (gap_text 160)
          \<and> jfield_is issue ''safe_correction_eligibility''
              (js_string (\<lambda>t. t \<in> {''provider_corrected_arguments_required'', ''declared_deterministic_coercion''}))
          \<and> jfield_is issue ''correction_action''
              (js_string (\<lambda>t. t \<in> {''provider_resubmit'', ''wrap_scalar_as_singleton_array''}))
          \<and> jfield_is issue ''expected_constraint'' (\<lambda>v. case v of JObj kvs \<Rightarrow> True | _ \<Rightarrow> False),
          ''operation_input_schema_issue_invalid''),
       (jfield_is constraint ''kind'' (js_string (\<lambda>t. t \<in> set CONSTRAINT_KINDS)) \<and> only_fields CONSTRAINT_KEYS constraint
          \<and> length (json_text (number_text env) (JObj constraint)) \<le> 4096
          \<and> jfield_absent_or constraint ''type'' (gap_text 160)
          \<and> jfield_absent_or constraint ''pattern'' (\<lambda>v. gap_text 512 v \<and> js_string (\<lambda>t. \<not> list_ex is_control t) v)
          \<and> (jtext constraint ''kind'' ''string_pattern'' \<longrightarrow> map_of constraint ''pattern'' \<noteq> None),
          ''operation_input_schema_constraint_invalid''),
       (jfield_absent_or constraint ''allowed_values'' (js_array (\<lambda>vs. length vs \<le> 32 \<and> list_all allowed_value vs)),
          ''operation_input_schema_constraint_invalid''),
       (list_all (\<lambda>k. jfield_absent_or constraint k js_number)
          [''minimum'', ''maximum'', ''min_length'', ''max_length'', ''min_items'', ''max_items''],
          ''operation_input_schema_constraint_invalid''),
       (if jtext issue ''safe_correction_eligibility'' ''declared_deterministic_coercion''
        then jtext issue ''correction_action'' ''wrap_scalar_as_singleton_array''
        else jtext issue ''correction_action'' ''provider_resubmit'', ''operation_input_schema_correction_invalid'')])"

definition schema_gap_identity_ok :: "input_schema_gap \<Rightarrow> operation_result \<Rightarrow> bool" where
  "schema_gap_identity_ok g r = (case r_request_identity r of
      None \<Rightarrow> False
    | Some q \<Rightarrow> isg_gap_id g = ''input-schema:'' @ r_operation_id r \<and> isg_operation_id g = r_operation_id r
        \<and> isg_capability_id g = ri_capability_id q \<and> js_trim (isg_input_schema_id g) \<noteq> []
        \<and> lower_hex 64 (isg_input_schema_digest g) \<and> Some (isg_method g) = ri_method q
        \<and> Some (isg_path g) = ri_path q \<and> isg_request_signature g = ri_request_signature q
        \<and> isg_issues g \<noteq> [] \<and> length (isg_issues g) \<le> 64)"

definition operationInputSchemaGapErrorV2 ::
  "kernel_env \<Rightarrow> input_schema_gap \<Rightarrow> operation_result \<Rightarrow> kernel_error option" where
  "operationInputSchemaGapErrorV2 env g r = first_failure
     ([(r_status r = FailedBeforeDispatch \<and> r_dispatch_state r = NotDispatched \<and> r_persistent_effect r = NoEffect
          \<and> \<not> r_observation_required r, ''operation_input_schema_gap_effect_invalid''),
       (schema_gap_identity_ok g r, ''operation_input_schema_gap_invalid'')]
      @ concat (map (schema_issue_checks env) (isg_issues g)))"

section \<open>The worker of a provider hold\<close>

definition worker_id :: "string \<Rightarrow> bool" where
  "worker_id v \<longleftrightarrow> js_trim v = v \<and> v \<noteq> [] \<and> length v \<le> 240 \<and> \<not> list_ex is_control_or_del v"

fun model_name :: "string \<Rightarrow> bool" where
  "model_name [] = False"
| "model_name (c # cs) = (worker_id (c # cs) \<and> length (c # cs) \<le> 160 \<and> is_alnum c
     \<and> list_all (\<lambda>d. is_alnum d \<or> d \<in> set ''._:/-'') cs)"

fun model_or_null :: "json \<Rightarrow> bool" where
  "model_or_null JNull = True"
| "model_or_null (JStr t) = model_name t"
| "model_or_null _ = False"

definition validProviderUsageWorkerIdentityV1 :: "json \<Rightarrow> bool" where
  "validProviderUsageWorkerIdentityV1 v = (case v of
      JObj row \<Rightarrow>
        only_fields [''provider'', ''configured_billing_mode'', ''requested_model'', ''requested_reasoning_effort'',
          ''reported_model'', ''reported_model_source''] row
        \<and> jtext row ''provider'' ''openai_codex''
        \<and> jfield_is row ''configured_billing_mode'' (js_string (\<lambda>t. t \<in> {''chatgpt'', ''api_key'', ''unknown''}))
        \<and> jfield_is row ''requested_model'' model_or_null \<and> jfield_is row ''reported_model'' model_or_null
        \<and> jfield_is row ''requested_reasoning_effort'' (\<lambda>e. e = JNull
             \<or> js_string (\<lambda>t. t \<in> {''none'', ''low'', ''medium'', ''high'', ''xhigh'', ''max''}) e)
        \<and> (if jnull row ''reported_model'' then jnull row ''reported_model_source''
           else jtext row ''reported_model_source'' ''raw_response'' \<or> jtext row ''reported_model_source'' ''rerouted'')
    | _ \<Rightarrow> False)"

section \<open>Native completion receipts\<close>

fun sha256_text :: "json \<Rightarrow> bool" where
  "sha256_text (JStr t) = (starts_with ''sha256:'' t \<and> lower_hex 64 (drop 7 t))"
| "sha256_text _ = False"

definition receipt_word :: "json \<Rightarrow> bool" where
  "receipt_word = js_string (\<lambda>t. t \<noteq> [] \<and> length t \<le> 512 \<and> \<not> list_ex is_control_or_del t)"

definition url_char :: "char \<Rightarrow> bool" where
  "url_char c \<longleftrightarrow> is_alnum c \<or> c = CHR ''_'' \<or> c = CHR ''-''"

definition url_token :: "nat \<Rightarrow> string \<Rightarrow> bool" where
  "url_token n t \<longleftrightarrow> length t = n \<and> list_all url_char t"

text \<open>The JSON of a binding and of a request identity, as the canonical texts the receipt is compared with.\<close>

definition opt_field :: "string \<Rightarrow> string option \<Rightarrow> json_object" where
  "opt_field k v = (case v of None \<Rightarrow> [] | Some t \<Rightarrow> [(k, JStr t)])"

definition binding_json :: "binding \<Rightarrow> json" where
  "binding_json b = JObj ([(''assignment_id'', JStr (b_assignment_id b))]
     @ opt_field ''document_fingerprint'' (b_document_fingerprint b)
     @ [(''generation'', JNum (of_int (b_generation b))), (''principal_id'', JStr (b_principal_id b)),
        (''run_id'', JStr (b_run_id b)), (''session_id'', JStr (b_session_id b))])"

definition request_json :: "request_identity \<Rightarrow> json" where
  "request_json q = JObj ([(''capability_id'', JStr (ri_capability_id q))]
     @ opt_field ''method'' (map_option method_text (ri_method q)) @ opt_field ''path'' (ri_path q)
     @ [(''request_signature'', JStr (ri_request_signature q))])"

definition same_canonical :: "json_object \<Rightarrow> string \<Rightarrow> json \<Rightarrow> bool" where
  "same_canonical v k expected = jfield_is v k (\<lambda>x. canonicalJsonV2 x = canonicalJsonV2 expected)"

definition REQUEST_ECHO_FIELDS :: "string list" where
  "REQUEST_ECHO_FIELDS = [''request_id'', ''request_nonce_sha256'', ''server_epoch'', ''method'', ''path'',
     ''body_present'', ''source_body_sha256'', ''channel'', ''alias'']"

text \<open>The receipt belongs to this operation, its recorded unknown result and its admitted request.\<close>

definition completion_identity_ok :: "json_object \<Rightarrow> operation \<Rightarrow> operation_result \<Rightarrow> request_identity \<Rightarrow> bool" where
  "completion_identity_ok p op r q =
     (let dispatch = sub_row p ''dispatch''; identity = sub_row dispatch ''identity''; n = sub_row dispatch ''native'' in
      jtext p ''schema'' ''revit-operator.native-completion-reconciliation/v1''
      \<and> jtext dispatch ''schema'' ''revit-operator.native-completion-dispatch/v1''
      \<and> jtext (sub_row p ''receipt'') ''schema'' ''revit-operator.native-terminal-completion/v1''
      \<and> jtext p ''original_result_id'' (r_result_id r) \<and> r_authority r = ''native-host''
      \<and> r_persistent_effect r = UnknownEffect \<and> r_dispatch_state r = Dispatched
      \<and> op_requested_effect op \<noteq> ReadEffect \<and> op_settlement_state op = Settled
      \<and> receipt_word (JStr (ri_request_signature q))
      \<and> same_canonical identity ''binding'' (binding_json (op_binding op))
      \<and> jtext identity ''operation_id'' (op_id op) \<and> same_canonical identity ''request_identity'' (request_json q)
      \<and> r_binding r = op_binding op \<and> r_request_identity r = Some q
      \<and> map_option JStr (r_native_correlation_id r) = map_of n ''request_id'')"

text \<open>The dispatched native request, its document and its authorization are well formed and agree.\<close>

definition completion_request_ok :: "json_object \<Rightarrow> operation \<Rightarrow> request_identity \<Rightarrow> bool" where
  "completion_request_ok p op q =
     (let n = sub_row (sub_row p ''dispatch'') ''native''; r = sub_row p ''receipt''; request = sub_row r ''request'';
          doc = sub_row r ''document''; auth = sub_row r ''authorization''; terminal = sub_row r ''terminal'' in
      jfield_is n ''request_id'' (js_string (lower_hex 64)) \<and> jfield_is n ''server_epoch'' (js_string (url_token 43))
      \<and> jfield_is n ''request_nonce_sha256'' sha256_text \<and> jfield_is n ''source_body_sha256'' sha256_text
      \<and> jfield_is n ''transport_receipt_sha256'' sha256_text
      \<and> map_of n ''method'' = map_option (\<lambda>m. JStr (method_text m)) (ri_method q)
      \<and> map_of n ''path'' = map_option JStr (ri_path q)
      \<and> jtext n ''method'' ''POST'' \<and> jflag n ''body_present'' True
      \<and> (case b_document_fingerprint (op_binding op) of
           None \<Rightarrow> False
         | Some fp \<Rightarrow> lower_hex 64 fp \<and> jtext n ''expected_document_fingerprint'' fp \<and> jtext doc ''document_fingerprint'' fp)
      \<and> jfield_is doc ''document_session_id'' receipt_word
      \<and> map_of doc ''after_document_fingerprint'' = map_of doc ''document_fingerprint''
      \<and> map_of doc ''after_document_session_id'' = map_of doc ''document_session_id''
      \<and> jfield_is p ''record_sha256'' sha256_text
      \<and> jfield_is p ''evidence_id'' (js_string (\<lambda>t. starts_with ''ev1_'' t \<and> url_token 32 (drop 4 t)))
      \<and> jfield_is terminal ''body_sha256'' sha256_text
      \<and> (case field_int terminal ''status_code'' of None \<Rightarrow> False | Some c \<Rightarrow> 200 \<le> c \<and> c \<le> 599)
      \<and> jfield_is auth ''authorization_hash'' sha256_text \<and> jfield_is auth ''exposure_profile'' receipt_word
      \<and> jnull auth ''certification_envelope_hash''
      \<and> jfield_is request ''authorized_body_sha256'' sha256_text
      \<and> map_of request ''dispatched_body_sha256'' = map_of n ''source_body_sha256''
      \<and> jfield_is n ''channel'' (js_string (\<lambda>t. t \<in> {''generic_call'', ''typed_mcp''}))
      \<and> jfield_is n ''alias'' receipt_word
      \<and> list_all (\<lambda>k. map_of request k = map_of n k) REQUEST_ECHO_FIELDS)"

definition field_time :: "json_object \<Rightarrow> string \<Rightarrow> int option" where
  "field_time v k = (case map_of v k of Some (JStr t) \<Rightarrow> date_parse t | _ \<Rightarrow> None)"

definition completion_times_ok :: "json_object \<Rightarrow> bool" where
  "completion_times_ok r = (case (field_time r ''dispatch_started_at_utc'', field_time r ''completed_at_utc'',
        field_time (sub_row r ''authorization'') ''authorized_at_utc'') of
      (Some start, Some finish, Some authorized) \<Rightarrow> start \<le> finish \<and> authorized \<le> start
    | _ \<Rightarrow> False)"

definition settlement_ok :: "json_object \<Rightarrow> json_object \<Rightarrow> operation \<Rightarrow> bool" where
  "settlement_ok settlement n op \<longleftrightarrow> jtext settlement ''schema'' ''revit-operator.native-attempt-settlement.v1''
     \<and> jtext settlement ''requested_effect'' (effect_text (op_requested_effect op))
     \<and> map_of settlement ''method'' = map_of n ''method'' \<and> map_of settlement ''path'' = map_of n ''path''
     \<and> jflag settlement ''request_dispatched'' True
     \<and> (jtext settlement ''effect_state'' ''none'' \<or> jtext settlement ''effect_state'' ''applied'')
     \<and> jfield_is settlement ''affected_target_identities'' (js_array (\<lambda>xs.
          int (length xs) \<le> MAX_NATIVE_AFFECTED_TARGETS_V2 \<and> list_all receipt_word xs \<and> distinct xs))"

fun wire_effect :: "persistent_effect \<Rightarrow> string" where
  "wire_effect NoEffect = ''none''"
| "wire_effect UnknownEffect = ''unknown''"
| "wire_effect AppliedEffect = ''applied''"

text \<open>The three fields that name the effect the host settled, its authority and its reason.\<close>

definition settled_as :: "json_object \<Rightarrow> string \<Rightarrow> string \<Rightarrow> string \<Rightarrow> bool" where
  "settled_as settlement e authority reason \<longleftrightarrow> jtext settlement ''effect_state'' e
     \<and> jtext settlement ''effect_authority'' authority \<and> jtext settlement ''effect_reason'' reason"

definition artifact_completion :: "json_object \<Rightarrow> json_object \<Rightarrow> json_object \<Rightarrow> operation \<Rightarrow> persistent_effect option" where
  "artifact_completion receipt settlement n op =
     (if op_requested_effect op \<noteq> ApplyEffect then None
      else (case nativeArtifactReceiptEffectV1 receipt
          (case map_of n ''method'' of Some (JStr t) \<Rightarrow> Some t | _ \<Rightarrow> None)
          (case map_of n ''path'' of Some (JStr t) \<Rightarrow> Some t | _ \<Rightarrow> None) (Some (JStr ''apply'')) of
        None \<Rightarrow> None
      | Some e \<Rightarrow> if settled_as settlement (wire_effect e) ''native_receipt''
            (if e = AppliedEffect then ''native_artifact_export_completed'' else ''native_artifact_export_not_started'')
          then Some e else None))"

definition transaction_completion :: "json_object \<Rightarrow> json_object \<Rightarrow> operation \<Rightarrow> persistent_effect option" where
  "transaction_completion transaction settlement op =
     (if op_requested_effect op = ApplyEffect \<and> jtext transaction ''status'' ''committed''
         \<and> jflag transaction ''committed'' True
         \<and> settled_as settlement ''applied'' ''native_transaction'' ''native_transaction_committed''
      then Some AppliedEffect
      else if (jtext transaction ''status'' ''rolled_back'' \<or> jtext transaction ''status'' ''rolledback'')
         \<and> jflag transaction ''committed'' False
         \<and> settled_as settlement ''none'' ''native_rollback'' ''verified_native_rollback''
      then Some NoEffect
      else if jtext transaction ''status'' ''not_started'' \<and> jflag transaction ''committed'' False
         \<and> map_of settlement ''affected_target_identities'' = Some (JArr [])
         \<and> (settled_as settlement ''none'' ''native_transaction'' ''native_transaction_not_started''
            \<or> settled_as settlement ''none'' ''native_host'' ''native_transaction_not_started'')
      then Some NoEffect else None)"

definition nativeCompletionReconciliationEffectV1 :: "json \<Rightarrow> operation \<Rightarrow> persistent_effect option" where
  "nativeCompletionReconciliationEffectV1 v op =
     (let p = jrow v; n = sub_row (sub_row p ''dispatch'') ''native''; proof_row = sub_row p ''proof'';
          settlement = sub_row proof_row ''canonical_attempt_settlement'' in
      (case (op_result op, op_request_identity op) of
         (Some r, Some q) \<Rightarrow>
           if completion_identity_ok p op r q \<and> completion_request_ok p op q
              \<and> completion_times_ok (sub_row p ''receipt'') \<and> settlement_ok settlement n op
           then (case map_of proof_row ''artifact_receipt'' of
                   Some a \<Rightarrow> artifact_completion (jrow a) settlement n op
                 | None \<Rightarrow> transaction_completion (sub_row proof_row ''transaction'') settlement op)
           else None
       | _ \<Rightarrow> None))"

section \<open>Lemmas\<close>

text \<open>A gap is accepted only with a result that was never dispatched and had no effect.\<close>

lemma schema_gap_effect:
  assumes "operationInputSchemaGapErrorV2 env g r = None"
  shows "r_status r = FailedBeforeDispatch \<and> r_dispatch_state r = NotDispatched \<and> r_persistent_effect r = NoEffect
    \<and> \<not> r_observation_required r \<and> isg_operation_id g = r_operation_id r"
  using assms by (auto simp: operationInputSchemaGapErrorV2_def schema_gap_identity_ok_def split: if_splits option.splits)

text \<open>A receipt resolves an effect one way or the other, and an applied one only for an apply operation.\<close>

lemma completion_effect:
  assumes "nativeCompletionReconciliationEffectV1 v op = Some e"
  shows "e \<noteq> UnknownEffect \<and> op_settlement_state op = Settled
    \<and> (e = AppliedEffect \<longrightarrow> op_requested_effect op = ApplyEffect)
    \<and> (\<exists>r. op_result op = Some r \<and> r_persistent_effect r = UnknownEffect \<and> r_binding r = op_binding op)"
proof -
  have a: "artifact_completion a s n op = Some e \<Longrightarrow> op_requested_effect op = ApplyEffect \<and> e \<noteq> UnknownEffect" for a s n
    using artifact_receipt_not_unknown by (fastforce simp: artifact_completion_def split: if_splits option.splits)
  have t: "transaction_completion u s op = Some e \<Longrightarrow> (e = AppliedEffect \<longrightarrow> op_requested_effect op = ApplyEffect) \<and> e \<noteq> UnknownEffect"
    for u s by (auto simp: transaction_completion_def split: if_splits)
  obtain r q where rq: "op_result op = Some r" "op_request_identity op = Some q" "completion_identity_ok (jrow v) op r q"
    using assms by (auto simp: nativeCompletionReconciliationEffectV1_def Let_def split: option.splits if_splits)
  have "e \<noteq> UnknownEffect \<and> (e = AppliedEffect \<longrightarrow> op_requested_effect op = ApplyEffect)"
    using assms rq a t
    by (simp add: nativeCompletionReconciliationEffectV1_def Let_def split: option.splits if_splits) blast+
  with rq show ?thesis by (auto simp: completion_identity_ok_def Let_def)
qed

end
