(* ===== verification/ProviderUsage.thy ===== *)
theory ProviderUsage
  imports ProgressDecision ContractChecks
begin

text \<open>
  \<open>provider_usage_hold.ts\<close>: the hold a usage limit places on an assignment, what may still be admitted
  under it, the fenced resume, and the authenticated pause and resume controls.
\<close>

definition PROVIDER_USAGE_HOLD_V1_SCHEMA :: string where
  "PROVIDER_USAGE_HOLD_V1_SCHEMA = ''revit-operator.provider-usage-hold/v1''"

definition hold_text :: "string \<Rightarrow> bool" where
  "hold_text v \<longleftrightarrow> v \<noteq> [] \<and> length v \<le> 240 \<and> js_trim v = v \<and> \<not> list_ex is_control_or_del v"

definition hold_limit :: "int \<Rightarrow> bool" where
  "hold_limit n \<longleftrightarrow> isSafeInteger n \<and> 0 < n \<and> n \<le> 2147483647"

definition valid_hold_budget :: "progress_budget \<Rightarrow> bool" where
  "valid_hold_budget b \<longleftrightarrow> list_all hold_limit [max_reasoning_turns b, max_provider_calls b, max_operations b,
     max_equivalent_operations b, max_no_progress_epochs b, max_reconciliation_attempts b, max_wall_clock_ms b,
     max_total_tokens b]"

definition validateProviderUsageHoldV1 ::
  "snapshot \<Rightarrow> string \<Rightarrow> string \<Rightarrow> provider_usage_hold \<Rightarrow> (bool \<times> kernel_error) list" where
  "validateProviderUsageHoldV1 s actor now h =
     [(actor = ''assignment-execution-controller'', ''provider_usage_hold_authority_invalid''),
      (h_schema h = PROVIDER_USAGE_HOLD_V1_SCHEMA \<and> h_code h = ''usageLimitExceeded'', ''provider_usage_hold_invalid''),
      (hold_text (h_hold_id h) \<and> hold_text (h_attempt_id h) \<and> hold_text (h_provider_thread_id h)
         \<and> hold_text (h_provider_turn_id h), ''provider_usage_hold_identity_invalid''),
      (sameAssignmentBindingV2 (sn_current_binding s) (h_binding h), ''provider_usage_hold_binding_mismatch''),
      (h_recorded_at h = now \<and> finite_time (h_recorded_at h), ''provider_usage_hold_time_invalid''),
      (valid_hold_budget (h_resume_budget h), ''provider_usage_hold_budget_invalid''),
      ((case h_worker_identity h of None \<Rightarrow> True | Some w \<Rightarrow> validProviderUsageWorkerIdentityV1 w),
         ''provider_usage_hold_worker_identity_invalid''),
      (sn_provider_usage_hold s = None, ''provider_usage_hold_already_active'')]"

definition unknown_prior :: "snapshot \<Rightarrow> operation \<Rightarrow> bool" where
  "unknown_prior s p = (case truthy_lookup (sn_operations s) (op_reconciliation_of p) of
     None \<Rightarrow> False
   | Some q \<Rightarrow> op_persistent_effect q = UnknownEffect \<and> op_binding q = sn_current_binding s)"

definition assertProviderUsageOperationAdmissionV1 :: "snapshot \<Rightarrow> operation \<Rightarrow> (bool \<times> kernel_error) list" where
  "assertProviderUsageOperationAdmissionV1 s p =
     (if sn_provider_usage_hold s = None \<or> truthy (op_parent_id p) then []
      else [(op_requested_effect p = ReadEffect \<and> op_purpose p = Reconciliation \<and> unknown_prior s p,
              ''assignment_provider_usage_held'')])"

definition frozen_budget :: "kernel_env \<Rightarrow> snapshot \<Rightarrow> execution_policy \<Rightarrow> progress_budget \<Rightarrow> progress_budget" where
  "frozen_budget env s p captured =
     (let original = captured\<lparr>max_provider_calls := ep_max_provider_calls p, max_reasoning_turns := ep_max_provider_calls p,
            max_operations := ep_max_operations p, max_total_tokens := ep_max_total_tokens p,
            max_wall_clock_ms := ep_max_wall_clock_ms p\<rparr> in
      case Option.bind (ep_progress_allowance p) pa_max_wall_clock_ms of
        None \<Rightarrow> original
      | Some _ \<Rightarrow> defaultAssignmentWorkBudgetV2 env s original)"

definition assertProviderUsageResumeV1 ::
  "kernel_env \<Rightarrow> snapshot \<Rightarrow> control_request \<Rightarrow> int \<Rightarrow> string \<Rightarrow> (bool \<times> kernel_error) list" where
  "assertProviderUsageResumeV1 env s c version now = (case sn_provider_usage_hold s of
     None \<Rightarrow> [(cr_expected_hold_id c = None, ''provider_usage_resume_hold_stale'')]
   | Some h \<Rightarrow>
       [(cr_expected_hold_id c = Some (h_hold_id h), ''provider_usage_resume_hold_stale''),
        (cr_expected_assignment_version c = Some (version - 1) \<and> isSafeInteger (version - 1),
           ''provider_usage_resume_version_stale''),
        (sameAssignmentBindingV2 (h_binding h) (sn_current_binding s), ''provider_usage_resume_binding_stale''),
        (sn_quiescent s \<and> sn_in_flight_operation_ids s = [] \<and> sn_in_flight_provider_call_ids s = [],
           ''assignment_resume_not_quiescent''),
        (sn_unresolved_unknown_operation_ids s = [], ''assignment_resume_reconciliation_required''),
        (sn_pending_input_variable_ids s = [] \<and> sn_pending_review_ids s = [] \<and> sn_completion_proposal s = None,
           ''provider_usage_resume_input_or_review_pending''),
        (sn_progress_blocker s = None \<and> \<not> sn_provider_budget_exhausted s \<and> sn_execution_failure_ids s = [],
           ''provider_usage_resume_execution_blocked''),
        (deriveAssignmentOutcomeV2 (s\<lparr>sn_provider_usage_hold := None\<rparr>)
           \<notin> {AwaitingUserInput, AwaitingUserReview, Blocked, Failed}, ''provider_usage_resume_execution_blocked''),
        (assignmentProgressBudgetBlockerV2 s (h_resume_budget h) now = None, ''provider_usage_resume_budget_exhausted'')]
       @ (case active_policy s of
            None \<Rightarrow> []
          | Some p \<Rightarrow>
              [(validLocalAdvisoryPolicyV1 env (sn_spec s), ''provider_usage_resume_policy_invalid''),
               (assignmentProgressBudgetBlockerV2 s (frozen_budget env s p (h_resume_budget h)) now = None,
                  ''provider_usage_resume_budget_exhausted'')]))"

definition applyAssignmentExecutionControlV2 ::
  "kernel_env \<Rightarrow> snapshot \<Rightarrow> string \<Rightarrow> control_request \<Rightarrow> int \<Rightarrow> string \<Rightarrow> kernel_error + snapshot" where
  "applyAssignmentExecutionControlV2 env s actor c version now =
     guard
       ([(actor = ''authenticated-user'', ''assignment_control_authority_invalid''),
         (bounded_identity 159 (cr_command_id c), ''assignment_control_identity_invalid''),
         (cr_expected_command_id c = map_option xc_command_id (sn_execution_control s), ''assignment_control_stale'')]
        @ (if cr_action c = ResumeAction then
             [(sn_quiescent s, ''assignment_resume_not_quiescent''),
              (sn_unresolved_unknown_operation_ids s = [], ''assignment_resume_reconciliation_required'')]
             @ assertProviderUsageResumeV1 env s c version now
           else []))
       (Inr (s\<lparr>sn_provider_usage_hold := (if cr_action c = ResumeAction then None else sn_provider_usage_hold s),
              sn_execution_control := Some \<lparr>xc_state = (if cr_action c = PauseAction then ControlPaused else ControlRunning),
                xc_command_id = cr_command_id c, xc_changed_at = now\<rparr>\<rparr>))"

section \<open>Lemmas\<close>

lemma applyAssignmentExecutionControlV2_effect [effect]:
  assumes "applyAssignmentExecutionControlV2 env s actor c version now = Inr s'"
  shows "actor = ''authenticated-user''" "cr_expected_command_id c = map_option xc_command_id (sn_execution_control s)"
    "s' = s\<lparr>sn_provider_usage_hold := sn_provider_usage_hold s', sn_execution_control := sn_execution_control s'\<rparr>"
    "paused s' \<longleftrightarrow> cr_action c = PauseAction"
    "cr_action c = PauseAction \<Longrightarrow> sn_provider_usage_hold s' = sn_provider_usage_hold s"
    "cr_action c = ResumeAction \<Longrightarrow> sn_provider_usage_hold s' = None"
  using assms by (cases "cr_action c"; auto simp: applyAssignmentExecutionControlV2_def guard_simps paused_def)+

lemma resume_fenced:
  assumes "applyAssignmentExecutionControlV2 env s actor c version now = Inr s'" "cr_action c = ResumeAction"
  shows "sn_quiescent s" "sn_unresolved_unknown_operation_ids s = []"
    "first_failure (assertProviderUsageResumeV1 env s c version now) = None"
  using assms by (simp_all add: applyAssignmentExecutionControlV2_def guard_simps)

lemma resume_hold_fenced:
  assumes "applyAssignmentExecutionControlV2 env s actor c version now = Inr s'" "cr_action c = ResumeAction"
    "sn_provider_usage_hold s = Some h"
  shows "cr_expected_hold_id c = Some (h_hold_id h)" "cr_expected_assignment_version c = Some (version - 1)"
    "h_binding h = sn_current_binding s" "sn_pending_input_variable_ids s = []" "sn_pending_review_ids s = []"
    "sn_progress_blocker s = None" "sn_execution_failure_ids s = []"
    "assignmentProgressBudgetBlockerV2 s (h_resume_budget h) now = None"
  using resume_fenced(3) [OF assms(1,2)] assms(3)
  by (simp_all add: assertProviderUsageResumeV1_def guard_simps)

end
