(* ===== verification/RetryReaders.thy ===== *)
theory RetryReaders
  imports ProgressDecision NativeArtifact NativeReaders
begin

text \<open>
  The readers that let an operation repeat or follow another one: the read that was never dispatched
  (\<open>pre_dispatch_read_retry.ts\<close>), the fresh read after a native commit (\<open>committed_read_refresh.ts\<close>), the
  correction after a committed target change (\<open>committed_target_retry.ts\<close>), the reopening of a family
  after a freed slot (\<open>family_capacity_retry.ts\<close>). Each recomputes the relation from the snapshot, so the
  relation a caller claims is never authority.
\<close>

section \<open>Retry of a read that was never dispatched\<close>

definition positive_version :: "int option \<Rightarrow> bool" where
  "positive_version v \<longleftrightarrow> v \<noteq> None \<and> v \<noteq> Some 0"

definition later_apply :: "int \<Rightarrow> operation \<Rightarrow> bool" where
  "later_apply settled p \<longleftrightarrow> op_requested_effect p = ApplyEffect
     \<and> (op_settlement_state p \<noteq> Settled \<or> op_persistent_effect p = UnknownEffect
        \<or> (case op_admitted_version p of None \<Rightarrow> True | Some v \<Rightarrow> settled < v))"

definition retry_subject_ok :: "snapshot \<Rightarrow> operation \<Rightarrow> operation \<Rightarrow> bool" where
  "retry_subject_ok s p a \<longleftrightarrow> op_requested_effect a = ApplyEffect \<and> op_admission_state a = Admitted
     \<and> op_settlement_state a = Settled \<and> op_persistent_effect a = AppliedEffect
     \<and> result_is a (\<lambda>r. r_authority r = ''native-host'' \<and> r_status r = Succeeded
          \<and> r_native_transaction_state r = TxCommitted \<and> r_persistent_effect r = AppliedEffect
          \<and> r_dispatch_state r = Dispatched \<and> r_binding r = op_binding p)
     \<and> op_binding a = op_binding p \<and> positive_version (op_settled_version a)
     \<and> op_id a \<notin> set (sn_input_invalidated_operation_ids s)
     \<and> \<not> list_ex (later_apply (the (op_settled_version a))) (rvals (sn_operations s))"

definition canonical_target_of :: "operation \<Rightarrow> canonical_target" where
  "canonical_target_of p = (op_target p)\<lparr>tg_semantic_scope := map_option (sort_key fst) (tg_semantic_scope (op_target p))\<rparr>"

definition same_read_request :: "operation \<Rightarrow> operation \<Rightarrow> operation \<Rightarrow> bool" where
  "same_read_request p a q \<longleftrightarrow> op_requested_effect q = ReadEffect \<and> op_verification_of q = Some (op_id a)
     \<and> op_request_identity q = op_request_identity p
     \<and> canonicalJsonV2 (JObj (op_input q)) = canonicalJsonV2 (JObj (op_input p))
     \<and> canonical_target_of q = canonical_target_of p"

definition version_or_0 :: "int option \<Rightarrow> int" where
  "version_or_0 v = (case v of None \<Rightarrow> 0 | Some n \<Rightarrow> n)"

definition undispatched_prior_ok :: "snapshot \<Rightarrow> operation \<Rightarrow> operation \<Rightarrow> operation \<Rightarrow> bool" where
  "undispatched_prior_ok s p a q \<longleftrightarrow> \<not> truthy (op_retry_of q)
     \<and> \<not> list_ex (\<lambda>o'. op_retry_of o' = Some (op_id q)) (rvals (sn_operations s))
     \<and> op_admission_state q = Admitted \<and> op_settlement_state q = Settled
     \<and> op_purpose q = Verification \<and> op_fulfillment_role q = Some VerificationFulfillment
     \<and> op_dispatch_state q = NotDispatched \<and> op_persistent_effect q = NoEffect \<and> op_observation_ids q = []
     \<and> result_is q (\<lambda>r. r_authority r = ''native-host'' \<and> r_status r = FailedBeforeDispatch
          \<and> r_dispatch_state r = NotDispatched \<and> r_persistent_effect r = NoEffect \<and> \<not> r_observation_required r
          \<and> r_native_transaction_state r \<in> {TxNotApplicable, TxNotStarted} \<and> truthy (r_native_correlation_id r)
          \<and> r_input_schema_gap r = None \<and> r_result_semantic_gap r = None
          \<and> r_binding r = op_binding p \<and> r_request_identity r = op_request_identity q)
     \<and> op_binding q = op_binding p
     \<and> positive_version (op_admitted_version q) \<and> positive_version (op_settled_version q)
     \<and> the (op_settled_version a) < the (op_admitted_version q)
     \<and> the (op_settled_version q) \<le> sn_assignment_version s
     \<and> op_id q \<notin> set (sn_input_invalidated_operation_ids s)"

definition preDispatchReadRetryV2 :: "snapshot \<Rightarrow> operation \<Rightarrow> string option" where
  "preDispatchReadRetryV2 s p =
     (if op_requested_effect p = ReadEffect \<and> op_purpose p = Verification
         \<and> op_fulfillment_role p = Some VerificationFulfillment \<and> role_or_root p = RootRole
         \<and> truthy (op_verification_of p) \<and> \<not> sn_terminal s \<and> sn_completion_proposal s = None \<and> \<not> paused s
         \<and> sn_unresolved_unknown_operation_ids s = [] \<and> truthy (b_document_fingerprint (op_binding p))
         \<and> tg_document_fingerprint (op_target p) = b_document_fingerprint (op_binding p)
         \<and> op_binding p = sn_current_binding s
      then (case rget (sn_operations s) (the (op_verification_of p)) of
          None \<Rightarrow> None
        | Some a \<Rightarrow>
            if \<not> retry_subject_ok s p a then None
            else (case sort_key (\<lambda>q. - version_or_0 (op_admitted_version q))
                    (filter (same_read_request p a) (rvals (sn_operations s))) of
                [] \<Rightarrow> None
              | q # _ \<Rightarrow> if undispatched_prior_ok s p a q then Some (op_id q) else None))
      else None)"

definition same_native_request :: "request_identity \<Rightarrow> operation \<Rightarrow> bool" where
  "same_native_request q prior = (case op_request_identity prior of
     None \<Rightarrow> False
   | Some r \<Rightarrow> ri_method r = ri_method q \<and> ri_path r = ri_path q \<and> ri_request_signature r = ri_request_signature q)"

section \<open>Choosing the latest operation\<close>

text \<open>\<open>operations.sort((a, b) => b.version - a.version)[0]\<close>\<close>

definition latest :: "(operation \<Rightarrow> int option) \<Rightarrow> operation list \<Rightarrow> operation option" where
  "latest f ops = (case sort_key (\<lambda>p. - version_or_0 (f p)) ops of [] \<Rightarrow> None | p # _ \<Rightarrow> Some p)"

lemma latest_in: "latest f ops = Some p \<Longrightarrow> p \<in> set ops"
  by (auto simp: latest_def split: list.splits) (metis list.set_intros(1) set_sort)

text \<open>\<open>a.version > b.version\<close> on optional versions: false as soon as one is missing.\<close>

definition version_after :: "int option \<Rightarrow> int option \<Rightarrow> bool" where
  "version_after a b = (case (a, b) of (Some x, Some y) \<Rightarrow> y < x | _ \<Rightarrow> False)"

definition open_apply :: "operation \<Rightarrow> bool" where
  "open_apply p \<longleftrightarrow> op_requested_effect p = ApplyEffect
     \<and> (op_settlement_state p \<noteq> Settled \<or> op_persistent_effect p = UnknownEffect)"

definition is_retried :: "snapshot \<Rightarrow> operation \<Rightarrow> bool" where
  "is_retried s p = list_ex (\<lambda>q. op_retry_of q = Some (op_id p)) (rvals (sn_operations s))"

definition same_input :: "operation \<Rightarrow> operation \<Rightarrow> bool" where
  "same_input p q \<longleftrightarrow> canonicalJsonV2 (JObj (op_input p)) = canonicalJsonV2 (JObj (op_input q))"

definition same_target :: "operation \<Rightarrow> operation \<Rightarrow> bool" where
  "same_target p q \<longleftrightarrow> canonical_target_of p = canonical_target_of q"

section \<open>A fresh read after a native commit\<close>

text \<open>Admitted and settled under journal versions, the later one not beyond the snapshot.\<close>

definition settled_in_order :: "snapshot \<Rightarrow> operation \<Rightarrow> bool" where
  "settled_in_order s p \<longleftrightarrow> positive_version (op_admitted_version p) \<and> positive_version (op_settled_version p)
     \<and> version_after (op_settled_version p) (op_admitted_version p)
     \<and> (case op_settled_version p of None \<Rightarrow> False | Some v \<Rightarrow> v \<le> sn_assignment_version s)"

definition result_observed :: "snapshot \<Rightarrow> operation \<Rightarrow> operation_result \<Rightarrow> bool" where
  "result_observed s p r = list_ex (\<lambda>i. case rget (sn_observations s) i of
      None \<Rightarrow> False
    | Some ob \<Rightarrow> obs_operation_id ob = op_id p \<and> obs_authority ob = ''native-host'' \<and> obs_binding ob = op_binding p
        \<and> Some (obs_raw_payload_hash ob) = r_raw_payload_hash r \<and> obs_result_schema_id ob = r_result_schema_id r
        \<and> obs_raw_payload_ref ob \<noteq> []) (op_observation_ids p)"

definition nativeResult :: "snapshot \<Rightarrow> operation \<Rightarrow> bool" where
  "nativeResult s p \<longleftrightarrow> op_admission_state p = Admitted \<and> op_dispatch_authority p = Some NativeAuthority
     \<and> op_dispatch_state p = Dispatched \<and> op_settlement_state p = Settled
     \<and> \<not> truthy (op_observation_retention_error p) \<and> op_observation_ids p \<noteq> [] \<and> settled_in_order s p
     \<and> result_is p (\<lambda>r. r_authority r = ''native-host'' \<and> r_status r = Succeeded \<and> r_dispatch_state r = Dispatched
          \<and> r_operation_id r = op_id p \<and> host_receipt r
          \<and> (case r_raw_payload_hash r of None \<Rightarrow> False | Some h \<Rightarrow> lower_hex 64 h)
          \<and> (case op_request_identity p of None \<Rightarrow> False | Some q \<Rightarrow> ri_request_signature q \<noteq> [])
          \<and> r_result_schema_id r = ''operator-native/'' @ literal_text (request_method p) @ '':''
               @ literal_text (request_path p) @ ''/v2''
          \<and> r_binding r = op_binding p \<and> result_observed s p r \<and> r_request_identity r = op_request_identity p)"

definition read_without_effect :: "operation \<Rightarrow> bool" where
  "read_without_effect p \<longleftrightarrow> op_persistent_effect p = NoEffect
     \<and> result_is p (\<lambda>r. r_native_transaction_state r = TxNotApplicable \<and> r_persistent_effect r = NoEffect)"

text \<open>A composed read did not reach the host itself; its only child did.\<close>

definition composed_read :: "operation \<Rightarrow> bool" where
  "composed_read prior \<longleftrightarrow> op_dispatch_state prior = NotDispatched
     \<and> result_is prior (\<lambda>r. r_status r = CompletedWithoutNativeDispatch \<and> r_authority r = ''operator-mcp-transport''
          \<and> r_dispatch_state r = NotDispatched
          \<and> r_result_schema_id r = ''operator-capability/'' @ op_capability_id prior @ ''/v2''
          \<and> r_binding r = op_binding prior \<and> r_request_identity r = op_request_identity prior)"

definition witnessing_child :: "snapshot \<Rightarrow> operation \<Rightarrow> operation \<Rightarrow> bool" where
  "witnessing_child s prior child \<longleftrightarrow> op_root_id child = Some (op_id prior) \<and> op_role child = Some ChildRole
     \<and> op_blocks_parent_settlement child = Some True \<and> op_requested_effect child = ReadEffect
     \<and> read_without_effect child \<and> nativeResult s child \<and> op_binding child = op_binding prior
     \<and> tg_document_fingerprint (op_target child) = b_document_fingerprint (op_binding prior)
     \<and> version_after (op_admitted_version child) (op_admitted_version prior)
     \<and> version_after (op_settled_version prior) (op_settled_version child)
     \<and> op_id child \<notin> set (sn_input_invalidated_operation_ids s) \<and> result_is child no_result_gaps"

definition readWitness :: "snapshot \<Rightarrow> operation \<Rightarrow> bool \<Rightarrow> bool" where
  "readWitness s prior document_scope \<longleftrightarrow> read_without_effect prior
     \<and> (nativeResult s prior
        \<or> document_scope \<and> composed_read prior
          \<and> (case filter (\<lambda>p. op_parent_id p = Some (op_id prior)) (rvals (sn_operations s)) of
               [child] \<Rightarrow> witnessing_child s prior child | _ \<Rightarrow> False))"

definition file_name_char :: "char \<Rightarrow> bool" where
  "file_name_char c \<longleftrightarrow> \<not> is_separator c \<and> c \<notin> {CHR '':'', CHR ''*'', CHR ''?'', CHR 0x22, CHR ''<'', CHR ''>'', CHR ''|''}
     \<and> \<not> is_control c"

definition bare_model_name :: "string \<Rightarrow> bool" where
  "bare_model_name f \<longleftrightarrow> list_all file_name_char f \<and> 4 < length f \<and> toLowerCase (drop (length f - 4) f) = ''.rvt''
     \<and> \<not> str_contains f ''..''"

definition sameDocumentSave :: "operation \<Rightarrow> bool" where
  "sameDocumentSave p = (case (op_result p, map_of (checkpoint_body p) ''filePath'') of
      (Some r, Some (JStr file)) \<Rightarrow>
        (let save = sub_row (receipt_of r) ''save_document'';
             actual = normalized_path (text_of (sub_row save ''after'') ''path''); requested = normalized_path file;
             fp = map_option JStr (b_document_fingerprint (op_binding p));
             own = Some (''path:'' @ actual) in
         r_native_transaction_state r = TxNotApplicable \<and> nativeDocumentCheckpointResultV2 r
         \<and> jflag save ''same_document'' True \<and> map_of (sub_row save ''before'') ''project_fingerprint'' = fp
         \<and> map_of (sub_row save ''after'') ''project_fingerprint'' = fp
         \<and> (requested = actual \<and> tg_target_id (op_target p) = own
            \<or> bare_model_name file \<and> ends_with (CHR ''/'' # requested) actual
              \<and> (tg_target_id (op_target p) = None \<or> tg_target_id (op_target p) = own)
              \<and> (case r_affected_target_identities r of None \<Rightarrow> False
                 | Some ts \<Rightarrow> list_ex (\<lambda>t. normalized_path t = ''artifact_path:'' @ actual) ts)))
    | _ \<Rightarrow> False)"

definition refresh_subject_ok :: "snapshot \<Rightarrow> operation \<Rightarrow> bool" where
  "refresh_subject_ok s p \<longleftrightarrow> op_requested_effect p = ReadEffect \<and> op_purpose p \<in> {Discovery, Verification}
     \<and> role_or_root p = RootRole \<and> \<not> sn_terminal s \<and> sn_completion_proposal s = None \<and> \<not> paused s
     \<and> sn_unresolved_unknown_operation_ids s = [] \<and> bound_to_document p \<and> op_binding p = sn_current_binding s
     \<and> (case op_request_identity p of None \<Rightarrow> False | Some q \<Rightarrow> ri_request_signature q \<noteq> [])
     \<and> \<not> list_ex (\<lambda>i. case rget (sn_operations s) i of None \<Rightarrow> False | Some q \<Rightarrow> op_requested_effect q = ApplyEffect)
          (sn_in_flight_operation_ids s)"

definition equivalent_prior :: "snapshot \<Rightarrow> operation \<Rightarrow> operation option" where
  "equivalent_prior s p = latest op_admitted_version
     (filter (\<lambda>q. op_binding q = op_binding p \<and> operationProgressIdentityV2 q = operationProgressIdentityV2 p)
       (rvals (sn_operations s)))"

definition refreshable_read :: "snapshot \<Rightarrow> operation \<Rightarrow> bool \<Rightarrow> bool" where
  "refreshable_read s prior document_scope \<longleftrightarrow> op_requested_effect prior = ReadEffect \<and> op_settlement_state prior = Settled
     \<and> readWitness s prior document_scope \<and> result_is prior no_result_gaps
     \<and> op_id prior \<notin> set (sn_input_invalidated_operation_ids s) \<and> \<not> is_retried s prior"

definition refreshing_change :: "snapshot \<Rightarrow> operation \<Rightarrow> operation \<Rightarrow> bool \<Rightarrow> operation \<Rightarrow> bool" where
  "refreshing_change s p prior document_scope c \<longleftrightarrow> op_requested_effect c = ApplyEffect
     \<and> op_persistent_effect c = AppliedEffect
     \<and> result_is c (\<lambda>r. r_persistent_effect r = AppliedEffect
          \<and> (r_native_transaction_state r = TxCommitted \<or> document_scope \<and> sameDocumentSave c))
     \<and> nativeResult s c \<and> op_binding c = op_binding p
     \<and> tg_document_fingerprint (op_target c) = b_document_fingerprint (op_binding p)
     \<and> version_after (op_admitted_version c) (op_settled_version prior)
     \<and> op_id c \<notin> set (sn_input_invalidated_operation_ids s)
     \<and> (document_scope \<or> result_is c (\<lambda>r. list_ex (\<lambda>i. i \<in> set (declaredElementIds c) \<and> i \<in> set (declaredElementIds p))
          (affected_elements r)))"

definition readRefreshV2 :: "snapshot \<Rightarrow> operation \<Rightarrow> bool \<Rightarrow> (string option \<times> string option) option" where
  "readRefreshV2 s p document_scope =
     (if \<not> refresh_subject_ok s p then None
      else (case equivalent_prior s p of
          None \<Rightarrow> None
        | Some prior \<Rightarrow>
            if \<not> refreshable_read s prior document_scope \<or> \<not> document_scope \<and> declaredElementIds p = [] then None
            else map_option (\<lambda>c. (Some (op_id prior), Some (op_id c)))
              (latest op_settled_version (filter (refreshing_change s p prior document_scope) (rvals (sn_operations s))))))"

definition committedReadRefreshV2 :: "snapshot \<Rightarrow> operation \<Rightarrow> (string option \<times> string option) option" where
  "committedReadRefreshV2 s p = readRefreshV2 s p False"

definition committedDocumentReadRefreshV2 :: "snapshot \<Rightarrow> operation \<Rightarrow> (string option \<times> string option) option" where
  "committedDocumentReadRefreshV2 s p = readRefreshV2 s p True"

section \<open>A correction after a committed target change\<close>

definition rolled_back_prior :: "snapshot \<Rightarrow> operation \<Rightarrow> bool" where
  "rolled_back_prior s prior \<longleftrightarrow> op_settlement_state prior = Settled \<and> op_persistent_effect prior = NoEffect
     \<and> op_dispatch_authority prior = Some NativeAuthority
     \<and> result_is prior (\<lambda>r. r_status r = FailedAfterDispatch \<and> r_authority r = ''native-host''
          \<and> r_persistent_effect r = NoEffect \<and> r_native_transaction_state r \<in> {TxNotStarted, TxRolledBack} \<and> no_result_gaps r)
     \<and> \<not> truthy (op_observation_retention_error prior) \<and> positive_version (op_settled_version prior)
     \<and> \<not> is_retried s prior"

definition committed_change :: "snapshot \<Rightarrow> operation \<Rightarrow> operation \<Rightarrow> operation \<Rightarrow> bool" where
  "committed_change s p prior c \<longleftrightarrow> op_binding c = op_binding p
     \<and> tg_document_fingerprint (op_target c) = b_document_fingerprint (op_binding p)
     \<and> op_requested_effect c = ApplyEffect \<and> op_settlement_state c = Settled \<and> op_persistent_effect c = AppliedEffect
     \<and> op_dispatch_authority c = Some NativeAuthority \<and> \<not> truthy (op_observation_retention_error c)
     \<and> result_is c (\<lambda>r. applied_and_committed r \<and> r_dispatch_state r = Dispatched \<and> host_receipt r
          \<and> r_binding r = op_binding p
          \<and> (list_ex (\<lambda>i. i \<in> set (declaredElementIds p) \<and> i \<in> set (declaredElementIds c)) (affected_elements r)
             \<or> committedNativeFailureDependencyV1 prior (declaredElementIds c) (affected_elements r) (declaredElementIds p)))
     \<and> settled_in_order s c \<and> version_after (op_admitted_version c) (op_settled_version prior)"

definition committedTargetChangeRetryV2 :: "snapshot \<Rightarrow> operation \<Rightarrow> (string option \<times> string option) option" where
  "committedTargetChangeRetryV2 s p =
     (if op_requested_effect p = ApplyEffect \<and> role_or_root p = RootRole \<and> bound_to_document p
         \<and> op_binding p = sn_current_binding s
      then (case equivalent_prior s p of
          None \<Rightarrow> None
        | Some prior \<Rightarrow>
            if \<not> rolled_back_prior s prior \<or> declaredElementIds p = [] then None
            else map_option (\<lambda>c. (Some (op_id prior), Some (op_id c)))
              (latest op_settled_version (filter (committed_change s p prior) (rvals (sn_operations s)))))
      else None)"

section \<open>Reopening a family after a freed slot\<close>

definition isOpen :: "operation \<Rightarrow> bool" where
  "isOpen p \<longleftrightarrow> nativeFamilySessionRequestV1 p = Some OpenFamily"

definition nativeNone :: "snapshot \<Rightarrow> operation \<Rightarrow> operation \<Rightarrow> bool" where
  "nativeNone s p q \<longleftrightarrow> op_binding q = op_binding p
     \<and> tg_document_fingerprint (op_target q) = b_document_fingerprint (op_binding p)
     \<and> op_requested_effect q = ApplyEffect \<and> op_settlement_state q = Settled \<and> op_persistent_effect q = NoEffect
     \<and> op_dispatch_authority q = Some NativeAuthority \<and> \<not> truthy (op_observation_retention_error q)
     \<and> op_observation_ids q \<noteq> []
     \<and> result_is q (\<lambda>r. r_authority r = ''native-host'' \<and> r_dispatch_state r = Dispatched \<and> r_persistent_effect r = NoEffect
          \<and> r_native_transaction_state r = TxNotApplicable \<and> host_receipt r \<and> truthy (r_raw_payload_hash r)
          \<and> r_binding r = op_binding p \<and> r_request_identity r = op_request_identity q \<and> no_result_gaps r)
     \<and> versions_ordered s q"

definition has_control_facts :: "observation \<Rightarrow> (string \<times> fact_scalar) list \<Rightarrow> bool" where
  "has_control_facts ob expected = list_all (\<lambda>kv. list_ex (\<lambda>f. fact_id f = ''control.field.'' @ fst kv
     \<and> fact_value_of f = FOne (snd kv)) (obs_facts ob)) expected"

definition hasFacts :: "snapshot \<Rightarrow> operation \<Rightarrow> operation \<Rightarrow> (string \<times> fact_scalar) list \<Rightarrow> bool" where
  "hasFacts s p q expected = list_ex (\<lambda>i. case rget (sn_observations s) i of
      None \<Rightarrow> False
    | Some ob \<Rightarrow> obs_authority ob = ''native-host'' \<and> obs_operation_id ob = op_id q \<and> obs_binding ob = op_binding p
        \<and> result_is q (\<lambda>r. Some (obs_raw_payload_hash ob) = r_raw_payload_hash r) \<and> obs_raw_payload_ref ob \<noteq> []
        \<and> has_control_facts ob expected) (op_observation_ids q)"

definition status_is :: "operation \<Rightarrow> result_status \<Rightarrow> bool" where
  "status_is p st = result_is p (\<lambda>r. r_status r = st)"

definition slot_was_held :: "snapshot \<Rightarrow> operation \<Rightarrow> operation \<Rightarrow> string \<Rightarrow> bool" where
  "slot_was_held s p prior sid = list_ex (\<lambda>q. nativeNone s p q \<and> status_is q Succeeded \<and> isOpen q
     \<and> version_after (op_admitted_version prior) (op_settled_version q)
     \<and> hasFacts s p q [(''ok'', FBool True), (''family_document_id'', FStr sid)]) (rvals (sn_operations s))"

definition slot_freed_by :: "snapshot \<Rightarrow> operation \<Rightarrow> operation \<Rightarrow> operation \<Rightarrow> bool" where
  "slot_freed_by s p prior q = (case nativeFamilySessionRequestV1 q of
      Some (CloseWithoutSave sid) \<Rightarrow> nativeNone s p q \<and> status_is q Succeeded
        \<and> version_after (op_admitted_version q) (op_settled_version prior)
        \<and> hasFacts s p q [(''ok'', FBool True), (''closed'', FBool True), (''saved'', FBool False), (''family_document_id'', FStr sid)]
        \<and> \<not> list_ex (\<lambda>used. op_retry_after used = Some (op_id q)) (rvals (sn_operations s))
        \<and> slot_was_held s p prior sid
        \<and> \<not> list_ex (\<lambda>o'. isOpen o' \<and> status_is o' Succeeded \<and> version_after (op_admitted_version o') (op_settled_version q))
             (rvals (sn_operations s))
    | _ \<Rightarrow> False)"

definition familyCapacityRetryV2 :: "snapshot \<Rightarrow> operation \<Rightarrow> (string option \<times> string option) option" where
  "familyCapacityRetryV2 s p =
     (if op_requested_effect p = ApplyEffect \<and> role_or_root p = RootRole \<and> isOpen p \<and> bound_to_document p
         \<and> op_binding p = sn_current_binding s \<and> sn_unresolved_unknown_operation_ids s = []
         \<and> \<not> list_ex open_apply (rvals (sn_operations s))
      then (case latest op_admitted_version (filter (\<lambda>q. op_request_identity q = op_request_identity p
              \<and> same_input q p \<and> same_target q p) (rvals (sn_operations s))) of
          None \<Rightarrow> None
        | Some prior \<Rightarrow>
            if nativeNone s p prior \<and> result_is prior (\<lambda>r. r_status r = FailedAfterDispatch
                 \<and> r_error_code r = Some ''family_session_capacity_reached'') \<and> \<not> is_retried s prior
            then map_option (\<lambda>q. (Some (op_id prior), Some (op_id q)))
              (latest op_settled_version (filter (slot_freed_by s p prior) (rvals (sn_operations s))))
            else None)
      else None)"

section \<open>Lemmas\<close>

text \<open>Every relation these readers derive names a settled operation without effect and a change after it.\<close>

lemma read_refresh_sound:
  assumes "readRefreshV2 s p document_scope = Some (a, b)"
  shows "\<exists>prior c. a = Some (op_id prior) \<and> b = Some (op_id c) \<and> prior \<in> set (rvals (sn_operations s))
    \<and> c \<in> set (rvals (sn_operations s)) \<and> op_persistent_effect prior = NoEffect \<and> op_settlement_state prior = Settled
    \<and> \<not> is_retried s prior \<and> op_persistent_effect c = AppliedEffect
    \<and> version_after (op_admitted_version c) (op_settled_version prior)"
proof -
  obtain prior c where r: "equivalent_prior s p = Some prior" "refreshable_read s prior document_scope"
      "latest op_settled_version (filter (refreshing_change s p prior document_scope) (rvals (sn_operations s))) = Some c"
      "a = Some (op_id prior)" "b = Some (op_id c)"
    using assms by (auto simp: readRefreshV2_def split: option.splits if_splits)
  have "prior \<in> set (rvals (sn_operations s))" using latest_in r(1) by (force simp: equivalent_prior_def)
  moreover have "c \<in> set (rvals (sn_operations s))" "refreshing_change s p prior document_scope c"
    using latest_in [OF r(3)] by simp_all
  moreover have "op_persistent_effect prior = NoEffect" "op_settlement_state prior = Settled" "\<not> is_retried s prior"
    using r(2) by (simp_all add: refreshable_read_def readWitness_def read_without_effect_def)
  ultimately show ?thesis using r(4,5) unfolding refreshing_change_def by blast
qed

lemma committed_target_sound:
  assumes "committedTargetChangeRetryV2 s p = Some (a, b)"
  shows "\<exists>prior c. a = Some (op_id prior) \<and> b = Some (op_id c) \<and> prior \<in> set (rvals (sn_operations s))
    \<and> c \<in> set (rvals (sn_operations s)) \<and> op_persistent_effect prior = NoEffect \<and> op_settlement_state prior = Settled
    \<and> \<not> is_retried s prior \<and> op_persistent_effect c = AppliedEffect
    \<and> version_after (op_admitted_version c) (op_settled_version prior)"
proof -
  obtain prior c where r: "equivalent_prior s p = Some prior" "rolled_back_prior s prior"
      "latest op_settled_version (filter (committed_change s p prior) (rvals (sn_operations s))) = Some c"
      "a = Some (op_id prior)" "b = Some (op_id c)"
    using assms by (auto simp: committedTargetChangeRetryV2_def split: option.splits if_splits)
  have "prior \<in> set (rvals (sn_operations s))" using latest_in r(1) by (force simp: equivalent_prior_def)
  moreover have "c \<in> set (rvals (sn_operations s))" "committed_change s p prior c" using latest_in [OF r(3)] by simp_all
  ultimately show ?thesis using r(2,4,5) unfolding rolled_back_prior_def committed_change_def by blast
qed

lemma family_capacity_sound:
  assumes "familyCapacityRetryV2 s p = Some (a, b)"
  shows "\<exists>prior c. a = Some (op_id prior) \<and> b = Some (op_id c) \<and> prior \<in> set (rvals (sn_operations s))
    \<and> c \<in> set (rvals (sn_operations s)) \<and> op_persistent_effect prior = NoEffect \<and> op_settlement_state prior = Settled
    \<and> \<not> is_retried s prior \<and> version_after (op_admitted_version c) (op_settled_version prior)
    \<and> \<not> list_ex (\<lambda>used. op_retry_after used = b) (rvals (sn_operations s))"
proof -
  obtain prior c where r: "nativeNone s p prior" "\<not> is_retried s prior"
      "latest op_admitted_version (filter (\<lambda>q. op_request_identity q = op_request_identity p
         \<and> same_input q p \<and> same_target q p) (rvals (sn_operations s))) = Some prior"
      "latest op_settled_version (filter (slot_freed_by s p prior) (rvals (sn_operations s))) = Some c"
      "a = Some (op_id prior)" "b = Some (op_id c)"
    using assms by (auto simp: familyCapacityRetryV2_def split: option.splits if_splits)
  have "prior \<in> set (rvals (sn_operations s))" using latest_in [OF r(3)] by simp
  moreover have "c \<in> set (rvals (sn_operations s))" "slot_freed_by s p prior c" using latest_in [OF r(4)] by simp_all
  moreover have "version_after (op_admitted_version c) (op_settled_version prior)"
      "\<not> list_ex (\<lambda>used. op_retry_after used = Some (op_id c)) (rvals (sn_operations s))"
    using calculation(3) by (auto simp: slot_freed_by_def split: option.splits family_request.splits)
  ultimately show ?thesis using r(1,2,5,6) unfolding nativeNone_def by blast
qed

end
