(* ===== verification/WriteContinuations.thy ===== *)
theory WriteContinuations
  imports RetryReaders
begin

text \<open>
  The three continuations of an applied write that are not a retry of it: saving a document that changed
  since its last save (\<open>document_checkpoint.ts\<close>), reassigning a view template after a counter-assignment
  (\<open>template_reassignment.ts\<close>) and restoring schedule filters after a counter-state
  (\<open>schedule_filter_restoration.ts\<close>). All three are recomputed from the snapshot at admission.
\<close>

section \<open>Shared conditions\<close>

definition not_a_retry :: "operation \<Rightarrow> bool" where
  "not_a_retry p \<longleftrightarrow> \<not> truthy (op_retry_of p) \<and> op_retry_basis p = None \<and> \<not> truthy (op_retry_after p)"

definition not_a_checkpoint :: "operation \<Rightarrow> bool" where
  "not_a_checkpoint p \<longleftrightarrow> \<not> truthy (op_checkpoint_of p) \<and> \<not> truthy (op_checkpoint_after p)"

definition not_a_reassignment :: "operation \<Rightarrow> bool" where
  "not_a_reassignment p \<longleftrightarrow> \<not> truthy (op_reassignment_of p) \<and> \<not> truthy (op_reassignment_after p)"

definition in_document_of :: "operation \<Rightarrow> operation \<Rightarrow> bool" where
  "in_document_of p q \<longleftrightarrow> op_binding q = op_binding p
     \<and> tg_document_fingerprint (op_target q) = b_document_fingerprint (op_binding p)"

definition other_operations :: "snapshot \<Rightarrow> operation \<Rightarrow> operation list" where
  "other_operations s p = filter (\<lambda>q. op_id q \<noteq> op_id p) (rvals (sn_operations s))"

definition repeats_of :: "operation \<Rightarrow> operation list \<Rightarrow> operation list" where
  "repeats_of p ops = (case op_request_identity p of
      None \<Rightarrow> []
    | Some q \<Rightarrow> filter (\<lambda>c. op_requested_effect c = ApplyEffect \<and> same_native_request q c) ops)"

section \<open>Document checkpoints\<close>

text \<open>The input without the discovery hint; \<open>None\<close> when the hint is malformed.\<close>

definition checkpointInputIdentity :: "json krecord \<Rightarrow> json option" where
  "checkpointInputIdentity input = (if jfield_absent_or input ''requireKnownPath'' js_bool
     then Some (canonicalJsonV2 (JObj (filter (\<lambda>kv. fst kv \<noteq> ''requireKnownPath'') input))) else None)"

definition checkpoint_subject_ok :: "snapshot \<Rightarrow> operation \<Rightarrow> bool" where
  "checkpoint_subject_ok s p \<longleftrightarrow> op_requested_effect p = ApplyEffect \<and> role_or_root p = RootRole \<and> not_a_retry p
     \<and> op_binding p = sn_current_binding s \<and> bound_to_document p
     \<and> request_method p \<noteq> None \<and> truthy (request_path p) \<and> applies_own_request p
     \<and> input_text_is p ''method'' (request_method p) \<and> input_text_is p ''path'' (request_path p)
     \<and> sn_unresolved_unknown_operation_ids s = []"

definition nativeApplied :: "snapshot \<Rightarrow> operation \<Rightarrow> operation \<Rightarrow> bool" where
  "nativeApplied s p c \<longleftrightarrow> in_document_of p c \<and> op_requested_effect c = ApplyEffect \<and> op_settlement_state c = Settled
     \<and> op_persistent_effect c = AppliedEffect \<and> op_dispatch_authority c = Some NativeAuthority
     \<and> \<not> truthy (op_observation_retention_error c) \<and> op_observation_ids c \<noteq> []
     \<and> result_is c (\<lambda>r. r_status r \<in> {Succeeded, FailedAfterDispatch} \<and> r_authority r = ''native-host''
          \<and> r_dispatch_state r = Dispatched \<and> r_persistent_effect r = AppliedEffect \<and> host_receipt r
          \<and> truthy (r_raw_payload_hash r) \<and> no_result_gaps r \<and> r_binding r = op_binding p
          \<and> op_request_identity c \<noteq> None \<and> r_request_identity r = op_request_identity c)
     \<and> versions_ordered s c"

definition isCheckpoint :: "snapshot \<Rightarrow> operation \<Rightarrow> operation \<Rightarrow> bool" where
  "isCheckpoint s p c \<longleftrightarrow> nativeApplied s p c \<and> role_or_root c = RootRole
     \<and> result_is c (\<lambda>r. r_status r = Succeeded \<and> nativeDocumentCheckpointResultV2 r
          \<and> (let saved = sub_row (receipt_of r) ''save_document'';
                 path = normalized_path (text_of (sub_row saved ''after'') ''path'');
                 fp = map_option JStr (b_document_fingerprint (op_binding p)) in
             jflag saved ''same_document'' True
             \<and> map_of (sub_row saved ''before'') ''project_fingerprint'' = fp
             \<and> map_of (sub_row saved ''after'') ''project_fingerprint'' = fp
             \<and> jfield_is (checkpoint_body c) ''filePath'' (js_string (\<lambda>f. normalized_path f = path))
             \<and> tg_target_id (op_target c) = Some (''path:'' @ path)))"

definition same_checkpoint :: "operation \<Rightarrow> operation \<Rightarrow> bool" where
  "same_checkpoint p c \<longleftrightarrow> op_capability_id c = op_capability_id p \<and> op_request_identity c = op_request_identity p
     \<and> same_target c p \<and> checkpointInputIdentity (op_input c) = checkpointInputIdentity (op_input p)"

text \<open>A committed change of the document after the last checkpoint that no other checkpoint consumed.\<close>

definition unsaved_change :: "snapshot \<Rightarrow> operation \<Rightarrow> operation \<Rightarrow> operation \<Rightarrow> bool" where
  "unsaved_change s p last_save c \<longleftrightarrow> nativeApplied s p c
     \<and> result_is c (\<lambda>r. r_native_transaction_state r = TxCommitted \<and> r_native_artifact_receipt r = None
          \<and> affected_elements r \<noteq> [])
     \<and> version_after (op_admitted_version c) (op_settled_version last_save)
     \<and> \<not> list_ex (\<lambda>q. op_checkpoint_after q = Some (op_id c)) (rvals (sn_operations s))"

definition documentCheckpointContinuationV2 :: "snapshot \<Rightarrow> operation \<Rightarrow> (string option \<times> string option) option" where
  "documentCheckpointContinuationV2 s p =
     (let ops = rvals (sn_operations s); repeats = repeats_of p ops in
      if \<not> checkpoint_subject_ok s p \<or> list_ex open_apply ops
         \<or> checkpointInputIdentity (op_input p) = None
         \<or> \<not> list_all (\<lambda>c. isCheckpoint s p c \<and> same_checkpoint p c) repeats then None
      else (case (latest op_admitted_version repeats, latest op_settled_version (filter (isCheckpoint s p) ops)) of
          (Some prior, Some last_save) \<Rightarrow>
            if list_ex (\<lambda>c. op_checkpoint_of c = Some (op_id prior)) ops then None
            else map_option (\<lambda>c. (Some (op_id prior), Some (op_id c)))
              (latest op_settled_version (filter (unsaved_change s p last_save) ops))
        | _ \<Rightarrow> None))"

section \<open>Template reassignment\<close>

definition request_view :: "operation \<Rightarrow> int option" where
  "request_view p = map_option template_view (nativeTemplateRequestV1 p)"

definition typed_request :: "operation \<Rightarrow> bool" where
  "typed_request p = (case nativeTemplateRequestV1 p of None \<Rightarrow> False | Some q \<Rightarrow> is_typed q)"

definition template_result_ok :: "operation \<Rightarrow> int \<Rightarrow> operation \<Rightarrow> bool" where
  "template_result_ok p view q = (case (op_native_template_state q, op_result q) of
      (Some t, Some r) \<Rightarrow> applied_and_committed r \<and> r_binding r = op_binding p
        \<and> nt_view_id t = view \<and> isSafeInteger (nt_template_id t) \<and> 0 < nt_template_id t
        \<and> nt_result_id t = r_result_id r \<and> Some (nt_raw_payload_hash t) = r_raw_payload_hash r
    | _ \<Rightarrow> False)"

definition validNative :: "snapshot \<Rightarrow> operation \<Rightarrow> int \<Rightarrow> operation \<Rightarrow> bool" where
  "validNative s p view q \<longleftrightarrow> request_view q = Some view \<and> in_document_of p q
     \<and> op_settlement_state q = Settled \<and> op_persistent_effect q = AppliedEffect
     \<and> op_dispatch_authority q = Some NativeAuthority \<and> \<not> truthy (op_observation_retention_error q)
     \<and> template_result_ok p view q
     \<and> host_observed s (op_binding p) q (map_option nt_raw_payload_hash (op_native_template_state q))
     \<and> versions_ordered s q"

definition typed_parent_ok :: "operation \<Rightarrow> int \<Rightarrow> operation \<Rightarrow> bool" where
  "typed_parent_ok p view q \<longleftrightarrow> typed_request q \<and> request_view q = Some view \<and> role_or_root q = RootRole
     \<and> op_binding q = op_binding p \<and> op_settlement_state q = Settled \<and> op_persistent_effect q = NoEffect
     \<and> \<not> truthy (op_observation_retention_error q)
     \<and> result_is q (\<lambda>r. r_status r = CompletedWithoutNativeDispatch \<and> r_authority r = ''operator-mcp-transport''
          \<and> r_dispatch_state r = NotDispatched \<and> r_persistent_effect r = NoEffect \<and> r_binding r = op_binding q)"

definition typed_child_ok :: "snapshot \<Rightarrow> operation \<Rightarrow> int \<Rightarrow> operation \<Rightarrow> operation \<Rightarrow> bool" where
  "typed_child_ok s p view q child \<longleftrightarrow> validNative s p view child \<and> op_role child = Some ChildRole
     \<and> op_root_id child = Some (op_id q)
     \<and> (case nativeTemplateRequestV1 child of None \<Rightarrow> False | Some c \<Rightarrow> is_native_parameter c)
     \<and> jfield_is (op_input child) ''body'' (\<lambda>b. canonicalJsonV2 b = canonicalJsonV2 (JObj (op_input q)))
     \<and> same_target child q
     \<and> version_after (op_admitted_version child) (op_admitted_version q)
     \<and> version_after (op_settled_version q) (op_settled_version child)"

text \<open>The operation that reached the host: itself, or the only child of a typed parameter operation.\<close>

definition nativeFor :: "snapshot \<Rightarrow> operation \<Rightarrow> int \<Rightarrow> operation \<Rightarrow> operation option" where
  "nativeFor s p view q =
     (if validNative s p view q then Some q
      else if \<not> typed_parent_ok p view q then None
      else (case filter (\<lambda>c. op_parent_id c = Some (op_id q)) (other_operations s p) of
          [child] \<Rightarrow> if typed_child_ok s p view q child then Some child else None
        | _ \<Rightarrow> None))"

definition template_of :: "snapshot \<Rightarrow> operation \<Rightarrow> int \<Rightarrow> operation \<Rightarrow> int option" where
  "template_of s p view q = Option.bind (nativeFor s p view q) (\<lambda>n. map_option nt_template_id (op_native_template_state n))"

definition counter_assignment :: "snapshot \<Rightarrow> operation \<Rightarrow> int \<Rightarrow> operation \<Rightarrow> operation \<Rightarrow> bool" where
  "counter_assignment s p view prior q \<longleftrightarrow> nativeFor s p view q \<noteq> None
     \<and> version_after (op_admitted_version q) (op_settled_version prior)
     \<and> op_capability_id q = op_capability_id prior \<and> role_or_root q = role_or_root prior
     \<and> template_of s p view q \<noteq> template_of s p view prior"

text \<open>An edit of the view after the counter-assignment makes the retained counter-state stale.\<close>

definition edits_view_after :: "int \<Rightarrow> operation \<Rightarrow> operation \<Rightarrow> bool" where
  "edits_view_after view counter q \<longleftrightarrow> op_requested_effect q = ApplyEffect \<and> op_persistent_effect q \<noteq> NoEffect
     \<and> version_after (op_admitted_version q) (op_settled_version counter)
     \<and> result_is q (\<lambda>r. case r_affected_target_identities r of None \<Rightarrow> False
          | Some ts \<Rightarrow> list_ex (\<lambda>t. t = ''element_id:'' @ int_text view \<or> t = ''id:'' @ int_text view) ts)"

definition reassignment_subject_ok :: "snapshot \<Rightarrow> operation \<Rightarrow> bool" where
  "reassignment_subject_ok s p \<longleftrightarrow> bound_to_document p \<and> op_binding p = sn_current_binding s
     \<and> not_a_retry p \<and> not_a_checkpoint p \<and> sn_unresolved_unknown_operation_ids s = []"

text \<open>The relation, when the apply operation \<open>allowed\<close> may still be open.\<close>

definition reassignment_relation ::
  "snapshot \<Rightarrow> operation \<Rightarrow> int \<Rightarrow> string option \<Rightarrow> (string option \<times> string option) option" where
  "reassignment_relation s p view allowed =
     (let ops = other_operations s p; repeats = repeats_of p ops in
      if list_ex (\<lambda>q. Some (op_id q) \<noteq> allowed \<and> open_apply q) ops
         \<or> \<not> list_all (\<lambda>q. nativeFor s p view q \<noteq> None \<and> same_input q p \<and> same_target q p) repeats then None
      else (case latest op_settled_version repeats of
          None \<Rightarrow> None
        | Some prior \<Rightarrow>
            if list_ex (\<lambda>q. op_reassignment_of q = Some (op_id prior)) ops then None
            else (case latest op_settled_version (filter (counter_assignment s p view prior) ops) of
                None \<Rightarrow> None
              | Some counter \<Rightarrow>
                  if list_ex (\<lambda>q. op_reassignment_after q = Some (op_id counter)) ops
                     \<or> (case nativeTemplateParameterChangeV1 p of None \<Rightarrow> False
                        | Some c \<Rightarrow> template_of s p view counter \<noteq> Some (ch_expected_old_value c))
                     \<or> list_ex (edits_view_after view counter) ops then None
                  else Some (Some (op_id prior), Some (op_id counter)))))"

text \<open>The open typed parent a native parameter child may follow, before its own relation is checked again.\<close>

definition continuing_parent :: "snapshot \<Rightarrow> operation \<Rightarrow> operation option" where
  "continuing_parent s p = (case truthy_lookup (sn_operations s) (op_parent_id p) of
      None \<Rightarrow> None
    | Some q \<Rightarrow>
        if typed_request q \<and> op_role p = Some ChildRole \<and> op_root_id p = Some (op_id q) \<and> op_binding q = op_binding p
           \<and> jfield_is (op_input p) ''body'' (\<lambda>b. canonicalJsonV2 (JObj (op_input q)) = canonicalJsonV2 b)
           \<and> same_target q p \<and> truthy (op_reassignment_of q) \<and> truthy (op_reassignment_after q)
        then Some q else None)"

lemma continuing_parent_root: "continuing_parent s p = Some q \<Longrightarrow> op_role p = Some ChildRole \<and> op_role q \<noteq> Some ChildRole"
  using typed_request_root [of q]
  by (auto simp: continuing_parent_def typed_request_def role_or_root_def split: option.splits if_splits)

text \<open>The recursion ends after one step: a typed parameter operation is a root operation and has no parent to follow.\<close>

function templateReassignmentV1 :: "snapshot \<Rightarrow> operation \<Rightarrow> (string option \<times> string option) option" where
  "templateReassignmentV1 s p = (case request_view p of
      None \<Rightarrow> None
    | Some view \<Rightarrow>
        if \<not> reassignment_subject_ok s p then None
        else reassignment_relation s p view (case continuing_parent s p of
            None \<Rightarrow> None
          | Some q \<Rightarrow> if templateReassignmentV1 s q = Some (op_reassignment_of q, op_reassignment_after q)
              then Some (op_id q) else None))"
  by pat_completeness auto
termination
  by (relation "measure (\<lambda>(s, p). if op_role p = Some ChildRole then 1 else 0)")
     (auto dest: continuing_parent_root)

declare templateReassignmentV1.simps [simp del]

section \<open>Schedule filter restoration\<close>

definition inventory_complete_fact :: "semantic_fact \<Rightarrow> bool" where
  "inventory_complete_fact f \<longleftrightarrow> fact_id f = ''control.native_change_inventory_complete''
     \<and> fact_class_of f = Some ControlFact \<and> fact_value_of f = FOne (FBool True)"

definition completeFootprint :: "snapshot \<Rightarrow> operation \<Rightarrow> operation \<Rightarrow> bool" where
  "completeFootprint s p q = result_is q (\<lambda>r. truthy (r_raw_payload_hash r) \<and> r_binding r = op_binding p
     \<and> list_ex (\<lambda>i. case rget (sn_observations s) i of
          None \<Rightarrow> False
        | Some ob \<Rightarrow> obs_operation_id ob = op_id q \<and> obs_authority ob = ''native-host'' \<and> obs_binding ob = op_binding p
            \<and> Some (obs_raw_payload_hash ob) = r_raw_payload_hash r
            \<and> list_ex inventory_complete_fact (obs_facts ob)) (op_observation_ids q))"

definition filter_result_ok :: "kernel_env \<Rightarrow> operation \<Rightarrow> int \<Rightarrow> operation \<Rightarrow> bool" where
  "filter_result_ok env p schedule q = (case (op_native_schedule_filter_state q, op_result q, nativeScheduleFilterRequestV1 env q) of
      (Some t, Some r, Some (i, state)) \<Rightarrow> i = schedule \<and> ns_schedule_id t = schedule \<and> ns_state_hash t = sha256 env state
        \<and> ns_result_id t = r_result_id r \<and> Some (ns_raw_payload_hash t) = r_raw_payload_hash r
        \<and> r_binding r = op_binding p \<and> applied_and_committed r \<and> r_dispatch_state r = Dispatched
        \<and> host_receipt r \<and> no_result_gaps r \<and> affects_element r schedule
    | _ \<Rightarrow> False)"

definition valid_filter_state :: "kernel_env \<Rightarrow> snapshot \<Rightarrow> operation \<Rightarrow> int \<Rightarrow> operation \<Rightarrow> bool" where
  "valid_filter_state env s p schedule q \<longleftrightarrow> filter_result_ok env p schedule q \<and> in_document_of p q
     \<and> op_settlement_state q = Settled \<and> op_persistent_effect q = AppliedEffect
     \<and> op_dispatch_authority q = Some NativeAuthority \<and> \<not> truthy (op_observation_retention_error q)
     \<and> completeFootprint s p q
     \<and> host_observed s (op_binding p) q (map_option ns_raw_payload_hash (op_native_schedule_filter_state q))
     \<and> versions_ordered s q"

definition state_hash_of :: "operation \<Rightarrow> string option" where
  "state_hash_of q = map_option ns_state_hash (op_native_schedule_filter_state q)"

definition counter_state :: "kernel_env \<Rightarrow> snapshot \<Rightarrow> operation \<Rightarrow> int \<Rightarrow> operation \<Rightarrow> operation \<Rightarrow> bool" where
  "counter_state env s p schedule prior q \<longleftrightarrow> valid_filter_state env s p schedule q
     \<and> version_after (op_admitted_version q) (op_settled_version prior) \<and> state_hash_of q \<noteq> state_hash_of prior"

text \<open>A later write whose footprint is unknown or includes the schedule: the counter-state may be stale.\<close>

definition may_change_schedule :: "snapshot \<Rightarrow> operation \<Rightarrow> int \<Rightarrow> operation \<Rightarrow> operation \<Rightarrow> bool" where
  "may_change_schedule s p schedule counter q \<longleftrightarrow> op_id q \<noteq> op_id counter \<and> op_requested_effect q = ApplyEffect
     \<and> op_persistent_effect q \<noteq> NoEffect
     \<and> (case op_settled_version q of None \<Rightarrow> True
        | Some v \<Rightarrow> \<not> isSafeInteger v \<or> version_after (Some v) (op_settled_version counter))
     \<and> (\<not> completeFootprint s p q
        \<or> \<not> result_is q (\<lambda>r. case r_affected_target_identities r of None \<Rightarrow> False
             | Some ts \<Rightarrow> ts \<noteq> [] \<and> \<not> list_ex (\<lambda>t. t = ''element_id:'' @ int_text schedule \<or> t = ''id:'' @ int_text schedule) ts))"

definition scheduleFilterRestorationV1 ::
  "kernel_env \<Rightarrow> snapshot \<Rightarrow> operation \<Rightarrow> (string option \<times> string option) option" where
  "scheduleFilterRestorationV1 env s p = (case nativeScheduleFilterRequestV1 env p of
      None \<Rightarrow> None
    | Some (schedule, state) \<Rightarrow>
        (let ops = other_operations s p; repeats = repeats_of p ops in
         if \<not> bound_to_document p \<or> op_binding p \<noteq> sn_current_binding s
            \<or> sn_unresolved_unknown_operation_ids s \<noteq> [] \<or> \<not> not_a_retry p \<or> \<not> not_a_checkpoint p \<or> \<not> not_a_reassignment p
            \<or> list_ex open_apply ops
            \<or> \<not> list_all (\<lambda>q. valid_filter_state env s p schedule q \<and> same_input q p \<and> same_target q p) repeats then None
         else (case latest op_settled_version repeats of
             None \<Rightarrow> None
           | Some prior \<Rightarrow>
               (case latest op_settled_version (filter (counter_state env s p schedule prior) ops) of
                  None \<Rightarrow> None
                | Some counter \<Rightarrow>
                    if list_ex (\<lambda>q. op_filter_restoration_after q = Some (op_id counter)) ops
                       \<or> list_ex (may_change_schedule s p schedule counter) ops then None
                    else Some (Some (op_id prior), Some (op_id counter))))))"

section \<open>Lemmas\<close>

lemma repeats_in: "q \<in> set (repeats_of p ops) \<Longrightarrow> q \<in> set ops \<and> op_requested_effect q = ApplyEffect"
  by (auto simp: repeats_of_def split: option.splits)

text \<open>
  Each continuation names an applied write and a later one, and is derived only while no write is open
  and no effect is unknown. The reassignment of a native child may follow its own open parent.
\<close>

lemma checkpoint_continuation_sound:
  assumes "documentCheckpointContinuationV2 s p = Some (a, b)"
  shows "\<not> list_ex open_apply (rvals (sn_operations s))"
    "\<exists>prior c. a = Some (op_id prior) \<and> b = Some (op_id c) \<and> prior \<in> set (rvals (sn_operations s))
      \<and> c \<in> set (rvals (sn_operations s)) \<and> isCheckpoint s p prior \<and> nativeApplied s p c
      \<and> \<not> list_ex (\<lambda>q. op_checkpoint_of q = a \<or> op_checkpoint_after q = b) (rvals (sn_operations s))"
proof -
  let ?ops = "rvals (sn_operations s)"
  obtain prior last_save c where r: "\<not> list_ex open_apply ?ops"
      "list_all (\<lambda>c. isCheckpoint s p c \<and> same_checkpoint p c) (repeats_of p ?ops)"
      "latest op_admitted_version (repeats_of p ?ops) = Some prior"
      "\<not> list_ex (\<lambda>c. op_checkpoint_of c = Some (op_id prior)) ?ops"
      "latest op_settled_version (filter (unsaved_change s p last_save) ?ops) = Some c"
      "a = Some (op_id prior)" "b = Some (op_id c)"
    using assms by (auto simp: documentCheckpointContinuationV2_def Let_def split: option.splits if_splits)
  show "\<not> list_ex open_apply ?ops" by (rule r(1))
  have "prior \<in> set (repeats_of p ?ops)" using latest_in [OF r(3)] .
  with r(2) have p: "isCheckpoint s p prior" "prior \<in> set ?ops" by (auto simp: list_all_iff dest: repeats_in)
  from latest_in [OF r(5)] have c: "unsaved_change s p last_save c" "c \<in> set ?ops" by simp_all
  show "\<exists>prior c. a = Some (op_id prior) \<and> b = Some (op_id c) \<and> prior \<in> set ?ops \<and> c \<in> set ?ops
      \<and> isCheckpoint s p prior \<and> nativeApplied s p c
      \<and> \<not> list_ex (\<lambda>q. op_checkpoint_of q = a \<or> op_checkpoint_after q = b) ?ops"
    using p c r(4,6,7) by (intro exI [of _ prior] exI [of _ c]) (auto simp: unsaved_change_def list_ex_iff)
qed

lemma reassignment_sound:
  assumes "reassignment_relation s p view allowed = Some (a, b)"
  shows "\<not> list_ex (\<lambda>q. Some (op_id q) \<noteq> allowed \<and> open_apply q) (other_operations s p)"
    "\<exists>prior c. a = Some (op_id prior) \<and> b = Some (op_id c) \<and> prior \<in> set (other_operations s p)
      \<and> c \<in> set (other_operations s p) \<and> op_requested_effect prior = ApplyEffect
      \<and> nativeFor s p view prior \<noteq> None \<and> counter_assignment s p view prior c"
proof -
  let ?ops = "other_operations s p"
  obtain prior c where r: "\<not> list_ex (\<lambda>q. Some (op_id q) \<noteq> allowed \<and> open_apply q) ?ops"
      "list_all (\<lambda>q. nativeFor s p view q \<noteq> None \<and> same_input q p \<and> same_target q p) (repeats_of p ?ops)"
      "latest op_settled_version (repeats_of p ?ops) = Some prior"
      "latest op_settled_version (filter (counter_assignment s p view prior) ?ops) = Some c"
      "a = Some (op_id prior)" "b = Some (op_id c)"
    using assms by (auto simp: reassignment_relation_def Let_def split: option.splits if_splits)
  show "\<not> list_ex (\<lambda>q. Some (op_id q) \<noteq> allowed \<and> open_apply q) ?ops" by (rule r(1))
  have "prior \<in> set (repeats_of p ?ops)" using latest_in [OF r(3)] .
  then have p: "nativeFor s p view prior \<noteq> None" "prior \<in> set ?ops" "op_requested_effect prior = ApplyEffect"
    using r(2) by (auto simp: list_all_iff dest: repeats_in)
  from latest_in [OF r(4)] have c: "counter_assignment s p view prior c" "c \<in> set ?ops" by simp_all
  show "\<exists>prior c. a = Some (op_id prior) \<and> b = Some (op_id c) \<and> prior \<in> set ?ops \<and> c \<in> set ?ops
      \<and> op_requested_effect prior = ApplyEffect \<and> nativeFor s p view prior \<noteq> None \<and> counter_assignment s p view prior c"
    using p c r(5,6) by blast
qed

lemma filter_restoration_sound:
  assumes "scheduleFilterRestorationV1 env s p = Some (a, b)"
  shows "\<not> list_ex open_apply (other_operations s p)"
    "\<exists>schedule prior c. a = Some (op_id prior) \<and> b = Some (op_id c) \<and> prior \<in> set (other_operations s p)
      \<and> c \<in> set (other_operations s p) \<and> valid_filter_state env s p schedule prior
      \<and> counter_state env s p schedule prior c
      \<and> \<not> list_ex (may_change_schedule s p schedule c) (other_operations s p)"
proof -
  let ?ops = "other_operations s p"
  obtain i prior c where r: "\<not> list_ex open_apply ?ops"
      "list_all (\<lambda>q. valid_filter_state env s p i q \<and> same_input q p \<and> same_target q p) (repeats_of p ?ops)"
      "latest op_settled_version (repeats_of p ?ops) = Some prior"
      "latest op_settled_version (filter (counter_state env s p i prior) ?ops) = Some c"
      "\<not> list_ex (may_change_schedule s p i c) ?ops"
      "a = Some (op_id prior)" "b = Some (op_id c)"
    using assms by (auto simp: scheduleFilterRestorationV1_def Let_def split: option.splits if_splits)
  show "\<not> list_ex open_apply ?ops" by (rule r(1))
  have "prior \<in> set (repeats_of p ?ops)" using latest_in [OF r(3)] .
  then have p: "valid_filter_state env s p i prior" "prior \<in> set ?ops"
    using r(2) by (auto simp: list_all_iff dest: repeats_in)
  from latest_in [OF r(4)] have c: "counter_state env s p i prior c" "c \<in> set ?ops" by simp_all
  show "\<exists>schedule prior c. a = Some (op_id prior) \<and> b = Some (op_id c) \<and> prior \<in> set ?ops \<and> c \<in> set ?ops
      \<and> valid_filter_state env s p schedule prior \<and> counter_state env s p schedule prior c
      \<and> \<not> list_ex (may_change_schedule s p schedule c) ?ops"
    using p c r(5,6,7) by blast
qed

end
