(* ===== verification/Admission.thy ===== *)
theory Admission
  imports ProviderUsage WriteContinuations
begin

text \<open>
  \<open>validateOperationAdmission\<close> (\<open>reducer.ts\<close>) and \<open>pre_dispatch_read_retry.ts\<close>: which operation may enter
  the assignment. The checks stand in the order of the source, in groups; the first failing one is the
  error.
\<close>

section \<open>Groups of admission checks\<close>

type_synonym checks = "(bool \<times> kernel_error) list"

definition derived_context_checks :: "operation \<Rightarrow> checks" where
  "derived_context_checks p =
     [(op_native_failure_context p = None, ''operation_native_failure_context_forbidden''),
      (op_native_inventory_workload p = None, ''operation_native_inventory_workload_forbidden''),
      (op_native_template_state p = None, ''operation_native_template_state_forbidden''),
      (op_native_schedule_filter_state p = None, ''operation_native_filter_state_forbidden'')]"

definition standing_checks :: "kernel_env \<Rightarrow> snapshot \<Rightarrow> operation \<Rightarrow> checks" where
  "standing_checks env s p =
     (let advisory = advisoryVerificationV2 s in
     [(\<not> advisory \<or> int (length (rkeys (sn_operations s))) < max_operations (advisoryWorkBudget env s),
         ''operation_budget_exhausted''),
      (sn_completion_proposal s = None \<or> truthy (op_parent_id p), ''assignment_completion_proposal_pending''),
      (advisory \<or> op_requested_effect p \<noteq> ApplyEffect \<or> \<not> sp_work_plan_required (sn_spec s) \<or> sn_work_plan s \<noteq> None,
         ''assignment_kernel_v2_declare_work_plan_before_apply''),
      (\<not> paused s \<or> truthy (op_parent_id p), ''assignment_execution_paused''),
      (sameAssignmentBindingV2 (sn_current_binding s) (op_binding p), ''operation_binding_mismatch''),
      (\<not> rhas (sn_operations s) (op_id p), ''operation_duplicate''),
      (sn_unresolved_unknown_operation_ids s = [] \<or> op_requested_effect p = ReadEffect,
         ''operation_unknown_effect_requires_reconciliation'')])"

definition fulfillment_purpose_checks :: "operation \<Rightarrow> fulfillment_role \<Rightarrow> checks" where
  "fulfillment_purpose_checks p role = (case role of
      DelegatedTaskExecution \<Rightarrow> [(op_purpose p = Work, ''operation_delegated_purpose_invalid'')]
    | VerificationFulfillment \<Rightarrow> [(op_purpose p = Verification, ''operation_verification_fulfillment_invalid'')]
    | ReconciliationFulfillment \<Rightarrow> [(op_purpose p = Reconciliation, ''operation_reconciliation_fulfillment_invalid'')]
    | PrerequisiteFulfillment \<Rightarrow> [(op_purpose p = Discovery \<and> op_role p = Some PrerequisiteRole,
         ''operation_prerequisite_fulfillment_invalid'')]
    | TelemetryFulfillment \<Rightarrow> [(False, ''operation_telemetry_admission_invalid'')]
    | SupportingControl \<Rightarrow> [])"

definition find_criterion :: "snapshot \<Rightarrow> string \<Rightarrow> criterion_spec option" where
  "find_criterion s i = find (\<lambda>c. cs_criterion_id c = i) (sp_criteria (sn_spec s))"

definition eligible_checks :: "snapshot \<Rightarrow> operation \<Rightarrow> work_unit_spec \<Rightarrow> string \<Rightarrow> checks" where
  "eligible_checks s p u i =
     [((case find_criterion s i of
          None \<Rightarrow> False
        | Some c \<Rightarrow> operationEffectAdmissibleForCriterionV2 (sp_requested_effect (sn_spec s)) (op_requested_effect p) c
            (if has_comparisons c then Some DesiredStateEquivalence else None)), ''operation_eligible_criterion_effect_mismatch''),
      (i \<in> set (wu_criterion_ids u), ''operation_eligible_criterion_unbound''),
      (i \<in> set (op_advances_criterion_ids p), ''operation_eligible_criterion_progress_unbound'')]"

definition fulfillment_checks :: "snapshot \<Rightarrow> operation \<Rightarrow> work_unit_spec \<Rightarrow> checks" where
  "fulfillment_checks s p u = (if \<not> semantic_contract s then [] else
     (case op_fulfillment_role p of
        None \<Rightarrow> [(False, ''operation_fulfillment_contract_missing'')]
      | Some role \<Rightarrow>
          [(op_eligible_criterion_ids p \<noteq> None, ''operation_fulfillment_contract_missing''),
           (fulfillmentRoleCanCarryTaskCriteriaV2 role \<or> eligible_ids p = [], ''operation_support_criterion_forbidden'')]
          @ fulfillment_purpose_checks p role
          @ [(role_or_root p = RootRole \<and> fulfillmentRoleCanCarryTaskCriteriaV2 role \<longrightarrow> truthy (op_delegation_authority_id p),
                ''operation_delegation_authority_missing'')]
          @ concat (map (eligible_checks s p u) (eligible_ids p))
          @ [(role_or_root p = PrerequisiteRole \<longrightarrow> role = PrerequisiteFulfillment,
                ''operation_prerequisite_fulfillment_invalid'')]))"

definition progress_checks :: "kernel_env \<Rightarrow> snapshot \<Rightarrow> operation \<Rightarrow> work_unit_spec \<Rightarrow> checks" where
  "progress_checks env s p u =
     (let advisory = advisoryVerificationV2 s; root = (role_or_root p = RootRole) in
      [(advisory \<or> \<not> root \<or> rkeys (criteriaPendingEvaluationV2 s) = [], ''operation_criterion_evaluation_pending''),
       (advisory \<or> \<not> root \<or> op_advances_criterion_ids p \<noteq> [] \<or> op_resolves_gap_ids p \<noteq> [],
          ''operation_progress_binding_missing''),
       (set (op_advances_criterion_ids p) \<subseteq> set (wu_criterion_ids u), ''operation_progress_criterion_unbound''),
       (advisory \<or> set (op_resolves_gap_ids p) \<subseteq> set (map gap_id (deriveProgressGapsV2 env s)),
          ''operation_progress_gap_stale'')])"

text \<open>A typed continuation (checkpoint, reassignment, filter restoration) and its claimed relation.\<close>

definition continuation ::
  "(snapshot \<Rightarrow> operation \<Rightarrow> (string option \<times> string option) option) \<Rightarrow> snapshot \<Rightarrow> operation
     \<Rightarrow> string option \<Rightarrow> string option \<Rightarrow> (string option \<times> string option) option" where
  "continuation f s p of' after = (if truthy of' \<or> truthy after then f s p else None)"

definition claimed :: "(string option \<times> string option) option \<Rightarrow> string option \<Rightarrow> string option \<Rightarrow> bool" where
  "claimed c of' after \<longleftrightarrow> of' = None \<and> after = None \<or> c = Some (of', after)"

definition checkpoint_of :: "snapshot \<Rightarrow> operation \<Rightarrow> (string option \<times> string option) option" where
  "checkpoint_of s p = continuation documentCheckpointContinuationV2 s p (op_checkpoint_of p) (op_checkpoint_after p)"

definition reassignment_of :: "snapshot \<Rightarrow> operation \<Rightarrow> (string option \<times> string option) option" where
  "reassignment_of s p = continuation templateReassignmentV1 s p (op_reassignment_of p) (op_reassignment_after p)"

definition restoration_of :: "kernel_env \<Rightarrow> snapshot \<Rightarrow> operation \<Rightarrow> (string option \<times> string option) option" where
  "restoration_of env s p = continuation (scheduleFilterRestorationV1 env) s p
     (op_filter_restoration_of p) (op_filter_restoration_after p)"

definition continues :: "kernel_env \<Rightarrow> snapshot \<Rightarrow> operation \<Rightarrow> bool" where
  "continues env s p \<longleftrightarrow> checkpoint_of s p \<noteq> None \<or> reassignment_of s p \<noteq> None \<or> restoration_of env s p \<noteq> None"

definition duplicate_write :: "snapshot \<Rightarrow> operation \<Rightarrow> bool" where
  "duplicate_write s p = (case op_request_identity p of
     None \<Rightarrow> False
   | Some q \<Rightarrow> list_ex (\<lambda>prior. op_requested_effect prior = ApplyEffect
        \<and> Some (op_id prior) \<noteq> op_parent_id p \<and> Some (op_id prior) \<noteq> op_root_id p
        \<and> same_native_request q prior
        \<and> (op_persistent_effect prior \<noteq> NoEffect \<or> op_settlement_state prior \<noteq> Settled)) (rvals (sn_operations s)))"

definition repeat_checks :: "kernel_env \<Rightarrow> snapshot \<Rightarrow> operation \<Rightarrow> checks" where
  "repeat_checks env s p =
     (let advisory = advisoryVerificationV2 s in
      [(claimed (checkpoint_of s p) (op_checkpoint_of p) (op_checkpoint_after p), ''operation_document_checkpoint_invalid''),
       (claimed (reassignment_of s p) (op_reassignment_of p) (op_reassignment_after p), ''operation_template_reassignment_invalid''),
       (claimed (restoration_of env s p) (op_filter_restoration_of p) (op_filter_restoration_after p),
          ''operation_filter_restoration_invalid''),
       (advisory \<and> op_requested_effect p = ReadEffect
          \<or> \<not> list_ex (\<lambda>c. operationProgressIdentityV2 c = operationProgressIdentityV2 p) (rvals (sn_operations s))
          \<or> truthy (op_retry_of p) \<or> continues env s p \<or> op_purpose p = Reconciliation,
          ''operation_progress_equivalent_repeat''),
       (\<not> (advisory \<and> op_requested_effect p = ApplyEffect) \<or> \<not> duplicate_write s p \<or> continues env s p,
          ''operation_native_write_repeat_unsafe'')])"

definition prerequisites_of :: "snapshot \<Rightarrow> scope_prerequisite list" where
  "prerequisites_of s = (case sp_interpreted_scope (sn_spec s) of None \<Rightarrow> [] | Some b \<Rightarrow> is_prerequisites (bis_scope b))"

definition effect_checks :: "snapshot \<Rightarrow> operation \<Rightarrow> work_unit_spec \<Rightarrow> checks" where
  "effect_checks s p u =
     [(op_requested_effect p = wu_requested_effect u, ''operation_effect_mismatch''),
      (effect_rank (op_requested_effect p) \<le> effect_rank (sp_requested_effect (sn_spec s)), ''operation_effect_exceeds_assignment''),
      (list_all (\<lambda>d. rget (sn_work_unit_states s) d \<in> {Some WuComplete, Some WuRetained}) (wu_dependency_ids u),
         ''operation_dependency_incomplete''),
      (list_all (rhas (sn_input_values s)) (workUnitInputVariableIdsV2 s (wu_id u)), ''operation_input_missing'')]
     @ (if op_requested_effect p = ReadEffect then [] else concat (map (\<lambda>pr.
          [(rhas (sn_input_values s) (pr_variable_id pr), ''operation_input_missing''),
           (prerequisiteValueSatisfied (pr_kind pr) (rget (sn_input_values s) (pr_variable_id pr)),
              ''operation_prerequisite_unresolved'')]) (prerequisites_of s)))"

definition child_contract_checks :: "snapshot \<Rightarrow> operation \<Rightarrow> operation \<Rightarrow> checks" where
  "child_contract_checks s p parent = (if \<not> semantic_contract s then [] else
     [(set (eligible_ids p) \<subseteq> set (eligible_ids parent), ''operation_delegated_criterion_widening''),
      (if (case op_fulfillment_role p of None \<Rightarrow> False | Some r \<Rightarrow> fulfillmentRoleCanCarryTaskCriteriaV2 r)
       then truthy (op_delegation_authority_id parent) \<and> op_delegation_authority_id p = op_delegation_authority_id parent
       else True, ''operation_delegation_authority_invalid''),
      (if (case op_fulfillment_role p of None \<Rightarrow> False | Some r \<Rightarrow> fulfillmentRoleCanCarryTaskCriteriaV2 r)
       then True else \<not> truthy (op_delegation_authority_id p), ''operation_support_delegation_forbidden'')])"

definition root_of :: "operation \<Rightarrow> string" where
  "root_of parent = (case op_root_id parent of None \<Rightarrow> op_id parent | Some r \<Rightarrow> r)"

definition topology_checks :: "snapshot \<Rightarrow> operation \<Rightarrow> checks" where
  "topology_checks s p =
     (if role_or_root p = RootRole then
        [(\<not> truthy (op_parent_id p) \<and> \<not> truthy (op_root_id p), ''operation_root_relation_invalid''),
         (op_blocks_parent_settlement p \<noteq> Some True, ''operation_root_blocking_invalid'')]
      else (case truthy_lookup (sn_operations s) (op_parent_id p) of
          None \<Rightarrow> [(False, ''operation_parent_invalid'')]
        | Some parent \<Rightarrow>
            [(in_flight_settlement (op_settlement_state parent), ''operation_parent_invalid''),
             (sameAssignmentBindingV2 (op_binding parent) (op_binding p), ''operation_parent_binding_mismatch''),
             (op_root_id p = Some (root_of parent), ''operation_root_identity_mismatch''),
             (op_id p \<noteq> op_id parent, ''operation_child_identity_collision'')]
            @ child_contract_checks s p parent))"

definition request_checks :: "operation \<Rightarrow> checks" where
  "request_checks p = (case op_request_identity p of
     None \<Rightarrow> []
   | Some q \<Rightarrow> [(ri_capability_id q = op_capability_id p, ''operation_request_capability_mismatch''),
                (nonblank (ri_request_signature q), ''operation_request_signature_missing'')])"

definition corrects_input :: "operation \<Rightarrow> operation \<Rightarrow> bool" where
  "corrects_input p prior = (case (input_gap prior, op_request_identity p) of
     (Some g, Some q) \<Rightarrow> op_capability_id p = op_capability_id prior \<and> ri_method q = Some (isg_method g)
        \<and> ri_path q = Some (isg_path g) \<and> ri_request_signature q \<noteq> isg_request_signature g
   | _ \<Rightarrow> False)"

definition retry_basis_checks :: "snapshot \<Rightarrow> operation \<Rightarrow> operation \<Rightarrow> checks" where
  "retry_basis_checks s p prior =
     (let relation = Some (op_retry_of p, op_retry_after p) in
      case op_retry_basis p of
        Some NativePreDispatchRead \<Rightarrow> [(preDispatchReadRetryV2 s p = op_retry_of p, ''operation_pre_dispatch_read_retry_invalid'')]
      | Some CommittedTargetRead \<Rightarrow> [(committedReadRefreshV2 s p = relation, ''operation_committed_read_refresh_invalid'')]
      | Some CommittedDocumentRead \<Rightarrow>
          [(committedDocumentReadRefreshV2 s p = relation, ''operation_committed_document_read_refresh_invalid'')]
      | Some FamilySessionCapacityReleased \<Rightarrow> [(familyCapacityRetryV2 s p = relation, ''operation_family_capacity_retry_invalid'')]
      | Some CommittedTargetChange \<Rightarrow>
          [(committedTargetChangeRetryV2 s p = relation, ''operation_committed_target_retry_invalid'')]
      | Some CorrectedInput \<Rightarrow> [(corrects_input p prior, ''operation_corrected_input_retry_invalid'')]
      | _ \<Rightarrow> [])"

definition retry_checks :: "snapshot \<Rightarrow> operation \<Rightarrow> checks" where
  "retry_checks s p =
     (if truthy (op_retry_of p) then
        (case rget (sn_operations s) (the (op_retry_of p)) of
           None \<Rightarrow> [(False, ''operation_retry_unsafe'')]
         | Some prior \<Rightarrow>
             [(op_settlement_state prior = Settled \<and> op_persistent_effect prior = NoEffect, ''operation_retry_unsafe''),
              (op_retry_basis p \<noteq> None, ''operation_retry_basis_missing'')]
             @ retry_basis_checks s p prior)
      else [(op_retry_basis p = None, ''operation_retry_basis_unbound'')])
     @ [(\<not> truthy (op_retry_after p) \<or> op_retry_basis p \<in> {Some CommittedTargetChange, Some FamilySessionCapacityReleased,
           Some CommittedTargetRead, Some CommittedDocumentRead}, ''operation_retry_change_unbound'')]"

definition verification_checks :: "snapshot \<Rightarrow> operation \<Rightarrow> checks" where
  "verification_checks s p =
     (if op_purpose p = Verification then
        (case truthy_lookup (sn_operations s) (op_verification_of p) of
           None \<Rightarrow> [(False, ''operation_verification_subject_invalid'')]
         | Some subject \<Rightarrow>
             [(applied_and_settled subject, ''operation_verification_subject_invalid''),
              (target_matches_subject p subject
                 \<and> tg_document_fingerprint (op_target p) = tg_document_fingerprint (op_target subject),
                 ''operation_verification_target_mismatch'')])
      else [(\<not> truthy (op_verification_of p), ''operation_verification_relation_unbound'')])"

definition shape_checks :: "operation \<Rightarrow> checks" where
  "shape_checks p =
     [(op_admission_state p = Admitted \<and> op_dispatch_state p = NotDispatched, ''operation_admission_shape_invalid''),
      (op_persistent_effect p = NoEffect \<and> op_settlement_state p = SettleOpen \<and> \<not> truthy (op_settled_at p)
         \<and> op_result p = None \<and> op_native_completion_reconciliation p = None, ''operation_admission_effect_invalid'')]"

definition unit_checks :: "kernel_env \<Rightarrow> snapshot \<Rightarrow> operation \<Rightarrow> checks" where
  "unit_checks env s p = (case find_work_unit s (op_work_unit_id p) of
     None \<Rightarrow> [(False, ''operation_work_unit_unknown'')]
   | Some u \<Rightarrow> fulfillment_checks s p u @ progress_checks env s p u @ repeat_checks env s p @ effect_checks s p u)"

definition validateOperationAdmission :: "kernel_env \<Rightarrow> snapshot \<Rightarrow> operation \<Rightarrow> checks" where
  "validateOperationAdmission env s p =
     assertProviderUsageOperationAdmissionV1 s p @ derived_context_checks p @ standing_checks env s p
     @ unit_checks env s p @ topology_checks s p @ request_checks p @ retry_checks s p
     @ verification_checks s p @ shape_checks p"

text \<open>\<open>operation_admitted\<close>: the operation enters with the journal version that admitted it.\<close>

definition admitted_operation :: "int \<Rightarrow> operation \<Rightarrow> operation" where
  "admitted_operation version p = p\<lparr>op_admitted_version := Some version, op_settled_version := None\<rparr>"

definition put_operation :: "operation \<Rightarrow> snapshot \<Rightarrow> snapshot" where
  "put_operation p s = s\<lparr>sn_operations := rput (op_id p) p (sn_operations s)\<rparr>"

definition set_unit_state :: "string \<Rightarrow> work_unit_state \<Rightarrow> snapshot \<Rightarrow> snapshot" where
  "set_unit_state u st s = s\<lparr>sn_work_unit_states := rput u st (sn_work_unit_states s)\<rparr>"

definition admitOperation :: "kernel_env \<Rightarrow> snapshot \<Rightarrow> int \<Rightarrow> operation \<Rightarrow> kernel_error + snapshot" where
  "admitOperation env s version p =
     guard (validateOperationAdmission env s p)
       (Inr (set_unit_state (op_work_unit_id p) WuActive (put_operation (admitted_operation version p) s)))"

section \<open>What an admission guarantees\<close>

lemmas admission_groups = validateOperationAdmission_def first_failure_append_None

lemma admission_unit:
  assumes "first_failure (validateOperationAdmission env s p) = None"
  obtains u where "find_work_unit s (op_work_unit_id p) = Some u"
    "first_failure (fulfillment_checks s p u) = None" "first_failure (progress_checks env s p u) = None"
    "first_failure (repeat_checks env s p) = None" "first_failure (effect_checks s p u) = None"
proof -
  from assms have "first_failure (unit_checks env s p) = None" by (simp add: admission_groups)
  then show thesis
    using that by (cases "find_work_unit s (op_work_unit_id p)") (simp_all add: unit_checks_def first_failure_append_None)
qed

lemma admission_standing:
  assumes "first_failure (validateOperationAdmission env s p) = None"
  shows "op_binding p = sn_current_binding s" "rget (sn_operations s) (op_id p) = None"
    "sn_unresolved_unknown_operation_ids s = [] \<or> op_requested_effect p = ReadEffect"
    "\<not> truthy (op_parent_id p) \<Longrightarrow> sn_completion_proposal s = None \<and> \<not> paused s"
proof -
  from assms have "first_failure (standing_checks env s p) = None" by (simp add: admission_groups)
  then show "op_binding p = sn_current_binding s" "rget (sn_operations s) (op_id p) = None"
    "sn_unresolved_unknown_operation_ids s = [] \<or> op_requested_effect p = ReadEffect"
    "\<not> truthy (op_parent_id p) \<Longrightarrow> sn_completion_proposal s = None \<and> \<not> paused s"
    by (auto simp: standing_checks_def Let_def rhas_def)
qed

lemma admission_shape:
  assumes "first_failure (validateOperationAdmission env s p) = None"
  shows "op_admission_state p = Admitted" "op_dispatch_state p = NotDispatched" "op_persistent_effect p = NoEffect"
    "op_settlement_state p = SettleOpen" "op_result p = None" "op_native_completion_reconciliation p = None"
  using assms by (simp_all add: admission_groups shape_checks_def)

lemma admission_effect_envelope:
  assumes "first_failure (validateOperationAdmission env s p) = None"
  shows "effect_rank (op_requested_effect p) \<le> effect_rank (sp_requested_effect (sn_spec s))"
proof -
  from assms obtain u where "first_failure (effect_checks s p u) = None" by (rule admission_unit)
  then have "\<forall>(c, e) \<in> set (effect_checks s p u). c" by (simp add: first_failure_None_iff)
  then show ?thesis unfolding effect_checks_def by auto
qed

lemma admission_retry:
  assumes "first_failure (validateOperationAdmission env s p) = None" "truthy (op_retry_of p)"
  shows "\<exists>prior. rget (sn_operations s) (the (op_retry_of p)) = Some prior
    \<and> op_settlement_state prior = Settled \<and> op_persistent_effect prior = NoEffect"
proof -
  from assms have "first_failure (retry_checks s p) = None" by (simp add: admission_groups)
  with assms(2) show ?thesis
    by (cases "rget (sn_operations s) (the (op_retry_of p))")
       (simp_all add: retry_checks_def first_failure_append_None)
qed

lemma admission_hold:
  assumes "first_failure (validateOperationAdmission env s p) = None" "sn_provider_usage_hold s \<noteq> None"
  shows "truthy (op_parent_id p) \<or> op_requested_effect p = ReadEffect \<and> op_purpose p = Reconciliation"
  using assms by (auto simp: admission_groups assertProviderUsageOperationAdmissionV1_def split: if_splits)

lemma admission_root:
  assumes "first_failure (validateOperationAdmission env s p) = None" "role_or_root p = RootRole"
  shows "\<not> truthy (op_parent_id p)"
proof -
  from assms have "first_failure (topology_checks s p) = None" by (simp add: admission_groups)
  with assms(2) show ?thesis by (simp add: topology_checks_def first_failure_Cons_None)
qed

lemma admission_child:
  assumes "first_failure (validateOperationAdmission env s p) = None" "role_or_root p \<noteq> RootRole"
  shows "\<exists>parent. truthy_lookup (sn_operations s) (op_parent_id p) = Some parent
    \<and> in_flight_settlement (op_settlement_state parent) \<and> op_binding parent = op_binding p
    \<and> op_root_id p = Some (root_of parent)
    \<and> (semantic_contract s \<longrightarrow> set (eligible_ids p) \<subseteq> set (eligible_ids parent))"
proof -
  from assms have "first_failure (topology_checks s p) = None" by (simp add: admission_groups)
  with assms(2) show ?thesis
    by (cases "truthy_lookup (sn_operations s) (op_parent_id p)")
       (auto simp: topology_checks_def child_contract_checks_def first_failure_append_None split: if_splits)
qed

lemma admitOperation_effect [effect]:
  assumes "admitOperation env s version p = Inr t"
  shows "first_failure (validateOperationAdmission env s p) = None"
    "t = set_unit_state (op_work_unit_id p) WuActive (put_operation (admitted_operation version p) s)"
  using assms by (simp_all add: admitOperation_def guard_simps)

end
