(* ===== verification/ProviderCalls.thy ===== *)
theory ProviderCalls
  imports ProgressDecision
begin

text \<open>
  The reducer's provider-call ledger: \<open>applyProviderState\<close> and the events that import a finished call
  (\<open>reducer.ts\<close>; the types are those of \<open>progress/provider_call.ts\<close>).
\<close>

fun PROVIDER_STATE_RANK :: "provider_call_state \<Rightarrow> nat" where
  "PROVIDER_STATE_RANK CallAdmitted = 0"
| "PROVIDER_STATE_RANK CallDispatched = 1"
| "PROVIDER_STATE_RANK CallResponseStarted = 2"
| "PROVIDER_STATE_RANK CallUsageReceived = 3"
| "PROVIDER_STATE_RANK CallCompleted = 4"
| "PROVIDER_STATE_RANK CallTransportCompleted = 5"

text \<open>The order of provider-call states, as the library's linear order.\<close>

instantiation provider_call_state :: linorder
begin

definition less_eq_provider_call_state :: "provider_call_state \<Rightarrow> provider_call_state \<Rightarrow> bool" where
  "a \<le> b \<longleftrightarrow> PROVIDER_STATE_RANK a \<le> PROVIDER_STATE_RANK b"

definition less_provider_call_state :: "provider_call_state \<Rightarrow> provider_call_state \<Rightarrow> bool" where
  "a < b \<longleftrightarrow> PROVIDER_STATE_RANK a < PROVIDER_STATE_RANK b"

instance
proof
  fix a b :: provider_call_state
  show "a \<le> b \<Longrightarrow> b \<le> a \<Longrightarrow> a = b"
    by (cases a; cases b) (simp_all add: less_eq_provider_call_state_def)
qed (auto simp: less_eq_provider_call_state_def less_provider_call_state_def)

end

text \<open>\<open>[providerTimestampField(state)]: previous[...] ?? now\<close>\<close>

definition keep_or :: "string \<Rightarrow> string option \<Rightarrow> string option" where
  "keep_or now t = (case t of None \<Rightarrow> Some now | Some v \<Rightarrow> Some v)"

fun stamp :: "provider_call_state \<Rightarrow> string \<Rightarrow> provider_call \<Rightarrow> provider_call" where
  "stamp CallAdmitted now c = c"
| "stamp CallDispatched now c = c\<lparr>pc_dispatched_at := keep_or now (pc_dispatched_at c)\<rparr>"
| "stamp CallResponseStarted now c = c\<lparr>pc_response_started_at := keep_or now (pc_response_started_at c)\<rparr>"
| "stamp CallUsageReceived now c = c\<lparr>pc_usage_received_at := keep_or now (pc_usage_received_at c)\<rparr>"
| "stamp CallCompleted now c = c\<lparr>pc_completed_at := keep_or now (pc_completed_at c)\<rparr>"
| "stamp CallTransportCompleted now c = c\<lparr>pc_transport_completed_at := keep_or now (pc_transport_completed_at c)\<rparr>"

definition receipt_text :: "string \<Rightarrow> bool" where
  "receipt_text v \<longleftrightarrow> v \<noteq> [] \<and> length v \<le> 256 \<and> \<not> list_ex is_control v"

definition opt_nonblank :: "string option \<Rightarrow> bool" where
  "opt_nonblank v = (case v of None \<Rightarrow> False | Some t \<Rightarrow> nonblank t)"

definition call_admission_checks :: "snapshot \<Rightarrow> provider_state_change \<Rightarrow> (bool \<times> kernel_error) list" where
  "call_admission_checks s e =
     [(sn_provider_usage_hold s = None, ''assignment_provider_usage_held''),
      (sn_completion_proposal s = None, ''assignment_completion_proposal_pending''),
      (\<not> paused s, ''assignment_execution_paused''),
      (ps_state e = CallAdmitted, ''provider_call_not_admitted''),
      (opt_nonblank (ps_provider e) \<and> opt_nonblank (ps_model e), ''provider_call_route_missing''),
      (advisoryVerificationV2 s \<or> ps_gap_ids e \<noteq> [] \<and> ps_criterion_ids e \<noteq> [], ''provider_call_progress_binding_missing''),
      (ps_expected_information e \<noteq> [], ''provider_call_expected_information_missing'')]"

definition admitted_call :: "snapshot \<Rightarrow> string \<Rightarrow> provider_state_change \<Rightarrow> provider_call" where
  "admitted_call s now e = \<lparr>pc_call_id = ps_call_id e, pc_controller_turn_id = None, pc_upstream_receipt = None,
     pc_binding = sn_current_binding s, pc_state = CallAdmitted, pc_provider = the (ps_provider e),
     pc_model = the (ps_model e), pc_reasoning_effort = ps_reasoning_effort e,
     pc_gap_ids = unique_sorted (ps_gap_ids e), pc_criterion_ids = unique_sorted (ps_criterion_ids e),
     pc_expected_information = unique_sorted (ps_expected_information e), pc_admitted_at = now,
     pc_dispatched_at = None, pc_response_started_at = None, pc_usage_received_at = None, pc_completed_at = None,
     pc_provider_duration_ms = None, pc_transport_completed_at = None, pc_usage = None, pc_success = None,
     pc_error_class = None\<rparr>"

definition upstream_receipt_checks ::
  "snapshot \<Rightarrow> provider_call \<Rightarrow> provider_state_change \<Rightarrow> upstream_receipt \<Rightarrow> (bool \<times> kernel_error) list" where
  "upstream_receipt_checks s previous e r =
     [(ps_state e = CallUsageReceived \<and> ur_route r = ''desktop_computer''
         \<and> receipt_text (ur_call_id r) \<and> receipt_text (ur_model r) \<and> receipt_text (ur_requested_model r)
         \<and> receipt_text (ur_started_at_utc r) \<and> finite_time (ur_started_at_utc r)
         \<and> (case ur_duration_ms r of None \<Rightarrow> True | Some d \<Rightarrow> isSafeInteger d \<and> 0 \<le> d),
         ''provider_upstream_receipt_invalid''),
      (pc_upstream_receipt previous = None \<or> pc_upstream_receipt previous = Some r, ''provider_upstream_receipt_conflict''),
      (\<not> list_ex (\<lambda>c. pc_call_id c \<noteq> ps_call_id e \<and> map_option ur_call_id (pc_upstream_receipt c) = Some (ur_call_id r))
          (rvals (sn_provider_calls s)), ''provider_upstream_receipt_reused'')]"

definition call_change_checks :: "snapshot \<Rightarrow> provider_call \<Rightarrow> provider_state_change \<Rightarrow> (bool \<times> kernel_error) list" where
  "call_change_checks s previous e =
     [(ps_state e \<noteq> CallAdmitted, ''provider_call_duplicate_admission''),
      (ps_state e = CallUsageReceived \<longrightarrow> ps_usage e \<noteq> None, ''provider_call_usage_missing''),
      (ps_state e = CallCompleted \<longrightarrow> ps_success e \<noteq> None, ''provider_call_completion_missing''),
      (ps_state e = CallTransportCompleted \<longrightarrow> truthy (pc_completed_at previous), ''provider_transport_before_completion'')]
     @ (case ps_upstream_receipt e of None \<Rightarrow> [] | Some r \<Rightarrow> upstream_receipt_checks s previous e r)
     @ [(ps_state e = CallUsageReceived \<and> pc_usage previous \<noteq> None \<longrightarrow> pc_usage previous = ps_usage e,
           ''provider_call_usage_conflict''),
        (ps_state e = CallCompleted \<and> truthy (pc_completed_at previous) \<longrightarrow> pc_success previous = ps_success e
           \<and> (ps_error_class e = None \<or> pc_error_class previous = ps_error_class e), ''provider_call_completion_conflict'')]"

definition changed_call :: "string \<Rightarrow> provider_call \<Rightarrow> provider_state_change \<Rightarrow> provider_call" where
  "changed_call now previous e = (stamp (ps_state e) now previous)\<lparr>
     pc_state := (if PROVIDER_STATE_RANK (ps_state e) > PROVIDER_STATE_RANK (pc_state previous) then ps_state e else pc_state previous),
     pc_usage := (if ps_usage e \<noteq> None then ps_usage e else pc_usage previous),
     pc_upstream_receipt := (if ps_upstream_receipt e \<noteq> None then ps_upstream_receipt e else pc_upstream_receipt previous),
     pc_success := (if ps_success e \<noteq> None then ps_success e else pc_success previous),
     pc_error_class := (if ps_error_class e \<noteq> None then ps_error_class e else pc_error_class previous)\<rparr>"

definition put_call :: "provider_call \<Rightarrow> string \<Rightarrow> snapshot \<Rightarrow> snapshot" where
  "put_call c i s = s\<lparr>sn_provider_calls := rput i c (sn_provider_calls s)\<rparr>"

definition note_call_id :: "string \<Rightarrow> snapshot \<Rightarrow> snapshot" where
  "note_call_id i s = s\<lparr>sn_provider_call_ids := unique_sorted (sn_provider_call_ids s @ [i])\<rparr>"

definition applyProviderState :: "snapshot \<Rightarrow> string \<Rightarrow> provider_state_change \<Rightarrow> kernel_error + snapshot" where
  "applyProviderState s now e =
     guard [(nonblank (ps_call_id e), ''provider_call_identity_missing'')]
       (case rget (sn_provider_calls s) (ps_call_id e) of
          None \<Rightarrow> guard (call_admission_checks s e)
            (Inr (note_call_id (ps_call_id e) (put_call (admitted_call s now e) (ps_call_id e) s)))
        | Some previous \<Rightarrow> guard (call_change_checks s previous e)
            (Inr (put_call (changed_call now previous e) (ps_call_id e) s)))"

definition recordProviderCall ::
  "snapshot \<Rightarrow> string \<Rightarrow> string \<Rightarrow> string \<Rightarrow> string \<Rightarrow> string option \<Rightarrow> bool \<Rightarrow> kernel_error + snapshot" where
  "recordProviderCall s now i provider model effort success =
     guard [(nonblank i, ''provider_call_identity_missing'')]
       (Inr (note_call_id i (if rhas (sn_provider_calls s) i then s
          else put_call \<lparr>pc_call_id = i, pc_controller_turn_id = None, pc_upstream_receipt = None,
            pc_binding = sn_current_binding s, pc_state = CallCompleted, pc_provider = provider, pc_model = model,
            pc_reasoning_effort = effort, pc_gap_ids = [], pc_criterion_ids = [], pc_expected_information = [],
            pc_admitted_at = now, pc_dispatched_at = None, pc_response_started_at = None, pc_usage_received_at = None,
            pc_completed_at = Some now, pc_provider_duration_ms = None, pc_transport_completed_at = None,
            pc_usage = None, pc_success = Some success, pc_error_class = None\<rparr> i s)))"

definition recordProviderReceipt :: "snapshot \<Rightarrow> provider_call \<Rightarrow> kernel_error + snapshot" where
  "recordProviderReceipt s c =
     guard
       [(sameAssignmentBindingV2 (sn_current_binding s) (pc_binding c), ''provider_call_binding_mismatch''),
        (pc_state c = CallCompleted \<and> truthy (pc_completed_at c), ''provider_call_receipt_incomplete''),
        ((case pc_provider_duration_ms c of None \<Rightarrow> True | Some d \<Rightarrow> isSafeInteger d \<and> 0 \<le> d), ''provider_call_duration_invalid''),
        ((advisoryVerificationV2 s \<or> pc_gap_ids c \<noteq> [] \<and> pc_criterion_ids c \<noteq> []) \<and> pc_expected_information c \<noteq> [],
           ''provider_call_progress_binding_missing''),
        (\<not> rhas (sn_provider_calls s) (pc_call_id c), ''provider_call_duplicate_admission'')]
       (Inr (note_call_id (pc_call_id c) (put_call c (pc_call_id c) s)))"

section \<open>Lemmas\<close>

lemma stamp_fields [simp]:
  "pc_state (stamp st now c) = pc_state c" "pc_usage (stamp st now c) = pc_usage c"
  "pc_success (stamp st now c) = pc_success c" "pc_call_id (stamp st now c) = pc_call_id c"
  "pc_binding (stamp st now c) = pc_binding c" "pc_admitted_at (stamp st now c) = pc_admitted_at c"
  "pc_upstream_receipt (stamp st now c) = pc_upstream_receipt c"
  by (cases st; simp)+

lemma stamp_completed: "pc_completed_at c = Some t \<Longrightarrow> pc_completed_at (stamp st now c) = Some t"
  by (cases st) (simp_all add: keep_or_def)

text \<open>What may happen to a retained call: its identity and admission stay, its state only advances.\<close>

definition call_advances :: "provider_call \<Rightarrow> provider_call \<Rightarrow> bool" where
  "call_advances c d \<longleftrightarrow> pc_call_id d = pc_call_id c \<and> pc_binding d = pc_binding c
     \<and> pc_admitted_at d = pc_admitted_at c \<and> pc_state c \<le> pc_state d
     \<and> (pc_completed_at c \<noteq> None \<longrightarrow> pc_completed_at d = pc_completed_at c)
     \<and> (pc_upstream_receipt c \<noteq> None \<longrightarrow> pc_upstream_receipt d = pc_upstream_receipt c)"

lemma call_advances_refl [simp]: "call_advances c c"
  by (simp add: call_advances_def)

lemma call_advances_trans: "call_advances c d \<Longrightarrow> call_advances d e \<Longrightarrow> call_advances c e"
  unfolding call_advances_def by (metis order_trans)

lemma changed_call_advances:
  assumes "first_failure (call_change_checks s previous e) = None"
  shows "call_advances previous (changed_call now previous e)"
proof -
  have "pc_upstream_receipt previous \<noteq> None \<longrightarrow> ps_upstream_receipt e \<noteq> None
      \<longrightarrow> ps_upstream_receipt e = pc_upstream_receipt previous"
    using assms by (auto simp: call_change_checks_def upstream_receipt_checks_def guard_simps split: option.splits)
  moreover have "pc_completed_at previous \<noteq> None
      \<longrightarrow> pc_completed_at (stamp (ps_state e) now previous) = pc_completed_at previous"
    using stamp_completed by fastforce
  ultimately show ?thesis
    by (auto simp: call_advances_def changed_call_def less_eq_provider_call_state_def)
qed

text \<open>The calls of a later snapshot extend those of an earlier one.\<close>

definition calls_advance :: "provider_call krecord \<Rightarrow> provider_call krecord \<Rightarrow> bool" where
  "calls_advance r t \<longleftrightarrow> (\<forall>i c. rget r i = Some c \<longrightarrow> (\<exists>d. rget t i = Some d \<and> call_advances c d))"

lemma calls_advance_refl [simp]: "calls_advance r r"
  by (auto simp: calls_advance_def)

lemma calls_advance_trans: "calls_advance r t \<Longrightarrow> calls_advance t u \<Longrightarrow> calls_advance r u"
  unfolding calls_advance_def by (metis call_advances_trans)

definition only_calls_changed :: "snapshot \<Rightarrow> snapshot \<Rightarrow> bool" where
  "only_calls_changed s t \<longleftrightarrow> t = s\<lparr>sn_provider_calls := sn_provider_calls t, sn_provider_call_ids := sn_provider_call_ids t\<rparr>
     \<and> calls_advance (sn_provider_calls s) (sn_provider_calls t)
     \<and> (distinct (rkeys (sn_provider_calls s)) \<longrightarrow> distinct (rkeys (sn_provider_calls t)))"

lemma put_call_new: "rget (sn_provider_calls s) i = None \<Longrightarrow> only_calls_changed s (note_call_id i (put_call c i s))"
  by (auto simp: only_calls_changed_def note_call_id_def put_call_def calls_advance_def)

lemma applyProviderState_effect [effect]:
  assumes "applyProviderState s now e = Inr t"
  shows "only_calls_changed s t"
proof (cases "rget (sn_provider_calls s) (ps_call_id e)")
  case None
  with assms show ?thesis by (auto simp: applyProviderState_def guard_simps put_call_new)
next
  case (Some previous)
  with assms have "first_failure (call_change_checks s previous e) = None"
    and t: "t = put_call (changed_call now previous e) (ps_call_id e) s"
    by (auto simp: applyProviderState_def guard_simps)
  then show ?thesis
    using Some changed_call_advances [of s previous e now]
    by (auto simp: only_calls_changed_def put_call_def calls_advance_def)
qed

lemma recordProviderCall_effect [effect]:
  assumes "recordProviderCall s now i provider model effort success = Inr t"
  shows "only_calls_changed s t"
proof (cases "rhas (sn_provider_calls s) i")
  case True
  with assms show ?thesis
    by (auto simp: recordProviderCall_def guard_simps only_calls_changed_def note_call_id_def)
next
  case False
  then have "rget (sn_provider_calls s) i = None" by (simp add: rhas_def)
  with assms False show ?thesis
    by (auto simp: recordProviderCall_def guard_simps intro: put_call_new)
qed

lemma recordProviderReceipt_effect [effect]:
  assumes "recordProviderReceipt s c = Inr t"
  shows "only_calls_changed s t"
  using assms by (auto simp: recordProviderReceipt_def guard_simps rhas_def intro: put_call_new)

text \<open>A new request is admitted only when nothing pauses, holds or concludes the assignment.\<close>

lemma applyProviderState_admission:
  assumes "applyProviderState s now e = Inr t" "rget (sn_provider_calls s) (ps_call_id e) = None"
  shows "sn_provider_usage_hold s = None" "sn_completion_proposal s = None" "\<not> paused s" "ps_state e = CallAdmitted"
  using assms by (auto simp: applyProviderState_def guard_simps call_admission_checks_def)

text \<open>A replayed usage state must agree with the retained usage.\<close>

lemma applyProviderState_usage:
  assumes "applyProviderState s now e = Inr t" "rget (sn_provider_calls s) (ps_call_id e) = Some c"
    "ps_state e = CallUsageReceived" "pc_usage c \<noteq> None"
  shows "map_option pc_usage (rget (sn_provider_calls t) (ps_call_id e)) = Some (pc_usage c)"
  using assms by (auto simp: applyProviderState_def guard_simps call_change_checks_def put_call_def changed_call_def)

end
