(* ===== verification/Settlement.thy ===== *)
theory Settlement
  imports Admission ProviderCalls ContractChecks NativeReaders
begin

text \<open>
  The life of an admitted operation in the reducer (\<open>reducer.ts\<close>, \<open>applyEvent\<close> and \<open>validateResult\<close>):
  dispatch, result, retention of the observation, its failures, and the reconciliation of an unknown
  effect. Each event is one function of the snapshot; \<open>op_advances\<close> and \<open>lifecycle_ok\<close> say what all of
  them keep.
\<close>

section \<open>Dispatch\<close>

text \<open>Children that hold back an operation: not settled, and not declared non-blocking.\<close>

definition unresolvedBlockingChildren :: "snapshot \<Rightarrow> operation \<Rightarrow> operation list" where
  "unresolvedBlockingChildren s p =
     filter (\<lambda>c. op_parent_id c = Some (op_id p) \<and> blocks_parent c) (rvals (sn_operations s))"

definition dispatched_from :: "string \<Rightarrow> operation \<Rightarrow> string option" where
  "dispatched_from now p = keep_or now (op_dispatch_started_at p)"

definition operationDispatchStarted :: "snapshot \<Rightarrow> string \<Rightarrow> string \<Rightarrow> kernel_error + snapshot" where
  "operationDispatchStarted s now i = (case rget (sn_operations s) i of
      None \<Rightarrow> Inl ''operation_dispatch_start_invalid''
    | Some p \<Rightarrow> guard [(op_settlement_state p = SettleOpen \<and> op_dispatch_state p = NotDispatched,
          ''operation_dispatch_start_invalid'')]
        (Inr (put_operation (p\<lparr>op_dispatch_state := Dispatching, op_settlement_state := AwaitingResult,
           op_dispatch_started_at := Some now\<rparr>) s)))"

definition dispatch_checks :: "snapshot \<Rightarrow> operation \<Rightarrow> checks" where
  "dispatch_checks s p =
     [(op_settlement_state p \<noteq> Settled \<and> (op_dispatch_state p = NotDispatched \<or> op_dispatch_state p = Dispatching),
         ''operation_dispatch_invalid''),
      (unresolvedBlockingChildren s p = [], ''operation_parent_blocked_by_child'')]"

definition dispatched_operation :: "string \<Rightarrow> dispatch_authority \<Rightarrow> persistent_effect \<Rightarrow> operation \<Rightarrow> operation" where
  "dispatched_operation now authority e p = p\<lparr>op_dispatch_state := Dispatched, op_dispatch_authority := Some authority,
     op_persistent_effect := e, op_settlement_state := AwaitingResult,
     op_dispatch_started_at := dispatched_from now p, op_dispatched_at := dispatched_from now p\<rparr>"

definition nativeDispatchRecorded :: "snapshot \<Rightarrow> string \<Rightarrow> string \<Rightarrow> kernel_error + snapshot" where
  "nativeDispatchRecorded s now i = (case rget (sn_operations s) i of
      None \<Rightarrow> Inl ''operation_dispatch_invalid''
    | Some p \<Rightarrow> guard (dispatch_checks s p)
        (Inr (put_operation (dispatched_operation now NativeAuthority
           (if op_requested_effect p = ReadEffect then NoEffect else UnknownEffect) p) s)))"

definition operationDispatchRecorded ::
  "snapshot \<Rightarrow> string \<Rightarrow> string \<Rightarrow> dispatch_authority \<Rightarrow> kernel_error + snapshot" where
  "operationDispatchRecorded s now i authority = (case rget (sn_operations s) i of
      None \<Rightarrow> Inl ''operation_dispatch_invalid''
    | Some p \<Rightarrow> guard (dispatch_checks s p
          @ [(op_requested_effect p = ReadEffect, ''operation_non_native_mutation_dispatch_forbidden'')])
        (Inr (put_operation (dispatched_operation now authority NoEffect p) s)))"

section \<open>Results\<close>

definition OPERATION_RESULT_SEMANTIC_GAP_V2_SCHEMA :: string where
  "OPERATION_RESULT_SEMANTIC_GAP_V2_SCHEMA = ''revit-operator.operation-result-semantic-gap/v2''"

definition identity_checks :: "snapshot \<Rightarrow> operation \<Rightarrow> operation_result \<Rightarrow> checks" where
  "identity_checks s p r =
     [(r_operation_id r = op_id p, ''operation_result_identity_mismatch''),
      (sameAssignmentBindingV2 (op_binding p) (r_binding r), ''operation_result_binding_mismatch''),
      (unresolvedBlockingChildren s p = [], ''operation_parent_blocked_by_child''),
      (op_request_identity p = None \<or> r_request_identity r = op_request_identity p,
         ''operation_result_request_identity_mismatch'')]"

definition status_checks :: "operation \<Rightarrow> operation_result \<Rightarrow> checks" where
  "status_checks p r =
     (if r_status r = CompletedWithoutNativeDispatch then
        [(r_dispatch_state r = NotDispatched \<and> r_persistent_effect r = NoEffect
            \<and> r_native_transaction_state r = TxNotApplicable \<and> \<not> r_observation_required r
            \<and> \<not> starts_with ''native'' (r_authority r), ''operation_result_non_native_invalid'')]
      else if r_status r = FailedBeforeDispatch then
        [(op_dispatch_state p \<noteq> Dispatched \<and> r_dispatch_state r = NotDispatched \<and> r_persistent_effect r = NoEffect,
            ''operation_result_predispatch_invalid'')]
      else if r_dispatch_state r = Dispatching then
        [(op_dispatch_state p = Dispatching, ''operation_result_dispatch_unproven''),
         (r_status r \<noteq> Succeeded
            \<and> r_persistent_effect r = (if op_requested_effect p = ApplyEffect then UnknownEffect else NoEffect),
            ''operation_result_dispatch_indeterminate_invalid'')]
      else
        [(op_dispatch_state p = Dispatched \<and> r_dispatch_state r = Dispatched, ''operation_result_dispatch_unproven'')])"

definition no_affected_targets :: "operation_result \<Rightarrow> bool" where
  "no_affected_targets r \<longleftrightarrow> r_affected_target_identities r = None \<or> r_affected_target_identities r = Some []"

definition result_effect_checks :: "operation \<Rightarrow> operation_result \<Rightarrow> checks" where
  "result_effect_checks p r =
     [(op_requested_effect p = ReadEffect \<longrightarrow> r_persistent_effect r = NoEffect \<and> r_native_transaction_state r \<noteq> TxCommitted,
         ''operation_read_effect_invalid''),
      (r_native_transaction_state r = TxNotStarted \<longrightarrow> r_authority r = ''native-host'' \<and> r_dispatch_state r = Dispatched
         \<and> r_persistent_effect r = NoEffect \<and> no_affected_targets r, ''operation_native_preflight_invalid''),
      ((case r_native_artifact_receipt r of None \<Rightarrow> True
        | Some a \<Rightarrow> nativeArtifactResultEffectV2 r \<noteq> None \<and> jtext (jrow a) ''phase'' (effect_text (op_requested_effect p))),
         ''operation_artifact_authority_invalid''),
      (r_persistent_effect r = AppliedEffect \<longrightarrow> op_requested_effect p = ApplyEffect
         \<and> (r_native_transaction_state r = TxCommitted \<or> nativeArtifactResultEffectV2 r = Some AppliedEffect),
         ''operation_apply_authority_invalid''),
      (op_requested_effect p = PreviewEffect \<and> r_status r = Succeeded \<longrightarrow> r_persistent_effect r = NoEffect
         \<and> (r_native_transaction_state r = TxRolledBack \<or> nativeArtifactResultEffectV2 r = Some NoEffect),
         ''operation_preview_settlement_invalid'')]"

definition schema_gap_checks :: "kernel_env \<Rightarrow> operation_result \<Rightarrow> checks" where
  "schema_gap_checks env r = (case r_input_schema_gap r of
      None \<Rightarrow> []
    | Some g \<Rightarrow> (case operationInputSchemaGapErrorV2 env g r of None \<Rightarrow> [] | Some e \<Rightarrow> [(False, e)]))"

definition affected_target_checks :: "operation_result \<Rightarrow> checks" where
  "affected_target_checks r = (case r_affected_target_identities r of
      None \<Rightarrow> []
    | Some ts \<Rightarrow> [(isCanonicalNativeAffectedTargetSetV2 ts
         \<and> (ts = [] \<or> r_dispatch_state r = Dispatched \<and> r_authority r \<in> {''native-host'', ''dynamic-runtime''}),
         ''operation_result_affected_targets_invalid'')])"

definition semantic_gap_checks :: "operation \<Rightarrow> operation_result \<Rightarrow> checks" where
  "semantic_gap_checks p r = (case r_result_semantic_gap r of
      None \<Rightarrow> []
    | Some g \<Rightarrow>
        [(op_requested_effect p = PreviewEffect \<and> op_fulfillment_role p = Some DelegatedTaskExecution
            \<and> r_status r = FailedAfterDispatch \<and> r_dispatch_state r = Dispatched \<and> r_persistent_effect r = NoEffect
            \<and> (r_native_transaction_state r = TxRolledBack \<or> nativeArtifactResultEffectV2 r = Some NoEffect)
            \<and> r_observation_required r, ''operation_result_semantic_gap_effect_invalid''),
         (rsg_schema g = OPERATION_RESULT_SEMANTIC_GAP_V2_SCHEMA
            \<and> rsg_gap_id g = ''result-semantics:'' @ op_id p \<and> rsg_operation_id g = op_id p
            \<and> rsg_capability_id g = op_capability_id p \<and> rsg_result_schema_id g = r_result_schema_id r
            \<and> r_error_code r = Some (rsg_reason_code g)
            \<and> rsg_reason_code g \<in> {''preview_semantic_adapter_missing'', ''preview_result_contract_invalid''}
            \<and> \<not> rsg_retryable g \<and> \<not> rsg_provider_correctable g \<and> \<not> rsg_native_replay_allowed g,
            ''operation_result_semantic_gap_invalid'')])"

definition validateResult :: "kernel_env \<Rightarrow> snapshot \<Rightarrow> operation \<Rightarrow> operation_result \<Rightarrow> checks" where
  "validateResult env s p r =
     identity_checks s p r @ status_checks p r @ result_effect_checks p r @ schema_gap_checks env r
     @ affected_target_checks r @ semantic_gap_checks p r"

text \<open>\<open>(raw as Record).artifact_receipt ?? null\<close> of the payload submitted with the result.\<close>

definition payload_receipt :: "observation_commit_input option \<Rightarrow> json" where
  "payload_receipt c = (case c of
      Some oc \<Rightarrow> (case oc_raw_payload oc of
          JObj kvs \<Rightarrow> (case map_of kvs ''artifact_receipt'' of None \<Rightarrow> JNull | Some v \<Rightarrow> v)
        | _ \<Rightarrow> JNull)
    | None \<Rightarrow> JNull)"

definition receipt_checks :: "operation_result \<Rightarrow> observation_commit_input option \<Rightarrow> checks" where
  "receipt_checks r c = (case r_native_artifact_receipt r of
      None \<Rightarrow> []
    | Some a \<Rightarrow> [(canonicalJsonV2 (payload_receipt c) = canonicalJsonV2 a, ''artifact_receipt_payload_mismatch'')])"

definition resulted_operation :: "int \<Rightarrow> operation_result \<Rightarrow> observation_commit_input option \<Rightarrow> operation \<Rightarrow> operation" where
  "resulted_operation version r c p =
     p\<lparr>op_dispatch_state := r_dispatch_state r, op_persistent_effect := r_persistent_effect r,
       op_settlement_state := (if r_observation_required r then RetainingObservation else Settled),
       op_result := Some r,
       op_observation_commit := (if c \<noteq> None then c else op_observation_commit p),
       op_observation_commit_attempts := (if c \<noteq> None then Some 0 else op_observation_commit_attempts p),
       op_settled_at := (if r_observation_required r then None else Some (r_completed_at r)),
       op_settled_version := (if r_observation_required r then None else Some version)\<rparr>"

definition operationResultRecorded ::
  "kernel_env \<Rightarrow> snapshot \<Rightarrow> int \<Rightarrow> operation_result \<Rightarrow> observation_commit_input option \<Rightarrow> kernel_error + snapshot" where
  "operationResultRecorded env s version r c = (case rget (sn_operations s) (r_operation_id r) of
      None \<Rightarrow> Inl ''operation_result_unmatched''
    | Some p \<Rightarrow>
        guard ([(op_settlement_state p \<noteq> Settled \<and> op_result p = None, ''operation_result_unmatched'')]
            @ validateResult env s p r @ receipt_checks r c)
          (Inr (put_operation (resulted_operation version r c p) s)))"

section \<open>Observations\<close>

definition obs_eligible_ids :: "observation \<Rightarrow> string list" where
  "obs_eligible_ids ob = (case obs_eligible_criterion_ids ob of None \<Rightarrow> [] | Some is \<Rightarrow> is)"

definition observation_contract_checks :: "snapshot \<Rightarrow> operation \<Rightarrow> observation \<Rightarrow> checks" where
  "observation_contract_checks s p ob = (if \<not> semantic_contract s then [] else
     [(op_fulfillment_role p \<noteq> None \<and> obs_fulfillment_role ob = op_fulfillment_role p,
         ''observation_fulfillment_role_mismatch''),
      (obs_evidence_class ob = map_option evidenceClassForFulfillmentRoleV2 (op_fulfillment_role p),
         ''observation_evidence_class_mismatch''),
      (obs_capability_id ob = Some (op_capability_id p), ''observation_capability_mismatch''),
      (obs_eligible_ids ob = eligible_ids p, ''observation_criterion_eligibility_mismatch'')])"

definition observation_checks :: "snapshot \<Rightarrow> operation \<Rightarrow> observation \<Rightarrow> checks" where
  "observation_checks s p ob =
     [(op_settlement_state p = RetainingObservation \<and> op_result p \<noteq> None, ''observation_operation_unsettled''),
      (result_is p (\<lambda>r. r_result_schema_id r = obs_result_schema_id ob
          \<and> r_raw_payload_hash r = Some (obs_raw_payload_hash ob)), ''observation_result_mismatch''),
      (result_is p (\<lambda>r. r_authority r = obs_authority ob), ''observation_authority_mismatch''),
      (sameAssignmentBindingV2 (sn_current_binding s) (obs_binding ob), ''observation_binding_mismatch''),
      (\<not> rhas (sn_observations s) (obs_id ob), ''observation_duplicate'')]
     @ observation_contract_checks s p ob"

definition or_keep :: "'a option \<Rightarrow> 'a option \<Rightarrow> 'a option" where
  "or_keep new old = (if new = None then old else new)"

definition settled_operation :: "kernel_env \<Rightarrow> string \<Rightarrow> int \<Rightarrow> string \<Rightarrow> operation \<Rightarrow> operation" where
  "settled_operation env now version i p =
     p\<lparr>op_settlement_state := Settled, op_settled_at := Some now, op_settled_version := Some version,
       op_observation_retention_error := None,
       op_native_failure_context := or_keep (deriveNativeFailureContextV1 env p) (op_native_failure_context p),
       op_native_template_state := or_keep (deriveNativeTemplateStateV1 env p) (op_native_template_state p),
       op_native_schedule_filter_state :=
         or_keep (deriveNativeScheduleFilterStateV1 env p) (op_native_schedule_filter_state p),
       op_native_inventory_workload := or_keep (deriveNativeInventoryWorkloadV1 env p) (op_native_inventory_workload p),
       op_observation_commit := None, op_observation_ids := op_observation_ids p @ [i]\<rparr>"

definition note_verification :: "string \<Rightarrow> operation \<Rightarrow> operation" where
  "note_verification v subject =
     subject\<lparr>op_verification_operation_ids := unique_sorted (op_verification_operation_ids subject @ [v])\<rparr>"

definition put_observation :: "int \<Rightarrow> observation \<Rightarrow> snapshot \<Rightarrow> snapshot" where
  "put_observation version ob s = s\<lparr>sn_observations := rput (obs_id ob) ob (sn_observations s),
     sn_observation_versions := rput (obs_id ob) version (sn_observation_versions s)\<rparr>"

definition retain_unit :: "string \<Rightarrow> snapshot \<Rightarrow> snapshot" where
  "retain_unit i s = (if (case find_work_unit s i of None \<Rightarrow> False | Some u \<Rightarrow> wu_independently_useful u)
     then set_unit_state i WuRetained s else s)"

definition link_verification :: "operation \<Rightarrow> snapshot \<Rightarrow> kernel_error + snapshot" where
  "link_verification p s =
     (if truthy (op_verification_of p) then
        (case rget (sn_operations s) (the (op_verification_of p)) of
           None \<Rightarrow> Inl ''operation_verification_subject_missing''
         | Some subject \<Rightarrow> Inr (put_operation (note_verification (op_id p) subject) s))
      else Inr s)"

definition observationRetained ::
  "kernel_env \<Rightarrow> snapshot \<Rightarrow> string \<Rightarrow> int \<Rightarrow> observation \<Rightarrow> kernel_error + snapshot" where
  "observationRetained env s now version ob = (case rget (sn_operations s) (obs_operation_id ob) of
      None \<Rightarrow> Inl ''observation_operation_unsettled''
    | Some p \<Rightarrow> guard (observation_checks s p ob)
        (kbind (link_verification p (put_operation (settled_operation env now version (obs_id ob) p) s))
          (\<lambda>t. Inr (retain_unit (op_work_unit_id p) (put_observation version ob t)))))"

definition attempts :: "operation \<Rightarrow> int" where
  "attempts p = (case op_observation_commit_attempts p of None \<Rightarrow> 0 | Some n \<Rightarrow> n)"

definition error_noted :: "string \<Rightarrow> operation \<Rightarrow> operation" where
  "error_noted code p = p\<lparr>op_observation_retention_error := Some (take 240 code)\<rparr>"

definition awaiting_retention :: "operation \<Rightarrow> bool" where
  "awaiting_retention p \<longleftrightarrow> op_settlement_state p = RetainingObservation \<and> op_result p \<noteq> None"

definition observationCommitRetryRecorded ::
  "snapshot \<Rightarrow> string \<Rightarrow> string \<Rightarrow> int \<Rightarrow> string \<Rightarrow> kernel_error + snapshot" where
  "observationCommitRetryRecorded s i result_id attempt code = (case rget (sn_operations s) i of
      None \<Rightarrow> Inl ''observation_commit_operation_invalid''
    | Some p \<Rightarrow> guard
        [(awaiting_retention p \<and> op_observation_commit p \<noteq> None, ''observation_commit_operation_invalid''),
         (result_is p (\<lambda>r. r_result_id r = result_id)
            \<and> map_option oc_result_id (op_observation_commit p) = Some result_id, ''observation_commit_result_mismatch''),
         (attempt = attempts p + 1, ''observation_commit_attempt_out_of_order'')]
        (Inr (put_operation ((error_noted code p)\<lparr>op_observation_commit_attempts := Some attempt\<rparr>) s)))"

definition observationCommitFailed ::
  "snapshot \<Rightarrow> string \<Rightarrow> string \<Rightarrow> string \<Rightarrow> int \<Rightarrow> string \<Rightarrow> kernel_error + snapshot" where
  "observationCommitFailed s now i result_id attempt code = (case rget (sn_operations s) i of
      None \<Rightarrow> Inl ''observation_commit_operation_invalid''
    | Some p \<Rightarrow> guard
        [(awaiting_retention p, ''observation_commit_operation_invalid''),
         (result_is p (\<lambda>r. r_result_id r = result_id)
            \<and> (case op_observation_commit p of None \<Rightarrow> True | Some c \<Rightarrow> oc_result_id c = result_id),
            ''observation_commit_result_mismatch''),
         (attempt = attempts p + 1, ''observation_commit_attempt_out_of_order'')]
        (Inr ((put_operation ((error_noted code p)\<lparr>op_observation_commit_attempts := Some attempt,
            op_settlement_state := ObservationCommitFailed\<rparr>) s)
          \<lparr>sn_progress_blocker := Some \<lparr>bl_code = ''observation_commit_failed'', bl_gap_ids = op_resolves_gap_ids p,
             bl_recorded_at = now\<rparr>\<rparr>)))"

definition observationRetentionFailed ::
  "snapshot \<Rightarrow> string \<Rightarrow> int \<Rightarrow> string \<Rightarrow> string \<Rightarrow> kernel_error + snapshot" where
  "observationRetentionFailed s now version i code = (case rget (sn_operations s) i of
      None \<Rightarrow> Inl ''observation_retention_operation_invalid''
    | Some p \<Rightarrow> guard
        [(awaiting_retention p, ''observation_retention_operation_invalid''),
         (nonblank code, ''observation_retention_error_missing'')]
        (Inr (put_operation ((error_noted code p)\<lparr>op_settlement_state := Settled, op_settled_at := Some now,
           op_settled_version := Some version\<rparr>) s)))"

section \<open>Reconciliation of an unknown effect\<close>

fun resolved_effect_of :: "resolved_effect \<Rightarrow> persistent_effect" where
  "resolved_effect_of ResolvedNone = NoEffect"
| "resolved_effect_of ResolvedApplied = AppliedEffect"

definition nativeCompletionReconciled ::
  "snapshot \<Rightarrow> string \<Rightarrow> string \<Rightarrow> json \<Rightarrow> kernel_error + snapshot" where
  "nativeCompletionReconciled s actor i completion =
     (if actor \<noteq> ''native-completion-recovery'' then Inl ''native_completion_operation_invalid''
      else (case rget (sn_operations s) i of
        None \<Rightarrow> Inl ''native_completion_operation_invalid''
      | Some p \<Rightarrow> guard [(op_persistent_effect p = UnknownEffect \<and> op_native_completion_reconciliation p = None,
            ''native_completion_operation_invalid'')]
          (case nativeCompletionReconciliationEffectV1 completion p of
             None \<Rightarrow> Inl ''native_completion_receipt_invalid''
           | Some e \<Rightarrow> Inr (put_operation (p\<lparr>op_persistent_effect := e,
               op_native_completion_reconciliation := Some completion\<rparr>) s))))"

definition reconciliationRecorded ::
  "snapshot \<Rightarrow> string \<Rightarrow> resolved_effect \<Rightarrow> string list \<Rightarrow> kernel_error + snapshot" where
  "reconciliationRecorded s i e observation_ids = (case rget (sn_operations s) i of
      None \<Rightarrow> Inl ''reconciliation_operation_invalid''
    | Some p \<Rightarrow> guard
        [(op_persistent_effect p = UnknownEffect, ''reconciliation_operation_invalid''),
         (list_all (rhas (sn_observations s)) observation_ids, ''reconciliation_observation_unknown'')]
        (Inr (put_operation (p\<lparr>op_persistent_effect := resolved_effect_of e\<rparr>) s)))"

end
