(* ===== verification/DerivedState.thy ===== *)
theory DerivedState
  imports Outcome
begin

text \<open>
  \<open>withDerivedState\<close> is a projection: applying it twice is applying it once. A snapshot it leaves alone
  is called derived; its index lists, its work-unit states and its outcome are then exactly what its
  operations, provider calls and evaluations say.
\<close>

definition derived :: "snapshot \<Rightarrow> bool" where
  "derived s \<longleftrightarrow> withDerivedState s = s"

section \<open>Records determined by their keys\<close>

lemma krecord_eqI:
  "rkeys r = rkeys t \<Longrightarrow> distinct (rkeys r) \<Longrightarrow> (\<And>k. rget r k = rget t k) \<Longrightarrow> r = t"
proof (induction r arbitrary: t)
  case (Cons e r)
  then obtain k v w t' where e: "e = (k, v)" and t: "t = (k, w) # t'"
    by (cases e; cases t) (auto simp: rkeys_def)
  from Cons.prems(3) [of k] have "v = w" by (simp add: e t)
  have k: "k \<notin> set (rkeys r)" "k \<notin> set (rkeys t')" "rkeys r = rkeys t'" "distinct (rkeys r)"
    using Cons.prems(1,2) by (auto simp: e t rkeys_def)
  have "rget r k' = rget t' k'" for k'
  proof (cases "k' = k")
    case True
    with k(1,2) have "rget r k' = None" "rget t' k' = None"
      by (auto simp: rkeys_def map_of_eq_None_iff)
    then show ?thesis by simp
  next
    case False
    with Cons.prems(3) [of k'] show ?thesis by (simp add: e t)
  qed
  with Cons.IH k \<open>v = w\<close> show ?case by (simp add: e t)
qed (simp add: rkeys_def)

definition put_some :: "('a \<Rightarrow> string) \<Rightarrow> ('a \<Rightarrow> 'v option) \<Rightarrow> 'a list \<Rightarrow> 'v krecord \<Rightarrow> 'v krecord" where
  "put_some key val xs r = fold (\<lambda>x r. case val x of None \<Rightarrow> r | Some v \<Rightarrow> rput (key x) v r) xs r"

lemma put_some_simps [simp]:
  "put_some key val [] r = r"
  "put_some key val (x # xs) r = put_some key val xs (case val x of None \<Rightarrow> r | Some v \<Rightarrow> rput (key x) v r)"
  by (simp_all add: put_some_def)

lemma put_some_keys: "k \<in> set (rkeys r) \<Longrightarrow> k \<in> set (rkeys (put_some key val xs r))"
  by (induction xs arbitrary: r) (simp_all split: option.split)

lemma put_some_distinct: "distinct (rkeys r) \<Longrightarrow> distinct (rkeys (put_some key val xs r))"
  by (induction xs arbitrary: r) (auto split: option.split)

lemma put_some_key_present: "x \<in> set xs \<Longrightarrow> val x \<noteq> None \<Longrightarrow> key x \<in> set (rkeys (put_some key val xs r))"
  by (induction xs arbitrary: r) (auto simp: put_some_keys)

lemma put_some_keys_id:
  "\<forall>x \<in> set xs. val x \<noteq> None \<longrightarrow> key x \<in> set (rkeys r) \<Longrightarrow> rkeys (put_some key val xs r) = rkeys r"
  by (induction xs arbitrary: r) (auto simp: rkeys_rput split: option.split)

lemma put_some_get:
  "(\<exists>x \<in> set xs. val x \<noteq> None \<and> key x = k) \<or> rget r k = rget t k \<Longrightarrow>
     rget (put_some key val xs r) k = rget (put_some key val xs t) k"
proof (induction xs arbitrary: r t)
  case (Cons x xs)
  show ?case
  proof (cases "val x")
    case None
    with Cons show ?thesis by auto
  next
    case (Some v)
    have "(\<exists>x \<in> set xs. val x \<noteq> None \<and> key x = k) \<or> rget (rput (key x) v r) k = rget (rput (key x) v t) k"
      using Cons.prems Some by auto
    from Cons.IH [OF this] Some show ?thesis by simp
  qed
qed simp

lemma put_some_get_outside:
  "\<not> (\<exists>x \<in> set xs. val x \<noteq> None \<and> key x = k) \<Longrightarrow> rget (put_some key val xs r) k = rget r k"
proof (induction xs arbitrary: r)
  case (Cons x xs)
  then have outside: "\<not> (\<exists>x \<in> set xs. val x \<noteq> None \<and> key x = k)" by simp
  with Cons.prems Cons.IH [OF this] show ?case by (cases "val x") auto
qed simp

lemma put_some_idem:
  assumes "distinct (rkeys r)"
  shows "put_some key val xs (put_some key val xs r) = put_some key val xs r"
proof (rule krecord_eqI)
  show "rkeys (put_some key val xs (put_some key val xs r)) = rkeys (put_some key val xs r)"
    by (rule put_some_keys_id) (simp add: put_some_key_present)
  then show "distinct (rkeys (put_some key val xs (put_some key val xs r)))"
    using assms by (simp add: put_some_distinct)
  show "rget (put_some key val xs (put_some key val xs r)) k = rget (put_some key val xs r) k" for k
    using put_some_get_outside [of xs val key k r] by (intro put_some_get) blast
qed

section \<open>What the derivations read\<close>

text \<open>Two snapshots agree on what outcome and projection read if they differ only in these fields.\<close>

definition same_facts :: "snapshot \<Rightarrow> snapshot \<Rightarrow> bool" where
  "same_facts s t \<longleftrightarrow> s = t\<lparr>sn_work_unit_states := sn_work_unit_states s, sn_outcome := sn_outcome s\<rparr>"

lemma same_facts_fields:
  assumes "same_facts s t"
  shows "sn_spec s = sn_spec t" "sn_current_binding s = sn_current_binding t" "sn_operations s = sn_operations t"
    "sn_observations s = sn_observations t" "sn_criteria s = sn_criteria t" "sn_work_plan s = sn_work_plan t"
    "sn_discovered_inputs s = sn_discovered_inputs t" "sn_input_values s = sn_input_values t"
    "sn_input_invalidated_operation_ids s = sn_input_invalidated_operation_ids t"
    "sn_provider_calls s = sn_provider_calls t" "sn_quiescent s = sn_quiescent t"
    "sn_pending_input_variable_ids s = sn_pending_input_variable_ids t"
    "sn_pending_review_ids s = sn_pending_review_ids t" "sn_completion_proposal s = sn_completion_proposal t"
    "sn_progress_blocker s = sn_progress_blocker t" "sn_execution_failure_ids s = sn_execution_failure_ids t"
    "sn_unresolved_unknown_operation_ids s = sn_unresolved_unknown_operation_ids t"
    "sn_execution_failures s = sn_execution_failures t" "sn_provider_usage_hold s = sn_provider_usage_hold t"
    "sn_provider_budget_exhausted s = sn_provider_budget_exhausted t" "sn_result_delivery s = sn_result_delivery t"
    "sn_execution_control s = sn_execution_control t" "sn_in_flight_operation_ids s = sn_in_flight_operation_ids t"
    "sn_in_flight_provider_call_ids s = sn_in_flight_provider_call_ids t"
  by (subst assms [unfolded same_facts_def], simp)+

lemma sf_postcondition:
  assumes same: "same_facts s t"
  shows "appliedOperationHasVerifiedPostconditionV2 s = appliedOperationHasVerifiedPostconditionV2 t"
  by (rule postcondition_cong) (simp_all add: same_facts_fields [OF same])

lemma sf_targets:
  assumes same: "same_facts s t"
  shows "verifiedNativeWorkTargetIdentitiesV2 s = verifiedNativeWorkTargetIdentitiesV2 t"
  by (rule verified_targets_cong) (simp_all add: same_facts_fields [OF same])

lemma sf_advisory:
  assumes same: "same_facts s t"
  shows "advisoryVerificationV2 s = advisoryVerificationV2 t"
  by (rule advisory_spec_cong) (simp add: same_facts_fields [OF same])

lemma sf_plan_items:
  assumes same: "same_facts s t"
  shows "plan_items s = plan_items t"
  by (simp add: plan_items_def same_facts_fields [OF same])

lemma sf_inspection:
  assumes same: "same_facts s t"
  shows "inspectionIsCurrentV2 s = inspectionIsCurrentV2 t"
  unfolding inspectionIsCurrentV2_def last_edit_def inspection_dependency_ok_def inspection_read_ok_def
    expected_targets_def sf_postcondition [OF same] sf_targets [OF same] sf_plan_items [OF same] same_facts_fields [OF same] ..

lemma sf_pending:
  assumes same: "same_facts s t"
  shows "workPlanItemPendingV2 s = workPlanItemPendingV2 t"
  unfolding workPlanItemPendingV2_def sf_postcondition [OF same] sf_inspection [OF same] ..

lemma sf_plan_pending:
  assumes same: "same_facts s t"
  shows "workPlanPendingV2 s = workPlanPendingV2 t"
  unfolding workPlanPendingV2_def sf_pending [OF same] sf_plan_items [OF same] same_facts_fields [OF same] ..

lemma sf_native:
  assumes same: "same_facts s t"
  shows "retainedNativeSuccess s = retainedNativeSuccess t"
  unfolding retainedNativeSuccess_def retainedNativeExecutionSuccess_def execution_observed_def
    same_facts_fields [OF same] ..

lemma sf_native_execution:
  assumes same: "same_facts s t"
  shows "retainedNativeExecutionSuccess s = retainedNativeExecutionSuccess t"
  unfolding retainedNativeExecutionSuccess_def execution_observed_def same_facts_fields [OF same] ..

lemma sf_model_commit:
  assumes same: "same_facts s t"
  shows "nativeModelCommitProgressIdentityV2 s = nativeModelCommitProgressIdentityV2 t"
  unfolding nativeModelCommitProgressIdentityV2_def sf_native [OF same] sf_native_execution [OF same] same_facts_fields [OF same] ..

lemma sf_commit:
  assumes same: "same_facts s t"
  shows "nativeCommitProgressIdentityV2 s = nativeCommitProgressIdentityV2 t"
  unfolding nativeCommitProgressIdentityV2_def checkpoint_commit_def preceding_commits_def
    sf_native [OF same] sf_model_commit [OF same] same_facts_fields [OF same] ..

lemma sf_bound:
  assumes same: "same_facts s t"
  shows "boundNativeResult s = boundNativeResult t"
  unfolding boundNativeResult_def observation_bound_to_def sf_native [OF same] same_facts_fields [OF same] ..

lemma sf_applied:
  assumes same: "same_facts s t"
  shows "applied_edits s = applied_edits t"
  by (simp add: applied_edits_def same_facts_fields [OF same])

lemma sf_saved:
  assumes same: "same_facts s t"
  shows "verifiedSavedPartialV2 s = verifiedSavedPartialV2 t"
  unfolding verifiedSavedPartialV2_def saved_partial_fences_def single_result_criterion_def saved_edit_ok_def
    saved_read_ok_def sf_bound [OF same] sf_commit [OF same] sf_applied [OF same] sf_inspection [OF same] sf_plan_items [OF same] sf_postcondition [OF same] sf_advisory [OF same]
    same_facts_fields [OF same] ..

lemma sf_inputs:
  assumes same: "same_facts s t"
  shows "requiredInputsKnown s = requiredInputsKnown t"
  unfolding requiredInputsKnown_def assignmentInputVariablesV2_def same_facts_fields [OF same] ..

lemma sf_evaluations:
  assumes same: "same_facts s t"
  shows "requiredEvaluations s = requiredEvaluations t" "required_criteria s = required_criteria t"
  unfolding requiredEvaluations_def required_criteria_def same_facts_fields [OF same] by (rule refl)+

lemma sf_projected:
  assumes same: "same_facts s t"
  shows "projected_unit_state s = projected_unit_state t"
  unfolding projected_unit_state_def unit_evaluations_def unit_effect_verified_def verification_unit_ids_def
    sf_applied [OF same] sf_postcondition [OF same] same_facts_fields [OF same] ..

lemma sf_relations:
  assumes same: "same_facts s t"
  shows "derived_in_flight s = derived_in_flight t" "derived_unknown s = derived_unknown t"
  "derived_in_flight_calls s = derived_in_flight_calls t" "derived_children s = derived_children t"
  "derived_blocking s = derived_blocking t"
  unfolding derived_in_flight_def derived_unknown_def derived_in_flight_calls_def derived_children_def
    derived_blocking_def same_facts_fields [OF same] by (rule refl)+

lemma sf_outcome:
  assumes same: "same_facts s t" and states: "sn_work_unit_states s = sn_work_unit_states t"
  shows "deriveAssignmentOutcomeV2 s = deriveAssignmentOutcomeV2 t"
  unfolding deriveAssignmentOutcomeV2_def latest_failure_def work_finished_def sf_saved [OF same] sf_inputs [OF same] sf_evaluations [OF same]
    sf_advisory [OF same] sf_plan_pending [OF same] sf_applied [OF same] sf_postcondition [OF same] states same_facts_fields [OF same] ..

section \<open>The projection is idempotent\<close>

lemma projectWorkUnitCriteria_put:
  "projectWorkUnitCriteria s = s\<lparr>sn_work_unit_states :=
     put_some wu_id (projected_unit_state s) (sp_work_units (sn_spec s)) (sn_work_unit_states s)\<rparr>"
  by (simp add: projectWorkUnitCriteria_def put_some_def)

lemma withDerivedState_eq:
  "withDerivedState s = (let r = with_relations s;
       n = r\<lparr>sn_work_unit_states := put_some wu_id (projected_unit_state r) (sp_work_units (sn_spec r)) (sn_work_unit_states r)\<rparr>
     in n\<lparr>sn_outcome := deriveAssignmentOutcomeV2 n\<rparr>)"
  by (simp add: withDerivedState_def projectWorkUnitCriteria_put Let_def)

lemma with_relations_fields [simp]:
  "sn_spec (with_relations s) = sn_spec s" "sn_work_unit_states (with_relations s) = sn_work_unit_states s"
  "sn_operations (with_relations s) = sn_operations s" "sn_provider_calls (with_relations s) = sn_provider_calls s"
  by (simp_all add: with_relations_def)

lemma derived_relations_cong:
  assumes "sn_operations s = sn_operations t" "sn_provider_calls s = sn_provider_calls t"
  shows "derived_in_flight s = derived_in_flight t" "derived_unknown s = derived_unknown t"
    "derived_in_flight_calls s = derived_in_flight_calls t" "derived_children s = derived_children t"
    "derived_blocking s = derived_blocking t"
  using assms by (simp_all add: derived_in_flight_def derived_unknown_def derived_in_flight_calls_def
      derived_children_def derived_blocking_def)

lemma withDerivedState_fixpoint:
  assumes "with_relations w = w" "sn_outcome w = deriveAssignmentOutcomeV2 w"
    "put_some wu_id (projected_unit_state w) (sp_work_units (sn_spec w)) (sn_work_unit_states w) = sn_work_unit_states w"
  shows "withDerivedState w = w"
proof -
  have "w\<lparr>sn_work_unit_states := sn_work_unit_states w\<rparr> = w" "w\<lparr>sn_outcome := sn_outcome w\<rparr> = w" by simp_all
  then show ?thesis
    using assms by (simp only: withDerivedState_eq Let_def)
qed

lemma withDerivedState_derived:
  assumes "distinct (rkeys (sn_work_unit_states s))"
  shows "derived (withDerivedState s)"
proof -
  define r where "r = with_relations s"
  define ws where "ws = put_some wu_id (projected_unit_state r) (sp_work_units (sn_spec s)) (sn_work_unit_states s)"
  define n where "n = r\<lparr>sn_work_unit_states := ws\<rparr>"
  define w where "w = n\<lparr>sn_outcome := deriveAssignmentOutcomeV2 n\<rparr>"
  have w: "withDerivedState s = w"
    by (simp add: withDerivedState_eq Let_def w_def n_def ws_def r_def)
  have same: "same_facts w r" by (simp add: same_facts_def w_def n_def)
  have fields: "sn_operations w = sn_operations s" "sn_provider_calls w = sn_provider_calls s"
    "sn_spec w = sn_spec s" "sn_work_unit_states w = ws" "sn_outcome w = deriveAssignmentOutcomeV2 n"
    by (simp_all add: w_def n_def r_def)
  have "withDerivedState w = w"
  proof (rule withDerivedState_fixpoint)
    show "with_relations w = w"
      using derived_relations_cong [of w s] by (simp add: with_relations_def w_def n_def r_def)
    show "put_some wu_id (projected_unit_state w) (sp_work_units (sn_spec w)) (sn_work_unit_states w) = sn_work_unit_states w"
      unfolding fields sf_projected [OF same] by (simp add: ws_def put_some_idem [OF assms])
    show "sn_outcome w = deriveAssignmentOutcomeV2 w"
      unfolding fields by (rule sf_outcome) (simp_all add: same_facts_def w_def)
  qed
  then show ?thesis unfolding derived_def w .
qed

lemma withDerivedState_fields [simp]:
  "sn_assignment_version (withDerivedState s) = sn_assignment_version s"
  "sn_spec (withDerivedState s) = sn_spec s"
  "sn_current_binding (withDerivedState s) = sn_current_binding s"
  "sn_execution_control (withDerivedState s) = sn_execution_control s"
  "sn_provider_usage_hold (withDerivedState s) = sn_provider_usage_hold s"
  "sn_discovered_inputs (withDerivedState s) = sn_discovered_inputs s"
  "sn_input_values (withDerivedState s) = sn_input_values s"
  "sn_input_invalidated_operation_ids (withDerivedState s) = sn_input_invalidated_operation_ids s"
  "sn_pending_input_variable_ids (withDerivedState s) = sn_pending_input_variable_ids s"
  "sn_clarifications (withDerivedState s) = sn_clarifications s"
  "sn_pending_review_ids (withDerivedState s) = sn_pending_review_ids s"
  "sn_completion_proposal (withDerivedState s) = sn_completion_proposal s"
  "sn_provider_call_ids (withDerivedState s) = sn_provider_call_ids s"
  "sn_provider_calls (withDerivedState s) = sn_provider_calls s"
  "sn_provider_budget_exhausted (withDerivedState s) = sn_provider_budget_exhausted s"
  "sn_execution_failure_ids (withDerivedState s) = sn_execution_failure_ids s"
  "sn_execution_failures (withDerivedState s) = sn_execution_failures s"
  "sn_progress_epochs (withDerivedState s) = sn_progress_epochs s"
  "sn_progress_blocker (withDerivedState s) = sn_progress_blocker s"
  "sn_operations (withDerivedState s) = sn_operations s"
  "sn_observations (withDerivedState s) = sn_observations s"
  "sn_observation_versions (withDerivedState s) = sn_observation_versions s"
  "sn_criteria (withDerivedState s) = sn_criteria s"
  "sn_criterion_evaluation_versions (withDerivedState s) = sn_criterion_evaluation_versions s"
  "sn_terminal (withDerivedState s) = sn_terminal s"
  "sn_result_delivery (withDerivedState s) = sn_result_delivery s"
  "sn_advisory_followups (withDerivedState s) = sn_advisory_followups s"
  "sn_work_plan_claims (withDerivedState s) = sn_work_plan_claims s"
  "sn_work_plan (withDerivedState s) = sn_work_plan s"
  "sn_user_followup_allocation (withDerivedState s) = sn_user_followup_allocation s"
  "sn_work_plan_scope_requests (withDerivedState s) = sn_work_plan_scope_requests s"
  by (simp_all add: withDerivedState_eq with_relations_def Let_def)

lemma withDerivedState_states_distinct [simp]:
  "distinct (rkeys (sn_work_unit_states s)) \<Longrightarrow> distinct (rkeys (sn_work_unit_states (withDerivedState s)))"
  by (simp add: withDerivedState_eq put_some_distinct Let_def)

lemma derived_relations:
  assumes "derived s"
  shows "sn_in_flight_operation_ids s = derived_in_flight s"
    "sn_in_flight_provider_call_ids s = derived_in_flight_calls s"
    "sn_operation_children s = derived_children s" "sn_blocking_child_operation_ids s = derived_blocking s"
    "sn_unresolved_unknown_operation_ids s = derived_unknown s"
    "sn_quiescent s \<longleftrightarrow> derived_in_flight s = [] \<and> derived_in_flight_calls s = []"
    "sn_outcome s = deriveAssignmentOutcomeV2 s"
proof -
  define n where "n = (with_relations s)\<lparr>sn_work_unit_states :=
    put_some wu_id (projected_unit_state (with_relations s)) (sp_work_units (sn_spec s)) (sn_work_unit_states s)\<rparr>"
  have s: "s = n\<lparr>sn_outcome := deriveAssignmentOutcomeV2 n\<rparr>"
    using assms by (simp add: derived_def withDerivedState_eq Let_def n_def)
  have fields: "sn_in_flight_operation_ids n = derived_in_flight s"
    "sn_in_flight_provider_call_ids n = derived_in_flight_calls s"
    "sn_operation_children n = derived_children s" "sn_blocking_child_operation_ids n = derived_blocking s"
    "sn_unresolved_unknown_operation_ids n = derived_unknown s"
    "sn_quiescent n \<longleftrightarrow> derived_in_flight s = [] \<and> derived_in_flight_calls s = []"
    by (simp_all add: n_def with_relations_def)
  from arg_cong [OF s, of sn_in_flight_operation_ids] arg_cong [OF s, of sn_in_flight_provider_call_ids]
    arg_cong [OF s, of sn_operation_children] arg_cong [OF s, of sn_blocking_child_operation_ids]
    arg_cong [OF s, of sn_unresolved_unknown_operation_ids] arg_cong [OF s, of sn_quiescent]
  show "sn_in_flight_operation_ids s = derived_in_flight s"
    "sn_in_flight_provider_call_ids s = derived_in_flight_calls s"
    "sn_operation_children s = derived_children s" "sn_blocking_child_operation_ids s = derived_blocking s"
    "sn_unresolved_unknown_operation_ids s = derived_unknown s"
    "sn_quiescent s \<longleftrightarrow> derived_in_flight s = [] \<and> derived_in_flight_calls s = []"
    by (simp_all add: fields)
  have "same_facts s n" "sn_work_unit_states s = sn_work_unit_states n"
    using arg_cong [OF s, of sn_work_unit_states] s by (simp_all add: same_facts_def)
  from sf_outcome [OF this] arg_cong [OF s, of sn_outcome]
  show "sn_outcome s = deriveAssignmentOutcomeV2 s" by simp
qed

end
