(* ===== verification/Evaluation.thy ===== *)
theory Evaluation
  imports Settlement DerivedState
begin

text \<open>
  \<open>criterion_evaluated\<close>: \<open>validateCriterionEvaluation\<close> (\<open>reducer.ts\<close>) and the merge of an accepted
  evaluation into the criteria and the work-unit states.
\<close>

definition whole_result_criterion :: "criterion_spec \<Rightarrow> bool" where
  "whole_result_criterion c \<longleftrightarrow> cs_semantic_fact_requirements c = [''task.result_available'']"

definition cited_settled :: "snapshot \<Rightarrow> string \<Rightarrow> bool" where
  "cited_settled s i = (case rget (sn_operations s) i of None \<Rightarrow> False | Some p \<Rightarrow> op_settlement_state p = Settled)"

definition cited_fact_checks :: "snapshot \<Rightarrow> criterion_spec \<Rightarrow> criterion_evaluation \<Rightarrow> fact_ref \<Rightarrow> checks" where
  "cited_fact_checks s c e f = (case rget (sn_observations s) (fr_observation_id f) of
      None \<Rightarrow> [(False, ''criterion_observation_untrusted'')]
    | Some ob \<Rightarrow>
        [(obs_authority ob \<in> set (cs_accepted_observation_authority_ids c), ''criterion_observation_untrusted''),
         (obs_operation_id ob \<in> set (ce_supporting_operation_ids e), ''criterion_fact_operation_unbound''),
         (list_ex (\<lambda>g. fact_id g = fr_fact_id f) (obs_facts ob), ''criterion_fact_unknown'')])"

definition evidence_admitted :: "snapshot \<Rightarrow> criterion_spec \<Rightarrow> criterion_evaluation \<Rightarrow> string \<Rightarrow> bool" where
  "evidence_admitted s c e i = (case rget (sn_observations s) i of
      None \<Rightarrow> False
    | Some ob \<Rightarrow> adm_admissible
        (observationAdmissibilityForCriterionV2 s c ob (Some (ce_evaluated_at e)) (Some (ce_basis e))))"

definition evidence_checks :: "snapshot \<Rightarrow> criterion_spec \<Rightarrow> criterion_evaluation \<Rightarrow> checks" where
  "evidence_checks s c e = (if \<not> semantic_contract s then []
     else map (\<lambda>i. (evidence_admitted s c e i, ''criterion_evidence_not_admissible''))
       (unique_in_order (map fr_observation_id (ce_supporting_facts e))))"

definition pass_checks :: "criterion_spec \<Rightarrow> criterion_evaluation \<Rightarrow> checks" where
  "pass_checks c e = (if ce_status e \<noteq> CsPass then []
     else map (\<lambda>r. (r \<in> set (map fr_fact_id (ce_supporting_facts e)), ''criterion_required_fact_missing''))
         (cs_semantic_fact_requirements c)
       @ [(ce_supporting_facts e \<noteq> [] \<or> ce_basis e \<in> {UserInputBasis, PolicyBasis}, ''criterion_pass_unsupported'')])"

definition noop_checks :: "snapshot \<Rightarrow> criterion_evaluation \<Rightarrow> checks" where
  "noop_checks s e = (if ce_basis e \<noteq> DesiredStateEquivalence then []
     else [(sp_requested_effect (sn_spec s) = ApplyEffect, ''criterion_noop_not_apply''),
           (list_all (rhas (sn_input_values s))
              (concat (map (\<lambda>u. workUnitInputVariableIdsV2 s (wu_id u)) (sp_work_units (sn_spec s)))),
              ''criterion_noop_desired_state_missing'')])"

definition validateCriterionEvaluation :: "snapshot \<Rightarrow> criterion_evaluation \<Rightarrow> checks" where
  "validateCriterionEvaluation s e = (case find_criterion s (ce_criterion_id e) of
      None \<Rightarrow> [(False, ''criterion_unknown'')]
    | Some c \<Rightarrow>
        [(\<not> (ce_status e = CsPass \<and> sp_requested_effect (sn_spec s) = ApplyEffect
             \<and> workPlanPendingV2 s \<and> whole_result_criterion c), ''criterion_work_plan_pending''),
         (ce_evaluator_authority e \<in> set (cs_accepted_evaluator_authority_ids c), ''criterion_evaluator_untrusted'')]
        @ map (\<lambda>i. (cited_settled s i, ''criterion_operation_unsettled'')) (ce_supporting_operation_ids e)
        @ concat (map (cited_fact_checks s c e) (ce_supporting_facts e))
        @ evidence_checks s c e @ pass_checks c e @ noop_checks s e)"

definition retain_evaluation :: "int \<Rightarrow> criterion_evaluation \<Rightarrow> snapshot \<Rightarrow> snapshot" where
  "retain_evaluation version e s = s\<lparr>
     sn_criteria := rput (ce_criterion_id e) (mergeEvaluation (rget (sn_criteria s) (ce_criterion_id e)) e) (sn_criteria s),
     sn_criterion_evaluation_versions := rput (ce_criterion_id e) version (sn_criterion_evaluation_versions s)\<rparr>"

definition criterionEvaluated :: "snapshot \<Rightarrow> int \<Rightarrow> criterion_evaluation \<Rightarrow> kernel_error + snapshot" where
  "criterionEvaluated s version e =
     guard (validateCriterionEvaluation s e) (Inr (projectWorkUnitCriteria (retain_evaluation version e s)))"

section \<open>Lemmas\<close>

text \<open>What an accepted passing evaluation rests on.\<close>

definition fact_supported :: "snapshot \<Rightarrow> criterion_spec \<Rightarrow> criterion_evaluation \<Rightarrow> fact_ref \<Rightarrow> bool" where
  "fact_supported s c e f = (case rget (sn_observations s) (fr_observation_id f) of
      None \<Rightarrow> False
    | Some ob \<Rightarrow> obs_authority ob \<in> set (cs_accepted_observation_authority_ids c)
        \<and> obs_operation_id ob \<in> set (ce_supporting_operation_ids e) \<and> cited_settled s (obs_operation_id ob)
        \<and> (\<exists>g \<in> set (obs_facts ob). fact_id g = fr_fact_id f)
        \<and> (semantic_contract s \<longrightarrow> adm_admissible
             (observationAdmissibilityForCriterionV2 s c ob (Some (ce_evaluated_at e)) (Some (ce_basis e)))))"

lemma evaluation_groups:
  assumes "first_failure (validateCriterionEvaluation s e) = None"
  obtains c where "find_criterion s (ce_criterion_id e) = Some c"
    "ce_evaluator_authority e \<in> set (cs_accepted_evaluator_authority_ids c)"
    "\<forall>i \<in> set (ce_supporting_operation_ids e). cited_settled s i"
    "\<forall>f \<in> set (ce_supporting_facts e). first_failure (cited_fact_checks s c e f) = None"
    "first_failure (evidence_checks s c e) = None" "first_failure (pass_checks c e) = None"
    "first_failure (noop_checks s e) = None"
    "\<not> (ce_status e = CsPass \<and> sp_requested_effect (sn_spec s) = ApplyEffect \<and> workPlanPendingV2 s \<and> whole_result_criterion c)"
proof -
  from assms obtain c where c: "find_criterion s (ce_criterion_id e) = Some c"
    by (cases "find_criterion s (ce_criterion_id e)") (simp_all add: validateCriterionEvaluation_def)
  let ?facts = "concat (map (cited_fact_checks s c e) (ce_supporting_facts e))"
  from assms c have g: "\<not> (ce_status e = CsPass \<and> sp_requested_effect (sn_spec s) = ApplyEffect \<and> workPlanPendingV2 s \<and> whole_result_criterion c)"
    "ce_evaluator_authority e \<in> set (cs_accepted_evaluator_authority_ids c)"
    "first_failure (map (\<lambda>i. (cited_settled s i, ''criterion_operation_unsettled'')) (ce_supporting_operation_ids e)) = None"
    "first_failure ?facts = None"
    "first_failure (evidence_checks s c e) = None" "first_failure (pass_checks c e) = None"
    "first_failure (noop_checks s e) = None"
    by (simp_all add: validateCriterionEvaluation_def first_failure_append_None)
  show thesis
  proof (rule that [OF c g(2) _ _ g(5-7) g(1)])
    show "\<forall>i \<in> set (ce_supporting_operation_ids e). cited_settled s i"
      using g(3) by (auto simp: first_failure_None_iff)
    show "\<forall>f \<in> set (ce_supporting_facts e). first_failure (cited_fact_checks s c e f) = None"
      using g(4) by (fastforce simp: first_failure_None_iff)
  qed
qed

lemma evaluation_facts_supported:
  assumes "first_failure (validateCriterionEvaluation s e) = None"
  obtains c where "find_criterion s (ce_criterion_id e) = Some c"
    "ce_evaluator_authority e \<in> set (cs_accepted_evaluator_authority_ids c)"
    "\<forall>f \<in> set (ce_supporting_facts e). fact_supported s c e f"
    "ce_status e = CsPass \<Longrightarrow> set (cs_semantic_fact_requirements c) \<subseteq> set (map fr_fact_id (ce_supporting_facts e))"
proof -
  from assms obtain c where c: "find_criterion s (ce_criterion_id e) = Some c"
    "ce_evaluator_authority e \<in> set (cs_accepted_evaluator_authority_ids c)"
    and settled: "\<forall>i \<in> set (ce_supporting_operation_ids e). cited_settled s i"
    and facts: "\<forall>f \<in> set (ce_supporting_facts e). first_failure (cited_fact_checks s c e f) = None"
    and ev: "first_failure (evidence_checks s c e) = None" and pass: "first_failure (pass_checks c e) = None"
    by (rule evaluation_groups)
  have "fact_supported s c e f" if f: "f \<in> set (ce_supporting_facts e)" for f
  proof -
    from facts f obtain ob where ob: "rget (sn_observations s) (fr_observation_id f) = Some ob"
      by (force simp: cited_fact_checks_def split: option.splits)
    with facts f have l: "obs_authority ob \<in> set (cs_accepted_observation_authority_ids c)"
      "obs_operation_id ob \<in> set (ce_supporting_operation_ids e)" "\<exists>g \<in> set (obs_facts ob). fact_id g = fr_fact_id f"
      by (force simp: cited_fact_checks_def list_ex_iff)+
    have "semantic_contract s \<longrightarrow> evidence_admitted s c e (fr_observation_id f)"
      using ev f by (force simp: evidence_checks_def first_failure_None_iff)
    with l settled ob show ?thesis by (simp add: fact_supported_def evidence_admitted_def)
  qed
  moreover have "set (cs_semantic_fact_requirements c) \<subseteq> set (map fr_fact_id (ce_supporting_facts e))" if "ce_status e = CsPass"
    using pass that by (auto simp: pass_checks_def first_failure_append_None first_failure_None_iff)
  ultimately show thesis using that [OF c] by blast
qed

lemma projectWorkUnitCriteria_frame: "projectWorkUnitCriteria s = s\<lparr>sn_work_unit_states := sn_work_unit_states (projectWorkUnitCriteria s)\<rparr>"
  by (simp add: projectWorkUnitCriteria_put)

definition evaluation_effect :: "snapshot \<Rightarrow> int \<Rightarrow> criterion_evaluation \<Rightarrow> snapshot \<Rightarrow> bool" where
  "evaluation_effect s version e t \<longleftrightarrow>
     t = (retain_evaluation version e s)\<lparr>sn_work_unit_states := sn_work_unit_states t\<rparr>
     \<and> (distinct (rkeys (sn_work_unit_states s)) \<longrightarrow> distinct (rkeys (sn_work_unit_states t)))"

lemma criterionEvaluated_effect [effect]:
  assumes "criterionEvaluated s version e = Inr t"
  shows "evaluation_effect s version e t" "first_failure (validateCriterionEvaluation s e) = None"
proof -
  from assms have t: "t = projectWorkUnitCriteria (retain_evaluation version e s)"
    and c: "first_failure (validateCriterionEvaluation s e) = None"
    by (simp_all add: criterionEvaluated_def guard_simps)
  have "t = (retain_evaluation version e s)\<lparr>sn_work_unit_states := sn_work_unit_states t\<rparr>"
    unfolding t by (rule projectWorkUnitCriteria_frame)
  moreover have "distinct (rkeys (sn_work_unit_states s)) \<longrightarrow> distinct (rkeys (sn_work_unit_states t))"
    by (simp add: t projectWorkUnitCriteria_put put_some_distinct retain_evaluation_def)
  ultimately show "evaluation_effect s version e t" by (simp add: evaluation_effect_def)
  show "first_failure (validateCriterionEvaluation s e) = None" by (fact c)
qed

end
