(* ===== verification/AdvisoryFollowups.thy ===== *)
theory AdvisoryFollowups
  imports ExecutionPolicy
begin

text \<open>
  \<open>advisory_followups.ts\<close>: the assistant's remembered unfinished work. Items are never removed; a
  disposition closes one at its expected version, a repeated claim reopens it.
\<close>

fun kind_text :: "followup_kind \<Rightarrow> string" where
  "kind_text RemainingWork = ''remaining_work''"
| "kind_text Uncertainties = ''uncertainties''"

fun field_of_kind :: "followup_kind \<Rightarrow> followup_field" where
  "field_of_kind RemainingWork = FromRemainingWork"
| "field_of_kind Uncertainties = FromUncertainties"

definition same_claim :: "followup_kind \<Rightarrow> string \<Rightarrow> advisory_followup \<Rightarrow> bool" where
  "same_claim k t i \<longleftrightarrow> af_kind i = k \<and> af_text i = t"

definition open_followup :: "string \<Rightarrow> followup_kind \<Rightarrow> string \<Rightarrow> int \<Rightarrow> followup_field \<Rightarrow> nat \<Rightarrow> string option \<Rightarrow> advisory_followup" where
  "open_followup i k t version field index parent = \<lparr>af_item_id = i, af_kind = k, af_text = t,
     af_source_version = version, af_source_field = field, af_source_index = index, af_parent_item_id = parent,
     af_last_mentioned_version = version, af_version = version, af_state = FollowupOpen, af_disposition_reason = None\<rparr>"

definition mention :: "int \<Rightarrow> advisory_followup \<Rightarrow> advisory_followup" where
  "mention version i = (if af_state i = FollowupDeferred
     then i\<lparr>af_version := version, af_last_mentioned_version := version\<rparr>
     else i\<lparr>af_version := version, af_last_mentioned_version := version, af_state := FollowupOpen, af_disposition_reason := None\<rparr>)"

text \<open>\<open>findIndex\<close> and replacement in place: only the first match is touched.\<close>

fun mention_first :: "followup_kind \<Rightarrow> string \<Rightarrow> int \<Rightarrow> advisory_followup list \<Rightarrow> advisory_followup list" where
  "mention_first k t version [] = []"
| "mention_first k t version (i # is) =
     (if same_claim k t i then mention version i # is else i # mention_first k t version is)"

definition retain_claim :: "int \<Rightarrow> followup_kind \<Rightarrow> nat \<times> string \<Rightarrow> advisory_followup list \<Rightarrow> advisory_followup list" where
  "retain_claim version k it items = (case it of (index, t) \<Rightarrow>
     if list_ex (same_claim k t) items then mention_first k t version items
     else items @ [open_followup (''followup:'' @ int_text version @ '':'' @ kind_text k @ '':'' @ nat_digits index)
                     k t version (field_of_kind k) index None])"

definition retainAdvisoryFollowupsV2 :: "advisory_followup list \<Rightarrow> advisory_proposal \<Rightarrow> int \<Rightarrow> advisory_followup list" where
  "retainAdvisoryFollowupsV2 previous p version =
     fold (retain_claim version Uncertainties) (List.enumerate 0 (ap_uncertainties p))
       (fold (retain_claim version RemainingWork) (List.enumerate 0 (ap_remaining_work p)) previous)"

fun disposition_state :: "followup_disposition_kind \<Rightarrow> followup_state" where
  "disposition_state DispositionResolved = FollowupResolved"
| "disposition_state DispositionDeferred = FollowupDeferred"
| "disposition_state DispositionSuperseded = FollowupSuperseded"

definition valid_replacement :: "advisory_followup \<Rightarrow> followup_replacement \<Rightarrow> bool" where
  "valid_replacement item r \<longleftrightarrow> nonblank (fp_text r) \<and> length (fp_text r) \<le> 1000
     \<and> \<not> (fp_kind r = af_kind item \<and> fp_text r = af_text item)"

definition add_replacement :: "int \<Rightarrow> string \<Rightarrow> nat \<times> followup_replacement \<Rightarrow> advisory_followup list \<Rightarrow> advisory_followup list" where
  "add_replacement version parent ir items = (case ir of (index, r) \<Rightarrow>
     if list_ex (same_claim (fp_kind r) (fp_text r)) items then mention_first (fp_kind r) (fp_text r) version items
     else items @ [open_followup (''followup:'' @ int_text version @ '':replacements:'' @ nat_digits index)
                     (fp_kind r) (fp_text r) version FromReplacements index (Some parent)])"

definition dispositionAdvisoryFollowupV2 ::
  "advisory_followup list \<Rightarrow> followup_disposition \<Rightarrow> int \<Rightarrow> kernel_error + advisory_followup list" where
  "dispositionAdvisoryFollowupV2 items v version =
     guard [(bounded_identity 159 (fd_command_id v) \<and> length (fd_item_id v) \<le> 100
               \<and> isSafeInteger (fd_expected_version v) \<and> 0 < fd_expected_version v
               \<and> nonblank (fd_reason v) \<and> length (fd_reason v) \<le> 1000, ''advisory_followup_disposition_invalid'')]
       (case find (\<lambda>i. af_item_id i = fd_item_id v) items of
          None \<Rightarrow> Inl ''advisory_followup_stale''
        | Some item \<Rightarrow>
            guard
              [(af_version item = fd_expected_version v, ''advisory_followup_stale''),
               (af_state item = FollowupOpen \<or> af_state item = FollowupDeferred, ''advisory_followup_closed''),
               (if fd_disposition v = DispositionSuperseded
                then (case fd_replacements v of
                    None \<Rightarrow> False
                  | Some rs \<Rightarrow> rs \<noteq> [] \<and> length rs \<le> 8 \<and> list_all (valid_replacement item) rs)
                else fd_replacements v = None, ''advisory_followup_replacements_invalid'')]
              (Inr (fold (add_replacement version (af_item_id item))
                 (List.enumerate 0 (case fd_replacements v of None \<Rightarrow> [] | Some rs \<Rightarrow> rs))
                 (map (\<lambda>i. if af_item_id i = fd_item_id v
                    then i\<lparr>af_state := disposition_state (fd_disposition v), af_disposition_reason := Some (fd_reason v),
                           af_version := version\<rparr>
                    else i) items))))"

section \<open>Nothing is forgotten\<close>

text \<open>The claims remembered, and that every later list remembers at least those, at the same places.\<close>

definition claims :: "advisory_followup list \<Rightarrow> (string \<times> followup_kind \<times> string) list" where
  "claims items = map (\<lambda>i. (af_item_id i, af_kind i, af_text i)) items"

lemma claims_mention_first [simp]: "claims (mention_first k t version items) = claims items"
  by (induction items) (auto simp: claims_def mention_def)

lemma claims_append: "claims (xs @ ys) = claims xs @ claims ys"
  by (simp add: claims_def)

lemma claims_retain: "\<exists>new. claims (retain_claim version k it items) = claims items @ new"
  by (cases it) (auto simp: retain_claim_def claims_append)

lemma claims_replacement: "\<exists>new. claims (add_replacement version parent ir items) = claims items @ new"
  by (cases ir) (auto simp: add_replacement_def claims_append)

lemma claims_fold:
  assumes "\<And>x items. \<exists>new. claims (f x items) = claims items @ new"
  shows "\<exists>new. claims (fold f xs items) = claims items @ new"
proof (induction xs arbitrary: items)
  case (Cons x xs)
  from assms [of x items] Cons.IH [of "f x items"] show ?case by auto
qed simp

lemma retain_extends: "\<exists>new. claims (retainAdvisoryFollowupsV2 previous p version) = claims previous @ new"
proof -
  let ?mid = "fold (retain_claim version RemainingWork) (List.enumerate 0 (ap_remaining_work p)) previous"
  from claims_fold [where f = "retain_claim version RemainingWork", OF claims_retain,
      of "List.enumerate 0 (ap_remaining_work p)" previous]
    claims_fold [where f = "retain_claim version Uncertainties", OF claims_retain,
      of "List.enumerate 0 (ap_uncertainties p)" ?mid]
  show ?thesis by (auto simp: retainAdvisoryFollowupsV2_def)
qed

definition close_item :: "followup_disposition \<Rightarrow> int \<Rightarrow> advisory_followup \<Rightarrow> advisory_followup" where
  "close_item v version i = (if af_item_id i = fd_item_id v
     then i\<lparr>af_state := disposition_state (fd_disposition v), af_disposition_reason := Some (fd_reason v), af_version := version\<rparr>
     else i)"

lemma dispositionAdvisoryFollowupV2_cases:
  assumes "dispositionAdvisoryFollowupV2 items v version = Inr items'"
  obtains item rs where "item \<in> set items" "af_item_id item = fd_item_id v" "af_version item = fd_expected_version v"
    "af_state item \<in> {FollowupOpen, FollowupDeferred}"
    "items' = fold (add_replacement version (af_item_id item)) rs (map (close_item v version) items)"
proof (cases "find (\<lambda>i. af_item_id i = fd_item_id v) items")
  case None
  with assms show thesis by (simp add: dispositionAdvisoryFollowupV2_def guard_simps)
next
  case (Some item)
  then have item: "item \<in> set items" "af_item_id item = fd_item_id v" by (auto simp: find_Some_iff)
  from assms Some have "af_version item = fd_expected_version v" "af_state item \<in> {FollowupOpen, FollowupDeferred}"
    and "items' = fold (add_replacement version (af_item_id item))
       (List.enumerate 0 (case fd_replacements v of None \<Rightarrow> [] | Some rs \<Rightarrow> rs)) (map (close_item v version) items)"
    unfolding dispositionAdvisoryFollowupV2_def close_item_def by (simp_all add: guard_simps)
  with item that show thesis by blast
qed

lemma disposition_extends:
  assumes "dispositionAdvisoryFollowupV2 items v version = Inr items'"
  shows "\<exists>new. claims items' = claims items @ new"
proof (rule dispositionAdvisoryFollowupV2_cases [OF assms])
  fix item rs
  assume items': "items' = fold (add_replacement version (af_item_id item)) rs (map (close_item v version) items)"
  have "claims (map (close_item v version) items) = claims items" by (simp add: claims_def close_item_def)
  then show ?thesis
    using claims_fold [where f = "add_replacement version (af_item_id item)", OF claims_replacement,
        of rs "map (close_item v version) items"]
    by (simp add: items')
qed

end
