(* ===== verification/WorkPlanScope.thy ===== *)
theory WorkPlanScope
  imports JsonRecords
begin

text \<open>
  \<open>work_plan_scope.ts\<close> and \<open>work_plan_family_scope.ts\<close>: which selector a work-plan scope request may
  carry. The selectors are untyped JSON, so they are checked here field by field.
\<close>

text \<open>\<open>Array.isArray(x) && x.length>0 && x.length<=n && new Set(x).size===x.length && x.every(P)\<close>\<close>

fun js_choice_list :: "nat \<Rightarrow> (json \<Rightarrow> bool) \<Rightarrow> json \<Rightarrow> bool" where
  "js_choice_list n P (JArr xs) = (xs \<noteq> [] \<and> length xs \<le> n \<and> distinct xs \<and> list_all P xs)"
| "js_choice_list n P _ = False"

definition MODEL_VIEW_TYPES_V1 :: "string list" where
  "MODEL_VIEW_TYPES_V1 = [''FloorPlan'', ''CeilingPlan'', ''EngineeringPlan'', ''Section'', ''Elevation'', ''ThreeD'']"

definition VIEW_DISCIPLINES_V1 :: "string list" where
  "VIEW_DISCIPLINES_V1 = [''Architectural'', ''Structural'', ''Mechanical'', ''Electrical'', ''Plumbing'', ''Coordination'']"

definition choices :: "string list \<Rightarrow> json \<Rightarrow> bool" where
  "choices allowed = js_choice_list (length allowed) (js_string (\<lambda>t. t \<in> set allowed))"

definition is_word :: "char \<Rightarrow> bool" where
  "is_word c \<longleftrightarrow> is_alnum c \<or> c = CHR ''_''"

text \<open>A trimmed category name; one that starts with \<open>OST_\<close> in any case must be a built-in category.\<close>

definition scope_category :: "string \<Rightarrow> bool" where
  "scope_category c \<longleftrightarrow> js_trim c = c \<and> c \<noteq> [] \<and> length c \<le> 256 \<and> \<not> list_ex is_control_or_del c
     \<and> (\<not> starts_with ''ost_'' (toLowerCase c)
        \<or> starts_with ''OST_'' c \<and> drop 4 c \<noteq> [] \<and> list_all is_word (drop 4 c))"

definition graphics_scope :: "json_object \<Rightarrow> bool" where
  "graphics_scope v \<longleftrightarrow>
     only_fields [''kind'', ''category'', ''disciplines'', ''view_types'', ''halftone'', ''hidden_policy''] v
     \<and> jfield_is v ''kind'' (js_string (\<lambda>t. t = ''category_graphics_v1''))
     \<and> jfield_is v ''category'' (js_string scope_category)
     \<and> jfield_is v ''disciplines'' (choices VIEW_DISCIPLINES_V1)
     \<and> jfield_is v ''view_types'' (choices MODEL_VIEW_TYPES_V1)
     \<and> jfield_is v ''halftone'' js_bool
     \<and> jfield_is v ''hidden_policy'' (js_string (\<lambda>t. t = ''exclude_hidden''))"

fun validCategoryGraphicsScopeV1 :: "json \<Rightarrow> bool" where
  "validCategoryGraphicsScopeV1 (JObj v) = graphics_scope v"
| "validCategoryGraphicsScopeV1 _ = False"

text \<open>\<open>{...domain, kind, halftone, hidden_policy}\<close>: the visibility selector read as a graphics one.\<close>

definition as_graphics :: "json_object \<Rightarrow> json_object" where
  "as_graphics v = AList.update ''hidden_policy'' (JStr ''exclude_hidden'')
     (AList.update ''halftone'' (JBool False) (AList.update ''kind'' (JStr ''category_graphics_v1'')
       (filter (\<lambda>kv. fst kv \<notin> {''kind'', ''hidden'', ''sheet_ids''}) v)))"

fun validCategoryVisibilityScopeV1 :: "json \<Rightarrow> bool" where
  "validCategoryVisibilityScopeV1 (JObj v) =
     (only_fields [''kind'', ''category'', ''disciplines'', ''view_types'', ''hidden'', ''sheet_ids''] v
      \<and> jfield_is v ''kind'' (js_string (\<lambda>t. t = ''category_visibility_v1''))
      \<and> jfield_is v ''hidden'' js_bool
      \<and> validCategoryGraphicsScopeV1 (JObj (as_graphics v))
      \<and> jfield_absent_or v ''sheet_ids'' (js_choice_list 32 positive_safe_integer))"
| "validCategoryVisibilityScopeV1 _ = False"

text \<open>\<open>/[\u0000-\u0008\u000b\u000c\u000e-\u001f\u007f]/\<close>\<close>

definition is_forbidden_text :: "char \<Rightarrow> bool" where
  "is_forbidden_text c \<longleftrightarrow> char_code c \<le> 8 \<or> char_code c = 11 \<or> char_code c = 12
     \<or> 14 \<le> char_code c \<and> char_code c \<le> 31 \<or> char_code c = 127"

definition family_text :: "string \<Rightarrow> bool" where
  "family_text t \<longleftrightarrow> js_trim t = t \<and> t \<noteq> [] \<and> length t \<le> 2048 \<and> \<not> list_ex is_forbidden_text t"

fun validFamilyStaticTextScopeV1 :: "json \<Rightarrow> bool" where
  "validFamilyStaticTextScopeV1 (JObj v) =
     (only_fields [''kind'', ''category'', ''expected_text''] v
      \<and> jfield_is v ''kind'' (js_string (\<lambda>t. t = ''family_static_text_v1''))
      \<and> jfield_is v ''category'' (js_string scope_category)
      \<and> jfield_is v ''expected_text'' (js_string family_text))"
| "validFamilyStaticTextScopeV1 _ = False"

definition tag_category :: "string \<Rightarrow> bool" where
  "tag_category c \<longleftrightarrow> length c \<le> 100 \<and> starts_with ''OST_'' c \<and> 9 \<le> length c
     \<and> drop (length c - 4) c = ''Tags'' \<and> list_all is_alnum (drop 4 c)"

definition family_names :: "json \<Rightarrow> bool" where
  "family_names = js_choice_list 32 (js_string (\<lambda>n. js_trim n = n \<and> n \<noteq> [] \<and> length n \<le> 240))"

fun validTagScopeRequestV1 :: "json \<Rightarrow> bool" where
  "validTagScopeRequestV1 (JObj v) =
     (only_fields [''category'', ''view_ids'', ''family_names'', ''subject_family_names'', ''has_leader''] v
      \<and> jfield_is v ''category'' (js_string tag_category)
      \<and> jfield_is v ''has_leader'' js_bool
      \<and> jfield_is v ''view_ids'' (js_choice_list 128 positive_safe_integer)
      \<and> jfield_absent_or v ''family_names'' family_names
      \<and> jfield_absent_or v ''subject_family_names'' family_names)"
| "validTagScopeRequestV1 _ = False"

definition validWorkPlanScopeV1 :: "json \<Rightarrow> bool" where
  "validWorkPlanScopeV1 v \<longleftrightarrow> validTagScopeRequestV1 v \<or> validCategoryGraphicsScopeV1 v
     \<or> validCategoryVisibilityScopeV1 v \<or> validFamilyStaticTextScopeV1 v"

section \<open>The four selectors do not overlap\<close>

definition scope_kind :: "json \<Rightarrow> json option" where
  "scope_kind v = (case v of JObj kvs \<Rightarrow> map_of kvs ''kind'' | _ \<Rightarrow> None)"

lemma only_fieldsD: "only_fields ks v \<Longrightarrow> map_of v k = Some x \<Longrightarrow> k \<in> set ks"
  by (force simp: only_fields_def list_all_iff dest: map_of_SomeD)

lemma js_string_eq: "js_string (\<lambda>t. t = u) x \<longleftrightarrow> x = JStr u"
  by (cases x) auto

lemma jfield_is_eq: "jfield_is v k (js_string (\<lambda>t. t = u)) \<longleftrightarrow> map_of v k = Some (JStr u)"
  by (auto simp: jfield_is_def js_string_eq split: option.split)

lemma scope_kinds:
  "validTagScopeRequestV1 v \<Longrightarrow> scope_kind v = None"
  "validCategoryGraphicsScopeV1 v \<Longrightarrow> scope_kind v = Some (JStr ''category_graphics_v1'')"
  "validCategoryVisibilityScopeV1 v \<Longrightarrow> scope_kind v = Some (JStr ''category_visibility_v1'')"
  "validFamilyStaticTextScopeV1 v \<Longrightarrow> scope_kind v = Some (JStr ''family_static_text_v1'')"
proof -
  assume "validTagScopeRequestV1 v"
  then show "scope_kind v = None"
    by (cases v; cases "scope_kind v") (auto simp: scope_kind_def dest!: only_fieldsD [where k = "''kind''"] split: option.split)
qed (cases v; simp add: scope_kind_def graphics_scope_def jfield_is_eq)+

end
