(* ===== verification/WorkPlanLocation.thy ===== *)
theory WorkPlanLocation
  imports WorkPlan ContractChecks
begin

text \<open>
  \<open>work_plan_location.ts\<close>: the interpreted location of a work-plan item and the drafting progress recorded
  with it. A location is a hint for resuming work; it is never target authority or proof. The hint is
  untyped JSON and is checked field by field. Byte lengths are lengths, as texts are ASCII.
\<close>

section \<open>Checks on a hint\<close>

definition location_text :: "nat \<Rightarrow> json \<Rightarrow> bool" where
  "location_text n = js_string (\<lambda>t. js_trim t \<noteq> [] \<and> length t \<le> n \<and> \<not> list_ex is_control_or_del t)"

definition one_of :: "string list \<Rightarrow> json \<Rightarrow> bool" where
  "one_of ts = js_string (\<lambda>t. t \<in> set ts)"

fun js_object :: "string list \<Rightarrow> json \<Rightarrow> bool" where
  "js_object ks (JObj kvs) = only_fields ks kvs"
| "js_object ks _ = False"

definition has_drafting :: "json_object \<Rightarrow> bool" where
  "has_drafting h \<longleftrightarrow> jfield_is h ''drafting'' js_truthy"

definition hint_shape_ok :: "kernel_env \<Rightarrow> json \<Rightarrow> bool" where
  "hint_shape_ok env hint \<longleftrightarrow> js_object [''status'', ''reason'', ''source'', ''native'', ''drafting''] hint
     \<and> jfield_is (jrow hint) ''status'' (one_of [''unresolved'', ''ambiguous'', ''candidate''])
     \<and> jfield_is (jrow hint) ''reason'' (location_text 240)
     \<and> length (json_text (number_text env) hint) \<le> (if has_drafting (jrow hint) then 3000 else 1200)"

definition source_pages_ok :: "json_object \<Rightarrow> bool" where
  "source_pages_ok s = (case (field_int s ''page'', field_int s ''page_count'') of
      (Some p, Some n) \<Rightarrow> 1 \<le> p \<and> p \<le> n \<and> n \<le> 100000 | _ \<Rightarrow> False)"

definition source_ok :: "json \<Rightarrow> bool" where
  "source_ok v \<longleftrightarrow> js_object [''attachment_id'', ''filename'', ''sha256'', ''page'', ''page_count'', ''sheet_label'',
       ''view_label'', ''region''] v
     \<and> jfield_is (jrow v) ''attachment_id'' (location_text 160) \<and> jfield_is (jrow v) ''filename'' (location_text 160)
     \<and> jfield_is (jrow v) ''sha256'' (js_string (lower_hex 64)) \<and> source_pages_ok (jrow v)
     \<and> jfield_absent_or (jrow v) ''sheet_label'' (location_text 120)
     \<and> jfield_absent_or (jrow v) ''view_label'' (location_text 120)"

fun unit_number :: "json \<Rightarrow> rat option" where
  "unit_number (JNum q) = (if 0 \<le> q \<and> q \<le> 1 then Some q else None)"
| "unit_number _ = None"

definition region_ok :: "json \<Rightarrow> bool" where
  "region_ok v \<longleftrightarrow> js_object [''min_u'', ''min_v'', ''max_u'', ''max_v''] v
     \<and> (let c = (\<lambda>k. Option.bind (map_of (jrow v) k) unit_number) in
        (case (c ''min_u'', c ''min_v'', c ''max_u'', c ''max_v'') of
           (Some a, Some b, Some x, Some y) \<Rightarrow> a < x \<and> b < y | _ \<Rightarrow> False))"

definition native_ok :: "snapshot \<Rightarrow> json \<Rightarrow> bool" where
  "native_ok s v \<longleftrightarrow> js_object [''document_fingerprint'', ''view_id'', ''view_name'', ''sheet_number''] v
     \<and> jfield_is (jrow v) ''document_fingerprint'' (location_text 240)
     \<and> map_of (jrow v) ''document_fingerprint'' = map_option JStr (b_document_fingerprint (sn_current_binding s))
     \<and> positive_field (jrow v) ''view_id'' \<noteq> None \<and> jfield_is (jrow v) ''view_name'' (location_text 120)
     \<and> jfield_absent_or (jrow v) ''sheet_number'' (location_text 40)"

definition digest_or_absent :: "json_object \<Rightarrow> string \<Rightarrow> bool" where
  "digest_or_absent d k = jfield_absent_or d k (js_string (lower_hex 64))"

definition drafting_ok :: "json_object \<Rightarrow> bool" where
  "drafting_ok h \<longleftrightarrow>
     (let d = sub_row h ''drafting'' in
      jfield_is h ''drafting'' (js_object [''pass'', ''stage'', ''element_ids'', ''read_operation_ids'', ''source_image_sha256'',
        ''model_image_sha256'', ''next_action'', ''remaining'', ''boundary_context''])
      \<and> jfield_is d ''pass'' (one_of [''geometry'', ''sizes_properties'', ''connections'', ''elevation'', ''annotations'', ''coverage''])
      \<and> jfield_is d ''stage'' (one_of [''attempted'', ''drafted'', ''checked'', ''blocked''])
      \<and> map_of (sub_row h ''source'') ''region'' \<noteq> None \<and> map_of h ''native'' \<noteq> None
      \<and> jfield_is d ''element_ids'' (js_array (\<lambda>xs. length xs \<le> 64 \<and> distinct xs \<and> list_all positive_safe_integer xs))
      \<and> jfield_is d ''read_operation_ids'' (js_array (\<lambda>xs. length xs \<le> 8 \<and> distinct xs \<and> list_all (location_text 240) xs))
      \<and> jfield_is d ''next_action'' (location_text 240) \<and> jfield_is d ''remaining'' (location_text 400)
      \<and> jfield_absent_or d ''boundary_context'' (location_text 400)
      \<and> digest_or_absent d ''source_image_sha256'' \<and> digest_or_absent d ''model_image_sha256'')"

definition json_strings :: "json option \<Rightarrow> string list" where
  "json_strings v = (case v of
      Some (JArr xs) \<Rightarrow> List.map_filter (\<lambda>x. case x of JStr t \<Rightarrow> Some t | _ \<Rightarrow> None) xs | _ \<Rightarrow> [])"

definition check_images_ok :: "json_object \<Rightarrow> bool" where
  "check_images_ok d \<longleftrightarrow> map_of d ''source_image_sha256'' \<noteq> None \<and> map_of d ''model_image_sha256'' \<noteq> None
     \<and> json_strings (map_of d ''read_operation_ids'') \<noteq> []
     \<and> map_of d ''source_image_sha256'' \<noteq> map_of d ''model_image_sha256''"

text \<open>\<open>Date.parse(o.result?.completed_at ?? o.opened_at)\<close>\<close>

definition finished_or_opened :: "operation \<Rightarrow> int option" where
  "finished_or_opened p = date_parse (case op_result p of None \<Rightarrow> op_opened_at p | Some r \<Rightarrow> r_completed_at r)"

definition may_have_edited :: "operation \<Rightarrow> bool" where
  "may_have_edited p \<longleftrightarrow> op_requested_effect p = ApplyEffect \<and> op_persistent_effect p \<noteq> NoEffect"

definition last_possible_edit :: "snapshot \<Rightarrow> int option" where
  "last_possible_edit s = max_time (Some 0) (map finished_or_opened (filter may_have_edited (rvals (sn_operations s))))"

definition check_read_ok :: "snapshot \<Rightarrow> string \<Rightarrow> string \<Rightarrow> bool" where
  "check_read_ok s now i = (case rget (sn_operations s) i of
      None \<Rightarrow> False
    | Some p \<Rightarrow> op_requested_effect p = ReadEffect \<and> op_persistent_effect p = NoEffect \<and> op_settlement_state p = Settled
        \<and> result_is p (\<lambda>r. r_authority r = ''native-host'' \<and> r_status r = Succeeded \<and> r_binding r = sn_current_binding s
             \<and> time_le (date_parse (r_completed_at r)) (date_parse now))
        \<and> op_binding p = sn_current_binding s \<and> i \<notin> set (sn_input_invalidated_operation_ids s)
        \<and> time_less (last_possible_edit s) (date_parse (op_opened_at p)))"

definition drafting_checks :: "snapshot \<Rightarrow> json_object \<Rightarrow> string \<Rightarrow> (bool \<times> kernel_error) list" where
  "drafting_checks s h now =
     (if \<not> has_drafting h then []
      else [(drafting_ok h, ''drafting_progress_invalid'')]
        @ (if jtext (sub_row h ''drafting'') ''stage'' ''checked''
           then [(check_images_ok (sub_row h ''drafting''), ''drafting_check_evidence_required''),
                 (sn_unresolved_unknown_operation_ids s = [] \<and> sn_in_flight_operation_ids s = []
                    \<and> list_all (check_read_ok s now) (json_strings (map_of (sub_row h ''drafting'') ''read_operation_ids'')),
                    ''drafting_check_readback_required'')]
           else []))"

section \<open>Recording\<close>

definition item_locations :: "plan_item \<Rightarrow> json list" where
  "item_locations p = (case pi_location_history p of None \<Rightarrow> [] | Some ls \<Rightarrow> ls)"

definition location_record :: "json_object \<Rightarrow> string \<Rightarrow> binding \<Rightarrow> json" where
  "location_record h now b = JObj (AList.update ''verified'' (JBool False)
     (AList.update ''binding'' (binding_json b) (AList.update ''recorded_at'' (JStr now) h)))"

definition recordWorkPlanLocationV2 ::
  "kernel_env \<Rightarrow> snapshot \<Rightarrow> string \<Rightarrow> json \<Rightarrow> string \<Rightarrow> kernel_error + work_plan" where
  "recordWorkPlanLocationV2 env s i hint now =
     (let h = jrow hint in
      (case sn_work_plan s of
         None \<Rightarrow> Inl ''work_plan_location_invalid''
       | Some plan \<Rightarrow> (case plan_item_of (wp_items plan) i of
           None \<Rightarrow> Inl ''work_plan_location_invalid''
         | Some item \<Rightarrow> guard
             ([(hint_shape_ok env hint, ''work_plan_location_invalid''),
               (jfield_absent_or h ''source'' source_ok, ''work_plan_source_location_invalid''),
               (jfield_absent_or (sub_row h ''source'') ''region'' region_ok, ''work_plan_crop_location_invalid''),
               (jfield_absent_or h ''native'' (native_ok s), ''work_plan_native_location_invalid''),
               (jtext h ''status'' ''candidate'' \<longrightarrow> map_of h ''source'' \<noteq> None \<or> map_of h ''native'' \<noteq> None,
                  ''work_plan_location_empty'')]
              @ drafting_checks s h now
              @ [(length (item_locations item) < (if has_drafting h then 128 else 16), ''work_plan_location_history_limit'')])
             (Inr (plan\<lparr>wp_items := replace_item i (\<lambda>p. p\<lparr>pi_location_history :=
                Some (item_locations item @ [location_record h now (sn_current_binding s)])\<rparr>) (wp_items plan)\<rparr>)))))"

section \<open>Passes that need another check\<close>

record drafting_pass =
  dp_pass :: string
  dp_stage :: string
  dp_needs_recheck :: bool
  dp_recorded_at :: string

text \<open>The latest record of every drafting pass, in the order the passes were first recorded.\<close>

definition latest_passes :: "json list \<Rightarrow> json krecord" where
  "latest_passes history = fold (\<lambda>v m. case map_of (sub_row (jrow v) ''drafting'') ''pass'' of
      Some (JStr t) \<Rightarrow> rput t v m | _ \<Rightarrow> m) history []"

definition record_elements :: "json_object \<Rightarrow> string list" where
  "record_elements v = map (\<lambda>n. ''element_id:'' @ int_text n)
       (case map_of (sub_row v ''drafting'') ''element_ids'' of Some (JArr xs) \<Rightarrow> List.map_filter json_int xs | _ \<Rightarrow> [])
     @ [''element_id:'' @ (case field_int (sub_row v ''native'') ''view_id'' of None \<Rightarrow> ''undefined'' | Some n \<Rightarrow> int_text n)]"

text \<open>A later write that named one of the record's elements, named nothing, or named something that is no element.\<close>

definition changed_since :: "json_object \<Rightarrow> operation \<Rightarrow> bool" where
  "changed_since v p \<longleftrightarrow> may_have_edited p
     \<and> \<not> time_le (finished_or_opened p) (date_parse (text_of v ''recorded_at''))
     \<and> (case Option.bind (op_result p) r_affected_target_identities of
          None \<Rightarrow> True
        | Some ts \<Rightarrow> ts = [] \<or> list_ex (\<lambda>t. t \<in> set (record_elements v)
            \<or> \<not> starts_with ''element_id:'' t \<and> \<not> starts_with ''artifact_path:'' t) ts)"

definition needs_recheck :: "snapshot option \<Rightarrow> json_object \<Rightarrow> json_object \<Rightarrow> bool" where
  "needs_recheck so current v \<longleftrightarrow> jtext (sub_row v ''drafting'') ''stage'' ''checked''
     \<and> (map_of v ''source'' \<noteq> map_of current ''source''
        \<or> map_of (sub_row v ''native'') ''view_id'' \<noteq> map_of (sub_row current ''native'') ''view_id''
        \<or> (case so of
             None \<Rightarrow> True
           | Some s \<Rightarrow> map_of v ''binding'' \<noteq> Some (binding_json (sn_current_binding s))
               \<or> sn_unresolved_unknown_operation_ids s \<noteq> [] \<or> list_ex (changed_since v) (rvals (sn_operations s))))"

definition projectDraftingPasses :: "plan_item \<Rightarrow> snapshot option \<Rightarrow> drafting_pass list" where
  "projectDraftingPasses item so =
     (let history = item_locations item; current = (if history = [] then [] else jrow (last history)) in
      map (\<lambda>v. \<lparr>dp_pass = text_of (sub_row (jrow v) ''drafting'') ''pass'',
             dp_stage = text_of (sub_row (jrow v) ''drafting'') ''stage'',
             dp_needs_recheck = needs_recheck so current (jrow v), dp_recorded_at = text_of (jrow v) ''recorded_at''\<rparr>)
        (rvals (latest_passes history)))"

section \<open>Projections of the last location\<close>

text \<open>The full view carries the record itself, the compact one of a drafting record only its tracking fields.\<close>

record location_view =
  lv_current :: json
  lv_binding_current :: "bool option"
  lv_drafting_passes :: "drafting_pass list"
  lv_history_count :: nat

record compact_location =
  cl_status :: string
  cl_recorded_at :: string
  cl_source :: "json option"
  cl_view :: "json option \<times> json option"
  cl_binding_current :: "bool option"
  cl_pass :: string
  cl_stage :: string
  cl_element_ids :: "json list"
  cl_element_count :: nat
  cl_next_action :: string
  cl_remaining :: string
  cl_drafting_passes :: "drafting_pass list"
  cl_history_count :: nat

definition binding_is_current :: "snapshot option \<Rightarrow> json_object \<Rightarrow> bool option" where
  "binding_is_current so v = map_option (\<lambda>s. map_of v ''binding'' = Some (binding_json (sn_current_binding s))) so"

definition projectWorkPlanLocationV2 :: "plan_item \<Rightarrow> snapshot option \<Rightarrow> location_view option" where
  "projectWorkPlanLocationV2 item so = (case rev (item_locations item) of
      [] \<Rightarrow> None
    | current # _ \<Rightarrow> Some \<lparr>lv_current = current, lv_binding_current = binding_is_current so (jrow current),
        lv_drafting_passes = projectDraftingPasses item so, lv_history_count = length (item_locations item)\<rparr>)"

definition array_of :: "json option \<Rightarrow> json list" where
  "array_of v = (case v of Some (JArr xs) \<Rightarrow> xs | _ \<Rightarrow> [])"

definition projectCompactWorkPlanLocationV2 ::
  "plan_item \<Rightarrow> snapshot option \<Rightarrow> (location_view + compact_location) option" where
  "projectCompactWorkPlanLocationV2 item so = (case rev (item_locations item) of
      current # _ \<Rightarrow>
        if has_drafting (jrow current)
        then (let v = jrow current; d = sub_row v ''drafting''; n = sub_row v ''native'';
                  elements = array_of (map_of d ''element_ids'') in
          Some (Inr \<lparr>cl_status = text_of v ''status'', cl_recorded_at = text_of v ''recorded_at'',
            cl_source = map_of v ''source'', cl_view = (map_of n ''view_id'', map_of n ''view_name''),
            cl_binding_current = binding_is_current so v, cl_pass = text_of d ''pass'', cl_stage = text_of d ''stage'',
            cl_element_ids = take 16 elements, cl_element_count = length elements,
            cl_next_action = text_of d ''next_action'', cl_remaining = text_of d ''remaining'',
            cl_drafting_passes = projectDraftingPasses item so, cl_history_count = length (item_locations item)\<rparr>))
        else map_option Inl (projectWorkPlanLocationV2 item so)
    | [] \<Rightarrow> None)"

section \<open>Lemmas\<close>

text \<open>Recording a location changes no item's scope, credit or completion, and never claims verification.\<close>

lemma location_keeps_plan:
  assumes "recordWorkPlanLocationV2 env s i hint now = Inr plan'" "sn_work_plan s = Some plan"
  shows "same_scope (wp_items plan') (wp_items plan) \<and> wp_assumptions plan' = wp_assumptions plan
    \<and> map pi_operation_ids (wp_items plan') = map pi_operation_ids (wp_items plan)
    \<and> map pi_completed_at (wp_items plan') = map pi_completed_at (wp_items plan)"
  using assms
  by (auto simp: recordWorkPlanLocationV2_def Let_def guard_def same_scope_def item_scope_def replace_item_def
      split: option.splits)

lemma location_bounds:
  assumes "recordWorkPlanLocationV2 env s i hint now = Inr plan'" "sn_work_plan s = Some plan"
    "plan_item_of (wp_items plan) i = Some item"
  shows "length (item_locations item) < 128"
  using assms
  by (auto simp: recordWorkPlanLocationV2_def Let_def guard_def first_failure_append split: option.splits if_splits)

end
