(* ===== verification/ResultDelivery.thy ===== *)
theory ResultDelivery
  imports Outcome
begin

text \<open>
  \<open>result_delivery.ts\<close>: which retained observations a result may present, the checks on a delivery and
  on the assessment that cites it, and the text it is rendered to. Presentation never changes the truth
  of a criterion.
\<close>

section \<open>Eligible observations\<close>

datatype eligibility = EligibleResult | EligibleDiagnostic | Ineligible

definition delivered_operation :: "snapshot \<Rightarrow> operation \<Rightarrow> operation option" where
  "delivered_operation s p = (if op_requested_effect p = ApplyEffect then Some p
     else truthy_lookup (sn_operations s) (op_verification_of p))"

definition verified_artifact :: "snapshot \<Rightarrow> operation \<Rightarrow> bool" where
  "verified_artifact s p = (case delivered_operation s p of
      None \<Rightarrow> False
    | Some applied \<Rightarrow> sp_requested_effect (sn_spec s) = ApplyEffect \<and> sp_result_delivery_required (sn_spec s)
        \<and> operationHasAppliedNativeArtifactV2 applied \<and> appliedOperationHasVerifiedPostconditionV2 s (op_id applied))"

definition artifact_result :: "snapshot \<Rightarrow> operation \<Rightarrow> observation \<Rightarrow> bool" where
  "artifact_result s p ob \<longleftrightarrow> verified_artifact s p \<and> obs_authority ob = ''native-host''
     \<and> (op_requested_effect p = ApplyEffect \<and> obs_evidence_class ob = Some TaskResultEvidence
        \<or> op_requested_effect p = ReadEffect \<and> op_purpose p = Verification
          \<and> obs_evidence_class ob = Some VerificationEvidence)"

definition presentable :: "snapshot \<Rightarrow> operation \<Rightarrow> observation \<Rightarrow> bool" where
  "presentable s p ob \<longleftrightarrow> obs_binding ob = sn_current_binding s
     \<and> obs_authority ob \<in> {''native-host'', ''dynamic-runtime''} \<and> op_settlement_state p = Settled
     \<and> operationUsesCurrentInputsV2 s p
     \<and> (case delivered_operation s p of None \<Rightarrow> True | Some applied \<Rightarrow> operationUsesCurrentInputsV2 s applied)
     \<and> (artifact_result s p ob
        \<or> op_requested_effect p = ReadEffect \<and> obs_evidence_class ob = Some TaskResultEvidence)"

definition resultObservationEligibilityV2 :: "snapshot \<Rightarrow> string \<Rightarrow> eligibility" where
  "resultObservationEligibilityV2 s i = (case rget (sn_observations s) i of
      None \<Rightarrow> Ineligible
    | Some ob \<Rightarrow> (case rget (sn_operations s) (obs_operation_id ob) of
        None \<Rightarrow> Ineligible
      | Some p \<Rightarrow>
          if \<not> presentable s p ob then Ineligible
          else if result_is p (\<lambda>r. r_status r = Succeeded) then EligibleResult
          else if obs_authority ob = ''dynamic-runtime''
            \<and> result_is p (\<lambda>r. r_status r = FailedAfterDispatch \<and> r_persistent_effect r = NoEffect)
            then EligibleDiagnostic
          else Ineligible))"

section \<open>Assessments\<close>

definition boundedText :: "string \<Rightarrow> nat \<Rightarrow> bool" where
  "boundedText t n \<longleftrightarrow> js_trim t \<noteq> [] \<and> length t \<le> n"

definition finding_ok :: "nat \<Rightarrow> assessment_finding \<Rightarrow> bool" where
  "finding_ok n f \<longleftrightarrow> fi_priority f \<in> {''high'', ''medium'', ''low''} \<and> boundedText (fi_title f) 160 \<and> boundedText (fi_text f) 1200
     \<and> fi_evidence_indices f \<noteq> [] \<and> length (fi_evidence_indices f) \<le> 8 \<and> distinct (fi_evidence_indices f)
     \<and> list_all (\<lambda>i. isSafeInteger i \<and> 1 \<le> i \<and> i \<le> int n) (fi_evidence_indices f)"

fun json_scalar :: "json \<Rightarrow> bool" where
  "json_scalar (JArr xs) = False"
| "json_scalar (JObj kvs) = False"
| "json_scalar _ = True"

definition concise_value :: "kernel_env \<Rightarrow> json option \<Rightarrow> bool" where
  "concise_value env v = (case v of
      None \<Rightarrow> False
    | Some x \<Rightarrow> length (json_text (number_text env) x) \<le> 800
        \<and> (json_scalar x \<or> js_array (\<lambda>xs. length xs \<le> 12 \<and> list_all json_scalar xs) x))"

definition validateAssignmentAssessmentV2 ::
  "kernel_env \<Rightarrow> assessment \<Rightarrow> result_item list \<Rightarrow> (bool \<times> kernel_error) list" where
  "validateAssignmentAssessmentV2 env a items =
     [(boundedText (as_overview a) 1200 \<and> as_findings a \<noteq> [] \<and> length (as_findings a) \<le> 12
         \<and> length (as_limitations a) \<le> 8 \<and> list_all (\<lambda>t. boundedText t 800) (as_limitations a)
         \<and> length (as_questions a) \<le> 3 \<and> list_all (\<lambda>t. boundedText t 600) (as_questions a), ''assignment_assessment_invalid''),
      (list_all (finding_ok (length items)) (as_findings a), ''assignment_assessment_finding_invalid''),
      (list_all (\<lambda>i. concise_value env (it_value i)) items, ''assignment_assessment_select_concise_values'')]"

section \<open>Deliveries\<close>

definition first_path :: "result_item \<Rightarrow> string list \<Rightarrow> bool" where
  "first_path i names = (case it_path i of JStr t # ks \<Rightarrow> t \<in> set names | _ \<Rightarrow> False)"

definition diagnostic_item :: "snapshot \<Rightarrow> result_item \<Rightarrow> bool" where
  "diagnostic_item s i \<longleftrightarrow> it_presentation_kind i = Some ''diagnostic''
     \<and> resultObservationEligibilityV2 s (it_observation_id i) = EligibleDiagnostic
     \<and> it_value_source i \<noteq> Some ''deterministic_projection''
     \<and> first_path i [''execution_status'', ''diagnostics'', ''logs'']"

definition item_shape_ok :: "snapshot \<Rightarrow> result_item \<Rightarrow> bool" where
  "item_shape_ok s i \<longleftrightarrow> it_value_source i \<in> {None, Some ''raw_payload'', Some ''deterministic_projection''}
     \<and> (it_value_source i = Some ''deterministic_projection'' \<longrightarrow> length (it_path i) = 2
          \<and> first_path i [''key_counts'', ''key_facts''] \<and> (case it_value i of None \<Rightarrow> False | Some v \<Rightarrow> json_scalar v))
     \<and> (it_presentation_kind i = Some ''diagnostic'' \<longrightarrow> diagnostic_item s i)
     \<and> it_presentation_kind i \<in> {None, Some ''result'', Some ''diagnostic''}
     \<and> js_trim (it_label i) \<noteq> [] \<and> length (it_label i) \<le> 160 \<and> it_value i \<noteq> None
     \<and> it_path i \<noteq> [] \<and> length (it_path i) \<le> 24"

definition item_evidence_ok :: "snapshot \<Rightarrow> result_item \<Rightarrow> bool" where
  "item_evidence_ok s i = (case rget (sn_observations s) (it_observation_id i) of
      None \<Rightarrow> False
    | Some ob \<Rightarrow> (diagnostic_item s i \<or> resultObservationEligibilityV2 s (it_observation_id i) = EligibleResult)
        \<and> it_evidence_ref i = obs_raw_payload_ref ob \<and> it_payload_hash i = obs_raw_payload_hash ob)"

definition item_json :: "result_item \<Rightarrow> json" where
  "item_json i = JObj ([(''label'', JStr (it_label i)), (''observation_id'', JStr (it_observation_id i)), (''path'', JArr (it_path i))]
     @ (case it_value i of None \<Rightarrow> [] | Some v \<Rightarrow> [(''value'', v)])
     @ (case it_value_source i of None \<Rightarrow> [] | Some v \<Rightarrow> [(''value_source'', JStr v)])
     @ [(''evidence_ref'', JStr (it_evidence_ref i)), (''payload_hash'', JStr (it_payload_hash i))]
     @ (case it_presentation_kind i of None \<Rightarrow> [] | Some v \<Rightarrow> [(''presentation_kind'', JStr v)]))"

definition finding_json :: "assessment_finding \<Rightarrow> json" where
  "finding_json f = JObj [(''priority'', JStr (fi_priority f)), (''title'', JStr (fi_title f)), (''text'', JStr (fi_text f)),
     (''evidence_indices'', JArr (map (\<lambda>n. JNum (of_int n)) (fi_evidence_indices f)))]"

definition assessment_json :: "assessment \<Rightarrow> json" where
  "assessment_json a = JObj [(''overview'', JStr (as_overview a)), (''findings'', JArr (map finding_json (as_findings a))),
     (''limitations'', JArr (map JStr (as_limitations a))), (''questions'', JArr (map JStr (as_questions a)))]"

definition delivery_json :: "result_delivery \<Rightarrow> json" where
  "delivery_json d = JObj ([(''items'', JArr (map item_json (rd_items d)))]
     @ (case rd_assessment d of None \<Rightarrow> [] | Some a \<Rightarrow> [(''assessment'', assessment_json a)]))"

definition validateResultDeliveryV2 :: "kernel_env \<Rightarrow> snapshot \<Rightarrow> result_delivery \<Rightarrow> kernel_error option" where
  "validateResultDeliveryV2 env s d = first_failure
     ([(sp_result_delivery_required (sn_spec s) \<and> sp_requested_effect (sn_spec s) \<noteq> PreviewEffect,
          ''assignment_result_delivery_not_required''),
       (rd_items d \<noteq> [] \<and> length (rd_items d) \<le> 32 \<and> length (json_text (number_text env) (delivery_json d)) \<le> 32000,
          ''assignment_result_delivery_invalid'')]
      @ concat (map (\<lambda>i. [(item_shape_ok s i, ''assignment_result_item_invalid''),
           (item_evidence_ok s i, ''assignment_result_observation_ineligible'')]) (rd_items d))
      @ [(sp_result_assessment_required (sn_spec s) \<longrightarrow> rd_assessment d \<noteq> None, ''assignment_result_assessment_required'')]
      @ (case rd_assessment d of None \<Rightarrow> [] | Some a \<Rightarrow> validateAssignmentAssessmentV2 env a (rd_items d)))"

section \<open>Rendering\<close>

definition newline :: string where "newline = [CHR 0x0A]"
definition blank_line :: string where "blank_line = [CHR 0x0A, CHR 0x0A]"

text \<open>\<open>String(v)\<close> of a value, and one element of \<open>Array.prototype.join\<close>.\<close>

fun value_string :: "kernel_env \<Rightarrow> json \<Rightarrow> string" where
  "value_string env (JStr t) = t"
| "value_string env (JObj kvs) = ''[object Object]''"
| "value_string env (JArr xs) =
     join_text '','' (map (\<lambda>x. if x = JNull then [] else value_string env x) xs)"
| "value_string env v = json_text (number_text env) v"

definition evidence_value :: "kernel_env \<Rightarrow> json option \<Rightarrow> string" where
  "evidence_value env v = (case v of
      Some (JArr xs) \<Rightarrow> join_text '', '' (map (\<lambda>x. if x = JNull then [] else value_string env x) xs)
    | Some x \<Rightarrow> value_string env x
    | None \<Rightarrow> ''undefined'')"

definition failed_mark :: "result_item \<Rightarrow> string" where
  "failed_mark i = (if it_presentation_kind i = Some ''diagnostic'' then '' (failed run)'' else [])"

definition evidence_line :: "kernel_env \<Rightarrow> nat \<Rightarrow> result_item \<Rightarrow> string" where
  "evidence_line env n i = ''- ['' @ nat_digits (Suc n) @ ''] '' @ it_label i @ failed_mark i @ '': '' @ evidence_value env (it_value i)"

definition item_line :: "kernel_env \<Rightarrow> result_item \<Rightarrow> string" where
  "item_line env i = ''- '' @ it_label i @ failed_mark i @ '': ''
     @ (case it_value i of Some (JStr t) \<Rightarrow> t | Some v \<Rightarrow> json_text (number_text env) v | None \<Rightarrow> ''undefined'')"

fun priority_rank :: "string \<Rightarrow> nat" where
  "priority_rank p = (if p = ''high'' then 0 else if p = ''medium'' then 1 else 2)"

definition indices_text :: "int list \<Rightarrow> string" where
  "indices_text ns = join_text '' '' (map (\<lambda>n. ''['' @ int_text n @ '']'') ns)"

definition capitalized :: "string \<Rightarrow> string" where
  "capitalized t = (case t of [] \<Rightarrow> [] | c # cs \<Rightarrow> to_upper_char c # cs)"

definition finding_section :: "assessment_finding \<Rightarrow> string" where
  "finding_section f = ''### '' @ capitalized (fi_priority f) @ '' priority: '' @ fi_title f @ newline
     @ fi_text f @ '' '' @ indices_text (fi_evidence_indices f)"

definition renderResultDeliveryV2 :: "kernel_env \<Rightarrow> result_delivery \<Rightarrow> string" where
  "renderResultDeliveryV2 env d = (case rd_assessment d of
      None \<Rightarrow> join_text newline (map (item_line env) (rd_items d))
    | Some a \<Rightarrow>
        (let findings = sort_key (\<lambda>f. priority_rank (fi_priority f)) (as_findings a);
             evidence = join_text newline (map (\<lambda>(n, i). evidence_line env n i) (enumerate 0 (rd_items d))) in
         join_text blank_line
           (if list_all (\<lambda>f. fi_priority f = ''low'') findings
            then [as_overview a] @ as_questions a @ [''## Details'']
              @ map (\<lambda>f. fi_text f @ '' '' @ indices_text (fi_evidence_indices f))
                  (filter (\<lambda>f. js_trim (fi_text f) \<noteq> js_trim (as_overview a)) findings)
              @ (if as_limitations a = [] then [] else ''### Scope and limitations'' # as_limitations a)
              @ [''### Model evidence'', evidence]
            else [''## Assessment'', as_overview a] @ map finding_section findings
              @ (if as_limitations a = [] then []
                 else [''## Not verified'', join_text newline (map (\<lambda>t. ''- '' @ t) (as_limitations a))])
              @ (if as_questions a = [] then []
                 else [''## Questions'', join_text newline
                   (map (\<lambda>(n, t). nat_digits (Suc n) @ ''. '' @ t) (enumerate 0 (as_questions a)))])
              @ [''## Model evidence'', evidence])))"

section \<open>Lemmas\<close>

text \<open>Whatever is delivered is retained evidence of the current run, quoted with its own reference and hash.\<close>

lemma eligible_observation:
  assumes "resultObservationEligibilityV2 s i \<noteq> Ineligible"
  shows "\<exists>ob p r. rget (sn_observations s) i = Some ob \<and> rget (sn_operations s) (obs_operation_id ob) = Some p
    \<and> op_result p = Some r \<and> presentable s p ob
    \<and> (resultObservationEligibilityV2 s i = EligibleResult \<longrightarrow> r_status r = Succeeded)
    \<and> (resultObservationEligibilityV2 s i = EligibleDiagnostic \<longrightarrow> r_persistent_effect r = NoEffect)"
  using assms by (auto simp: resultObservationEligibilityV2_def result_is_def split: option.splits if_splits)

lemma first_failure_concat_None:
  "first_failure (concat (map f xs)) = None \<longleftrightarrow> (\<forall>x \<in> set xs. first_failure (f x) = None)"
  by (induction xs) (auto simp: first_failure_append split: option.splits)

lemma delivery_items:
  assumes "validateResultDeliveryV2 env s d = None" "i \<in> set (rd_items d)"
  shows "item_shape_ok s i" "item_evidence_ok s i"
proof -
  have "first_failure (concat (map (\<lambda>i. [(item_shape_ok s i, ''assignment_result_item_invalid''),
      (item_evidence_ok s i, ''assignment_result_observation_ineligible'')]) (rd_items d))) = None"
    using assms(1) by (simp add: validateResultDeliveryV2_def first_failure_append split: if_splits option.splits)
  with assms(2) show "item_shape_ok s i" "item_evidence_ok s i"
    by (auto simp: first_failure_concat_None split: if_splits)
qed

lemma delivery_assessed:
  assumes "validateResultDeliveryV2 env s d = None" "rd_assessment d = Some a" "f \<in> set (as_findings a)"
  shows "finding_ok (length (rd_items d)) f"
  using assms by (auto simp: validateResultDeliveryV2_def validateAssignmentAssessmentV2_def first_failure_append list_all_iff
      split: if_splits option.splits)

end
