(* ===== verification/Interaction.thy ===== *)
theory Interaction
  imports Evaluation AdvisoryFollowups WorkPlanScope WorkPlanLocation ResultDelivery
begin

text \<open>
  The remaining events of the reducer (\<open>reducer.ts\<close>, \<open>applyEvent\<close>), one function per event: inputs,
  failures, progress records, result delivery, the work plan and its follow-ups, reviews and the
  authenticated continuation of an advisory checkpoint.
\<close>

section \<open>Work units and inputs\<close>

definition workUnitStateChanged :: "snapshot \<Rightarrow> string \<Rightarrow> work_unit_state \<Rightarrow> kernel_error + snapshot" where
  "workUnitStateChanged s i st =
     guard [(rhas (sn_work_unit_states s) i, ''work_unit_unknown'')] (Inr (set_unit_state i st s))"

definition declare_input :: "snapshot \<Rightarrow> string \<Rightarrow> discovered_input option \<Rightarrow> kernel_error + snapshot" where
  "declare_input s vid d = (case d of
      None \<Rightarrow> Inr s
    | Some di \<Rightarrow> guard [(iv_variable_id (di_variable di) = vid, ''input_declaration_binding_invalid'')]
        (appendDiscoveredInputV2 s di))"

definition request_clarification :: "string \<Rightarrow> string \<Rightarrow> string \<Rightarrow> string \<Rightarrow> snapshot \<Rightarrow> snapshot" where
  "request_clarification now vid cid question s = s\<lparr>
     sn_pending_input_variable_ids := unique_sorted (sn_pending_input_variable_ids s @ [vid]),
     sn_clarifications := rput cid \<lparr>cl_id = cid, cl_variable_id = vid, cl_question = question,
        cl_requested_at = now, cl_resolved_at = None\<rparr> (sn_clarifications s)\<rparr>"

text \<open>\<open>pending\<close> is the reducer's map from variables to their unresolved clarification.\<close>

definition inputRequested ::
  "snapshot \<Rightarrow> string krecord \<Rightarrow> string \<Rightarrow> string \<Rightarrow> string \<Rightarrow> string \<Rightarrow> discovered_input option \<Rightarrow> kernel_error + snapshot" where
  "inputRequested s pending now vid cid question d =
     kbind (declare_input s vid d) (\<lambda>t. guard
       [(list_ex (\<lambda>v. iv_variable_id v = vid) (assignmentInputVariablesV2 t), ''input_variable_unknown''),
        (\<not> rhas pending vid, ''input_clarification_already_pending'')]
       (Inr (request_clarification now vid cid question t)))"

definition supply_value :: "string \<Rightarrow> string \<Rightarrow> string \<Rightarrow> json \<Rightarrow> snapshot \<Rightarrow> snapshot" where
  "supply_value now vid cid v s = s\<lparr>
     sn_input_values := rput vid v (sn_input_values s),
     sn_pending_input_variable_ids := filter (\<lambda>i. i \<noteq> vid) (sn_pending_input_variable_ids s),
     sn_clarifications := (case rget (sn_clarifications s) cid of None \<Rightarrow> sn_clarifications s
        | Some c \<Rightarrow> rput cid (c\<lparr>cl_resolved_at := Some now\<rparr>) (sn_clarifications s))\<rparr>"

definition INVALIDATE_DEPENDENT_RESULTS_V1 :: string where
  "INVALIDATE_DEPENDENT_RESULTS_V1 = ''invalidate_dependent_results_v1''"

definition inputSupplied ::
  "snapshot \<Rightarrow> string krecord \<Rightarrow> string \<Rightarrow> string \<Rightarrow> string \<Rightarrow> string \<Rightarrow> json \<Rightarrow> string option \<Rightarrow> kernel_error + snapshot" where
  "inputSupplied s pending actor now vid cid v freshness =
     (let prerequisites = filter (\<lambda>p. pr_variable_id p = vid) (prerequisites_of s) in
      guard
       [(prerequisites = [] \<or> actor = ''authenticated-user'', ''input_prerequisite_authority_invalid''),
        (list_all (\<lambda>p. prerequisiteValueSatisfied (pr_kind p) (Some v)) prerequisites, ''input_prerequisite_unresolved''),
        (freshness = None \<or> freshness = Some INVALIDATE_DEPENDENT_RESULTS_V1, ''input_result_freshness_invalid''),
        (rget pending vid = Some cid, ''clarification_binding_invalid'')]
       (Inr (let t = supply_value now vid cid v s in
          if freshness = Some INVALIDATE_DEPENDENT_RESULTS_V1 then invalidateDependentInputResultsV2 t vid else t)))"

section \<open>Failures and progress records\<close>

definition ASSIGNMENT_EXECUTION_FAILURE_V2_SCHEMA :: string where
  "ASSIGNMENT_EXECUTION_FAILURE_V2_SCHEMA = ''revit-operator.assignment-execution-failure/v2''"

definition executionFailureRecorded :: "snapshot \<Rightarrow> execution_failure \<Rightarrow> kernel_error + snapshot" where
  "executionFailureRecorded s f = guard
     [(ef_schema f = ASSIGNMENT_EXECUTION_FAILURE_V2_SCHEMA, ''execution_failure_schema_invalid''),
      (sameAssignmentBindingV2 (sn_current_binding s) (ef_binding f), ''execution_failure_binding_mismatch''),
      (bounded_identity 239 (ef_failure_id f), ''execution_failure_identity_invalid''),
      (ef_code f = executionFailureCodeV2 (ef_error_class f), ''execution_failure_code_invalid''),
      (\<not> rhas (sn_execution_failures s) (ef_failure_id f), ''execution_failure_duplicate''),
      (sn_outcome s \<notin> {Complete, CompleteWithIssues, VerifiedNoop}, ''execution_failure_after_success_forbidden'')]
     (Inr (s\<lparr>sn_execution_failure_ids := sn_execution_failure_ids s @ [ef_failure_id f],
       sn_execution_failures := rput (ef_failure_id f) f (sn_execution_failures s)\<rparr>))"

definition providerBudgetExhausted :: "snapshot \<Rightarrow> int \<Rightarrow> kernel_error + snapshot" where
  "providerBudgetExhausted s limit = guard
     [(0 < limit \<and> limit \<le> int (length (sn_provider_call_ids s)), ''provider_budget_exhaustion_invalid'')]
     (Inr (s\<lparr>sn_provider_budget_exhausted := True\<rparr>))"

definition progressEpochRecorded :: "snapshot \<Rightarrow> int \<Rightarrow> progress_epoch \<Rightarrow> kernel_error + snapshot" where
  "progressEpochRecorded s version e = guard
     [(sameAssignmentBindingV2 (sn_current_binding s) (pe_binding e), ''progress_epoch_binding_mismatch''),
      (pe_before_assignment_version e < pe_after_assignment_version e \<and> pe_after_assignment_version e < version,
         ''progress_epoch_version_invalid''),
      (\<not> list_ex (\<lambda>x. pe_epoch_id x = pe_epoch_id e) (sn_progress_epochs s), ''progress_epoch_duplicate'')]
     (Inr (s\<lparr>sn_progress_epochs := sn_progress_epochs s @ [e]\<rparr>))"

definition progressBlocked :: "snapshot \<Rightarrow> string \<Rightarrow> string \<Rightarrow> string list \<Rightarrow> kernel_error + snapshot" where
  "progressBlocked s now code gaps = guard
     [(sn_quiescent s, ''progress_blocked_not_quiescent''), (nonblank code, ''progress_blocker_code_missing'')]
     (Inr (s\<lparr>sn_progress_blocker := Some \<lparr>bl_code = code, bl_gap_ids = unique_sorted gaps, bl_recorded_at = now\<rparr>\<rparr>))"

definition resultDelivered :: "kernel_env \<Rightarrow> snapshot \<Rightarrow> string \<Rightarrow> result_delivery \<Rightarrow> kernel_error + snapshot" where
  "resultDelivered env s actor d =
     guard [(actor = ''operator-result-delivery'', ''assignment_result_delivery_authority_invalid'')]
       (case validateResultDeliveryV2 env s d of
          Some e \<Rightarrow> Inl e
        | None \<Rightarrow> guard [(sn_result_delivery s = None, ''assignment_result_delivery_duplicate'')]
            (Inr (s\<lparr>sn_result_delivery := Some d\<rparr>)))"

section \<open>Work plan and follow-ups\<close>

definition with_plan :: "snapshot \<Rightarrow> kernel_error + work_plan \<Rightarrow> kernel_error + snapshot" where
  "with_plan s r = kbind r (\<lambda>p. Inr (s\<lparr>sn_work_plan := Some p\<rparr>))"

definition work_plan_authority :: "string \<Rightarrow> checks" where
  "work_plan_authority actor = [(actor = ''operator-work-plan'', ''work_plan_authority_invalid'')]"

definition workPlanDeclared :: "snapshot \<Rightarrow> string \<Rightarrow> string \<Rightarrow> plan_declaration \<Rightarrow> kernel_error + snapshot" where
  "workPlanDeclared s actor now d = guard (work_plan_authority actor) (with_plan s (declareWorkPlanV2 s d now))"

definition workPlanLocationRecorded ::
  "kernel_env \<Rightarrow> snapshot \<Rightarrow> string \<Rightarrow> string \<Rightarrow> string \<Rightarrow> json \<Rightarrow> kernel_error + snapshot" where
  "workPlanLocationRecorded env s actor now i hint =
     guard (work_plan_authority actor) (with_plan s (recordWorkPlanLocationV2 env s i hint now))"

definition workPlanItemCompleted ::
  "snapshot \<Rightarrow> string \<Rightarrow> string \<Rightarrow> string \<Rightarrow> string list \<Rightarrow> plan_inspection option \<Rightarrow> kernel_error + snapshot" where
  "workPlanItemCompleted s actor now i ops insp =
     guard (work_plan_authority actor) (with_plan s (completeWorkPlanItemV2 s i ops now insp))"

definition workPlanItemDeferred :: "snapshot \<Rightarrow> string \<Rightarrow> string \<Rightarrow> string \<Rightarrow> bool \<Rightarrow> string \<Rightarrow> kernel_error + snapshot" where
  "workPlanItemDeferred s actor now i defer reason =
     guard (work_plan_authority actor) (with_plan s (deferWorkPlanItemV2 s i defer reason now))"

definition CURRENT_NATIVE_READS_V1 :: string where
  "CURRENT_NATIVE_READS_V1 = ''current_native_reads_v1''"

definition plan_has_item :: "snapshot \<Rightarrow> string \<Rightarrow> bool" where
  "plan_has_item s i \<longleftrightarrow> list_ex (\<lambda>p. pi_item_id p = i) (plan_items s)"

definition cites_read :: "snapshot \<Rightarrow> string \<Rightarrow> bool" where
  "cites_read s i = (case rget (sn_operations s) i of None \<Rightarrow> False | Some p \<Rightarrow> op_requested_effect p = ReadEffect)"

definition workPlanScopeRequested ::
  "snapshot \<Rightarrow> string \<Rightarrow> string \<Rightarrow> string \<Rightarrow> json \<Rightarrow> string list \<Rightarrow> string option \<Rightarrow> kernel_error + snapshot" where
  "workPlanScopeRequested s actor now i sc ops sel = guard
     [(actor = ''operator-work-plan'' \<and> validWorkPlanScopeV1 sc \<and> plan_has_item s i
         \<and> (sel = None \<or> sel = Some CURRENT_NATIVE_READS_V1)
         \<and> (ops \<noteq> [] \<or> sel = Some CURRENT_NATIVE_READS_V1) \<and> length ops \<le> 128 \<and> distinct ops
         \<and> list_all (cites_read s) ops \<and> length (sn_work_plan_scope_requests s) < 256,
        ''work_plan_scope_request_invalid'')]
     (Inr (s\<lparr>sn_work_plan_scope_requests := sn_work_plan_scope_requests s
        @ [\<lparr>wsr_item_id = i, wsr_scope = sc, wsr_operation_ids = ops, wsr_requested_at = now, wsr_read_selection = sel\<rparr>]\<rparr>))"

definition workPlanItemClaimed :: "snapshot \<Rightarrow> string \<Rightarrow> string \<Rightarrow> string \<Rightarrow> string list \<Rightarrow> kernel_error + snapshot" where
  "workPlanItemClaimed s actor now i ops = guard
     [(advisoryVerificationV2 s \<and> actor = ''operator-work-plan'', ''advisory_claim_not_enabled''),
      (plan_has_item s i \<and> length ops \<le> 128 \<and> list_all (rhas (sn_operations s)) ops, ''advisory_claim_invalid''),
      ((case find (\<lambda>p. pi_item_id p = i) (plan_items s) of None \<Rightarrow> False | Some p \<Rightarrow> \<not> workPlanItemDeferredV2 p),
         ''work_plan_item_deferred'')]
     (Inr (s\<lparr>sn_work_plan_claims := sn_work_plan_claims s
        @ [\<lparr>wc_item_id = i, wc_operation_ids = ops, wc_claimed_at = now\<rparr>]\<rparr>))"

definition advisoryFollowupDispositionRecorded ::
  "snapshot \<Rightarrow> string \<Rightarrow> string \<Rightarrow> int \<Rightarrow> followup_disposition \<Rightarrow> kernel_error + snapshot" where
  "advisoryFollowupDispositionRecorded s event_id actor version d = guard
     [(advisoryVerificationV2 s \<and> actor = ''operator-work-plan'', ''advisory_followup_not_enabled''),
      (\<not> paused s \<and> sn_completion_proposal s = None, ''advisory_followup_not_active''),
      (event_id = ''advisory-followup:'' @ fd_command_id d, ''advisory_followup_command_invalid'')]
     (kbind (dispositionAdvisoryFollowupV2 (sn_advisory_followups s) d version)
        (\<lambda>items. Inr (s\<lparr>sn_advisory_followups := items\<rparr>)))"

end
