(* ===== verification/Checkpoint.thy ===== *)
theory Checkpoint
  imports Interaction
begin

text \<open>
  Reviews and advisory checkpoints (\<open>reducer.ts\<close>): \<open>review_requested\<close>, \<open>review_resolved\<close> and
  \<open>assertAdvisoryCheckpointContinuationV1\<close>, the conditions under which an authenticated user may
  continue an assignment that stopped with an unverified completion proposal.
\<close>

section \<open>Requests\<close>

definition proposal_checks :: "snapshot \<Rightarrow> string \<Rightarrow> advisory_proposal \<Rightarrow> checks" where
  "proposal_checks s actor p =
     [(advisoryVerificationV2 s \<and> actor = ''operator-work-plan'', ''advisory_proposal_not_enabled''),
      (sn_completion_proposal s = None \<and> validAdvisoryProposalV1 p, ''advisory_proposal_invalid''),
      (\<not> paused s \<and> sn_in_flight_operation_ids s = [] \<and> sn_unresolved_unknown_operation_ids s = []
         \<and> sn_pending_input_variable_ids s = [], ''advisory_proposal_unsafe'')]"

definition retain_proposal :: "string \<Rightarrow> int \<Rightarrow> string \<Rightarrow> advisory_proposal \<Rightarrow> snapshot \<Rightarrow> snapshot" where
  "retain_proposal now version review_id p s = s\<lparr>
     sn_advisory_followups := retainAdvisoryFollowupsV2 (sn_advisory_followups s) p version,
     sn_completion_proposal := Some \<lparr>pp_proposal = p, pp_review_id = review_id, pp_proposed_at = now\<rparr>\<rparr>"

definition propose :: "snapshot \<Rightarrow> string \<Rightarrow> string \<Rightarrow> int \<Rightarrow> string \<Rightarrow> advisory_proposal option \<Rightarrow> kernel_error + snapshot" where
  "propose s actor now version review_id proposal = (case proposal of
      None \<Rightarrow> Inr s
    | Some p \<Rightarrow> guard (proposal_checks s actor p) (Inr (retain_proposal now version review_id p s)))"

definition reviewRequested ::
  "snapshot \<Rightarrow> string \<Rightarrow> string \<Rightarrow> int \<Rightarrow> string \<Rightarrow> string list \<Rightarrow> advisory_proposal option \<Rightarrow> kernel_error + snapshot" where
  "reviewRequested s actor now version review_id units proposal =
     kbind (propose s actor now version review_id proposal) (\<lambda>t.
       guard [(list_all (rhas (sn_work_unit_states t)) units, ''review_work_unit_unknown'')]
         (Inr (t\<lparr>sn_pending_review_ids := unique_sorted (sn_pending_review_ids t @ [review_id])\<rparr>)))"

section \<open>Continuation of a checkpoint\<close>

definition valid_direction_id :: "string \<Rightarrow> bool" where
  "valid_direction_id i \<longleftrightarrow> starts_with ''user_direction_'' i \<and> lower_hex 32 (drop 15 i)"

definition continuation_checks :: "snapshot \<Rightarrow> string \<Rightarrow> checkpoint_continuation \<Rightarrow> bool \<Rightarrow> bool \<Rightarrow> checks" where
  "continuation_checks s review_id c preparing allocate =
     [(bounded_identity 159 (cc_command_id c) \<and> nonblank (cc_direction_text c) \<and> length (cc_direction_text c) \<le> 8000
         \<and> valid_direction_id (cc_direction_variable_id c), ''advisory_continuation_invalid''),
      (map_option pp_review_id (sn_completion_proposal s) = Some review_id \<and> sn_pending_review_ids s = [review_id],
         ''advisory_continuation_review_stale''),
      (cc_expected_control_command_id c = map_option xc_command_id (sn_execution_control s), ''assignment_control_stale''),
      (cc_document_fingerprint c \<noteq> [] \<and> Some (cc_document_fingerprint c) = b_document_fingerprint (sp_binding (sn_spec s))
         \<and> Some (cc_document_fingerprint c) = b_document_fingerprint (sn_current_binding s),
         ''advisory_continuation_document_mismatch''),
      (sn_quiescent s \<and> sn_in_flight_operation_ids s = [] \<and> sn_in_flight_provider_call_ids s = [],
         ''advisory_continuation_not_quiescent''),
      (sn_unresolved_unknown_operation_ids s = [], ''advisory_continuation_reconciliation_required''),
      (list_all (\<lambda>i. preparing \<and> i = cc_direction_variable_id c) (sn_pending_input_variable_ids s),
         ''advisory_continuation_input_pending''),
      (sn_progress_blocker s = None \<and> \<not> sn_provider_budget_exhausted s \<and> sn_provider_usage_hold s = None
         \<and> sn_execution_failure_ids s = [], ''advisory_continuation_execution_blocked''),
      (cc_resource_renewal c = None \<or> allocate, ''advisory_resource_renewal_decision_invalid'')]"

definition within_budget :: "kernel_env \<Rightarrow> snapshot \<Rightarrow> snapshot \<Rightarrow> string \<Rightarrow> bool" where
  "within_budget env s candidate now \<longleftrightarrow> (let b = advisoryWorkBudget env candidate in
     int (length (rkeys (sn_provider_calls s))) < max_provider_calls b
     \<and> int (length (rkeys (sn_operations s))) < max_operations b
     \<and> consumed_tokens s < max_total_tokens b
     \<and> (case assignmentActiveExecutionTimeMsV2 s now of None \<Rightarrow> False | Some t \<Rightarrow> t < max_wall_clock_ms b))"

definition direction_saved :: "snapshot \<Rightarrow> checkpoint_continuation \<Rightarrow> bool" where
  "direction_saved s c \<longleftrightarrow> (case rget (sn_clarifications s) (cc_command_id c) of
      None \<Rightarrow> False
    | Some cl \<Rightarrow> cl_variable_id cl = cc_direction_variable_id c \<and> truthy (cl_resolved_at cl))
   \<and> rget (sn_input_values s) (cc_direction_variable_id c) = Some (JStr (cc_direction_text c))"

definition released :: "snapshot \<Rightarrow> snapshot" where
  "released s = s\<lparr>sn_completion_proposal := None, sn_pending_review_ids := []\<rparr>"

definition assertAdvisoryCheckpointContinuationV1 ::
  "kernel_env \<Rightarrow> snapshot \<Rightarrow> string \<Rightarrow> checkpoint_continuation option \<Rightarrow> string \<Rightarrow> bool \<Rightarrow> bool \<Rightarrow> kernel_error + unit" where
  "assertAdvisoryCheckpointContinuationV1 env s review_id cont now preparing allocate =
     guard [(advisoryVerificationV2 s \<and> \<not> sn_terminal s, ''advisory_continuation_not_enabled'')]
       (case cont of
          None \<Rightarrow> Inl ''advisory_continuation_invalid''
        | Some c \<Rightarrow> guard (continuation_checks s review_id c preparing allocate)
            (kbind (if allocate then allocateAuthenticatedFollowupV1 env s (cc_command_id c) now (cc_resource_renewal c)
                    else Inr s)
              (\<lambda>candidate. guard
                ((within_budget env s candidate now, ''advisory_continuation_budget_exhausted'')
                 # (if preparing then [] else
                     [(direction_saved s c, ''advisory_continuation_direction_not_saved''),
                      (deriveAssignmentOutcomeV2 (released candidate) = Active, ''advisory_continuation_execution_blocked'')]))
                (Inr ()))))"

definition CONTINUE_ADVISORY_CHECKPOINT_V1 :: string where
  "CONTINUE_ADVISORY_CHECKPOINT_V1 = ''continue_advisory_checkpoint_v1''"

definition drop_review :: "string \<Rightarrow> snapshot \<Rightarrow> snapshot" where
  "drop_review review_id s = s\<lparr>sn_pending_review_ids := filter (\<lambda>i. i \<noteq> review_id) (sn_pending_review_ids s)\<rparr>"

definition continue_checkpoint ::
  "kernel_env \<Rightarrow> snapshot \<Rightarrow> string \<Rightarrow> string \<Rightarrow> string \<Rightarrow> checkpoint_continuation option \<Rightarrow> bool \<Rightarrow> kernel_error + snapshot" where
  "continue_checkpoint env s actor now review_id cont allocate =
     guard [(actor = ''authenticated-user'', ''advisory_continuation_authority_invalid'')]
       (kbind (assertAdvisoryCheckpointContinuationV1 env s review_id cont now False allocate)
         (\<lambda>_. kbind
           (if allocate then allocateAuthenticatedFollowupV1 env s (cc_command_id (the cont)) now
              (cc_resource_renewal (the cont)) else Inr s)
           (\<lambda>t. Inr (t\<lparr>sn_completion_proposal := None\<rparr>))))"

definition reviewResolved ::
  "kernel_env \<Rightarrow> snapshot \<Rightarrow> string \<Rightarrow> string \<Rightarrow> string \<Rightarrow> string \<Rightarrow> checkpoint_continuation option \<Rightarrow> kernel_error + snapshot" where
  "reviewResolved env s actor now review_id decision cont =
     guard [(review_id \<in> set (sn_pending_review_ids s), ''review_resolution_unknown'')]
       (kbind
         (if decision = CONTINUE_ADVISORY_CHECKPOINT_V1 \<or> decision = USER_FOLLOWUP_ALLOCATION_V1
          then continue_checkpoint env s actor now review_id cont (decision = USER_FOLLOWUP_ALLOCATION_V1)
          else guard [(cont = None, ''advisory_continuation_decision_invalid'')] (Inr s))
         (\<lambda>t. Inr (drop_review review_id t)))"

section \<open>Lemmas\<close>

lemma propose_effect:
  assumes "propose s actor now version review_id proposal = Inr t"
  shows "t = s\<lparr>sn_advisory_followups := sn_advisory_followups t, sn_completion_proposal := sn_completion_proposal t\<rparr>"
    "\<exists>new. claims (sn_advisory_followups t) = claims (sn_advisory_followups s) @ new"
    "proposal \<noteq> None \<Longrightarrow> sn_in_flight_operation_ids s = [] \<and> sn_unresolved_unknown_operation_ids s = []
        \<and> sn_pending_input_variable_ids s = [] \<and> \<not> paused s"
  using assms retain_extends
  by (auto simp: propose_def guard_simps proposal_checks_def retain_proposal_def split: option.splits)

lemma reviewRequested_effect [effect]:
  assumes "reviewRequested s actor now version review_id units proposal = Inr t"
  shows "t = s\<lparr>sn_advisory_followups := sn_advisory_followups t, sn_completion_proposal := sn_completion_proposal t,
      sn_pending_review_ids := unique_sorted (sn_pending_review_ids s @ [review_id])\<rparr>"
    "\<exists>new. claims (sn_advisory_followups t) = claims (sn_advisory_followups s) @ new"
proof -
  from assms obtain u where u: "propose s actor now version review_id proposal = Inr u"
    and t: "t = u\<lparr>sn_pending_review_ids := unique_sorted (sn_pending_review_ids u @ [review_id])\<rparr>"
    by (auto simp: reviewRequested_def guard_simps)
  have f: "u = s\<lparr>sn_advisory_followups := sn_advisory_followups u, sn_completion_proposal := sn_completion_proposal u\<rparr>"
    by (rule propose_effect(1) [OF u])
  have p: "sn_pending_review_ids u = sn_pending_review_ids s" by (subst f) simp
  show "t = s\<lparr>sn_advisory_followups := sn_advisory_followups t, sn_completion_proposal := sn_completion_proposal t,
      sn_pending_review_ids := unique_sorted (sn_pending_review_ids s @ [review_id])\<rparr>"
    unfolding t p by (subst f) simp
  show "\<exists>new. claims (sn_advisory_followups t) = claims (sn_advisory_followups s) @ new"
    using propose_effect(2) [OF u] by (simp add: t)
qed

text \<open>What a continuation may rely on.\<close>

lemma continuation_fenced:
  assumes "assertAdvisoryCheckpointContinuationV1 env s review_id cont now preparing allocate = Inr r"
  obtains c where "cont = Some c" "first_failure (continuation_checks s review_id c preparing allocate) = None"
    "\<not> preparing \<Longrightarrow> direction_saved s c"
proof (cases cont)
  case None
  with assms show thesis by (simp add: assertAdvisoryCheckpointContinuationV1_def guard_simps)
next
  case (Some c)
  with assms have "first_failure (continuation_checks s review_id c preparing allocate) = None" "\<not> preparing \<Longrightarrow> direction_saved s c"
    by (auto simp: assertAdvisoryCheckpointContinuationV1_def guard_simps split: if_splits)
  with Some that show thesis by blast
qed

lemma allocateAuthenticatedFollowupV1_frame [frame]:
  "allocateAuthenticatedFollowupV1 env s command now renewal = Inr t \<Longrightarrow>
     t = s\<lparr>sn_user_followup_allocation := sn_user_followup_allocation t\<rparr>"
  unfolding allocateAuthenticatedFollowupV1_def by (rule allocateUserFollowupV1_frame)

definition checkpoint_open :: "snapshot \<Rightarrow> string \<Rightarrow> bool" where
  "checkpoint_open s review_id \<longleftrightarrow> sn_unresolved_unknown_operation_ids s = [] \<and> sn_quiescent s
     \<and> sn_pending_input_variable_ids s = [] \<and> sn_execution_failure_ids s = [] \<and> sn_provider_usage_hold s = None
     \<and> sn_progress_blocker s = None \<and> \<not> sn_provider_budget_exhausted s \<and> sn_pending_review_ids s = [review_id]"

lemma continue_checkpoint_effect:
  assumes "continue_checkpoint env s actor now review_id cont allocate = Inr t"
  shows "actor = ''authenticated-user''" "checkpoint_open s review_id" "\<exists>c. cont = Some c \<and> direction_saved s c"
    "t = s\<lparr>sn_user_followup_allocation := sn_user_followup_allocation t, sn_completion_proposal := None\<rparr>"
proof -
  from assms obtain r u where actor: "actor = ''authenticated-user''"
    and chk: "assertAdvisoryCheckpointContinuationV1 env s review_id cont now False allocate = Inr r"
    and u: "(if allocate then allocateAuthenticatedFollowupV1 env s (cc_command_id (the cont)) now
              (cc_resource_renewal (the cont)) else Inr s) = Inr u" and t: "t = u\<lparr>sn_completion_proposal := None\<rparr>"
    unfolding continue_checkpoint_def by (auto simp: guard_simps)
  show "actor = ''authenticated-user''" by (fact actor)
  from chk obtain c where c: "cont = Some c" "direction_saved s c"
    "first_failure (continuation_checks s review_id c False allocate) = None"
    by (elim continuation_fenced) auto
  then show "\<exists>c. cont = Some c \<and> direction_saved s c" by blast
  from c(3) show "checkpoint_open s review_id"
    unfolding continuation_checks_def checkpoint_open_def by (simp add: first_failure_None_iff list_all_iff)
  have f: "u = s\<lparr>sn_user_followup_allocation := sn_user_followup_allocation u\<rparr>"
    using u by (auto split: if_splits dest: allocateAuthenticatedFollowupV1_frame)
  have a: "sn_user_followup_allocation t = sn_user_followup_allocation u" by (simp add: t)
  show "t = s\<lparr>sn_user_followup_allocation := sn_user_followup_allocation t, sn_completion_proposal := None\<rparr>"
    unfolding a by (subst t, subst f) simp
qed

lemma reviewResolved_effect [effect]:
  assumes "reviewResolved env s actor now review_id decision cont = Inr t"
  shows "review_id \<in> set (sn_pending_review_ids s)"
    "t = s\<lparr>sn_user_followup_allocation := sn_user_followup_allocation t,
        sn_completion_proposal := sn_completion_proposal t,
        sn_pending_review_ids := filter (\<lambda>i. i \<noteq> review_id) (sn_pending_review_ids s)\<rparr>"
proof -
  from assms obtain u where p: "review_id \<in> set (sn_pending_review_ids s)" and t: "t = drop_review review_id u"
    and u: "u = s \<or> continue_checkpoint env s actor now review_id cont (decision = USER_FOLLOWUP_ALLOCATION_V1) = Inr u"
    unfolding reviewResolved_def by (auto simp: guard_simps split: if_splits)
  show "review_id \<in> set (sn_pending_review_ids s)" by (fact p)
  have f: "u = s\<lparr>sn_user_followup_allocation := sn_user_followup_allocation u, sn_completion_proposal := sn_completion_proposal u\<rparr>"
    using u
  proof
    assume c: "continue_checkpoint env s actor now review_id cont (decision = USER_FOLLOWUP_ALLOCATION_V1) = Inr u"
    note e = continue_checkpoint_effect(4) [OF c]
    have n: "sn_completion_proposal u = None" by (subst e) simp
    from e show ?thesis unfolding n .
  qed simp
  have a: "sn_user_followup_allocation t = sn_user_followup_allocation u"
    "sn_completion_proposal t = sn_completion_proposal u" by (simp_all add: t drop_review_def)
  have r: "sn_pending_review_ids u = sn_pending_review_ids s" by (subst f) simp
  show "t = s\<lparr>sn_user_followup_allocation := sn_user_followup_allocation t,
        sn_completion_proposal := sn_completion_proposal t,
        sn_pending_review_ids := filter (\<lambda>i. i \<noteq> review_id) (sn_pending_review_ids s)\<rparr>"
    unfolding a unfolding t drop_review_def r by (subst f) simp
qed

end
