(* ===== verification/Lifecycle.thy ===== *)
theory Lifecycle
  imports Settlement
begin

text \<open>
  What every event keeps of the operations: the contract and the relations an operation was admitted
  with, its result once there is one, its settlement, its observations, and the effect it settled with.
\<close>

section \<open>The lifecycle of one operation\<close>

text \<open>A later version of an operation.\<close>

definition op_advances :: "operation \<Rightarrow> operation \<Rightarrow> bool" where
  "op_advances p q \<longleftrightarrow> operation_relations.truncate q = operation_relations.truncate p
     \<and> op_admission_state q = op_admission_state p \<and> op_admitted_version q = op_admitted_version p
     \<and> (op_result p \<noteq> None \<longrightarrow> op_result q = op_result p)
     \<and> set (op_observation_ids p) \<subseteq> set (op_observation_ids q)
     \<and> set (op_verification_operation_ids p) \<subseteq> set (op_verification_operation_ids q)
     \<and> (op_settlement_state p \<noteq> SettleOpen \<longrightarrow> op_settlement_state q \<noteq> SettleOpen)
     \<and> (op_settlement_state p = Settled \<longrightarrow> op_settlement_state q = Settled
          \<and> op_settled_at q = op_settled_at p \<and> op_settled_version q = op_settled_version p
          \<and> op_dispatch_state q = op_dispatch_state p \<and> op_observation_ids q = op_observation_ids p
          \<and> (op_persistent_effect p \<noteq> UnknownEffect \<longrightarrow> op_persistent_effect q = op_persistent_effect p))"

lemma op_advances_refl [simp]: "op_advances p p"
  by (simp add: op_advances_def)

lemma op_advances_trans: "op_advances p q \<Longrightarrow> op_advances q r \<Longrightarrow> op_advances p r"
  unfolding op_advances_def by (intro conjI) auto

lemma op_static_fields:
  assumes "operation_relations.truncate q = operation_relations.truncate p"
  shows "op_id q = op_id p" "op_binding q = op_binding p" "op_work_unit_id q = op_work_unit_id p"
    "op_capability_id q = op_capability_id p" "op_requested_effect q = op_requested_effect p"
    "op_purpose q = op_purpose p" "op_parent_id q = op_parent_id p" "op_request_identity q = op_request_identity p"
    "op_target q = op_target p" "op_input q = op_input p" "op_verification_of q = op_verification_of p"
    "op_retry_of q = op_retry_of p" "op_advances_criterion_ids q = op_advances_criterion_ids p"
    "op_eligible_criterion_ids q = op_eligible_criterion_ids p" "op_fulfillment_role q = op_fulfillment_role p"
  using assms by (simp_all add: operation_relations.truncate_def)

definition applied_result_authoritative :: "operation \<Rightarrow> operation_result \<Rightarrow> bool" where
  "applied_result_authoritative p r \<longleftrightarrow> (r_persistent_effect r = AppliedEffect \<longrightarrow> op_requested_effect p = ApplyEffect
     \<and> (r_native_transaction_state r = TxCommitted \<or> nativeArtifactResultEffectV2 r = Some AppliedEffect))"

definition result_ok :: "operation \<Rightarrow> operation_result \<Rightarrow> bool" where
  "result_ok p r \<longleftrightarrow> r_operation_id r = op_id p \<and> r_binding r = op_binding p \<and> applied_result_authoritative p r
     \<and> (op_requested_effect p = ReadEffect \<longrightarrow> r_persistent_effect r = NoEffect)
     \<and> (op_settlement_state p \<noteq> AwaitingResult \<longrightarrow>
          op_persistent_effect p = r_persistent_effect r \<or> r_persistent_effect r = UnknownEffect)
     \<and> (op_settlement_state p = Settled \<and> r_observation_required r \<longrightarrow>
          op_observation_ids p \<noteq> [] \<or> op_observation_retention_error p \<noteq> None)"

text \<open>What holds of every operation of a journal.\<close>

definition lifecycle_ok :: "operation \<Rightarrow> bool" where
  "lifecycle_ok p \<longleftrightarrow> op_admission_state p = Admitted
     \<and> (op_settlement_state p = SettleOpen \<longrightarrow>
          op_result p = None \<and> op_dispatch_state p = NotDispatched \<and> op_persistent_effect p = NoEffect)
     \<and> (op_settlement_state p \<in> {RetainingObservation, ObservationCommitFailed, Settled} \<longrightarrow> op_result p \<noteq> None)
     \<and> (op_settlement_state p = Settled \<longleftrightarrow> op_settled_version p \<noteq> None)
     \<and> (op_requested_effect p = ReadEffect \<longrightarrow> op_persistent_effect p = NoEffect)
     \<and> (op_persistent_effect p = UnknownEffect \<longrightarrow> op_settlement_state p \<noteq> SettleOpen)
     \<and> (case op_result p of None \<Rightarrow> True | Some r \<Rightarrow> result_ok p r)"

text \<open>A change of one operation the reducer may make.\<close>

definition op_step :: "operation \<Rightarrow> operation \<Rightarrow> bool" where
  "op_step p q \<longleftrightarrow> op_advances p q \<and> (lifecycle_ok p \<longrightarrow> lifecycle_ok q)"

lemma truncate_lifecycle [simp]:
  "operation_relations.truncate (p\<lparr>op_settlement_state := a\<rparr>) = operation_relations.truncate p"
  "operation_relations.truncate (p\<lparr>op_dispatch_state := b\<rparr>) = operation_relations.truncate p"
  "operation_relations.truncate (p\<lparr>op_persistent_effect := c\<rparr>) = operation_relations.truncate p"
  "operation_relations.truncate (p\<lparr>op_result := d\<rparr>) = operation_relations.truncate p"
  "operation_relations.truncate (p\<lparr>op_native_completion_reconciliation := e\<rparr>) = operation_relations.truncate p"
  "operation_relations.truncate (p\<lparr>op_observation_commit := f\<rparr>) = operation_relations.truncate p"
  "operation_relations.truncate (p\<lparr>op_observation_commit_attempts := g\<rparr>) = operation_relations.truncate p"
  "operation_relations.truncate (p\<lparr>op_observation_ids := h\<rparr>) = operation_relations.truncate p"
  "operation_relations.truncate (p\<lparr>op_verification_operation_ids := i\<rparr>) = operation_relations.truncate p"
  "operation_relations.truncate (p\<lparr>op_settled_version := j\<rparr>) = operation_relations.truncate p"
  "operation_relations.truncate (p\<lparr>op_dispatch_started_at := k\<rparr>) = operation_relations.truncate p"
  "operation_relations.truncate (p\<lparr>op_dispatched_at := l\<rparr>) = operation_relations.truncate p"
  "operation_relations.truncate (p\<lparr>op_dispatch_authority := m\<rparr>) = operation_relations.truncate p"
  "operation_relations.truncate (p\<lparr>op_settled_at := n\<rparr>) = operation_relations.truncate p"
  "operation_relations.truncate (p\<lparr>op_observation_retention_error := u\<rparr>) = operation_relations.truncate p"
  "operation_relations.truncate (p\<lparr>op_native_failure_context := v\<rparr>) = operation_relations.truncate p"
  "operation_relations.truncate (p\<lparr>op_native_template_state := w\<rparr>) = operation_relations.truncate p"
  "operation_relations.truncate (p\<lparr>op_native_schedule_filter_state := x\<rparr>) = operation_relations.truncate p"
  "operation_relations.truncate (p\<lparr>op_native_inventory_workload := y\<rparr>) = operation_relations.truncate p"
  "operation_relations.truncate (p\<lparr>op_admitted_version := z\<rparr>) = operation_relations.truncate p"
  by (simp_all add: operation_relations.truncate_def)

lemmas lifecycle_defs = lifecycle_ok_def result_ok_def applied_result_authoritative_def

lemma op_stepI: "op_advances p q \<Longrightarrow> (lifecycle_ok p \<Longrightarrow> lifecycle_ok q) \<Longrightarrow> op_step p q"
  by (simp add: op_step_def)

lemma dispatch_started_step:
  assumes "op_settlement_state p = SettleOpen" "op_dispatch_state p = NotDispatched"
  shows "op_step p (p\<lparr>op_dispatch_state := Dispatching, op_settlement_state := AwaitingResult,
           op_dispatch_started_at := Some now\<rparr>)"
  using assms by (intro op_stepI) (simp_all add: op_advances_def lifecycle_ok_def)

lemma dispatched_step:
  assumes "op_settlement_state p \<noteq> Settled" "op_requested_effect p = ReadEffect \<longrightarrow> e = NoEffect"
  shows "op_step p (dispatched_operation now authority e p)"
  using assms by (intro op_stepI; cases "op_result p") (simp_all add: op_advances_def dispatched_operation_def lifecycle_defs)

lemma note_verification_step: "op_step p (note_verification v p)"
  by (intro op_stepI; cases "op_result p") (auto simp: op_advances_def note_verification_def lifecycle_defs)

lemma validateResult_effects:
  assumes "first_failure (validateResult env s p r) = None"
  shows "r_operation_id r = op_id p" "r_binding r = op_binding p" "applied_result_authoritative p r"
    "op_requested_effect p = ReadEffect \<longrightarrow> r_persistent_effect r = NoEffect"
    "unresolvedBlockingChildren s p = []"
proof -
  from assms have "first_failure (identity_checks s p r) = None" "first_failure (result_effect_checks p r) = None"
    unfolding validateResult_def first_failure_append_None by blast+
  then have id: "\<forall>(c, e) \<in> set (identity_checks s p r). c" and eff: "\<forall>(c, e) \<in> set (result_effect_checks p r). c"
    by (simp_all only: first_failure_None_iff)
  from id show "r_operation_id r = op_id p" "r_binding r = op_binding p" "unresolvedBlockingChildren s p = []"
    unfolding identity_checks_def sameAssignmentBindingV2_iff by auto
  from eff show "applied_result_authoritative p r" "op_requested_effect p = ReadEffect \<longrightarrow> r_persistent_effect r = NoEffect"
    unfolding result_effect_checks_def applied_result_authoritative_def list.set ball_simps prod.case by blast+
qed

lemma resulted_step:
  assumes "op_settlement_state p \<noteq> Settled" "op_result p = None" "first_failure (validateResult env s p r) = None"
  shows "op_step p (resulted_operation version r c p)"
  using assms(1,2) validateResult_effects [OF assms(3)]
  by (intro op_stepI) (auto simp: op_advances_def lifecycle_defs resulted_operation_def)

lemma settled_step:
  assumes "op_settlement_state p = RetainingObservation"
  shows "op_step p (settled_operation env' now version i p)"
  using assms by (intro op_stepI; cases "op_result p") (auto simp: op_advances_def settled_operation_def lifecycle_defs)

lemma retention_step:
  assumes "op_settlement_state p = RetainingObservation"
  shows "op_step p ((error_noted code p)\<lparr>op_observation_commit_attempts := n\<rparr>)"
    "op_step p ((error_noted code p)\<lparr>op_observation_commit_attempts := n,
       op_settlement_state := ObservationCommitFailed\<rparr>)"
    "op_step p ((error_noted code p)\<lparr>op_settlement_state := Settled, op_settled_at := t, op_settled_version := Some v\<rparr>)"
  using assms by (intro op_stepI; cases "op_result p"; simp add: op_advances_def error_noted_def lifecycle_defs)+
lemma reconciled_step:
  assumes "op_persistent_effect p = UnknownEffect"
  shows "op_step p (p\<lparr>op_persistent_effect := e\<rparr>)"
    "op_step p (p\<lparr>op_persistent_effect := e, op_native_completion_reconciliation := c\<rparr>)"
  using assms by (intro op_stepI; cases "op_result p"; auto simp: op_advances_def lifecycle_defs)+

section \<open>The table of operations\<close>

definition operations_ok :: "operation krecord \<Rightarrow> bool" where
  "operations_ok r \<longleftrightarrow> kr.well_keyed op_id r \<and> (\<forall>i p. rget r i = Some p \<longrightarrow> lifecycle_ok p)"

text \<open>Every operation is still there, in a later version; the table stays well formed.\<close>

definition operations_evolve :: "operation krecord \<Rightarrow> operation krecord \<Rightarrow> bool" where
  "operations_evolve r t \<longleftrightarrow> (operations_ok r \<longrightarrow> operations_ok t
     \<and> (\<forall>i p. rget r i = Some p \<longrightarrow> (\<exists>q. rget t i = Some q \<and> op_advances p q)))"

lemma operations_evolve_refl [simp]: "operations_evolve r r"
  by (auto simp: operations_evolve_def)

lemma operations_evolve_trans:
  "operations_evolve r t \<Longrightarrow> operations_evolve t u \<Longrightarrow> operations_evolve r u"
  unfolding operations_evolve_def by (meson op_advances_trans)

lemma op_step_id: "op_step p q \<Longrightarrow> op_id q = op_id p"
  unfolding op_step_def op_advances_def by (metis op_static_fields(1))

lemma operations_ok_key: "operations_ok r \<Longrightarrow> rget r i = Some p \<Longrightarrow> op_id p = i"
  by (simp add: operations_ok_def kr.well_keyed_def)

lemma replace_evolves:
  assumes "rget r i = Some p" "op_step p q"
  shows "operations_evolve r (rput (op_id q) q r)"
  unfolding operations_evolve_def
proof (intro impI)
  assume ok: "operations_ok r"
  from operations_ok_key [OF this assms(1)] op_step_id [OF assms(2)] have i: "op_id q = i" by simp
  have "lifecycle_ok q" "op_advances p q"
    using ok assms by (auto simp: operations_ok_def op_step_def)
  then show "operations_ok (rput (op_id q) q r)
      \<and> (\<forall>j p. rget r j = Some p \<longrightarrow> (\<exists>u. rget (rput (op_id q) q r) j = Some u \<and> op_advances p u))"
    using ok assms(1) i by (auto simp: operations_ok_def kr.well_keyed_put)
qed

lemma insert_evolves:
  assumes "rget r (op_id q) = None" "lifecycle_ok q"
  shows "operations_evolve r (rput (op_id q) q r)"
  using assms by (auto simp: operations_evolve_def operations_ok_def kr.well_keyed_put)

lemma put_operation_evolves:
  assumes "rget (sn_operations s) i = Some p" "op_step p q"
  shows "operations_evolve (sn_operations s) (sn_operations (put_operation q s))"
  using replace_evolves [OF assms] by (simp add: put_operation_def)

text \<open>An event that replaces one operation and nothing else.\<close>

definition one_operation_changed :: "snapshot \<Rightarrow> snapshot \<Rightarrow> bool" where
  "one_operation_changed s t \<longleftrightarrow> (\<exists>i p q. rget (sn_operations s) i = Some p \<and> op_step p q \<and> t = put_operation q s)"

lemma one_operation_evolves:
  "one_operation_changed s t \<Longrightarrow> operations_evolve (sn_operations s) (sn_operations t)"
  by (auto simp: one_operation_changed_def put_operation_evolves)

lemma one_operation_frame:
  "one_operation_changed s t \<Longrightarrow> t = s\<lparr>sn_operations := sn_operations t\<rparr>"
  by (auto simp: one_operation_changed_def put_operation_def)

section \<open>The events\<close>

lemma one_operation_changedI:
  "rget (sn_operations s) i = Some p \<Longrightarrow> op_step p q \<Longrightarrow> one_operation_changed s (put_operation q s)"
  by (auto simp: one_operation_changed_def)

lemmas op_steps = dispatch_started_step dispatched_step resulted_step settled_step retention_step
  reconciled_step note_verification_step

lemma operationDispatchStarted_effect [effect]:
  "operationDispatchStarted s now i = Inr t \<Longrightarrow> one_operation_changed s t"
  unfolding operationDispatchStarted_def
  by (auto simp: guard_simps split: option.splits intro!: one_operation_changedI op_steps)

lemma nativeDispatchRecorded_effect [effect]:
  "nativeDispatchRecorded s now i = Inr t \<Longrightarrow> one_operation_changed s t"
  unfolding nativeDispatchRecorded_def dispatch_checks_def
  by (auto simp: guard_simps split: option.splits intro!: one_operation_changedI op_steps)

lemma operationDispatchRecorded_effect [effect]:
  "operationDispatchRecorded s now i authority = Inr t \<Longrightarrow> one_operation_changed s t"
  unfolding operationDispatchRecorded_def dispatch_checks_def
  by (auto simp: guard_simps split: option.splits intro!: one_operation_changedI op_steps)

lemma operationResultRecorded_effect [effect]:
  assumes "operationResultRecorded env s version r c = Inr t"
  shows "one_operation_changed s t"
proof -
  from assms obtain p where p: "rget (sn_operations s) (r_operation_id r) = Some p"
    by (auto simp: operationResultRecorded_def split: option.splits)
  with assms have "op_settlement_state p \<noteq> Settled" "op_result p = None" "first_failure (validateResult env s p r) = None"
    and t: "t = put_operation (resulted_operation version r c p) s"
    unfolding operationResultRecorded_def by (simp_all add: guard_simps)
  with p show ?thesis by (auto intro!: one_operation_changedI op_steps)
qed

lemma observationCommitRetryRecorded_effect [effect]:
  "observationCommitRetryRecorded s i result_id attempt code = Inr t \<Longrightarrow> one_operation_changed s t"
  unfolding observationCommitRetryRecorded_def awaiting_retention_def
  by (auto simp: guard_simps split: option.splits intro!: one_operation_changedI op_steps)

lemma observationRetentionFailed_effect [effect]:
  "observationRetentionFailed s now version i code = Inr t \<Longrightarrow> one_operation_changed s t"
  unfolding observationRetentionFailed_def awaiting_retention_def
  by (auto simp: guard_simps split: option.splits intro!: one_operation_changedI op_steps)

lemma nativeCompletionReconciled_effect [effect]:
  "nativeCompletionReconciled s actor i completion = Inr t \<Longrightarrow> one_operation_changed s t"
  unfolding nativeCompletionReconciled_def
  by (auto simp: guard_simps split: option.splits if_splits intro!: one_operation_changedI op_steps)

lemma reconciliationRecorded_effect [effect]:
  "reconciliationRecorded s i e observation_ids = Inr t \<Longrightarrow> one_operation_changed s t"
  unfolding reconciliationRecorded_def
  by (auto simp: guard_simps split: option.splits intro!: one_operation_changedI op_steps)

lemma observationCommitFailed_effect [effect]:
  assumes "observationCommitFailed s now i result_id attempt code = Inr t"
  shows "\<exists>u. one_operation_changed s u \<and> t = u\<lparr>sn_progress_blocker := sn_progress_blocker t\<rparr>"
proof -
  from assms obtain p where p: "rget (sn_operations s) i = Some p" "op_settlement_state p = RetainingObservation"
    and t: "sn_progress_blocker t \<noteq> None" "t = (put_operation ((error_noted code p)\<lparr>op_observation_commit_attempts := Some attempt,
            op_settlement_state := ObservationCommitFailed\<rparr>) s)\<lparr>sn_progress_blocker := sn_progress_blocker t\<rparr>"
    unfolding observationCommitFailed_def awaiting_retention_def
    by (auto simp: guard_simps split: option.splits)
  then show ?thesis by (blast intro: one_operation_changedI op_steps)
qed

section \<open>Retention\<close>

lemma link_verification_evolves:
  assumes "link_verification p s = Inr t"
  shows "operations_evolve (sn_operations s) (sn_operations t)" "t = s\<lparr>sn_operations := sn_operations t\<rparr>"
proof -
  have "t = s \<or> one_operation_changed s t"
    using assms unfolding link_verification_def
    by (auto split: if_splits option.splits intro!: one_operation_changedI op_steps)
  then show "operations_evolve (sn_operations s) (sn_operations t)" "t = s\<lparr>sn_operations := sn_operations t\<rparr>"
    using one_operation_evolves one_operation_frame by auto
qed

lemma retain_unit_frame: "retain_unit i s = s\<lparr>sn_work_unit_states := sn_work_unit_states (retain_unit i s)\<rparr>"
  by (simp add: retain_unit_def set_unit_state_def)

lemma retain_unit_states_distinct [simp]:
  "distinct (rkeys (sn_work_unit_states s)) \<Longrightarrow> distinct (rkeys (sn_work_unit_states (retain_unit i s)))"
  by (simp add: retain_unit_def set_unit_state_def)

text \<open>Observations are only added, each with the version that retained it.\<close>

definition observations_extend :: "snapshot \<Rightarrow> snapshot \<Rightarrow> bool" where
  "observations_extend s t \<longleftrightarrow> (\<forall>i ob. rget (sn_observations s) i = Some ob \<longrightarrow> rget (sn_observations t) i = Some ob)"

definition retention_effect :: "snapshot \<Rightarrow> int \<Rightarrow> observation \<Rightarrow> snapshot \<Rightarrow> bool" where
  "retention_effect s version ob t \<longleftrightarrow> rget (sn_observations s) (obs_id ob) = None
     \<and> obs_binding ob = sn_current_binding s
     \<and> operations_evolve (sn_operations s) (sn_operations t)
     \<and> t = s\<lparr>sn_operations := sn_operations t, sn_observations := rput (obs_id ob) ob (sn_observations s),
          sn_observation_versions := rput (obs_id ob) version (sn_observation_versions s),
          sn_work_unit_states := sn_work_unit_states t\<rparr>
     \<and> (distinct (rkeys (sn_work_unit_states s)) \<longrightarrow> distinct (rkeys (sn_work_unit_states t)))"

lemma observationRetained_effect [effect]:
  assumes "observationRetained env s now version ob = Inr t"
  shows "retention_effect s version ob t"
proof -
  from assms obtain p where p: "rget (sn_operations s) (obs_operation_id ob) = Some p"
    by (auto simp: observationRetained_def split: option.splits)
  define s1 where "s1 = put_operation (settled_operation env now version (obs_id ob) p) s"
  from assms p obtain s2 where c: "first_failure (observation_checks s p ob) = None"
    and s2: "link_verification p s1 = Inr s2" and t: "t = retain_unit (op_work_unit_id p) (put_observation version ob s2)"
    unfolding observationRetained_def s1_def by (auto simp: guard_simps)
  from c have p1: "op_settlement_state p = RetainingObservation" and o: "rget (sn_observations s) (obs_id ob) = None"
    "obs_binding ob = sn_current_binding s"
    by (simp_all add: observation_checks_def rhas_def)
  have e: "operations_evolve (sn_operations s) (sn_operations s2)"
    using put_operation_evolves [OF p settled_step [OF p1], of env now version "obs_id ob"]
      link_verification_evolves(1) [OF s2] unfolding s1_def by (rule operations_evolve_trans)
  have f: "s2 = s\<lparr>sn_operations := sn_operations s2\<rparr>"
    using link_verification_evolves(2) [OF s2] by (simp add: s1_def put_operation_def)
  have u: "t = (put_observation version ob s2)\<lparr>sn_work_unit_states := sn_work_unit_states t\<rparr>"
    unfolding t by (rule retain_unit_frame)
  have ops: "sn_operations t = sn_operations s2" by (subst u) (simp add: put_observation_def)
  have states: "sn_work_unit_states s2 = sn_work_unit_states s" by (subst f) simp
  have "t = s\<lparr>sn_operations := sn_operations t, sn_observations := rput (obs_id ob) ob (sn_observations s),
          sn_observation_versions := rput (obs_id ob) version (sn_observation_versions s),
          sn_work_unit_states := sn_work_unit_states t\<rparr>"
    unfolding ops by (subst u, subst f) (simp add: put_observation_def)
  then show ?thesis
    using e o unfolding retention_effect_def ops
    by (simp add: t put_observation_def states)
qed

end
