(* ===== verification/Reducer.thy ===== *)
theory Reducer
  imports Checkpoint Lifecycle
begin

text \<open>
  The reducer (\<open>reducer.ts\<close>: \<open>validateVersion\<close>, \<open>requireCurrentBinding\<close>, \<open>applyEvent\<close>,
  \<open>reduceAssignmentEventsV2\<close>): which event is accepted in which state, and the state after it.
\<close>

section \<open>Creation\<close>

definition evidence_policy_checks :: "criterion_spec \<Rightarrow> checks" where
  "evidence_policy_checks c = (case cs_evidence_policy c of
      None \<Rightarrow> [(False, ''criterion_evidence_policy_missing'')]
    | Some p \<Rightarrow>
        [(cep_schema p = CRITERION_EVIDENCE_POLICY_V2_SCHEMA, ''criterion_evidence_policy_schema_invalid''),
         (sort (cep_required_fact_ids p) = sort (cs_semantic_fact_requirements c), ''criterion_evidence_policy_fact_mismatch''),
         (cep_allowed_evidence_classes p \<noteq> [] \<and> cep_allowed_fulfillment_roles p \<noteq> [] \<and> cep_allowed_fact_classes p \<noteq> [],
            ''criterion_evidence_policy_empty''),
         (ControlFact \<notin> set (cep_allowed_fact_classes p), ''criterion_control_fact_forbidden''),
         (distinct (cep_allowed_evidence_classes p) \<and> distinct (cep_allowed_fulfillment_roles p)
            \<and> distinct (cep_allowed_fact_classes p) \<and> distinct (cep_allowed_capability_ids p)
            \<and> distinct (cep_allowed_result_schema_ids p) \<and> distinct (cep_required_fact_ids p),
            ''criterion_evidence_policy_duplicate'')])"

definition creation_checks :: "kernel_env \<Rightarrow> string \<Rightarrow> binding \<Rightarrow> assignment_spec \<Rightarrow> checks" where
  "creation_checks env assignment_id b spec =
     [(validLocalAdvisoryPolicyV1 env spec, ''assignment_execution_policy_invalid''),
      (sp_interpreted_scope spec = None \<or> validBoundOperationScope env spec, ''assignment_interpreted_scope_invalid''),
      (assignment_id = b_assignment_id (sp_binding spec) \<and> sameAssignmentBindingV2 b (sp_binding spec),
         ''assignment_spec_binding_mismatch'')]
     @ (if sp_semantic_evidence_contract spec = Some SEMANTIC_EVIDENCE_CONTRACT_V2
        then concat (map evidence_policy_checks (sp_criteria spec)) else [])"

definition known_value :: "input_variable \<Rightarrow> json" where
  "known_value v = (case iv_value v of None \<Rightarrow> JNull | Some x \<Rightarrow> x)"

definition known_inputs :: "assignment_spec \<Rightarrow> json krecord" where
  "known_inputs spec = fold (\<lambda>v. rput (iv_variable_id v) (known_value v))
     (filter (\<lambda>v. iv_value_state v = ValueKnown) (sp_input_variables spec)) []"

definition missing_inputs :: "assignment_spec \<Rightarrow> string list" where
  "missing_inputs spec = sort (map iv_variable_id
     (filter (\<lambda>v. iv_required v \<and> iv_value_state v \<noteq> ValueKnown) (sp_input_variables spec)))"

definition pending_units :: "assignment_spec \<Rightarrow> work_unit_state krecord" where
  "pending_units spec = fold (\<lambda>u. rput (wu_id u) WuPending) (sp_work_units spec) []"

definition created_snapshot :: "int \<Rightarrow> binding \<Rightarrow> assignment_spec \<Rightarrow> snapshot" where
  "created_snapshot version b spec = \<lparr>sn_assignment_version = version, sn_spec = spec, sn_current_binding = b,
     sn_user_followup_allocation = None, sn_work_plan_scope_requests = [], sn_execution_control = None,
     sn_provider_usage_hold = None, sn_discovered_inputs = [], sn_input_values = known_inputs spec,
     sn_input_invalidated_operation_ids = [], sn_pending_input_variable_ids = missing_inputs spec,
     sn_clarifications = [], sn_pending_review_ids = [], sn_completion_proposal = None, sn_provider_call_ids = [],
     sn_provider_calls = [], sn_provider_budget_exhausted = False, sn_execution_failure_ids = [],
     sn_execution_failures = [], sn_progress_epochs = [], sn_progress_blocker = None, sn_operations = [],
     sn_observations = [], sn_observation_versions = [], sn_criteria = [], sn_criterion_evaluation_versions = [],
     sn_terminal = False, sn_result_delivery = None, sn_advisory_followups = [], sn_work_plan_claims = [],
     sn_work_plan = None, sn_terminal_reason = None, sn_finished_at = None, sn_work_unit_states = pending_units spec,
     sn_in_flight_provider_call_ids = [], sn_operation_children = [], sn_blocking_child_operation_ids = [],
     sn_in_flight_operation_ids = [], sn_unresolved_unknown_operation_ids = [], sn_quiescent = True,
     sn_outcome = Active\<rparr>"

section \<open>Runs\<close>

definition run_checks :: "binding \<Rightarrow> binding \<Rightarrow> checks" where
  "run_checks previous b =
     [(b_assignment_id b = b_assignment_id previous \<and> b_session_id b = b_session_id previous
         \<and> b_principal_id b = b_principal_id previous \<and> b_document_fingerprint b = b_document_fingerprint previous
         \<and> b_generation previous < b_generation b, ''assignment_run_binding_invalid'')]"

definition supersede_checks :: "snapshot \<Rightarrow> event \<Rightarrow> int \<Rightarrow> checks" where
  "supersede_checks s ev generation =
     [(sn_provider_usage_hold s = None, ''assignment_provider_usage_held''),
      (b_generation (ev_binding ev) < generation, ''assignment_generation_not_advanced''),
      (sn_quiescent s, ''assignment_run_not_quiescent'')]"

definition providerUsageHoldRecorded ::
  "reducer_state \<Rightarrow> snapshot \<Rightarrow> event \<Rightarrow> provider_usage_hold \<Rightarrow> kernel_error + snapshot" where
  "providerUsageHoldRecorded st s ev h =
     guard (validateProviderUsageHoldV1 s (ev_actor ev) (ev_occurred_at ev) h
         @ [(h_hold_id h \<notin> set (rs_provider_usage_hold_ids st), ''provider_usage_hold_identity_reused'')])
       (Inr (s\<lparr>sn_provider_usage_hold := Some h\<rparr>))"

definition assignmentTerminal :: "snapshot \<Rightarrow> string \<Rightarrow> assignment_outcome \<Rightarrow> string \<Rightarrow> kernel_error + snapshot" where
  "assignmentTerminal s now outcome reason =
     (let d = withDerivedState s in
      guard [(sn_quiescent d, ''assignment_terminal_not_quiescent''),
             (outcome = sn_outcome d, ''assignment_terminal_outcome_invalid'')]
        (Inr (d\<lparr>sn_terminal := True, sn_terminal_reason := Some reason, sn_finished_at := Some now\<rparr>)))"

section \<open>Events of a current run\<close>

text \<open>
  The \<open>switch\<close> of \<open>applyEvent\<close>. \<open>s\<close> is the snapshot with the event's version. The first two events
  never reach it.
\<close>

primrec handleEvent ::
  "kernel_env \<Rightarrow> reducer_state \<Rightarrow> snapshot \<Rightarrow> event \<Rightarrow> event_body \<Rightarrow> kernel_error + snapshot" where
  "handleEvent env st s ev (AssignmentCreated spec) = Inl ''assignment_already_created''"
| "handleEvent env st s ev RunStarted = Inl ''assignment_run_not_superseded''"
| "handleEvent env st s ev (ExecutionControlRequested c) =
     applyAssignmentExecutionControlV2 env s (ev_actor ev) c (ev_assignment_version ev) (ev_occurred_at ev)"
| "handleEvent env st s ev (ProviderUsageHoldRecorded h) = providerUsageHoldRecorded st s ev h"
| "handleEvent env st s ev (RunSuperseded generation) = guard (supersede_checks s ev generation) (Inr s)"
| "handleEvent env st s ev (WorkUnitStateChanged i u reason) = workUnitStateChanged s i u"
| "handleEvent env st s ev (InputRequested vid cid question d) =
     inputRequested s (rs_clarification_by_variable st) (ev_occurred_at ev) vid cid question d"
| "handleEvent env st s ev (InputSupplied vid cid v freshness) =
     inputSupplied s (rs_clarification_by_variable st) (ev_actor ev) (ev_occurred_at ev) vid cid v freshness"
| "handleEvent env st s ev (ProviderCallRecorded i provider model effort success) =
     recordProviderCall s (ev_occurred_at ev) i provider model effort success"
| "handleEvent env st s ev (ProviderCallStateRecorded c) = applyProviderState s (ev_occurred_at ev) c"
| "handleEvent env st s ev (ProviderCallReceiptRecorded c) = recordProviderReceipt s c"
| "handleEvent env st s ev (ExecutionFailureRecorded f) = executionFailureRecorded s f"
| "handleEvent env st s ev (ProviderBudgetExhausted limit) = providerBudgetExhausted s limit"
| "handleEvent env st s ev (ProgressEpochRecorded e) = progressEpochRecorded s (ev_assignment_version ev) e"
| "handleEvent env st s ev (ProgressBlocked code gaps) = progressBlocked s (ev_occurred_at ev) code gaps"
| "handleEvent env st s ev (OperationAdmitted p) = admitOperation env s (ev_assignment_version ev) p"
| "handleEvent env st s ev (OperationDispatchStarted i) = operationDispatchStarted s (ev_occurred_at ev) i"
| "handleEvent env st s ev (OperationDispatchRecorded i authority) =
     operationDispatchRecorded s (ev_occurred_at ev) i authority"
| "handleEvent env st s ev (NativeDispatchRecorded i) = nativeDispatchRecorded s (ev_occurred_at ev) i"
| "handleEvent env st s ev (OperationResultRecorded r c) = operationResultRecorded env s (ev_assignment_version ev) r c"
| "handleEvent env st s ev (ObservationRetained ob) =
     observationRetained env s (ev_occurred_at ev) (ev_assignment_version ev) ob"
| "handleEvent env st s ev (ObservationCommitRetryRecorded i result_id attempt code) =
     observationCommitRetryRecorded s i result_id attempt code"
| "handleEvent env st s ev (ObservationCommitFailedEvent i result_id attempt code) =
     observationCommitFailed s (ev_occurred_at ev) i result_id attempt code"
| "handleEvent env st s ev (ObservationRetentionFailed i code) =
     observationRetentionFailed s (ev_occurred_at ev) (ev_assignment_version ev) i code"
| "handleEvent env st s ev (CriterionEvaluated e) = criterionEvaluated s (ev_assignment_version ev) e"
| "handleEvent env st s ev (ResultDelivered d) = resultDelivered env s (ev_actor ev) d"
| "handleEvent env st s ev (WorkPlanDeclared d) = workPlanDeclared s (ev_actor ev) (ev_occurred_at ev) d"
| "handleEvent env st s ev (WorkPlanLocationRecorded i hint) =
     workPlanLocationRecorded env s (ev_actor ev) (ev_occurred_at ev) i hint"
| "handleEvent env st s ev (AdvisoryFollowupDispositionRecorded d) =
     advisoryFollowupDispositionRecorded s (ev_event_id ev) (ev_actor ev) (ev_assignment_version ev) d"
| "handleEvent env st s ev (WorkPlanItemClaimed i ops) = workPlanItemClaimed s (ev_actor ev) (ev_occurred_at ev) i ops"
| "handleEvent env st s ev (WorkPlanScopeRequested i sc ops sel) =
     workPlanScopeRequested s (ev_actor ev) (ev_occurred_at ev) i sc ops sel"
| "handleEvent env st s ev (WorkPlanItemDeferred i defer reason) =
     workPlanItemDeferred s (ev_actor ev) (ev_occurred_at ev) i defer reason"
| "handleEvent env st s ev (WorkPlanItemCompleted i ops insp) =
     workPlanItemCompleted s (ev_actor ev) (ev_occurred_at ev) i ops insp"
| "handleEvent env st s ev (ReviewRequested i units reason proposal) =
     reviewRequested s (ev_actor ev) (ev_occurred_at ev) (ev_assignment_version ev) i units proposal"
| "handleEvent env st s ev (ReviewResolved i decision cont) =
     reviewResolved env s (ev_actor ev) (ev_occurred_at ev) i decision cont"
| "handleEvent env st s ev (ReconciliationRecorded i e obs) = reconciliationRecorded s i e obs"
| "handleEvent env st s ev (NativeCompletionReconciled i completion) =
     nativeCompletionReconciled s (ev_actor ev) i completion"
| "handleEvent env st s ev (OutcomeDerived outcome reason) =
     guard [(outcome = deriveAssignmentOutcomeV2 (withDerivedState s), ''assignment_outcome_claim_invalid'')] (Inr s)"
| "handleEvent env st s ev (AssignmentTerminal outcome reason) = assignmentTerminal s (ev_occurred_at ev) outcome reason"

text \<open>The reducer's own bookkeeping beside the snapshot.\<close>

definition bookkeep :: "event_body \<Rightarrow> reducer_state \<Rightarrow> reducer_state" where
  "bookkeep b st = (case b of
      RunSuperseded g \<Rightarrow> st\<lparr>rs_superseded := True\<rparr>
    | ProviderUsageHoldRecorded h \<Rightarrow> st\<lparr>rs_provider_usage_hold_ids := h_hold_id h # rs_provider_usage_hold_ids st\<rparr>
    | InputRequested vid cid q d \<Rightarrow>
        st\<lparr>rs_clarification_by_variable := rput vid cid (rs_clarification_by_variable st)\<rparr>
    | InputSupplied vid cid v f \<Rightarrow> st\<lparr>rs_clarification_by_variable := rdel vid (rs_clarification_by_variable st)\<rparr>
    | _ \<Rightarrow> st)"

section \<open>The reducer\<close>

definition expected_version :: "reducer_state \<Rightarrow> int" where
  "expected_version st = (case rs_snapshot st of None \<Rightarrow> 1 | Some s \<Rightarrow> sn_assignment_version s + 1)"

definition validateVersion :: "reducer_state \<Rightarrow> event \<Rightarrow> checks" where
  "validateVersion st ev =
     [(ev_assignment_version ev = expected_version st, ''assignment_event_out_of_order''),
      (b_assignment_id (ev_binding ev) = ev_assignment_id ev, ''assignment_event_binding_mismatch'')]"

definition requireCurrentBinding :: "snapshot \<Rightarrow> event \<Rightarrow> checks" where
  "requireCurrentBinding s ev =
     [(sameAssignmentBindingV2 (sn_current_binding s) (ev_binding ev), ''assignment_event_stale_binding'')]"

definition create :: "kernel_env \<Rightarrow> reducer_state \<Rightarrow> event \<Rightarrow> assignment_spec \<Rightarrow> kernel_error + reducer_state" where
  "create env st ev spec =
     guard ((rs_snapshot st = None, ''assignment_already_created'')
            # creation_checks env (ev_assignment_id ev) (ev_binding ev) spec)
       (Inr (st\<lparr>rs_snapshot :=
          Some (withDerivedState (created_snapshot (ev_assignment_version ev) (ev_binding ev) spec))\<rparr>))"

definition start_run :: "reducer_state \<Rightarrow> snapshot \<Rightarrow> event \<Rightarrow> kernel_error + reducer_state" where
  "start_run st s ev =
     guard ((rs_superseded st, ''assignment_run_not_superseded'') # run_checks (sn_current_binding s) (ev_binding ev))
       (Inr (st\<lparr>rs_superseded := False, rs_snapshot := Some (withDerivedState
          (s\<lparr>sn_current_binding := ev_binding ev, sn_assignment_version := ev_assignment_version ev\<rparr>))\<rparr>))"

definition proceed :: "kernel_env \<Rightarrow> reducer_state \<Rightarrow> snapshot \<Rightarrow> event \<Rightarrow> kernel_error + reducer_state" where
  "proceed env st s ev =
     guard ((\<not> rs_superseded st, ''assignment_run_superseded'') # requireCurrentBinding s ev)
       (kbind (handleEvent env st (s\<lparr>sn_assignment_version := ev_assignment_version ev\<rparr>) ev (ev_body ev))
         (\<lambda>t. Inr ((bookkeep (ev_body ev) st)\<lparr>rs_snapshot := Some (withDerivedState t)\<rparr>)))"

definition continue_assignment :: "kernel_env \<Rightarrow> reducer_state \<Rightarrow> event \<Rightarrow> kernel_error + reducer_state" where
  "continue_assignment env st ev = (case rs_snapshot st of
      None \<Rightarrow> Inl ''assignment_not_created''
    | Some s \<Rightarrow> guard [(\<not> sn_terminal s, ''assignment_terminal_immutable'')]
        (if ev_body ev = RunStarted then start_run st s ev else proceed env st s ev))"

definition applyEvent :: "kernel_env \<Rightarrow> reducer_state \<Rightarrow> event \<Rightarrow> kernel_error + reducer_state" where
  "applyEvent env st ev = guard (validateVersion st ev)
     (case ev_body ev of
        AssignmentCreated spec \<Rightarrow> create env st ev spec
      | _ \<Rightarrow> continue_assignment env st ev)"

fun applyEvents :: "kernel_env \<Rightarrow> reducer_state \<Rightarrow> event list \<Rightarrow> kernel_error + reducer_state" where
  "applyEvents env st [] = Inr st"
| "applyEvents env st (ev # evs) = kbind (applyEvent env st ev) (\<lambda>st'. applyEvents env st' evs)"

definition current :: "reducer_state \<Rightarrow> kernel_error + snapshot" where
  "current st = (case rs_snapshot st of None \<Rightarrow> Inl ''assignment_not_created'' | Some s \<Rightarrow> Inr s)"

definition reduceAssignmentEventsV2 :: "kernel_env \<Rightarrow> event list \<Rightarrow> kernel_error + snapshot" where
  "reduceAssignmentEventsV2 env evs = kbind (applyEvents env initial_reducer_state evs) current"

end
