(* ===== verification/Invariants.thy ===== *)
theory Invariants
  imports Reducer
begin

text \<open>
  What every accepted event keeps and how far it may move the assignment: \<open>snapshot_wf\<close> is the
  well-formedness of a snapshot, \<open>snapshot_advances\<close> the relation between the snapshots before and
  after an event. Both are preserved by each handler and hence along every history.
\<close>

section \<open>Well-formed snapshots\<close>

definition observation_ok :: "snapshot \<Rightarrow> observation \<Rightarrow> bool" where
  "observation_ok s ob \<longleftrightarrow> (\<exists>p. rget (sn_operations s) (obs_operation_id ob) = Some p
     \<and> op_settlement_state p = Settled \<and> obs_id ob \<in> set (op_observation_ids p))"

definition observations_wf :: "snapshot \<Rightarrow> bool" where
  "observations_wf s \<longleftrightarrow> kr.well_keyed obs_id (sn_observations s)
     \<and> (\<forall>i. rget (sn_observation_versions s) i = None \<longleftrightarrow> rget (sn_observations s) i = None)
     \<and> (\<forall>i ob. rget (sn_observations s) i = Some ob \<longrightarrow> observation_ok s ob)"

definition ids_match :: "snapshot \<Rightarrow> bool" where
  "ids_match s \<longleftrightarrow> set (sn_provider_call_ids s) = set (rkeys (sn_provider_calls s))"

definition calls_wf :: "snapshot \<Rightarrow> bool" where
  "calls_wf s \<longleftrightarrow> distinct (rkeys (sn_provider_calls s)) \<and> ids_match s"

definition failures_wf :: "snapshot \<Rightarrow> bool" where
  "failures_wf s \<longleftrightarrow> distinct (sn_execution_failure_ids s)
     \<and> set (sn_execution_failure_ids s) = set (rkeys (sn_execution_failures s))"

text \<open>The current run keeps the trusted scope of the specification.\<close>

definition same_trusted_scope :: "binding \<Rightarrow> binding \<Rightarrow> bool" where
  "same_trusted_scope a b \<longleftrightarrow> b_assignment_id a = b_assignment_id b \<and> b_session_id a = b_session_id b
     \<and> b_principal_id a = b_principal_id b \<and> b_document_fingerprint a = b_document_fingerprint b"

definition binding_wf :: "snapshot \<Rightarrow> bool" where
  "binding_wf s \<longleftrightarrow> same_trusted_scope (sn_current_binding s) (sp_binding (sn_spec s))
     \<and> b_generation (sp_binding (sn_spec s)) \<le> b_generation (sn_current_binding s)"

definition inputs_wf :: "snapshot \<Rightarrow> bool" where
  "inputs_wf s \<longleftrightarrow> kr.well_keyed (\<lambda>d. iv_variable_id (di_variable d)) (sn_discovered_inputs s)"

definition snapshot_wf :: "snapshot \<Rightarrow> bool" where
  "snapshot_wf s \<longleftrightarrow> distinct (rkeys (sn_work_unit_states s)) \<and> operations_ok (sn_operations s)
     \<and> observations_wf s \<and> calls_wf s \<and> failures_wf s \<and> binding_wf s \<and> inputs_wf s"

section \<open>How a snapshot advances\<close>

definition extends :: "'v krecord \<Rightarrow> 'v krecord \<Rightarrow> bool" where
  "extends r t \<longleftrightarrow> (\<forall>k v. rget r k = Some v \<longrightarrow> rget t k = Some v)"

definition list_extends :: "'a list \<Rightarrow> 'a list \<Rightarrow> bool" where
  "list_extends xs ys \<longleftrightarrow> (\<exists>new. ys = xs @ new)"

definition operations_advance :: "operation krecord \<Rightarrow> operation krecord \<Rightarrow> bool" where
  "operations_advance r t \<longleftrightarrow> (\<forall>i p. rget r i = Some p \<longrightarrow> (\<exists>q. rget t i = Some q \<and> op_advances p q))"

definition records_advance :: "snapshot \<Rightarrow> snapshot \<Rightarrow> bool" where
  "records_advance s t \<longleftrightarrow> extends (sn_observations s) (sn_observations t)
     \<and> extends (sn_observation_versions s) (sn_observation_versions t)
     \<and> calls_advance (sn_provider_calls s) (sn_provider_calls t)
     \<and> extends (sn_execution_failures s) (sn_execution_failures t)
     \<and> list_extends (sn_execution_failure_ids s) (sn_execution_failure_ids t)
     \<and> extends (sn_discovered_inputs s) (sn_discovered_inputs t)"

definition journals_advance :: "snapshot \<Rightarrow> snapshot \<Rightarrow> bool" where
  "journals_advance s t \<longleftrightarrow> list_extends (sn_progress_epochs s) (sn_progress_epochs t)
     \<and> list_extends (sn_work_plan_claims s) (sn_work_plan_claims t)
     \<and> list_extends (sn_work_plan_scope_requests s) (sn_work_plan_scope_requests t)
     \<and> list_extends (claims (sn_advisory_followups s)) (claims (sn_advisory_followups t))
     \<and> set (sn_input_invalidated_operation_ids s) \<subseteq> set (sn_input_invalidated_operation_ids t)"

definition identity_kept :: "snapshot \<Rightarrow> snapshot \<Rightarrow> bool" where
  "identity_kept s t \<longleftrightarrow> sn_spec t = sn_spec s \<and> same_trusted_scope (sn_current_binding t) (sn_current_binding s)
     \<and> b_generation (sn_current_binding s) \<le> b_generation (sn_current_binding t)"

definition snapshot_advances :: "snapshot \<Rightarrow> snapshot \<Rightarrow> bool" where
  "snapshot_advances s t \<longleftrightarrow> identity_kept s t \<and> operations_advance (sn_operations s) (sn_operations t)
     \<and> records_advance s t \<and> journals_advance s t"

lemma extends_refl [simp]: "extends r r" "list_extends xs xs" "same_trusted_scope b b" "operations_advance o' o'"
  by (auto simp: extends_def list_extends_def same_trusted_scope_def operations_advance_def)

lemma extends_trans:
  "extends r t \<Longrightarrow> extends t u \<Longrightarrow> extends r u"
  "list_extends xs ys \<Longrightarrow> list_extends ys zs \<Longrightarrow> list_extends xs zs"
  "same_trusted_scope a b \<Longrightarrow> same_trusted_scope b c \<Longrightarrow> same_trusted_scope a c"
  "operations_advance o1 o2 \<Longrightarrow> operations_advance o2 o3 \<Longrightarrow> operations_advance o1 o3"
     apply (simp add: extends_def)
    apply (auto simp: list_extends_def) [1]
   apply (simp add: same_trusted_scope_def)
  apply (unfold operations_advance_def)
  apply (meson op_advances_trans)
  done

lemma snapshot_advances_refl [simp]: "snapshot_advances s s"
  by (simp add: snapshot_advances_def identity_kept_def records_advance_def journals_advance_def)

lemma snapshot_advances_trans:
  assumes "snapshot_advances s t" "snapshot_advances t u"
  shows "snapshot_advances s u"
proof -
  have "identity_kept s u"
    using assms unfolding snapshot_advances_def identity_kept_def by (auto intro: extends_trans(3))
  moreover have "operations_advance (sn_operations s) (sn_operations u)"
    using assms unfolding snapshot_advances_def by (blast intro: extends_trans(4))
  moreover have "records_advance s u"
    using assms unfolding snapshot_advances_def records_advance_def by (blast intro: extends_trans calls_advance_trans)
  moreover have "journals_advance s u"
    using assms unfolding snapshot_advances_def journals_advance_def by (blast intro: extends_trans)
  ultimately show ?thesis by (simp add: snapshot_advances_def)
qed

section \<open>Events that leave the records alone\<close>

text \<open>The step of one handler, from a snapshot that already has the event's version.\<close>

definition same_clock :: "snapshot \<Rightarrow> snapshot \<Rightarrow> bool" where
  "same_clock s t \<longleftrightarrow> sn_assignment_version t = sn_assignment_version s \<and> sn_terminal t = sn_terminal s"

definition wf_step :: "snapshot \<Rightarrow> snapshot \<Rightarrow> bool" where
  "wf_step s t \<longleftrightarrow> (snapshot_wf s \<longrightarrow> snapshot_wf t \<and> snapshot_advances s t) \<and> same_clock s t"

lemma wf_step_refl [simp]: "wf_step s s"
  by (simp add: wf_step_def same_clock_def)

lemma wf_step_trans: "wf_step s t \<Longrightarrow> wf_step t u \<Longrightarrow> wf_step s u"
  unfolding wf_step_def same_clock_def by (blast intro: snapshot_advances_trans trans)

text \<open>Agreement on everything \<open>snapshot_wf\<close> and \<open>snapshot_advances\<close> read, up to work-unit states.\<close>

definition same_records :: "snapshot \<Rightarrow> snapshot \<Rightarrow> bool" where
  "same_records s t \<longleftrightarrow> same_clock s t \<and> sn_spec t = sn_spec s \<and> sn_current_binding t = sn_current_binding s
     \<and> sn_operations t = sn_operations s \<and> sn_observations t = sn_observations s
     \<and> sn_observation_versions t = sn_observation_versions s
     \<and> sn_provider_calls t = sn_provider_calls s \<and> sn_provider_call_ids t = sn_provider_call_ids s
     \<and> sn_execution_failures t = sn_execution_failures s \<and> sn_execution_failure_ids t = sn_execution_failure_ids s
     \<and> sn_discovered_inputs t = sn_discovered_inputs s"

definition keeps_units :: "snapshot \<Rightarrow> snapshot \<Rightarrow> bool" where
  "keeps_units s t \<longleftrightarrow> (distinct (rkeys (sn_work_unit_states s)) \<longrightarrow> distinct (rkeys (sn_work_unit_states t)))"

lemma wf_step_same_records:
  assumes "same_records s t" "keeps_units s t" "journals_advance s t"
  shows "wf_step s t"
proof -
  have wf: "observations_wf t = observations_wf s" "calls_wf t = calls_wf s" "failures_wf t = failures_wf s"
    "binding_wf t = binding_wf s" "inputs_wf t = inputs_wf s" "sn_operations t = sn_operations s"
    using assms(1) by (simp_all add: same_records_def observations_wf_def observation_ok_def calls_wf_def ids_match_def
        failures_wf_def binding_wf_def inputs_wf_def)
  have "snapshot_advances s t"
    using assms(1,3) by (simp add: snapshot_advances_def same_records_def identity_kept_def records_advance_def)
  then show ?thesis
    using assms(1,2) by (simp add: wf_step_def snapshot_wf_def wf keeps_units_def same_records_def)
qed

definition quiet :: "snapshot \<Rightarrow> snapshot \<Rightarrow> bool" where
  "quiet s t \<longleftrightarrow> same_records s t \<and> keeps_units s t \<and> journals_advance s t"

lemmas quiet_defs = quiet_def same_clock_def same_records_def keeps_units_def journals_advance_def list_extends_def

lemma quiet_step: "quiet s t \<Longrightarrow> wf_step s t"
  by (simp add: quiet_def wf_step_same_records)

lemma quiet_refl [simp]: "quiet s s"
  by (simp add: quiet_defs)

lemma quiet_trans: "quiet s t \<Longrightarrow> quiet t u \<Longrightarrow> quiet s u"
  unfolding quiet_def same_records_def same_clock_def keeps_units_def journals_advance_def
  by (auto intro: extends_trans(2))

lemma quiet_control: "applyAssignmentExecutionControlV2 env s actor c version now = Inr t \<Longrightarrow> quiet s t"
  unfolding applyAssignmentExecutionControlV2_def guard_Inr_iff by (auto simp: quiet_defs)

lemma quiet_hold: "providerUsageHoldRecorded st s ev h = Inr t \<Longrightarrow> quiet s t"
  unfolding providerUsageHoldRecorded_def guard_Inr_iff by (auto simp: quiet_defs)

lemma quiet_unit_state: "quiet s (set_unit_state i u s)"
  by (simp add: quiet_defs set_unit_state_def)

lemma quiet_work_unit: "workUnitStateChanged s i u = Inr t \<Longrightarrow> quiet s t"
  unfolding workUnitStateChanged_def guard_Inr_iff by (auto simp: quiet_unit_state)

lemma distinct_fold_rput: "distinct (rkeys r) \<Longrightarrow> distinct (rkeys (fold (\<lambda>x. rput (f x) (g x)) xs r))"
  by (induction xs arbitrary: r) simp_all

lemma quiet_invalidate: "quiet s (invalidateDependentInputResultsV2 s v)"
  by (auto simp: quiet_defs invalidateDependentInputResultsV2_def Let_def distinct_fold_rput [where f = "\<lambda>x. x"])

lemma quiet_supplied: "inputSupplied s pending actor now vid cid v freshness = Inr t \<Longrightarrow> quiet s t"
proof -
  assume "inputSupplied s pending actor now vid cid v freshness = Inr t"
  then have "t = supply_value now vid cid v s \<or> t = invalidateDependentInputResultsV2 (supply_value now vid cid v s) vid"
    unfolding inputSupplied_def Let_def guard_Inr_iff by (auto split: if_splits)
  moreover have "quiet s (supply_value now vid cid v s)" by (simp add: quiet_defs supply_value_def)
  ultimately show ?thesis using quiet_invalidate quiet_trans by blast
qed

lemma quiet_budget: "providerBudgetExhausted s limit = Inr t \<Longrightarrow> quiet s t"
  unfolding providerBudgetExhausted_def guard_Inr_iff by (auto simp: quiet_defs)

lemma quiet_epoch: "progressEpochRecorded s version e = Inr t \<Longrightarrow> quiet s t"
  unfolding progressEpochRecorded_def guard_Inr_iff by (auto simp: quiet_defs)

lemma quiet_blocked: "progressBlocked s now code gaps = Inr t \<Longrightarrow> quiet s t"
  unfolding progressBlocked_def guard_Inr_iff by (auto simp: quiet_defs)

lemma quiet_delivered: "resultDelivered env s actor d = Inr t \<Longrightarrow> quiet s t"
  unfolding resultDelivered_def by (auto simp: quiet_defs guard_Inr_iff split: option.splits)

lemma quiet_plan: "with_plan s r = Inr t \<Longrightarrow> quiet s t"
  unfolding with_plan_def by (auto simp: quiet_defs guard_simps)

lemma quiet_plan_events:
  "workPlanDeclared s actor now d = Inr t \<Longrightarrow> quiet s t"
  "workPlanLocationRecorded env s actor now i hint = Inr t \<Longrightarrow> quiet s t"
  "workPlanItemCompleted s actor now i ops insp = Inr t \<Longrightarrow> quiet s t"
  "workPlanItemDeferred s actor now i defer reason = Inr t \<Longrightarrow> quiet s t"
  unfolding workPlanDeclared_def workPlanLocationRecorded_def workPlanItemCompleted_def workPlanItemDeferred_def guard_Inr_iff
  by (auto dest: quiet_plan)

lemma quiet_scope: "workPlanScopeRequested s actor now i sc ops sel = Inr t \<Longrightarrow> quiet s t"
  unfolding workPlanScopeRequested_def guard_Inr_iff by (auto simp: quiet_defs)

lemma quiet_claimed: "workPlanItemClaimed s actor now i ops = Inr t \<Longrightarrow> quiet s t"
  unfolding workPlanItemClaimed_def guard_Inr_iff by (auto simp: quiet_defs)

lemma quiet_disposition: "advisoryFollowupDispositionRecorded s event_id actor version d = Inr t \<Longrightarrow> quiet s t"
  unfolding advisoryFollowupDispositionRecorded_def guard_Inr_iff kbind_Inr_iff
  by (auto simp: quiet_defs dest: disposition_extends)

lemma quiet_frame:
  assumes "t = s\<lparr>sn_user_followup_allocation := a, sn_advisory_followups := f, sn_completion_proposal := p,
      sn_pending_review_ids := r\<rparr>"
    "\<exists>new. claims f = claims (sn_advisory_followups s) @ new"
  shows "quiet s t"
  unfolding assms(1) using assms(2) by (simp add: quiet_defs)

lemma quiet_review_requested: "reviewRequested s actor now version review_id units proposal = Inr t \<Longrightarrow> quiet s t"
  by (frule reviewRequested_effect(2), drule reviewRequested_effect(1),
      rule quiet_frame [where a = "sn_user_followup_allocation s"]) simp_all

lemma quiet_review_resolved: "reviewResolved env s actor now review_id decision cont = Inr t \<Longrightarrow> quiet s t"
  by (drule reviewResolved_effect(2), rule quiet_frame [where f = "sn_advisory_followups s"]) simp_all

lemma quiet_evaluated: "criterionEvaluated s version e = Inr t \<Longrightarrow> quiet s t"
proof -
  assume "criterionEvaluated s version e = Inr t"
  then have e: "evaluation_effect s version e t" by (rule criterionEvaluated_effect(1))
  then obtain u where t: "t = (retain_evaluation version e s)\<lparr>sn_work_unit_states := u\<rparr>"
    by (auto simp: evaluation_effect_def)
  have "same_records s t \<and> journals_advance s t"
    unfolding t by (simp add: quiet_defs retain_evaluation_def)
  with e show ?thesis by (simp add: quiet_def evaluation_effect_def keeps_units_def)
qed

section \<open>Events that change the operations\<close>

text \<open>Agreement on everything but operations, work-unit states and what no invariant reads.\<close>

definition only_operations :: "snapshot \<Rightarrow> snapshot \<Rightarrow> bool" where
  "only_operations s t \<longleftrightarrow> same_records s (t\<lparr>sn_operations := sn_operations s\<rparr>) \<and> keeps_units s t \<and> journals_advance s t"

lemma evolve_advance:
  "operations_evolve r t \<Longrightarrow> operations_ok r \<Longrightarrow> operations_ok t \<and> operations_advance r t"
  by (simp add: operations_evolve_def operations_advance_def)

lemma observation_ok_advance:
  assumes "operations_advance (sn_operations s) (sn_operations t)" "observation_ok s ob"
  shows "observation_ok t ob"
  using assms unfolding operations_advance_def observation_ok_def op_advances_def by metis

lemma wf_step_operations:
  assumes "operations_evolve (sn_operations s) (sn_operations t)" "only_operations s t"
  shows "wf_step s t"
  unfolding wf_step_def
proof (intro conjI impI)
  show "same_clock s t" using assms(2) by (simp add: only_operations_def same_records_def same_clock_def)
  assume wf: "snapshot_wf s"
  then have ok: "operations_ok (sn_operations t)" and adv: "operations_advance (sn_operations s) (sn_operations t)"
    using evolve_advance [OF assms(1)] by (simp_all add: snapshot_wf_def)
  have rec: "sn_spec t = sn_spec s" "sn_current_binding t = sn_current_binding s" "sn_observations t = sn_observations s"
    "sn_observation_versions t = sn_observation_versions s" "sn_provider_calls t = sn_provider_calls s"
    "sn_provider_call_ids t = sn_provider_call_ids s" "sn_execution_failures t = sn_execution_failures s"
    "sn_execution_failure_ids t = sn_execution_failure_ids s" "sn_discovered_inputs t = sn_discovered_inputs s"
    using assms(2) by (simp_all add: only_operations_def same_records_def)
  have "observations_wf t"
    using wf observation_ok_advance [OF adv] by (auto simp: snapshot_wf_def observations_wf_def rec)
  then have "snapshot_wf t"
    using wf ok assms(2) by (simp add: snapshot_wf_def rec calls_wf_def ids_match_def failures_wf_def binding_wf_def inputs_wf_def
        only_operations_def keeps_units_def)
  moreover have "snapshot_advances s t"
    using adv assms(2) by (simp add: snapshot_advances_def identity_kept_def records_advance_def rec only_operations_def)
  ultimately show "snapshot_wf t" "snapshot_advances s t" by simp_all
qed

lemma only_operations_put [simp]: "only_operations s (put_operation q s)"
  by (simp add: only_operations_def quiet_defs put_operation_def)

lemma only_operations_blocker: "only_operations s (t\<lparr>sn_progress_blocker := b\<rparr>) \<longleftrightarrow> only_operations s t"
  by (simp add: only_operations_def quiet_defs)

lemma one_operation_step: "one_operation_changed s t \<Longrightarrow> wf_step s t"
  by (rule wf_step_operations, erule one_operation_evolves) (auto simp: one_operation_changed_def)

lemma commit_failed_step:
  assumes "observationCommitFailed s now i result_id attempt code = Inr t"
  shows "wf_step s t"
proof -
  from observationCommitFailed_effect [OF assms] obtain u b where u: "one_operation_changed s u"
    and t: "t = u\<lparr>sn_progress_blocker := b\<rparr>" by blast
  have "only_operations s u" using u by (auto simp: one_operation_changed_def)
  then show ?thesis
    using one_operation_evolves [OF u] by (intro wf_step_operations) (simp_all add: t only_operations_blocker)
qed

lemma admitted_lifecycle:
  assumes "first_failure (validateOperationAdmission env s p) = None"
  shows "lifecycle_ok (admitted_operation version p)"
  using admission_shape [OF assms] by (simp add: lifecycle_ok_def admitted_operation_def)

lemma admission_step:
  assumes "admitOperation env s version p = Inr t"
  shows "wf_step s t"
proof -
  from assms have c: "first_failure (validateOperationAdmission env s p) = None"
    and t: "t = set_unit_state (op_work_unit_id p) WuActive (put_operation (admitted_operation version p) s)"
    by (rule admitOperation_effect)+
  have i: "op_id (admitted_operation version p) = op_id p" by (simp add: admitted_operation_def)
  have "operations_evolve (sn_operations s) (sn_operations (put_operation (admitted_operation version p) s))"
    using insert_evolves [of "sn_operations s" "admitted_operation version p"]
      admission_standing(2) [OF c] admitted_lifecycle [OF c, of version] by (simp add: put_operation_def i)
  then have "wf_step s (put_operation (admitted_operation version p) s)"
    by (rule wf_step_operations) simp
  then show ?thesis
    unfolding t by (rule wf_step_trans) (rule quiet_step, rule quiet_unit_state)
qed

section \<open>Retained observations\<close>

lemma retained_operation_settled:
  assumes "observationRetained env s now version ob = Inr t" "operations_ok (sn_operations s)"
  shows "observation_ok t ob"
proof -
  from assms obtain p where p: "rget (sn_operations s) (obs_operation_id ob) = Some p"
    by (auto simp: observationRetained_def split: option.splits)
  define q where "q = settled_operation env now version (obs_id ob) p"
  from assms p obtain u where c: "first_failure (observation_checks s p ob) = None"
    and u: "link_verification p (put_operation q s) = Inr u" and t: "t = retain_unit (op_work_unit_id p) (put_observation version ob u)"
    unfolding observationRetained_def q_def by (auto simp: guard_simps)
  from c have "op_settlement_state p = RetainingObservation" by (simp add: observation_checks_def)
  then have step: "op_step p q" unfolding q_def by (rule settled_step)
  have id: "op_id q = obs_operation_id ob"
    using op_step_id [OF step] operations_ok_key [OF assms(2) p] by simp
  have q: "rget (sn_operations (put_operation q s)) (obs_operation_id ob) = Some q"
    by (simp add: put_operation_def id)
  have "operations_ok (sn_operations (put_operation q s))"
    using evolve_advance [OF put_operation_evolves [OF p step] assms(2)] by simp
  then have "operations_advance (sn_operations (put_operation q s)) (sn_operations u)"
    using evolve_advance [OF link_verification_evolves(1) [OF u]] by blast
  with q obtain r where r: "rget (sn_operations u) (obs_operation_id ob) = Some r" "op_advances q r"
    unfolding operations_advance_def by blast
  have "op_settlement_state q = Settled" "obs_id ob \<in> set (op_observation_ids q)"
    by (simp_all add: q_def settled_operation_def)
  then have r2: "op_settlement_state r = Settled" "obs_id ob \<in> set (op_observation_ids r)"
    using r(2) by (auto simp: op_advances_def)
  have ops: "sn_operations t = sn_operations u"
    unfolding t by (subst retain_unit_frame) (simp add: put_observation_def)
  show ?thesis unfolding observation_ok_def ops using r(1) r2 by blast
qed

lemma retention_step_wf:
  assumes "observationRetained env s now version ob = Inr t"
  shows "wf_step s t"
  unfolding wf_step_def
proof (intro conjI impI)
  note e = observationRetained_effect [OF assms, unfolded retention_effect_def]
  have new: "rget (sn_observations s) (obs_id ob) = None" using e by simp
  obtain ops units where t: "t = s\<lparr>sn_operations := ops, sn_observations := rput (obs_id ob) ob (sn_observations s),
          sn_observation_versions := rput (obs_id ob) version (sn_observation_versions s), sn_work_unit_states := units\<rparr>"
    using e by blast
  show "same_clock s t" by (simp add: t same_clock_def)
  assume wf: "snapshot_wf s"
  have adv: "operations_ok (sn_operations t)" "operations_advance (sn_operations s) (sn_operations t)"
    using e evolve_advance wf unfolding snapshot_wf_def by blast+
  have ok: "observation_ok t ob"
    using retained_operation_settled [OF assms] wf by (simp add: snapshot_wf_def)
  have "observations_wf t"
  proof -
    have "kr.well_keyed obs_id (sn_observations t)"
      using wf by (simp add: t snapshot_wf_def observations_wf_def kr.well_keyed_put)
    moreover have "rget (sn_observation_versions t) i = None \<longleftrightarrow> rget (sn_observations t) i = None" for i
      using wf by (simp add: t snapshot_wf_def observations_wf_def)
    moreover have "observation_ok t o'" if "rget (sn_observations t) i = Some o'" for i o'
    proof (cases "i = obs_id ob")
      case True
      with that ok show ?thesis by (simp add: t)
    next
      case False
      with that have "rget (sn_observations s) i = Some o'" by (simp add: t)
      then show ?thesis
        using wf observation_ok_advance [OF adv(2)] by (simp add: snapshot_wf_def observations_wf_def)
    qed
    ultimately show ?thesis unfolding observations_wf_def by blast
  qed
  moreover have "distinct (rkeys (sn_work_unit_states t))"
    using e wf by (simp add: snapshot_wf_def)
  ultimately have "snapshot_wf t"
    using wf adv(1) by (simp add: snapshot_wf_def calls_wf_def ids_match_def failures_wf_def binding_wf_def inputs_wf_def) (simp add: t)
  moreover have "snapshot_advances s t"
  proof -
    have v: "extends (sn_observation_versions s) (sn_observation_versions t)"
    proof -
      have "rget (sn_observation_versions s) (obs_id ob) = None"
        using wf new unfolding snapshot_wf_def observations_wf_def by blast
      then show ?thesis by (auto simp: t extends_def)
    qed
    show ?thesis
    using adv(2) new v by (simp add: snapshot_advances_def) (simp add: t identity_kept_def records_advance_def journals_advance_def extends_def)
  qed
  ultimately show "snapshot_wf t" "snapshot_advances s t" by simp_all
qed

section \<open>Provider calls, failures, discovered inputs\<close>

lemma calls_step:
  assumes "only_calls_changed s t" "ids_match s \<longrightarrow> ids_match t"
  shows "wf_step s t"
proof -
  from assms(1) obtain cs ids where t: "t = s\<lparr>sn_provider_calls := cs, sn_provider_call_ids := ids\<rparr>"
    and adv: "calls_advance (sn_provider_calls s) cs" and d: "distinct (rkeys (sn_provider_calls s)) \<longrightarrow> distinct (rkeys cs)"
    unfolding only_calls_changed_def by (elim conjE) (rule that)
  have wf: "observations_wf t = observations_wf s" "failures_wf t = failures_wf s" "binding_wf t = binding_wf s" "inputs_wf t = inputs_wf s"
    by (simp_all add: t observations_wf_def observation_ok_def failures_wf_def binding_wf_def inputs_wf_def)
  have "calls_wf s \<longrightarrow> calls_wf t" using d assms(2) unfolding calls_wf_def by (simp add: t)
  then have "snapshot_wf s \<longrightarrow> snapshot_wf t" unfolding snapshot_wf_def wf by (simp add: t)
  moreover have "snapshot_advances s t"
    using adv by (simp add: t snapshot_advances_def identity_kept_def records_advance_def journals_advance_def)
  ultimately show ?thesis by (simp add: wf_step_def) (simp add: t same_clock_def)
qed

lemma rget_key: "rget r k = Some v \<Longrightarrow> k \<in> set (rkeys r)"
  by (simp add: rhas_iff [symmetric] rhas_def)

lemma ids_match_put:
  "ids_match s \<Longrightarrow> ids_match (note_call_id i (put_call c i s))"
  "ids_match s \<Longrightarrow> i \<in> set (rkeys (sn_provider_calls s)) \<Longrightarrow> ids_match (put_call c i s)"
  "ids_match s \<Longrightarrow> i \<in> set (rkeys (sn_provider_calls s)) \<Longrightarrow> ids_match (note_call_id i s)"
  by (auto simp: ids_match_def note_call_id_def put_call_def)

lemma provider_ids:
  "applyProviderState s now e = Inr t \<Longrightarrow> ids_match s \<Longrightarrow> ids_match t"
  "recordProviderCall s now i provider model effort success = Inr t \<Longrightarrow> ids_match s \<Longrightarrow> ids_match t"
  "recordProviderReceipt s c = Inr t \<Longrightarrow> ids_match s \<Longrightarrow> ids_match t"
proof -
  show "applyProviderState s now e = Inr t \<Longrightarrow> ids_match s \<Longrightarrow> ids_match t"
    unfolding applyProviderState_def guard_Inr_iff
    by (cases "rget (sn_provider_calls s) (ps_call_id e)") (auto simp: guard_Inr_iff ids_match_put rget_key)
  show "recordProviderCall s now i provider model effort success = Inr t \<Longrightarrow> ids_match s \<Longrightarrow> ids_match t"
    unfolding recordProviderCall_def guard_Inr_iff
    by (cases "rhas (sn_provider_calls s) i") (auto simp: ids_match_put rhas_iff)
  show "recordProviderReceipt s c = Inr t \<Longrightarrow> ids_match s \<Longrightarrow> ids_match t"
    unfolding recordProviderReceipt_def guard_Inr_iff by (auto simp: ids_match_put)
qed

lemma provider_steps:
  "applyProviderState s now e = Inr t \<Longrightarrow> wf_step s t"
  "recordProviderCall s now i provider model effort success = Inr t \<Longrightarrow> wf_step s t"
  "recordProviderReceipt s c = Inr t \<Longrightarrow> wf_step s t"
  by (blast intro: calls_step applyProviderState_effect recordProviderCall_effect recordProviderReceipt_effect
      provider_ids)+

lemma failure_step:
  assumes "executionFailureRecorded s f = Inr t"
  shows "wf_step s t"
proof -
  from assms have new: "\<not> rhas (sn_execution_failures s) (ef_failure_id f)"
    and t: "t = s\<lparr>sn_execution_failure_ids := sn_execution_failure_ids s @ [ef_failure_id f],
       sn_execution_failures := rput (ef_failure_id f) f (sn_execution_failures s)\<rparr>"
    unfolding executionFailureRecorded_def guard_Inr_iff by simp_all
  have wf: "observations_wf t = observations_wf s" "calls_wf t = calls_wf s" "binding_wf t = binding_wf s" "inputs_wf t = inputs_wf s"
    by (simp_all add: t observations_wf_def observation_ok_def calls_wf_def ids_match_def binding_wf_def inputs_wf_def)
  have "failures_wf s \<longrightarrow> failures_wf t" using new by (auto simp: t failures_wf_def rhas_iff)
  then have "snapshot_wf s \<longrightarrow> snapshot_wf t" unfolding snapshot_wf_def wf by (simp add: t)
  moreover have "snapshot_advances s t"
    using new by (auto simp: t snapshot_advances_def identity_kept_def records_advance_def journals_advance_def
        extends_def list_extends_def rhas_def)
  ultimately show ?thesis by (simp add: wf_step_def) (simp add: t same_clock_def)
qed

end
