(* ===== verification/History.thy ===== *)
theory History
  imports Invariants
begin

text \<open>
  The reducer as a transition system: the step relation, the histories it admits, and the invariants
  of \<open>Invariants\<close> along every history.
\<close>

section \<open>Every handler is a well-formed step\<close>

lemma declare_input_step:
  assumes "declare_input s vid d = Inr t"
  shows "wf_step s t"
proof (cases d)
  case None
  with assms show ?thesis by (simp add: declare_input_def)
next
  case (Some di)
  with assms have a: "appendDiscoveredInputV2 s di = Inr t" by (simp add: declare_input_def guard_Inr_iff)
  let ?i = "iv_variable_id (di_variable di)"
  let ?key = "\<lambda>d. iv_variable_id (di_variable d)"
  from appendDiscoveredInputV2_effect [OF a] have t: "t = s\<lparr>sn_discovered_inputs := rput ?i di (sn_discovered_inputs s)\<rparr>"
    and "?i \<notin> set (map iv_variable_id (assignmentInputVariablesV2 s))" by simp_all
  then have other: "?key d \<noteq> ?i" if "d \<in> set (rvals (sn_discovered_inputs s))" for d
    using that by (auto simp: assignmentInputVariablesV2_def image_iff)
  have new: "rget (sn_discovered_inputs s) ?i = None" if "inputs_wf s"
  proof (rule ccontr)
    assume "rget (sn_discovered_inputs s) ?i \<noteq> None"
    then obtain d where "rget (sn_discovered_inputs s) ?i = Some d" by blast
    moreover from this have "?key d = ?i" using that by (simp add: inputs_wf_def kr.well_keyed_def)
    ultimately show False using other [OF rget_in_rvals] by blast
  qed
  have wf: "observations_wf t = observations_wf s" "calls_wf t = calls_wf s" "failures_wf t = failures_wf s"
    "binding_wf t = binding_wf s"
    by (simp_all add: t observations_wf_def observation_ok_def calls_wf_def ids_match_def failures_wf_def binding_wf_def)
  have "inputs_wf s \<longrightarrow> inputs_wf t" by (simp add: t inputs_wf_def kr.well_keyed_put)
  then have "snapshot_wf s \<longrightarrow> snapshot_wf t" unfolding snapshot_wf_def wf by (simp add: t)
  moreover have "snapshot_advances s t" if "inputs_wf s"
    using new [OF that] by (auto simp: t snapshot_advances_def identity_kept_def records_advance_def
        journals_advance_def extends_def)
  moreover have "same_clock s t" by (simp add: t same_clock_def)
  ultimately show ?thesis unfolding wf_step_def snapshot_wf_def by blast
qed

lemma quiet_clarification: "quiet s (request_clarification now vid cid question s)"
  by (simp add: quiet_defs request_clarification_def)

lemma input_requested_step:
  assumes "inputRequested s pending now vid cid question d = Inr t"
  shows "wf_step s t"
proof -
  from assms obtain u where "declare_input s vid d = Inr u" "t = request_clarification now vid cid question u"
    unfolding inputRequested_def kbind_Inr_iff guard_Inr_iff by auto
  then show ?thesis using declare_input_step quiet_step quiet_clarification wf_step_trans by metis
qed

definition is_terminal_event :: "event_body \<Rightarrow> bool" where
  "is_terminal_event b = (case b of AssignmentTerminal o' r \<Rightarrow> True | _ \<Rightarrow> False)"

lemmas handler_steps = quiet_step [OF quiet_control] quiet_step [OF quiet_hold] quiet_step [OF quiet_work_unit]
  quiet_step [OF quiet_supplied] quiet_step [OF quiet_budget] quiet_step [OF quiet_epoch] quiet_step [OF quiet_blocked]
  quiet_step [OF quiet_delivered] quiet_step [OF quiet_plan_events(1)] quiet_step [OF quiet_plan_events(2)]
  quiet_step [OF quiet_plan_events(3)] quiet_step [OF quiet_plan_events(4)] quiet_step [OF quiet_scope]
  quiet_step [OF quiet_claimed] quiet_step [OF quiet_disposition] quiet_step [OF quiet_review_requested]
  quiet_step [OF quiet_review_resolved] quiet_step [OF quiet_evaluated]
  one_operation_step [OF operationDispatchStarted_effect] one_operation_step [OF nativeDispatchRecorded_effect]
  one_operation_step [OF operationDispatchRecorded_effect] one_operation_step [OF operationResultRecorded_effect]
  one_operation_step [OF observationCommitRetryRecorded_effect] one_operation_step [OF observationRetentionFailed_effect]
  one_operation_step [OF nativeCompletionReconciled_effect] one_operation_step [OF reconciliationRecorded_effect]
  commit_failed_step admission_step retention_step_wf provider_steps failure_step input_requested_step

lemma handle_step:
  assumes "handleEvent env st s ev b = Inr t" "\<not> is_terminal_event b"
  shows "wf_step s t"
  using assms
  by (cases b; simp only: handleEvent.simps)
     (auto simp: is_terminal_event_def guard_Inr_iff intro: handler_steps)

section \<open>The derived state is exact\<close>

lemma quiet_derived: "quiet s (withDerivedState s)"
  by (simp add: quiet_defs)

lemma derived_step: "wf_step s (withDerivedState s)"
  by (rule quiet_step) (rule quiet_derived)

lemma wf_derived: "snapshot_wf s \<Longrightarrow> derived (withDerivedState s)"
  by (simp add: snapshot_wf_def withDerivedState_derived)

text \<open>The version a handler starts from is read by no invariant.\<close>

lemma wf_version [simp]: "snapshot_wf (s\<lparr>sn_assignment_version := v\<rparr>) = snapshot_wf s"
  by (simp add: snapshot_wf_def observations_wf_def observation_ok_def calls_wf_def ids_match_def failures_wf_def
      binding_wf_def inputs_wf_def)

lemma advances_version [simp]: "snapshot_advances (s\<lparr>sn_assignment_version := v\<rparr>) t = snapshot_advances s t"
  by (simp add: snapshot_advances_def identity_kept_def records_advance_def journals_advance_def)

text \<open>What holds of every accepted snapshot.\<close>

definition settled_at_end :: "snapshot \<Rightarrow> bool" where
  "settled_at_end s \<longleftrightarrow> (sn_terminal s \<longrightarrow> sn_quiescent s \<and> sn_terminal_reason s \<noteq> None \<and> sn_finished_at s \<noteq> None)"

definition accepted :: "snapshot \<Rightarrow> bool" where
  "accepted s \<longleftrightarrow> snapshot_wf s \<and> derived s \<and> settled_at_end s"

lemma derived_terminal:
  assumes "t = (withDerivedState u)\<lparr>sn_terminal := True, sn_terminal_reason := Some reason, sn_finished_at := Some now\<rparr>"
    "snapshot_wf u" "sn_quiescent (withDerivedState u)"
  shows "accepted (withDerivedState t) \<and> snapshot_advances u (withDerivedState t)
    \<and> sn_terminal (withDerivedState t) \<and> sn_assignment_version (withDerivedState t) = sn_assignment_version u"
proof -
  let ?d = "withDerivedState u"
  have d: "snapshot_wf ?d" "snapshot_advances u ?d" "sn_assignment_version ?d = sn_assignment_version u"
    using derived_step [of u] assms(2) by (simp_all add: wf_step_def)
  have t: "snapshot_wf t" "snapshot_advances u t"
    using d by (simp_all add: assms(1) snapshot_wf_def observations_wf_def observation_ok_def calls_wf_def ids_match_def
        failures_wf_def binding_wf_def inputs_wf_def snapshot_advances_def identity_kept_def records_advance_def journals_advance_def)
  have e: "snapshot_wf (withDerivedState t)" "snapshot_advances t (withDerivedState t)"
    using derived_step [of t] t by (simp_all add: wf_step_def)
  have same: "sn_operations t = sn_operations ?d" "sn_provider_calls t = sn_provider_calls ?d"
    by (simp_all add: assms(1))
  have q: "sn_quiescent (withDerivedState t) = sn_quiescent ?d"
    using derived_relations_cong [of t u] by (simp add: withDerivedState_eq with_relations_def Let_def same)
  have "settled_at_end (withDerivedState t)"
    using assms(3) q by (simp add: settled_at_end_def assms(1) withDerivedState_eq with_relations_def Let_def)
  then show ?thesis
    using e t wf_derived [OF t(1)] snapshot_advances_trans [OF t(2) e(2)] by (simp add: accepted_def assms(1))
qed

lemma derived_accepted:
  assumes "snapshot_wf t" "\<not> sn_terminal t"
  shows "accepted (withDerivedState t) \<and> snapshot_advances t (withDerivedState t)
    \<and> sn_assignment_version (withDerivedState t) = sn_assignment_version t \<and> \<not> sn_terminal (withDerivedState t)"
  using derived_step [of t] wf_derived [OF assms(1)] assms
  by (simp add: accepted_def settled_at_end_def wf_step_def)

section \<open>One event\<close>

definition state_ok :: "reducer_state \<Rightarrow> bool" where
  "state_ok st \<longleftrightarrow> (\<forall>s. rs_snapshot st = Some s \<longrightarrow> accepted s)"

lemma bookkeep_snapshot [simp]: "rs_snapshot (bookkeep b st) = rs_snapshot st"
  by (cases b) (simp_all add: bookkeep_def)

lemma pending_units_distinct: "distinct (rkeys (pending_units spec))"
  unfolding pending_units_def by (rule distinct_fold_rput [where g = "\<lambda>_. WuPending"]) (simp add: rkeys_def)

lemma rkeys_Nil: "rkeys [] = []"
  by (simp add: rkeys_def)

lemma created_wf:
  assumes "first_failure (creation_checks env a b spec) = None"
  shows "snapshot_wf (created_snapshot version b spec)"
proof -
  have "b = sp_binding spec" using assms by (simp add: creation_checks_def)
  then show ?thesis
    by (simp add: snapshot_wf_def created_snapshot_def pending_units_distinct operations_ok_def kr.well_keyed_def
        observations_wf_def calls_wf_def ids_match_def failures_wf_def binding_wf_def inputs_wf_def rkeys_Nil)
qed

text \<open>The possible effects of an accepted event on the snapshot.\<close>

definition moves_to :: "snapshot \<Rightarrow> reducer_state \<Rightarrow> bool" where
  "moves_to s st' \<longleftrightarrow> (\<exists>t. rs_snapshot st' = Some t \<and> accepted t \<and> snapshot_advances s t
     \<and> sn_assignment_version t = sn_assignment_version s + 1)"

lemma create_moves:
  assumes "create env st ev spec = Inr st'" "ev_assignment_version ev = expected_version st"
  shows "rs_snapshot st = None" "\<exists>t. rs_snapshot st' = Some t \<and> accepted t \<and> sn_assignment_version t = 1
     \<and> sn_spec t = spec \<and> sn_current_binding t = ev_binding ev \<and> \<not> sn_terminal t"
proof -
  let ?c = "created_snapshot (ev_assignment_version ev) (ev_binding ev) spec"
  from assms(1) show n: "rs_snapshot st = None" by (simp add: create_def guard_Inr_iff)
  from assms(1) have c: "first_failure (creation_checks env (ev_assignment_id ev) (ev_binding ev) spec) = None"
    and t: "rs_snapshot st' = Some (withDerivedState ?c)"
    by (auto simp: create_def guard_Inr_iff)
  have f: "\<not> sn_terminal ?c" "sn_assignment_version ?c = 1" "sn_spec ?c = spec" "sn_current_binding ?c = ev_binding ev"
    using assms(2) n by (simp_all add: created_snapshot_def expected_version_def)
  show "\<exists>t. rs_snapshot st' = Some t \<and> accepted t \<and> sn_assignment_version t = 1
     \<and> sn_spec t = spec \<and> sn_current_binding t = ev_binding ev \<and> \<not> sn_terminal t"
    using derived_accepted [OF created_wf [OF c] f(1)] f t by simp
qed

lemma start_run_moves:
  assumes "start_run st s ev = Inr st'" "accepted s" "\<not> sn_terminal s"
    "ev_assignment_version ev = sn_assignment_version s + 1"
  shows "moves_to s st'"
proof -
  let ?u = "s\<lparr>sn_current_binding := ev_binding ev, sn_assignment_version := ev_assignment_version ev\<rparr>"
  from assms(1) have c: "first_failure (run_checks (sn_current_binding s) (ev_binding ev)) = None"
    and t: "rs_snapshot st' = Some (withDerivedState ?u)"
    by (auto simp: start_run_def guard_Inr_iff)
  have scope: "same_trusted_scope (ev_binding ev) (sn_current_binding s)"
    "b_generation (sn_current_binding s) \<le> b_generation (ev_binding ev)"
    using c by (simp_all add: run_checks_def same_trusted_scope_def)
  have wf: "snapshot_wf s" using assms(2) by (simp add: accepted_def)
  then have b: "binding_wf ?u"
    using scope by (auto simp: snapshot_wf_def binding_wf_def dest: extends_trans(3) intro: order_trans)
  have "snapshot_wf ?u"
    using wf b by (simp add: snapshot_wf_def observations_wf_def observation_ok_def calls_wf_def ids_match_def
        failures_wf_def inputs_wf_def)
  moreover have "snapshot_advances s ?u"
    using scope by (simp add: snapshot_advances_def identity_kept_def records_advance_def journals_advance_def)
  ultimately show ?thesis
    using derived_accepted [of ?u] assms(3,4) t snapshot_advances_trans unfolding moves_to_def by fastforce
qed

lemma proceed_moves:
  assumes "proceed env st s ev = Inr st'" "accepted s" "\<not> sn_terminal s"
    "ev_assignment_version ev = sn_assignment_version s + 1"
  shows "moves_to s st'"
proof -
  let ?u = "s\<lparr>sn_assignment_version := ev_assignment_version ev\<rparr>"
  from assms(1) obtain t where h: "handleEvent env st ?u ev (ev_body ev) = Inr t"
    and t: "rs_snapshot st' = Some (withDerivedState t)"
    by (auto simp: proceed_def guard_Inr_iff kbind_Inr_iff)
  have wf: "snapshot_wf ?u" using assms(2) by (simp add: accepted_def)
  show ?thesis
  proof (cases "is_terminal_event (ev_body ev)")
    case False
    from handle_step [OF h this] wf have "snapshot_wf t" "snapshot_advances s t" "same_clock ?u t"
      by (simp_all add: wf_step_def)
    then show ?thesis
      using derived_accepted [of t] assms(3,4) t snapshot_advances_trans unfolding moves_to_def same_clock_def
      by fastforce
  next
    case True
    then obtain outcome reason where "ev_body ev = AssignmentTerminal outcome reason"
      by (auto simp: is_terminal_event_def split: event_body.splits)
    with h have q: "sn_quiescent (withDerivedState ?u)"
      and d: "t = (withDerivedState ?u)\<lparr>sn_terminal := True, sn_terminal_reason := Some reason,
        sn_finished_at := Some (ev_occurred_at ev)\<rparr>"
      by (simp_all add: assignmentTerminal_def Let_def guard_Inr_iff)
    from derived_terminal [OF d wf q] show ?thesis
      using assms(4) t unfolding moves_to_def by simp
  qed
qed

lemma continue_moves:
  assumes "continue_assignment env st ev = Inr st'" "state_ok st" "ev_assignment_version ev = expected_version st"
  shows "\<exists>s. rs_snapshot st = Some s \<and> \<not> sn_terminal s \<and> moves_to s st'"
proof -
  from assms(1) obtain s where s: "rs_snapshot st = Some s"
    by (auto simp: continue_assignment_def split: option.splits)
  with assms have "\<not> sn_terminal s" "start_run st s ev = Inr st' \<or> proceed env st s ev = Inr st'"
    "accepted s" "ev_assignment_version ev = sn_assignment_version s + 1"
    by (auto simp: continue_assignment_def guard_Inr_iff state_ok_def expected_version_def split: if_splits)
  then show ?thesis using s start_run_moves proceed_moves by blast
qed

lemma applyEvent_cases:
  assumes "applyEvent env st ev = Inr st'"
  obtains (created) spec where "ev_body ev = AssignmentCreated spec" "create env st ev spec = Inr st'"
      "ev_assignment_version ev = expected_version st" "b_assignment_id (ev_binding ev) = ev_assignment_id ev"
    | (continued) "\<nexists>spec. ev_body ev = AssignmentCreated spec" "continue_assignment env st ev = Inr st'"
      "ev_assignment_version ev = expected_version st" "b_assignment_id (ev_binding ev) = ev_assignment_id ev"
  using assms by (cases "ev_body ev") (simp_all add: applyEvent_def guard_Inr_iff validateVersion_def)

lemma applyEvent_moves:
  assumes "applyEvent env st ev = Inr st'" "state_ok st" "rs_snapshot st = Some s"
  shows "\<not> sn_terminal s" "moves_to s st'"
proof -
  have "\<not> sn_terminal s \<and> moves_to s st'"
    using assms(1)
  proof (cases rule: applyEvent_cases)
    case (created spec)
    then show ?thesis using create_moves(1) assms(3) by fastforce
  next
    case continued
    then show ?thesis using continue_moves [OF _ assms(2)] assms(3) by fastforce
  qed
  then show "\<not> sn_terminal s" "moves_to s st'" by simp_all
qed

lemma applyEvent_ok:
  assumes "applyEvent env st ev = Inr st'" "state_ok st"
  shows "state_ok st'"
  using assms(1)
proof (cases rule: applyEvent_cases)
  case (created spec)
  then show ?thesis using create_moves(2) by (fastforce simp: state_ok_def)
next
  case continued
  then show ?thesis using continue_moves [OF _ assms(2)] by (fastforce simp: state_ok_def moves_to_def)
qed

end
