(* ===== verification/EventSourcing.thy ===== *)
theory EventSourcing
  imports KernelPrelude
begin

text \<open>
  The interface between the reducer and whatever keeps its history: a partial step on states and its
  iteration over a list of events. The journal, and every invariant along a history, uses only these laws.
\<close>

locale event_sourced =
  fixes step :: "'s \<Rightarrow> 'e \<Rightarrow> kernel_error + 's"
    and run :: "'s \<Rightarrow> 'e list \<Rightarrow> kernel_error + 's"
  assumes run_Nil: "run s [] = Inr s"
    and run_Cons: "run s (e # es) = kbind (step s e) (\<lambda>t. run t es)"
begin

lemma run_append: "run s (xs @ ys) = kbind (run s xs) (\<lambda>t. run t ys)"
proof (induction xs arbitrary: s)
  case (Cons x xs)
  then show ?case by (cases "step s x") (simp_all add: run_Cons)
qed (simp add: run_Nil)

lemma run_snoc: "run s (xs @ [e]) = kbind (run s xs) (\<lambda>t. step t e)"
proof -
  have "kbind (step t e) (\<lambda>u. run u []) = step t e" for t
    by (cases "step t e") (simp_all add: run_Nil)
  then show ?thesis by (simp add: run_append run_Cons)
qed

lemma run_prefix:
  assumes "run s (xs @ ys) = Inr u"
  obtains t where "run s xs = Inr t" "run t ys = Inr u"
  using assms by (auto simp: run_append kbind_Inr_iff)

text \<open>What holds after a run and did not hold before it was brought about by one of its steps.\<close>

lemma run_flip:
  "run s es = Inr t \<Longrightarrow> \<not> K s \<Longrightarrow> K t \<Longrightarrow>
    \<exists>xs e ys u v. es = xs @ e # ys \<and> run s xs = Inr u \<and> \<not> K u \<and> step u e = Inr v \<and> K v"
proof (induction es arbitrary: s)
  case Nil
  then show ?case by (simp add: run_Nil)
next
  case (Cons e es)
  then obtain w where w: "step s e = Inr w" "run w es = Inr t" by (auto simp: run_Cons kbind_Inr_iff)
  show ?case
  proof (cases "K w")
    case True
    with Cons.prems w show ?thesis by (intro exI [of _ "[]"]) (auto simp: run_Nil)
  next
    case False
    with Cons.IH [OF w(2)] Cons.prems(3) obtain xs e' ys u v where
        "es = xs @ e' # ys" "run w xs = Inr u" "\<not> K u" "step u e' = Inr v" "K v" by blast
    with w(1) show ?thesis by (intro exI [of _ "e # xs"]) (auto simp: run_Cons kbind_Inr_iff)
  qed
qed

end

text \<open>An invariant of the steps is one of the runs.\<close>

locale event_invariant = event_sourced step run
  for step :: "'s \<Rightarrow> 'e \<Rightarrow> kernel_error + 's" and run :: "'s \<Rightarrow> 'e list \<Rightarrow> kernel_error + 's" +
  fixes inv :: "'s \<Rightarrow> bool"
  assumes inv_step: "inv s \<Longrightarrow> step s e = Inr t \<Longrightarrow> inv t"
begin

lemma inv_run: "run s es = Inr t \<Longrightarrow> inv s \<Longrightarrow> inv t"
proof (induction es arbitrary: s)
  case Nil
  then show ?case by (simp add: run_Nil)
next
  case (Cons e es)
  then obtain u where "step s e = Inr u" "run u es = Inr t" by (auto simp: run_Cons kbind_Inr_iff)
  then show ?case using Cons inv_step by blast
qed

end

text \<open>A preorder every step from a good state moves along is one every run moves along.\<close>

locale event_progress = event_invariant step run inv
  for step :: "'s \<Rightarrow> 'e \<Rightarrow> kernel_error + 's" and run :: "'s \<Rightarrow> 'e list \<Rightarrow> kernel_error + 's" and inv :: "'s \<Rightarrow> bool" +
  fixes later :: "'s \<Rightarrow> 's \<Rightarrow> bool"
  assumes later_refl: "later s s"
    and later_trans: "later s t \<Longrightarrow> later t u \<Longrightarrow> later s u"
    and later_step: "inv s \<Longrightarrow> step s e = Inr t \<Longrightarrow> later s t"
begin

lemma later_run: "run s es = Inr t \<Longrightarrow> inv s \<Longrightarrow> later s t"
proof (induction es arbitrary: s)
  case Nil
  then show ?case by (simp add: run_Nil later_refl)
next
  case (Cons e es)
  then obtain u where u: "step s e = Inr u" "run u es = Inr t" by (auto simp: run_Cons kbind_Inr_iff)
  then have "later u t" using Cons inv_step by blast
  then show ?case using later_step [OF Cons.prems(2) u(1)] later_trans by blast
qed

end

end
