(* ===== verification/Transitions.thy ===== *)
theory Transitions
  imports History EventSourcing
begin

text \<open>
  The reducer as an inductive step relation, its histories, and the invariants of \<open>History\<close> carried
  along them by the laws of \<open>EventSourcing\<close>.
\<close>

section \<open>Steps\<close>

definition well_addressed :: "reducer_state \<Rightarrow> event \<Rightarrow> bool" where
  "well_addressed st ev \<longleftrightarrow> ev_assignment_version ev = expected_version st
     \<and> b_assignment_id (ev_binding ev) = ev_assignment_id ev"

text \<open>Three ways an event is accepted: it creates the assignment, starts a run, or belongs to the current run.\<close>

inductive kernel_step :: "kernel_env \<Rightarrow> reducer_state \<Rightarrow> event \<Rightarrow> reducer_state \<Rightarrow> bool" for env where
  created: "well_addressed st ev \<Longrightarrow> ev_body ev = AssignmentCreated spec \<Longrightarrow> rs_snapshot st = None \<Longrightarrow>
     first_failure (creation_checks env (ev_assignment_id ev) (ev_binding ev) spec) = None \<Longrightarrow>
     kernel_step env st ev (st\<lparr>rs_snapshot := Some (withDerivedState (created_snapshot 1 (ev_binding ev) spec))\<rparr>)"
| restarted: "well_addressed st ev \<Longrightarrow> ev_body ev = RunStarted \<Longrightarrow> rs_snapshot st = Some s \<Longrightarrow> \<not> sn_terminal s \<Longrightarrow>
     rs_superseded st \<Longrightarrow> first_failure (run_checks (sn_current_binding s) (ev_binding ev)) = None \<Longrightarrow>
     kernel_step env st ev (st\<lparr>rs_superseded := False, rs_snapshot := Some (withDerivedState
       (s\<lparr>sn_current_binding := ev_binding ev, sn_assignment_version := ev_assignment_version ev\<rparr>))\<rparr>)"
| handled: "well_addressed st ev \<Longrightarrow> ev_body ev \<noteq> RunStarted \<Longrightarrow> \<nexists>spec. ev_body ev = AssignmentCreated spec \<Longrightarrow>
     rs_snapshot st = Some s \<Longrightarrow> \<not> sn_terminal s \<Longrightarrow> \<not> rs_superseded st \<Longrightarrow> ev_binding ev = sn_current_binding s \<Longrightarrow>
     handleEvent env st (s\<lparr>sn_assignment_version := ev_assignment_version ev\<rparr>) ev (ev_body ev) = Inr t \<Longrightarrow>
     kernel_step env st ev ((bookkeep (ev_body ev) st)\<lparr>rs_snapshot := Some (withDerivedState t)\<rparr>)"

inductive_cases kernel_stepE: "kernel_step env st ev st'"

lemma kernel_step_applies: "kernel_step env st ev st' \<Longrightarrow> applyEvent env st ev = Inr st'"
proof (induction rule: kernel_step.induct)
  case (created st ev spec)
  then show ?case
    by (simp add: applyEvent_def create_def well_addressed_def validateVersion_def guard_Inr_iff expected_version_def)
next
  case (restarted st ev s)
  then show ?case
    by (simp add: applyEvent_def continue_assignment_def start_run_def well_addressed_def validateVersion_def guard_Inr_iff)
next
  case (handled st ev s t)
  then have "continue_assignment env st ev = Inr ((bookkeep (ev_body ev) st)\<lparr>rs_snapshot := Some (withDerivedState t)\<rparr>)"
    by (simp add: continue_assignment_def proceed_def requireCurrentBinding_def guard_Inr_iff)
  then show ?case
    using handled.hyps(1,3) by (cases "ev_body ev") (simp_all add: applyEvent_def well_addressed_def validateVersion_def guard_Inr_iff)
qed

lemma applies_kernel_step:
  assumes "applyEvent env st ev = Inr st'"
  shows "kernel_step env st ev st'"
  using assms
proof (cases rule: applyEvent_cases)
  case (created spec)
  then show ?thesis
    using kernel_step.created [of st ev spec env]
    by (auto simp: create_def guard_Inr_iff well_addressed_def expected_version_def)
next
  case continued
  then obtain s where s: "rs_snapshot st = Some s" "\<not> sn_terminal s"
    and c: "(if ev_body ev = RunStarted then start_run st s ev else proceed env st s ev) = Inr st'"
    by (auto simp: continue_assignment_def guard_Inr_iff split: option.splits)
  have w: "well_addressed st ev" using continued by (simp add: well_addressed_def)
  show ?thesis
  proof (cases "ev_body ev = RunStarted")
    case True
    with c s w show ?thesis using kernel_step.restarted [OF w True s] by (auto simp: start_run_def guard_Inr_iff)
  next
    case False
    with c obtain t where t: "\<not> rs_superseded st" "ev_binding ev = sn_current_binding s"
      "handleEvent env st (s\<lparr>sn_assignment_version := ev_assignment_version ev\<rparr>) ev (ev_body ev) = Inr t"
      "st' = (bookkeep (ev_body ev) st)\<lparr>rs_snapshot := Some (withDerivedState t)\<rparr>"
      by (auto simp: proceed_def guard_Inr_iff kbind_Inr_iff requireCurrentBinding_def)
    show ?thesis unfolding t(4) by (rule kernel_step.handled [OF w False continued(1) s t(1-3)])
  qed
qed

lemma kernel_step_iff: "kernel_step env st ev st' \<longleftrightarrow> applyEvent env st ev = Inr st'"
  using kernel_step_applies applies_kernel_step by blast

section \<open>Histories\<close>

inductive history :: "kernel_env \<Rightarrow> event list \<Rightarrow> reducer_state \<Rightarrow> bool" for env where
  start: "history env [] initial_reducer_state"
| extend: "history env evs st \<Longrightarrow> kernel_step env st ev st' \<Longrightarrow> history env (evs @ [ev]) st'"

text \<open>How far a later reducer state is from an earlier one.\<close>

definition snapshot_later :: "snapshot \<Rightarrow> snapshot \<Rightarrow> bool" where
  "snapshot_later s t \<longleftrightarrow> snapshot_advances s t \<and> sn_assignment_version s \<le> sn_assignment_version t
     \<and> (sn_terminal s \<longrightarrow> t = s)"

definition state_later :: "reducer_state \<Rightarrow> reducer_state \<Rightarrow> bool" where
  "state_later st st' \<longleftrightarrow>
     (\<forall>s. rs_snapshot st = Some s \<longrightarrow> (\<exists>t. rs_snapshot st' = Some t \<and> snapshot_later s t))"

lemma snapshot_later_trans: "snapshot_later s t \<Longrightarrow> snapshot_later t u \<Longrightarrow> snapshot_later s u"
  by (auto simp: snapshot_later_def intro: snapshot_advances_trans)

lemma state_later_trans: "state_later s t \<Longrightarrow> state_later t u \<Longrightarrow> state_later s u"
  unfolding state_later_def by (blast intro: snapshot_later_trans)

interpretation kernel: event_sourced "applyEvent env" "applyEvents env" for env
  by unfold_locales simp_all

interpretation kernel: event_invariant "applyEvent env" "applyEvents env" "state_ok" for env
  by unfold_locales (rule applyEvent_ok)

interpretation kernel: event_progress "applyEvent env" "applyEvents env" "state_ok" state_later for env
proof unfold_locales
  fix s t u :: reducer_state and e
  show "state_later s s" by (simp add: state_later_def snapshot_later_def)
  show "state_later s t \<Longrightarrow> state_later t u \<Longrightarrow> state_later s u" by (rule state_later_trans)
  show "state_ok s \<Longrightarrow> applyEvent env s e = Inr t \<Longrightarrow> state_later s t" for env
    unfolding state_later_def snapshot_later_def using applyEvent_moves unfolding moves_to_def by fastforce
qed

lemma initial_ok [simp]: "state_ok initial_reducer_state"
  by (simp add: state_ok_def initial_reducer_state_def)

lemma history_iff: "history env evs st \<longleftrightarrow> applyEvents env initial_reducer_state evs = Inr st"
proof
  show "history env evs st \<Longrightarrow> applyEvents env initial_reducer_state evs = Inr st"
    by (induction rule: history.induct) (simp_all add: kernel.run_snoc kernel_step_iff)
  show "applyEvents env initial_reducer_state evs = Inr st \<Longrightarrow> history env evs st"
  proof (induction evs arbitrary: st rule: rev_induct)
    case Nil
    then show ?case by (simp add: history.start)
  next
    case (snoc ev evs)
    then show ?case by (auto simp: kernel.run_snoc kbind_Inr_iff kernel_step_iff intro: history.extend)
  qed
qed

lemma history_ok: "history env evs st \<Longrightarrow> state_ok st"
  using kernel.inv_run history_iff initial_ok by metis

lemma history_snapshot: "history env evs st \<Longrightarrow> rs_snapshot st = Some s \<Longrightarrow> accepted s"
  using history_ok unfolding state_ok_def by blast

section \<open>What a history guarantees\<close>

lemma history_version:
  assumes "history env evs st"
  shows "(case rs_snapshot st of None \<Rightarrow> evs = [] | Some s \<Rightarrow> sn_assignment_version s = int (length evs))"
  using assms
proof (induction rule: history.induct)
  case start
  then show ?case by (simp add: initial_reducer_state_def)
next
  case (extend evs st ev st')
  then have a: "applyEvent env st ev = Inr st'" by (simp add: kernel_step_iff)
  show ?case
  proof (cases "rs_snapshot st")
    case None
    from a show ?thesis
    proof (cases rule: applyEvent_cases)
      case (created spec)
      then show ?thesis using create_moves(2) extend.IH None by fastforce
    next
      case continued
      then show ?thesis using None by (simp add: continue_assignment_def)
    qed
  next
    case (Some s)
    then show ?thesis
      using applyEvent_moves(2) [OF a history_ok [OF extend.hyps(1)] Some] extend.IH by (auto simp: moves_to_def)
  qed
qed

lemma history_later:
  assumes "history env xs st" "history env (xs @ ys) st'" "rs_snapshot st = Some s"
  obtains t where "rs_snapshot st' = Some t" "snapshot_later s t"
proof -
  from assms(1,2) have "applyEvents env st ys = Inr st'"
    by (simp add: history_iff kernel.run_append)
  then have "state_later st st'" using kernel.later_run history_ok [OF assms(1)] by blast
  with assms(3) that show thesis by (auto simp: state_later_def)
qed

lemma accepted_operation:
  assumes "accepted s" "rget (sn_operations s) i = Some p"
  shows "lifecycle_ok p" "op_id p = i"
  using assms operations_ok_key unfolding accepted_def snapshot_wf_def operations_ok_def by blast+

lemma keyed_selection:
  "kr.well_keyed op_id r \<Longrightarrow> i \<in> set (map op_id (filter P (rvals r))) \<longleftrightarrow> (\<exists>p. rget r i = Some p \<and> P p)"
  by (auto simp: kr.well_keyed_def rvals_iff image_iff)

lemma call_selection: "i \<in> set (derived_in_flight_calls s) \<longleftrightarrow>
    (\<exists>c\<in>set (rvals (sn_provider_calls s)). pc_call_id c = i \<and> \<not> truthy (pc_completed_at c))"
  by (auto simp: derived_in_flight_calls_def)

lemma accepted_indexes:
  assumes "accepted s"
  shows "i \<in> set (sn_in_flight_operation_ids s) \<longleftrightarrow>
      (\<exists>p. rget (sn_operations s) i = Some p \<and> in_flight_settlement (op_settlement_state p))"
    "i \<in> set (sn_unresolved_unknown_operation_ids s) \<longleftrightarrow>
      (\<exists>p. rget (sn_operations s) i = Some p \<and> op_persistent_effect p = UnknownEffect)"
    "sn_quiescent s \<longleftrightarrow> sn_in_flight_operation_ids s = [] \<and> sn_in_flight_provider_call_ids s = []"
    "sn_outcome s = deriveAssignmentOutcomeV2 s"
    "i \<in> set (sn_in_flight_provider_call_ids s) \<longleftrightarrow>
      (\<exists>c\<in>set (rvals (sn_provider_calls s)). pc_call_id c = i \<and> \<not> truthy (pc_completed_at c))"
    "i \<in> set (sn_blocking_child_operation_ids s) \<longleftrightarrow>
      (\<exists>p. rget (sn_operations s) i = Some p \<and> truthy (op_parent_id p) \<and> blocks_parent p)"
proof -
  from assms have d: "derived s" and k: "kr.well_keyed op_id (sn_operations s)"
    by (simp_all add: accepted_def snapshot_wf_def operations_ok_def)
  show "i \<in> set (sn_in_flight_operation_ids s) \<longleftrightarrow>
      (\<exists>p. rget (sn_operations s) i = Some p \<and> in_flight_settlement (op_settlement_state p))"
    using keyed_selection [OF k] unfolding derived_relations(1) [OF d] derived_in_flight_def by simp
  show "i \<in> set (sn_unresolved_unknown_operation_ids s) \<longleftrightarrow>
      (\<exists>p. rget (sn_operations s) i = Some p \<and> op_persistent_effect p = UnknownEffect)"
    using keyed_selection [OF k] unfolding derived_relations(5) [OF d] derived_unknown_def by simp
  show "sn_quiescent s \<longleftrightarrow> sn_in_flight_operation_ids s = [] \<and> sn_in_flight_provider_call_ids s = []"
    "sn_outcome s = deriveAssignmentOutcomeV2 s"
    using derived_relations [OF d] by simp_all
  show "i \<in> set (sn_in_flight_provider_call_ids s) \<longleftrightarrow>
      (\<exists>c\<in>set (rvals (sn_provider_calls s)). pc_call_id c = i \<and> \<not> truthy (pc_completed_at c))"
    unfolding derived_relations(2) [OF d] by (rule call_selection)
  show "i \<in> set (sn_blocking_child_operation_ids s) \<longleftrightarrow>
      (\<exists>p. rget (sn_operations s) i = Some p \<and> truthy (op_parent_id p) \<and> blocks_parent p)"
    using keyed_selection [OF k] unfolding derived_relations(4) [OF d] derived_blocking_def by simp
qed

text \<open>An accepted event of the current run, seen by its handler.\<close>

lemma accepted_event_handled:
  assumes "applyEvent env st ev = Inr st'" "rs_snapshot st = Some s" "ev_body ev \<noteq> RunStarted"
  obtains t where "\<not> sn_terminal s" "ev_binding ev = sn_current_binding s" "\<not> rs_superseded st"
    "handleEvent env st (s\<lparr>sn_assignment_version := ev_assignment_version ev\<rparr>) ev (ev_body ev) = Inr t"
    "rs_snapshot st' = Some (withDerivedState t)"
  using applies_kernel_step [OF assms(1)] assms(2,3) that
  by (cases rule: kernel_step.cases) auto

end
