(* ===== verification/Provenance.thy ===== *)
theory Provenance
  imports Transitions
begin

text \<open>
  Where the operations and the observations of a snapshot come from: each entered the assignment by exactly
  one kind of event, \<open>operation_admitted\<close> or \<open>observation_retained\<close>, and passed the checks of that event on the
  snapshot it entered.
\<close>

section \<open>Events that bring in nothing\<close>

definition no_entry :: "snapshot \<Rightarrow> snapshot \<Rightarrow> bool" where
  "no_entry s t \<longleftrightarrow> (\<forall>i. rget (sn_operations t) i \<noteq> None \<longrightarrow> rget (sn_operations s) i \<noteq> None)
     \<and> (\<forall>i. rget (sn_observations t) i \<noteq> None \<longrightarrow> rget (sn_observations s) i \<noteq> None)"

definition entry_step :: "snapshot \<Rightarrow> snapshot \<Rightarrow> bool" where
  "entry_step s t \<longleftrightarrow> (operations_ok (sn_operations s) \<longrightarrow> no_entry s t)"

lemma quiet_entry: "quiet s t \<Longrightarrow> entry_step s t"
  by (simp add: entry_step_def no_entry_def quiet_def same_records_def)

lemma replaced_keys:
  assumes "operations_ok r" "rget r i = Some p" "op_step p q" "rget (rput (op_id q) q r) k \<noteq> None"
  shows "rget r k \<noteq> None"
  using assms operations_ok_key op_step_id by (metis not_Some_eq rget_rput)

lemma one_operation_entry: "one_operation_changed s t \<Longrightarrow> entry_step s t"
  unfolding entry_step_def no_entry_def one_operation_changed_def
  using replaced_keys by (fastforce simp: put_operation_def simp del: rget_rput)

lemma commit_failed_entry:
  assumes "observationCommitFailed s now i result_id attempt code = Inr t"
  shows "entry_step s t"
proof -
  obtain u b where u: "one_operation_changed s u" and t: "t = u\<lparr>sn_progress_blocker := b\<rparr>"
    using observationCommitFailed_effect [OF assms] by blast
  show ?thesis using one_operation_entry [OF u] by (simp add: t entry_step_def no_entry_def)
qed

lemma calls_entry: "only_calls_changed s t \<Longrightarrow> entry_step s t"
  unfolding only_calls_changed_def entry_step_def no_entry_def
  by (elim conjE) (erule ssubst, simp)

lemma failure_entry: "executionFailureRecorded s f = Inr t \<Longrightarrow> entry_step s t"
  by (auto simp: executionFailureRecorded_def guard_Inr_iff entry_step_def no_entry_def)

lemma input_entry: "inputRequested s pending now vid cid question d = Inr t \<Longrightarrow> entry_step s t"
  by (auto simp: inputRequested_def kbind_Inr_iff guard_Inr_iff declare_input_def request_clarification_def
      entry_step_def no_entry_def dest!: appendDiscoveredInputV2_effect split: option.splits)

lemma terminal_entry: "assignmentTerminal s now outcome reason = Inr t \<Longrightarrow> entry_step s t"
  using quiet_derived [of s]
  by (auto simp: assignmentTerminal_def Let_def guard_Inr_iff entry_step_def no_entry_def quiet_def same_records_def)

lemma retention_entry:
  assumes "observationRetained env s now version ob = Inr t" "operations_ok (sn_operations s)"
  shows "rget (sn_operations t) i \<noteq> None \<longrightarrow> rget (sn_operations s) i \<noteq> None"
    "rget (sn_observations t) i \<noteq> None \<longrightarrow> rget (sn_observations s) i \<noteq> None \<or> i = obs_id ob"
proof -
  from assms obtain p where p: "rget (sn_operations s) (obs_operation_id ob) = Some p"
    by (auto simp: observationRetained_def split: option.splits)
  let ?q = "settled_operation env now version (obs_id ob) p"
  from assms p obtain u where c: "op_settlement_state p = RetainingObservation"
    and u: "link_verification p (put_operation ?q s) = Inr u" and t: "t = retain_unit (op_work_unit_id p) (put_observation version ob u)"
    unfolding observationRetained_def by (auto simp: guard_simps observation_checks_def)
  have step: "op_step p ?q" using c by (rule settled_step)
  have ok: "operations_ok (sn_operations (put_operation ?q s))"
    using evolve_advance [OF put_operation_evolves [OF p step] assms(2)] by simp
  have "u = put_operation ?q s \<or> one_operation_changed (put_operation ?q s) u"
    using u unfolding link_verification_def
    by (auto split: if_splits option.splits intro!: one_operation_changedI op_steps)
  then have "no_entry (put_operation ?q s) u"
    using one_operation_entry ok by (auto simp: entry_step_def no_entry_def)
  moreover have "no_entry s (put_operation ?q s)"
    using one_operation_entry [OF one_operation_changedI [OF p step]] assms(2) by (simp add: entry_step_def)
  moreover have "sn_operations t = sn_operations u" "sn_observations t = rput (obs_id ob) ob (sn_observations u)"
    unfolding t by (subst retain_unit_frame, simp add: put_observation_def)+
  ultimately show "rget (sn_operations t) i \<noteq> None \<longrightarrow> rget (sn_operations s) i \<noteq> None"
    "rget (sn_observations t) i \<noteq> None \<longrightarrow> rget (sn_observations s) i \<noteq> None \<or> i = obs_id ob"
    by (auto simp: no_entry_def)
qed

lemmas handler_entries = quiet_entry [OF quiet_control] quiet_entry [OF quiet_hold] quiet_entry [OF quiet_work_unit]
  quiet_entry [OF quiet_supplied] quiet_entry [OF quiet_budget] quiet_entry [OF quiet_epoch] quiet_entry [OF quiet_blocked]
  quiet_entry [OF quiet_delivered] quiet_entry [OF quiet_plan_events(1)] quiet_entry [OF quiet_plan_events(2)]
  quiet_entry [OF quiet_plan_events(3)] quiet_entry [OF quiet_plan_events(4)] quiet_entry [OF quiet_scope]
  quiet_entry [OF quiet_claimed] quiet_entry [OF quiet_disposition] quiet_entry [OF quiet_review_requested]
  quiet_entry [OF quiet_review_resolved] quiet_entry [OF quiet_evaluated] quiet_entry [OF quiet_refl]
  one_operation_entry [OF operationDispatchStarted_effect] one_operation_entry [OF nativeDispatchRecorded_effect]
  one_operation_entry [OF operationDispatchRecorded_effect] one_operation_entry [OF operationResultRecorded_effect]
  one_operation_entry [OF observationCommitRetryRecorded_effect] one_operation_entry [OF observationRetentionFailed_effect]
  one_operation_entry [OF nativeCompletionReconciled_effect] one_operation_entry [OF reconciliationRecorded_effect]
  commit_failed_entry calls_entry [OF applyProviderState_effect] calls_entry [OF recordProviderCall_effect]
  calls_entry [OF recordProviderReceipt_effect] failure_entry input_entry terminal_entry

definition brings_in :: "event_body \<Rightarrow> bool" where
  "brings_in b \<longleftrightarrow> (case b of OperationAdmitted p \<Rightarrow> True | ObservationRetained ob \<Rightarrow> True | _ \<Rightarrow> False)"

lemma handle_entry:
  assumes "handleEvent env st s ev b = Inr t" "\<not> brings_in b"
  shows "entry_step s t"
  using assms
  by (cases b; simp only: handleEvent.simps)
     (auto simp: brings_in_def guard_Inr_iff intro: handler_entries)

section \<open>The event an entry came with\<close>

lemma derived_records [simp]:
  "sn_operations (withDerivedState s) = sn_operations s" "sn_observations (withDerivedState s) = sn_observations s"
  using quiet_derived [of s] by (simp_all add: quiet_def same_records_def)

text \<open>The operation, or the observation, stored under a key of a reducer state.\<close>

definition operation_at :: "reducer_state \<Rightarrow> string \<Rightarrow> operation option" where
  "operation_at st i = Option.bind (rs_snapshot st) (\<lambda>s. rget (sn_operations s) i)"

definition observation_at :: "reducer_state \<Rightarrow> string \<Rightarrow> observation option" where
  "observation_at st i = Option.bind (rs_snapshot st) (\<lambda>s. rget (sn_observations s) i)"

lemma entry_handled:
  assumes "applyEvent env st ev = Inr st'" "state_ok st"
    "operation_at st i = None \<and> operation_at st' i \<noteq> None \<or> observation_at st i = None \<and> observation_at st' i \<noteq> None"
  obtains s t where "rs_snapshot st = Some s" "snapshot_wf s" "rs_snapshot st' = Some (withDerivedState t)"
    "handleEvent env st (s\<lparr>sn_assignment_version := ev_assignment_version ev\<rparr>) ev (ev_body ev) = Inr t"
    "brings_in (ev_body ev)"
  using applies_kernel_step [OF assms(1)]
proof (cases rule: kernel_step.cases)
  case (created spec)
  then show thesis using assms(3) by (auto simp: operation_at_def observation_at_def created_snapshot_def)
next
  case (restarted s)
  then show thesis using assms(3) by (auto simp: operation_at_def observation_at_def)
next
  case (handled s t)
  have wf: "snapshot_wf s" using assms(2) handled by (simp add: state_ok_def accepted_def)
  have "brings_in (ev_body ev)"
  proof (rule ccontr)
    assume "\<not> brings_in (ev_body ev)"
    from handle_entry [OF handled(9) this] wf have "no_entry (s\<lparr>sn_assignment_version := ev_assignment_version ev\<rparr>) t"
      by (simp add: entry_step_def snapshot_wf_def)
    with assms(3) handled show False by (auto simp: operation_at_def observation_at_def no_entry_def)
  qed
  with handled wf show thesis using that by simp
qed

lemma operation_entry:
  assumes "applyEvent env st ev = Inr st'" "state_ok st" "operation_at st i = None" "operation_at st' i \<noteq> None"
  obtains s p where "rs_snapshot st = Some s" "ev_body ev = OperationAdmitted p" "op_id p = i"
    "first_failure (validateOperationAdmission env (s\<lparr>sn_assignment_version := ev_assignment_version ev\<rparr>) p) = None"
    "operation_at st' i = Some (admitted_operation (ev_assignment_version ev) p)"
proof -
  obtain s t where s: "rs_snapshot st = Some s" "snapshot_wf s" "rs_snapshot st' = Some (withDerivedState t)"
      "handleEvent env st (s\<lparr>sn_assignment_version := ev_assignment_version ev\<rparr>) ev (ev_body ev) = Inr t"
      "brings_in (ev_body ev)"
    using entry_handled [OF assms(1,2)] assms(3,4) by metis
  let ?s = "s\<lparr>sn_assignment_version := ev_assignment_version ev\<rparr>"
  have old: "rget (sn_operations s) i = None" and new: "rget (sn_operations t) i \<noteq> None"
    using assms(3,4) s(1,3) by (simp_all add: operation_at_def)
  have no: "ev_body ev \<noteq> ObservationRetained ob" for ob
  proof
    assume b: "ev_body ev = ObservationRetained ob"
    have "operations_ok (sn_operations ?s)" using s(2) by (simp add: snapshot_wf_def)
    with retention_entry(1) [of env ?s _ _ ob t i] s(4) b old new show False by simp
  qed
  then obtain p where p: "ev_body ev = OperationAdmitted p"
    using s(5) by (cases "ev_body ev") (auto simp: brings_in_def)
  with s(4) have a: "admitOperation env ?s (ev_assignment_version ev) p = Inr t" by simp
  note e = admitOperation_effect [OF a]
  have k: "op_id (admitted_operation v p) = op_id p" for v by (simp add: admitted_operation_def)
  from e(2) old new have "op_id p = i"
    by (auto simp: set_unit_state_def put_operation_def k split: if_splits)
  then show thesis
    using that [OF s(1) p _ e(1)] s(3) e(2) by (simp add: operation_at_def set_unit_state_def put_operation_def k)
qed

lemma observation_entry:
  assumes "applyEvent env st ev = Inr st'" "state_ok st" "observation_at st i = None" "observation_at st' i \<noteq> None"
  obtains s ob p where "rs_snapshot st = Some s" "ev_body ev = ObservationRetained ob" "obs_id ob = i"
    "rget (sn_operations s) (obs_operation_id ob) = Some p"
    "first_failure (observation_checks (s\<lparr>sn_assignment_version := ev_assignment_version ev\<rparr>) p ob) = None"
    "observation_at st' i = Some ob"
proof -
  obtain s t where s: "rs_snapshot st = Some s" "snapshot_wf s" "rs_snapshot st' = Some (withDerivedState t)"
      "handleEvent env st (s\<lparr>sn_assignment_version := ev_assignment_version ev\<rparr>) ev (ev_body ev) = Inr t"
      "brings_in (ev_body ev)"
    using entry_handled [OF assms(1,2)] assms(3,4) by metis
  let ?s = "s\<lparr>sn_assignment_version := ev_assignment_version ev\<rparr>"
  have old: "rget (sn_observations s) i = None" and new: "rget (sn_observations t) i \<noteq> None"
    using assms(3,4) s(1,3) by (simp_all add: observation_at_def)
  have "ev_body ev \<noteq> OperationAdmitted p" for p
    using s(4) old new by (auto dest!: admitOperation_effect simp: set_unit_state_def put_operation_def)
  then obtain ob where b: "ev_body ev = ObservationRetained ob"
    using s(5) by (cases "ev_body ev") (auto simp: brings_in_def)
  with s(4) have r: "observationRetained env ?s (ev_occurred_at ev) (ev_assignment_version ev) ob = Inr t" by simp
  then obtain p where p: "rget (sn_operations s) (obs_operation_id ob) = Some p"
      "first_failure (observation_checks ?s p ob) = None"
    by (auto simp: observationRetained_def guard_simps split: option.splits)
  have "operations_ok (sn_operations ?s)" using s(2) by (simp add: snapshot_wf_def)
  from retention_entry(2) [OF r this, of i] old new have i: "obs_id ob = i" by simp
  moreover have "rget (sn_observations t) i = Some ob"
  proof -
    obtain ops vs units where "t = ?s\<lparr>sn_operations := ops, sn_observations := rput (obs_id ob) ob (sn_observations ?s),
        sn_observation_versions := vs, sn_work_unit_states := units\<rparr>"
      using observationRetained_effect [OF r, unfolded retention_effect_def] by blast
    then show ?thesis using i by simp
  qed
  ultimately show thesis using that [OF s(1) b i p] s(3) by (simp add: observation_at_def)
qed

end
