(* ===== verification/Journal.thy ===== *)
theory Journal
  imports Transitions
begin

text \<open>
  \<open>AssignmentJournalV2\<close> (\<open>reducer.ts\<close>): the append-only log of accepted events, its index by event
  identity and the reducer state after it, as values. A rejected event leaves the journal as it was; a repeated
  event is accepted once. That the mutable objects of the code, which forks partly share, may be read this way is shown in
  \<open>JournalObjects\<close>.
\<close>

record journal =
  j_events :: "event list"
  j_by_id :: "event krecord"
  j_state :: reducer_state

definition empty_journal :: journal where
  "empty_journal = \<lparr>j_events = [], j_by_id = [], j_state = initial_reducer_state\<rparr>"

definition same_event :: "kernel_env \<Rightarrow> event \<Rightarrow> event \<Rightarrow> bool" where
  "same_event env a b \<longleftrightarrow> canonicalEventText env a = canonicalEventText env b"

definition commit :: "event \<Rightarrow> reducer_state \<Rightarrow> journal \<Rightarrow> journal" where
  "commit ev st j = \<lparr>j_events = j_events j @ [ev], j_by_id = rput (ev_event_id ev) ev (j_by_id j), j_state = st\<rparr>"

text \<open>The constructor: an exception leaves no journal.\<close>

fun load :: "kernel_env \<Rightarrow> journal \<Rightarrow> event list \<Rightarrow> kernel_error + journal" where
  "load env j [] = Inr j"
| "load env j (ev # evs) = (case rget (j_by_id j) (ev_event_id ev) of
      Some existing \<Rightarrow> guard [(same_event env existing ev, ''assignment_event_id_conflict'')] (load env j evs)
    | None \<Rightarrow> kbind (applyEvent env (j_state j) ev) (\<lambda>st. load env (commit ev st j) evs))"

definition construct :: "kernel_env \<Rightarrow> event list \<Rightarrow> kernel_error + journal" where
  "construct env evs = load env empty_journal evs"

text \<open>\<open>append\<close> returns the snapshot or throws, and leaves the journal it leaves either way.\<close>

definition journal_append :: "kernel_env \<Rightarrow> journal \<Rightarrow> event \<Rightarrow> (kernel_error + snapshot) \<times> journal" where
  "journal_append env j ev = (case rget (j_by_id j) (ev_event_id ev) of
      Some existing \<Rightarrow>
        (guard [(same_event env existing ev, ''assignment_event_id_conflict'')] (current (j_state j)), j)
    | None \<Rightarrow> (case applyEvent env (j_state j) ev of
        Inl e \<Rightarrow> (Inl e, j)
      | Inr st \<Rightarrow> (current st, commit ev st j)))"

text \<open>\<open>fork\<close> rebuilds the index from the events and copies the state.\<close>

definition journal_fork :: "journal \<Rightarrow> journal" where
  "journal_fork j = \<lparr>j_events = j_events j,
     j_by_id = fold (\<lambda>ev. rput (ev_event_id ev) ev) (j_events j) [], j_state = j_state j\<rparr>"

definition journal_snapshot :: "journal \<Rightarrow> kernel_error + snapshot" where
  "journal_snapshot j = current (j_state j)"

section \<open>Well-formed journals\<close>

definition index_of :: "event list \<Rightarrow> event krecord" where
  "index_of evs = map (\<lambda>ev. (ev_event_id ev, ev)) evs"

definition journal_ok :: "kernel_env \<Rightarrow> journal \<Rightarrow> bool" where
  "journal_ok env j \<longleftrightarrow> applyEvents env initial_reducer_state (j_events j) = Inr (j_state j)
     \<and> j_by_id j = index_of (j_events j) \<and> distinct (map ev_event_id (j_events j))"

lemma rkeys_index: "rkeys (index_of evs) = map ev_event_id evs"
  by (simp add: rkeys_def index_of_def o_def)

lemma rget_index:
  "distinct (map ev_event_id evs) \<Longrightarrow> rget (index_of evs) i = Some ev \<longleftrightarrow> ev \<in> set evs \<and> ev_event_id ev = i"
  by (auto simp: index_of_def map_of_eq_Some_iff o_def)

lemma rget_index_None: "rget (index_of evs) i = None \<longleftrightarrow> i \<notin> ev_event_id ` set evs"
  by (simp add: map_of_eq_None_iff index_of_def image_image)

lemma journal_ok_empty: "journal_ok env empty_journal"
  by (simp add: journal_ok_def empty_journal_def index_of_def)

lemma journal_ok_commit:
  assumes "journal_ok env j" "rget (j_by_id j) (ev_event_id ev) = None" "applyEvent env (j_state j) ev = Inr st"
  shows "journal_ok env (commit ev st j)"
proof -
  have new: "ev_event_id ev \<notin> ev_event_id ` set (j_events j)"
    using assms(1,2) by (simp add: journal_ok_def rget_index_None)
  then have "rput (ev_event_id ev) ev (index_of (j_events j)) = index_of (j_events j @ [ev])"
    by (simp add: rput_new rkeys_index) (simp add: index_of_def)
  then show ?thesis
    using assms(1,3) new by (simp add: journal_ok_def commit_def kernel.run_snoc)
qed

lemma append_cases:
  assumes "journal_ok env j"
  obtains (repeated) existing where "existing \<in> set (j_events j)" "ev_event_id existing = ev_event_id ev"
      "journal_append env j ev = (guard [(same_event env existing ev, ''assignment_event_id_conflict'')] (current (j_state j)), j)"
    | (rejected) e where "journal_append env j ev = (Inl e, j)" "ev_event_id ev \<notin> ev_event_id ` set (j_events j)"
        "applyEvent env (j_state j) ev = Inl e"
    | (accepted) st where "journal_append env j ev = (current st, commit ev st j)" "applyEvent env (j_state j) ev = Inr st"
        "ev_event_id ev \<notin> ev_event_id ` set (j_events j)" "journal_ok env (commit ev st j)"
proof (cases "rget (j_by_id j) (ev_event_id ev)")
  case None
  have new: "ev_event_id ev \<notin> ev_event_id ` set (j_events j)"
    using assms None by (simp add: journal_ok_def rget_index_None)
  show thesis
  proof (cases "applyEvent env (j_state j) ev")
    case (Inl e)
    then show thesis using rejected new None by (simp add: journal_append_def)
  next
    case (Inr st)
    then show thesis using accepted new None journal_ok_commit [OF assms None] by (simp add: journal_append_def)
  qed
next
  case (Some existing)
  then have "existing \<in> set (j_events j)" "ev_event_id existing = ev_event_id ev"
    using assms rget_index by (auto simp: journal_ok_def)
  then show thesis using repeated Some by (simp add: journal_append_def)
qed

lemma append_ok: "journal_ok env j \<Longrightarrow> journal_ok env (snd (journal_append env j ev))"
  by (frule append_cases [where ev = ev]) auto

lemma load_ok:
  "load env j evs = Inr j' \<Longrightarrow> journal_ok env j \<Longrightarrow> journal_ok env j'"
proof (induction env j evs rule: load.induct)
  case (2 env j ev evs)
  then show ?case
    by (cases "rget (j_by_id j) (ev_event_id ev)") (auto simp: guard_simps journal_ok_commit)
qed simp

lemma fold_index:
  "distinct (map ev_event_id (xs @ evs)) \<Longrightarrow> fold (\<lambda>ev. rput (ev_event_id ev) ev) evs (index_of xs) = index_of (xs @ evs)"
proof (induction evs arbitrary: xs)
  case (Cons e evs)
  have "rput (ev_event_id e) e (index_of xs) = index_of (xs @ [e])"
    using Cons.prems by (simp add: rput_new rkeys_index) (simp add: index_of_def)
  then show ?case using Cons.IH [of "xs @ [e]"] Cons.prems by simp
qed simp

lemma fork_same: "journal_ok env j \<Longrightarrow> journal_fork j = j"
  using fold_index [of "[]" "j_events j"] by (simp add: journal_fork_def journal_ok_def index_of_def)

text \<open>Loading the events of a well-formed journal after those already there gives that journal.\<close>

lemma load_run:
  "distinct (map ev_event_id (j_events j @ evs)) \<Longrightarrow> j_by_id j = index_of (j_events j) \<Longrightarrow>
     applyEvents env (j_state j) evs = Inr st \<Longrightarrow>
     load env j evs = Inr \<lparr>j_events = j_events j @ evs, j_by_id = index_of (j_events j @ evs), j_state = st\<rparr>"
proof (induction evs arbitrary: j)
  case Nil
  then show ?case by simp
next
  case (Cons e evs)
  have new: "rget (j_by_id j) (ev_event_id e) = None"
    using Cons.prems by (simp add: rget_index_None)
  from Cons.prems(3) obtain u where u: "applyEvent env (j_state j) e = Inr u" "applyEvents env u evs = Inr st"
    by (auto simp: kbind_Inr_iff)
  have c: "rput (ev_event_id e) e (index_of (j_events j)) = index_of (j_events j @ [e])"
    using new Cons.prems(1,2) by (simp add: rput_new rkeys_index) (simp add: index_of_def)
  show ?case
    using Cons.IH [of "commit e u j"] Cons.prems u new c by (simp add: commit_def)
qed

lemma construct_roundtrip: "journal_ok env j \<Longrightarrow> construct env (j_events j) = Inr j"
  using load_run [of empty_journal "j_events j" env "j_state j"]
  by (simp add: journal_ok_def construct_def empty_journal_def index_of_def)

section \<open>The journals of the program\<close>

inductive journal_reachable :: "kernel_env \<Rightarrow> journal \<Rightarrow> bool" for env where
  constructed: "construct env evs = Inr j \<Longrightarrow> journal_reachable env j"
| appended: "journal_reachable env j \<Longrightarrow> journal_reachable env (snd (journal_append env j ev))"
| forked: "journal_reachable env j \<Longrightarrow> journal_reachable env (journal_fork j)"

lemma reachable_ok: "journal_reachable env j \<Longrightarrow> journal_ok env j"
proof (induction rule: journal_reachable.induct)
  case (constructed evs j)
  then show ?case using load_ok journal_ok_empty by (auto simp: construct_def)
qed (simp_all add: append_ok fork_same)

lemma reachable_history: "journal_reachable env j \<Longrightarrow> history env (j_events j) (j_state j)"
  using reachable_ok by (simp add: journal_ok_def history_iff)

end
