(* ===== verification/CriterionEvaluator.thy ===== *)
theory CriterionEvaluator
  imports Evaluation
begin

text \<open>
  \<open>criterion_evaluator.ts\<close> and the fact identities of \<open>observation.ts\<close>: the deterministic evaluator that
  computes a \<open>CriterionEvaluationV2\<close> from retained observations. The journal validates every evaluation
  again (theory \<open>Evaluation\<close>); the last section shows that it accepts what the evaluator computes.
\<close>

section \<open>Fact identities\<close>

fun scalar_json :: "fact_scalar \<Rightarrow> json" where
  "scalar_json (FStr t) = JStr t"
| "scalar_json (FNum q) = JNum q"
| "scalar_json (FBool b) = JBool b"
| "scalar_json FNull = JNull"

fun fact_value_json :: "fact_value \<Rightarrow> json" where
  "fact_value_json (FOne v) = scalar_json v"
| "fact_value_json (FMany vs) = JArr (map scalar_json vs)"

definition text_or_null :: "string option \<Rightarrow> json" where
  "text_or_null t = (case t of None \<Rightarrow> JNull | Some v \<Rightarrow> JStr v)"

definition dimensions_of :: "semantic_fact \<Rightarrow> scope" where
  "dimensions_of f = (case fact_dimensions f of None \<Rightarrow> [] | Some d \<Rightarrow> d)"

definition identity_dimensions_of :: "semantic_fact \<Rightarrow> string list" where
  "identity_dimensions_of f = unique_sorted
     (case (fact_cardinality_of f, fact_identity_dimensions f) of
        (Some CardMany, Some ds) \<Rightarrow> ds
      | _ \<Rightarrow> rkeys (dimensions_of f))"

text \<open>
  The object \<open>semanticFactIdentityV2\<close> writes as canonical text, with its keys in ordinal order and the
  undefined \<open>member_value\<close> left out. Identities are compared as values.
\<close>

definition semanticFactIdentityV2 :: "semantic_fact \<Rightarrow> json" where
  "semanticFactIdentityV2 f =
     (let many = (fact_cardinality_of f = Some CardMany); ds = identity_dimensions_of f in
      JObj ([(''cardinality'', JStr (if many then ''many'' else ''one'')),
             (''dimensions'', JObj (map (\<lambda>k. (k, case rget (dimensions_of f) k of None \<Rightarrow> JNull | Some v \<Rightarrow> scalar_json v)) ds)),
             (''fact_id'', JStr (fact_id f))]
        @ (if many \<and> ds = [] then [(''member_value'', fact_value_json (fact_value_of f))] else [])
        @ [(''target_id'', text_or_null (fact_target_id f))]))"

definition fact_key :: "semantic_fact \<Rightarrow> json \<times> json \<times> json" where
  "fact_key f = (semanticFactIdentityV2 f, fact_value_json (fact_value_of f), text_or_null (fact_unit f))"

text \<open>Equal facts are kept once, at their first position.\<close>

fun without_repeats :: "(json \<times> json \<times> json) set \<Rightarrow> semantic_fact list \<Rightarrow> semantic_fact list" where
  "without_repeats seen [] = []"
| "without_repeats seen (f # fs) =
     (if fact_key f \<in> seen then without_repeats seen fs else f # without_repeats (insert (fact_key f) seen) fs)"

definition normalizeSemanticFactSetV2 :: "semantic_fact list \<Rightarrow> semantic_fact list" where
  "normalizeSemanticFactSetV2 fs = without_repeats {} fs"

section \<open>The evaluator\<close>

definition comparisonIdentity :: "desired_state_comparison \<Rightarrow> json" where
  "comparisonIdentity c = semanticFactIdentityV2 \<lparr>fact_id = dsc_fact_id c, fact_class_of = None,
     fact_value_of = FOne FNull, fact_cardinality_of = None, fact_dimensions = dsc_dimensions c,
     fact_identity_dimensions = None, fact_unit = None, fact_target_id = dsc_target_id c\<rparr>"

fun known_observations :: "snapshot \<Rightarrow> string list \<Rightarrow> observation list option" where
  "known_observations s [] = Some []"
| "known_observations s (i # ids) = (case rget (sn_observations s) i of
     None \<Rightarrow> None
   | Some ob \<Rightarrow> map_option ((#) ob) (known_observations s ids))"

definition admission_of :: "snapshot \<Rightarrow> criterion_spec \<Rightarrow> string \<Rightarrow> evaluation_basis \<Rightarrow> observation \<Rightarrow> observation_admissibility" where
  "admission_of s c now basis ob = observationAdmissibilityForCriterionV2 s c ob (Some now) (Some basis)"

definition admitted_observations ::
  "snapshot \<Rightarrow> criterion_spec \<Rightarrow> string \<Rightarrow> evaluation_basis \<Rightarrow> observation list \<Rightarrow> observation list" where
  "admitted_observations s c now basis obs = filter (\<lambda>ob. adm_admissible (admission_of s c now basis ob)) obs"

definition admitted_facts ::
  "snapshot \<Rightarrow> criterion_spec \<Rightarrow> string \<Rightarrow> evaluation_basis \<Rightarrow> observation list \<Rightarrow> (observation \<times> semantic_fact) list" where
  "admitted_facts s c now basis obs = concat (map (\<lambda>ob. map (\<lambda>f. (ob, f)) (adm_supporting_facts (admission_of s c now basis ob)))
     (admitted_observations s c now basis obs))"

text \<open>The map \<open>byIdentity\<close> and the flag \<open>contradiction\<close>, fact by fact.\<close>

fun fold_identities :: "semantic_fact list \<Rightarrow> (json \<times> json) list \<Rightarrow> bool \<Rightarrow> (json \<times> json) list \<times> bool" where
  "fold_identities [] m contradiction = (m, contradiction)"
| "fold_identities (f # fs) m contradiction =
     (let i = semanticFactIdentityV2 f; v = fact_value_json (fact_value_of f) in
      fold_identities fs (AList.update i v m)
        (contradiction \<or> (case map_of m i of None \<Rightarrow> False | Some previous \<Rightarrow> previous \<noteq> v)))"

definition desired_state_holds :: "snapshot \<Rightarrow> (json \<times> json) list \<Rightarrow> desired_state_comparison \<Rightarrow> bool" where
  "desired_state_holds s m c = (case rget (sn_input_values s) (dsc_input_variable_id c) of
     None \<Rightarrow> False
   | Some v \<Rightarrow> map_of m (comparisonIdentity c) = Some (canonicalJsonV2 v))"

definition comparisons_of :: "criterion_spec \<Rightarrow> desired_state_comparison list" where
  "comparisons_of c = (case cs_desired_state_comparisons c of None \<Rightarrow> [] | Some xs \<Rightarrow> xs)"

definition evaluated_status ::
  "snapshot \<Rightarrow> criterion_spec \<Rightarrow> evaluation_basis \<Rightarrow> semantic_fact list \<Rightarrow> criterion_status" where
  "evaluated_status s c basis fs =
     (let (m, contradiction) = fold_identities fs [] False;
          present = list_all (\<lambda>r. list_ex (\<lambda>f. fact_id f = r) fs) (cs_semantic_fact_requirements c);
          matches = (basis = DesiredStateEquivalence \<longrightarrow> list_all (desired_state_holds s m) (comparisons_of c)) in
      if contradiction then CsUncertain
      else if present \<and> matches \<and> basis = ObservationBasis \<and> cs_required c
         \<and> cs_semantic_fact_requirements c = [''task.result_available''] \<and> verifiedSavedPartialV2 s then CsPartial
      else if present \<and> matches then CsPass else CsUncertain)"

definition evaluation_reason ::
  "snapshot \<Rightarrow> criterion_spec \<Rightarrow> evaluation_basis \<Rightarrow> observation list \<Rightarrow> semantic_fact list \<Rightarrow> string" where
  "evaluation_reason s c basis obs fs =
     (if snd (fold_identities fs [] False) then ''Authoritative observations disagree for the same semantic fact identity.''
      else if obs = [] then ''No Observation satisfies the criterion's typed evidence-admissibility policy.''
      else if \<not> list_all (\<lambda>r. list_ex (\<lambda>f. fact_id f = r) fs) (cs_semantic_fact_requirements c)
        then ''One or more required semantic facts are absent.''
      else if evaluated_status s c basis fs = CsUncertain
        then ''Observed state does not establish the authenticated desired state.''
      else if evaluated_status s c basis fs = CsPartial
        then ''The completed subset has native verification, current inspection and a verified saved artifact. Explicitly deferred scope remains unfinished; this is partial delivery, not completion of that scope.''
      else ''All required semantic facts are authoritatively supported.'')"

definition evaluateCriterionV2 ::
  "snapshot \<Rightarrow> string \<Rightarrow> string list \<Rightarrow> string \<Rightarrow> string \<Rightarrow> evaluation_basis option \<Rightarrow> kernel_error + criterion_evaluation" where
  "evaluateCriterionV2 s i observation_ids authority now chosen =
     (case find_criterion s i of
        None \<Rightarrow> Inl ''criterion_unknown''
      | Some c \<Rightarrow>
          if authority \<notin> set (cs_accepted_evaluator_authority_ids c) then Inl ''criterion_evaluator_untrusted''
          else (case known_observations s observation_ids of
            None \<Rightarrow> Inl ''criterion_observation_unknown''
          | Some proposed \<Rightarrow>
              (let basis = (case chosen of None \<Rightarrow> ObservationBasis | Some b \<Rightarrow> b);
                   obs = admitted_observations s c now basis proposed; facts = admitted_facts s c now basis proposed in
               if basis = DesiredStateEquivalence \<and> comparisons_of c = []
               then Inl ''criterion_desired_state_contract_missing''
               else Inr \<lparr>ce_criterion_id = cs_criterion_id c, ce_status = evaluated_status s c basis (map snd facts),
                 ce_basis = basis, ce_supporting_operation_ids = unique_sorted (map obs_operation_id obs),
                 ce_supporting_facts = map (\<lambda>(ob, f). \<lparr>fr_observation_id = obs_id ob, fr_fact_id = fact_id f\<rparr>)
                   (filter (\<lambda>(ob, f). fact_id f \<in> set (cs_semantic_fact_requirements c)) facts),
                 ce_evaluator_authority = authority,
                 ce_reason = evaluation_reason s c basis obs (map snd facts), ce_evaluated_at = now\<rparr>)))"

section \<open>Lemmas\<close>

lemma without_repeats_subset: "set (without_repeats seen fs) \<subseteq> set fs"
  by (induction seen fs rule: without_repeats.induct) auto

lemma without_repeats_keys:
  "distinct (map fact_key (without_repeats seen fs)) \<and> fact_key ` set (without_repeats seen fs) = fact_key ` set fs - seen"
  by (induction seen fs rule: without_repeats.induct) auto

lemma without_repeats_idem:
  "fact_key ` set fs \<inter> seen = {} \<Longrightarrow> distinct (map fact_key fs) \<Longrightarrow> without_repeats seen fs = fs"
  by (induction fs arbitrary: seen) auto

text \<open>The known identities are those of the facts seen, and without a contradiction each has one value.\<close>

lemma fold_identities_values:
  assumes "fold_identities fs m b = (m', False)"
  shows "\<not> b \<and> (\<forall>f \<in> set fs. map_of m' (semanticFactIdentityV2 f) = Some (fact_value_json (fact_value_of f)))
    \<and> (\<forall>k v. map_of m k = Some v \<longrightarrow> map_of m' k = Some v)"
  using assms
proof (induction fs m b rule: fold_identities.induct)
  case (2 f fs m b)
  let ?i = "semanticFactIdentityV2 f" and ?v = "fact_value_json (fact_value_of f)"
  from 2 have ih: "\<not> (b \<or> (case map_of m ?i of None \<Rightarrow> False | Some w \<Rightarrow> w \<noteq> ?v))"
    "\<forall>g \<in> set fs. map_of m' (semanticFactIdentityV2 g) = Some (fact_value_json (fact_value_of g))"
    "\<forall>k v. map_of (AList.update ?i ?v m) k = Some v \<longrightarrow> map_of m' k = Some v"
    by (auto simp: Let_def)
  have "map_of m k = Some w \<Longrightarrow> map_of (AList.update ?i ?v m) k = Some w" for k w
    using ih(1) by (auto simp: update_conv split: option.splits)
  with ih show ?case by (auto simp: update_conv)
qed simp

lemma known_observations_get:
  "known_observations s ids = Some obs \<Longrightarrow> ob \<in> set obs \<Longrightarrow> \<exists>i \<in> set ids. rget (sn_observations s) i = Some ob"
  by (induction ids arbitrary: obs) (fastforce split: option.splits)+

lemma supporting_facts_retained: "set (adm_supporting_facts (admission_of s c now basis ob)) \<subseteq> set (obs_facts ob)"
  by (auto simp: admission_of_def observationAdmissibilityForCriterionV2_def denied_def split: option.split)

lemma admitted_supporting:
  assumes "(ob, f) \<in> set (admitted_facts s c now basis obs)"
  shows "ob \<in> set obs \<and> adm_admissible (admission_of s c now basis ob) \<and> f \<in> set (obs_facts ob)"
  using assms supporting_facts_retained by (fastforce simp: admitted_facts_def admitted_observations_def)

text \<open>What the evaluator returns.\<close>

lemma evaluateCriterionV2_Inr:
  assumes "evaluateCriterionV2 s i ids authority now chosen = Inr e"
  obtains c obs where "find_criterion s i = Some c" "known_observations s ids = Some obs"
    "authority \<in> set (cs_accepted_evaluator_authority_ids c)" "ce_criterion_id e = cs_criterion_id c"
    "ce_evaluator_authority e = authority" "ce_evaluated_at e = now"
    "ce_status e = evaluated_status s c (ce_basis e) (map snd (admitted_facts s c now (ce_basis e) obs))"
    "ce_supporting_operation_ids e = unique_sorted (map obs_operation_id (admitted_observations s c now (ce_basis e) obs))"
    "ce_supporting_facts e = map (\<lambda>(ob, f). \<lparr>fr_observation_id = obs_id ob, fr_fact_id = fact_id f\<rparr>)
       (filter (\<lambda>(ob, f). fact_id f \<in> set (cs_semantic_fact_requirements c)) (admitted_facts s c now (ce_basis e) obs))"
  using assms by (auto simp: evaluateCriterionV2_def Let_def split: option.splits if_splits)

lemma evaluated_pass_present:
  assumes "evaluated_status s c basis fs = CsPass"
  shows "set (cs_semantic_fact_requirements c) \<subseteq> fact_id ` set fs"
  using assms by (force simp: evaluated_status_def Let_def list_all_iff list_ex_iff split: prod.splits if_splits)

text \<open>An evaluation passes only when the admitted facts agree on every identity.\<close>

lemma evaluated_pass_agrees:
  assumes "evaluated_status s c basis fs = CsPass" "f \<in> set fs" "g \<in> set fs"
    "semanticFactIdentityV2 f = semanticFactIdentityV2 g"
  shows "fact_value_json (fact_value_of f) = fact_value_json (fact_value_of g)"
proof -
  obtain m where "fold_identities fs [] False = (m, False)"
    using assms(1) by (cases "fold_identities fs [] False") (auto simp: evaluated_status_def Let_def split: if_splits)
  from fold_identities_values [OF this] assms(2-4) show ?thesis by (metis option.inject)
qed

section \<open>The journal accepts what the evaluator computes\<close>

definition observations_keyed :: "snapshot \<Rightarrow> bool" where
  "observations_keyed s \<longleftrightarrow> (\<forall>k ob. rget (sn_observations s) k = Some ob \<longrightarrow> obs_id ob = k)"

lemma evaluator_accepted:
  assumes "evaluateCriterionV2 s i ids authority now chosen = Inr e" "observations_keyed s"
    and c: "find_criterion s i = Some c" "cs_semantic_fact_requirements c \<noteq> []"
    and basis: "ce_basis e = ObservationBasis"
    and trusted: "\<forall>k \<in> set ids. \<forall>ob. rget (sn_observations s) k = Some ob \<longrightarrow>
      obs_authority ob \<in> set (cs_accepted_observation_authority_ids c)"
    and pending: "\<not> (ce_status e = CsPass \<and> sp_requested_effect (sn_spec s) = ApplyEffect \<and> workPlanPendingV2 s
      \<and> whole_result_criterion c)"
  shows "first_failure (validateCriterionEvaluation s e) = None"
proof -
  obtain obs where e: "known_observations s ids = Some obs"
      "authority \<in> set (cs_accepted_evaluator_authority_ids c)" "ce_criterion_id e = cs_criterion_id c"
      "ce_evaluator_authority e = authority" "ce_evaluated_at e = now"
      "ce_status e = evaluated_status s c (ce_basis e) (map snd (admitted_facts s c now (ce_basis e) obs))"
      "ce_supporting_operation_ids e = unique_sorted (map obs_operation_id (admitted_observations s c now (ce_basis e) obs))"
      "ce_supporting_facts e = map (\<lambda>(ob, f). \<lparr>fr_observation_id = obs_id ob, fr_fact_id = fact_id f\<rparr>)
         (filter (\<lambda>(ob, f). fact_id f \<in> set (cs_semantic_fact_requirements c)) (admitted_facts s c now (ce_basis e) obs))"
    using assms(1) c(1) by (auto elim: evaluateCriterionV2_Inr)
  let ?facts = "admitted_facts s c now (ce_basis e) obs"
  have id: "cs_criterion_id c = i" "find_criterion s (ce_criterion_id e) = Some c"
    using c(1) e(3) by (auto simp: find_criterion_def find_Some_iff)
  have known: "rget (sn_observations s) (obs_id ob) = Some ob
      \<and> obs_authority ob \<in> set (cs_accepted_observation_authority_ids c)" if "ob \<in> set obs" for ob
    using known_observations_get [OF e(1) that] assms(2) trusted by (auto simp: observations_keyed_def)
  have settled: "\<forall>k \<in> set (ce_supporting_operation_ids e). cited_settled s k"
    by (auto simp: e(7) cited_settled_def admitted_observations_def admission_of_def dest!: admissible_settled split: option.splits)
  have cited: "\<forall>f \<in> set (ce_supporting_facts e). first_failure (cited_fact_checks s c e f) = None"
    using known by (auto simp: e(7,8) cited_fact_checks_def list_ex_iff admitted_observations_def image_iff
        dest!: admitted_supporting split: option.splits)
  have evidence: "first_failure (evidence_checks s c e) = None"
    using known by (auto simp: evidence_checks_def first_failure_None_iff evidence_admitted_def e(5,8) admission_of_def
        dest!: admitted_supporting)
  have pass: "first_failure (pass_checks c e) = None"
  proof (cases "ce_status e = CsPass")
    case True
    then have present: "set (cs_semantic_fact_requirements c) \<subseteq> fact_id ` snd ` set ?facts"
      using evaluated_pass_present e(6) by (metis list.set_map)
    then have "set (cs_semantic_fact_requirements c) \<subseteq> fr_fact_id ` set (ce_supporting_facts e)"
      by (force simp: e(8))
    moreover from this c(2) have "ce_supporting_facts e \<noteq> []" by (cases "cs_semantic_fact_requirements c") auto
    ultimately show ?thesis
      using True by (auto simp: pass_checks_def first_failure_append_None first_failure_None_iff)
  qed (simp add: pass_checks_def)
  have facts: "first_failure (concat (map (cited_fact_checks s c e) (ce_supporting_facts e))) = None"
    using cited by (induction "ce_supporting_facts e") (auto simp: first_failure_None_iff)
  show ?thesis
    using id e(2,4) settled facts evidence pass pending basis
    by (auto simp: validateCriterionEvaluation_def first_failure_append_None noop_checks_def first_failure_None_iff)
qed

end
