(* ===== verification/Samples.thy ===== *)
theory Samples
  imports Journal CriterionEvaluator
begin

text \<open>
  One concrete assignment, used to show that the hypotheses of the properties can hold: an environment
  whose contract functions are the simplest concrete ones, and the events of an apply assignment with
  one edit: its admission, native dispatch, result and observation, the same for the read that verifies
  it, the passing evaluation and the terminal event.
\<close>

definition sample_env :: kernel_env where
  "sample_env = \<lparr>sha256 = (\<lambda>t. t), locale_less_eq = (\<lambda>a b. a \<le> b), number_text = (\<lambda>q. int_text \<lfloor>q\<rfloor>),
     canonicalEventText = ev_occurred_at\<rparr>"

definition sample_binding :: binding where
  "sample_binding = \<lparr>b_assignment_id = ''a1'', b_run_id = ''r1'', b_generation = 1, b_session_id = ''s1'',
     b_principal_id = ''p1'', b_document_fingerprint = Some ''d''\<rparr>"

definition sample_criterion :: criterion_spec where
  "sample_criterion = \<lparr>cs_criterion_id = ''c1'', cs_requirement = ''q'', cs_required = True,
     cs_semantic_fact_requirements = [''f''], cs_accepted_evaluator_authority_ids = [''m''],
     cs_accepted_observation_authority_ids = [''native-host''], cs_evidence_policy = None,
     cs_desired_state_comparisons = None\<rparr>"

definition sample_unit :: work_unit_spec where
  "sample_unit = \<lparr>wu_id = ''u1'', wu_requested_effect = ApplyEffect, wu_execution_class = Independent,
     wu_dependency_ids = [], wu_criterion_ids = [''c1''], wu_input_variable_ids = [], wu_independently_useful = True,
     wu_safe_to_retain = True, wu_rollback_scope = RollbackOperation\<rparr>"

definition sample_verification_unit :: work_unit_spec where
  "sample_verification_unit = sample_unit\<lparr>wu_id := ''work-verification'', wu_requested_effect := ReadEffect,
     wu_execution_class := Analysis, wu_criterion_ids := []\<rparr>"

definition sample_spec :: assignment_spec where
  "sample_spec = \<lparr>sp_binding = sample_binding, sp_source_user_request = ''q'',
     sp_requested_effect = ApplyEffect, sp_semantic_evidence_contract = None, sp_interpreted_scope = None,
     sp_result_delivery_required = False, sp_result_assessment_required = False, sp_work_plan_required = False,
     sp_work_plan_min_items = None, sp_execution_policy = None, sp_criteria = [sample_criterion],
     sp_input_variables = [], sp_work_units = [sample_unit, sample_verification_unit], sp_authorization_policy_id = ''z'',
     sp_deviation_policy_id = None, sp_target_binding = None, sp_created_at = ''t''\<rparr>"

definition sample_operation :: operation where
  "sample_operation = \<lparr>op_id = ''o1'', op_binding = sample_binding, op_work_unit_id = ''u1'',
     op_capability_id = ''k'', op_requested_effect = ApplyEffect, op_purpose = Work, op_role = Some RootRole,
     op_fulfillment_role = Some DelegatedTaskExecution, op_delegation_authority_id = Some ''l'', op_parent_id = None,
     op_root_id = None, op_blocks_parent_settlement = None, op_request_identity = None,
     op_advances_criterion_ids = [''c1''], op_eligible_criterion_ids = Some [''c1''], op_resolves_gap_ids = [],
     op_target = \<lparr>tg_target_id = Some ''g'', tg_target_kind = Some ''n'', tg_document_fingerprint = Some ''d'',
       tg_semantic_scope = None\<rparr>, op_input = [],
     op_verification_of = None, op_retry_of = None, op_retry_basis = None, op_retry_after = None,
     op_checkpoint_of = None, op_checkpoint_after = None, op_reassignment_of = None, op_reassignment_after = None,
     op_filter_restoration_of = None, op_filter_restoration_after = None, op_reconciliation_of = None,
     op_opened_at = ''t'', op_deadline_at = ''t'',
     op_admission_state = Admitted, op_dispatch_state = NotDispatched, op_persistent_effect = NoEffect,
     op_settlement_state = SettleOpen, op_result = None, op_native_completion_reconciliation = None,
     op_native_failure_context = None, op_native_inventory_workload = None, op_native_template_state = None,
     op_native_schedule_filter_state = None, op_observation_commit = None, op_observation_commit_attempts = None,
     op_observation_ids = [], op_verification_operation_ids = [], op_admitted_version = None,
     op_settled_version = None, op_dispatch_started_at = None, op_dispatched_at = None, op_dispatch_authority = None,
     op_settled_at = None, op_observation_retention_error = None\<rparr>"

definition sample_result :: operation_result where
  "sample_result = \<lparr>r_result_id = ''res1'', r_operation_id = ''o1'', r_binding = sample_binding, r_status = Succeeded,
     r_dispatch_state = Dispatched, r_persistent_effect = AppliedEffect, r_native_transaction_state = TxCommitted,
     r_native_artifact_receipt = None, r_authority = ''native-host'', r_result_schema_id = ''v'',
     r_observation_required = True, r_raw_payload_hash = Some ''h1'', r_payload_provenance = None,
     r_affected_target_identities = Some [''g''], r_receipt_id = None, r_native_correlation_id = None,
     r_completed_at = ''t'', r_error_code = None, r_diagnostics = None, r_request_identity = None,
     r_input_schema_gap = None, r_result_semantic_gap = None\<rparr>"

definition sample_fact :: semantic_fact where
  "sample_fact = \<lparr>fact_id = ''f'', fact_class_of = Some DomainFact, fact_value_of = FOne (FStr ''x''),
     fact_cardinality_of = None, fact_dimensions = None, fact_identity_dimensions = None, fact_unit = None,
     fact_target_id = Some ''g''\<rparr>"

definition sample_observation :: observation where
  "sample_observation = \<lparr>obs_id = ''ob1'', obs_operation_id = ''o1'', obs_fulfillment_role = Some DelegatedTaskExecution,
     obs_evidence_class = Some TaskResultEvidence, obs_capability_id = Some ''k'',
     obs_eligible_criterion_ids = Some [''c1''], obs_binding = sample_binding, obs_authority = ''native-host'',
     obs_result_schema_id = ''v'', obs_raw_payload_ref = ''b'', obs_raw_payload_hash = ''h1'',
     obs_payload_provenance = None, obs_facts = [sample_fact], obs_target_scope = [],
     obs_observed_at = ''t'', obs_freshness_deadline = None, obs_before_observation_id = None,
     obs_after_observation_id = None, obs_verification_relevance = []\<rparr>"

definition sample_read :: operation where
  "sample_read = sample_operation\<lparr>op_id := ''o2'', op_work_unit_id := ''work-verification'',
     op_capability_id := ''i'', op_requested_effect := ReadEffect, op_purpose := Verification,
     op_fulfillment_role := Some VerificationFulfillment, op_advances_criterion_ids := [],
     op_eligible_criterion_ids := Some [], op_resolves_gap_ids := [''verification:o1''], op_verification_of := Some ''o1''\<rparr>"

definition sample_read_result :: operation_result where
  "sample_read_result = sample_result\<lparr>r_result_id := ''res2'', r_operation_id := ''o2'', r_persistent_effect := NoEffect,
     r_native_transaction_state := TxNotApplicable, r_result_schema_id := ''w'',
     r_raw_payload_hash := Some ''h2'', r_affected_target_identities := None\<rparr>"

definition sample_postcondition :: semantic_fact where
  "sample_postcondition = sample_fact\<lparr>fact_id := ''verification.postcondition_satisfied'',
     fact_class_of := Some VerificationFact, fact_value_of := FOne (FBool True)\<rparr>"

definition sample_read_observation :: observation where
  "sample_read_observation = sample_observation\<lparr>obs_id := ''ob2'', obs_operation_id := ''o2'',
     obs_fulfillment_role := Some VerificationFulfillment, obs_evidence_class := Some VerificationEvidence,
     obs_capability_id := Some ''i'', obs_eligible_criterion_ids := Some [],
     obs_result_schema_id := ''w'', obs_raw_payload_hash := ''h2'', obs_facts := [sample_postcondition]\<rparr>"

definition sample_evaluation :: criterion_evaluation where
  "sample_evaluation = \<lparr>ce_criterion_id = ''c1'', ce_status = CsPass, ce_basis = ObservationBasis,
     ce_supporting_operation_ids = [''o1''],
     ce_supporting_facts = [\<lparr>fr_observation_id = ''ob1'', fr_fact_id = ''f''\<rparr>],
     ce_evaluator_authority = ''m'', ce_reason = ''y'',
     ce_evaluated_at = ''t''\<rparr>"

text \<open>An event of the sample assignment; its identity and its version come from its position.\<close>

definition sample_event :: "nat \<Rightarrow> event_body \<Rightarrow> event" where
  "sample_event n b = \<lparr>ev_event_id = replicate n (CHR ''e''), ev_assignment_id = ''a1'', ev_assignment_version = int n,
     ev_binding = sample_binding, ev_occurred_at = ''t'', ev_actor = ''operator-work-plan'', ev_body = b\<rparr>"

definition sample_events :: "event list" where
  "sample_events = [sample_event 1 (AssignmentCreated sample_spec),
     sample_event 2 (OperationAdmitted sample_operation), sample_event 3 (NativeDispatchRecorded ''o1''),
     sample_event 4 (OperationResultRecorded sample_result None), sample_event 5 (ObservationRetained sample_observation),
     sample_event 6 (CriterionEvaluated sample_evaluation),
     sample_event 7 (OperationAdmitted sample_read), sample_event 8 (NativeDispatchRecorded ''o2''),
     sample_event 9 (OperationResultRecorded sample_read_result None),
     sample_event 10 (ObservationRetained sample_read_observation), sample_event 11 (AssignmentTerminal Complete ''done'')]"

text \<open>
  Two variations: in the first the verifying read fails before its dispatch and is retried; in the second the
  assignment is created under the semantic-evidence contract and ends before the evaluation.
\<close>

definition failed_read_result :: operation_result where
  "failed_read_result = sample_read_result\<lparr>r_status := FailedBeforeDispatch, r_dispatch_state := NotDispatched,
     r_observation_required := False, r_raw_payload_hash := None, r_native_correlation_id := Some ''n'',
     r_error_code := Some ''x''\<rparr>"

definition retried_read :: operation where
  "retried_read = sample_read\<lparr>op_id := ''o3'', op_retry_of := Some ''o2'', op_retry_basis := Some NativePreDispatchRead\<rparr>"

definition retry_events :: "event list" where
  "retry_events = take 7 sample_events @ [sample_event 8 (OperationResultRecorded failed_read_result None),
     sample_event 9 (OperationAdmitted retried_read)]"

definition sample_policy :: criterion_evidence_policy where
  "sample_policy = \<lparr>cep_schema = CRITERION_EVIDENCE_POLICY_V2_SCHEMA,
     cep_allowed_evidence_classes = [TaskResultEvidence],
     cep_allowed_fulfillment_roles = [DelegatedTaskExecution], cep_allowed_fact_classes = [DomainFact],
     cep_allowed_capability_ids = [], cep_allowed_result_schema_ids = [], cep_required_fact_ids = [''f''],
     cep_require_native_dispatch = True, cep_require_current_generation = True\<rparr>"

definition sample_policed :: criterion_spec where
  "sample_policed = sample_criterion\<lparr>cs_evidence_policy := Some sample_policy\<rparr>"

definition policed_spec :: assignment_spec where
  "policed_spec = sample_spec\<lparr>sp_semantic_evidence_contract := Some SEMANTIC_EVIDENCE_CONTRACT_V2,
     sp_criteria := [sample_policed]\<rparr>"

definition policed_events :: "event list" where
  "policed_events = sample_event 1 (AssignmentCreated policed_spec) # drop 1 (take 5 sample_events)"

text \<open>An operation with a child, and a result the controller gives for a dispatched operation.\<close>

definition sample_child :: operation where
  "sample_child = sample_operation\<lparr>op_id := ''o2'', op_role := Some ChildRole, op_parent_id := Some ''o1'', op_root_id := Some ''o1''\<rparr>"

definition family_events :: "event list" where
  "family_events = take 2 sample_events @ [sample_event 3 (OperationAdmitted sample_child)]"

definition controller_result :: operation_result where
  "controller_result = sample_result\<lparr>r_status := CompletedWithoutNativeDispatch, r_dispatch_state := NotDispatched,
     r_persistent_effect := NoEffect, r_native_transaction_state := TxNotApplicable, r_authority := ''controller'',
     r_observation_required := False, r_raw_payload_hash := None, r_affected_target_identities := None\<rparr>"

section \<open>Their evaluation\<close>

definition run_check :: "event list \<Rightarrow> (snapshot \<Rightarrow> bool) \<Rightarrow> bool" where
  "run_check evs P = (case applyEvents sample_env initial_reducer_state evs of
      Inl e \<Rightarrow> False
    | Inr st \<Rightarrow> (case rs_snapshot st of None \<Rightarrow> False | Some s \<Rightarrow> P s))"

definition sample_check :: "nat \<Rightarrow> (snapshot \<Rightarrow> bool) \<Rightarrow> bool" where
  "sample_check n P = run_check (take n sample_events) P"

definition operation_is :: "snapshot \<Rightarrow> string \<Rightarrow> (operation \<Rightarrow> bool) \<Rightarrow> bool" where
  "operation_is s i P = (case rget (sn_operations s) i of None \<Rightarrow> False | Some p \<Rightarrow> P p)"

text \<open>All sample runs are evaluated in one proof, which prepares the code equations once.\<close>

lemma sample_runs:
  "sample_check 3 (\<lambda>s. operation_is s ''o1'' (\<lambda>p. op_persistent_effect p = UnknownEffect \<and> op_dispatch_state p = Dispatched
       \<and> op_settlement_state p = AwaitingResult \<and> op_result p = None))"
  "sample_check 11 (\<lambda>s. sn_terminal s \<and> sn_outcome s = Complete
     \<and> operation_is s ''o1'' (\<lambda>p. op_settlement_state p = Settled \<and> op_persistent_effect p = AppliedEffect)
     \<and> operation_is s ''o2'' (\<lambda>p. op_requested_effect p = ReadEffect)
     \<and> rhas (sn_observations s) ''ob1'')"
  "run_check retry_events (\<lambda>s. operation_is s ''o3'' (\<lambda>p. op_retry_of p = Some ''o2''
     \<and> op_retry_basis p = Some NativePreDispatchRead))"
  "run_check policed_events (\<lambda>s. find_criterion s ''c1'' = Some sample_policed \<and> \<not> workPlanPendingV2 s
     \<and> rget (sn_observations s) ''ob1'' = Some sample_observation
     \<and> (case evaluateCriterionV2 s ''c1'' [''ob1''] ''m'' ''t'' None of Inl e \<Rightarrow> False
        | Inr e \<Rightarrow> ce_status e = CsPass \<and> ce_basis e = ObservationBasis))"
  "run_check family_events (\<lambda>s. rget (sn_operations s) [] = None
     \<and> map (\<lambda>p. (op_id p, op_parent_id p)) (rvals (sn_operations s)) = [(''o1'', None), (''o2'', Some ''o1'')]
     \<and> sn_in_flight_operation_ids s = [''o1'', ''o2''])"
  "run_check (take 3 sample_events @ [sample_event 4 (OperationResultRecorded controller_result None)])
     (\<lambda>s. operation_is s ''o1'' (\<lambda>p. op_requested_effect p = ApplyEffect \<and> op_dispatched_at p \<noteq> None
        \<and> op_settlement_state p = Settled \<and> op_persistent_effect p = NoEffect)
      \<and> sn_unresolved_unknown_operation_ids s = [])"
  by code_simp+

lemmas sample_dispatched = sample_runs(1)
lemmas sample_complete = sample_runs(2)
lemmas retry_run = sample_runs(3)
lemmas policed_run = sample_runs(4)
lemmas family_run = sample_runs(5)
lemmas cleared_run = sample_runs(6)

lemma run_checkD:
  assumes "run_check evs P"
  obtains st s where "history sample_env evs st" "rs_snapshot st = Some s" "P s"
  using assms by (auto simp: run_check_def history_iff split: sum.splits option.splits)

lemma sample_checkD:
  assumes "sample_check n P"
  obtains st s where "history sample_env (take n sample_events) st" "rs_snapshot st = Some s" "P s"
  using assms unfolding sample_check_def by (rule run_checkD)

lemma operation_isD:
  assumes "operation_is s i P"
  obtains p where "rget (sn_operations s) i = Some p" "P p"
  using assms by (auto simp: operation_is_def split: option.splits)

lemma sample_events_split: "take 11 sample_events = take 3 sample_events @ drop 3 sample_events"
  by (simp add: sample_events_def)

lemma sample_history_unique: "history env evs st \<Longrightarrow> history env evs st' \<Longrightarrow> st = st'"
  by (simp add: history_iff)

lemma sample_ids: "distinct (map ev_event_id sample_events)" "length sample_events = 11"
  by (simp_all add: sample_events_def sample_event_def numeral_eq_Suc)

text \<open>The journal of the first \<open>n\<close> events.\<close>

definition sample_journal :: "nat \<Rightarrow> reducer_state \<Rightarrow> journal" where
  "sample_journal n st = \<lparr>j_events = take n sample_events, j_by_id = index_of (take n sample_events), j_state = st\<rparr>"

lemma sample_journal_reachable:
  assumes "history sample_env (take n sample_events) st"
  shows "journal_reachable sample_env (sample_journal n st)"
proof -
  have "distinct (map ev_event_id (take n sample_events))"
    using sample_ids(1) by (simp add: take_map [symmetric])
  then have "construct sample_env (take n sample_events) = Inr (sample_journal n st)"
    using load_run [of empty_journal "take n sample_events" sample_env st] assms
    by (simp add: construct_def empty_journal_def index_of_def history_iff sample_journal_def)
  then show ?thesis by (rule journal_reachable.constructed)
qed

end
