(* ===== verification/SnapshotProperties.thy ===== *)
theory SnapshotProperties
  imports Samples
begin

text \<open>
  Properties of every snapshot a history of accepted events reaches: the numbering of events, the exactness
  of the derived fields, the permanence of operations, evidence and trusted scope, and what the effects and the
  outcome recorded in a snapshot mean.
\<close>

lemma history_numbered:
  "history env evs st \<Longrightarrow> n < length evs \<Longrightarrow> ev_assignment_version (evs ! n) = int n + 1"
proof (induction arbitrary: n rule: history.induct)
  case start
  then show ?case by simp
next
  case (extend evs st ev st')
  have "expected_version st = int (length evs) + 1"
    using history_version [OF extend.hyps(1)] by (auto simp: expected_version_def split: option.splits)
  moreover have "well_addressed st ev" using extend.hyps(2) by (cases rule: kernel_step.cases)
  ultimately show ?case
    using extend.IH [of n] extend.prems by (auto simp: nth_append well_addressed_def not_less_eq less_Suc_eq)
qed

lemma history_op_step:
  assumes "history env xs st" "history env (xs @ ys) st'" "rs_snapshot st = Some s" "rget (sn_operations s) i = Some p"
  obtains t q where "rs_snapshot st' = Some t" "rget (sn_operations t) i = Some q" "op_advances p q"
proof -
  obtain t where t: "rs_snapshot st' = Some t" "snapshot_later s t"
    using history_later [OF assms(1-3)] by blast
  then have "operations_advance (sn_operations s) (sn_operations t)"
    by (simp add: snapshot_later_def snapshot_advances_def)
  then obtain q where "rget (sn_operations t) i = Some q" "op_advances p q"
    using assms(4) unfolding operations_advance_def by blast
  with t(1) show ?thesis by (rule that)
qed

lemma op_advances_contract:
  assumes "op_advances p q"
  shows "operation_contract.truncate q = operation_contract.truncate p" "op_verification_of q = op_verification_of p"
  using assms by (simp_all add: op_advances_def operation_contract.truncate_def operation_relations.truncate_def)


section \<open>Identity of the journal's events\<close>

text \<open>Versions number the events: the event at position n carries version n + 1, and the snapshot's version is the
  number of events retained, so an event can neither be skipped nor be applied out of order.\<close>

theorem versions_number_the_events:
  assumes "history env evs st" "rs_snapshot st = Some s"
  shows "sn_assignment_version s = int (length evs) \<and> map ev_assignment_version evs = map int [1..<length evs + 1]"
proof -
  have "sn_assignment_version s = int (length evs)" using history_version [OF assms(1)] assms(2) by simp
  moreover have "map ev_assignment_version evs = map int [1..<length evs + 1]"
    by (rule nth_equalityI) (simp_all add: history_numbered [OF assms(1)] del: upt_Suc)
  ultimately show ?thesis by blast
qed

theorem versions_number_the_events_witness:
  "\<exists>st s. history sample_env (take 3 sample_events) st \<and> rs_snapshot st = Some s \<and> sn_assignment_version s = 3
     \<and> map ev_assignment_version (take 3 sample_events) = [1, 2, 3]"
proof -
  obtain st s where h: "history sample_env (take 3 sample_events) st" "rs_snapshot st = Some s"
    using sample_dispatched by (rule sample_checkD)
  have "[1..<length (take 3 sample_events) + 1] = [1, 2, 3]" by (simp add: sample_ids upt_conv_Cons)
  with versions_number_the_events [OF h] h show ?thesis
    by (intro exI [of _ st] exI [of _ s]) (simp add: sample_ids)
qed

section \<open>The reachable snapshots\<close>

text \<open>C30: The derived fields of a reachable snapshot are exact: an operation is listed in flight just when its settlement
  is open, listed unknown just when its effect is, and listed as a blocking child just when it has a parent it blocks and is
  not settled; a provider call is listed in flight just when it has not completed. The assignment is quiescent just when
  neither an operation nor a call is in flight, and the outcome is the one the criteria and operations derive.\<close>

theorem derived_fields_are_exact:
  assumes "history env evs st" "rs_snapshot st = Some s"
  shows "(i \<in> set (sn_in_flight_operation_ids s)
      \<longleftrightarrow> (\<exists>p. rget (sn_operations s) i = Some p \<and> in_flight_settlement (op_settlement_state p)))
    \<and> (i \<in> set (sn_unresolved_unknown_operation_ids s)
      \<longleftrightarrow> (\<exists>p. rget (sn_operations s) i = Some p \<and> op_persistent_effect p = UnknownEffect))
    \<and> (i \<in> set (sn_in_flight_provider_call_ids s)
      \<longleftrightarrow> (\<exists>c\<in>set (rvals (sn_provider_calls s)). pc_call_id c = i \<and> \<not> truthy (pc_completed_at c)))
    \<and> (i \<in> set (sn_blocking_child_operation_ids s)
      \<longleftrightarrow> (\<exists>p. rget (sn_operations s) i = Some p \<and> truthy (op_parent_id p) \<and> blocks_parent p))
    \<and> (sn_quiescent s \<longleftrightarrow> sn_in_flight_operation_ids s = [] \<and> sn_in_flight_provider_call_ids s = [])
    \<and> sn_outcome s = deriveAssignmentOutcomeV2 s"
  using accepted_indexes [OF history_snapshot [OF assms]] by blast

theorem derived_fields_are_exact_witness:
  "\<exists>st s. history sample_env (take 3 sample_events) st \<and> rs_snapshot st = Some s
     \<and> ''o1'' \<in> set (sn_in_flight_operation_ids s) \<and> ''o1'' \<in> set (sn_unresolved_unknown_operation_ids s) \<and> \<not> sn_quiescent s"
proof -
  obtain st s p where h: "history sample_env (take 3 sample_events) st" "rs_snapshot st = Some s"
      "rget (sn_operations s) ''o1'' = Some p" "op_persistent_effect p = UnknownEffect" "op_settlement_state p = AwaitingResult"
    using sample_dispatched by (elim sample_checkD operation_isD) blast
  from derived_fields_are_exact [OF h(1,2), of "''o1''"] h show ?thesis
    by (intro exI [of _ st] exI [of _ s]) (auto simp: in_flight_settlement_def)
qed

text \<open>C27: Operations only move forward. From any point of a history to any later one an operation keeps its admitted
  contract, a recorded result never changes, and a settled operation is final but for the resolution of an unknown
  effect.\<close>

theorem operations_only_advance:
  assumes "history env xs st" "history env (xs @ ys) st'" "rs_snapshot st = Some s" "rget (sn_operations s) i = Some p"
  shows "\<exists>t q. rs_snapshot st' = Some t \<and> rget (sn_operations t) i = Some q
    \<and> operation_contract.truncate q = operation_contract.truncate p
    \<and> (op_result p \<noteq> None \<longrightarrow> op_result q = op_result p)
    \<and> (op_settlement_state p = Settled \<longrightarrow> op_settlement_state q = Settled \<and> op_settled_at q = op_settled_at p
        \<and> (op_persistent_effect p \<noteq> UnknownEffect \<longrightarrow> op_persistent_effect q = op_persistent_effect p))"
proof -
  obtain t q where q: "rs_snapshot st' = Some t" "rget (sn_operations t) i = Some q" "op_advances p q"
    using history_op_step [OF assms] .
  from q op_advances_contract [OF q(3)] show ?thesis
    by (intro exI [of _ t] exI [of _ q]) (simp add: op_advances_def)
qed

theorem operations_only_advance_witness:
  "\<exists>(s :: snapshot) p (t :: snapshot) q. rget (sn_operations s) ''o1'' = Some p
     \<and> rget (sn_operations t) ''o1'' = Some q \<and> operation_contract.truncate q = operation_contract.truncate p"
proof -
  obtain st s p where h: "history sample_env (take 3 sample_events) st" "rs_snapshot st = Some s"
      "rget (sn_operations s) ''o1'' = Some p"
    using sample_dispatched by (elim sample_checkD operation_isD) blast
  obtain st' where "history sample_env (take 3 sample_events @ drop 3 sample_events) st'"
    using sample_complete unfolding sample_events_split by (auto elim: sample_checkD simp: sample_events_split)
  from operations_only_advance [OF h(1) this h(2,3)] obtain t :: snapshot and q where
    "rget (sn_operations t) ''o1'' = Some q" "operation_contract.truncate q = operation_contract.truncate p"
    by blast
  with h(3) show ?thesis by blast
qed

lemma sample_step:
  assumes "0 < n" "n < 11"
  obtains st s st' where "history sample_env (take n sample_events) st" "rs_snapshot st = Some s"
    "applyEvent sample_env st (sample_events ! n) = Inr st'"
proof -
  obtain fin where fin: "history sample_env (take 11 sample_events) fin"
    using sample_complete by (rule sample_checkD)
  have "take 11 sample_events = take n sample_events @ sample_events ! n # drop (Suc n) sample_events"
    using assms(2) by (simp add: sample_ids Cons_nth_drop_Suc)
  then obtain st where st: "applyEvents sample_env initial_reducer_state (take n sample_events) = Inr st"
      "applyEvents sample_env st (sample_events ! n # drop (Suc n) sample_events) = Inr fin"
    using fin kernel.run_prefix by (metis history_iff)
  then obtain st' where st': "applyEvent sample_env st (sample_events ! n) = Inr st'" by (auto simp: kbind_Inr_iff)
  have h: "history sample_env (take n sample_events) st" using st(1) by (simp add: history_iff)
  obtain s where "rs_snapshot st = Some s"
    using history_version [OF h] assms by (cases "rs_snapshot st") (auto simp: sample_ids sample_events_def)
  then show ?thesis using h st' that by blast
qed

section \<open>Evidence and scope\<close>

text \<open>C28: Evidence is permanent: a retained observation is never changed or removed, and the operation it observes
  stays settled and keeps citing it.\<close>

theorem evidence_is_permanent:
  assumes "history env xs st" "history env (xs @ ys) st'" "rs_snapshot st = Some s" "rget (sn_observations s) i = Some ob"
  shows "\<exists>t p. rs_snapshot st' = Some t \<and> rget (sn_observations t) i = Some ob \<and> obs_id ob = i
    \<and> rget (sn_operations t) (obs_operation_id ob) = Some p \<and> op_settlement_state p = Settled
    \<and> i \<in> set (op_observation_ids p)"
proof -
  obtain t where t: "rs_snapshot st' = Some t" "snapshot_later s t" using history_later [OF assms(1-3)] by blast
  have wf: "observations_wf t" using history_snapshot [OF assms(2) t(1)] by (simp add: accepted_def snapshot_wf_def)
  have ob: "rget (sn_observations t) i = Some ob"
    using t(2) assms(4) by (simp add: snapshot_later_def snapshot_advances_def records_advance_def extends_def)
  then have "observation_ok t ob" "obs_id ob = i"
    using wf by (auto simp: observations_wf_def kr.well_keyed_def)
  then show ?thesis using t(1) ob by (auto simp: observation_ok_def)
qed

theorem evidence_is_permanent_witness:
  "\<exists>(s :: snapshot) ob p. rget (sn_observations s) ''ob1'' = Some ob
     \<and> rget (sn_operations s) (obs_operation_id ob) = Some p \<and> ''ob1'' \<in> set (op_observation_ids p)"
proof -
  obtain st s where h: "history sample_env (take 11 sample_events) st" "rs_snapshot st = Some s"
      "rhas (sn_observations s) ''ob1''"
    using sample_complete by (rule sample_checkD) blast
  obtain ob where ob: "rget (sn_observations s) ''ob1'' = Some ob" using h(3) by (auto simp: rhas_def)
  have "history sample_env (take 11 sample_events @ []) st" using h(1) by simp
  from evidence_is_permanent [OF h(1) this h(2) ob] show ?thesis by blast
qed

text \<open>C29: What was trusted at creation stays: the specification never changes, no event moves the assignment to another
  session, principal or document, and the generation never goes back.\<close>

theorem trusted_scope_is_fixed:
  assumes "history env xs st" "history env (xs @ ys) st'" "rs_snapshot st = Some s"
  shows "\<exists>t. rs_snapshot st' = Some t \<and> sn_spec t = sn_spec s
    \<and> same_trusted_scope (sn_current_binding t) (sp_binding (sn_spec s))
    \<and> b_generation (sn_current_binding s) \<le> b_generation (sn_current_binding t)"
proof -
  obtain t where t: "rs_snapshot st' = Some t" "snapshot_later s t" using history_later [OF assms(1-3)] by blast
  have "binding_wf t" using history_snapshot [OF assms(2) t(1)] by (simp add: accepted_def snapshot_wf_def)
  then show ?thesis
    using t by (auto simp: snapshot_later_def snapshot_advances_def identity_kept_def binding_wf_def)
qed

theorem trusted_scope_is_fixed_witness:
  "\<exists>st s st' t. history sample_env (take 3 sample_events) st \<and> rs_snapshot st = Some s
     \<and> history sample_env (take 11 sample_events) st' \<and> rs_snapshot st' = Some t \<and> sn_spec t = sn_spec s"
proof -
  obtain st s where h: "history sample_env (take 3 sample_events) st" "rs_snapshot st = Some s"
    using sample_dispatched by (rule sample_checkD)
  obtain st' where h': "history sample_env (take 11 sample_events) st'"
    using sample_complete by (rule sample_checkD)
  from trusted_scope_is_fixed [OF h(1) h' [unfolded sample_events_split] h(2)] h h' show ?thesis by blast
qed

section \<open>Effects\<close>

text \<open>C4: A settled operation counts as applied only on native authority: it was an apply operation whose transaction
  the native host committed, or an artifact export the contract validates, unless its own result left the effect unknown.\<close>

theorem applied_effect_is_authoritative:
  assumes "history env evs st" "rs_snapshot st = Some s" "rget (sn_operations s) i = Some p"
    "op_settlement_state p = Settled" "op_persistent_effect p = AppliedEffect"
  shows "\<exists>r. op_result p = Some r \<and> r_operation_id r = i \<and> r_binding r = op_binding p
    \<and> (r_persistent_effect r = UnknownEffect \<or> op_requested_effect p = ApplyEffect
        \<and> (r_native_transaction_state r = TxCommitted \<or> nativeArtifactResultEffectV2 r = Some AppliedEffect))"
proof -
  have ok: "lifecycle_ok p" "op_id p = i"
    using accepted_operation [OF history_snapshot [OF assms(1,2)] assms(3)] by blast+
  then obtain r where "op_result p = Some r" "result_ok p r"
    using assms(4) by (auto simp: lifecycle_ok_def split: option.splits)
  with ok(2) assms(4,5) show ?thesis by (auto simp: result_ok_def applied_result_authoritative_def)
qed

theorem applied_effect_is_authoritative_witness:
  "\<exists>st s p r. history sample_env (take 11 sample_events) st \<and> rs_snapshot st = Some s
     \<and> rget (sn_operations s) ''o1'' = Some p \<and> op_result p = Some r \<and> r_operation_id r = ''o1''"
proof -
  obtain st s p where h: "history sample_env (take 11 sample_events) st" "rs_snapshot st = Some s"
      "rget (sn_operations s) ''o1'' = Some p" "op_settlement_state p = Settled" "op_persistent_effect p = AppliedEffect"
    using sample_complete by (elim sample_checkD conjE operation_isD) blast
  from applied_effect_is_authoritative [OF h] h show ?thesis by blast
qed

text \<open>C37: A read never persists anything: in every reachable snapshot a read operation has no persistent effect, and a
  result it recorded claims none.\<close>

theorem reads_never_persist:
  assumes "history env evs st" "rs_snapshot st = Some s" "rget (sn_operations s) i = Some p"
    "op_requested_effect p = ReadEffect"
  shows "op_persistent_effect p = NoEffect \<and> (\<forall>r. op_result p = Some r \<longrightarrow> r_persistent_effect r = NoEffect)"
proof -
  have "lifecycle_ok p" using accepted_operation(1) [OF history_snapshot [OF assms(1,2)] assms(3)] .
  then show ?thesis using assms(4) by (auto simp: lifecycle_ok_def result_ok_def)
qed

theorem reads_never_persist_witness:
  "\<exists>st s p. history sample_env (take 11 sample_events) st \<and> rs_snapshot st = Some s
     \<and> rget (sn_operations s) ''o2'' = Some p \<and> op_persistent_effect p = NoEffect"
proof -
  obtain st s p where h: "history sample_env (take 11 sample_events) st" "rs_snapshot st = Some s"
      "rget (sn_operations s) ''o2'' = Some p" "op_requested_effect p = ReadEffect"
    using sample_complete by (elim sample_checkD conjE operation_isD) blast
  from reads_never_persist [OF h] h show ?thesis by blast
qed

text \<open>C1: Complete means verified: a reachable assignment whose outcome is Complete has every required criterion passed
  or inapplicable and nothing pending, held or unknown, and an apply assignment has edits, each with a verified
  postcondition.\<close>

theorem complete_means_verified:
  assumes "history env evs st" "rs_snapshot st = Some s" "sn_outcome s = Complete"
  shows "criteria_satisfied s \<and> unencumbered s \<and> \<not> workPlanPendingV2 s
    \<and> (\<forall>i p. rget (sn_operations s) i = Some p \<longrightarrow> op_persistent_effect p \<noteq> UnknownEffect)
    \<and> (sp_requested_effect (sn_spec s) = ApplyEffect \<longrightarrow> everything_verified s)"
proof -
  have acc: "accepted s" by (rule history_snapshot) (rule assms(1,2))+
  have o: "deriveAssignmentOutcomeV2 s = Complete" using accepted_indexes(4) [OF acc] assms(3) by simp
  then have u: "unencumbered s" using outcome_success_unencumbered [of s] by blast
  then have "sn_unresolved_unknown_operation_ids s = []" by (simp add: unencumbered_def)
  then have "\<forall>i p. rget (sn_operations s) i = Some p \<longrightarrow> op_persistent_effect p \<noteq> UnknownEffect"
    using accepted_indexes(2) [OF acc] by (metis empty_iff empty_set)
  with u show ?thesis using o outcome_satisfied(1,2) [of s] outcome_complete_edits [of s] by blast
qed

theorem complete_means_verified_witness:
  "\<exists>st s. history sample_env (take 11 sample_events) st \<and> rs_snapshot st = Some s
     \<and> criteria_satisfied s \<and> unencumbered s"
proof -
  obtain st s where h: "history sample_env (take 11 sample_events) st" "rs_snapshot st = Some s" "sn_outcome s = Complete"
    using sample_complete by (rule sample_checkD) blast
  from complete_means_verified [OF h] h show ?thesis by blast
qed

end
