(* ===== verification/HistoryProperties.thy ===== *)
theory HistoryProperties
  imports Provenance SnapshotProperties
begin

text \<open>
  Properties that look back from a snapshot to the event that brought an operation or an observation in, and
  what the checks of that event exclude along the whole history.
\<close>

section \<open>The event that brought a record in\<close>

definition admitted_at :: "kernel_env \<Rightarrow> event list \<Rightarrow> nat \<Rightarrow> operation \<Rightarrow> bool" where
  "admitted_at env evs n p \<longleftrightarrow> n < length evs \<and> ev_body (evs ! n) = OperationAdmitted p
     \<and> (\<exists>u s v. history env (take n evs) u \<and> rs_snapshot u = Some s \<and> applyEvent env u (evs ! n) = Inr v
          \<and> operation_at v (op_id p) = Some (admitted_operation (ev_assignment_version (evs ! n)) p)
          \<and> first_failure (validateOperationAdmission env
               (s\<lparr>sn_assignment_version := ev_assignment_version (evs ! n)\<rparr>) p) = None)"

definition retained_at :: "kernel_env \<Rightarrow> event list \<Rightarrow> nat \<Rightarrow> observation \<Rightarrow> bool" where
  "retained_at env evs n ob \<longleftrightarrow> n < length evs \<and> ev_body (evs ! n) = ObservationRetained ob
     \<and> (\<exists>u s p. history env (take n evs) u \<and> rs_snapshot u = Some s
          \<and> rget (sn_operations s) (obs_operation_id ob) = Some p
          \<and> first_failure (observation_checks (s\<lparr>sn_assignment_version := ev_assignment_version (evs ! n)\<rparr>) p ob) = None)"

lemma history_prefix:
  assumes "history env evs st" "n \<le> length evs"
  obtains u where "history env (take n evs) u"
  using assms kernel.run_prefix [of env initial_reducer_state "take n evs" "drop n evs" st]
  unfolding history_iff by auto

lemma history_flip:
  assumes "history env evs st" "K st" "\<not> K initial_reducer_state"
  obtains n u v where "n < length evs" "history env (take n evs) u" "\<not> K u" "applyEvent env u (evs ! n) = Inr v" "K v"
proof -
  from kernel.run_flip [of env initial_reducer_state evs st K] assms
  obtain xs e ys u v where k: "evs = xs @ e # ys" "applyEvents env initial_reducer_state xs = Inr u" "\<not> K u"
      "applyEvent env u e = Inr v" "K v"
    by (auto simp: history_iff)
  then show thesis using that [of "length xs" u v] by (simp add: history_iff nth_append)
qed

lemma records_initial [simp]:
  "operation_at initial_reducer_state i = None" "observation_at initial_reducer_state i = None"
  by (simp_all add: operation_at_def observation_at_def initial_reducer_state_def)

lemma operation_admitted_at:
  assumes "history env evs st" "operation_at st i \<noteq> None"
  obtains n p where "admitted_at env evs n p" "op_id p = i"
proof -
  obtain n u v where n: "n < length evs" "history env (take n evs) u" "operation_at u i = None"
      "applyEvent env u (evs ! n) = Inr v" "operation_at v i \<noteq> None"
    using history_flip [OF assms(1), of "\<lambda>st. operation_at st i \<noteq> None"] assms(2) by auto
  obtain s p where "rs_snapshot u = Some s" "ev_body (evs ! n) = OperationAdmitted p" "op_id p = i"
      "first_failure (validateOperationAdmission env (s\<lparr>sn_assignment_version := ev_assignment_version (evs ! n)\<rparr>) p) = None"
      "operation_at v i = Some (admitted_operation (ev_assignment_version (evs ! n)) p)"
    using operation_entry [OF n(4) history_ok [OF n(2)] n(3,5)] .
  then have "admitted_at env evs n p" using n by (auto simp: admitted_at_def)
  then show thesis using \<open>op_id p = i\<close> by (rule that)
qed

lemma observation_retained_at:
  assumes "history env evs st" "observation_at st i = Some ob"
  shows "\<exists>n. retained_at env evs n ob"
proof -
  obtain n u v where n: "n < length evs" "history env (take n evs) u" "observation_at u i = None"
      "applyEvent env u (evs ! n) = Inr v" "observation_at v i \<noteq> None"
    using history_flip [OF assms(1), of "\<lambda>st. observation_at st i \<noteq> None"] assms(2) by auto
  obtain s ob' p where e: "rs_snapshot u = Some s" "ev_body (evs ! n) = ObservationRetained ob'" "obs_id ob' = i"
      "rget (sn_operations s) (obs_operation_id ob') = Some p"
      "first_failure (observation_checks (s\<lparr>sn_assignment_version := ev_assignment_version (evs ! n)\<rparr>) p ob') = None"
      "observation_at v i = Some ob'"
    using observation_entry [OF n(4) history_ok [OF n(2)] n(3,5)] .
  have v: "history env (take (Suc n) evs) v"
    using n by (simp add: take_Suc_conv_app_nth history_iff kernel.run_snoc)
  have st: "history env (take (Suc n) evs @ drop (Suc n) evs) st" using assms(1) by simp
  obtain sv where sv: "rs_snapshot v = Some sv" "rget (sn_observations sv) i = Some ob'"
    using e(6) by (auto simp: observation_at_def bind_eq_Some_conv)
  obtain t where "rs_snapshot st = Some t" "snapshot_later sv t"
    using history_later [OF v st sv(1)] .
  then have "observation_at st i = Some ob'"
    using sv(2) by (auto simp: observation_at_def snapshot_later_def snapshot_advances_def records_advance_def extends_def)
  then have "ob' = ob" using assms(2) by simp
  then show ?thesis using n e by (auto simp: retained_at_def)
qed

text \<open>Whoever is admitted later finds the operation, with the relations it was admitted with.\<close>

lemma admitted_seen:
  assumes "admitted_at env evs n p" "n < m" "m \<le> length evs" "history env (take m evs) u" "rs_snapshot u = Some s"
  shows "\<exists>q. rget (sn_operations s) (op_id p) = Some q
    \<and> operation_relations.truncate q = operation_relations.truncate p
    \<and> op_admitted_version q = Some (ev_assignment_version (evs ! n))"
proof -
  let ?a = "admitted_operation (ev_assignment_version (evs ! n)) p"
  obtain w v where w: "n < length evs" "history env (take n evs) w" "applyEvent env w (evs ! n) = Inr v"
      "operation_at v (op_id p) = Some ?a"
    using assms(1) by (auto simp: admitted_at_def)
  have v: "history env (take (Suc n) evs) v"
    using w by (simp add: take_Suc_conv_app_nth history_iff kernel.run_snoc)
  have "take m evs = take (Suc n) evs @ take (m - Suc n) (drop (Suc n) evs)"
    using assms(2) by (metis Suc_leI le_add_diff_inverse take_add)
  then have u: "history env (take (Suc n) evs @ take (m - Suc n) (drop (Suc n) evs)) u" using assms(4) by simp
  obtain sv where sv: "rs_snapshot v = Some sv" "rget (sn_operations sv) (op_id p) = Some ?a"
    using w(4) by (auto simp: operation_at_def bind_eq_Some_conv)
  obtain t q where q: "rs_snapshot u = Some t" "rget (sn_operations t) (op_id p) = Some q" "op_advances ?a q"
    using history_op_step [OF v u sv] .
  then show ?thesis
    using assms(5) by (auto simp: op_advances_def admitted_operation_def operation_relations.truncate_def)
qed

lemma operation_origin:
  assumes "history env evs st" "rs_snapshot st = Some s" "rget (sn_operations s) i = Some q"
  shows "\<exists>n p. admitted_at env evs n p \<and> op_id p = i \<and> op_admitted_version q = Some (int n + 1)
    \<and> operation_relations.truncate q = operation_relations.truncate p"
proof -
  have "operation_at st i \<noteq> None" using assms(2,3) by (simp add: operation_at_def)
  then obtain n p where n: "admitted_at env evs n p" "op_id p = i"
    using operation_admitted_at [OF assms(1)] by blast
  then have l: "n < length evs" by (simp add: admitted_at_def)
  from admitted_seen [OF n(1) this, of st s] assms n(2)
  have "operation_relations.truncate q = operation_relations.truncate p"
      "op_admitted_version q = Some (ev_assignment_version (evs ! n))"
    by auto
  with n history_numbered [OF assms(1) l] show ?thesis by auto
qed

text \<open>C7: Nothing enters the assignment unchecked: every operation of a reachable snapshot was admitted by an event of
  its history that carries its version, passed every admission check against the snapshot of that moment, and still
  has the contract and the relations it was admitted with.\<close>

theorem operations_enter_by_admission:
  assumes "history env evs st" "rs_snapshot st = Some s" "rget (sn_operations s) i = Some q"
  shows "\<exists>n p. admitted_at env evs n p \<and> op_id p = i \<and> op_admitted_version q = Some (int n + 1)
    \<and> operation_relations.truncate q = operation_relations.truncate p"
  by (rule operation_origin) (rule assms)+

theorem operations_enter_by_admission_witness:
  "\<exists>n p. admitted_at sample_env retry_events n p \<and> op_id p = ''o3'' \<and> op_retry_of p = Some ''o2''"
proof -
  obtain st s q where h: "history sample_env retry_events st" "rs_snapshot st = Some s"
      "rget (sn_operations s) ''o3'' = Some q" "op_retry_of q = Some ''o2''"
    using retry_run by (elim run_checkD operation_isD conjE) blast
  from operations_enter_by_admission [OF h(1-3)] h(4) op_static_fields(12) show ?thesis by metis
qed

text \<open>C12: Evidence is what was observed: every observation of a reachable snapshot was retained by an event of its history
  that found the result of its operation recorded, and has the schema, the payload hash and the authority of that result,
  which the operation still has.\<close>

theorem evidence_matches_its_result:
  assumes "history env evs st" "rs_snapshot st = Some s" "rget (sn_observations s) i = Some ob"
  shows "\<exists>n p r. retained_at env evs n ob \<and> rget (sn_operations s) (obs_operation_id ob) = Some p \<and> op_result p = Some r
    \<and> r_result_schema_id r = obs_result_schema_id ob \<and> r_raw_payload_hash r = Some (obs_raw_payload_hash ob)
    \<and> r_authority r = obs_authority ob"
proof -
  have "observation_at st i = Some ob" using assms(2,3) by (simp add: observation_at_def)
  then obtain n where n: "retained_at env evs n ob" using observation_retained_at [OF assms(1)] by blast
  then obtain u t p where u: "history env (take n evs) u" "rs_snapshot u = Some t"
      "rget (sn_operations t) (obs_operation_id ob) = Some p"
      "first_failure (observation_checks (t\<lparr>sn_assignment_version := ev_assignment_version (evs ! n)\<rparr>) p ob) = None"
    by (auto simp: retained_at_def)
  then obtain r where r: "op_result p = Some r" "r_result_schema_id r = obs_result_schema_id ob"
      "r_raw_payload_hash r = Some (obs_raw_payload_hash ob)" "r_authority r = obs_authority ob"
    by (auto simp: observation_checks_def first_failure_append_None result_is_def split: option.splits)
  have st: "history env (take n evs @ drop n evs) st" using assms(1) by simp
  obtain t' q where "rs_snapshot st = Some t'" "rget (sn_operations t') (obs_operation_id ob) = Some q" "op_advances p q"
    using history_op_step [OF u(1) st u(2,3)] .
  then have "rget (sn_operations s) (obs_operation_id ob) = Some q" "op_result q = Some r"
    using assms(2) r(1) by (auto simp: op_advances_def)
  with n r show ?thesis by blast
qed

theorem evidence_matches_its_result_witness:
  "\<exists>n (p :: operation) r. retained_at sample_env policed_events n sample_observation \<and> op_result p = Some r
     \<and> r_raw_payload_hash r = Some (obs_raw_payload_hash sample_observation)"
proof -
  obtain st s where h: "history sample_env policed_events st" "rs_snapshot st = Some s"
      "rget (sn_observations s) ''ob1'' = Some sample_observation"
    using policed_run by (elim run_checkD conjE) blast
  from evidence_matches_its_result [OF h] show ?thesis by blast
qed

section \<open>One retry for one settled attempt\<close>

text \<open>The bases whose relation the kernel recomputes from the snapshot.\<close>

definition derived_basis :: "retry_basis option \<Rightarrow> bool" where
  "derived_basis b \<longleftrightarrow> b \<in> {Some NativePreDispatchRead, Some CommittedTargetRead, Some CommittedDocumentRead,
     Some CommittedTargetChange, Some FamilySessionCapacityReleased}"

lemma admission_first_retry:
  assumes "first_failure (validateOperationAdmission env s p) = None" "truthy (op_retry_of p)" "derived_basis (op_retry_basis p)"
    "q \<in> set (rvals (sn_operations s))"
  shows "op_retry_of q \<noteq> op_retry_of p"
proof -
  from assms(1) have "first_failure (retry_checks s p) = None" by (simp add: admission_groups)
  then obtain prior where "first_failure (retry_basis_checks s p prior) = None"
    using assms(2) by (auto simp: retry_checks_def first_failure_append_None split: option.splits)
  then consider "preDispatchReadRetryV2 s p = op_retry_of p"
    | b d where "readRefreshV2 s p b = Some (op_retry_of p, d)"
    | d where "familyCapacityRetryV2 s p = Some (op_retry_of p, d)"
    | d where "committedTargetChangeRetryV2 s p = Some (op_retry_of p, d)"
    using assms(3)
    by (auto simp: retry_basis_checks_def derived_basis_def Let_def committedReadRefreshV2_def
        committedDocumentReadRefreshV2_def)
  then show ?thesis
  proof cases
    case 1
    with assms(2) obtain a x where "undispatched_prior_ok s p a x" "op_retry_of p = Some (op_id x)"
      by (auto simp: preDispatchReadRetryV2_def truthy_def split: if_splits option.splits list.splits)
    with assms(4) show ?thesis by (auto simp: undispatched_prior_ok_def list_ex_iff)
  next
    case 2
    with read_refresh_sound assms(4) show ?thesis by (fastforce simp: is_retried_def list_ex_iff)
  next
    case 3
    with family_capacity_sound assms(4) show ?thesis by (fastforce simp: is_retried_def list_ex_iff)
  next
    case 4
    with committed_target_sound assms(4) show ?thesis by (fastforce simp: is_retried_def list_ex_iff)
  qed
qed

lemma retry_after_retry:
  assumes "admitted_at env evs m q" "admitted_at env evs n p" "truthy (op_retry_of p)" "derived_basis (op_retry_basis p)"
    "op_retry_of q = op_retry_of p"
  shows "n \<le> m"
proof (rule ccontr)
  assume less: "\<not> n \<le> m"
  obtain u s where u: "n < length evs" "history env (take n evs) u" "rs_snapshot u = Some s"
      "first_failure (validateOperationAdmission env (s\<lparr>sn_assignment_version := ev_assignment_version (evs ! n)\<rparr>) p) = None"
    using assms(2) by (auto simp: admitted_at_def)
  obtain q' where q': "rget (sn_operations s) (op_id q) = Some q'"
      "operation_relations.truncate q' = operation_relations.truncate q"
    using admitted_seen [OF assms(1) _ _ u(2,3)] less u(1) by auto
  have "q' \<in> set (rvals (sn_operations (s\<lparr>sn_assignment_version := ev_assignment_version (evs ! n)\<rparr>)))"
    using rget_in_rvals [OF q'(1)] by simp
  from admission_first_retry [OF u(4) assms(3,4) this] op_static_fields(12) [OF q'(2)] assms(5)
  show False by simp
qed

text \<open>C13: A settled attempt is retried once: no reachable snapshot has two operations that retry the same one on a basis
  the kernel derives (a read that was never dispatched, a refresh after a commit, a committed change of the target, a
  freed family slot), so none of these permissions to repeat is ever used twice.\<close>

theorem settled_attempt_is_retried_once:
  assumes "history env evs st" "rs_snapshot st = Some s" "rget (sn_operations s) i = Some p" "rget (sn_operations s) j = Some q"
    "truthy (op_retry_of p)" "op_retry_of q = op_retry_of p" "derived_basis (op_retry_basis p)" "derived_basis (op_retry_basis q)"
  shows "i = j"
proof -
  obtain m p0 where p: "admitted_at env evs m p0" "op_id p0 = i" "operation_relations.truncate p = operation_relations.truncate p0"
    using operation_origin [OF assms(1-3)] by blast
  obtain n q0 where q: "admitted_at env evs n q0" "op_id q0 = j" "operation_relations.truncate q = operation_relations.truncate q0"
    using operation_origin [OF assms(1,2,4)] by blast
  have basis: "op_retry_basis p = op_retry_basis p0" "op_retry_basis q = op_retry_basis q0"
    using p(3) q(3) by (simp_all add: operation_relations.truncate_def)
  note f = op_static_fields(12) [OF p(3)] op_static_fields(12) [OF q(3)]
  have "m \<le> n" by (rule retry_after_retry [OF q(1) p(1)]) (use assms basis f in auto)
  moreover have "n \<le> m" by (rule retry_after_retry [OF p(1) q(1)]) (use assms basis f in auto)
  ultimately have "p0 = q0" using p(1) q(1) by (simp add: admitted_at_def)
  then show ?thesis using p(2) q(2) by simp
qed

theorem settled_attempt_is_retried_once_witness:
  "\<exists>st s p. history sample_env retry_events st \<and> rs_snapshot st = Some s \<and> rget (sn_operations s) ''o3'' = Some p
     \<and> (\<forall>j q. rget (sn_operations s) j = Some q \<longrightarrow> op_retry_of q = Some ''o2'' \<longrightarrow> derived_basis (op_retry_basis q) \<longrightarrow> j = ''o3'')"
proof -
  obtain st s p where h: "history sample_env retry_events st" "rs_snapshot st = Some s"
      "rget (sn_operations s) ''o3'' = Some p" "op_retry_of p = Some ''o2''" "op_retry_basis p = Some NativePreDispatchRead"
    using retry_run by (elim run_checkD operation_isD conjE) blast
  have "truthy (op_retry_of p)" "derived_basis (op_retry_basis p)" using h(4,5) by (simp_all add: truthy_def derived_basis_def)
  from settled_attempt_is_retried_once [OF h(1,2,3) _ this(1) _ this(2)] h show ?thesis by metis
qed

section \<open>Relations between operations\<close>

text \<open>One operation was admitted before another.\<close>

definition admitted_before :: "operation \<Rightarrow> operation \<Rightarrow> bool" where
  "admitted_before p q \<longleftrightarrow> (\<exists>m n. op_admitted_version p = Some m \<and> op_admitted_version q = Some n \<and> m < n)"

lemma relation_fields:
  assumes "operation_relations.truncate q = operation_relations.truncate p"
  shows "role_or_root q = role_or_root p" "op_root_id q = op_root_id p"
  using assms by (simp_all add: operation_relations.truncate_def role_or_root_def)

lemma advanced_relations:
  assumes "op_advances p q"
  shows "op_binding q = op_binding p" "root_of q = root_of p"
proof -
  have t: "operation_relations.truncate q = operation_relations.truncate p" using assms by (simp add: op_advances_def)
  show "op_binding q = op_binding p" "root_of q = root_of p"
    using op_static_fields(1,2) [OF t] relation_fields(2) [OF t]
    by (simp_all add: root_of_def split: option.split)
qed

lemma advanced_effects:
  assumes "op_advances p q" "op_settlement_state p = Settled" "op_persistent_effect p \<noteq> UnknownEffect"
  shows "op_settlement_state q = Settled" "op_persistent_effect q = op_persistent_effect p"
    "applied_and_settled p \<Longrightarrow> applied_and_settled q"
proof -
  have t: "operation_relations.truncate q = operation_relations.truncate p" using assms by (simp add: op_advances_def)
  show 1: "op_settlement_state q = Settled" "op_persistent_effect q = op_persistent_effect p"
    using assms by (simp_all add: op_advances_def)
  show "applied_and_settled p \<Longrightarrow> applied_and_settled q"
    using 1 op_static_fields(5) [OF t] by (simp add: applied_and_settled_def)
qed

lemma admission_subject:
  assumes "first_failure (validateOperationAdmission env s p) = None" "op_purpose p = Verification"
  obtains subject where "rget (sn_operations s) (the (op_verification_of p)) = Some subject" "applied_and_settled subject"
proof -
  from assms have "first_failure (verification_checks s p) = None" by (simp add: admission_groups)
  with assms(2) that show thesis
    by (auto simp: verification_checks_def truthy_lookup_def split: option.splits if_splits)
qed

text \<open>An operation found while another is admitted was admitted before it, and is there ever after.\<close>

lemma found_at_admission:
  assumes "history env evs st" "rs_snapshot st = Some s" "admitted_at env evs n p" "rget (sn_operations s) (op_id p) = Some q"
    "history env (take n evs) u" "rs_snapshot u = Some t" "rget (sn_operations t) i = Some x"
  obtains y where "rget (sn_operations s) i = Some y" "op_advances x y" "admitted_before y q"
proof -
  have st: "history env (take n evs @ drop n evs) st" using assms(1) by simp
  obtain s' y where y: "rs_snapshot st = Some s'" "rget (sn_operations s') i = Some y" "op_advances x y"
    using history_op_step [OF assms(5) st assms(6,7)] .
  have l: "n < length evs" using assms(3) by (simp add: admitted_at_def)
  obtain m p' where m: "admitted_at env (take n evs) m p'" "op_admitted_version x = Some (int m + 1)"
    using operation_origin [OF assms(5-7)] by blast
  have "op_admitted_version y = Some (int m + 1)" using m(2) y(3) by (simp add: op_advances_def)
  moreover have "m < n" using m(1) l by (simp add: admitted_at_def)
  moreover have "op_admitted_version q = Some (int n + 1)"
    using admitted_seen [OF assms(3) l, of st s] assms(1,2,4) history_numbered [OF assms(1) l] by simp
  ultimately have "admitted_before y q" by (simp add: admitted_before_def)
  then show thesis using that y assms(2) by simp
qed

lemma child_points_back:
  assumes "history env evs st" "rs_snapshot st = Some s" "rget (sn_operations s) i = Some q" "role_or_root q \<noteq> RootRole"
  shows "\<exists>parent. rget (sn_operations s) (the (op_parent_id q)) = Some parent
    \<and> admitted_before parent q \<and> op_binding parent = op_binding q \<and> op_root_id q = Some (root_of parent)"
proof -
  obtain n p where n: "admitted_at env evs n p" "op_id p = i"
      "operation_relations.truncate q = operation_relations.truncate p"
    using operation_origin [OF assms(1-3)] by blast
  then obtain u t where u: "history env (take n evs) u" "rs_snapshot u = Some t"
      "first_failure (validateOperationAdmission env (t\<lparr>sn_assignment_version := ev_assignment_version (evs ! n)\<rparr>) p) = None"
    by (auto simp: admitted_at_def)
  have q: "rget (sn_operations s) (op_id p) = Some q" using assms(3) n(2) by simp
  note same = op_static_fields [OF n(3)] and role = relation_fields [OF n(3)]
  obtain x where x: "rget (sn_operations t) (the (op_parent_id p)) = Some x" "op_binding x = op_binding p"
      "op_root_id p = Some (root_of x)"
    using admission_child [OF u(3)] assms(4) role by (auto simp: truthy_lookup_def split: if_splits)
  obtain y where y: "rget (sn_operations s) (the (op_parent_id p)) = Some y" "op_advances x y" "admitted_before y q"
    using found_at_admission [OF assms(1,2) n(1) q u(1,2) x(1)] by blast
  then show ?thesis by (intro exI [of _ y]) (simp add: same role advanced_relations [OF y(2)] x)
qed

lemma root_has_no_parent:
  assumes "history env evs st" "rs_snapshot st = Some s" "rget (sn_operations s) i = Some q" "role_or_root q = RootRole"
  shows "\<not> truthy (op_parent_id q)"
proof -
  obtain n p where n: "admitted_at env evs n p" "operation_relations.truncate q = operation_relations.truncate p"
    using operation_origin [OF assms(1-3)] by blast
  then obtain t where "first_failure (validateOperationAdmission env (t\<lparr>sn_assignment_version := ev_assignment_version (evs ! n)\<rparr>) p) = None"
    by (auto simp: admitted_at_def)
  from admission_root [OF this] assms(4) show ?thesis by (simp add: op_static_fields [OF n(2)] relation_fields [OF n(2)])
qed

text \<open>C14: Relations point back: in a reachable snapshot the parent of every child operation, the operation it retries and
  the operation it verifies exist and were admitted before it, so no chain of these relations is circular; a child belongs
  to its parent's run and root, a retried operation is settled without persistent effect, and a verified one is applied
  and settled.\<close>

theorem relations_point_back:
  assumes "history env evs st" "rs_snapshot st = Some s" "rget (sn_operations s) i = Some q"
  shows "(role_or_root q \<noteq> RootRole \<longrightarrow> (\<exists>parent. rget (sn_operations s) (the (op_parent_id q)) = Some parent
      \<and> admitted_before parent q \<and> op_binding parent = op_binding q \<and> op_root_id q = Some (root_of parent)))
    \<and> (truthy (op_retry_of q) \<longrightarrow> (\<exists>prior. rget (sn_operations s) (the (op_retry_of q)) = Some prior
      \<and> admitted_before prior q \<and> op_settlement_state prior = Settled \<and> op_persistent_effect prior = NoEffect))
    \<and> (op_purpose q = Verification \<longrightarrow> (\<exists>subject. rget (sn_operations s) (the (op_verification_of q)) = Some subject
      \<and> admitted_before subject q \<and> applied_and_settled subject))"
proof -
  obtain n p where n: "admitted_at env evs n p" "op_id p = i"
      "operation_relations.truncate q = operation_relations.truncate p"
    using operation_origin [OF assms] by blast
  then obtain u t where u: "history env (take n evs) u" "rs_snapshot u = Some t"
      "first_failure (validateOperationAdmission env (t\<lparr>sn_assignment_version := ev_assignment_version (evs ! n)\<rparr>) p) = None"
    by (auto simp: admitted_at_def)
  have q: "rget (sn_operations s) (op_id p) = Some q" using assms(3) n(2) by simp
  have found: "\<exists>y. rget (sn_operations s) k = Some y \<and> op_advances x y \<and> admitted_before y q"
    if "rget (sn_operations t) k = Some x" for k x
    using found_at_admission [OF assms(1,2) n(1) q u(1,2) that] by blast
  note same = op_static_fields [OF n(3)] and role = relation_fields [OF n(3)]
  show ?thesis
  proof (intro conjI impI)
    assume "role_or_root q \<noteq> RootRole"
    with child_points_back [OF assms]
    show "\<exists>parent. rget (sn_operations s) (the (op_parent_id q)) = Some parent
      \<and> admitted_before parent q \<and> op_binding parent = op_binding q \<and> op_root_id q = Some (root_of parent)" by blast
  next
    assume "truthy (op_retry_of q)"
    then obtain x where x: "rget (sn_operations t) (the (op_retry_of p)) = Some x" "op_settlement_state x = Settled"
        "op_persistent_effect x = NoEffect"
      using admission_retry [OF u(3)] same by auto
    obtain y where y: "rget (sn_operations s) (the (op_retry_of p)) = Some y" "op_advances x y" "admitted_before y q"
      using found [OF x(1)] by blast
    show "\<exists>prior. rget (sn_operations s) (the (op_retry_of q)) = Some prior
      \<and> admitted_before prior q \<and> op_settlement_state prior = Settled \<and> op_persistent_effect prior = NoEffect"
      by (intro exI [of _ y]) (simp add: y same advanced_effects [OF y(2)] x)
  next
    assume "op_purpose q = Verification"
    then obtain x where x: "rget (sn_operations t) (the (op_verification_of p)) = Some x" "applied_and_settled x"
      using admission_subject [OF u(3)] same by auto
    obtain y where y: "rget (sn_operations s) (the (op_verification_of p)) = Some y" "op_advances x y" "admitted_before y q"
      using found [OF x(1)] by blast
    have "applied_and_settled y" using advanced_effects(3) [OF y(2) _ _ x(2)] x(2) by (simp add: applied_and_settled_def)
    then show "\<exists>subject. rget (sn_operations s) (the (op_verification_of q)) = Some subject
      \<and> admitted_before subject q \<and> applied_and_settled subject"
      by (intro exI [of _ y]) (simp add: y same)
  qed
qed

theorem relations_point_back_witness:
  "\<exists>st s q prior. history sample_env retry_events st \<and> rs_snapshot st = Some s \<and> rget (sn_operations s) ''o3'' = Some q
     \<and> rget (sn_operations s) ''o2'' = Some prior \<and> admitted_before prior q \<and> op_settlement_state prior = Settled"
proof -
  obtain st s q where h: "history sample_env retry_events st" "rs_snapshot st = Some s"
      "rget (sn_operations s) ''o3'' = Some q" "op_retry_of q = Some ''o2''"
    using retry_run by (elim run_checkD operation_isD conjE) blast
  have "truthy (op_retry_of q)" using h(4) by (simp add: truthy_def)
  with relations_point_back [OF h(1-3)] h show ?thesis by (metis option.sel)
qed

end
