(* ===== verification/AdmissionProperties.thy ===== *)
theory AdmissionProperties
  imports SnapshotProperties
begin

text \<open>
  Properties of single accepted events: what the admission of an operation, the recording of a result and a
  passing evaluation guarantee about the snapshot they were applied to.
\<close>

lemma handled_event:
  assumes "applyEvent env st ev = Inr st'" "rs_snapshot st = Some s" "ev_body ev \<noteq> RunStarted"
  obtains t where "handleEvent env st (s\<lparr>sn_assignment_version := ev_assignment_version ev\<rparr>) ev (ev_body ev) = Inr t"
    "ev_binding ev = sn_current_binding s" "rs_snapshot st' = Some (withDerivedState t)"
  using accepted_event_handled [OF assms] by metis

lemma admission_checked:
  assumes "applyEvent env st ev = Inr st'" "rs_snapshot st = Some s" "ev_body ev = OperationAdmitted p"
  shows "first_failure (validateOperationAdmission env (s\<lparr>sn_assignment_version := ev_assignment_version ev\<rparr>) p) = None"
proof -
  have "ev_body ev \<noteq> RunStarted" using assms(3) by simp
  with assms(1,2) obtain t where "handleEvent env st (s\<lparr>sn_assignment_version := ev_assignment_version ev\<rparr>) ev (ev_body ev) = Inr t"
    by (rule handled_event)
  then show ?thesis using assms(3) by (auto dest: admitOperation_effect(1))
qed

section \<open>Admission\<close>

text \<open>C2: Unknown effects block writes: while any operation of the assignment has an unknown effect, no event admits
  another preview or apply operation; such an admission leaves the journal as it was.\<close>

theorem unknown_effect_blocks_writes:
  assumes "journal_reachable env j" "journal_snapshot j = Inr s"
    "rget (sn_operations s) i = Some q" "op_persistent_effect q = UnknownEffect"
    "ev_body ev = OperationAdmitted p" "op_requested_effect p \<noteq> ReadEffect"
  shows "snd (journal_append env j ev) = j"
  using reachable_ok [OF assms(1)]
proof (cases rule: append_cases [where ev = ev])
  case (accepted st)
  have s: "rs_snapshot (j_state j) = Some s"
    using assms(2) by (simp add: journal_snapshot_def current_def split: option.splits)
  have "accepted s" by (rule history_snapshot) (rule reachable_history [OF assms(1)], rule s)
  then have "i \<in> set (sn_unresolved_unknown_operation_ids s)"
    using assms(3,4) by (simp add: accepted_indexes(2))
  moreover have "sn_unresolved_unknown_operation_ids s = [] \<or> op_requested_effect p = ReadEffect"
    using admission_standing(3) [OF admission_checked [OF accepted(2) s assms(5)]] by simp
  ultimately show ?thesis using assms(6) by auto
qed simp_all

theorem unknown_effect_blocks_writes_witness:
  "\<exists>st. history sample_env (take 3 sample_events) st \<and> snd (journal_append sample_env (sample_journal 3 st)
       (sample_event 4 (OperationAdmitted (sample_operation\<lparr>op_id := ''o9''\<rparr>)))) = sample_journal 3 st"
proof -
  obtain st s q where h: "history sample_env (take 3 sample_events) st" "rs_snapshot st = Some s"
      "rget (sn_operations s) ''o1'' = Some q" "op_persistent_effect q = UnknownEffect"
    using sample_dispatched by (elim sample_checkD operation_isD) blast
  have s: "journal_snapshot (sample_journal 3 st) = Inr s"
    using h(2) by (simp add: journal_snapshot_def current_def sample_journal_def)
  have "op_requested_effect (sample_operation\<lparr>op_id := ''o9''\<rparr>) \<noteq> ReadEffect" by code_simp
  from unknown_effect_blocks_writes [OF sample_journal_reachable [OF h(1)] s h(3,4) _ this] h(1)
  show ?thesis by (auto simp: sample_event_def)
qed

text \<open>C10: Admission is fenced: an admitted root operation belongs to the current run, has a new identity, asks for no
  more than the assignment's effect, and was not admitted past a pause or a proposed checkpoint; past a provider hold only
  read-only reconciliation is admitted; one that retries another names an operation settled without any
  persistent effect.\<close>

theorem root_admission_is_fenced:
  assumes "applyEvent env st ev = Inr st'" "rs_snapshot st = Some s" "ev_body ev = OperationAdmitted p"
    "\<not> truthy (op_parent_id p)"
  shows "op_binding p = sn_current_binding s \<and> rget (sn_operations s) (op_id p) = None
    \<and> effect_rank (op_requested_effect p) \<le> effect_rank (sp_requested_effect (sn_spec s))
    \<and> \<not> paused s \<and> sn_completion_proposal s = None
    \<and> (sn_provider_usage_hold s \<noteq> None \<longrightarrow> op_requested_effect p = ReadEffect \<and> op_purpose p = Reconciliation)
    \<and> (truthy (op_retry_of p) \<longrightarrow> (\<exists>prior. rget (sn_operations s) (the (op_retry_of p)) = Some prior
        \<and> op_settlement_state prior = Settled \<and> op_persistent_effect prior = NoEffect))"
proof -
  note checked = admission_checked [OF assms(1-3)]
  show ?thesis
    using admission_standing [OF checked] admission_effect_envelope [OF checked] admission_hold [OF checked]
      admission_retry [OF checked] assms(4)
    by (auto simp: paused_def)
qed

theorem root_admission_is_fenced_witness:
  "\<exists>st s st'. applyEvent sample_env st (sample_events ! 1) = Inr st' \<and> rs_snapshot st = Some s
     \<and> op_binding sample_operation = sn_current_binding s \<and> \<not> paused s"
proof -
  obtain st s st' where h: "history sample_env (take 1 sample_events) st" "rs_snapshot st = Some s"
      "applyEvent sample_env st (sample_events ! 1) = Inr st'"
    by (rule sample_step [of 1]) simp_all
  have "ev_body (sample_events ! 1) = OperationAdmitted sample_operation" "\<not> truthy (op_parent_id sample_operation)"
    by (simp_all add: sample_events_def sample_event_def sample_operation_def truthy_def)
  from root_admission_is_fenced [OF h(3,2) this] h(2,3) show ?thesis by blast
qed

section \<open>Settlement\<close>

text \<open>C11: A result is recorded only for the exact operation it names, once, under the operation's binding, and not while a
  blocking child of it is unsettled.\<close>

theorem result_needs_settled_children:
  assumes "applyEvent env st ev = Inr st'" "rs_snapshot st = Some s" "ev_body ev = OperationResultRecorded r c"
  shows "\<exists>p. rget (sn_operations s) (r_operation_id r) = Some p \<and> op_settlement_state p \<noteq> Settled \<and> op_result p = None
    \<and> r_binding r = op_binding p
    \<and> (\<forall>q \<in> set (rvals (sn_operations s)). op_parent_id q = Some (op_id p) \<and> op_blocks_parent_settlement q \<noteq> Some False
        \<longrightarrow> op_settlement_state q = Settled)"
proof -
  have "ev_body ev \<noteq> RunStarted" using assms(3) by simp
  with assms(1,2) obtain t where
      "handleEvent env st (s\<lparr>sn_assignment_version := ev_assignment_version ev\<rparr>) ev (ev_body ev) = Inr t"
    by (rule handled_event)
  then have t: "operationResultRecorded env (s\<lparr>sn_assignment_version := ev_assignment_version ev\<rparr>)
      (ev_assignment_version ev) r c = Inr t"
    using assms(3) by simp
  then obtain p where p: "rget (sn_operations s) (r_operation_id r) = Some p" "op_settlement_state p \<noteq> Settled"
      "op_result p = None" "first_failure (validateResult env (s\<lparr>sn_assignment_version := ev_assignment_version ev\<rparr>) p r) = None"
    by (auto simp: operationResultRecorded_def guard_simps split: option.splits)
  show ?thesis
    using p validateResult_effects(2,5) [OF p(4)]
    by (auto simp: unresolvedBlockingChildren_def blocks_parent_def filter_empty_conv)
qed

theorem result_needs_settled_children_witness:
  "\<exists>st s st' p. applyEvent sample_env st (sample_events ! 3) = Inr st' \<and> rs_snapshot st = Some s
     \<and> rget (sn_operations s) ''o1'' = Some p \<and> op_result p = None"
proof -
  obtain st s st' where h: "history sample_env (take 3 sample_events) st" "rs_snapshot st = Some s"
      "applyEvent sample_env st (sample_events ! 3) = Inr st'"
    by (rule sample_step [of 3]) simp_all
  have "ev_body (sample_events ! 3) = OperationResultRecorded sample_result None" "r_operation_id sample_result = ''o1''"
    by (simp_all add: sample_events_def sample_event_def sample_result_def)
  with result_needs_settled_children [OF h(3,2)] h(2,3) show ?thesis by metis
qed

text \<open>C6: A passing evaluation is supported: it comes from an evaluator the criterion accepts, it cites every required
  fact, each cited fact is present in a retained observation of an accepted authority made by a cited settled operation,
  and under the semantic-evidence contract that observation is admissible for the criterion.\<close>

theorem passing_evaluation_is_supported:
  assumes "applyEvent env st ev = Inr st'" "rs_snapshot st = Some s" "ev_body ev = CriterionEvaluated e"
    "ce_status e = CsPass"
  shows "\<exists>c t. find_criterion s (ce_criterion_id e) = Some c
    \<and> ce_evaluator_authority e \<in> set (cs_accepted_evaluator_authority_ids c)
    \<and> set (cs_semantic_fact_requirements c) \<subseteq> set (map fr_fact_id (ce_supporting_facts e))
    \<and> t = s\<lparr>sn_assignment_version := ev_assignment_version ev\<rparr>
    \<and> (\<forall>f \<in> set (ce_supporting_facts e). fact_supported t c e f)"
proof -
  have "ev_body ev \<noteq> RunStarted" using assms(3) by simp
  with assms(1,2) obtain t where
      "handleEvent env st (s\<lparr>sn_assignment_version := ev_assignment_version ev\<rparr>) ev (ev_body ev) = Inr t"
    by (rule handled_event)
  then have "first_failure (validateCriterionEvaluation (s\<lparr>sn_assignment_version := ev_assignment_version ev\<rparr>) e) = None"
    using assms(3) by (auto dest: criterionEvaluated_effect(2))
  then show ?thesis
    by (rule evaluation_facts_supported) (use assms(4) in \<open>auto simp: find_criterion_def\<close>)
qed

theorem passing_evaluation_is_supported_witness:
  "\<exists>st s c. history sample_env (take 5 sample_events) st \<and> rs_snapshot st = Some s
     \<and> find_criterion s ''c1'' = Some c \<and> ''m'' \<in> set (cs_accepted_evaluator_authority_ids c)"
proof -
  obtain st s st' where h: "history sample_env (take 5 sample_events) st" "rs_snapshot st = Some s"
      "applyEvent sample_env st (sample_events ! 5) = Inr st'"
    by (rule sample_step [of 5]) simp_all
  have e: "ev_body (sample_events ! 5) = CriterionEvaluated sample_evaluation" "ce_status sample_evaluation = CsPass"
    by (simp_all add: sample_events_def sample_event_def sample_evaluation_def)
  from passing_evaluation_is_supported [OF h(3,2) e] h(1,2) show ?thesis by (auto simp: sample_evaluation_def)
qed

end
