(* ===== verification/WorkProperties.thy ===== *)
theory WorkProperties
  imports AdmissionProperties
begin

text \<open>
  Properties of the outcome, of evaluations and evidence, of provider calls and of work plans.
\<close>

section \<open>Inputs the witnesses use\<close>

definition sample_noop :: snapshot where
  "sample_noop = (created_snapshot 1 sample_binding sample_spec)
     \<lparr>sn_criteria := [(''c1'', sample_evaluation\<lparr>ce_basis := DesiredStateEquivalence\<rparr>)]\<rparr>"

definition sample_advisory_policy :: execution_policy where
  "sample_advisory_policy = \<lparr>ep_mode = LocalAdvisoryV1, ep_selected_by = TrustedLocalHost, ep_session_id = ''s1'',
      ep_document_fingerprint = ''d'', ep_max_turns = 4, ep_max_provider_calls = 8, ep_max_operations = 8,
      ep_max_total_tokens = 1000, ep_max_wall_clock_ms = 60000, ep_ready_work_handoff = None,
      ep_source_work_allowance = None, ep_native_scope_planning = None, ep_progress_allowance = None,
      ep_principal_id = []\<rparr>"

definition sample_advisory :: snapshot where
  "sample_advisory = sample_noop\<lparr>sn_spec := sample_spec\<lparr>sp_execution_policy := Some sample_advisory_policy\<rparr>\<rparr>"

definition sample_evidenced :: snapshot where
  "sample_evidenced = (created_snapshot 1 sample_binding
       (sample_spec\<lparr>sp_semantic_evidence_contract := Some SEMANTIC_EVIDENCE_CONTRACT_V2, sp_criteria := [sample_policed]\<rparr>))
     \<lparr>sn_operations := [(''o1'', sample_operation\<lparr>op_settlement_state := Settled, op_persistent_effect := AppliedEffect,
        op_result := Some sample_result\<rparr>)]\<rparr>"

definition sample_call :: provider_state_change where
  "sample_call = \<lparr>ps_call_id = ''k1'', ps_state = CallAdmitted, ps_provider = Some ''p'', ps_model = Some ''m'',
     ps_reasoning_effort = None, ps_gap_ids = [''verification:o1''], ps_criterion_ids = [''c1''],
     ps_expected_information = [''f''], ps_usage = None, ps_upstream_receipt = None, ps_success = None,
     ps_error_class = None\<rparr>"

definition sample_declaration :: plan_declaration where
  "sample_declaration = \<lparr>wpd_items = [\<lparr>pd_item_id = ''w1'', pd_description = ''x'', pd_source_basis = ''y'',
     pd_kind = None, pd_depends_on = None\<rparr>, \<lparr>pd_item_id = ''w2'', pd_description = ''x'', pd_source_basis = ''y'',
     pd_kind = None, pd_depends_on = Some [''w1'']\<rparr>], wpd_assumptions = []\<rparr>"

definition sample_planned :: snapshot where
  "sample_planned = sample_noop\<lparr>sn_spec := sample_spec\<lparr>sp_work_plan_required := True\<rparr>\<rparr>"

definition sample_plan :: work_plan where
  "sample_plan = \<lparr>wp_items = map (new_plan_item ''t'') (wpd_items sample_declaration), wp_assumptions = []\<rparr>"

definition sample_with_plan :: snapshot where
  "sample_with_plan = sample_planned\<lparr>sn_work_plan := Some sample_plan\<rparr>"

section \<open>Outcomes and evaluations\<close>

text \<open>Advisory work is never certified: under an advisory execution policy the outcome is never Complete,
  CompleteWithIssues or VerifiedNoop, whatever evidence was retained.\<close>

theorem advisory_is_never_complete:
  assumes "advisoryVerificationV2 s"
  shows "deriveAssignmentOutcomeV2 s \<notin> {Complete, CompleteWithIssues, VerifiedNoop}"
  using outcome_success_unencumbered [of s] assms by (auto simp: unencumbered_def)

theorem advisory_is_never_complete_witness:
  "deriveAssignmentOutcomeV2 sample_advisory \<notin> {Complete, CompleteWithIssues, VerifiedNoop}"
proof -
  have "advisoryVerificationV2 sample_advisory" by code_simp
  then show ?thesis by (rule advisory_is_never_complete)
qed

text \<open>A verified no-op is one: no edit of the assignment is applied, every required criterion is satisfied, and one of
  the passing evaluations rests on desired-state equivalence.\<close>

theorem verified_noop_means_no_edit:
  assumes "deriveAssignmentOutcomeV2 s = VerifiedNoop"
  shows "applied_edits s = [] \<and> sp_requested_effect (sn_spec s) = ApplyEffect \<and> criteria_satisfied s
    \<and> (\<exists>e \<in> set (requiredEvaluations s). ce_basis e = DesiredStateEquivalence)"
  using outcome_noop_edits [OF assms] outcome_satisfied(1) [of s] assms by (auto simp: list_ex_iff)

theorem verified_noop_means_no_edit_witness: "applied_edits sample_noop = [] \<and> criteria_satisfied sample_noop"
proof -
  have "deriveAssignmentOutcomeV2 sample_noop = VerifiedNoop" by code_simp
  from verified_noop_means_no_edit [OF this] show ?thesis by blast
qed

text \<open>Conflicting conclusions are not merged away: after a passed, failed or inapplicable evaluation, an evaluation
  with another status leaves the criterion uncertain and keeps the support of both.\<close>

theorem conflicting_evaluations_are_uncertain:
  assumes "ce_status p \<noteq> ce_status n" "ce_status p \<in> {CsPass, CsFailed, CsNotApplicable}"
  shows "ce_status (mergeEvaluation (Some p) n) = CsUncertain
    \<and> set (ce_supporting_facts (mergeEvaluation (Some p) n)) = set (ce_supporting_facts p) \<union> set (ce_supporting_facts n)
    \<and> set (ce_supporting_operation_ids (mergeEvaluation (Some p) n))
        = set (ce_supporting_operation_ids p) \<union> set (ce_supporting_operation_ids n)"
  using mergeEvaluation_conflict [OF assms] assms by (auto simp: mergeEvaluation_def)

theorem conflicting_evaluations_are_uncertain_witness:
  "ce_status (mergeEvaluation (Some sample_evaluation) (sample_evaluation\<lparr>ce_status := CsFailed\<rparr>)) = CsUncertain"
  using conflicting_evaluations_are_uncertain [of sample_evaluation "sample_evaluation\<lparr>ce_status := CsFailed\<rparr>"]
  by (simp add: sample_evaluation_def)

text \<open>C39: Evidence admitted for a criterion is current: the observation is bound to the current run, its operation is
  settled, succeeded, eligible for the criterion and not invalidated by a later answer, and a task operation of an apply
  assignment that is not a desired-state read was applied.\<close>

theorem admissible_evidence_is_current:
  assumes "adm_admissible (observationAdmissibilityForCriterionV2 s c ob ea basis)"
  shows "\<exists>p r. rget (sn_operations s) (obs_operation_id ob) = Some p \<and> op_result p = Some r
    \<and> obs_binding ob = sn_current_binding s \<and> op_settlement_state p = Settled \<and> r_status r = Succeeded
    \<and> operationUsesCurrentInputsV2 s p \<and> cs_criterion_id c \<in> set (eligible_ids p)
    \<and> (op_fulfillment_role p = Some DelegatedTaskExecution \<and> op_requested_effect p = ApplyEffect
        \<and> sp_requested_effect (sn_spec s) = ApplyEffect \<longrightarrow> op_persistent_effect p = AppliedEffect)"
  using assms
proof (rule admissibleD)
  fix p policy
  assume p: "rget (sn_operations s) (obs_operation_id ob) = Some p" "first_failure (operation_checks s c p) = None"
    "obs_binding ob = sn_current_binding s"
    "op_fulfillment_role p = Some DelegatedTaskExecution \<Longrightarrow> first_failure (task_effect_checks s c p basis) = None"
  obtain r where r: "op_result p = Some r" "op_settlement_state p = Settled" "r_status r = Succeeded"
      "operationUsesCurrentInputsV2 s p"
    using admissible_settled [OF assms] p(1) by auto
  have e: "cs_criterion_id c \<in> set (eligible_ids p)"
    using p(2) by (auto simp: operation_checks_def eligible_ids_def guard_simps split: option.splits)
  have a: "op_persistent_effect p = AppliedEffect"
    if "op_fulfillment_role p = Some DelegatedTaskExecution" "op_requested_effect p = ApplyEffect"
      "sp_requested_effect (sn_spec s) = ApplyEffect"
    using p(4) that by (auto simp: task_effect_checks_def guard_simps)
  show ?thesis using p(1,3) r e a by blast
qed

theorem admissible_evidence_is_current_witness:
  "\<exists>p. rget (sn_operations sample_evidenced) ''o1'' = Some p \<and> op_settlement_state p = Settled
     \<and> adm_admissible (observationAdmissibilityForCriterionV2 sample_evidenced sample_policed
         sample_observation None None)"
proof -
  have a: "adm_admissible (observationAdmissibilityForCriterionV2 sample_evidenced sample_policed
      sample_observation None None)"
    by code_simp
  have "obs_operation_id sample_observation = ''o1''" by (simp add: sample_observation_def)
  with admissible_evidence_is_current [OF a] a show ?thesis by auto
qed

section \<open>Providers\<close>

text \<open>C40: A provider request starts only when work may run: a call identity not seen before is admitted only as
  admitted, outside every pause, usage hold and proposed checkpoint.\<close>

theorem provider_admission_is_fenced:
  assumes "applyProviderState s now e = Inr t" "rget (sn_provider_calls s) (ps_call_id e) = None"
  shows "sn_provider_usage_hold s = None \<and> sn_completion_proposal s = None \<and> \<not> paused s \<and> ps_state e = CallAdmitted
    \<and> map_option pc_state (rget (sn_provider_calls t) (ps_call_id e)) = Some CallAdmitted"
  using applyProviderState_admission [OF assms] assms
  by (auto simp: applyProviderState_def guard_simps put_call_def note_call_id_def admitted_call_def)

theorem provider_admission_is_fenced_witness:
  "\<exists>t. applyProviderState sample_noop ''t'' sample_call = Inr t
     \<and> map_option pc_state (rget (sn_provider_calls t) ''k1'') = Some CallAdmitted"
proof -
  have "\<not> isl (applyProviderState sample_noop ''t'' sample_call)" by code_simp
  then obtain t where t: "applyProviderState sample_noop ''t'' sample_call = Inr t"
    by (cases "applyProviderState sample_noop ''t'' sample_call") simp_all
  have new: "rget (sn_provider_calls sample_noop) (ps_call_id sample_call) = None" by code_simp
  have "ps_call_id sample_call = ''k1''" by (simp add: sample_call_def)
  with provider_admission_is_fenced [OF t new] t show ?thesis by simp
qed

section \<open>Work plans\<close>

text \<open>C35: The order of a plan's dependencies is decided exactly: the traversal finds an order of the items just when the
  dependency relation has no cycle, and it never runs out of its fuel.\<close>

theorem dependency_order_decides:
  "((\<exists>order. dependency_order graph = Inr order) \<longleftrightarrow> acyclic (depends (graph_deps graph)))
    \<and> (dependency_order graph = Inl CYCLE \<longleftrightarrow> \<not> acyclic (depends (graph_deps graph)))"
  using dependency_order_complete [of graph] dependency_order_sound(3) [of graph] dependency_order_error [of graph]
  by (cases "dependency_order graph") auto

text \<open>C38: Declaring scope only adds to a plan, and keeps it well formed: distinct items, at most 128 of them, an acyclic
  work order, no operation credited twice.\<close>

theorem declaring_extends_the_plan:
  assumes "declareWorkPlanV2 s d now = Inr plan" "distinct (map pi_item_id (plan_items s))" "distinct (credited (plan_items s))"
  shows "(\<exists>added. wp_items plan = plan_items s @ added \<and> map pi_item_id added = map pd_item_id (wpd_items d))
    \<and> set (prior_assumptions s) \<subseteq> set (wp_assumptions plan) \<and> well_formed_plan plan
    \<and> acyclic (depends (graph_deps (plan_graph (wp_items plan))))"
  using declareWorkPlanV2_effect(1,2) [OF assms(1)] declareWorkPlanV2_effect(3) [OF assms] plan_orderable_iff
  by (auto simp: well_formed_plan_def well_formed_items_def comp_def)

theorem declaring_extends_the_plan_witness:
  "\<exists>plan. declareWorkPlanV2 sample_planned sample_declaration ''t'' = Inr plan \<and> well_formed_plan plan"
proof -
  have "\<not> isl (declareWorkPlanV2 sample_planned sample_declaration ''t'')" by code_simp
  then obtain plan where d: "declareWorkPlanV2 sample_planned sample_declaration ''t'' = Inr plan"
    by (cases "declareWorkPlanV2 sample_planned sample_declaration ''t''") simp_all
  have "plan_items sample_planned = []" by code_simp
  then have "distinct (map pi_item_id (plan_items sample_planned))" "distinct (credited (plan_items sample_planned))"
    by (simp_all add: credited_def)
  from declaring_extends_the_plan [OF d this] d show ?thesis by blast
qed

text \<open>Progress on a plan keeps its scope: completing or deferring an item leaves every item's identity, description,
  basis and dependencies, and the assumptions, as declared, and keeps the plan well formed.\<close>

theorem plan_progress_keeps_scope:
  assumes "sn_work_plan s = Some plan" "well_formed_plan plan"
    "completeWorkPlanItemV2 s i oids now insp = Inr plan' \<or> deferWorkPlanItemV2 s i defer reason now = Inr plan'"
  shows "same_scope (wp_items plan') (wp_items plan) \<and> wp_assumptions plan' = wp_assumptions plan \<and> well_formed_plan plan'"
  using assms(3)
proof
  assume c: "completeWorkPlanItemV2 s i oids now insp = Inr plan'"
  then show ?thesis
    using complete_well_formed [OF c assms(1,2)] complete_same_scope [OF c assms(1)] assms(2)
    by (simp add: well_formed_plan_def well_formed_items_def)
next
  assume d: "deferWorkPlanItemV2 s i defer reason now = Inr plan'"
  then show ?thesis using defer_well_formed [OF d assms(1)] assms(2) by blast
qed

theorem plan_progress_keeps_scope_witness:
  "\<exists>plan. deferWorkPlanItemV2 sample_with_plan ''w2'' True ''x'' ''t'' = Inr plan
     \<and> same_scope (wp_items plan) (wp_items sample_plan)"
proof -
  have p: "sn_work_plan sample_with_plan = Some sample_plan" by (simp add: sample_with_plan_def)
  have w: "well_formed_plan sample_plan" by code_simp
  have "\<not> isl (deferWorkPlanItemV2 sample_with_plan ''w2'' True ''x'' ''t'')" by code_simp
  then obtain plan where d: "deferWorkPlanItemV2 sample_with_plan ''w2'' True ''x'' ''t'' = Inr plan"
    by (cases "deferWorkPlanItemV2 sample_with_plan ''w2'' True ''x'' ''t''") simp_all
  from plan_progress_keeps_scope [OF p w disjI2, OF d] d show ?thesis by blast
qed

end
