(* ===== verification/ProgressEpoch.thy ===== *)
theory ProgressEpoch
  imports CriterionEvaluator ProgressDecision
begin

text \<open>
  \<open>progress/controller.ts\<close>, second half: \<open>buildProgressEpochV2\<close> compares two snapshots of an assignment and
  records what was genuinely learned or changed between them. The journal counts the epochs without
  progress against the budget, so an epoch must never claim progress for nothing.
\<close>

section \<open>Statuses\<close>

fun statusRank :: "criterion_status option \<Rightarrow> nat" where
  "statusRank None = 0"
| "statusRank (Some CsUncertain) = 1"
| "statusRank (Some CsNeedsInput) = 1"
| "statusRank (Some CsNeedsReview) = 1"
| "statusRank (Some CsFailed) = 1"
| "statusRank (Some CsPartial) = 2"
| "statusRank (Some CsPass) = 3"
| "statusRank (Some CsNotApplicable) = 3"

definition status_in :: "snapshot \<Rightarrow> string \<Rightarrow> criterion_status option" where
  "status_in s i = map_option ce_status (rget (sn_criteria s) i)"

definition criterion_deltas :: "snapshot \<Rightarrow> snapshot \<Rightarrow> criterion_delta list" where
  "criterion_deltas before after = filter (\<lambda>d. cd_before_status d \<noteq> cd_after_status d)
     (map (\<lambda>c. \<lparr>cd_criterion_id = cs_criterion_id c, cd_before_status = status_in before (cs_criterion_id c),
         cd_after_status = status_in after (cs_criterion_id c)\<rparr>) (sp_criteria (sn_spec after)))"

section \<open>Execution strategies\<close>

definition EXECUTION_SUBSTRATES :: "string list" where
  "EXECUTION_SUBSTRATES = [''typed_capability'', ''typed_capability_composition'', ''dynamic_revit_program'']"

definition EXECUTION_STRATEGY_EVIDENCE_V1 :: string where
  "EXECUTION_STRATEGY_EVIDENCE_V1 = ''revit-operator.execution-strategy-evidence.v1''"

text \<open>The identity of a recorded strategy: work unit, substrate and sorted gaps.\<close>

definition executionStrategySelectionIdentityV2 :: "operation \<Rightarrow> (string \<times> string \<times> string list) option" where
  "executionStrategySelectionIdentityV2 p = (case rget (op_input p) ''selected_substrate'' of
      Some (JStr substrate) \<Rightarrow>
        if op_capability_id p = ''operator_record_execution_strategy'' \<and> op_purpose p = Discovery
           \<and> op_fulfillment_role p = Some SupportingControl \<and> op_settlement_state p = Settled
           \<and> result_is p (\<lambda>r. r_status r = CompletedWithoutNativeDispatch \<and> r_dispatch_state r = NotDispatched)
           \<and> rget (op_input p) ''schema'' = Some (JStr EXECUTION_STRATEGY_EVIDENCE_V1)
           \<and> substrate \<in> set EXECUTION_SUBSTRATES
        then Some (op_work_unit_id p, substrate, sort (op_resolves_gap_ids p)) else None
    | _ \<Rightarrow> None)"

definition introducesExecutionStrategySelectionV2 :: "snapshot \<Rightarrow> snapshot \<Rightarrow> string list \<Rightarrow> string list \<Rightarrow> bool" where
  "introducesExecutionStrategySelectionV2 before after admitted stated \<longleftrightarrow>
     list_ex (\<lambda>i. case rget (sn_operations after) i of
        None \<Rightarrow> False
      | Some p \<Rightarrow> list_ex (\<lambda>g. g \<in> set stated) (op_resolves_gap_ids p)
          \<and> executionStrategySelectionIdentityV2 p \<noteq> None
          \<and> executionStrategySelectionIdentityV2 p
              \<notin> set (map executionStrategySelectionIdentityV2 (rvals (sn_operations before)))) admitted"

section \<open>Discovery reads\<close>

definition discovery_read_ok :: "snapshot \<Rightarrow> observation \<Rightarrow> operation \<Rightarrow> string \<Rightarrow> bool" where
  "discovery_read_ok s ob p i \<longleftrightarrow> obs_evidence_class ob = Some ControlEvidence
     \<and> obs_fulfillment_role ob = Some SupportingControl \<and> obs_authority ob \<in> {''native-host'', ''dynamic-runtime''}
     \<and> obs_binding ob = op_binding p
     \<and> b_assignment_id (op_binding p) = b_assignment_id (sn_current_binding s)
     \<and> b_principal_id (op_binding p) = b_principal_id (sn_current_binding s)
     \<and> b_document_fingerprint (op_binding p) = b_document_fingerprint (sn_current_binding s)
     \<and> op_requested_effect p = ReadEffect \<and> op_purpose p = Discovery
     \<and> op_fulfillment_role p = Some SupportingControl \<and> op_admission_state p = Admitted
     \<and> op_settlement_state p = Settled \<and> op_dispatch_state p = Dispatched
     \<and> op_persistent_effect p = NoEffect \<and> obs_capability_id ob = Some (op_capability_id p)
     \<and> result_is p (\<lambda>r. r_status r = Succeeded \<and> r_dispatch_state r = Dispatched \<and> r_operation_id r = op_id p
          \<and> r_persistent_effect r = NoEffect \<and> r_binding r = op_binding p
          \<and> r_raw_payload_hash r = Some (obs_raw_payload_hash ob))
     \<and> i \<in> set (op_observation_ids p) \<and> obs_raw_payload_hash ob \<noteq> [] \<and> domain_succeeded ob"

definition supportingDiscoveryReadIdentityV2 :: "snapshot \<Rightarrow> string \<Rightarrow> string krecord \<Rightarrow> string option" where
  "supportingDiscoveryReadIdentityV2 s i identities = (case rget (sn_observations s) i of
      None \<Rightarrow> None
    | Some ob \<Rightarrow> (case rget (sn_operations s) (obs_operation_id ob) of
        None \<Rightarrow> None
      | Some p \<Rightarrow> if \<not> discovery_read_ok s ob p i then None
          else (case rget identities (op_id p) of
              Some t \<Rightarrow> if t \<noteq> [] \<and> length t \<le> 100000 then Some t else None | None \<Rightarrow> None)))"

text \<open>
  The walk up the admitted ancestry: at most eight operations, none twice, as long as \<open>ok\<close> holds; it
  succeeds at the first one that resolves a stated gap.
\<close>

fun ancestry_resolves :: "nat \<Rightarrow> snapshot \<Rightarrow> (operation \<Rightarrow> bool) \<Rightarrow> string list \<Rightarrow> string list \<Rightarrow> operation option \<Rightarrow> bool" where
  "ancestry_resolves (Suc n) s ok stated seen (Some p) =
     (if op_id p \<in> set seen \<or> \<not> ok p then False
      else if list_ex (\<lambda>g. g \<in> set stated) (op_resolves_gap_ids p) then True
      else ancestry_resolves n s ok stated (op_id p # seen) (truthy_lookup (sn_operations s) (op_parent_id p)))"
| "ancestry_resolves _ s ok stated seen _ = False"

definition discovery_step :: "snapshot \<Rightarrow> operation \<Rightarrow> bool" where
  "discovery_step s p \<longleftrightarrow> op_admission_state p = Admitted \<and> op_requested_effect p = ReadEffect
     \<and> op_purpose p = Discovery \<and> op_fulfillment_role p = Some SupportingControl \<and> op_binding p = sn_current_binding s"

definition relevant_step :: "snapshot \<Rightarrow> operation \<Rightarrow> bool" where
  "relevant_step s p \<longleftrightarrow> op_admission_state p = Admitted \<and> op_binding p = sn_current_binding s"

definition relevantOperation :: "snapshot \<Rightarrow> string list \<Rightarrow> operation \<Rightarrow> bool" where
  "relevantOperation s stated p = ancestry_resolves 8 s (relevant_step s) stated [] (Some p)"

definition adds_supporting_discovery ::
  "snapshot \<Rightarrow> snapshot \<Rightarrow> string list \<Rightarrow> string krecord \<Rightarrow> string krecord \<Rightarrow> string list \<Rightarrow> bool" where
  "adds_supporting_discovery before after stated ids_before ids_after new_observations \<longleftrightarrow>
     (let previous = map (\<lambda>i. supportingDiscoveryReadIdentityV2 before i ids_before) (rkeys (sn_observations before)) in
      list_ex (\<lambda>i.
         (case rget (sn_observations after) i of
            None \<Rightarrow> False
          | Some ob \<Rightarrow> ancestry_resolves 8 after (discovery_step after) stated []
              (rget (sn_operations after) (obs_operation_id ob)))
         \<and> supportingDiscoveryReadIdentityV2 after i ids_after \<noteq> None
         \<and> supportingDiscoveryReadIdentityV2 after i ids_after \<notin> set previous) new_observations)"

section \<open>New facts\<close>

definition dimension :: "semantic_fact \<Rightarrow> string \<Rightarrow> fact_scalar option" where
  "dimension f k = Option.bind (fact_dimensions f) (\<lambda>d. rget d k)"

definition selection_path :: "semantic_fact \<Rightarrow> string option" where
  "selection_path f = (case dimension f ''selection_path'' of Some (FStr t) \<Rightarrow> Some t | _ \<Rightarrow> None)"

definition is_selection :: "semantic_fact \<Rightarrow> bool" where
  "is_selection f \<longleftrightarrow> fact_class_of f = Some ControlFact \<and> fact_id f = ''control.evidence_selection_available''"

text \<open>\<open>canonicalJsonV2([capability_id, evidence_id])\<close> writes a missing dimension as \<open>null\<close>.\<close>

definition selection_scope :: "semantic_fact \<Rightarrow> json list" where
  "selection_scope f = map (\<lambda>k. case dimension f k of None \<Rightarrow> JNull | Some v \<Rightarrow> scalar_json v) [''capability_id'', ''evidence_id'']"

definition all_facts :: "snapshot \<Rightarrow> semantic_fact list" where
  "all_facts s = concat (map obs_facts (rvals (sn_observations s)))"

text \<open>A selection below a path that was already retained adds nothing.\<close>

definition covered_selection :: "snapshot \<Rightarrow> semantic_fact \<Rightarrow> bool" where
  "covered_selection before f \<longleftrightarrow> is_selection f
     \<and> (case selection_path f of
          None \<Rightarrow> False
        | Some next_path \<Rightarrow> list_ex (\<lambda>g. is_selection g \<and> fact_value_of g = FOne (FBool True)
            \<and> selection_scope g = selection_scope f
            \<and> (case selection_path g of
                 None \<Rightarrow> False
               | Some path \<Rightarrow> length path < length next_path \<and> take (length path) next_path = path
                   \<and> next_path ! length path \<in> {CHR ''.'', CHR ''[''})) (all_facts before))"

definition new_observation_ids :: "snapshot \<Rightarrow> snapshot \<Rightarrow> string list" where
  "new_observation_ids before after = sort (filter (\<lambda>i. rget (sn_observations before) i = None) (rkeys (sn_observations after)))"

definition new_facts :: "snapshot \<Rightarrow> snapshot \<Rightarrow> semantic_fact list" where
  "new_facts before after =
     (let known = map semanticFactIdentityV2 (all_facts before) in
      filter (\<lambda>f. semanticFactIdentityV2 f \<notin> set known \<and> \<not> covered_selection before f)
        (concat (map (\<lambda>i. case rget (sn_observations after) i of None \<Rightarrow> [] | Some ob \<Rightarrow> obs_facts ob)
           (new_observation_ids before after))))"

section \<open>Delivery reads\<close>

definition delivery_read :: "snapshot \<Rightarrow> observation \<Rightarrow> operation \<Rightarrow> bool" where
  "delivery_read s ob p \<longleftrightarrow> obs_evidence_class ob = Some TaskResultEvidence
     \<and> obs_authority ob \<in> {''native-host'', ''dynamic-runtime''}
     \<and> op_requested_effect p = ReadEffect \<and> ''result:delivery'' \<in> set (op_resolves_gap_ids p)
     \<and> list_ex (\<lambda>c. adm_admissible (observationAdmissibilityForCriterionV2 s c ob None None)) (sp_criteria (sn_spec s))"

definition deliveryReadIdentities :: "snapshot \<Rightarrow> (string \<times> request_identity option \<times> json \<times> canonical_target) list" where
  "deliveryReadIdentities s = concat (map (\<lambda>ob. case rget (sn_operations s) (obs_operation_id ob) of
      None \<Rightarrow> []
    | Some p \<Rightarrow> if delivery_read s ob p
        then [(op_capability_id p, op_request_identity p, canonicalJsonV2 (JObj (op_input p)),
               (op_target p)\<lparr>tg_semantic_scope := map_option (sort_key fst) (tg_semantic_scope (op_target p))\<rparr>)]
        else []) (rvals (sn_observations s)))"

definition adds_delivery_read :: "snapshot \<Rightarrow> snapshot \<Rightarrow> bool" where
  "adds_delivery_read before after \<longleftrightarrow> sp_result_delivery_required (sn_spec before) \<and> sn_result_delivery before = None
     \<and> sp_requested_effect (sn_spec before) = ReadEffect
     \<and> list_ex (\<lambda>i. i \<notin> set (deliveryReadIdentities before)) (deliveryReadIdentities after)"

section \<open>Reasons of progress\<close>

definition adds_commit :: "snapshot \<Rightarrow> snapshot \<Rightarrow> string list \<Rightarrow> bool" where
  "adds_commit before after stated \<longleftrightarrow>
     (let previous = map (nativeCommitProgressIdentityV2 before) (rvals (sn_operations before)) in
      list_ex (\<lambda>p. nativeCommitProgressIdentityV2 after p \<noteq> None \<and> nativeCommitProgressIdentityV2 after p \<notin> set previous
        \<and> relevantOperation after stated p) (rvals (sn_operations after)))"

definition adds_verification ::
  "snapshot \<Rightarrow> snapshot \<Rightarrow> string list \<Rightarrow> string krecord \<Rightarrow> string krecord \<Rightarrow> bool" where
  "adds_verification before after stated ids_before ids_after \<longleftrightarrow>
     (let previous = map (\<lambda>p. nativeVerificationProgressIdentityV2 before p ids_before) (rvals (sn_operations before)) in
      list_ex (\<lambda>p. nativeVerificationProgressIdentityV2 after p ids_after \<noteq> None
        \<and> nativeVerificationProgressIdentityV2 after p ids_after \<notin> set previous
        \<and> relevantOperation after stated p) (rvals (sn_operations after)))"

definition reason_if :: "bool \<Rightarrow> 'a \<Rightarrow> 'a list" where
  "reason_if b x = (if b then [x] else [])"

record epoch_input =
  ein_before :: snapshot
  ein_after :: snapshot
  ein_stated_gap_ids :: "string list"
  ein_admitted_reasoning_call_ids :: "string list"
  ein_admitted_operation_ids :: "string list"
  ein_identities_before :: "string krecord"
  ein_identities_after :: "string krecord"
  ein_recorded_at :: string

definition gap_ids :: "kernel_env \<Rightarrow> snapshot \<Rightarrow> string list" where
  "gap_ids env s = map gap_id (deriveProgressGapsV2 env s)"

definition fewer :: "'a list \<Rightarrow> 'a list \<Rightarrow> bool" where
  "fewer xs ys \<longleftrightarrow> length xs < length ys"

text \<open>The fifteen reasons in the order the code pushes them; a changed plan repeats the reason of a changed unit.\<close>

definition progress_reasons :: "kernel_env \<Rightarrow> epoch_input \<Rightarrow> progress_reason list" where
  "progress_reasons env e =
     (let before = ein_before e; after = ein_after e; stated = ein_stated_gap_ids e;
          before_gaps = gap_ids env before; after_gaps = gap_ids env after; facts = new_facts before after in
      reason_if (adds_commit before after stated) NativeChangeCommitted
      @ reason_if (adds_verification before after stated (ein_identities_before e) (ein_identities_after e)) VerificationObservationAdded
      @ reason_if (list_ex (\<lambda>d. statusRank (cd_before_status d) < statusRank (cd_after_status d)) (criterion_deltas before after)) CriterionAdvanced
      @ reason_if (fewer after_gaps before_gaps \<or> list_ex (\<lambda>g. g \<notin> set after_gaps) before_gaps) GapNarrowed
      @ reason_if (list_ex (\<lambda>g. starts_with ''input-schema:'' g \<and> g \<notin> set before_gaps) after_gaps) CorrectionGapIdentified
      @ reason_if (adds_supporting_discovery before after stated (ein_identities_before e) (ein_identities_after e)
                (new_observation_ids before after)
              \<or> list_ex (\<lambda>f. fact_class_of f = Some ControlFact) facts) ControllerKnowledgeAdded
      @ reason_if (adds_delivery_read before after \<or> list_ex (\<lambda>f. fact_class_of f \<noteq> Some ControlFact) facts) AuthoritativeObservationAdded
      @ reason_if (fewer (sn_pending_input_variable_ids before) (sn_pending_input_variable_ids after)) InputRequestedReason
      @ reason_if (fewer (sn_pending_input_variable_ids after) (sn_pending_input_variable_ids before)) InputResolvedReason
      @ reason_if (fewer (sn_pending_review_ids before) (sn_pending_review_ids after)) ReviewRequestedReason
      @ reason_if (fewer (sn_pending_review_ids after) (sn_pending_review_ids before)) ReviewResolvedReason
      @ reason_if (fewer (sn_unresolved_unknown_operation_ids after) (sn_unresolved_unknown_operation_ids before)) UncertaintyReconciled
      @ reason_if (introducesExecutionStrategySelectionV2 before after (ein_admitted_operation_ids e) stated) ExecutionStrategySelected
      @ reason_if (sort_key fst (sn_work_unit_states before) \<noteq> sort_key fst (sn_work_unit_states after)) WorkUnitChanged
      @ reason_if (sn_work_plan before \<noteq> sn_work_plan after) WorkUnitChanged
      @ reason_if (sn_outcome before \<noteq> sn_outcome after \<and> sn_outcome after \<noteq> Active) TerminalDerived)"

section \<open>The epoch\<close>

fun status_text :: "criterion_status \<Rightarrow> string" where
  "status_text CsPass = ''pass''"
| "status_text CsPartial = ''partial''"
| "status_text CsNeedsInput = ''needs_input''"
| "status_text CsNeedsReview = ''needs_review''"
| "status_text CsFailed = ''failed''"
| "status_text CsNotApplicable = ''not_applicable''"
| "status_text CsUncertain = ''uncertain''"

fun basis_text :: "evaluation_basis \<Rightarrow> string" where
  "basis_text ObservationBasis = ''observation''"
| "basis_text ExecutionBasis = ''execution''"
| "basis_text DesiredStateEquivalence = ''desired_state_equivalence''"
| "basis_text UserInputBasis = ''user_input''"
| "basis_text PolicyBasis = ''policy''"

fun unit_state_text :: "work_unit_state \<Rightarrow> string" where
  "unit_state_text WuPending = ''pending''"
| "unit_state_text WuActive = ''active''"
| "unit_state_text WuComplete = ''complete''"
| "unit_state_text WuRetained = ''retained''"
| "unit_state_text WuBlocked = ''blocked''"
| "unit_state_text WuFailed = ''failed''"

definition texts_json :: "string list \<Rightarrow> json" where
  "texts_json ts = JArr (map JStr ts)"

definition evaluation_json :: "criterion_evaluation \<Rightarrow> json" where
  "evaluation_json e = JObj [(''criterion_id'', JStr (ce_criterion_id e)), (''status'', JStr (status_text (ce_status e))),
     (''basis'', JStr (basis_text (ce_basis e))), (''supporting_operation_ids'', texts_json (ce_supporting_operation_ids e)),
     (''supporting_facts'', JArr (map (\<lambda>f. JObj [(''observation_id'', JStr (fr_observation_id f)),
        (''fact_id'', JStr (fr_fact_id f))]) (ce_supporting_facts e))),
     (''evaluator_authority'', JStr (ce_evaluator_authority e)), (''reason'', JStr (ce_reason e)),
     (''evaluated_at'', JStr (ce_evaluated_at e))]"

definition record_json :: "('v \<Rightarrow> json) \<Rightarrow> 'v krecord \<Rightarrow> json" where
  "record_json f r = JObj (map (\<lambda>kv. (fst kv, f (snd kv))) r)"

definition progress_fingerprint :: "kernel_env \<Rightarrow> snapshot \<Rightarrow> string" where
  "progress_fingerprint env s = canonicalJsonText env (JObj [(''gaps'', texts_json (gap_ids env s)),
     (''criteria'', record_json evaluation_json (sn_criteria s)),
     (''observations'', texts_json (sort (rkeys (sn_observations s)))),
     (''work_units'', record_json (\<lambda>u. JStr (unit_state_text u)) (sn_work_unit_states s)),
     (''generation'', JNum (of_int (b_generation (sn_current_binding s))))])"

definition epoch_id_text :: "kernel_env \<Rightarrow> epoch_input \<Rightarrow> string" where
  "epoch_id_text env e = canonicalJsonText env (JObj
     [(''assignment_id'', JStr (b_assignment_id (sn_current_binding (ein_after e)))),
      (''before'', JNum (of_int (sn_assignment_version (ein_before e)))),
      (''after'', JNum (of_int (sn_assignment_version (ein_after e)))),
      (''gaps'', texts_json (ein_stated_gap_ids e))])"

definition buildProgressEpochV2 :: "kernel_env \<Rightarrow> epoch_input \<Rightarrow> progress_epoch" where
  "buildProgressEpochV2 env e =
     (let before = ein_before e; after = ein_after e in
      \<lparr>pe_epoch_id = epoch_id_text env e, pe_binding = sn_current_binding after,
       pe_before_assignment_version = sn_assignment_version before, pe_after_assignment_version = sn_assignment_version after,
       pe_unresolved_gap_ids = sort (ein_stated_gap_ids e),
       pe_admitted_reasoning_call_ids = unique_sorted (ein_admitted_reasoning_call_ids e),
       pe_admitted_operation_ids = unique_sorted (ein_admitted_operation_ids e),
       pe_new_observation_ids = new_observation_ids before after,
       pe_new_fact_identities = unique_sorted (map (\<lambda>f. canonicalJsonText env (semanticFactIdentityV2 f)) (new_facts before after)),
       pe_criterion_deltas = criterion_deltas before after,
       pe_progress_fingerprint = progress_fingerprint env after,
       pe_genuine_progress = (progress_reasons env e \<noteq> []), pe_progress_reasons = progress_reasons env e,
       pe_recorded_at = ein_recorded_at e\<rparr>)"

section \<open>Lemmas\<close>

lemma reason_if_Nil [simp]: "reason_if b x = [] \<longleftrightarrow> \<not> b"
  by (simp add: reason_if_def)

lemma in_reason_if [simp]: "y \<in> set (reason_if b x) \<longleftrightarrow> b \<and> y = x"
  by (cases b) (simp_all add: reason_if_def)

lemma no_new_observations: "new_observation_ids s s = []"
  by (auto simp: new_observation_ids_def filter_empty_conv rkeys_def map_of_eq_None_iff)

lemma no_new_facts: "new_facts s s = []"
  by (simp add: new_facts_def no_new_observations)

lemma no_criterion_deltas: "sn_criteria s = sn_criteria t \<Longrightarrow> criterion_deltas s t = []"
  by (simp add: criterion_deltas_def status_in_def filter_empty_conv)

lemma no_strategy: "\<not> introducesExecutionStrategySelectionV2 s s admitted stated"
  by (auto simp: introducesExecutionStrategySelectionV2_def list_ex_iff rget_in_rvals split: option.splits)

text \<open>Whatever happened outside the journal, an epoch over one snapshot claims no progress.\<close>

lemma unchanged_no_reasons:
  assumes "ein_before e = ein_after e" "ein_identities_before e = ein_identities_after e"
  shows "progress_reasons env e = []"
  using assms
  by (simp add: progress_reasons_def adds_commit_def adds_verification_def adds_supporting_discovery_def
      adds_delivery_read_def no_new_observations no_new_facts no_criterion_deltas no_strategy fewer_def list_ex_iff)

lemma epoch_fields [simp]:
  "pe_binding (buildProgressEpochV2 env e) = sn_current_binding (ein_after e)"
  "pe_before_assignment_version (buildProgressEpochV2 env e) = sn_assignment_version (ein_before e)"
  "pe_after_assignment_version (buildProgressEpochV2 env e) = sn_assignment_version (ein_after e)"
  "pe_genuine_progress (buildProgressEpochV2 env e) \<longleftrightarrow> progress_reasons env e \<noteq> []"
  "pe_progress_reasons (buildProgressEpochV2 env e) = progress_reasons env e"
  "pe_epoch_id (buildProgressEpochV2 env e) = epoch_id_text env e"
  by (simp_all add: buildProgressEpochV2_def Let_def)

end
