(* ===== verification/ConstructionPacing.thy ===== *)
theory ConstructionPacing
  imports ProgressDecision
begin

text \<open>
  \<open>draftingConstructionProgressV2\<close> of \<open>progress/native_work_progress.ts\<close>: the construction clock of a
  drafting assignment and the pacing state derived from it. It is recomputed from the snapshot, so reopening
  an assignment does not reset it, and it changes no allowance. Times are milliseconds; the display text is
  left out. The two sorts compare parsed times; a time that does not parse is sorted as time zero.
\<close>

datatype pacing_state = Working | ChangeApproach | Stalled

record construction_progress =
  cp_state :: pacing_state
  cp_calls_since_construction :: int
  cp_distinct_model_commits :: int
  cp_since :: int
  cp_warn_after :: int
  cp_stop_after :: int
  cp_independently_checked_targets :: int
  cp_independently_observed_targets :: "int option"

definition time_or_0 :: "int option \<Rightarrow> int" where
  "time_or_0 t = (case t of None \<Rightarrow> 0 | Some v \<Rightarrow> v)"

definition later_time :: "int \<Rightarrow> int option \<Rightarrow> int" where
  "later_time since t = (case t of None \<Rightarrow> since | Some v \<Rightarrow> max since v)"

section \<open>The construction clock\<close>

text \<open>First the distinct model commits in the order they were opened: the clock and the signatures counted.\<close>

definition commit_signature :: "snapshot \<Rightarrow> operation \<Rightarrow> string option" where
  "commit_signature s p = (case (nativeModelCommitProgressIdentityV2 s p True, op_request_identity p) of
      (Some i, Some q) \<Rightarrow> if ri_request_signature q = [] then None else Some (ri_request_signature q)
    | _ \<Rightarrow> None)"

definition commit_clock :: "snapshot \<Rightarrow> operation \<Rightarrow> int \<times> string list \<Rightarrow> int \<times> string list" where
  "commit_clock s p clock = (case (commit_signature s p, result_time p) of
      (Some sig, Some t) \<Rightarrow>
        if sig \<in> set (snd clock) \<or> t < fst clock then clock else (t, sig # snd clock)
    | _ \<Rightarrow> clock)"

definition opened_order :: "snapshot \<Rightarrow> operation list" where
  "opened_order s = sort_key (\<lambda>p. time_or_0 (date_parse (op_opened_at p))) (rvals (sn_operations s))"

text \<open>Then the reads that verified new targets of such a commit, in the order they completed.\<close>

definition checking_read :: "snapshot \<Rightarrow> operation \<Rightarrow> operation option" where
  "checking_read s p = (case truthy_lookup (sn_operations s) (op_verification_of p) of
      None \<Rightarrow> None
    | Some subject \<Rightarrow>
        if nativeModelCommitProgressIdentityV2 s subject False \<noteq> None
           \<and> verificationOperationHasVerifiedPostconditionV2 s (op_id p) \<and> retainedNativeSuccess s p
        then Some subject else None)"

definition target_clock :: "string list \<Rightarrow> int option \<Rightarrow> int \<times> string list \<Rightarrow> int \<times> string list" where
  "target_clock targets t clock =
     (let fresh = filter (\<lambda>i. i \<notin> set (snd clock)) targets in
      if fresh = [] then clock else (later_time (fst clock) t, fresh @ snd clock))"

definition check_clock :: "snapshot \<Rightarrow> operation \<Rightarrow> int \<times> string list \<Rightarrow> int \<times> string list" where
  "check_clock s p clock = (case (checking_read s p, result_time p) of
      (Some subject, Some t) \<Rightarrow> target_clock (verifiedNativeWorkTargetIdentitiesV2 s (op_id subject)) (Some t) clock
    | _ \<Rightarrow> clock)"

definition completed_order :: "snapshot \<Rightarrow> operation list" where
  "completed_order s = sort_key (\<lambda>p. time_or_0 (result_time p)) (rvals (sn_operations s))"

text \<open>Last the first trusted observations of changed physical owners.\<close>

definition observed_events :: "snapshot \<Rightarrow> (string \<times> string list) list" where
  "observed_events s = sort_key (\<lambda>e. time_or_0 (date_parse (fst e))) (observedNativeWorkReadEventsV1 s)"

definition observe_clock :: "string \<times> string list \<Rightarrow> int \<times> string list \<Rightarrow> int \<times> string list" where
  "observe_clock e = target_clock (snd e) (date_parse (fst e))"

definition clock_start :: "snapshot \<Rightarrow> int \<Rightarrow> int" where
  "clock_start s created = later_time created
     (Option.bind (sn_user_followup_allocation s) (\<lambda>a. date_parse (fa_allocated_at a)))"

definition clock_stages :: "snapshot \<Rightarrow> int \<Rightarrow> (int \<times> string list) \<times> (int \<times> string list) \<times> (int \<times> string list)" where
  "clock_stages s created =
     (let commits = fold (commit_clock s) (opened_order s) (clock_start s created, []);
          checks = fold (check_clock s) (completed_order s) (fst commits, []);
          observations = fold observe_clock (observed_events s) (fst checks, []) in
      (commits, checks, observations))"

section \<open>The pacing state\<close>

definition call_after :: "snapshot \<Rightarrow> int \<Rightarrow> provider_call \<Rightarrow> bool" where
  "call_after s since c \<longleftrightarrow> pc_binding c = sn_current_binding s
     \<and> (case (date_parse (pc_admitted_at c), Option.bind (pc_completed_at c) date_parse) of
          (Some a, Some d) \<Rightarrow> since \<le> a \<and> a \<le> d | _ \<Rightarrow> False)"

definition pacing :: "int \<Rightarrow> int \<Rightarrow> pacing_state" where
  "pacing calls n = (if n * 3 \<le> calls then Stalled else if n * 2 \<le> calls then ChangeApproach else Working)"

definition draftingConstructionProgressV2 :: "snapshot \<Rightarrow> int \<Rightarrow> construction_progress option" where
  "draftingConstructionProgressV2 s n =
     (case (sp_execution_policy (sn_spec s), date_parse (sp_created_at (sn_spec s))) of
        (Some policy, Some created) \<Rightarrow>
          if ep_ready_work_handoff policy = Some ''continue_ready_work_v1''
             \<and> sp_requested_effect (sn_spec s) = ApplyEffect \<and> ep_progress_allowance policy \<noteq> None
             \<and> isSafeInteger n \<and> 1 \<le> n
          then (case clock_stages s created of (commits, checks, observations) \<Rightarrow>
            (let calls = int (length (filter (call_after s (fst observations)) (rvals (sn_provider_calls s)))) in
             Some \<lparr>cp_state = pacing calls n, cp_calls_since_construction = calls,
               cp_distinct_model_commits = int (length (snd commits)), cp_since = fst observations,
               cp_warn_after = n * 2, cp_stop_after = n * 3,
               cp_independently_checked_targets = int (length (snd checks)),
               cp_independently_observed_targets =
                 (if map_option pa_mode (ep_progress_allowance policy) = Some ObservedNativeWorkV1
                  then Some (int (length (snd observations))) else None)\<rparr>))
          else None
      | _ \<Rightarrow> None)"

section \<open>Lemmas\<close>

text \<open>Every step of the clock moves it forward and keeps what it counted distinct.\<close>

definition clock_moves :: "int \<times> string list \<Rightarrow> int \<times> string list \<Rightarrow> bool" where
  "clock_moves c d \<longleftrightarrow> fst c \<le> fst d \<and> (distinct (snd c) \<longrightarrow> distinct (snd d)) \<and> set (snd c) \<subseteq> set (snd d)"

lemma clock_moves_fold:
  assumes "\<And>x c. x \<in> set xs \<Longrightarrow> clock_moves c (f x c)"
  shows "clock_moves c (fold f xs c)"
  using assms
proof (induction xs arbitrary: c)
  case (Cons x xs)
  have "clock_moves c (f x c)" "clock_moves (f x c) (fold f xs (f x c))" using Cons by simp_all
  then show ?case by (force simp: clock_moves_def)
qed (simp add: clock_moves_def)

lemma commit_clock_moves: "clock_moves c (commit_clock s p c)"
  by (auto simp: clock_moves_def commit_clock_def split: option.split)

lemma target_clock_moves: "distinct ts \<Longrightarrow> clock_moves c (target_clock ts t c)"
  by (auto simp: clock_moves_def target_clock_def later_time_def Let_def split: option.split)

lemma check_clock_moves: "clock_moves c (check_clock s p c)"
proof -
  have "distinct (verifiedNativeWorkTargetIdentitiesV2 s i)" for i
    by (simp add: verifiedNativeWorkTargetIdentitiesV2_def unique_sorted_distinct split: option.split)
  then show ?thesis
    by (auto simp: check_clock_def target_clock_moves clock_moves_def [of c c] split: option.split)
qed

lemma observed_targets_distinct: "e \<in> set (observed_events s) \<Longrightarrow> distinct (snd e)"
  by (auto simp: observed_events_def observedNativeWorkReadEventsV1_def observed_targets_of_def unique_sorted_distinct Let_def
      split: option.splits if_splits)

lemma observe_clock_moves: "e \<in> set (observed_events s) \<Longrightarrow> clock_moves c (observe_clock e c)"
  by (simp add: observe_clock_def target_clock_moves observed_targets_distinct)

lemma clock_stages_forward:
  assumes "clock_stages s created = (commits, checks, observations)"
  shows "created \<le> fst commits" "fst commits \<le> fst checks" "fst checks \<le> fst observations"
    "distinct (snd commits)" "distinct (snd checks)" "distinct (snd observations)"
proof -
  have a: "clock_moves (clock_start s created, []) commits" "clock_moves (fst commits, []) checks"
    "clock_moves (fst checks, []) observations"
    using assms
    by (auto simp: clock_stages_def Let_def intro!: clock_moves_fold commit_clock_moves check_clock_moves observe_clock_moves)
  have "created \<le> clock_start s created" by (simp add: clock_start_def later_time_def split: option.split)
  with a show "created \<le> fst commits" "fst commits \<le> fst checks" "fst checks \<le> fst observations"
    "distinct (snd commits)" "distinct (snd checks)" "distinct (snd observations)"
    by (simp_all add: clock_moves_def)
qed

text \<open>A counted commit is an applied operation of the snapshot, so one request is counted once.\<close>

lemma counted_commits:
  assumes "sig \<in> set (snd (fold (commit_clock s) ps c))" "sig \<notin> set (snd c)"
  shows "\<exists>p \<in> set ps. commit_signature s p = Some sig"
  using assms
proof (induction ps arbitrary: c)
  case (Cons p ps)
  show ?case
  proof (cases "sig \<in> set (snd (commit_clock s p c))")
    case True
    with Cons.prems(2) have "commit_signature s p = Some sig"
      by (auto simp: commit_clock_def split: option.splits if_splits)
    then show ?thesis by simp
  next
    case False
    with Cons show ?thesis by (auto dest: Cons.IH)
  qed
qed simp

lemma commit_signature_applied:
  "commit_signature s p = Some sig \<Longrightarrow> op_requested_effect p = ApplyEffect \<and> op_persistent_effect p = AppliedEffect"
  using nativeModelCommitProgressIdentityV2_effect by (force simp: commit_signature_def split: option.splits if_splits)

end
