(* ===== verification/Projections.thy ===== *)
theory Projections
  imports ProgressDecision
begin

text \<open>
  The two read-only projections of an assignment: the efficiency trace over a snapshot
  (\<open>progress/telemetry.ts\<close>) and the replay of the provider calls of a journal (\<open>progress/replay.ts\<close>).
\<close>

section \<open>Efficiency trace\<close>

record call_explanation =
  cx_call_id :: string
  cx_state :: provider_call_state
  cx_why :: string
  cx_gap_ids :: "string list"
  cx_criterion_ids :: "string list"
  cx_expected_information :: "string list"
  cx_operation_ids :: "string list"
  cx_observation_ids :: "string list"
  cx_total_tokens :: "int option"

record efficiency_trace =
  et_assignment_id :: string
  et_assignment_version :: int
  et_provider_calls :: nat
  et_reasoning_turns :: nat
  et_input_tokens :: "int option"
  et_output_tokens :: "int option"
  et_reasoning_tokens :: "int option"
  et_total_tokens :: "int option"
  et_operations :: nat
  et_observations :: nat
  et_criteria_evaluated :: nat
  et_criteria_closed :: nat
  et_progress_epochs :: nat
  et_no_progress_epochs :: nat
  et_wall_time_ms :: "int option"
  et_time_to_first_authoritative_fact_ms :: "int option"
  et_time_to_terminal_ms :: "int option"
  et_provider_call_explanations :: "call_explanation list"

definition finiteDuration :: "string \<Rightarrow> string option \<Rightarrow> int option" where
  "finiteDuration start finish = (if \<not> truthy finish then None
     else (case (date_parse start, date_parse (the finish)) of
         (Some a, Some b) \<Rightarrow> if a \<le> b then Some (b - a) else None
       | _ \<Rightarrow> None))"

definition sumOrNull :: "int option list \<Rightarrow> int option" where
  "sumOrNull vs = (let known = List.map_filter (\<lambda>v. v) vs in if known = [] then None else Some (sum_list known))"

definition usage_of :: "(provider_usage \<Rightarrow> int option) \<Rightarrow> provider_call \<Rightarrow> int option" where
  "usage_of f c = Option.bind (pc_usage c) f"

definition call_before :: "kernel_env \<Rightarrow> provider_call \<Rightarrow> provider_call \<Rightarrow> bool" where
  "call_before env l r \<longleftrightarrow>
     (if locale_less_eq env (pc_admitted_at l) (pc_admitted_at r) \<and> locale_less_eq env (pc_admitted_at r) (pc_admitted_at l)
      then locale_less_eq env (pc_call_id l) (pc_call_id r) else locale_less_eq env (pc_admitted_at l) (pc_admitted_at r))"

definition closed_status :: "criterion_evaluation \<Rightarrow> bool" where
  "closed_status e \<longleftrightarrow> ce_status e = CsPass \<or> ce_status e = CsNotApplicable"

definition explain_call :: "snapshot \<Rightarrow> provider_call \<Rightarrow> call_explanation" where
  "explain_call s c =
     (let operations = unique_sorted (concat (map pe_admitted_operation_ids
            (filter (\<lambda>e. pc_call_id c \<in> set (pe_admitted_reasoning_call_ids e)) (sn_progress_epochs s)))) in
      \<lparr>cx_call_id = pc_call_id c, cx_state = pc_state c,
       cx_why = ''Resolve '' @ join_text '', '' (pc_gap_ids c) @ '' by obtaining ''
         @ join_text '', '' (pc_expected_information c) @ ''.'',
       cx_gap_ids = pc_gap_ids c, cx_criterion_ids = pc_criterion_ids c,
       cx_expected_information = pc_expected_information c, cx_operation_ids = operations,
       cx_observation_ids = unique_sorted (concat (map (\<lambda>i. case rget (sn_operations s) i of
          None \<Rightarrow> [] | Some p \<Rightarrow> op_observation_ids p) operations)),
       cx_total_tokens = usage_of pu_total_tokens c\<rparr>)"

definition buildAssignmentEfficiencyTraceV2 :: "kernel_env \<Rightarrow> snapshot \<Rightarrow> string option \<Rightarrow> efficiency_trace" where
  "buildAssignmentEfficiencyTraceV2 env s observed_at =
     (let calls = sort_by (call_before env) (rvals (sn_provider_calls s));
          observations = sort_by (\<lambda>l r. locale_less_eq env (obs_observed_at l) (obs_observed_at r)) (rvals (sn_observations s));
          created = sp_created_at (sn_spec s) in
      \<lparr>et_assignment_id = b_assignment_id (sn_current_binding s), et_assignment_version = sn_assignment_version s,
       et_provider_calls = length calls, et_reasoning_turns = length (filter (\<lambda>c. pc_state c \<noteq> CallAdmitted) calls),
       et_input_tokens = sumOrNull (map (usage_of pu_input_tokens) calls),
       et_output_tokens = sumOrNull (map (usage_of pu_output_tokens) calls),
       et_reasoning_tokens = sumOrNull (map (usage_of pu_reasoning_tokens) calls),
       et_total_tokens = sumOrNull (map (usage_of pu_total_tokens) calls),
       et_operations = length (rkeys (sn_operations s)), et_observations = length observations,
       et_criteria_evaluated = length (rkeys (sn_criteria s)),
       et_criteria_closed = length (filter closed_status (rvals (sn_criteria s))),
       et_progress_epochs = length (sn_progress_epochs s),
       et_no_progress_epochs = length (filter (\<lambda>e. \<not> pe_genuine_progress e) (sn_progress_epochs s)),
       et_wall_time_ms = finiteDuration created (case sn_finished_at s of None \<Rightarrow> observed_at | Some t \<Rightarrow> Some t),
       et_time_to_first_authoritative_fact_ms = finiteDuration created
         (case observations of [] \<Rightarrow> None | ob # _ \<Rightarrow> Some (obs_observed_at ob)),
       et_time_to_terminal_ms = finiteDuration created (sn_finished_at s),
       et_provider_call_explanations = map (explain_call s) calls\<rparr>)"

section \<open>Replay of the provider calls\<close>

record replayed_operation =
  ro_operation_id :: string
  ro_capability_id :: string
  ro_purpose :: operation_purpose
  ro_requested_effect :: requested_effect
  ro_input :: "json krecord"
  ro_result_status :: "result_status option"

record replayed_observation =
  rb_observation_id :: string
  rb_operation_id :: string
  rb_semantic_fact_ids :: "string list"

datatype missing_evaluation = NoneMissing | NoAffectedCriterion | EvaluationNotRecorded

record replayed_call =
  rc_call_index :: nat
  rc_call_id :: string
  rc_provider_event_version :: int
  rc_occurred_at :: string
  rc_total_tokens :: "int option"
  rc_expected_information :: "string list"
  rc_operation_ids :: "string list"
  rc_observation_ids :: "string list"
  rc_semantic_fact_ids :: "string list"
  rc_semantic_facts :: "(string \<times> semantic_fact) list"
  rc_retention_error_codes :: "string list"
  rc_operations :: "replayed_operation list"
  rc_observations :: "replayed_observation list"
  rc_affected_criterion_ids :: "string list"
  rc_criterion_evaluation_events :: "string list"
  rc_missing_evaluation_reason :: missing_evaluation
  rc_has_next_call :: bool

record progress_replay =
  rp_assignment_id :: string
  rp_source_event_count :: nat
  rp_provider_calls :: "replayed_call list"

text \<open>The payload of an event of one type, and the events of a type in a window.\<close>

fun recorded_call :: "event \<Rightarrow> (event \<times> string) option" where
  "recorded_call ev = (case ev_body ev of ProviderCallRecorded i _ _ _ _ \<Rightarrow> Some (ev, i) | _ \<Rightarrow> None)"

fun operation_event :: "event \<Rightarrow> operation option" where
  "operation_event ev = (case ev_body ev of OperationAdmitted p \<Rightarrow> Some p | _ \<Rightarrow> None)"

fun retained_observation :: "event \<Rightarrow> observation option" where
  "retained_observation ev = (case ev_body ev of ObservationRetained ob \<Rightarrow> Some ob | _ \<Rightarrow> None)"

fun failed_retention :: "event \<Rightarrow> (string \<times> string) option" where
  "failed_retention ev = (case ev_body ev of ObservationRetentionFailed i code \<Rightarrow> Some (i, code) | _ \<Rightarrow> None)"

fun recorded_result :: "event \<Rightarrow> (string \<times> operation_result) option" where
  "recorded_result ev = (case ev_body ev of OperationResultRecorded r _ \<Rightarrow> Some (r_operation_id r, r) | _ \<Rightarrow> None)"

fun recorded_evaluation :: "event \<Rightarrow> string option" where
  "recorded_evaluation ev = (case ev_body ev of CriterionEvaluated e \<Rightarrow> Some (ce_criterion_id e) | _ \<Rightarrow> None)"

fun created_spec :: "event \<Rightarrow> assignment_spec option" where
  "created_spec ev = (case ev_body ev of AssignmentCreated sp \<Rightarrow> Some sp | _ \<Rightarrow> None)"

text \<open>The events after a provider call and before the next one.\<close>

definition call_window :: "event list \<Rightarrow> int \<Rightarrow> int option \<Rightarrow> event list" where
  "call_window events version next_version = filter (\<lambda>ev. version < ev_assignment_version ev
     \<and> (case next_version of None \<Rightarrow> True | Some n \<Rightarrow> ev_assignment_version ev < n)) events"

definition touched_criteria :: "assignment_spec option \<Rightarrow> string list \<Rightarrow> criterion_spec list" where
  "touched_criteria spec units = (case spec of None \<Rightarrow> []
     | Some sp \<Rightarrow> filter (\<lambda>c. list_ex (\<lambda>u. wu_id u \<in> set units \<and> cs_criterion_id c \<in> set (wu_criterion_ids u)) (sp_work_units sp))
         (sp_criteria sp))"

definition affected_criteria :: "assignment_spec option \<Rightarrow> string list \<Rightarrow> string list \<Rightarrow> string list" where
  "affected_criteria spec units facts = (case spec of None \<Rightarrow> []
     | Some sp \<Rightarrow> unique_sorted (filter (\<lambda>i. case find (\<lambda>c. cs_criterion_id c = i) (sp_criteria sp) of
           None \<Rightarrow> False
         | Some c \<Rightarrow> list_ex (\<lambda>f. f \<in> set facts) (cs_semantic_fact_requirements c))
         (concat (map wu_criterion_ids (filter (\<lambda>u. wu_id u \<in> set units) (sp_work_units sp))))))"

definition replay_operation :: "(string \<times> operation_result) list \<Rightarrow> operation \<Rightarrow> replayed_operation" where
  "replay_operation results p = \<lparr>ro_operation_id = op_id p, ro_capability_id = op_capability_id p,
     ro_purpose = op_purpose p, ro_requested_effect = op_requested_effect p, ro_input = op_input p,
     ro_result_status = map_option r_status (map_of (rev results) (op_id p))\<rparr>"

definition replay_observation :: "observation \<Rightarrow> replayed_observation" where
  "replay_observation ob = \<lparr>rb_observation_id = obs_id ob, rb_operation_id = obs_operation_id ob,
     rb_semantic_fact_ids = unique_sorted (map fact_id (obs_facts ob))\<rparr>"

definition replay_call ::
  "event list \<Rightarrow> (string \<times> int option) list \<Rightarrow> nat \<Rightarrow> event \<times> string \<Rightarrow> int option \<Rightarrow> replayed_call" where
  "replay_call events receipts index provider next_version =
     (let window = call_window events (ev_assignment_version (fst provider)) next_version;
          operations = List.map_filter operation_event window; ids = map op_id operations;
          observations = filter (\<lambda>ob. obs_operation_id ob \<in> set ids) (List.map_filter retained_observation window);
          failures = filter (\<lambda>f. fst f \<in> set ids) (List.map_filter failed_retention window);
          results = List.map_filter recorded_result window;
          facts = unique_sorted (concat (map (\<lambda>ob. map fact_id (obs_facts ob)) observations));
          units = map op_work_unit_id operations;
          spec = (case List.map_filter created_spec events of [] \<Rightarrow> None | sp # _ \<Rightarrow> Some sp);
          affected = affected_criteria spec units facts;
          evaluations = List.map_filter recorded_evaluation window in
      \<lparr>rc_call_index = Suc index, rc_call_id = snd provider,
       rc_provider_event_version = ev_assignment_version (fst provider), rc_occurred_at = ev_occurred_at (fst provider),
       rc_total_tokens = (case map_of (rev receipts) (snd provider) of None \<Rightarrow> None | Some t \<Rightarrow> t),
       rc_expected_information = unique_sorted (concat (map cs_semantic_fact_requirements (touched_criteria spec units))),
       rc_operation_ids = ids, rc_observation_ids = map obs_id observations, rc_semantic_fact_ids = facts,
       rc_semantic_facts = concat (map (\<lambda>ob. map (\<lambda>f. (obs_id ob, f)) (obs_facts ob)) observations),
       rc_retention_error_codes = map snd failures, rc_operations = map (replay_operation results) operations,
       rc_observations = map replay_observation observations, rc_affected_criterion_ids = affected,
       rc_criterion_evaluation_events = unique_sorted evaluations,
       rc_missing_evaluation_reason = (if affected = [] then NoAffectedCriterion
          else if evaluations = [] then EvaluationNotRecorded else NoneMissing),
       rc_has_next_call = (next_version \<noteq> None)\<rparr>)"

fun replay_calls ::
  "event list \<Rightarrow> (string \<times> int option) list \<Rightarrow> nat \<Rightarrow> (event \<times> string) list \<Rightarrow> replayed_call list" where
  "replay_calls events receipts n [] = []"
| "replay_calls events receipts n (p # ps) =
     replay_call events receipts n p (case ps of [] \<Rightarrow> None | q # _ \<Rightarrow> Some (ev_assignment_version (fst q)))
     # replay_calls events receipts (Suc n) ps"

definition replayProviderProgressV2 :: "event list \<Rightarrow> (string \<times> int option) list \<Rightarrow> progress_replay" where
  "replayProviderProgressV2 source receipts =
     (let events = sort_key ev_assignment_version source in
      \<lparr>rp_assignment_id = (case events of [] \<Rightarrow> [] | ev # _ \<Rightarrow> ev_assignment_id ev),
       rp_source_event_count = length events,
       rp_provider_calls = replay_calls events receipts 0 (List.map_filter recorded_call events)\<rparr>)"

section \<open>Lemmas\<close>

lemma trace_bounds:
  "et_reasoning_turns (buildAssignmentEfficiencyTraceV2 env s t) \<le> et_provider_calls (buildAssignmentEfficiencyTraceV2 env s t)"
  "et_criteria_closed (buildAssignmentEfficiencyTraceV2 env s t) \<le> et_criteria_evaluated (buildAssignmentEfficiencyTraceV2 env s t)"
  "et_no_progress_epochs (buildAssignmentEfficiencyTraceV2 env s t) \<le> et_progress_epochs (buildAssignmentEfficiencyTraceV2 env s t)"
  using length_filter_le [of closed_status "rvals (sn_criteria s)"]
    length_filter_le [of "\<lambda>c. pc_state c \<noteq> CallAdmitted" "sort_by (call_before env) (rvals (sn_provider_calls s))"]
  by (simp_all add: buildAssignmentEfficiencyTraceV2_def Let_def rkeys_def rvals_def)

lemma set_map_filter: "set (List.map_filter f xs) = {y. \<exists>x \<in> set xs. f x = Some y}"
  by (induction xs) (auto simp: List.map_filter_simps split: option.splits)

lemma sum_list_insert_by:
  "sum_list (List.map_filter f (insert_by le x ys)) = sum_list (List.map_filter f (x # ys :: 'a list))"
  for f :: "'a \<Rightarrow> int option"
  by (induction ys) (auto simp: List.map_filter_simps split: option.splits)

lemma sum_list_sort_by: "sum_list (List.map_filter f (sort_by le xs)) = sum_list (List.map_filter f xs)"
  for f :: "'a \<Rightarrow> int option"
  by (induction xs) (simp_all add: sort_by_def sum_list_insert_by List.map_filter_simps split: option.split)

text \<open>The tokens a trace reports are the tokens the budget charges.\<close>

lemma trace_tokens:
  assumes "et_total_tokens (buildAssignmentEfficiencyTraceV2 env s t) = Some n"
  shows "consumed_tokens s = n"
proof -
  have "sum_list (List.map_filter (usage_of pu_total_tokens) cs)
      = sum_list (map (\<lambda>c. case Option.bind (pc_usage c) pu_total_tokens of None \<Rightarrow> 0 | Some v \<Rightarrow> v) cs)" for cs
    by (induction cs) (simp_all add: List.map_filter_simps usage_of_def split: option.split)
  moreover have "List.map_filter (\<lambda>v. v) (map f cs) = List.map_filter f cs" for f :: "provider_call \<Rightarrow> int option" and cs
    by (induction cs) (simp_all add: List.map_filter_simps split: option.split)
  ultimately show ?thesis
    using assms
    by (auto simp: buildAssignmentEfficiencyTraceV2_def Let_def sumOrNull_def consumed_tokens_def call_tokens_def sum_list_sort_by split: if_splits)
qed

text \<open>Every admitted operation of a journal belongs to at most one provider call.\<close>

lemma replay_window_bounds:
  assumes "i \<in> set (rc_operation_ids (replay_call events receipts n p next_version))"
  shows "\<exists>ev \<in> set events. (\<exists>q. ev_body ev = OperationAdmitted q \<and> op_id q = i)
    \<and> ev_assignment_version (fst p) < ev_assignment_version ev
    \<and> (\<forall>m. next_version = Some m \<longrightarrow> ev_assignment_version ev < m)"
proof -
  have m: "operation_event ev = Some q \<longleftrightarrow> ev_body ev = OperationAdmitted q" for ev q
    by (cases "ev_body ev") simp_all
  from assms obtain ev q where e: "ev \<in> set (call_window events (ev_assignment_version (fst p)) next_version)"
      "operation_event ev = Some q" "op_id q = i"
    by (auto simp del: operation_event.simps simp: replay_call_def Let_def set_map_filter)
  then show ?thesis
    unfolding m by (intro bexI [of _ ev]) (auto simp: call_window_def)
qed

lemma replay_calls_numbered:
  "map rc_call_index (replay_calls events receipts n ps) = map Suc [n..<n + length ps]
   \<and> map rc_call_id (replay_calls events receipts n ps) = map snd ps"
proof (induction ps arbitrary: n)
  case (Cons p ps)
  have "[n..<n + length (p # ps)] = n # [Suc n..<Suc n + length ps]"
    by (simp add: upt_conv_Cons del: upt_Suc)
  then show ?case using Cons.IH [of "Suc n"] by (simp add: replay_call_def Let_def del: upt_Suc)
qed simp

end
