(* ===== verification/ProgressProperties.thy ===== *)
theory ProgressProperties
  imports WorkProperties ProgressEpoch ConstructionPacing Projections
begin

text \<open>
  Properties of the progress controller and of the components around the reducer: when reasoning may be paid for
  and whether the reducer then accepts the call, what counts as progress, how the construction clock runs, what the
  criterion evaluator computes, and what the read-only projections report.
\<close>

section \<open>Inputs the witnesses use\<close>

definition sample_budget :: progress_budget where
  "sample_budget = \<lparr>max_reasoning_turns = 4, max_provider_calls = 4, max_operations = 4, max_equivalent_operations = 1,
     max_no_progress_epochs = 2, max_reconciliation_attempts = 1, max_wall_clock_ms = 600000, max_total_tokens = 1000\<rparr>"

definition sample_dated :: snapshot where
  "sample_dated = created_snapshot 1 sample_binding (sample_spec\<lparr>sp_created_at := ''2024-01-01T00:00:00Z''\<rparr>)"

definition sample_decision :: progress_decision where
  "sample_decision = dn_decision (decideAssignmentProgressV2 sample_env sample_dated sample_budget
     ''2024-01-01T00:01:00Z'' (\<lambda>_. None))"


definition sample_construction_policy :: execution_policy where
  "sample_construction_policy = sample_advisory_policy\<lparr>ep_ready_work_handoff := Some ''continue_ready_work_v1'',
     ep_progress_allowance := Some \<lparr>pa_mode = ObservedNativeWorkV1, pa_max_provider_calls = 8, pa_max_operations = 8,
       pa_max_total_tokens = 1000, pa_max_wall_clock_ms = None, pa_credit_unit = None\<rparr>\<rparr>"

definition sample_constructed :: snapshot where
  "sample_constructed = (created_snapshot 1 sample_binding (sample_spec\<lparr>sp_created_at := ''2024-01-01T00:00:00Z'',
       sp_execution_policy := Some sample_construction_policy\<rparr>))
     \<lparr>sn_operations := [(''o1'', sample_operation\<lparr>op_opened_at := ''2024-01-01T00:00:30Z'', op_settlement_state := Settled,
        op_dispatch_state := Dispatched, op_persistent_effect := AppliedEffect, op_observation_ids := [''ob1''],
        op_request_identity := Some \<lparr>ri_capability_id = ''k'', ri_method = None, ri_path = None, ri_request_signature = ''s''\<rparr>,
        op_result := Some (sample_result\<lparr>r_receipt_id := Some ''r'', r_completed_at := ''2024-01-01T00:01:00Z''\<rparr>)\<rparr>)],
      sn_observations := [(''ob1'', sample_observation\<lparr>obs_facts := [sample_fact\<lparr>fact_id := ''control.domain_succeeded'',
        fact_value_of := FOne (FBool True)\<rparr>]\<rparr>)]\<rparr>"

definition sample_repeated_epoch :: epoch_input where
  "sample_repeated_epoch =
     \<lparr>ein_before = sample_evidenced\<lparr>sn_observations := [(''ob1'', sample_observation)]\<rparr>,
      ein_after = sample_evidenced\<lparr>sn_observations := [(''ob1'', sample_observation),
        (''ob2'', sample_observation\<lparr>obs_id := ''ob2'', obs_observed_at := ''u''\<rparr>)]\<rparr>,
      ein_stated_gap_ids = [''verification:o1''], ein_admitted_reasoning_call_ids = [], ein_admitted_operation_ids = [],
      ein_identities_before = [], ein_identities_after = [], ein_recorded_at = ''t''\<rparr>"

section \<open>Paying for reasoning\<close>

text \<open>C31: A reasoning turn is decided only when it is affordable and nothing else must happen first. Fewer provider
  calls, dispatched calls, operations and tokens than the budget allows were used, less active time was spent, and, unless the
  policy is advisory, fewer consecutive epochs without progress were recorded than it allows. The assignment is not terminal,
  paused or held, has no unknown effect, no request in flight, no missing input and no pending review. The equivalence and
  reconciliation limits of the budget are not about reasoning turns.\<close>

theorem reasoning_turn_is_affordable:
  assumes "dn_decision (decideAssignmentProgressV2 env s budget now interactive) = DecideAdmitReasoningTurn g c x"
  shows "int (length (rkeys (sn_provider_calls s))) < max_provider_calls budget
    \<and> int (length (filter (\<lambda>k. pc_state k \<noteq> CallAdmitted) (rvals (sn_provider_calls s)))) < max_reasoning_turns budget
    \<and> int (length (rkeys (sn_operations s))) < max_operations budget \<and> consumed_tokens s < max_total_tokens budget
    \<and> (\<exists>t. assignmentActiveExecutionTimeMsV2 s now = Some t \<and> t < max_wall_clock_ms budget)
    \<and> (advisoryVerificationV2 s \<or> assignmentConsecutiveNoProgressEpochsV2 s < max_no_progress_epochs budget)
    \<and> \<not> sn_terminal s \<and> \<not> paused s \<and> sn_provider_usage_hold s = None \<and> sn_unresolved_unknown_operation_ids s = []
    \<and> sn_in_flight_provider_call_ids s = [] \<and> sn_pending_input_variable_ids s = [] \<and> sn_pending_review_ids s = []"
  using decide_reasoning [OF assms] budget_blocker_None [OF decide_reasoning(1) [OF assms]] by simp

theorem reasoning_turn_is_affordable_witness:
  "sample_decision = DecideAdmitReasoningTurn [''criterion:c1''] [''c1''] [''f''] \<and> consumed_tokens sample_dated < 1000"
proof -
  have d: "sample_decision = DecideAdmitReasoningTurn [''criterion:c1''] [''c1''] [''f'']" by code_simp
  then have "dn_decision (decideAssignmentProgressV2 sample_env sample_dated sample_budget ''2024-01-01T00:01:00Z'' (\<lambda>_. None))
      = DecideAdmitReasoningTurn [''criterion:c1''] [''c1''] [''f'']"
    by (simp add: sample_decision_def)
  from reasoning_turn_is_affordable [OF this] d show ?thesis by (simp add: sample_budget_def)
qed



section \<open>What counts as progress\<close>

text \<open>Nothing happened is never progress: an epoch over an unchanged snapshot and unchanged read identities records no
  genuine progress, whatever gaps, calls and operations are stated for it.\<close>

theorem unchanged_epoch_is_no_progress:
  "\<not> pe_genuine_progress (buildProgressEpochV2 env
      (e\<lparr>ein_after := ein_before e, ein_identities_after := ein_identities_before e\<rparr>))
   \<and> pe_progress_reasons (buildProgressEpochV2 env
      (e\<lparr>ein_after := ein_before e, ein_identities_after := ein_identities_before e\<rparr>)) = []"
  using unchanged_no_reasons [of "e\<lparr>ein_after := ein_before e, ein_identities_after := ein_identities_before e\<rparr>" env]
  by simp

text \<open>Repeated evidence is not progress: when every fact of the later snapshot has an identity the earlier one already
  had and no delivery read has a new shape, the epoch does not count an authoritative observation as added, however many
  observations, timestamps and payloads are new.\<close>

theorem repeated_evidence_is_not_progress:
  assumes "semanticFactIdentityV2 ` set (all_facts (ein_after e)) \<subseteq> semanticFactIdentityV2 ` set (all_facts (ein_before e))"
    "set (deliveryReadIdentities (ein_after e)) \<subseteq> set (deliveryReadIdentities (ein_before e))"
  shows "AuthoritativeObservationAdded \<notin> set (pe_progress_reasons (buildProgressEpochV2 env e))"
proof -
  have "f \<in> set (all_facts (ein_after e))" if "Some ob = rget (sn_observations (ein_after e)) i" "f \<in> set (obs_facts ob)" for i ob f
    using that(2) rget_in_rvals [OF that(1) [symmetric]] by (auto simp: all_facts_def)
  with assms(1) have "semanticFactIdentityV2 f \<in> semanticFactIdentityV2 ` set (all_facts (ein_before e))"
    if "Some ob = rget (sn_observations (ein_after e)) i" "f \<in> set (obs_facts ob)" for i ob f
    using that by blast
  then have "new_facts (ein_before e) (ein_after e) = []"
    by (auto simp: new_facts_def Let_def filter_empty_conv split: option.splits)
  moreover have "\<not> adds_delivery_read (ein_before e) (ein_after e)"
    using assms(2) by (auto simp: adds_delivery_read_def list_ex_iff)
  ultimately show ?thesis by (simp add: progress_reasons_def Let_def)
qed

theorem repeated_evidence_is_not_progress_witness:
  "new_observation_ids (ein_before sample_repeated_epoch) (ein_after sample_repeated_epoch) = [''ob2'']
   \<and> AuthoritativeObservationAdded \<notin> set (pe_progress_reasons (buildProgressEpochV2 sample_env sample_repeated_epoch))"
proof -
  have o: "new_observation_ids (ein_before sample_repeated_epoch) (ein_after sample_repeated_epoch) = [''ob2'']"
    by code_simp
  have f: "semanticFactIdentityV2 ` set (all_facts (ein_after sample_repeated_epoch))
      \<subseteq> semanticFactIdentityV2 ` set (all_facts (ein_before sample_repeated_epoch))"
    by (simp add: sample_repeated_epoch_def all_facts_def rvals_def)
  have d: "set (deliveryReadIdentities (ein_after sample_repeated_epoch))
      \<subseteq> set (deliveryReadIdentities (ein_before sample_repeated_epoch))"
    by code_simp
  from repeated_evidence_is_not_progress [OF f d] o show ?thesis by blast
qed

section \<open>The construction clock\<close>

lemma counted_signatures:
  assumes "clock_stages s created = (commits, checks, observations)"
  shows "length (snd commits) \<le> length (filter (\<lambda>p. op_requested_effect p = ApplyEffect \<and> op_persistent_effect p = AppliedEffect)
     (rvals (sn_operations s)))"
proof -
  let ?ops = "filter (\<lambda>p. op_requested_effect p = ApplyEffect \<and> op_persistent_effect p = AppliedEffect) (rvals (sn_operations s))"
  have c: "commits = fold (commit_clock s) (opened_order s) (clock_start s created, [])"
    using assms by (simp add: clock_stages_def Let_def)
  have "Some ` set (snd commits) \<subseteq> commit_signature s ` set ?ops"
  proof
    fix v assume "v \<in> Some ` set (snd commits)"
    then obtain sig where sig: "v = Some sig" "sig \<in> set (snd commits)" by blast
    then obtain p where "p \<in> set (opened_order s)" "commit_signature s p = Some sig"
      using counted_commits [of sig s "opened_order s" "(clock_start s created, [])"] c by auto
    then show "v \<in> commit_signature s ` set ?ops"
      using sig(1) commit_signature_applied by (force simp: opened_order_def)
  qed
  then have "card (Some ` set (snd commits)) \<le> card (commit_signature s ` set ?ops)"
    by (rule card_mono [rotated]) simp
  also have "\<dots> \<le> length ?ops" using card_image_le card_length le_trans by blast
  finally show ?thesis using clock_stages_forward(4) [OF assms] by (simp add: card_image distinct_card)
qed

text \<open>The construction clock is honest: it never starts before the assignment was created, one request is counted as
  one commit and only when an applied edit of the snapshot carries it, and the owner is stalled exactly when as many
  calls as three windows were completed since the clock.\<close>

theorem construction_clock_is_honest:
  assumes "draftingConstructionProgressV2 s n = Some p"
  shows "\<exists>created. date_parse (sp_created_at (sn_spec s)) = Some created \<and> created \<le> cp_since p
    \<and> 0 \<le> cp_distinct_model_commits p
    \<and> cp_distinct_model_commits p \<le> int (length (filter (\<lambda>q. op_requested_effect q = ApplyEffect
        \<and> op_persistent_effect q = AppliedEffect) (rvals (sn_operations s))))
    \<and> (cp_state p = Stalled \<longleftrightarrow> 3 * n \<le> cp_calls_since_construction p)
    \<and> (cp_state p = Working \<longleftrightarrow> cp_calls_since_construction p < 2 * n)
    \<and> cp_calls_since_construction p = int (length (filter (call_after s (cp_since p)) (rvals (sn_provider_calls s))))"
proof -
  obtain created commits checks observations where c: "date_parse (sp_created_at (sn_spec s)) = Some created"
      "clock_stages s created = (commits, checks, observations)" "1 \<le> n"
    and p: "cp_since p = fst observations" "cp_distinct_model_commits p = int (length (snd commits))"
      "cp_calls_since_construction p = int (length (filter (call_after s (fst observations)) (rvals (sn_provider_calls s))))"
      "cp_state p = pacing (cp_calls_since_construction p) n"
    using assms by (auto simp: draftingConstructionProgressV2_def Let_def split: option.splits prod.splits if_splits)
  note f = clock_stages_forward [OF c(2)]
  show ?thesis
    using c(1,3) p f(1-3) counted_signatures [OF c(2)] by (intro exI [of _ created]) (auto simp: pacing_def)
qed

theorem construction_clock_is_honest_witness:
  "\<exists>p. draftingConstructionProgressV2 sample_constructed 2 = Some p \<and> cp_distinct_model_commits p = 1 \<and> cp_state p = Working"
proof -
  have "map_option (\<lambda>p. (cp_distinct_model_commits p, cp_calls_since_construction p)) (draftingConstructionProgressV2 sample_constructed 2)
      = Some (1, 0)"
    by code_simp
  then obtain p where p: "draftingConstructionProgressV2 sample_constructed 2 = Some p" "cp_distinct_model_commits p = 1"
      "cp_calls_since_construction p = 0" by auto
  from construction_clock_is_honest [OF p(1)] p show ?thesis by auto
qed

section \<open>Evaluator and projections\<close>

text \<open>C32: The journal accepts what the evaluator computes: over a reachable snapshot, an evaluation computed from retained
  observations whose authorities the criterion accepts passes every check of the reducer, unless it would pass the whole
  result of an apply assignment while its work plan is pending.\<close>

theorem evaluator_is_accepted:
  assumes "history env evs st" "rs_snapshot st = Some s"
    "evaluateCriterionV2 s i ids authority now None = Inr e" "find_criterion s i = Some c"
    "cs_semantic_fact_requirements c \<noteq> []"
    "\<forall>k \<in> set ids. \<forall>ob. rget (sn_observations s) k = Some ob \<longrightarrow> obs_authority ob \<in> set (cs_accepted_observation_authority_ids c)"
    "\<not> (ce_status e = CsPass \<and> sp_requested_effect (sn_spec s) = ApplyEffect \<and> workPlanPendingV2 s \<and> whole_result_criterion c)"
  shows "\<exists>t. criterionEvaluated s version e = Inr t"
proof -
  have "observations_wf s" using history_snapshot [OF assms(1,2)] by (simp add: accepted_def snapshot_wf_def)
  then have k: "observations_keyed s" by (simp add: observations_wf_def kr.well_keyed_def observations_keyed_def)
  have b: "ce_basis e = ObservationBasis"
    using assms(3) by (auto simp: evaluateCriterionV2_def Let_def split: option.splits if_splits)
  from evaluator_accepted [OF assms(3) k assms(4,5) b assms(6,7)] show ?thesis
    by (simp add: criterionEvaluated_def guard_def)
qed

theorem evaluator_is_accepted_witness:
  "\<exists>st s e t. history sample_env policed_events st \<and> rs_snapshot st = Some s
     \<and> evaluateCriterionV2 s ''c1'' [''ob1''] ''m'' ''t'' None = Inr e \<and> ce_status e = CsPass \<and> criterionEvaluated s 6 e = Inr t"
proof -
  obtain st s e where h: "history sample_env policed_events st" "rs_snapshot st = Some s"
      "evaluateCriterionV2 s ''c1'' [''ob1''] ''m'' ''t'' None = Inr e" "find_criterion s ''c1'' = Some sample_policed"
      "rget (sn_observations s) ''ob1'' = Some sample_observation" "\<not> workPlanPendingV2 s" "ce_status e = CsPass"
    using policed_run by (elim run_checkD conjE) (auto split: sum.splits)
  have p: "cs_semantic_fact_requirements sample_policed \<noteq> []"
    "obs_authority sample_observation \<in> set (cs_accepted_observation_authority_ids sample_policed)"
    by (simp_all add: sample_policed_def sample_criterion_def sample_observation_def)
  from evaluator_is_accepted [OF h(1-4) p(1), of 6] h p(2) show ?thesis by auto
qed

text \<open>Equal facts are kept once: normalizing a list of facts keeps one fact of each identity, value and unit, loses
  none of them, and changes nothing when applied again.\<close>

theorem fact_sets_are_normal:
  "distinct (map fact_key (normalizeSemanticFactSetV2 fs))
   \<and> fact_key ` set (normalizeSemanticFactSetV2 fs) = fact_key ` set fs
   \<and> set (normalizeSemanticFactSetV2 fs) \<subseteq> set fs
   \<and> normalizeSemanticFactSetV2 (normalizeSemanticFactSetV2 fs) = normalizeSemanticFactSetV2 fs"
  using without_repeats_keys [of "{}" fs] without_repeats_subset [of "{}" fs]
    without_repeats_idem [of "without_repeats {} fs" "{}"]
  by (simp add: normalizeSemanticFactSetV2_def)

text \<open>Reported tokens are charged tokens: the total an efficiency trace reports is the total the budget charges, and
  it reports none only when no call recorded any.\<close>

theorem reported_tokens_are_charged:
  "consumed_tokens s = (case et_total_tokens (buildAssignmentEfficiencyTraceV2 env s observed_at) of None \<Rightarrow> 0 | Some n \<Rightarrow> n)"
proof (cases "et_total_tokens (buildAssignmentEfficiencyTraceV2 env s observed_at)")
  case None
  then have "List.map_filter (\<lambda>v. v) (map (usage_of pu_total_tokens) (sort_by (call_before env) (rvals (sn_provider_calls s)))) = []"
    by (simp add: buildAssignmentEfficiencyTraceV2_def Let_def sumOrNull_def split: if_splits)
  then have "usage_of pu_total_tokens c = None" if "c \<in> set (rvals (sn_provider_calls s))" for c
    using that set_map_filter [of "\<lambda>v. v" "map (usage_of pu_total_tokens) (sort_by (call_before env) (rvals (sn_provider_calls s)))"]
    by (cases "usage_of pu_total_tokens c") force+
  then have "consumed_tokens s = sum_list (map (\<lambda>c. 0) (rvals (sn_provider_calls s)))"
    unfolding consumed_tokens_def call_tokens_def usage_of_def by (intro arg_cong [where f = sum_list] map_cong) simp_all
  then show ?thesis using None by simp
next
  case (Some n)
  then show ?thesis using trace_tokens [OF Some] by simp
qed

end
