(* ===== verification/SettlementProperties.thy ===== *)
theory SettlementProperties
  imports AdmissionProperties
begin

text \<open>
  Liveness of operations: whatever happened to an admitted operation, the reducer accepts an event that settles it.
\<close>

section \<open>The event that settles an operation\<close>

text \<open>
  A result that claims as little as the state of the operation allows: nothing was dispatched and nothing changed, or,
  after a dispatch, the operation failed and the effect of a write is unknown.
\<close>

definition closing_effect :: "operation \<Rightarrow> persistent_effect" where
  "closing_effect p = (if op_dispatch_state p = Dispatched \<and> op_requested_effect p \<noteq> ReadEffect then UnknownEffect else NoEffect)"

definition closing_result :: "operation \<Rightarrow> operation_result" where
  "closing_result p = \<lparr>r_result_id = ''closing'', r_operation_id = op_id p, r_binding = op_binding p,
     r_status = (if op_dispatch_state p = Dispatched then FailedAfterDispatch else FailedBeforeDispatch),
     r_dispatch_state = (if op_dispatch_state p = Dispatched then Dispatched else NotDispatched),
     r_persistent_effect = closing_effect p, r_native_transaction_state = TxNotApplicable, r_native_artifact_receipt = None,
     r_authority = ''operator'', r_result_schema_id = ''v'', r_observation_required = False, r_raw_payload_hash = None,
     r_payload_provenance = None, r_affected_target_identities = None, r_receipt_id = None, r_native_correlation_id = None,
     r_completed_at = ''t'', r_error_code = Some ''x'', r_diagnostics = None, r_request_identity = op_request_identity p,
     r_input_schema_gap = None, r_result_semantic_gap = None\<rparr>"

definition closing_body :: "operation \<Rightarrow> event_body" where
  "closing_body p = (if op_settlement_state p = RetainingObservation
     then ObservationRetentionFailed (op_id p) ''x'' else OperationResultRecorded (closing_result p) None)"

definition closing_event :: "snapshot \<Rightarrow> operation \<Rightarrow> event" where
  "closing_event s p = \<lparr>ev_event_id = ''closing'', ev_assignment_id = b_assignment_id (sn_current_binding s),
     ev_assignment_version = sn_assignment_version s + 1, ev_binding = sn_current_binding s, ev_occurred_at = ''t'',
     ev_actor = ''operator'', ev_body = closing_body p\<rparr>"

lemma closing_result_valid:
  assumes "unresolvedBlockingChildren s p = []"
  shows "first_failure (validateResult env s p (closing_result p)) = None"
proof -
  have "first_failure (identity_checks s p (closing_result p)) = None"
    using assms by (simp add: identity_checks_def closing_result_def)
  moreover have "first_failure (status_checks p (closing_result p)) = None"
    by (simp add: status_checks_def closing_result_def closing_effect_def)
  moreover have "first_failure (result_effect_checks p (closing_result p)) = None"
    by (simp add: result_effect_checks_def closing_result_def closing_effect_def)
  ultimately show ?thesis
    by (simp add: validateResult_def first_failure_append_None schema_gap_checks_def affected_target_checks_def
        semantic_gap_checks_def closing_result_def)
qed

lemma closing_error: "nonblank ''x''"
  by code_simp

lemma closing_handled:
  assumes "rget (sn_operations s) i = Some p" "op_id p = i" "op_settlement_state p \<noteq> Settled"
    "op_settlement_state p = RetainingObservation \<and> op_result p \<noteq> None
      \<or> op_settlement_state p \<noteq> RetainingObservation \<and> op_result p = None \<and> unresolvedBlockingChildren s p = []"
  shows "\<exists>t q. handleEvent env st (s\<lparr>sn_assignment_version := v\<rparr>) ev (closing_body p) = Inr t
    \<and> rget (sn_operations t) i = Some q \<and> op_settlement_state q = Settled
    \<and> (op_result p = None \<longrightarrow> op_persistent_effect q = closing_effect p)"
proof (cases "op_settlement_state p = RetainingObservation")
  case True
  then show ?thesis
    using assms closing_error
    by (auto simp: closing_body_def observationRetentionFailed_def awaiting_retention_def guard_def put_operation_def
        error_noted_def)
next
  case False
  then have p: "op_result p = None" "unresolvedBlockingChildren s p = []" using assms(4) by auto
  have u: "unresolvedBlockingChildren (s\<lparr>sn_assignment_version := v\<rparr>) p = []"
    using p(2) by (simp add: unresolvedBlockingChildren_def)
  have r: "r_operation_id (closing_result p) = i" "r_native_artifact_receipt (closing_result p) = None"
    "\<not> r_observation_required (closing_result p)" "r_persistent_effect (closing_result p) = closing_effect p"
    using assms(2) by (simp_all add: closing_result_def)
  have "first_failure ([(op_settlement_state p \<noteq> Settled \<and> op_result p = None, ''operation_result_unmatched'')]
      @ validateResult env (s\<lparr>sn_assignment_version := v\<rparr>) p (closing_result p) @ receipt_checks (closing_result p) None) = None"
    using closing_result_valid [OF u] p(1) assms(3) r(2) by (simp add: first_failure_append_None receipt_checks_def)
  then show ?thesis
    using False assms(1,2) r
    by (simp add: closing_body_def operationResultRecorded_def guard_def put_operation_def resulted_operation_def)
qed

lemma result_children_settled:
  assumes "applyEvent env st ev = Inr st'" "rs_snapshot st = Some s" "ev_body ev = OperationResultRecorded r c"
    "rget (sn_operations s) (r_operation_id r) = Some p"
  shows "unresolvedBlockingChildren s p = []"
proof -
  have "ev_body ev \<noteq> RunStarted" using assms(3) by simp
  with assms(1,2) obtain t where
      "handleEvent env st (s\<lparr>sn_assignment_version := ev_assignment_version ev\<rparr>) ev (ev_body ev) = Inr t"
    by (rule handled_event)
  then have "first_failure (validateResult env (s\<lparr>sn_assignment_version := ev_assignment_version ev\<rparr>) p r) = None"
    using assms(3,4) by (auto simp: operationResultRecorded_def guard_simps)
  from validateResult_effects(5) [OF this] show ?thesis by (simp add: unresolvedBlockingChildren_def)
qed

text \<open>C9: Operations can settle: while the run is neither terminal nor superseded, an unsettled operation whose result
  is still to come and whose blocking children are settled, or whose observation is still to be retained, is settled by one
  further event the reducer accepts; if it was never dispatched, without any persistent effect. An operation whose
  observation commit has failed is excluded: no event settles it.\<close>

theorem every_operation_can_settle:
  assumes "history env evs st" "rs_snapshot st = Some s" "\<not> sn_terminal s" "\<not> rs_superseded st"
    "rget (sn_operations s) i = Some p" "op_settlement_state p \<noteq> Settled"
    "op_settlement_state p = RetainingObservation
      \<or> op_settlement_state p \<noteq> ObservationCommitFailed \<and> op_result p = None \<and> unresolvedBlockingChildren s p = []"
  shows "\<exists>ev st' t q. history env (evs @ [ev]) st' \<and> rs_snapshot st' = Some t \<and> rget (sn_operations t) i = Some q
    \<and> op_settlement_state q = Settled \<and> (op_result p = None \<and> op_dispatch_state p \<noteq> Dispatched \<longrightarrow> op_persistent_effect q = NoEffect)"
proof -
  have ok: "lifecycle_ok p" "op_id p = i" using accepted_operation [OF history_snapshot [OF assms(1,2)] assms(5)] by blast+
  let ?ev = "closing_event s p"
  obtain t q where t: "handleEvent env st (s\<lparr>sn_assignment_version := ev_assignment_version ?ev\<rparr>) ?ev (ev_body ?ev) = Inr t"
      "rget (sn_operations t) i = Some q" "op_settlement_state q = Settled"
      "op_result p = None \<longrightarrow> op_persistent_effect q = closing_effect p"
    using closing_handled [OF assms(5) ok(2) assms(6), of env st "ev_assignment_version ?ev" ?ev] assms(7) ok(1)
    by (auto simp: lifecycle_ok_def closing_event_def)
  have "b_assignment_id (ev_binding ?ev) = ev_assignment_id ?ev" "ev_assignment_version ?ev = expected_version st"
    "ev_binding ?ev = sn_current_binding s"
    using assms(2) by (simp_all add: closing_event_def expected_version_def)
  moreover have "ev_body ?ev \<noteq> RunStarted" "\<nexists>spec. ev_body ?ev = AssignmentCreated spec"
    by (simp_all add: closing_event_def closing_body_def)
  ultimately have "kernel_step env st ?ev ((bookkeep (ev_body ?ev) st)\<lparr>rs_snapshot := Some (withDerivedState t)\<rparr>)"
    using assms(2-4) t(1) by (intro kernel_step.handled) (simp_all add: well_addressed_def)
  from history.extend [OF assms(1) this] t(2-4) show ?thesis
    by (intro exI [of _ ?ev] exI) (auto simp: closing_effect_def)
qed

theorem every_operation_can_settle_witness:
  "\<exists>(st :: reducer_state) s p ev st' t q. rs_snapshot st = Some s \<and> rget (sn_operations s) ''o1'' = Some p
     \<and> op_dispatch_state p = Dispatched \<and> history sample_env (take 3 sample_events @ [ev]) st' \<and> rs_snapshot st' = Some t
     \<and> rget (sn_operations t) ''o1'' = Some q \<and> op_settlement_state q = Settled"
proof -
  obtain st s st' where h: "history sample_env (take 3 sample_events) st" "rs_snapshot st = Some s"
      "applyEvent sample_env st (sample_events ! 3) = Inr st'"
    by (rule sample_step [of 3]) simp_all
  obtain st1 s1 p where d: "history sample_env (take 3 sample_events) st1" "rs_snapshot st1 = Some s1"
      "rget (sn_operations s1) ''o1'' = Some p" "op_dispatch_state p = Dispatched"
      "op_settlement_state p = AwaitingResult" "op_result p = None"
    using sample_dispatched by (elim sample_checkD operation_isD conjE) blast
  have eq: "st1 = st" "s1 = s" using sample_history_unique [OF d(1) h(1)] d(2) h(2) by auto
  have "ev_body (sample_events ! 3) \<noteq> RunStarted" by (simp add: sample_events_def sample_event_def)
  then obtain u where u: "\<not> sn_terminal s" "\<not> rs_superseded st"
    using accepted_event_handled [OF h(3,2)] by metis
  have "ev_body (sample_events ! 3) = OperationResultRecorded sample_result None" "r_operation_id sample_result = ''o1''"
    by (simp_all add: sample_events_def sample_event_def sample_result_def)
  with result_children_settled [OF h(3,2)] d(3) have "unresolvedBlockingChildren s p = []" by (simp add: eq)
  then have "op_settlement_state p = RetainingObservation
      \<or> op_settlement_state p \<noteq> ObservationCommitFailed \<and> op_result p = None \<and> unresolvedBlockingChildren s p = []"
    using d(5,6) by simp
  moreover have "op_settlement_state p \<noteq> Settled" using d(5) by simp
  ultimately obtain ev st2 t q where "history sample_env (take 3 sample_events @ [ev]) st2" "rs_snapshot st2 = Some t"
      "rget (sn_operations t) ''o1'' = Some q" "op_settlement_state q = Settled"
    using every_operation_can_settle [OF h(1,2) u d(3) [unfolded eq]] by blast
  with h(2) d(3,4) eq show ?thesis by blast
qed

end
