(* ===== verification/Deviations.thy ===== *)
theory Deviations
  imports Samples
begin

text \<open>
  Where the reducer does less than \<open>docs/ASSIGNMENT_KERNEL_V2.md\<close> says of it. Each lemma exhibits an event the
  reducer accepts and what it leaves behind.
\<close>

section \<open>Provider calls\<close>

text \<open>
  The document: late telemetry can enrich a completed call without rewriting its completion. The conflict checks of
  \<open>applyProviderState\<close> look at \<open>usage\<close> in a usage event and at \<open>success\<close> in a completion event only; a
  transport event that carries them replaces both.
\<close>

lemma late_transport_rewrites_completion:
  assumes "rget (sn_provider_calls s) (ps_call_id e) = Some c" "nonblank (ps_call_id e)"
    "truthy (pc_completed_at c)" "ps_state e = CallTransportCompleted" "ps_upstream_receipt e = None"
    "ps_success e = Some b" "ps_usage e = Some u"
  shows "\<exists>t d. applyProviderState s now e = Inr t \<and> rget (sn_provider_calls t) (ps_call_id e) = Some d
    \<and> pc_success d = Some b \<and> pc_usage d = Some u \<and> pc_completed_at d = pc_completed_at c"
  using assms by (simp add: applyProviderState_def call_change_checks_def changed_call_def put_call_def guard_def)

section \<open>Unknown effects\<close>

text \<open>
  The document: a dispatched apply is \<open>unknown\<close> until an authoritative committed result or a target-bound
  reconciliation settles it. A pre-dispatch failure is checked against the recorded dispatch, but
  \<open>completed_without_native_dispatch\<close> is not: a result of the controller clears the effect of a dispatched apply.
\<close>

lemma controller_result_clears_dispatched_effect:
  "run_check (take 3 sample_events @ [sample_event 4 (OperationResultRecorded controller_result None)])
     (\<lambda>s. operation_is s ''o1'' (\<lambda>p. op_requested_effect p = ApplyEffect \<and> op_dispatched_at p \<noteq> None
        \<and> op_settlement_state p = Settled \<and> op_persistent_effect p = NoEffect)
      \<and> sn_unresolved_unknown_operation_ids s = [])"
  by (rule cleared_run)

text \<open>
  A reconciliation checks that the observations it cites exist, not that it cites any: an unknown effect is resolved,
  either way, without evidence.
\<close>

lemma reconciliation_without_evidence:
  assumes "rget (sn_operations s) i = Some p" "op_id p = i" "op_persistent_effect p = UnknownEffect"
  shows "\<exists>t q. reconciliationRecorded s i e [] = Inr t \<and> rget (sn_operations t) i = Some q
    \<and> op_persistent_effect q = resolved_effect_of e"
  using assms by (simp add: reconciliationRecorded_def guard_def put_operation_def)

end
