(* ===== verification/ControlPlaneData.thy ===== *)
theory ControlPlaneData
  imports JsonRecords
begin

text \<open>
  The data of the first assignment control plane (\<open>assignments/control_plane.ts\<close>): attempts with their lease,
  clarifications, criteria and the projection the reducer keeps, and how the untyped \<open>data\<close> of an event is read.
  The literal \<open>schema\<close> fields of the records are dropped; that of an event is kept, since it is checked.
\<close>

section \<open>Enumerations\<close>

type_synonym attempt_effect = persistent_effect

datatype attempt_purpose = ActionAttempt | DiscoveryAttempt | EvidenceReadAttempt | InteractionAttempt
  | NavigationAttempt | CompletionClaimAttempt | VerificationAttempt | ReconciliationAttempt | RollbackAttempt

datatype assignment_terminal_state = TerminalOpen | TerminalVerified | TerminalComplete | TerminalBlocked
  | TerminalFailed | TerminalCanceled

datatype outcome_state = OutcomeActive | OutcomeAwaitingInput | OutcomeAwaitingReview | OutcomeComplete
  | OutcomeCompleteWithIssues | OutcomeVerifiedNoop | OutcomeBlocked | OutcomeFailed

datatype criterion_state = CriterionPass | CriterionPartial | CriterionNeedsInput | CriterionNeedsReview
  | CriterionFailed | CriterionNotApplicable | CriterionUncertain

datatype attempt_verification = VerificationNotRequested | VerificationPending | VerificationPassed
  | VerificationFailed | VerificationInconclusive

datatype control_decision = DecideContinue | DecideDiagnose | DecideSwitchToolFamily | DecideTerminate

datatype lease_state = LeaseAdmitted | LeaseDispatching | LeaseDispatched | LeaseRetainingEvidence | LeaseSettled
  | LeaseFailedBeforeDispatch | LeaseTimedOutRead | LeaseEffectUnknown | LeaseCanceledBeforeDispatch
  | LeaseCanceledAfterDispatch | LeaseQuarantinedLate

datatype effect_authority = ControlPlaneAuthority | AdmissionPolicy | SchemaValidator | WriteGrant
  | TransportPreDispatch | DispatchTransport | NativeHost | NativeTransaction | NativeReceipt | NativeRollback
  | TargetReadback | IndependentVerifier | WorkerAuthority | CallerReport | AssistantProse

datatype retry_delta = CorrectedSchemaDelta | CorrectedConfirmation | NewTargetEvidence | ChangedPlanDelta
  | RecoveredAuthorization | ResolvedHostState | ReconciliationNone

datatype attempt_admission_state = AdmissionPending | AdmissionAdmitted | AdmissionRejected
datatype attempt_dispatch_state = AttemptNotDispatched | AttemptDispatched | AttemptAcknowledged | AttemptDispatchFailed
datatype attempt_terminal_state = AttemptActive | AttemptSettled | AttemptReconciled | AttemptSuperseded
datatype clarification_status = ClarificationPending | ClarificationResolved | ClarificationSuperseded
datatype completion_status = CompletionNone | CompletionPending | CompletionAccepted | CompletionRejected
datatype control_phase = PhaseIdle | PhasePlanning | PhaseExecuting | PhaseVerifying | PhaseReconciling | PhaseSettled

text \<open>The kinds of an event; a stored event may have another.\<close>

datatype event_kind = RunStartedEvent | RunSupersededEvent | AttemptOpened | AdmissionRecorded | DispatchRecorded
  | LeaseRecorded | EffectRecorded | VerificationRecorded | ReconciliationStarted | ReconciliationResolved
  | AttemptTerminal | ProviderCallRecordedEvent | LateReceiptRecorded | ProgressRecorded | ReadCompletionClaimed
  | ReadCompletionValidated | ClarificationRequestedEvent | ClarificationResolvedEvent | ReviewRequestedEvent
  | ReviewResolvedEvent | CriterionRecorded | PrimaryArtifactRecorded | NoopCompletionClaimed
  | NoopCompletionValidated | AssignmentTerminalEvent | OtherEvent

section \<open>Records\<close>

record attempt_admission =
  adn_state :: attempt_admission_state
  adn_reason :: "string option"
  adn_authority :: "string option"

record attempt_dispatch =
  dsp_state :: attempt_dispatch_state
  dsp_reason :: "string option"
  dsp_id :: "string option"

record attempt_effect_record =
  eff_state :: attempt_effect
  eff_reason :: string
  eff_authority :: effect_authority
  eff_authority_id :: "string option"

record attempt_verification_record =
  ver_state :: attempt_verification
  ver_reason :: "string option"
  ver_evidence_refs :: "string list"

record attempt_lease =
  lease_of_state :: lease_state
  lease_provider_turn_id :: "string option"
  lease_provider_call_id :: "string option"
  lease_app_server_request_id :: "string option"
  lease_mcp_tool_call_id :: "string option"
  lease_native_correlation_id :: "string option"
  lease_tool_namespace :: "string option"
  lease_typed_alias :: "string option"
  lease_canonical_method :: http_method
  lease_opened_at :: string
  lease_dispatch_at :: "string option"
  lease_deadline_at :: string
  lease_evidence_retention_started_at :: "string option"
  lease_evidence_retention_settled_at :: "string option"
  lease_provider_receipt_at :: "string option"
  lease_result_received_at :: "string option"
  lease_receipt_lateness_ms :: "int option"
  lease_evidence_retention_duration_ms :: "int option"
  lease_settled_at :: "string option"

text \<open>What an attempt is opened with, and what later events change.\<close>

record attempt_opening =
  att_assignment_id :: string
  att_id :: string
  att_run_id :: string
  att_generation :: int
  att_purpose :: attempt_purpose
  att_requested_effect :: requested_effect
  att_action_path :: string
  att_tool_identity :: string
  att_action_signature :: string
  att_target_fingerprint :: string
  att_target_identities :: "string list"
  att_expected_postconditions :: "string list"
  att_retry_of :: "string option"
  att_retry_delta :: "retry_delta option"
  att_reconciliation_of :: "string option"
  att_created_at :: string

record attempt = attempt_opening +
  att_admission :: attempt_admission
  att_dispatch :: attempt_dispatch
  att_effect :: attempt_effect_record
  att_affected_target_identities :: "string list"
  att_receipt_refs :: "string list"
  att_evidence_refs :: "string list"
  att_verification :: attempt_verification_record
  att_updated_at :: string
  att_terminal_state :: attempt_terminal_state
  att_lease :: attempt_lease

record criterion_record =
  crit_id :: string
  crit_text :: string
  crit_state :: criterion_state
  crit_reason :: string
  crit_evidence_refs :: "string list"
  crit_work_unit_ids :: "string list"
  crit_updated_at :: string
  crit_updated_by :: string

record user_clarification =
  clar_id :: string
  clar_assignment_id :: string
  clar_run_id :: string
  clar_generation :: int
  clar_missing_fields :: "string list"
  clar_question :: string
  clar_reason :: string
  clar_completed_work :: "string list"
  clar_affected_subtasks :: "string list"
  clar_options :: "(string \<times> string) list"
  clar_recommended_default :: "string option"
  clar_primary_artifact_refs :: "string list"
  clar_created_at :: string
  clar_status :: clarification_status
  clar_resolved_at :: "string option"
  clar_response_digest :: "string option"
  clar_supplied_values :: json_object
  clar_criterion_states :: "criterion_record list"

record noop_completion =
  noop_claim_id :: "string option"
  noop_status :: completion_status
  noop_reason :: "string option"
  noop_target_fingerprint :: "string option"
  noop_desired_value_digest :: "string option"
  noop_attempt_ids :: "string list"
  noop_evidence_refs :: "string list"

record read_completion =
  rdc_claim_id :: "string option"
  rdc_status :: completion_status
  rdc_reason :: "string option"
  rdc_result_digest :: "string option"
  rdc_attempt_ids :: "string list"
  rdc_receipt_refs :: "string list"
  rdc_evidence_refs :: "string list"

record control_progress =
  prog_fingerprint :: "string option"
  prog_repeated_no_progress_count :: int
  prog_diagnosis_used :: bool
  prog_tool_family_switch_used :: bool
  prog_decision :: control_decision
  prog_reason :: "string option"

record projection =
  proj_assignment_id :: string
  proj_run_id :: "string option"
  proj_generation :: int
  proj_requested_effect :: "requested_effect option"
  proj_phase :: control_phase
  proj_terminal_state :: assignment_terminal_state
  proj_terminal_reason :: "string option"
  proj_attempts :: "attempt list"
  proj_apply_opportunity_consumed :: bool
  proj_unresolved_unknown_attempt_ids :: "string list"
  proj_active_verification_attempt_id :: "string option"
  proj_in_flight_attempt_ids :: "string list"
  proj_in_flight_count :: nat
  proj_next_in_flight_deadline :: "string option"
  proj_quiescent :: bool
  proj_settlement_barrier_reason :: "string option"
  proj_provider_call_ids :: "string list"
  proj_provider_call_count :: nat
  proj_late_receipt_count :: int
  proj_outcome_state :: outcome_state
  proj_clarifications :: "user_clarification list"
  proj_pending_clarification_id :: "string option"
  proj_pending_review_id :: "string option"
  proj_criteria :: "criterion_record list"
  proj_primary_artifact_refs :: "string list"
  proj_noop_completion :: noop_completion
  proj_read_completion :: read_completion
  proj_progress :: control_progress
  proj_last_event_at :: "string option"

record attempt_event =
  aev_schema :: string
  aev_id :: string
  aev_assignment_id :: string
  aev_run_id :: string
  aev_generation :: int
  aev_attempt_id :: "string option"
  aev_kind :: event_kind
  aev_occurred_at :: string
  aev_actor :: string
  aev_data :: json

definition ASSIGNMENT_ATTEMPT_EVENT_SCHEMA :: string where
  "ASSIGNMENT_ATTEMPT_EVENT_SCHEMA = ''revit-operator.assignment-attempt-event/v1''"

end
