(* ===== verification/ControlPlaneEffects.thy ===== *)
theory ControlPlaneEffects
  imports ControlPlaneData
begin

text \<open>
  Reading the \<open>data\<close> of a control plane event, the signatures of actions and of progress, and the rule by which the
  effect of an attempt may change (\<open>assignments/control_plane.ts\<close>, up to \<open>applyEffect\<close>). A stored value that is
  neither a string nor absent is not a recognised literal.
\<close>

section \<open>Reading the data of an event\<close>

definition data_field :: "json_object \<Rightarrow> string \<Rightarrow> json" where
  "data_field d k = (case map_of d k of None \<Rightarrow> JNull | Some v \<Rightarrow> v)"

fun data_string :: "json \<Rightarrow> string" where
  "data_string (JStr t) = js_trim t"
| "data_string _ = []"

fun data_strings :: "json \<Rightarrow> string list" where
  "data_strings (JArr xs) = unique_in_order (filter (\<lambda>t. t \<noteq> []) (map data_string xs))"
| "data_strings _ = []"

definition text_at :: "json_object \<Rightarrow> string \<Rightarrow> string" where
  "text_at d k = data_string (data_field d k)"

definition texts_at :: "json_object \<Rightarrow> string \<Rightarrow> string list" where
  "texts_at d k = data_strings (data_field d k)"

definition or_null :: "string \<Rightarrow> string option" where
  "or_null t = (if t = [] then None else Some t)"

definition or_else :: "string \<Rightarrow> string \<Rightarrow> string" where
  "or_else t u = (if t = [] then u else t)"

definition true_at :: "json_object \<Rightarrow> string \<Rightarrow> bool" where
  "true_at d k \<longleftrightarrow> data_field d k = JBool True"

definition literal_of :: "(string \<times> 'a) list \<Rightarrow> json \<Rightarrow> 'a option" where
  "literal_of table v = (case v of JStr t \<Rightarrow> map_of table t | _ \<Rightarrow> None)"

definition merged :: "string list \<Rightarrow> string list \<Rightarrow> string list" where
  "merged xs ys = unique_in_order (xs @ ys)"

section \<open>Literals\<close>

definition requestedEffect :: "json \<Rightarrow> requested_effect option" where
  "requestedEffect v = literal_of [(''read'', ReadEffect), (''preview'', PreviewEffect), (''apply'', ApplyEffect)] v"

definition attempt_purpose_of :: "json \<Rightarrow> attempt_purpose" where
  "attempt_purpose_of v = (case literal_of [(''discovery'', DiscoveryAttempt), (''evidence_read'', EvidenceReadAttempt),
      (''navigation'', NavigationAttempt), (''interaction'', InteractionAttempt), (''completion_claim'', CompletionClaimAttempt),
      (''verification'', VerificationAttempt), (''reconciliation'', ReconciliationAttempt), (''rollback'', RollbackAttempt)] v
    of None \<Rightarrow> ActionAttempt | Some p \<Rightarrow> p)"

fun authority_text :: "effect_authority \<Rightarrow> string" where
  "authority_text ControlPlaneAuthority = ''control_plane''"
| "authority_text AdmissionPolicy = ''admission_policy''"
| "authority_text SchemaValidator = ''schema_validator''"
| "authority_text WriteGrant = ''write_grant''"
| "authority_text TransportPreDispatch = ''transport_pre_dispatch''"
| "authority_text DispatchTransport = ''dispatch_transport''"
| "authority_text NativeHost = ''native_host''"
| "authority_text NativeTransaction = ''native_transaction''"
| "authority_text NativeReceipt = ''native_receipt''"
| "authority_text NativeRollback = ''native_rollback''"
| "authority_text TargetReadback = ''target_readback''"
| "authority_text IndependentVerifier = ''independent_verifier''"
| "authority_text WorkerAuthority = ''worker''"
| "authority_text CallerReport = ''caller_report''"
| "authority_text AssistantProse = ''assistant_prose''"

definition AUTHORITIES :: "effect_authority list" where
  "AUTHORITIES = [ControlPlaneAuthority, AdmissionPolicy, SchemaValidator, WriteGrant, TransportPreDispatch,
     DispatchTransport, NativeHost, NativeTransaction, NativeReceipt, NativeRollback, TargetReadback,
     IndependentVerifier, WorkerAuthority, CallerReport, AssistantProse]"

definition authority_of :: "json \<Rightarrow> effect_authority option" where
  "authority_of v = literal_of (map (\<lambda>a. (authority_text a, a)) AUTHORITIES) v"

fun effectAuthorityRank :: "effect_authority \<Rightarrow> nat" where
  "effectAuthorityRank IndependentVerifier = 6"
| "effectAuthorityRank TargetReadback = 5"
| "effectAuthorityRank NativeHost = 4"
| "effectAuthorityRank NativeTransaction = 4"
| "effectAuthorityRank NativeReceipt = 4"
| "effectAuthorityRank NativeRollback = 4"
| "effectAuthorityRank DispatchTransport = 3"
| "effectAuthorityRank WorkerAuthority = 3"
| "effectAuthorityRank AdmissionPolicy = 2"
| "effectAuthorityRank SchemaValidator = 2"
| "effectAuthorityRank WriteGrant = 2"
| "effectAuthorityRank TransportPreDispatch = 2"
| "effectAuthorityRank CallerReport = 1"
| "effectAuthorityRank ControlPlaneAuthority = 0"
| "effectAuthorityRank AssistantProse = 0"

definition retryDelta :: "json \<Rightarrow> retry_delta option" where
  "retryDelta v = literal_of [(''corrected_schema'', CorrectedSchemaDelta), (''corrected_confirmation'', CorrectedConfirmation),
     (''new_target_evidence'', NewTargetEvidence), (''changed_plan'', ChangedPlanDelta),
     (''recovered_authorization'', RecoveredAuthorization), (''resolved_host_state'', ResolvedHostState),
     (''reconciliation_none'', ReconciliationNone)] v"

fun effect_state_text :: "attempt_effect \<Rightarrow> string" where
  "effect_state_text NoEffect = ''none''"
| "effect_state_text UnknownEffect = ''unknown''"
| "effect_state_text AppliedEffect = ''applied''"

definition effect_state_of :: "json \<Rightarrow> attempt_effect option" where
  "effect_state_of v = literal_of [(''none'', NoEffect), (''unknown'', UnknownEffect), (''applied'', AppliedEffect)] v"

section \<open>Signatures\<close>

text \<open>\<open>canonical\<close>: object keys in the collation of the host.\<close>

fun canonical_collated :: "kernel_env \<Rightarrow> json \<Rightarrow> json" where
  "canonical_collated env (JArr xs) = JArr (map (canonical_collated env) xs)"
| "canonical_collated env (JObj kvs) = JObj (sort_by (\<lambda>l r. locale_less_eq env (fst l) (fst r))
     (map (\<lambda>kv. (fst kv, canonical_collated env (snd kv))) kvs))"
| "canonical_collated env v = v"

definition collated_digest :: "kernel_env \<Rightarrow> json \<Rightarrow> string" where
  "collated_digest env v = ''sha256:'' @ sha256 env (json_text (number_text env) (canonical_collated env v))"

definition nullable_json :: "string option \<Rightarrow> json" where
  "nullable_json t = (case t of None \<Rightarrow> JNull | Some v \<Rightarrow> JStr v)"

definition string_array :: "string list \<Rightarrow> json" where
  "string_array ts = JArr (map JStr ts)"

definition assignmentActionSignature :: "kernel_env \<Rightarrow> requested_effect \<Rightarrow> string \<Rightarrow> string \<Rightarrow> json \<Rightarrow> string" where
  "assignmentActionSignature env e path tool request = collated_digest env (JObj
     [(''requested_effect'', JStr (effect_text e)), (''action_path'', JStr path), (''tool_identity'', JStr tool),
      (''request'', request)])"

record progress_input =
  pin_unresolved_criteria :: "string list"
  pin_grounded_targets :: "string list"
  pin_action_signature :: "string option"
  pin_observation_refs :: "string list"
  pin_verified_facts :: "string list"
  pin_plan_signature :: "string option"
  pin_model_state_signature :: "string option"
  pin_tool_family :: "string option"
  pin_alternative_tool_family :: "string option"
  pin_progress_markers :: "json list"

definition assignmentProgressFingerprint :: "kernel_env \<Rightarrow> int \<Rightarrow> progress_input \<Rightarrow> string" where
  "assignmentProgressFingerprint env generation i = collated_digest env (JObj
     [(''generation'', JNum (of_int generation)),
      (''unresolved_acceptance_criteria'', string_array (unique_sorted (pin_unresolved_criteria i))),
      (''grounded_targets'', string_array (unique_sorted (pin_grounded_targets i))),
      (''action_signature'', nullable_json (pin_action_signature i)),
      (''observation_refs'', string_array (unique_sorted (pin_observation_refs i))),
      (''verified_facts'', string_array (unique_sorted (pin_verified_facts i))),
      (''plan_signature'', nullable_json (pin_plan_signature i)),
      (''model_state_signature'', nullable_json (pin_model_state_signature i))])"

section \<open>The effect of an attempt\<close>

definition effectAuthorityError :: "attempt_effect \<Rightarrow> effect_authority \<Rightarrow> json_object \<Rightarrow> (bool \<times> kernel_error) list" where
  "effectAuthorityError state source d =
     [(source \<noteq> AssistantProse, ''Assistant prose is not an effect authority.''),
      (\<not> (state = AppliedEffect \<and> source \<noteq> CallerReport \<and> source \<notin> {NativeTransaction, NativeReceipt, TargetReadback}),
         authority_text source @ '' cannot prove an applied persistent effect.''),
      (\<not> (state = NoEffect \<and> source = TargetReadback \<and> text_at d ''reason'' = ''verified_noop''
           \<and> length (texts_at d ''evidence_refs'') < 2),
         ''A verified no-op requires two fresh target-bound observations.'')]"

definition effect_change_checks :: "attempt \<Rightarrow> attempt_effect \<Rightarrow> effect_authority \<Rightarrow> (bool \<times> kernel_error) list" where
  "effect_change_checks a effective source =
     (let current = eff_state (att_effect a); authority = eff_authority (att_effect a);
          currentRank = effectAuthorityRank authority; incomingRank = effectAuthorityRank source in
      [(\<not> (att_requested_effect a \<noteq> ApplyEffect \<and> effective = AppliedEffect),
          ''A '' @ effect_text (att_requested_effect a) @ '' attempt cannot establish a persistent applied effect.''),
       (currentRank \<le> incomingRank,
          ''A lower-authority '' @ authority_text source @ '' effect cannot alter '' @ authority_text authority @ '' effect truth.''),
       (\<not> (current = AppliedEffect \<and> effective \<noteq> AppliedEffect), ''An applied effect cannot be downgraded.''),
       (\<not> (current = UnknownEffect \<and> effective \<noteq> UnknownEffect \<and> incomingRank < 4),
          ''Only authoritative native settlement or target-bound verification may resolve an unknown effect.''),
       (\<not> (current \<noteq> effective \<and> (4 \<le> currentRank \<or> incomingRank = currentRank)),
          ''Conflicting '' @ authority_text source @ '' effect truth cannot replace '' @ authority_text authority @ '' ''
            @ effect_state_text current @ ''.'')])"

definition effective_effect :: "attempt_effect \<Rightarrow> effect_authority \<Rightarrow> attempt_effect" where
  "effective_effect state source = (if state = AppliedEffect \<and> source = CallerReport then UnknownEffect else state)"

definition with_effect :: "attempt_effect \<Rightarrow> effect_authority \<Rightarrow> json_object \<Rightarrow> attempt \<Rightarrow> attempt" where
  "with_effect effective source d a = a\<lparr>
     att_effect := \<lparr>eff_state = effective,
       eff_reason = or_else (text_at d ''reason'')
         (if effective = UnknownEffect then ''effect_not_authoritatively_settled'' else ''effect_'' @ effect_state_text effective),
       eff_authority = source,
       eff_authority_id = or_null (text_at d ''authority_id'')\<rparr>,
     att_affected_target_identities := merged (att_affected_target_identities a) (texts_at d ''affected_target_identities''),
     att_receipt_refs := merged (att_receipt_refs a) (texts_at d ''receipt_refs''),
     att_evidence_refs := merged (att_evidence_refs a) (texts_at d ''evidence_refs'')\<rparr>"

definition applyEffect :: "attempt \<Rightarrow> json_object \<Rightarrow> kernel_error + attempt" where
  "applyEffect a d = (case effect_state_of (data_field d ''effect_state'') of
      None \<Rightarrow> Inl ''effect_state must be none, unknown, or applied.''
    | Some state \<Rightarrow> (case authority_of (data_field d ''effect_authority'') of
        None \<Rightarrow> Inl ''A recognized effect_authority is required.''
      | Some source \<Rightarrow>
          guard (effectAuthorityError state source d @ effect_change_checks a (effective_effect state source) source)
            (Inr (with_effect (effective_effect state source) source d a))))"

section \<open>Lemmas\<close>

text \<open>How an effect may move.\<close>

definition effect_moves :: "attempt_effect_record \<Rightarrow> attempt_effect_record \<Rightarrow> bool" where
  "effect_moves e f \<longleftrightarrow> effectAuthorityRank (eff_authority e) \<le> effectAuthorityRank (eff_authority f)
     \<and> (eff_state e = AppliedEffect \<longrightarrow> eff_state f = AppliedEffect)
     \<and> (eff_state e = UnknownEffect \<and> eff_state f \<noteq> UnknownEffect \<longrightarrow> 4 \<le> effectAuthorityRank (eff_authority f))
     \<and> (eff_state f \<noteq> eff_state e \<longrightarrow> effectAuthorityRank (eff_authority e) < 4)"

lemma effect_moves_refl [simp]: "effect_moves e e"
  by (simp add: effect_moves_def)

lemma effect_moves_trans: "effect_moves e f \<Longrightarrow> effect_moves f g \<Longrightarrow> effect_moves e g"
  unfolding effect_moves_def by (cases "eff_state e"; cases "eff_state f"; cases "eff_state g") auto

lemma with_effect_fields [simp]:
  "eff_state (att_effect (with_effect x source d a)) = x" "eff_authority (att_effect (with_effect x source d a)) = source"
  by (simp_all add: with_effect_def)

lemma set_merged [simp]: "set (merged xs ys) = set xs \<union> set ys"
  by (simp add: merged_def)

lemma applyEffect_cases:
  assumes "applyEffect a d = Inr b"
  obtains state source where "effect_state_of (data_field d ''effect_state'') = Some state"
    "authority_of (data_field d ''effect_authority'') = Some source"
    "first_failure (effectAuthorityError state source d) = None"
    "first_failure (effect_change_checks a (effective_effect state source) source) = None"
    "b = with_effect (effective_effect state source) source d a"
  using assms by (auto simp: applyEffect_def guard_Inr_iff first_failure_append_None split: option.splits)

lemma applyEffect_moves [effect]:
  assumes "applyEffect a d = Inr b"
  shows "effect_moves (att_effect a) (att_effect b)"
  using assms
proof (cases rule: applyEffect_cases)
  case (1 state source)
  then show ?thesis
    by (auto simp: effect_moves_def effect_change_checks_def Let_def first_failure_Cons_None)
qed

lemma applyEffect_authority [effect]:
  assumes "applyEffect a d = Inr b"
  shows "eff_authority (att_effect b) \<noteq> AssistantProse"
    "eff_state (att_effect b) = AppliedEffect \<Longrightarrow> att_requested_effect a = ApplyEffect
       \<and> eff_authority (att_effect b) \<in> {NativeTransaction, NativeReceipt, TargetReadback}"
  using assms
  by (auto elim!: applyEffect_cases simp: effectAuthorityError_def effect_change_checks_def Let_def effective_effect_def
      first_failure_Cons_None split: if_splits)

lemma applyEffect_frame [effect]:
  assumes "applyEffect a d = Inr b"
  shows "b = a\<lparr>att_effect := att_effect b, att_affected_target_identities := att_affected_target_identities b,
           att_receipt_refs := att_receipt_refs b, att_evidence_refs := att_evidence_refs b\<rparr>"
    "set (att_receipt_refs a) \<subseteq> set (att_receipt_refs b)" "set (att_evidence_refs a) \<subseteq> set (att_evidence_refs b)"
  using assms by (auto elim!: applyEffect_cases simp: with_effect_def)

end
