(* ===== verification/ControlPlane.thy ===== *)
theory ControlPlane
  imports ControlPlaneEffects
begin

text \<open>
  The reducer of the first assignment control plane (\<open>assignments/control_plane.ts\<close>): what each event does to the
  projection, the fence in front of it, and the reduction, which keeps a rejected event aside with its reason. A handler
  returns the reason of a rejection, or the changed projection; \<open>None\<close> stands for the \<open>RangeError\<close> of
  \<open>toISOString\<close>, which leaves the reducer.
\<close>

section \<open>Times\<close>

definition civil_from_days :: "int \<Rightarrow> int \<times> int \<times> int" where
  "civil_from_days z =
     (let z' = z + 719468; era = z' div 146097; doe = z' - era * 146097;
          yoe = (doe - doe div 1460 + doe div 36524 - doe div 146096) div 365;
          doy = doe - (365 * yoe + yoe div 4 - yoe div 100);
          mp = (5 * doy + 2) div 153; m = (if mp < 10 then mp + 3 else mp - 9)
      in (yoe + era * 400 + (if m \<le> 2 then 1 else 0), m, doy - (153 * mp + 2) div 5 + 1))"

definition padded :: "nat \<Rightarrow> int \<Rightarrow> string" where
  "padded w n = (let t = nat_digits (nat n) in replicate (w - length t) CHR ''0'' @ t)"

definition year_text :: "int \<Rightarrow> string" where
  "year_text y = (if 0 \<le> y \<and> y \<le> 9999 then padded 4 y
     else (if y < 0 then CHR ''-'' else CHR ''+'') # padded 6 \<bar>y\<bar>)"

text \<open>\<open>new Date(t).toISOString()\<close>\<close>

definition iso_string :: "int \<Rightarrow> string option" where
  "iso_string t = (if 8640000000000000 < \<bar>t\<bar> then None
     else (case civil_from_days (t div 86400000) of (y, m, d) \<Rightarrow>
       let r = t mod 86400000 in
       Some (year_text y @ ''-'' @ padded 2 m @ ''-'' @ padded 2 d @ ''T'' @ padded 2 (r div 3600000) @ '':''
         @ padded 2 (r div 60000 mod 60) @ '':'' @ padded 2 (r div 1000 mod 60) @ ''.'' @ padded 3 (r mod 1000) @ ''Z'')))"

definition deadline_text :: "json_object \<Rightarrow> string \<Rightarrow> string option" where
  "deadline_text d now = (case date_parse (text_at d ''deadline_at'') of
      Some t \<Rightarrow> iso_string t
    | None \<Rightarrow> Option.bind (date_parse now) (\<lambda>t. iso_string (t + 240000)))"

definition elapsed :: "int option \<Rightarrow> int option \<Rightarrow> int option" where
  "elapsed start finish = (case (start, finish) of (Some a, Some b) \<Rightarrow> Some (max 0 (b - a)) | _ \<Rightarrow> None)"

definition parse_nullable :: "string option \<Rightarrow> int option" where
  "parse_nullable t = Option.bind t date_parse"

section \<open>The projection\<close>

definition no_noop :: noop_completion where
  "no_noop = \<lparr>noop_claim_id = None, noop_status = CompletionNone, noop_reason = None, noop_target_fingerprint = None,
     noop_desired_value_digest = None, noop_attempt_ids = [], noop_evidence_refs = []\<rparr>"

definition no_read_completion :: read_completion where
  "no_read_completion = \<lparr>rdc_claim_id = None, rdc_status = CompletionNone, rdc_reason = None, rdc_result_digest = None,
     rdc_attempt_ids = [], rdc_receipt_refs = [], rdc_evidence_refs = []\<rparr>"

definition no_progress :: control_progress where
  "no_progress = \<lparr>prog_fingerprint = None, prog_repeated_no_progress_count = 0, prog_diagnosis_used = False,
     prog_tool_family_switch_used = False, prog_decision = DecideContinue, prog_reason = None\<rparr>"

definition initialProjection :: "string \<Rightarrow> projection" where
  "initialProjection i = \<lparr>proj_assignment_id = i, proj_run_id = None, proj_generation = 0, proj_requested_effect = None,
     proj_phase = PhaseIdle, proj_terminal_state = TerminalOpen, proj_terminal_reason = None, proj_attempts = [],
     proj_apply_opportunity_consumed = False, proj_unresolved_unknown_attempt_ids = [],
     proj_active_verification_attempt_id = None, proj_in_flight_attempt_ids = [], proj_in_flight_count = 0,
     proj_next_in_flight_deadline = None, proj_quiescent = True, proj_settlement_barrier_reason = None,
     proj_provider_call_ids = [], proj_provider_call_count = 0, proj_late_receipt_count = 0,
     proj_outcome_state = OutcomeActive, proj_clarifications = [], proj_pending_clarification_id = None,
     proj_pending_review_id = None, proj_criteria = [], proj_primary_artifact_refs = [],
     proj_noop_completion = no_noop, proj_read_completion = no_read_completion, proj_progress = no_progress,
     proj_last_event_at = None\<rparr>"

definition in_flight_attempts :: "projection \<Rightarrow> attempt list" where
  "in_flight_attempts p =
     filter (\<lambda>a. att_generation a = proj_generation p \<and> att_terminal_state a = AttemptActive) (proj_attempts p)"

definition unresolved_unknown :: "attempt \<Rightarrow> bool" where
  "unresolved_unknown a \<longleftrightarrow> att_requested_effect a \<in> {PreviewEffect, ApplyEffect} \<and> eff_state (att_effect a) = UnknownEffect"

definition first_of :: "string list \<Rightarrow> string option" where
  "first_of ts = (case ts of [] \<Rightarrow> None | t # _ \<Rightarrow> Some t)"

definition refreshDerived :: "projection \<Rightarrow> projection" where
  "refreshDerived p = (let inFlight = in_flight_attempts p in p\<lparr>
     proj_apply_opportunity_consumed := list_ex (\<lambda>a. att_requested_effect a = ApplyEffect
        \<and> eff_state (att_effect a) \<in> {UnknownEffect, AppliedEffect}) (proj_attempts p),
     proj_unresolved_unknown_attempt_ids := map att_id (filter unresolved_unknown (proj_attempts p)),
     proj_in_flight_attempt_ids := map att_id inFlight,
     proj_in_flight_count := length inFlight,
     proj_next_in_flight_deadline :=
       first_of (sort (filter (\<lambda>t. t \<noteq> []) (map (\<lambda>a. lease_deadline_at (att_lease a)) inFlight))),
     proj_quiescent := (inFlight = []),
     proj_settlement_barrier_reason :=
       (if inFlight = [] then None else Some ''assignment_settlement_deferred_in_flight'')\<rparr>)"

definition find_attempt :: "projection \<Rightarrow> string \<Rightarrow> attempt option" where
  "find_attempt p i = find (\<lambda>a. att_id a = i) (proj_attempts p)"

definition attemptFor :: "projection \<Rightarrow> attempt_event \<Rightarrow> attempt option" where
  "attemptFor p e = (if truthy (aev_attempt_id e) then find_attempt p (the (aev_attempt_id e)) else None)"

text \<open>Assignment through a reference to the first attempt of an identity.\<close>

fun update_first :: "string \<Rightarrow> (attempt \<Rightarrow> attempt) \<Rightarrow> attempt list \<Rightarrow> attempt list" where
  "update_first i f [] = []"
| "update_first i f (a # as) = (if att_id a = i then f a # as else a # update_first i f as)"

definition modify_attempt :: "string \<Rightarrow> (attempt \<Rightarrow> attempt) \<Rightarrow> projection \<Rightarrow> projection" where
  "modify_attempt i f p = p\<lparr>proj_attempts := update_first i f (proj_attempts p)\<rparr>"

section \<open>Progress\<close>

definition progress_input_of :: "json_object \<Rightarrow> progress_input" where
  "progress_input_of d = (let i = sub_row d ''progress'' in
     \<lparr>pin_unresolved_criteria = texts_at i ''unresolved_acceptance_criteria'', pin_grounded_targets = texts_at i ''grounded_targets'',
      pin_action_signature = or_null (text_at i ''action_signature''), pin_observation_refs = texts_at i ''observation_refs'',
      pin_verified_facts = texts_at i ''verified_facts'', pin_plan_signature = or_null (text_at i ''plan_signature''),
      pin_model_state_signature = or_null (text_at i ''model_state_signature''), pin_tool_family = or_null (text_at i ''tool_family''),
      pin_alternative_tool_family = or_null (text_at i ''legitimate_alternative_tool_family''),
      pin_progress_markers = (case data_field i ''progress_markers'' of JArr xs \<Rightarrow> xs | _ \<Rightarrow> [])\<rparr>)"

definition decide_progress :: "control_decision \<Rightarrow> string option \<Rightarrow> control_progress \<Rightarrow> control_progress" where
  "decide_progress decision reason g = g\<lparr>prog_decision := decision, prog_reason := reason\<rparr>"

definition applyProgress :: "kernel_env \<Rightarrow> projection \<Rightarrow> json_object \<Rightarrow> control_progress" where
  "applyProgress env p d =
     (let i = progress_input_of d; fingerprint = assignmentProgressFingerprint env (proj_generation p) i; g = proj_progress p in
      if \<not> proj_quiescent p then decide_progress DecideContinue (Some ''progress_in_flight'') g
      else let madeProgress = pin_progress_markers i \<noteq> [];
               repeated = \<not> madeProgress \<and> prog_fingerprint g = Some fingerprint;
               count = (if repeated then prog_repeated_no_progress_count g + 1 else 0);
               g' = g\<lparr>prog_fingerprint := Some fingerprint, prog_repeated_no_progress_count := count\<rparr> in
           if madeProgress then decide_progress DecideContinue None g'
           else if count \<le> 1 \<and> \<not> prog_diagnosis_used g
             then decide_progress DecideDiagnose (Some ''one_bounded_diagnosis_allowed'') (g'\<lparr>prog_diagnosis_used := True\<rparr>)
           else (case pin_alternative_tool_family i of
               Some family \<Rightarrow> if \<not> prog_tool_family_switch_used g
                 then decide_progress DecideSwitchToolFamily (Some (''switch_to:'' @ family)) (g'\<lparr>prog_tool_family_switch_used := True\<rparr>)
                 else decide_progress DecideTerminate (Some ''repeated_identical_no_progress'') g'
             | None \<Rightarrow> decide_progress DecideTerminate (Some ''repeated_identical_no_progress'') g'))"

section \<open>The fence\<close>

fun terminal_text :: "assignment_terminal_state \<Rightarrow> string" where
  "terminal_text TerminalOpen = ''open''"
| "terminal_text TerminalVerified = ''verified''"
| "terminal_text TerminalComplete = ''complete''"
| "terminal_text TerminalBlocked = ''blocked''"
| "terminal_text TerminalFailed = ''failed''"
| "terminal_text TerminalCanceled = ''canceled''"

definition rejectReason :: "projection \<Rightarrow> attempt_event \<Rightarrow> kernel_error option" where
  "rejectReason p e = first_failure
     ([(aev_schema e = ASSIGNMENT_ATTEMPT_EVENT_SCHEMA, ''Unsupported event schema.''),
       (aev_assignment_id e = proj_assignment_id p, ''Event belongs to a different Assignment.''),
       (proj_terminal_state p = TerminalOpen,
          ''Assignment is terminal ('' @ terminal_text (proj_terminal_state p) @ '').'')]
      @ (if aev_kind e = RunStartedEvent then
           [(aev_generation e = proj_generation p + 1, ''Run generation must increase exactly once.''),
            (aev_run_id e \<noteq> [], ''run_id is required.'')]
         else
           [(truthy (proj_run_id p), ''No active Assignment run exists.''),
            (proj_run_id p = Some (aev_run_id e) \<and> aev_generation e = proj_generation p,
               ''Event belongs to a stale or superseded run generation.'')]))"

end
