(* ===== verification/ControlPlaneHandlers.thy ===== *)
theory ControlPlaneHandlers
  imports ControlPlane
begin

text \<open>
  \<open>applyAcceptedEvent\<close> of \<open>assignments/control_plane.ts\<close>, one definition per kind of event: first the events of the
  assignment, then those of one attempt.
\<close>

type_synonym handled = "kernel_error + projection option"

definition handled :: "projection \<Rightarrow> handled" where
  "handled p = Inr (Some p)"

section \<open>Runs\<close>

definition supersede_active :: "projection \<Rightarrow> projection" where
  "supersede_active p = p\<lparr>proj_attempts := map (\<lambda>a. if att_terminal_state a = AttemptActive
     then a\<lparr>att_terminal_state := AttemptSuperseded\<rparr> else a) (proj_attempts p)\<rparr>"

definition runStarted :: "projection \<Rightarrow> attempt_event \<Rightarrow> json_object \<Rightarrow> handled" where
  "runStarted p e d = handled ((supersede_active p)\<lparr>proj_run_id := Some (aev_run_id e), proj_generation := aev_generation e,
     proj_requested_effect := (case requestedEffect (data_field d ''requested_effect'') of
        None \<Rightarrow> proj_requested_effect p | Some x \<Rightarrow> Some x),
     proj_phase := PhasePlanning, proj_progress := no_progress, proj_outcome_state := OutcomeActive\<rparr>)"

definition runSuperseded :: "projection \<Rightarrow> handled" where
  "runSuperseded p = handled ((supersede_active p)\<lparr>proj_phase := PhaseSettled\<rparr>)"

section \<open>Opening an attempt\<close>

definition interaction_checks :: "projection \<Rightarrow> string \<Rightarrow> string \<Rightarrow> (bool \<times> kernel_error) list" where
  "interaction_checks p input review =
     [(\<not> truthy (proj_pending_clarification_id p), input), (\<not> truthy (proj_pending_review_id p), review)]"

definition prior_same_apply :: "projection \<Rightarrow> json_object \<Rightarrow> attempt option" where
  "prior_same_apply p d = find (\<lambda>a. att_requested_effect a = ApplyEffect
     \<and> att_action_signature a = text_at d ''action_signature''
     \<and> att_target_fingerprint a = text_at d ''target_fingerprint'') (rev (proj_attempts p))"

definition replay_checks :: "projection \<Rightarrow> json_object \<Rightarrow> requested_effect \<Rightarrow> (bool \<times> kernel_error) list" where
  "replay_checks p d effect = (if effect \<noteq> ApplyEffect then [] else case prior_same_apply p d of
      None \<Rightarrow> []
    | Some prior \<Rightarrow>
        [(eff_state (att_effect prior) = NoEffect,
            ''The same apply action and target cannot be replayed unless the prior effect is authoritatively none.''),
         (or_null (text_at d ''retry_of_attempt_id'') = Some (att_id prior) \<and> retryDelta (data_field d ''retry_delta'') \<noteq> None,
            ''A repeated apply requires its prior attempt and a material retry delta.'')])"

definition opening_checks :: "projection \<Rightarrow> attempt_event \<Rightarrow> attempt_purpose \<Rightarrow> (bool \<times> kernel_error) list" where
  "opening_checks p e purpose =
     [(proj_unresolved_unknown_attempt_ids p = [] \<or> purpose = ReconciliationAttempt,
         ''An unknown effect must be reconciled before another action.''),
      (\<not> list_ex (\<lambda>a. eff_state (att_effect a) = AppliedEffect) (proj_attempts p)
         \<or> purpose \<in> {VerificationAttempt, ReconciliationAttempt, RollbackAttempt},
         ''Open discovery or planning cannot resume after a proven apply.'')]"

definition get_or_post :: "json_object \<Rightarrow> http_method" where
  "get_or_post d = (if toUpperCase (text_at d ''canonical_method'') = ''GET'' then HttpGet else HttpPost)"

definition opened_lease :: "string \<Rightarrow> json_object \<Rightarrow> string \<Rightarrow> attempt_lease" where
  "opened_lease now d deadline = \<lparr>lease_of_state = LeaseAdmitted,
     lease_provider_turn_id = or_null (text_at d ''provider_turn_id''),
     lease_provider_call_id = or_null (text_at d ''provider_call_id''),
     lease_app_server_request_id = or_null (text_at d ''app_server_request_id''),
     lease_mcp_tool_call_id = or_null (text_at d ''mcp_tool_call_id''),
     lease_native_correlation_id = or_null (text_at d ''native_correlation_id''),
     lease_tool_namespace = or_null (text_at d ''tool_namespace''), lease_typed_alias = or_null (text_at d ''typed_alias''),
     lease_canonical_method = get_or_post d, lease_opened_at = now, lease_dispatch_at = None, lease_deadline_at = deadline,
     lease_evidence_retention_started_at = None, lease_evidence_retention_settled_at = None, lease_provider_receipt_at = None,
     lease_result_received_at = None, lease_receipt_lateness_ms = None, lease_evidence_retention_duration_ms = None,
     lease_settled_at = None\<rparr>"

definition opened_attempt :: "projection \<Rightarrow> attempt_event \<Rightarrow> json_object \<Rightarrow> requested_effect \<Rightarrow> string \<Rightarrow> attempt" where
  "opened_attempt p e d effect deadline = (let purpose = attempt_purpose_of (data_field d ''purpose'') in
     \<lparr>att_assignment_id = proj_assignment_id p, att_id = the (aev_attempt_id e), att_run_id = aev_run_id e,
      att_generation = aev_generation e, att_purpose = purpose, att_requested_effect = effect,
      att_action_path = text_at d ''action_path'', att_tool_identity = text_at d ''tool_identity'',
      att_action_signature = text_at d ''action_signature'', att_target_fingerprint = text_at d ''target_fingerprint'',
      att_target_identities = texts_at d ''target_identities'', att_expected_postconditions = texts_at d ''expected_postconditions'',
      att_retry_of = or_null (text_at d ''retry_of_attempt_id''), att_retry_delta = retryDelta (data_field d ''retry_delta''),
      att_reconciliation_of = or_null (text_at d ''reconciliation_of_attempt_id''), att_created_at = aev_occurred_at e,
      att_admission = \<lparr>adn_state = AdmissionPending, adn_reason = None, adn_authority = None\<rparr>,
      att_dispatch = \<lparr>dsp_state = AttemptNotDispatched, dsp_reason = None, dsp_id = None\<rparr>,
      att_effect = \<lparr>eff_state = NoEffect, eff_reason = ''attempt_not_dispatched'', eff_authority = ControlPlaneAuthority,
        eff_authority_id = None\<rparr>,
      att_affected_target_identities = [], att_receipt_refs = [], att_evidence_refs = [],
      att_verification = \<lparr>ver_state = (if purpose = VerificationAttempt then VerificationPending else VerificationNotRequested),
        ver_reason = None, ver_evidence_refs = []\<rparr>,
      att_updated_at = aev_occurred_at e, att_terminal_state = AttemptActive,
      att_lease = opened_lease (aev_occurred_at e) d deadline\<rparr>)"

definition opening_phase :: "attempt_purpose \<Rightarrow> control_phase" where
  "opening_phase purpose = (if purpose = VerificationAttempt then PhaseVerifying
     else if purpose = ReconciliationAttempt then PhaseReconciling else PhaseExecuting)"

definition add_attempt :: "attempt \<Rightarrow> projection \<Rightarrow> projection" where
  "add_attempt a p = p\<lparr>proj_attempts := proj_attempts p @ [a], proj_phase := opening_phase (att_purpose a),
     proj_active_verification_attempt_id :=
       (if att_purpose a = VerificationAttempt then Some (att_id a) else proj_active_verification_attempt_id p)\<rparr>"

definition attemptOpened :: "projection \<Rightarrow> attempt_event \<Rightarrow> json_object \<Rightarrow> handled" where
  "attemptOpened p e d = guard
     (interaction_checks p ''Assignment is awaiting user input; no new tool attempt may open.''
        ''Assignment is awaiting user review; no new tool attempt may open.''
      @ [(truthy (aev_attempt_id e) \<and> \<not> list_ex (\<lambda>a. Some (att_id a) = aev_attempt_id e) (proj_attempts p),
            ''attempt_id must be new and non-empty.'')])
     (case requestedEffect (data_field d ''requested_effect'') of
        None \<Rightarrow> Inl ''requested_effect must be read, preview, or apply.''
      | Some effect \<Rightarrow> guard (opening_checks p e (attempt_purpose_of (data_field d ''purpose'')) @ replay_checks p d effect)
          (Inr (map_option (\<lambda>deadline. add_attempt (opened_attempt p e d effect deadline) p)
             (deadline_text d (aev_occurred_at e)))))"

section \<open>Provider calls\<close>

definition note_receipt :: "projection \<Rightarrow> string \<Rightarrow> attempt \<Rightarrow> attempt" where
  "note_receipt p now a = (if att_generation a = proj_generation p \<and> att_terminal_state a = AttemptActive
     then a\<lparr>att_lease := (att_lease a)\<lparr>lease_provider_receipt_at :=
       Some (case lease_provider_receipt_at (att_lease a) of None \<Rightarrow> now | Some t \<Rightarrow> t)\<rparr>\<rparr> else a)"

definition providerCallRecorded :: "projection \<Rightarrow> attempt_event \<Rightarrow> json_object \<Rightarrow> handled" where
  "providerCallRecorded p e d = (let call = text_at d ''call_id'';
       calls = (if call \<in> set (proj_provider_call_ids p) then proj_provider_call_ids p else proj_provider_call_ids p @ [call]) in
     guard (interaction_checks p ''Assignment is awaiting user input; no new provider call may begin.''
          ''Assignment is awaiting user review; no new provider call may begin.''
        @ [(call \<noteq> [], ''provider_call_recorded requires call_id.'')])
       (handled (p\<lparr>proj_provider_call_ids := calls, proj_provider_call_count := length calls,
          proj_attempts := map (note_receipt p (aev_occurred_at e)) (proj_attempts p)\<rparr>)))"

section \<open>Clarifications and reviews\<close>

definition criterion_state_of :: "string \<Rightarrow> criterion_state option" where
  "criterion_state_of t = map_of [(''pass'', CriterionPass), (''partial'', CriterionPartial),
     (''needs_input'', CriterionNeedsInput), (''needs_review'', CriterionNeedsReview), (''failed'', CriterionFailed),
     (''not_applicable'', CriterionNotApplicable), (''uncertain'', CriterionUncertain)] t"

definition criterion_of :: "attempt_event \<Rightarrow> json_object \<Rightarrow> criterion_record option" where
  "criterion_of e d = (let i = text_at d ''criterion_id''; statement = text_at d ''criterion'' in
     if i = [] \<or> statement = [] then None
     else map_option (\<lambda>state. \<lparr>crit_id = i, crit_text = statement, crit_state = state, crit_reason = text_at d ''reason'',
       crit_evidence_refs = texts_at d ''evidence_refs'', crit_work_unit_ids = texts_at d ''work_unit_ids'',
       crit_updated_at = aev_occurred_at e, crit_updated_by = aev_actor e\<rparr>) (criterion_state_of (text_at d ''state'')))"

fun upsert_criterion :: "criterion_record \<Rightarrow> criterion_record list \<Rightarrow> criterion_record list" where
  "upsert_criterion c [] = [c]"
| "upsert_criterion c (x # xs) = (if crit_id x = crit_id c then c # xs else x # upsert_criterion c xs)"

definition rows_at :: "json_object \<Rightarrow> string \<Rightarrow> json_object list" where
  "rows_at d k = (case data_field d k of JArr xs \<Rightarrow> map jrow xs | _ \<Rightarrow> [])"

definition option_of :: "json_object \<Rightarrow> (string \<times> string) option" where
  "option_of d = (if text_at d ''id'' \<noteq> [] \<and> text_at d ''label'' \<noteq> []
     then Some (text_at d ''id'', text_at d ''label'') else None)"

definition clarification_checks :: "projection \<Rightarrow> json_object \<Rightarrow> (bool \<times> kernel_error) list" where
  "clarification_checks p d = (let active = in_flight_attempts p in
     [(text_at d ''clarification_id'' \<noteq> [] \<and> text_at d ''question'' \<noteq> [] \<and> texts_at d ''missing_fields'' \<noteq> [],
         ''clarification_requested requires clarification_id, missing_fields, and question.''),
      (\<not> truthy (proj_pending_clarification_id p), ''An unresolved clarification already exists.''),
      (\<not> truthy (proj_pending_review_id p), ''A clarification cannot be requested while user review is pending.''),
      (proj_unresolved_unknown_attempt_ids p = [], ''A clarification cannot pause an unresolved unknown effect.''),
      (\<not> (list_ex (\<lambda>a. att_purpose a \<noteq> InteractionAttempt) active \<or> 1 < length active),
         ''A clarification cannot be requested while executable work remains in flight.'')])"

definition requested_clarification :: "projection \<Rightarrow> attempt_event \<Rightarrow> json_object \<Rightarrow> user_clarification" where
  "requested_clarification p e d = \<lparr>clar_id = text_at d ''clarification_id'', clar_assignment_id = proj_assignment_id p,
     clar_run_id = (case proj_run_id p of None \<Rightarrow> [] | Some r \<Rightarrow> r), clar_generation = proj_generation p,
     clar_missing_fields = texts_at d ''missing_fields'', clar_question = text_at d ''question'',
     clar_reason = or_else (text_at d ''reason'') ''required_input_missing'', clar_completed_work = texts_at d ''completed_work'',
     clar_affected_subtasks = texts_at d ''affected_subtasks'',
     clar_options = take 12 (List.map_filter option_of (rows_at d ''options'')),
     clar_recommended_default = or_null (text_at d ''recommended_default''),
     clar_primary_artifact_refs = texts_at d ''primary_artifact_refs'', clar_created_at = aev_occurred_at e,
     clar_status = ClarificationPending, clar_resolved_at = None, clar_response_digest = None, clar_supplied_values = [],
     clar_criterion_states = List.map_filter (criterion_of e) (rows_at d ''criterion_states'')\<rparr>"

definition clarificationRequested :: "projection \<Rightarrow> attempt_event \<Rightarrow> json_object \<Rightarrow> handled" where
  "clarificationRequested p e d = (let c = requested_clarification p e d in guard (clarification_checks p d)
     (handled (p\<lparr>proj_outcome_state := OutcomeAwaitingInput, proj_clarifications := proj_clarifications p @ [c],
        proj_pending_clarification_id := Some (clar_id c),
        proj_criteria := fold upsert_criterion (clar_criterion_states c) (proj_criteria p),
        proj_primary_artifact_refs := merged (proj_primary_artifact_refs p) (texts_at d ''primary_artifact_refs'')\<rparr>)))"

fun resolve_first :: "string \<Rightarrow> (user_clarification \<Rightarrow> user_clarification) \<Rightarrow> user_clarification list \<Rightarrow> user_clarification list" where
  "resolve_first i f [] = []"
| "resolve_first i f (c # cs) = (if clar_id c = i then f c # cs else c # resolve_first i f cs)"

definition clarificationResolved :: "projection \<Rightarrow> attempt_event \<Rightarrow> json_object \<Rightarrow> handled" where
  "clarificationResolved p e d = (let i = text_at d ''clarification_id''; digest = text_at d ''response_digest'' in guard
     [(case find (\<lambda>c. clar_id c = i) (proj_clarifications p) of None \<Rightarrow> False
       | Some c \<Rightarrow> clar_status c = ClarificationPending \<and> proj_pending_clarification_id p = Some i,
         ''clarification_resolved must reference the current pending clarification.''),
      (digest \<noteq> [], ''clarification_resolved requires response_digest.'')]
     (handled (p\<lparr>proj_outcome_state := OutcomeActive, proj_clarifications := resolve_first i (\<lambda>c. c\<lparr>clar_status := ClarificationResolved,
         clar_resolved_at := Some (aev_occurred_at e), clar_response_digest := Some digest,
         clar_supplied_values := sub_row d ''supplied_values''\<rparr>) (proj_clarifications p),
        proj_pending_clarification_id := None\<rparr>)))"

definition reviewRequestedV1 :: "projection \<Rightarrow> json_object \<Rightarrow> handled" where
  "reviewRequestedV1 p d = (let i = text_at d ''review_id'' in guard
     [(i \<noteq> [], ''review_requested requires review_id.''),
      (\<not> truthy (proj_pending_clarification_id p) \<and> \<not> truthy (proj_pending_review_id p),
         ''Only one user interaction may be pending.''),
      (proj_quiescent p \<and> proj_unresolved_unknown_attempt_ids p = [], ''User review requires quiescent, settled work.'')]
     (handled (p\<lparr>proj_outcome_state := OutcomeAwaitingReview, proj_pending_review_id := Some i\<rparr>)))"

definition reviewResolvedV1 :: "projection \<Rightarrow> json_object \<Rightarrow> handled" where
  "reviewResolvedV1 p d = (let i = text_at d ''review_id'' in guard
     [(i \<noteq> [] \<and> proj_pending_review_id p = Some i, ''review_resolved must reference the pending review.'')]
     (handled (p\<lparr>proj_outcome_state := OutcomeActive, proj_pending_review_id := None\<rparr>)))"

section \<open>Criteria and artifacts\<close>

definition criterionRecorded :: "projection \<Rightarrow> attempt_event \<Rightarrow> json_object \<Rightarrow> handled" where
  "criterionRecorded p e d = (case criterion_of e d of
      None \<Rightarrow> Inl ''criterion_recorded requires a criterion_id, criterion, and recognized state.''
    | Some c \<Rightarrow> handled (p\<lparr>proj_criteria := upsert_criterion c (proj_criteria p)\<rparr>))"

definition primaryArtifactRecorded :: "projection \<Rightarrow> json_object \<Rightarrow> handled" where
  "primaryArtifactRecorded p d = (let refs = texts_at d ''primary_artifact_refs'' in guard
     [(refs \<noteq> [], ''primary_artifact_recorded requires at least one artifact reference.'')]
     (handled (p\<lparr>proj_primary_artifact_refs := merged (proj_primary_artifact_refs p) refs\<rparr>)))"

section \<open>Completion claims\<close>

definition noopCompletionClaimed :: "projection \<Rightarrow> json_object \<Rightarrow> handled" where
  "noopCompletionClaimed p d = (let i = text_at d ''claim_id'' in guard
     [(i \<noteq> [], ''noop_completion_claimed requires claim_id.''),
      (noop_status (proj_noop_completion p) \<noteq> CompletionAccepted, ''An accepted no-op completion claim is immutable.'')]
     (handled (p\<lparr>proj_noop_completion := \<lparr>noop_claim_id = Some i, noop_status = CompletionPending, noop_reason = None,
        noop_target_fingerprint = or_null (text_at d ''target_fingerprint''),
        noop_desired_value_digest = or_null (text_at d ''desired_value_digest''),
        noop_attempt_ids = texts_at d ''supporting_attempt_ids'', noop_evidence_refs = texts_at d ''supporting_evidence_refs''\<rparr>\<rparr>)))"

definition accepted_status :: "json_object \<Rightarrow> completion_status" where
  "accepted_status d = (if true_at d ''accepted'' then CompletionAccepted else CompletionRejected)"

definition noopCompletionValidated :: "projection \<Rightarrow> attempt_event \<Rightarrow> json_object \<Rightarrow> handled" where
  "noopCompletionValidated p e d = (let i = text_at d ''claim_id'' in guard
     [(i \<noteq> [] \<and> noop_claim_id (proj_noop_completion p) = Some i, ''noop_completion_validated must reference the latest no-op claim.''),
      (\<not> (true_at d ''accepted'' \<and> aev_actor e \<noteq> ''canonical_noop_completion_validator''),
         ''Only the canonical no-op validator may accept a claim.'')]
     (handled (p\<lparr>proj_noop_completion := (proj_noop_completion p)\<lparr>noop_status := accepted_status d,
        noop_reason := or_null (text_at d ''reason'')\<rparr>\<rparr>)))"

definition readCompletionClaimed :: "projection \<Rightarrow> json_object \<Rightarrow> handled" where
  "readCompletionClaimed p d = (let i = text_at d ''claim_id'' in guard
     [(i \<noteq> [], ''read_completion_claimed requires claim_id.'')]
     (handled (p\<lparr>proj_read_completion := \<lparr>rdc_claim_id = Some i, rdc_status = CompletionPending, rdc_reason = None,
        rdc_result_digest = or_null (text_at d ''result_digest''), rdc_attempt_ids = texts_at d ''supporting_attempt_ids'',
        rdc_receipt_refs = texts_at d ''supporting_receipt_refs'', rdc_evidence_refs = texts_at d ''supporting_evidence_refs''\<rparr>\<rparr>)))"

definition supports_read_completion :: "projection \<Rightarrow> string \<Rightarrow> bool" where
  "supports_read_completion p i = (case find_attempt p i of
      None \<Rightarrow> False
    | Some a \<Rightarrow> att_generation a = proj_generation p \<and> att_purpose a = ActionAttempt \<and> att_requested_effect a = ReadEffect
        \<and> adn_state (att_admission a) = AdmissionAdmitted \<and> dsp_state (att_dispatch a) = AttemptAcknowledged
        \<and> att_terminal_state a = AttemptSettled \<and> eff_state (att_effect a) = NoEffect
        \<and> att_receipt_refs a \<noteq> [] \<and> att_evidence_refs a \<noteq> []
        \<and> eff_authority (att_effect a) \<in> {NativeHost, NativeReceipt, TargetReadback, IndependentVerifier})"

definition read_acceptance_checks :: "projection \<Rightarrow> attempt_event \<Rightarrow> json_object \<Rightarrow> (bool \<times> kernel_error) list" where
  "read_acceptance_checks p e d = (if \<not> true_at d ''accepted'' then [] else
     [(aev_actor e = ''canonical_read_completion_validator'', ''Only the canonical read-completion validator may accept a claim.''),
      (proj_quiescent p, ''A read-completion claim cannot be accepted before Assignment quiescence.''),
      (texts_at d ''supporting_attempt_ids'' \<noteq> [], ''Accepted read completion requires supporting attempts.''),
      (list_all (supports_read_completion p) (texts_at d ''supporting_attempt_ids''),
         ''Accepted read completion references an ineligible supporting attempt.'')])"

definition texts_or :: "string list \<Rightarrow> string list \<Rightarrow> string list" where
  "texts_or ts us = (if ts = [] then us else ts)"

definition readCompletionValidated :: "projection \<Rightarrow> attempt_event \<Rightarrow> json_object \<Rightarrow> handled" where
  "readCompletionValidated p e d = (let i = text_at d ''claim_id''; r = proj_read_completion p in guard
     ((i \<noteq> [] \<and> rdc_claim_id r = Some i, ''read_completion_validated must reference the latest completion claim.'')
      # read_acceptance_checks p e d)
     (handled (p\<lparr>proj_read_completion := r\<lparr>rdc_status := accepted_status d, rdc_reason := or_null (text_at d ''reason''),
        rdc_result_digest := (case or_null (text_at d ''result_digest'') of None \<Rightarrow> rdc_result_digest r | Some t \<Rightarrow> Some t),
        rdc_attempt_ids := texts_or (texts_at d ''supporting_attempt_ids'') (rdc_attempt_ids r),
        rdc_receipt_refs := texts_or (texts_at d ''supporting_receipt_refs'') (rdc_receipt_refs r),
        rdc_evidence_refs := texts_or (texts_at d ''supporting_evidence_refs'') (rdc_evidence_refs r)\<rparr>\<rparr>)))"

section \<open>The end of the assignment\<close>

definition terminal_state_of :: "json \<Rightarrow> assignment_terminal_state option" where
  "terminal_state_of v = literal_of [(''verified'', TerminalVerified), (''complete'', TerminalComplete),
     (''blocked'', TerminalBlocked), (''failed'', TerminalFailed), (''canceled'', TerminalCanceled)] v"

definition NOOP_REASON :: string where
  "NOOP_REASON = ''verified_noop_two_fresh_target_observations''"

definition terminal_outcome :: "assignment_terminal_state \<Rightarrow> string \<Rightarrow> outcome_state" where
  "terminal_outcome state reason = (if state = TerminalComplete \<and> reason = NOOP_REASON then OutcomeVerifiedNoop
     else if state \<in> {TerminalVerified, TerminalComplete} then OutcomeComplete
     else if state = TerminalBlocked then OutcomeBlocked else OutcomeFailed)"

definition assignmentTerminalV1 :: "projection \<Rightarrow> json_object \<Rightarrow> handled" where
  "assignmentTerminalV1 p d = guard
     [(proj_quiescent p, ''assignment_settlement_deferred_in_flight:'' @ join_text '','' (proj_in_flight_attempt_ids p) @ '':''
         @ (case proj_next_in_flight_deadline p of None \<Rightarrow> ''unknown_deadline'' | Some t \<Rightarrow> t)),
      (\<not> truthy (proj_pending_clarification_id p), ''assignment_settlement_deferred_awaiting_user_input''),
      (\<not> truthy (proj_pending_review_id p), ''assignment_settlement_deferred_awaiting_user_review'')]
     (case terminal_state_of (data_field d ''terminal_state'') of
        None \<Rightarrow> Inl ''A recognized terminal_state is required.''
      | Some state \<Rightarrow> (let reason = text_at d ''reason'' in guard
          [(\<not> (state = TerminalComplete \<and> reason = ''authoritative_read_completed''
                \<and> rdc_status (proj_read_completion p) \<noteq> CompletionAccepted),
              ''Authoritative read completion requires an accepted canonical completion claim.''),
           (\<not> (state = TerminalComplete \<and> reason = NOOP_REASON \<and> noop_status (proj_noop_completion p) \<noteq> CompletionAccepted),
              ''Verified no-op completion requires an accepted desired-state equivalence claim.'')]
          (handled (p\<lparr>proj_phase := PhaseSettled, proj_terminal_state := state, proj_terminal_reason := or_null reason,
             proj_outcome_state := terminal_outcome state reason\<rparr>))))"

end
