(* ===== verification/ControlPlaneAttempts.thy ===== *)
theory ControlPlaneAttempts
  imports ControlPlaneHandlers
begin

text \<open>
  \<open>applyAcceptedEvent\<close> of \<open>assignments/control_plane.ts\<close>, second half: the events of one attempt. \<open>p\<close> is the
  projection in which the attempt \<open>a\<close> was already stamped with the time of the event; a handler changes the attempt
  where it stands, so two references to one attempt stay one.
\<close>

section \<open>Changing an attempt\<close>

definition settle_lease :: "lease_state \<Rightarrow> string \<Rightarrow> attempt \<Rightarrow> attempt" where
  "settle_lease state now a = a\<lparr>att_terminal_state := AttemptSettled,
     att_lease := (att_lease a)\<lparr>lease_of_state := state, lease_settled_at := Some now\<rparr>\<rparr>"

definition set_attempt :: "attempt \<Rightarrow> projection \<Rightarrow> projection" where
  "set_attempt a p = modify_attempt (att_id a) (\<lambda>_. a) p"

definition changed :: "projection \<Rightarrow> kernel_error + attempt \<Rightarrow> handled" where
  "changed p r = kbind r (\<lambda>a. handled (set_attempt a p))"

section \<open>Admission\<close>

definition admission_of_data :: "attempt_admission_state \<Rightarrow> json_object \<Rightarrow> attempt_admission" where
  "admission_of_data state d = \<lparr>adn_state = state, adn_reason = or_null (text_at d ''reason''),
     adn_authority = or_null (text_at d ''authority'')\<rparr>"

definition rejection_effect :: "json_object \<Rightarrow> json_object" where
  "rejection_effect d = rput ''reason'' (JStr (or_else (text_at d ''reason'') ''admission_rejected''))
     (rput ''effect_authority'' (JStr (authority_text (case authority_of (data_field d ''effect_authority'') of
        None \<Rightarrow> AdmissionPolicy | Some x \<Rightarrow> x)))
     (rput ''effect_state'' (JStr ''none'') d))"

fun admission_text :: "attempt_admission_state \<Rightarrow> string" where
  "admission_text AdmissionPending = ''pending''"
| "admission_text AdmissionAdmitted = ''admitted''"
| "admission_text AdmissionRejected = ''rejected''"

definition rejected_attempt :: "string \<Rightarrow> json_object \<Rightarrow> attempt \<Rightarrow> kernel_error + attempt" where
  "rejected_attempt now d a = kbind (applyEffect a (rejection_effect d))
     (\<lambda>b. Inr (settle_lease LeaseFailedBeforeDispatch now (b\<lparr>att_admission := admission_of_data AdmissionRejected d\<rparr>)))"

definition admissionRecorded :: "attempt_event \<Rightarrow> json_object \<Rightarrow> attempt \<Rightarrow> kernel_error + attempt" where
  "admissionRecorded e d a =
     (case literal_of [(''admitted'', AdmissionAdmitted), (''rejected'', AdmissionRejected)] (data_field d ''admission_state'') of
        None \<Rightarrow> Inl ''admission_state must be admitted or rejected.''
      | Some state \<Rightarrow> guard
          [(att_terminal_state a = AttemptActive, ''A terminal attempt cannot accept a later admission callback.'')]
          (if adn_state (att_admission a) \<noteq> AdmissionPending then guard
             [(adn_state (att_admission a) = state, ''Admission cannot change from '' @ admission_text (adn_state (att_admission a))
                 @ '' to '' @ admission_text state @ ''.'')] (Inr a)
           else if state = AdmissionRejected then rejected_attempt (aev_occurred_at e) d a
           else Inr (a\<lparr>att_admission := admission_of_data state d\<rparr>)))"

section \<open>Dispatch\<close>

definition dispatch_state_of :: "json \<Rightarrow> attempt_dispatch_state option" where
  "dispatch_state_of v = literal_of [(''dispatched'', AttemptDispatched), (''acknowledged'', AttemptAcknowledged),
     (''failed'', AttemptDispatchFailed), (''not_dispatched'', AttemptNotDispatched)] v"

fun dispatch_text :: "attempt_dispatch_state \<Rightarrow> string" where
  "dispatch_text AttemptNotDispatched = ''not_dispatched''"
| "dispatch_text AttemptDispatched = ''dispatched''"
| "dispatch_text AttemptAcknowledged = ''acknowledged''"
| "dispatch_text AttemptDispatchFailed = ''failed''"

definition dispatch_effect :: "attempt_effect \<Rightarrow> effect_authority \<Rightarrow> string \<Rightarrow> json_object \<Rightarrow> json_object" where
  "dispatch_effect state authority reason d = [(''effect_state'', JStr (effect_state_text state)),
     (''effect_authority'', JStr (authority_text authority)), (''reason'', JStr reason),
     (''authority_id'', nullable_json (or_null (text_at d ''dispatch_id'')))]"

definition may_have_occurred :: "json_object \<Rightarrow> attempt \<Rightarrow> bool" where
  "may_have_occurred d a \<longleftrightarrow> dsp_state (att_dispatch a) \<in> {AttemptDispatched, AttemptAcknowledged}
     \<or> true_at d ''dispatch_may_have_occurred''"

definition dispatch_effected :: "attempt_dispatch_state \<Rightarrow> json_object \<Rightarrow> attempt \<Rightarrow> kernel_error + attempt" where
  "dispatch_effected state d a =
     (let may = may_have_occurred d a; reason = text_at d ''reason'' in
      if att_requested_effect a = ApplyEffect \<and> state \<in> {AttemptDispatched, AttemptAcknowledged} then
        applyEffect a (dispatch_effect UnknownEffect DispatchTransport ''dispatch_occurred_effect_unsettled'' d)
      else if state = AttemptDispatchFailed \<and> att_requested_effect a = ApplyEffect \<and> may then
        applyEffect a (dispatch_effect UnknownEffect DispatchTransport (or_else reason ''dispatch_may_have_occurred'') d)
      else if state \<in> {AttemptDispatchFailed, AttemptNotDispatched} then
        applyEffect a (dispatch_effect NoEffect (if may then DispatchTransport else TransportPreDispatch)
          (or_else reason (if may then ''dispatch_failed_after_handoff'' else ''dispatch_did_not_occur'')) d)
      else Inr a)"

definition dispatch_at_least :: "string \<Rightarrow> attempt_lease \<Rightarrow> attempt_lease" where
  "dispatch_at_least now l = l\<lparr>lease_dispatch_at := Some (case lease_dispatch_at l of None \<Rightarrow> now | Some t \<Rightarrow> t)\<rparr>"

definition dispatch_noted :: "attempt_dispatch_state \<Rightarrow> string \<Rightarrow> json_object \<Rightarrow> attempt \<Rightarrow> attempt" where
  "dispatch_noted state now d a =
     (let b = a\<lparr>att_dispatch := \<lparr>dsp_state = state, dsp_reason = or_null (text_at d ''reason''),
        dsp_id = or_null (text_at d ''dispatch_id'')\<rparr>\<rparr> in
      if state \<in> {AttemptDispatched, AttemptAcknowledged}
      then b\<lparr>att_lease := dispatch_at_least now ((att_lease b)\<lparr>lease_of_state := LeaseDispatched\<rparr>)\<rparr>
      else settle_lease LeaseFailedBeforeDispatch now b)"

definition dispatchRecorded :: "attempt_event \<Rightarrow> json_object \<Rightarrow> attempt \<Rightarrow> kernel_error + attempt" where
  "dispatchRecorded e d a = (case dispatch_state_of (data_field d ''dispatch_state'') of
      None \<Rightarrow> Inl ''A recognized dispatch_state is required.''
    | Some state \<Rightarrow> guard
        [(att_terminal_state a = AttemptActive, ''A terminal attempt cannot accept a later dispatch callback.''),
         (\<not> (dsp_state (att_dispatch a) = AttemptAcknowledged \<and> state \<noteq> AttemptAcknowledged),
            ''Acknowledged dispatch cannot change to '' @ dispatch_text state @ ''.''),
         (\<not> (dsp_state (att_dispatch a) = AttemptDispatched \<and> state = AttemptNotDispatched),
            ''A dispatched attempt cannot later be classified not_dispatched.'')]
        (kbind (dispatch_effected state d a) (\<lambda>b. Inr (dispatch_noted state (aev_occurred_at e) d b))))"

section \<open>Lease\<close>

definition lease_state_of :: "json \<Rightarrow> lease_state option" where
  "lease_state_of v = literal_of [(''admitted'', LeaseAdmitted), (''dispatching'', LeaseDispatching),
     (''dispatched'', LeaseDispatched), (''retaining_evidence'', LeaseRetainingEvidence), (''settled'', LeaseSettled),
     (''failed_before_dispatch'', LeaseFailedBeforeDispatch), (''timed_out_read'', LeaseTimedOutRead),
     (''effect_unknown'', LeaseEffectUnknown), (''canceled_before_dispatch'', LeaseCanceledBeforeDispatch),
     (''canceled_after_dispatch'', LeaseCanceledAfterDispatch), (''quarantined_late'', LeaseQuarantinedLate)] v"

definition text_or :: "json_object \<Rightarrow> string \<Rightarrow> string option \<Rightarrow> string option" where
  "text_or d k old = (case or_null (text_at d k) of None \<Rightarrow> old | Some t \<Rightarrow> Some t)"

definition lease_identities :: "json_object \<Rightarrow> attempt_lease \<Rightarrow> attempt_lease" where
  "lease_identities d l = (let m = toUpperCase (text_at d ''canonical_method'') in l\<lparr>
     lease_provider_turn_id := text_or d ''provider_turn_id'' (lease_provider_turn_id l),
     lease_provider_call_id := text_or d ''provider_call_id'' (lease_provider_call_id l),
     lease_app_server_request_id := text_or d ''app_server_request_id'' (lease_app_server_request_id l),
     lease_mcp_tool_call_id := text_or d ''mcp_tool_call_id'' (lease_mcp_tool_call_id l),
     lease_native_correlation_id := text_or d ''native_correlation_id'' (lease_native_correlation_id l),
     lease_canonical_method := (if m = ''GET'' then HttpGet else if m = ''POST'' then HttpPost else lease_canonical_method l)\<rparr>)"

definition retention_started :: "string \<Rightarrow> attempt_lease \<Rightarrow> attempt_lease" where
  "retention_started now l = (let at_result = (case lease_result_received_at l of None \<Rightarrow> now | Some t \<Rightarrow> t) in l\<lparr>
     lease_evidence_retention_started_at := Some now, lease_result_received_at := Some at_result,
     lease_receipt_lateness_ms := elapsed (parse_nullable (lease_provider_receipt_at l)) (date_parse at_result)\<rparr>)"

definition retention_settled :: "string \<Rightarrow> attempt_lease \<Rightarrow> attempt_lease" where
  "retention_settled now l = l\<lparr>lease_evidence_retention_settled_at := Some now,
     lease_evidence_retention_duration_ms :=
       elapsed (parse_nullable (lease_evidence_retention_started_at l)) (date_parse now)\<rparr>"

definition settling_lease :: "lease_state \<Rightarrow> bool" where
  "settling_lease state \<longleftrightarrow> state \<in> {LeaseSettled, LeaseFailedBeforeDispatch, LeaseTimedOutRead, LeaseEffectUnknown,
     LeaseCanceledBeforeDispatch, LeaseQuarantinedLate}"

definition note_dispatching :: "lease_state \<Rightarrow> string \<Rightarrow> attempt_lease \<Rightarrow> attempt_lease" where
  "note_dispatching state now l = (if state \<in> {LeaseDispatching, LeaseDispatched} then dispatch_at_least now l else l)"

definition note_retaining :: "lease_state \<Rightarrow> string \<Rightarrow> attempt_lease \<Rightarrow> attempt_lease" where
  "note_retaining state now l = (if state = LeaseRetainingEvidence then retention_started now l else l)"

definition note_retained :: "string \<Rightarrow> json_object \<Rightarrow> attempt_lease \<Rightarrow> attempt_lease" where
  "note_retained now d l = (if true_at d ''evidence_retention_settled'' then retention_settled now l else l)"

definition lease_after :: "lease_state \<Rightarrow> string \<Rightarrow> json_object \<Rightarrow> attempt_lease \<Rightarrow> attempt_lease" where
  "lease_after state now d l = note_retained now d (note_retaining state now (note_dispatching state now
     (lease_identities d (l\<lparr>lease_of_state := state\<rparr>))))"

definition leaseRecorded :: "attempt_event \<Rightarrow> json_object \<Rightarrow> attempt \<Rightarrow> kernel_error + attempt" where
  "leaseRecorded e d a = (case lease_state_of (data_field d ''lease_state'') of
      None \<Rightarrow> Inl ''A recognized lease_state is required.''
    | Some state \<Rightarrow> (let b = a\<lparr>att_lease := lease_after state (aev_occurred_at e) d (att_lease a)\<rparr> in
        Inr (if settling_lease state then settle_lease state (aev_occurred_at e) b else b)))"

section \<open>Effects\<close>

definition note_effect :: "string \<Rightarrow> json_object \<Rightarrow> attempt \<Rightarrow> attempt" where
  "note_effect now d a =
     (let b = (if eff_state (att_effect a) = UnknownEffect
               then a\<lparr>att_lease := (att_lease a)\<lparr>lease_of_state := LeaseEffectUnknown\<rparr>\<rparr> else a)
      in if eff_state (att_effect a) \<noteq> UnknownEffect \<and> \<not> true_at d ''settlement_pending_evidence''
         then settle_lease LeaseSettled now b else b)"

definition effectRecorded :: "projection \<Rightarrow> attempt_event \<Rightarrow> json_object \<Rightarrow> attempt \<Rightarrow> handled" where
  "effectRecorded p e d a = kbind (applyEffect a d) (\<lambda>b. handled ((set_attempt (note_effect (aev_occurred_at e) d b) p)
     \<lparr>proj_phase := (if eff_state (att_effect b) = AppliedEffect then PhaseVerifying else proj_phase p)\<rparr>))"

section \<open>Verification\<close>

definition verification_state_of :: "json \<Rightarrow> attempt_verification option" where
  "verification_state_of v = literal_of [(''passed'', VerificationPassed), (''failed'', VerificationFailed),
     (''inconclusive'', VerificationInconclusive)] v"

definition verified_attempt :: "projection \<Rightarrow> json_object \<Rightarrow> attempt \<Rightarrow> attempt option" where
  "verified_attempt p d a = find (\<lambda>c. Some (att_id c) = att_reconciliation_of a \<or> att_id c = text_at d ''applied_attempt_id'')
     (proj_attempts p)"

definition end_verification :: "attempt_verification \<Rightarrow> projection \<Rightarrow> projection" where
  "end_verification state p = (if state = VerificationPassed then p\<lparr>proj_phase := PhaseSettled,
       proj_terminal_state := TerminalVerified, proj_terminal_reason := Some ''exact_postconditions_verified''\<rparr>
     else if state = VerificationFailed then p\<lparr>proj_phase := PhaseSettled, proj_terminal_state := TerminalFailed,
       proj_terminal_reason := Some ''verification_failed_after_apply''\<rparr>
     else p)"

definition verificationRecorded :: "projection \<Rightarrow> attempt_event \<Rightarrow> json_object \<Rightarrow> attempt \<Rightarrow> handled" where
  "verificationRecorded p e d a = guard
     [(att_purpose a = VerificationAttempt, ''Verification evidence must reference a verification attempt.'')]
     (case verified_attempt p d a of
        None \<Rightarrow> Inl ''Verification must be bound to an applied attempt.''
      | Some applied \<Rightarrow> guard
          [(eff_state (att_effect applied) = AppliedEffect, ''Verification must be bound to an applied attempt.''),
           (att_target_fingerprint a = att_target_fingerprint applied, ''Verification target does not match the applied attempt.'')]
          (case verification_state_of (data_field d ''verification_state'') of
             None \<Rightarrow> Inl ''A recognized verification_state is required.''
           | Some state \<Rightarrow> guard
               [(\<not> list_ex (\<lambda>c. att_id c \<noteq> att_id a) (in_flight_attempts p),
                   ''Verification cannot terminally settle while other current-generation work is in flight.'')]
               (handled (end_verification state (set_attempt (settle_lease LeaseSettled (aev_occurred_at e)
                  (a\<lparr>att_verification := \<lparr>ver_state = state, ver_reason = or_null (text_at d ''reason''),
                     ver_evidence_refs = texts_at d ''evidence_refs''\<rparr>\<rparr>)) p)))))"

section \<open>Reconciliation\<close>

definition original_of :: "projection \<Rightarrow> attempt \<Rightarrow> attempt option" where
  "original_of p a = Option.bind (att_reconciliation_of a) (find_attempt p)"

definition unknown_original :: "projection \<Rightarrow> attempt \<Rightarrow> bool" where
  "unknown_original p a \<longleftrightarrow> att_purpose a = ReconciliationAttempt
     \<and> (case original_of p a of None \<Rightarrow> False | Some x \<Rightarrow> eff_state (att_effect x) = UnknownEffect)"

definition reconciliationStarted :: "projection \<Rightarrow> attempt \<Rightarrow> handled" where
  "reconciliationStarted p a = guard
     [(unknown_original p a, ''Reconciliation must reference an unresolved unknown attempt.''),
      (att_target_fingerprint a = att_target_fingerprint (the (original_of p a)),
         ''Reconciliation must inspect the exact original target.'')]
     (handled (p\<lparr>proj_phase := PhaseReconciling\<rparr>))"

definition reconciled_lease :: "string \<Rightarrow> attempt \<Rightarrow> attempt" where
  "reconciled_lease now a = a\<lparr>att_terminal_state := AttemptReconciled,
     att_lease := (att_lease a)\<lparr>lease_of_state := LeaseSettled, lease_settled_at := Some now\<rparr>\<rparr>"

definition reconciling_attempt :: "string \<Rightarrow> json_object \<Rightarrow> attempt \<Rightarrow> attempt" where
  "reconciling_attempt now d a = reconciled_lease now (a\<lparr>
     att_effect := \<lparr>eff_state = NoEffect, eff_reason = ''reconciliation_is_read_only'', eff_authority = TargetReadback,
       eff_authority_id = or_null (text_at d ''authority_id'')\<rparr>,
     att_evidence_refs := merged (att_evidence_refs a) (texts_at d ''evidence_refs'')\<rparr>)"

definition resolution :: "attempt_effect \<Rightarrow> json_object \<Rightarrow> json_object" where
  "resolution resolved d = rput ''reason'' (JStr (or_else (text_at d ''reason'') (''reconciled_'' @ effect_state_text resolved)))
     (rput ''effect_authority'' (JStr (authority_text TargetReadback)) d)"

definition resolution_phase :: "attempt_effect \<Rightarrow> control_phase" where
  "resolution_phase resolved = (case resolved of AppliedEffect \<Rightarrow> PhaseVerifying | UnknownEffect \<Rightarrow> PhaseReconciling
     | NoEffect \<Rightarrow> PhasePlanning)"

definition reconciliationResolved :: "projection \<Rightarrow> attempt_event \<Rightarrow> json_object \<Rightarrow> attempt \<Rightarrow> handled" where
  "reconciliationResolved p e d a = guard
     [(unknown_original p a, ''Reconciliation must resolve an unknown original attempt.'')]
     (case effect_state_of (data_field d ''effect_state'') of
        None \<Rightarrow> Inl ''Reconciliation result must be none, unknown, or applied.''
      | Some resolved \<Rightarrow> (let original = the (original_of p a); now = aev_occurred_at e in
          kbind (applyEffect original (resolution resolved d)) (\<lambda>b. handled
            ((modify_attempt (att_id b) (reconciled_lease now)
               (modify_attempt (att_id a) (reconciling_attempt now d) (set_attempt b p)))
             \<lparr>proj_phase := resolution_phase resolved\<rparr>))))"

section \<open>The end of an attempt\<close>

definition terminal_lease :: "json \<Rightarrow> lease_state" where
  "terminal_lease v = (case literal_of [(''timed_out_read'', LeaseTimedOutRead),
      (''canceled_before_dispatch'', LeaseCanceledBeforeDispatch), (''quarantined_late'', LeaseQuarantinedLate)] v of
     None \<Rightarrow> LeaseSettled | Some state \<Rightarrow> state)"

definition attemptTerminal :: "attempt_event \<Rightarrow> json_object \<Rightarrow> attempt \<Rightarrow> kernel_error + attempt" where
  "attemptTerminal e d a = guard
     [(eff_state (att_effect a) \<noteq> UnknownEffect, ''An unknown-effect attempt requires reconciliation before terminal settlement.'')]
     (Inr (settle_lease (terminal_lease (data_field d ''lease_state'')) (aev_occurred_at e) a))"

section \<open>Dispatch of an event\<close>

fun apply_attempt_event :: "projection \<Rightarrow> attempt_event \<Rightarrow> json_object \<Rightarrow> attempt \<Rightarrow> event_kind \<Rightarrow> handled" where
  "apply_attempt_event p e d a AdmissionRecorded = changed p (admissionRecorded e d a)"
| "apply_attempt_event p e d a DispatchRecorded = changed p (dispatchRecorded e d a)"
| "apply_attempt_event p e d a LeaseRecorded = changed p (leaseRecorded e d a)"
| "apply_attempt_event p e d a EffectRecorded = effectRecorded p e d a"
| "apply_attempt_event p e d a VerificationRecorded = verificationRecorded p e d a"
| "apply_attempt_event p e d a ReconciliationStarted = reconciliationStarted p a"
| "apply_attempt_event p e d a ReconciliationResolved = reconciliationResolved p e d a"
| "apply_attempt_event p e d a AttemptTerminal = changed p (attemptTerminal e d a)"
| "apply_attempt_event p e d a _ = Inl ''Unsupported event kind.''"

definition apply_to_attempt :: "projection \<Rightarrow> attempt_event \<Rightarrow> json_object \<Rightarrow> handled" where
  "apply_to_attempt p e d = (case attemptFor p e of
      None \<Rightarrow> Inl ''Event references an unknown attempt.''
    | Some found \<Rightarrow> (let a = found\<lparr>att_updated_at := aev_occurred_at e\<rparr> in
        apply_attempt_event (set_attempt a p) e d a (aev_kind e)))"

definition applyAcceptedEvent :: "kernel_env \<Rightarrow> projection \<Rightarrow> attempt_event \<Rightarrow> handled" where
  "applyAcceptedEvent env p e = (let d = jrow (aev_data e) in case aev_kind e of
      RunStartedEvent \<Rightarrow> runStarted p e d
    | RunSupersededEvent \<Rightarrow> runSuperseded p
    | AttemptOpened \<Rightarrow> attemptOpened p e d
    | ProgressRecorded \<Rightarrow> handled (p\<lparr>proj_progress := applyProgress env p d\<rparr>)
    | ProviderCallRecordedEvent \<Rightarrow> providerCallRecorded p e d
    | LateReceiptRecorded \<Rightarrow> handled (p\<lparr>proj_late_receipt_count := proj_late_receipt_count p + 1\<rparr>)
    | ClarificationRequestedEvent \<Rightarrow> clarificationRequested p e d
    | ClarificationResolvedEvent \<Rightarrow> clarificationResolved p e d
    | ReviewRequestedEvent \<Rightarrow> reviewRequestedV1 p d
    | ReviewResolvedEvent \<Rightarrow> reviewResolvedV1 p d
    | CriterionRecorded \<Rightarrow> criterionRecorded p e d
    | PrimaryArtifactRecorded \<Rightarrow> primaryArtifactRecorded p d
    | NoopCompletionClaimed \<Rightarrow> noopCompletionClaimed p d
    | NoopCompletionValidated \<Rightarrow> noopCompletionValidated p e d
    | ReadCompletionClaimed \<Rightarrow> readCompletionClaimed p d
    | ReadCompletionValidated \<Rightarrow> readCompletionValidated p e d
    | AssignmentTerminalEvent \<Rightarrow> assignmentTerminalV1 p d
    | _ \<Rightarrow> apply_to_attempt p e d)"

end
