(* ===== verification/ControlPlaneReducer.thy ===== *)
theory ControlPlaneReducer
  imports ControlPlaneAttempts EventSourcing
begin

text \<open>
  \<open>reduceAssignmentControlPlane\<close>: the first event of each identity is accepted or set aside with its reason, a repeated
  one is skipped. \<open>Inl\<close> is an exception, which leaves no result. The reduction is an instance of the interface of
  event-sourced components.
\<close>

record reduction =
  red_projection :: projection
  red_accepted :: "string list"
  red_rejected :: "(attempt_event \<times> string) list"
  red_seen :: "string list"

definition initial_reduction :: "string \<Rightarrow> reduction" where
  "initial_reduction i = \<lparr>red_projection = initialProjection i, red_accepted = [], red_rejected = [], red_seen = []\<rparr>"

definition set_aside :: "attempt_event \<Rightarrow> string \<Rightarrow> reduction \<Rightarrow> reduction" where
  "set_aside e reason r = r\<lparr>red_rejected := red_rejected r @ [(e, reason)], red_seen := red_seen r @ [aev_id e]\<rparr>"

definition take_in :: "attempt_event \<Rightarrow> projection \<Rightarrow> reduction \<Rightarrow> reduction" where
  "take_in e p r = r\<lparr>red_projection := refreshDerived (p\<lparr>proj_last_event_at := Some (aev_occurred_at e)\<rparr>),
     red_accepted := red_accepted r @ [aev_id e], red_seen := red_seen r @ [aev_id e]\<rparr>"

definition reduce_event :: "kernel_env \<Rightarrow> reduction \<Rightarrow> attempt_event \<Rightarrow> kernel_error + reduction" where
  "reduce_event env r e =
     (if aev_id e \<in> set (red_seen r) then Inr r
      else case rejectReason (red_projection r) e of
        Some reason \<Rightarrow> Inr (set_aside e reason r)
      | None \<Rightarrow> (case applyAcceptedEvent env (red_projection r) e of
          Inl reason \<Rightarrow> Inr (set_aside e reason r)
        | Inr None \<Rightarrow> Inl ''RangeError: Invalid time value''
        | Inr (Some p) \<Rightarrow> Inr (take_in e p r)))"

fun reduce_events :: "kernel_env \<Rightarrow> reduction \<Rightarrow> attempt_event list \<Rightarrow> kernel_error + reduction" where
  "reduce_events env r [] = Inr r"
| "reduce_events env r (e # es) = kbind (reduce_event env r e) (\<lambda>q. reduce_events env q es)"

definition reduceAssignmentControlPlane :: "kernel_env \<Rightarrow> string \<Rightarrow> attempt_event list \<Rightarrow> kernel_error + reduction" where
  "reduceAssignmentControlPlane env i es = reduce_events env (initial_reduction i) es"

interpretation control: event_sourced "reduce_event env" "reduce_events env" for env
  by unfold_locales simp_all

section \<open>The stored log\<close>

record control_log =
  log_events :: "attempt_event list"
  log_quarantined :: "(attempt_event \<times> string \<times> string) list"

definition emptyAssignmentControlPlane :: control_log where
  "emptyAssignmentControlPlane = \<lparr>log_events = [], log_quarantined = []\<rparr>"

text \<open>\<open>None\<close>: the stored value is not a log of the current schema.\<close>

definition normalizeAssignmentControlPlane :: "control_log option \<Rightarrow> control_log" where
  "normalizeAssignmentControlPlane stored = (case stored of
      None \<Rightarrow> emptyAssignmentControlPlane
    | Some l \<Rightarrow> \<lparr>log_events = filter (\<lambda>e. aev_schema e = ASSIGNMENT_ATTEMPT_EVENT_SCHEMA) (log_events l),
        log_quarantined = filter (\<lambda>q. js_trim (fst (snd q)) \<noteq> []) (log_quarantined l)\<rparr>)"

end
