(* ===== verification/ControlPlaneInvariants.thy ===== *)
theory ControlPlaneInvariants
  imports ControlPlaneReducer
begin

text \<open>
  What every event of the first control plane keeps: attempts are only added, an attempt keeps what it was opened with, its
  effect moves as \<open>effect_moves\<close> says, and what is settled stays settled.
\<close>

section \<open>One attempt\<close>

abbreviation opened_as :: "attempt \<Rightarrow> attempt_opening" where
  "opened_as a \<equiv> attempt_opening.truncate a"

definition attempt_advances :: "attempt \<Rightarrow> attempt \<Rightarrow> bool" where
  "attempt_advances a b \<longleftrightarrow> opened_as b = opened_as a
     \<and> (att_purpose a \<noteq> ReconciliationAttempt \<longrightarrow> effect_moves (att_effect a) (att_effect b))
     \<and> set (att_receipt_refs a) \<subseteq> set (att_receipt_refs b) \<and> set (att_evidence_refs a) \<subseteq> set (att_evidence_refs b)
     \<and> (att_terminal_state a \<noteq> AttemptActive \<longrightarrow> att_terminal_state b \<noteq> AttemptActive
          \<and> att_admission b = att_admission a \<and> att_dispatch b = att_dispatch a)"

definition attempt_ok :: "attempt \<Rightarrow> bool" where
  "attempt_ok a \<longleftrightarrow> eff_authority (att_effect a) \<noteq> AssistantProse
     \<and> (eff_state (att_effect a) = AppliedEffect \<longrightarrow> att_requested_effect a = ApplyEffect
          \<and> eff_authority (att_effect a) \<in> {NativeTransaction, NativeReceipt, TargetReadback})"

definition attempt_step :: "attempt \<Rightarrow> attempt \<Rightarrow> bool" where
  "attempt_step a b \<longleftrightarrow> attempt_advances a b \<and> (attempt_ok a \<longrightarrow> attempt_ok b)"

lemma opening_fields:
  assumes "opened_as b = opened_as a"
  shows "att_id b = att_id a" "att_assignment_id b = att_assignment_id a" "att_generation b = att_generation a"
    "att_purpose b = att_purpose a" "att_requested_effect b = att_requested_effect a"
    "att_action_signature b = att_action_signature a" "att_target_fingerprint b = att_target_fingerprint a"
    "att_retry_of b = att_retry_of a" "att_retry_delta b = att_retry_delta a" "att_reconciliation_of b = att_reconciliation_of a"
  using assms by (simp_all add: attempt_opening.truncate_def)

lemma opening_updates [simp]:
  "opened_as (a\<lparr>att_admission := x1\<rparr>) = opened_as a" "opened_as (a\<lparr>att_dispatch := x2\<rparr>) = opened_as a"
  "opened_as (a\<lparr>att_effect := x3\<rparr>) = opened_as a" "opened_as (a\<lparr>att_affected_target_identities := x4\<rparr>) = opened_as a"
  "opened_as (a\<lparr>att_receipt_refs := x5\<rparr>) = opened_as a" "opened_as (a\<lparr>att_evidence_refs := x6\<rparr>) = opened_as a"
  "opened_as (a\<lparr>att_verification := x7\<rparr>) = opened_as a" "opened_as (a\<lparr>att_updated_at := x8\<rparr>) = opened_as a"
  "opened_as (a\<lparr>att_terminal_state := x9\<rparr>) = opened_as a" "opened_as (a\<lparr>att_lease := x10\<rparr>) = opened_as a"
  by (simp_all add: attempt_opening.truncate_def)

lemma attempt_advances_refl [simp]: "attempt_advances a a"
  by (simp add: attempt_advances_def)

lemma attempt_advances_trans:
  assumes "attempt_advances a b" "attempt_advances b c"
  shows "attempt_advances a c"
proof -
  note ab = assms(1) [unfolded attempt_advances_def] and bc = assms(2) [unfolded attempt_advances_def]
  have o: "opened_as c = opened_as a" using ab bc by (elim conjE) (rule trans)
  have p: "att_purpose b = att_purpose a" using ab opening_fields(4) by blast
  have e: "effect_moves (att_effect a) (att_effect c)" if "att_purpose a \<noteq> ReconciliationAttempt"
  proof (rule effect_moves_trans)
    have "att_purpose b \<noteq> ReconciliationAttempt" using that p by simp
    then show "effect_moves (att_effect b) (att_effect c)" using bc by blast
    show "effect_moves (att_effect a) (att_effect b)" using that ab by blast
  qed
  have s: "set (att_receipt_refs a) \<subseteq> set (att_receipt_refs c)" "set (att_evidence_refs a) \<subseteq> set (att_evidence_refs c)"
    using ab bc by blast+
  have t: "att_terminal_state c \<noteq> AttemptActive \<and> att_admission c = att_admission a \<and> att_dispatch c = att_dispatch a"
    if "att_terminal_state a \<noteq> AttemptActive"
    using ab bc that by simp
  show ?thesis unfolding attempt_advances_def using o e s t by blast
qed

lemma attempt_step_refl [simp]: "attempt_step a a"
  by (simp add: attempt_step_def)

lemma attempt_step_trans: "attempt_step a b \<Longrightarrow> attempt_step b c \<Longrightarrow> attempt_step a c"
  unfolding attempt_step_def using attempt_advances_trans by blast

lemma step_opening: "attempt_step a b \<Longrightarrow> opened_as b = opened_as a"
  by (simp add: attempt_step_def attempt_advances_def)

lemma step_id: "attempt_step a b \<Longrightarrow> att_id b = att_id a"
  using step_opening opening_fields(1) by blast

lemmas attempt_step_defs = attempt_step_def attempt_advances_def attempt_ok_def

lemma applyEffect_static:
  assumes "applyEffect a d = Inr b"
  shows "opened_as b = opened_as a" "att_terminal_state b = att_terminal_state a" "att_admission b = att_admission a"
    "att_dispatch b = att_dispatch a" "att_requested_effect b = att_requested_effect a"
  using assms by (auto elim!: applyEffect_cases simp: with_effect_def)

lemma applyEffect_step: "applyEffect a d = Inr b \<Longrightarrow> attempt_step a b"
  using applyEffect_moves [of a d b] applyEffect_authority [of a d b] applyEffect_frame(2,3) [of a d b] applyEffect_static [of a d b]
  by (auto simp: attempt_step_defs)

lemma settle_step: "attempt_step a (settle_lease s now a)"
  by (simp add: attempt_step_defs settle_lease_def)

lemma reconciled_lease_step: "attempt_step a (reconciled_lease now a)"
  by (simp add: attempt_step_defs reconciled_lease_def)

lemma lease_update_step [simp]: "attempt_step a (a\<lparr>att_lease := l\<rparr>)" "attempt_step a (a\<lparr>att_updated_at := now\<rparr>)"
  "attempt_step a (a\<lparr>att_verification := v\<rparr>)"
  by (simp_all add: attempt_step_defs)

lemma superseded_step: "attempt_step a (a\<lparr>att_terminal_state := AttemptSuperseded\<rparr>)"
  by (simp add: attempt_step_defs)

lemma reconciling_step: "att_purpose a = ReconciliationAttempt \<Longrightarrow> attempt_step a (reconciling_attempt now d a)"
  by (auto simp: attempt_step_defs reconciling_attempt_def reconciled_lease_def)

text \<open>Admission and dispatch of an attempt change only while it is active.\<close>

lemma active_step:
  assumes "attempt_step a b" "att_terminal_state a = AttemptActive"
  shows "attempt_step a (b\<lparr>att_admission := x\<rparr>)" "attempt_step a (b\<lparr>att_dispatch := y\<rparr>)"
  using assms by (auto simp: attempt_step_defs)

lemma admissionRecorded_step:
  assumes "admissionRecorded e d a = Inr b"
  shows "attempt_step a b"
  using assms
  by (auto simp: admissionRecorded_def rejected_attempt_def guard_Inr_iff kbind_Inr_iff
      intro: active_step(1) attempt_step_trans [OF active_step(1) settle_step] applyEffect_step split: option.splits if_splits)

lemma dispatch_effected_step: "dispatch_effected state d a = Inr b \<Longrightarrow> attempt_step a b"
  by (auto simp: dispatch_effected_def Let_def intro: applyEffect_step split: if_splits)

lemma dispatchRecorded_step:
  assumes "dispatchRecorded e d a = Inr b"
  shows "attempt_step a b"
proof -
  obtain state c where c: "att_terminal_state a = AttemptActive" "dispatch_effected state d a = Inr c"
      "b = dispatch_noted state (aev_occurred_at e) d c"
    using assms by (auto simp: dispatchRecorded_def guard_Inr_iff kbind_Inr_iff first_failure_Cons_None split: option.splits if_splits)
  have "attempt_step a (c\<lparr>att_dispatch := x\<rparr>)" for x
    using active_step(2) [OF dispatch_effected_step [OF c(2)] c(1)] .
  with c(3) show ?thesis
    by (auto simp: dispatch_noted_def Let_def intro: attempt_step_trans [OF _ settle_step] attempt_step_trans [OF _ lease_update_step(1)])
qed

lemma leaseRecorded_step: "leaseRecorded e d a = Inr b \<Longrightarrow> attempt_step a b"
  by (auto simp: leaseRecorded_def Let_def intro: attempt_step_trans [OF _ settle_step] split: option.splits if_splits)

lemma attemptTerminal_step: "attemptTerminal e d a = Inr b \<Longrightarrow> attempt_step a b"
  by (auto simp: attemptTerminal_def guard_Inr_iff intro: settle_step)

lemma note_effect_step: "attempt_step a (note_effect now d a)"
  by (auto simp: note_effect_def Let_def intro: settle_step attempt_step_trans [OF _ settle_step])

section \<open>The attempts of a projection\<close>

definition attempts_advance :: "attempt list \<Rightarrow> attempt list \<Rightarrow> bool" where
  "attempts_advance xs ys \<longleftrightarrow> (\<exists>bs cs. ys = bs @ cs \<and> list_all2 attempt_step xs bs)"

lemma attempts_advance_refl [simp]: "attempts_advance xs xs"
  unfolding attempts_advance_def by (intro exI [of _ xs] exI [of _ "[]"]) (simp add: list_all2_refl)

lemma attempts_advance_trans:
  assumes "attempts_advance xs ys" "attempts_advance ys zs"
  shows "attempts_advance xs zs"
proof -
  obtain bs cs ds es where k: "ys = bs @ cs" "list_all2 attempt_step xs bs" "zs = ds @ es" "list_all2 attempt_step ys ds"
    using assms by (auto simp: attempts_advance_def)
  then obtain us vs where u: "ds = us @ vs" "list_all2 attempt_step bs us" by (auto simp: list_all2_append1)
  have "list_all2 attempt_step xs us"
    using k(2) u(2) by (rule list_all2_trans [rotated]) (rule attempt_step_trans)
  then show ?thesis unfolding attempts_advance_def using k(3) u(1) by (intro exI [of _ us] exI [of _ "vs @ es"]) simp
qed

lemma in_place_ids: "list_all2 attempt_step xs ys \<Longrightarrow> map att_id ys = map att_id xs"
  by (induction rule: list_all2_induct) (simp_all add: step_id)

lemma in_place_find:
  "list_all2 attempt_step xs ys \<Longrightarrow> find (\<lambda>a. att_id a = i) xs = Some a \<Longrightarrow>
     \<exists>b. find (\<lambda>a. att_id a = i) ys = Some b \<and> attempt_step a b"
  by (induction rule: list_all2_induct) (auto simp: step_id)

lemma advance_find:
  assumes "attempts_advance xs ys" "find (\<lambda>a. att_id a = i) xs = Some a"
  shows "\<exists>b. find (\<lambda>a. att_id a = i) ys = Some b \<and> attempt_step a b"
proof -
  obtain bs cs where "ys = bs @ cs" "list_all2 attempt_step xs bs" using assms(1) by (auto simp: attempts_advance_def)
  moreover from in_place_find [OF this(2) assms(2)] obtain b where
      "find (\<lambda>a. att_id a = i) bs = Some b" "attempt_step a b" by blast
  moreover have "find P us = Some b \<Longrightarrow> find P (us @ vs) = Some b" for P us vs and b :: attempt
    by (induction us) auto
  ultimately show ?thesis by blast
qed

lemma update_first_step:
  "(\<And>a. a \<in> set xs \<Longrightarrow> att_id a = i \<Longrightarrow> attempt_step a (f a)) \<Longrightarrow> list_all2 attempt_step xs (update_first i f xs)"
  by (induction xs) (auto simp: list_all2_refl)

lemma replace_first_step:
  "find (\<lambda>a. att_id a = i) xs = Some a \<Longrightarrow> attempt_step a b \<Longrightarrow> list_all2 attempt_step xs (update_first i (\<lambda>_. b) xs)"
  by (induction xs) (auto simp: list_all2_refl split: if_splits)

lemma map_step: "(\<And>a. attempt_step a (f a)) \<Longrightarrow> list_all2 attempt_step xs (map f xs)"
  by (induction xs) simp_all

lemma find_replaced:
  "find (\<lambda>a. att_id a = i) xs = Some a \<Longrightarrow> att_id b = i \<Longrightarrow> find (\<lambda>a. att_id a = i) (update_first i (\<lambda>_. b) xs) = Some b"
  by (induction xs) auto

section \<open>Projections\<close>

text \<open>Support of an accepted read completion, as far as it lasts.\<close>

definition lasting_support :: "attempt \<Rightarrow> bool" where
  "lasting_support a \<longleftrightarrow> att_purpose a = ActionAttempt \<and> att_requested_effect a = ReadEffect
     \<and> adn_state (att_admission a) = AdmissionAdmitted \<and> dsp_state (att_dispatch a) = AttemptAcknowledged
     \<and> att_terminal_state a \<noteq> AttemptActive \<and> eff_state (att_effect a) = NoEffect
     \<and> 4 \<le> effectAuthorityRank (eff_authority (att_effect a))
     \<and> att_receipt_refs a \<noteq> [] \<and> att_evidence_refs a \<noteq> []"

lemma lasting_support_step: "attempt_step a b \<Longrightarrow> lasting_support a \<Longrightarrow> lasting_support b"
  using opening_fields(4,5) [of b a]
  by (cases "eff_state (att_effect b) = NoEffect") (auto simp: attempt_step_defs lasting_support_def effect_moves_def)

definition read_supported :: "projection \<Rightarrow> bool" where
  "read_supported p \<longleftrightarrow> (rdc_status (proj_read_completion p) = CompletionAccepted \<longrightarrow>
     rdc_attempt_ids (proj_read_completion p) \<noteq> []
     \<and> (\<forall>i \<in> set (rdc_attempt_ids (proj_read_completion p)). \<exists>a. find_attempt p i = Some a \<and> lasting_support a))"

text \<open>An apply attempt that repeats an earlier one names the latest such one, and what changed since.\<close>

definition same_apply :: "attempt \<Rightarrow> attempt \<Rightarrow> bool" where
  "same_apply a c \<longleftrightarrow> att_requested_effect c = ApplyEffect \<and> att_action_signature c = att_action_signature a
     \<and> att_target_fingerprint c = att_target_fingerprint a"

definition retry_named :: "attempt list \<Rightarrow> attempt \<Rightarrow> bool" where
  "retry_named earlier a \<longleftrightarrow> att_requested_effect a \<noteq> ApplyEffect \<or> (case find (same_apply a) (rev earlier) of
      None \<Rightarrow> True
    | Some prior \<Rightarrow> att_retry_of a = Some (att_id prior) \<and> att_retry_delta a \<noteq> None)"

definition retries_named :: "attempt list \<Rightarrow> bool" where
  "retries_named xs \<longleftrightarrow> (\<forall>us a vs. xs = us @ a # vs \<longrightarrow> retry_named us a)"

lemma in_place_retry_named:
  assumes "list_all2 attempt_step us us'" "attempt_step a b" "retry_named us a"
  shows "retry_named us' b"
proof -
  note ab = opening_fields [OF step_opening [OF assms(2)]]
  have f: "rel_option attempt_step (find (same_apply a) xs) (find (same_apply b) ys)" if "list_all2 attempt_step xs ys" for xs ys
    using that
  proof (induction rule: list_all2_induct)
    case (Cons x xs y ys)
    have "same_apply b y = same_apply a x" using opening_fields [OF step_opening [OF Cons.hyps(1)]] ab by (simp add: same_apply_def)
    then show ?case using Cons by simp
  qed simp
  have "rel_option attempt_step (find (same_apply a) (rev us)) (find (same_apply b) (rev us'))"
    using assms(1) by (intro f) simp
  then show ?thesis using assms(3) ab step_id by (auto simp: retry_named_def rel_option_iff split: option.splits)
qed

lemma in_place_retries_named:
  assumes "list_all2 attempt_step xs ys" "retries_named xs"
  shows "retries_named ys"
  unfolding retries_named_def
proof (intro allI impI)
  fix us' b vs' assume "ys = us' @ b # vs'"
  with assms(1) obtain us a vs where "xs = us @ a # vs" "list_all2 attempt_step us us'" "attempt_step a b"
    by (auto simp: list_all2_append2 list_all2_Cons2)
  with assms(2) in_place_retry_named show "retry_named us' b" by (auto simp: retries_named_def)
qed

lemma retries_named_snoc: "retries_named xs \<Longrightarrow> retry_named xs a \<Longrightarrow> retries_named (xs @ [a])"
  unfolding retries_named_def by (auto simp: append_eq_append_conv2 append_eq_Cons_conv Cons_eq_append_conv)

definition terminal_supported :: "projection \<Rightarrow> bool" where
  "terminal_supported p \<longleftrightarrow> (proj_terminal_state p = TerminalComplete \<longrightarrow>
     (proj_terminal_reason p = Some ''authoritative_read_completed'' \<longrightarrow> rdc_status (proj_read_completion p) = CompletionAccepted)
     \<and> (proj_terminal_reason p = Some NOOP_REASON \<longrightarrow> noop_status (proj_noop_completion p) = CompletionAccepted))"

definition proj_wf :: "projection \<Rightarrow> bool" where
  "proj_wf p \<longleftrightarrow> distinct (map att_id (proj_attempts p))
     \<and> (\<forall>a \<in> set (proj_attempts p). attempt_ok a \<and> att_generation a \<le> proj_generation p
          \<and> att_assignment_id a = proj_assignment_id p)
     \<and> read_supported p \<and> terminal_supported p \<and> retries_named (proj_attempts p)"

definition proj_step :: "projection \<Rightarrow> projection \<Rightarrow> bool" where
  "proj_step p q \<longleftrightarrow> attempts_advance (proj_attempts p) (proj_attempts q)
     \<and> proj_assignment_id q = proj_assignment_id p \<and> proj_generation p \<le> proj_generation q
     \<and> (proj_wf p \<longrightarrow> proj_wf q)"

text \<open>What most events leave alone.\<close>

definition same_claims :: "projection \<Rightarrow> projection \<Rightarrow> bool" where
  "same_claims p q \<longleftrightarrow> proj_read_completion q = proj_read_completion p \<and> proj_terminal_state q = proj_terminal_state p
     \<and> proj_terminal_reason q = proj_terminal_reason p \<and> proj_noop_completion q = proj_noop_completion p"

lemma read_supported_step:
  assumes "attempts_advance (proj_attempts p) (proj_attempts q)" "proj_read_completion q = proj_read_completion p" "read_supported p"
  shows "read_supported q"
  unfolding read_supported_def
proof (intro impI conjI ballI)
  assume acc: "rdc_status (proj_read_completion q) = CompletionAccepted"
  with assms(2,3) show "rdc_attempt_ids (proj_read_completion q) \<noteq> []" by (simp add: read_supported_def)
  fix i assume "i \<in> set (rdc_attempt_ids (proj_read_completion q))"
  with acc assms(2,3) obtain a where "find_attempt p i = Some a" "lasting_support a" by (auto simp: read_supported_def)
  with advance_find [OF assms(1), of i a] lasting_support_step show "\<exists>a. find_attempt q i = Some a \<and> lasting_support a"
    by (auto simp: find_attempt_def)
qed

lemma step_keeps_ok:
  assumes "attempt_step a b" "attempt_ok a \<and> att_generation a \<le> n \<and> att_assignment_id a = i"
  shows "attempt_ok b \<and> att_generation b \<le> n \<and> att_assignment_id b = i"
  using assms(2) assms(1) [unfolded attempt_step_def] opening_fields(2,3) [OF step_opening [OF assms(1)]] by metis

lemma in_place_ok:
  assumes "list_all2 attempt_step xs ys" "\<forall>a \<in> set xs. attempt_ok a \<and> att_generation a \<le> n \<and> att_assignment_id a = i"
  shows "\<forall>b \<in> set ys. attempt_ok b \<and> att_generation b \<le> n \<and> att_assignment_id b = i"
proof
  fix b assume "b \<in> set ys"
  with assms(1) obtain a where "a \<in> set xs" "attempt_step a b"
    by (metis in_set_conv_nth list_all2_conv_all_nth)
  with assms(2) step_keeps_ok show "attempt_ok b \<and> att_generation b \<le> n \<and> att_assignment_id b = i" by blast
qed

lemma in_place_step:
  assumes "list_all2 attempt_step (proj_attempts p) (proj_attempts q)" "proj_assignment_id q = proj_assignment_id p"
    "proj_generation p \<le> proj_generation q" "proj_read_completion q = proj_read_completion p"
    "terminal_supported p \<Longrightarrow> terminal_supported q"
  shows "proj_step p q"
proof -
  have a: "attempts_advance (proj_attempts p) (proj_attempts q)" using assms(1) unfolding attempts_advance_def by auto
  have "proj_wf q" if wf: "proj_wf p"
  proof -
    have "\<forall>a \<in> set (proj_attempts q). attempt_ok a \<and> att_generation a \<le> proj_generation q \<and> att_assignment_id a = proj_assignment_id p"
      by (rule in_place_ok [OF assms(1)]) (use wf assms(3) in \<open>auto simp: proj_wf_def\<close>)
    moreover have "read_supported q" using read_supported_step [OF a assms(4)] wf by (simp add: proj_wf_def)
    ultimately show ?thesis
      using wf assms(2,5) in_place_ids [OF assms(1)] in_place_retries_named [OF assms(1)] by (simp add: proj_wf_def)
  qed
  with a assms(2,3) show ?thesis by (simp add: proj_step_def)
qed

lemma in_place_proj_step:
  assumes "list_all2 attempt_step (proj_attempts p) (proj_attempts q)" "proj_assignment_id q = proj_assignment_id p"
    "proj_generation p \<le> proj_generation q" "same_claims p q"
  shows "proj_step p q"
  by (rule in_place_step) (use assms in \<open>simp_all add: same_claims_def terminal_supported_def\<close>)

lemma proj_step_trans:
  assumes "proj_step p q" "proj_step q r"
  shows "proj_step p r"
proof -
  note pq = assms(1) [unfolded proj_step_def] and qr = assms(2) [unfolded proj_step_def]
  have "attempts_advance (proj_attempts p) (proj_attempts r)"
    by (rule attempts_advance_trans) (use pq qr in blast)+
  moreover have "proj_generation p \<le> proj_generation r" using pq qr by linarith
  moreover have "proj_assignment_id r = proj_assignment_id p" using pq qr by metis
  ultimately show ?thesis using pq qr unfolding proj_step_def by blast
qed

lemma proj_step_refl [simp]: "proj_step p p"
  by (simp add: proj_step_def)

section \<open>Every handler is a step\<close>

lemma handled_iff [simp]: "handled p = Inr (Some q) \<longleftrightarrow> q = p"
  by (auto simp: handled_def)

lemma quiet_proj_step:
  assumes "proj_attempts q = proj_attempts p" "proj_assignment_id q = proj_assignment_id p"
    "proj_generation q = proj_generation p" "same_claims p q"
  shows "proj_step p q"
  by (rule in_place_proj_step) (simp_all add: assms list_all2_refl)

lemma supersede_step: "list_all2 attempt_step (proj_attempts p) (proj_attempts (supersede_active p))"
  unfolding supersede_active_def by (simp add: list_all2_conv_all_nth superseded_step)

lemma runStarted_step:
  assumes "runStarted p e d = Inr (Some q)" "aev_generation e = proj_generation p + 1"
  shows "proj_step p q"
  by (rule in_place_proj_step)
     (use assms supersede_step [of p] in \<open>auto simp: runStarted_def same_claims_def supersede_active_def\<close>)

lemma runSuperseded_step: "runSuperseded p = Inr (Some q) \<Longrightarrow> proj_step p q"
  using supersede_step [of p]
  by (intro in_place_proj_step) (auto simp: runSuperseded_def same_claims_def supersede_active_def)

lemma opened_ok: "attempt_ok (opened_attempt p e d x t)" "att_generation (opened_attempt p e d x t) = aev_generation e"
  "att_assignment_id (opened_attempt p e d x t) = proj_assignment_id p" "att_id (opened_attempt p e d x t) = the (aev_attempt_id e)"
  by (simp_all add: opened_attempt_def attempt_ok_def Let_def)

lemma opened_retry_named:
  assumes "first_failure (replay_checks p d x) = None"
  shows "retry_named (proj_attempts p) (opened_attempt p e d x t)"
proof -
  let ?a = "opened_attempt p e d x t"
  have "same_apply ?a = (\<lambda>a. att_requested_effect a = ApplyEffect \<and> att_action_signature a = text_at d ''action_signature''
      \<and> att_target_fingerprint a = text_at d ''target_fingerprint'')"
    by (rule ext) (simp add: same_apply_def opened_attempt_def Let_def)
  then have "find (same_apply ?a) (rev (proj_attempts p)) = prior_same_apply p d" by (simp add: prior_same_apply_def)
  with assms show ?thesis
    by (auto simp: retry_named_def replay_checks_def opened_attempt_def Let_def first_failure_Cons_None split: if_splits option.splits)
qed

lemma attemptOpened_cases:
  assumes "attemptOpened p e d = Inr (Some q)"
  obtains x t where "requestedEffect (data_field d ''requested_effect'') = Some x" "truthy (aev_attempt_id e)"
    "the (aev_attempt_id e) \<notin> att_id ` set (proj_attempts p)"
    "first_failure (opening_checks p e (attempt_purpose_of (data_field d ''purpose''))) = None"
    "first_failure (replay_checks p d x) = None" "q = add_attempt (opened_attempt p e d x t) p"
proof -
  from assms obtain x t where "requestedEffect (data_field d ''requested_effect'') = Some x"
      "truthy (aev_attempt_id e) \<and> \<not> list_ex (\<lambda>a. Some (att_id a) = aev_attempt_id e) (proj_attempts p)"
      "first_failure (opening_checks p e (attempt_purpose_of (data_field d ''purpose''))) = None"
      "first_failure (replay_checks p d x) = None" "q = add_attempt (opened_attempt p e d x t) p"
    by (auto simp: attemptOpened_def guard_Inr_iff first_failure_append_None first_failure_Cons_None split: option.splits)
  moreover from this(2) have "truthy (aev_attempt_id e)" "the (aev_attempt_id e) \<notin> att_id ` set (proj_attempts p)"
    by (auto simp: list_ex_iff truthy_def)
  ultimately show thesis using that by blast
qed

lemma attemptOpened_step:
  assumes "attemptOpened p e d = Inr (Some q)" "aev_generation e = proj_generation p"
  shows "proj_step p q"
  using assms(1)
proof (cases rule: attemptOpened_cases)
  case (1 x t)
  let ?a = "opened_attempt p e d x t"
  have q: "proj_attempts q = proj_attempts p @ [?a]" "proj_assignment_id q = proj_assignment_id p"
      "proj_generation q = proj_generation p" "same_claims p q"
    using 1(6) by (simp_all add: add_attempt_def same_claims_def)
  then have a: "attempts_advance (proj_attempts p) (proj_attempts q)"
    unfolding attempts_advance_def by (intro exI [of _ "proj_attempts p"] exI [of _ "[?a]"]) (simp add: list_all2_refl)
  have "proj_wf q" if wf: "proj_wf p"
  proof -
    have "read_supported q" using read_supported_step [OF a] wf q(4) by (simp add: proj_wf_def same_claims_def)
    moreover have "retries_named (proj_attempts q)"
      using wf q(1) retries_named_snoc [OF _ opened_retry_named [OF 1(5)]] by (simp add: proj_wf_def)
    ultimately show ?thesis
      using wf q 1(3) opened_ok [of p e d x t] assms(2) by (auto simp: proj_wf_def terminal_supported_def same_claims_def)
  qed
  with a q show ?thesis by (simp add: proj_step_def)
qed

lemma providerCallRecorded_step: "providerCallRecorded p e d = Inr (Some q) \<Longrightarrow> proj_step p q"
  by (intro in_place_proj_step)
     (auto simp: providerCallRecorded_def Let_def guard_Inr_iff same_claims_def note_receipt_def intro!: map_step)

lemma quiet_handlers:
  "clarificationRequested p e d = Inr (Some q) \<Longrightarrow> proj_step p q"
  "clarificationResolved p e d = Inr (Some q) \<Longrightarrow> proj_step p q"
  "reviewRequestedV1 p d = Inr (Some q) \<Longrightarrow> proj_step p q"
  "reviewResolvedV1 p d = Inr (Some q) \<Longrightarrow> proj_step p q"
  "criterionRecorded p e d = Inr (Some q) \<Longrightarrow> proj_step p q"
  "primaryArtifactRecorded p d = Inr (Some q) \<Longrightarrow> proj_step p q"
  by (rule quiet_proj_step;
      auto simp: clarificationRequested_def clarificationResolved_def reviewRequestedV1_def reviewResolvedV1_def
        criterionRecorded_def primaryArtifactRecorded_def Let_def guard_Inr_iff same_claims_def split: option.splits)+

text \<open>The events that touch the claims of an open assignment.\<close>

lemma claim_step:
  assumes "proj_attempts q = proj_attempts p" "proj_assignment_id q = proj_assignment_id p"
    "proj_generation q = proj_generation p" "read_supported p \<Longrightarrow> read_supported q" "terminal_supported q"
  shows "proj_step p q"
  using assms by (simp add: proj_step_def proj_wf_def)

lemma open_supported: "proj_terminal_state p = TerminalOpen \<Longrightarrow> terminal_supported p"
  by (simp add: terminal_supported_def)

lemma noop_steps:
  assumes "proj_terminal_state p = TerminalOpen"
  shows "noopCompletionClaimed p d = Inr (Some q) \<Longrightarrow> proj_step p q"
    "noopCompletionValidated p e d = Inr (Some q) \<Longrightarrow> proj_step p q"
  using assms
  by (auto simp: noopCompletionClaimed_def noopCompletionValidated_def Let_def guard_Inr_iff read_supported_def find_attempt_def
      intro!: claim_step open_supported)

lemma readCompletionClaimed_step:
  "proj_terminal_state p = TerminalOpen \<Longrightarrow> readCompletionClaimed p d = Inr (Some q) \<Longrightarrow> proj_step p q"
  by (auto simp: readCompletionClaimed_def Let_def guard_Inr_iff read_supported_def intro!: claim_step open_supported)

lemma supports_lasting: "supports_read_completion p i \<Longrightarrow> \<exists>a. find_attempt p i = Some a \<and> lasting_support a"
  by (auto simp: supports_read_completion_def lasting_support_def split: option.splits)

lemma readCompletionValidated_step:
  assumes "proj_terminal_state p = TerminalOpen" "readCompletionValidated p e d = Inr (Some q)"
  shows "proj_step p q"
proof (rule claim_step)
  have k: "first_failure (read_acceptance_checks p e d) = None"
    using assms(2) by (auto simp: readCompletionValidated_def Let_def guard_Inr_iff first_failure_Cons_None)
  have q: "proj_attempts q = proj_attempts p" "proj_terminal_state q = proj_terminal_state p"
      "proj_assignment_id q = proj_assignment_id p" "proj_generation q = proj_generation p"
      "rdc_status (proj_read_completion q) = accepted_status d"
      "rdc_attempt_ids (proj_read_completion q) =
         texts_or (texts_at d ''supporting_attempt_ids'') (rdc_attempt_ids (proj_read_completion p))"
    using assms(2) by (auto simp: readCompletionValidated_def Let_def guard_Inr_iff)
  show "proj_attempts q = proj_attempts p" "proj_assignment_id q = proj_assignment_id p" "proj_generation q = proj_generation p"
    by (fact q)+
  show "terminal_supported q" using assms(1) q(2) by (simp add: open_supported)
  show "read_supported q"
  proof (cases "true_at d ''accepted''")
    case False
    then show ?thesis using q(5) by (simp add: read_supported_def accepted_status_def)
  next
    case True
    with k have "texts_at d ''supporting_attempt_ids'' \<noteq> []"
        "\<forall>i \<in> set (texts_at d ''supporting_attempt_ids''). supports_read_completion p i"
      by (auto simp: read_acceptance_checks_def first_failure_Cons_None list_all_iff)
    with supports_lasting q(1,6) show ?thesis by (auto simp: read_supported_def texts_or_def find_attempt_def)
  qed
qed

lemma or_null_Some [simp]: "or_null t = Some u \<longleftrightarrow> t = u \<and> u \<noteq> []"
  by (auto simp: or_null_def)

lemma assignmentTerminal_step:
  assumes "assignmentTerminalV1 p d = Inr (Some q)"
  shows "proj_step p q"
  using assms
  by (auto simp: assignmentTerminalV1_def Let_def guard_Inr_iff read_supported_def find_attempt_def terminal_supported_def
      first_failure_Cons_None split: option.splits intro!: claim_step)

section \<open>The events of one attempt\<close>

lemma modify_fields [simp]:
  "proj_attempts (modify_attempt i f p) = update_first i f (proj_attempts p)"
  "proj_assignment_id (modify_attempt i f p) = proj_assignment_id p" "proj_generation (modify_attempt i f p) = proj_generation p"
  "same_claims p (modify_attempt i f p)" "proj_read_completion (modify_attempt i f p) = proj_read_completion p"
  by (simp_all add: modify_attempt_def same_claims_def)

lemma find_attempt_id: "find_attempt p i = Some a \<Longrightarrow> att_id a = i"
  by (simp add: find_attempt_def find_Some_iff) blast

lemma set_attempt_step:
  assumes "find_attempt p i = Some a" "attempt_step a b"
  shows "list_all2 attempt_step (proj_attempts p) (proj_attempts (set_attempt b p))" "find_attempt (set_attempt b p) i = Some b"
  using assms find_attempt_id [OF assms(1)] step_id [OF assms(2)] replace_first_step [of i "proj_attempts p" a b]
    find_replaced [of i "proj_attempts p" a b]
  by (simp_all add: set_attempt_def find_attempt_def)

lemma set_attempt_proj_step: "find_attempt p i = Some a \<Longrightarrow> attempt_step a b \<Longrightarrow> proj_step p (set_attempt b p)"
  by (rule in_place_proj_step) (use set_attempt_step(1) in \<open>auto simp: set_attempt_def\<close>)

lemma modify_found:
  "find (\<lambda>a. att_id a = i) xs = Some a \<Longrightarrow> attempt_step a (f a) \<Longrightarrow> list_all2 attempt_step xs (update_first i f xs)"
  by (induction xs) (auto simp: list_all2_refl split: if_splits)

lemma modify_step: "find_attempt p i = Some a \<Longrightarrow> attempt_step a (f a) \<Longrightarrow> proj_step p (modify_attempt i f p)"
  by (rule in_place_proj_step) (simp_all add: modify_found find_attempt_def)

lemma phase_step: "proj_step p q \<Longrightarrow> proj_step p (q\<lparr>proj_phase := x\<rparr>)"
  by (erule proj_step_trans) (simp add: quiet_proj_step same_claims_def)

lemma changed_step:
  assumes "changed p r = Inr (Some q)" "find_attempt p i = Some a" "\<And>b. r = Inr b \<Longrightarrow> attempt_step a b"
  shows "proj_step p q"
  using assms set_attempt_proj_step [OF assms(2)] by (auto simp: changed_def kbind_Inr_iff)

lemma effectRecorded_step:
  assumes "effectRecorded p e d a = Inr (Some q)" "find_attempt p i = Some a"
  shows "proj_step p q"
  using assms
  by (auto simp: effectRecorded_def kbind_Inr_iff
      intro!: phase_step intro: set_attempt_proj_step attempt_step_trans [OF applyEffect_step note_effect_step])

lemma verificationRecorded_step:
  assumes "verificationRecorded p e d a = Inr (Some q)" "find_attempt p i = Some a"
  shows "proj_step p q"
proof -
  obtain state v where q: "q = end_verification state (set_attempt
      (settle_lease LeaseSettled (aev_occurred_at e) (a\<lparr>att_verification := v\<rparr>)) p)"
    using assms(1) by (auto simp: verificationRecorded_def guard_Inr_iff split: option.splits)
  then obtain b where b: "attempt_step a b" "q = end_verification state (set_attempt b p)"
    using attempt_step_trans [OF lease_update_step(3) settle_step] by blast
  have "proj_step (set_attempt b p) (end_verification state (set_attempt b p))"
    by (rule in_place_step) (simp_all add: end_verification_def list_all2_refl terminal_supported_def)
  with set_attempt_proj_step [OF assms(2) b(1)] b(2) show ?thesis using proj_step_trans by simp
qed

lemma reconciliationResolved_step:
  assumes "reconciliationResolved p e d a = Inr (Some q)" "find_attempt p i = Some a"
  shows "proj_step p q"
proof -
  obtain resolved x b where b: "unknown_original p a" "original_of p a = Some x" "applyEffect x (resolution resolved d) = Inr b"
      "q = (modify_attempt (att_id b) (reconciled_lease (aev_occurred_at e))
             (modify_attempt (att_id a) (reconciling_attempt (aev_occurred_at e) d) (set_attempt b p)))\<lparr>proj_phase := resolution_phase resolved\<rparr>"
    using assms(1)
    by (auto simp: reconciliationResolved_def unknown_original_def Let_def guard_Inr_iff kbind_Inr_iff first_failure_Cons_None
        split: option.splits)
  have i: "att_id a = i" by (rule find_attempt_id) (rule assms(2))
  obtain k where k: "find_attempt p k = Some x" using b(2) by (auto simp: original_of_def bind_eq_Some_conv)
  let ?p1 = "set_attempt b p"
  let ?p2 = "modify_attempt i (reconciling_attempt (aev_occurred_at e) d) ?p1"
  have s1: "proj_step p ?p1" by (rule set_attempt_proj_step [OF k applyEffect_step [OF b(3)]])
  have l1: "list_all2 attempt_step (proj_attempts p) (proj_attempts ?p1)"
    by (rule set_attempt_step(1) [OF k applyEffect_step [OF b(3)]])
  obtain a1 where a1: "find_attempt ?p1 i = Some a1" "attempt_step a a1"
    using in_place_find [OF l1, of i a] assms(2) by (auto simp: find_attempt_def)
  have "att_purpose a1 = ReconciliationAttempt"
    using b(1) opening_fields(4) [OF step_opening [OF a1(2)]] by (simp add: unknown_original_def)
  then have s2: "proj_step ?p1 ?p2" by (intro modify_step [OF a1(1)] reconciling_step)
  have s3: "proj_step ?p2 (modify_attempt (att_id b) (reconciled_lease (aev_occurred_at e)) ?p2)"
    by (rule in_place_proj_step) (simp_all add: update_first_step reconciled_lease_step)
  show ?thesis unfolding b(4) i by (intro phase_step) (rule proj_step_trans [OF proj_step_trans [OF s1 s2] s3])
qed

lemma reconciliationStarted_step: "reconciliationStarted p a = Inr (Some q) \<Longrightarrow> proj_step p q"
  by (auto simp: reconciliationStarted_def guard_Inr_iff intro: phase_step)

lemma apply_attempt_event_step:
  assumes "apply_attempt_event p e d a k = Inr (Some q)" "find_attempt p i = Some a"
  shows "proj_step p q"
  using assms
  by (cases k)
     (auto intro: changed_step admissionRecorded_step dispatchRecorded_step leaseRecorded_step attemptTerminal_step
       effectRecorded_step verificationRecorded_step reconciliationStarted_step reconciliationResolved_step)

lemma apply_to_attempt_step:
  assumes "apply_to_attempt p e d = Inr (Some q)"
  shows "proj_step p q"
proof -
  obtain a where a: "attemptFor p e = Some a"
      "apply_attempt_event (set_attempt (a\<lparr>att_updated_at := aev_occurred_at e\<rparr>) p) e d (a\<lparr>att_updated_at := aev_occurred_at e\<rparr>) (aev_kind e)
        = Inr (Some q)"
    using assms by (auto simp: apply_to_attempt_def Let_def split: option.splits)
  then have f: "find_attempt p (the (aev_attempt_id e)) = Some a" by (auto simp: attemptFor_def split: if_splits)
  note s = set_attempt_step(2) [OF f lease_update_step(2)]
  show ?thesis
    by (rule proj_step_trans [OF set_attempt_proj_step [OF f lease_update_step(2)] apply_attempt_event_step [OF a(2) s]])
qed

lemma fenced:
  assumes "rejectReason p e = None"
  shows "proj_terminal_state p = TerminalOpen" "aev_assignment_id e = proj_assignment_id p"
    "aev_kind e = RunStartedEvent \<Longrightarrow> aev_generation e = proj_generation p + 1"
    "aev_kind e \<noteq> RunStartedEvent \<Longrightarrow> aev_generation e = proj_generation p \<and> proj_run_id p = Some (aev_run_id e)"
  using assms by (auto simp: rejectReason_def first_failure_append_None first_failure_Cons_None split: if_splits)

lemma counter_steps: "proj_step p (p\<lparr>proj_progress := g\<rparr>)" "proj_step p (p\<lparr>proj_late_receipt_count := n\<rparr>)"
  by (rule quiet_proj_step; simp add: same_claims_def)+

lemmas handler_proj_steps = runStarted_step runSuperseded_step attemptOpened_step providerCallRecorded_step quiet_handlers
  noop_steps readCompletionClaimed_step readCompletionValidated_step assignmentTerminal_step apply_to_attempt_step counter_steps

lemma applyAcceptedEvent_step:
  assumes "rejectReason p e = None" "applyAcceptedEvent env p e = Inr (Some q)"
  shows "proj_step p q"
proof -
  note f = fenced [OF assms(1)]
  show ?thesis
    using assms(2) f
    by (cases "aev_kind e") (auto simp: applyAcceptedEvent_def Let_def intro: handler_proj_steps)
qed

section \<open>Only an opening adds an attempt\<close>

lemma length_update_first [simp]: "length (update_first i f xs) = length xs"
  by (induction xs) auto

lemma set_attempt_length [simp]: "length (proj_attempts (set_attempt a p)) = length (proj_attempts p)"
  by (simp add: set_attempt_def)

lemma end_verification_attempts [simp]: "proj_attempts (end_verification state p) = proj_attempts p"
  by (simp add: end_verification_def)

lemma attempt_event_length:
  "apply_attempt_event p e d a k = Inr (Some q) \<Longrightarrow> length (proj_attempts q) = length (proj_attempts p)"
  by (cases k)
     (auto simp: changed_def kbind_Inr_iff effectRecorded_def verificationRecorded_def reconciliationStarted_def
       reconciliationResolved_def Let_def guard_Inr_iff split: option.splits)

lemma event_length:
  assumes "applyAcceptedEvent env p e = Inr (Some q)" "aev_kind e \<noteq> AttemptOpened"
  shows "length (proj_attempts q) = length (proj_attempts p)"
proof -
  have a: "apply_to_attempt p e d = Inr (Some q) \<Longrightarrow> ?thesis" for d
    by (auto simp: apply_to_attempt_def Let_def dest!: attempt_event_length split: option.splits)
  show ?thesis
    using assms
    by (cases "aev_kind e")
       (auto simp: applyAcceptedEvent_def Let_def runStarted_def runSuperseded_def supersede_active_def providerCallRecorded_def
         clarificationRequested_def clarificationResolved_def reviewRequestedV1_def reviewResolvedV1_def criterionRecorded_def
         primaryArtifactRecorded_def noopCompletionClaimed_def noopCompletionValidated_def readCompletionClaimed_def
         readCompletionValidated_def assignmentTerminalV1_def guard_Inr_iff intro: a split: option.splits)
qed

lemma in_place_event:
  assumes "rejectReason p e = None" "applyAcceptedEvent env p e = Inr (Some q)" "aev_kind e \<noteq> AttemptOpened"
  shows "list_all2 attempt_step (proj_attempts p) (proj_attempts q)"
proof -
  have "attempts_advance (proj_attempts p) (proj_attempts q)"
    using applyAcceptedEvent_step [OF assms(1,2)] by (simp add: proj_step_def)
  then obtain bs cs where "proj_attempts q = bs @ cs" "list_all2 attempt_step (proj_attempts p) bs"
    by (auto simp: attempts_advance_def)
  moreover from this(2) have "length bs = length (proj_attempts p)" by (simp add: list_all2_lengthD)
  ultimately show ?thesis using event_length [OF assms(2,3)] by simp
qed

end
