(* ===== verification/ControlPlaneHistory.thy ===== *)
theory ControlPlaneHistory
  imports ControlPlaneInvariants
begin

text \<open>
  The reduction of the first control plane as an event-sourced component: what holds of every reduction, and how a
  reduction moves when further events are reduced.
\<close>

lemma refresh_fields [simp]:
  "proj_attempts (refreshDerived p) = proj_attempts p" "proj_assignment_id (refreshDerived p) = proj_assignment_id p"
  "proj_generation (refreshDerived p) = proj_generation p" "same_claims p (refreshDerived p)"
  "proj_terminal_state (refreshDerived p) = proj_terminal_state p"
  by (simp_all add: refreshDerived_def Let_def same_claims_def)

lemma refresh_twice [simp]: "refreshDerived (refreshDerived p) = refreshDerived p"
  by (simp add: refreshDerived_def Let_def in_flight_attempts_def)

lemma refresh_step: "proj_step p (refreshDerived (p\<lparr>proj_last_event_at := t\<rparr>))"
proof -
  have "proj_step p (p\<lparr>proj_last_event_at := t\<rparr>)" by (rule quiet_proj_step) (simp_all add: same_claims_def)
  moreover have "proj_step q (refreshDerived q)" for q by (rule quiet_proj_step) simp_all
  ultimately show ?thesis using proj_step_trans by blast
qed

definition red_ok :: "reduction \<Rightarrow> bool" where
  "red_ok r \<longleftrightarrow> proj_wf (red_projection r) \<and> refreshDerived (red_projection r) = red_projection r
     \<and> distinct (red_seen r) \<and> length (red_seen r) = length (red_accepted r) + length (red_rejected r)
     \<and> set (red_seen r) = set (red_accepted r) \<union> (aev_id \<circ> fst) ` set (red_rejected r)"

definition red_later :: "reduction \<Rightarrow> reduction \<Rightarrow> bool" where
  "red_later r q \<longleftrightarrow> attempts_advance (proj_attempts (red_projection r)) (proj_attempts (red_projection q))
     \<and> proj_generation (red_projection r) \<le> proj_generation (red_projection q)
     \<and> set (red_seen r) \<subseteq> set (red_seen q) \<and> (\<exists>xs. red_accepted q = red_accepted r @ xs)
     \<and> (proj_terminal_state (red_projection r) \<noteq> TerminalOpen \<longrightarrow>
          red_projection q = red_projection r \<and> red_accepted q = red_accepted r)"

lemma initial_red_ok: "red_ok (initial_reduction i)"
  by (simp add: retries_named_def red_ok_def initial_reduction_def initialProjection_def proj_wf_def read_supported_def terminal_supported_def
      no_read_completion_def refreshDerived_def in_flight_attempts_def first_of_def Let_def)

lemma reduce_event_cases:
  assumes "reduce_event env r e = Inr q"
  obtains (repeated) "aev_id e \<in> set (red_seen r)" "q = r"
    | (rejected) reason where "aev_id e \<notin> set (red_seen r)" "q = set_aside e reason r"
    | (taken) p where "aev_id e \<notin> set (red_seen r)" "rejectReason (red_projection r) e = None"
        "applyAcceptedEvent env (red_projection r) e = Inr (Some p)" "q = take_in e p r"
  using assms by (auto simp: reduce_event_def split: if_splits option.splits sum.splits)

lemma taken_step:
  assumes "rejectReason (red_projection r) e = None" "applyAcceptedEvent env (red_projection r) e = Inr (Some p)"
  shows "proj_step (red_projection r) (red_projection (take_in e p r))"
  using proj_step_trans [OF applyAcceptedEvent_step [OF assms] refresh_step] by (simp add: take_in_def)

lemma reduce_event_ok:
  assumes "red_ok r" "reduce_event env r e = Inr q"
  shows "red_ok q"
  using assms(2)
proof (cases rule: reduce_event_cases)
  case repeated
  then show ?thesis using assms(1) by simp
next
  case (rejected reason)
  then show ?thesis using assms(1) by (auto simp: red_ok_def set_aside_def)
next
  case (taken p)
  have "proj_wf (red_projection q)" using taken_step [OF taken(2,3)] taken(4) assms(1) by (simp add: proj_step_def red_ok_def)
  then show ?thesis using taken assms(1) by (auto simp: red_ok_def take_in_def)
qed

lemma reduce_event_later:
  assumes "reduce_event env r e = Inr q"
  shows "red_later r q"
  using assms
proof (cases rule: reduce_event_cases)
  case repeated
  then show ?thesis by (simp add: red_later_def)
next
  case (rejected reason)
  then show ?thesis by (auto simp: red_later_def set_aside_def)
next
  case (taken p)
  have s: "proj_step (red_projection r) (red_projection q)" using taken_step [OF taken(2,3)] taken(4) by simp
  have "proj_terminal_state (red_projection r) = TerminalOpen" by (rule fenced(1) [OF taken(2)])
  moreover have "set (red_seen r) \<subseteq> set (red_seen q)" "red_accepted q = red_accepted r @ [aev_id e]"
    using taken(4) by (auto simp: take_in_def)
  ultimately show ?thesis using s by (simp add: red_later_def proj_step_def)
qed

lemma red_later_refl: "red_later r r"
  by (simp add: red_later_def)

lemma red_later_trans:
  assumes "red_later r s" "red_later s t"
  shows "red_later r t"
proof -
  note rs = assms(1) [unfolded red_later_def] and st = assms(2) [unfolded red_later_def]
  have "attempts_advance (proj_attempts (red_projection r)) (proj_attempts (red_projection t))"
    by (rule attempts_advance_trans) (use rs st in blast)+
  moreover have "proj_generation (red_projection r) \<le> proj_generation (red_projection t)" using rs st by linarith
  moreover have "\<exists>xs. red_accepted t = red_accepted r @ xs" using rs st by force
  moreover have "set (red_seen r) \<subseteq> set (red_seen t)" using rs st by blast
  moreover have "red_projection t = red_projection r \<and> red_accepted t = red_accepted r"
    if "proj_terminal_state (red_projection r) \<noteq> TerminalOpen"
    using rs st that by metis
  ultimately show ?thesis unfolding red_later_def by blast
qed

interpretation control: event_invariant "reduce_event env" "reduce_events env" red_ok for env
  by unfold_locales (rule reduce_event_ok)

interpretation control: event_progress "reduce_event env" "reduce_events env" red_ok red_later for env
  by unfold_locales (rule red_later_refl, erule (1) red_later_trans, rule reduce_event_later)

section \<open>Reductions\<close>

lemma reduced_ok: "reduceAssignmentControlPlane env i es = Inr r \<Longrightarrow> red_ok r"
  unfolding reduceAssignmentControlPlane_def using control.inv_run initial_red_ok by blast

lemma reduced_later:
  assumes "reduceAssignmentControlPlane env i es = Inr r" "reduceAssignmentControlPlane env i (es @ fs) = Inr q"
  shows "red_later r q"
proof -
  have "reduce_events env r fs = Inr q"
    using assms unfolding reduceAssignmentControlPlane_def by (simp add: control.run_append)
  then show ?thesis using control.later_run reduced_ok [OF assms(1)] by blast
qed

lemma reduced_attempt:
  assumes "reduceAssignmentControlPlane env i es = Inr r" "a \<in> set (proj_attempts (red_projection r))"
  shows "attempt_ok a" "find_attempt (red_projection r) (att_id a) = Some a"
proof -
  have wf: "proj_wf (red_projection r)" using reduced_ok [OF assms(1)] by (simp add: red_ok_def)
  then show "attempt_ok a" using assms(2) by (simp add: proj_wf_def)
  have "distinct (map att_id xs) \<Longrightarrow> a \<in> set xs \<Longrightarrow> find (\<lambda>x. att_id x = att_id a) xs = Some a" for xs
    by (induction xs) auto
  then show "find_attempt (red_projection r) (att_id a) = Some a" using wf assms(2) by (simp add: proj_wf_def find_attempt_def)
qed

text \<open>What was rejected or repeated leaves the projection alone.\<close>

lemma reduced_snoc:
  assumes "reduceAssignmentControlPlane env i es = Inr r"
  shows "reduceAssignmentControlPlane env i (es @ [e]) = reduce_event env r e"
  using assms unfolding reduceAssignmentControlPlane_def by (simp add: control.run_snoc)

end
