(* ===== verification/ControlPlaneStore.thy ===== *)
theory ControlPlaneStore
  imports ControlPlaneHistory
begin

text \<open>
  The stored control plane: \<open>appendAssignmentEvent\<close> and \<open>beginAssignmentRun\<close> (\<open>assignments/control_plane_store.ts\<close>) and
  the settlement barrier over it (\<open>assignments/settlement_barrier.ts\<close>). A goal keeps the fields the store reads and
  writes. The persistence of the record, the notification and the work packets are left out: what is modelled is the
  record an append leaves. Identities the host draws at random and the time are arguments.
\<close>

section \<open>Appending\<close>

datatype goal_status = GoalDraft | GoalActive | GoalPaused | GoalBlocked | GoalComplete | GoalCanceled | GoalFailed

record goal =
  goal_id :: string
  goal_status :: goal_status
  goal_current_phase :: "string option"
  goal_current_step :: "string option"
  goal_finished_at :: "string option"
  goal_progress_summary :: string
  goal_blocker :: "string option"
  goal_error :: "string option"
  goal_requested_effect :: json
  goal_control_plane :: "control_log option"

fun goal_status_text :: "goal_status \<Rightarrow> string" where
  "goal_status_text GoalDraft = ''draft''"
| "goal_status_text GoalActive = ''active''"
| "goal_status_text GoalPaused = ''paused''"
| "goal_status_text GoalBlocked = ''blocked''"
| "goal_status_text GoalComplete = ''complete''"
| "goal_status_text GoalCanceled = ''canceled''"
| "goal_status_text GoalFailed = ''failed''"

definition goal_log :: "goal \<Rightarrow> control_log" where
  "goal_log g = normalizeAssignmentControlPlane (goal_control_plane g)"

definition is_duplicate :: "control_log \<Rightarrow> attempt_event \<Rightarrow> bool" where
  "is_duplicate l e \<longleftrightarrow> list_ex (\<lambda>c. aev_id c = aev_id e) (log_events l @ map fst (log_quarantined l))"

definition goal_terminal :: "goal \<Rightarrow> bool" where
  "goal_terminal g \<longleftrightarrow> goal_status g \<in> {GoalComplete, GoalCanceled, GoalFailed}"

text \<open>The reason an event is rejected for, if it is.\<close>

definition rejection_of :: "kernel_env \<Rightarrow> goal \<Rightarrow> control_log \<Rightarrow> attempt_event \<Rightarrow> kernel_error + string option" where
  "rejection_of env g l e =
     (if goal_terminal g then Inr (Some (''Goal is terminal ('' @ goal_status_text (goal_status g) @ '').''))
      else kbind (reduceAssignmentControlPlane env (goal_id g) (log_events l @ [e]))
        (\<lambda>r. Inr (map_option snd (find (\<lambda>q. aev_id (fst q) = aev_id e) (red_rejected r)))))"

text \<open>The log after the append, whether the event is accepted, and why it is quarantined.\<close>

definition append_to_log ::
  "kernel_env \<Rightarrow> goal \<Rightarrow> string \<Rightarrow> attempt_event \<Rightarrow> kernel_error + control_log \<times> bool \<times> string option" where
  "append_to_log env g now e = (let l = goal_log g in
     if is_duplicate l e then
       (let accepted = list_ex (\<lambda>c. aev_id c = aev_id e) (log_events l) in
        Inr (l, accepted, if accepted then None else Some ''Duplicate quarantined event.''))
     else kbind (rejection_of env g l e) (\<lambda>rejection. Inr (case rejection of
         Some reason \<Rightarrow> (l\<lparr>log_quarantined := log_quarantined l @ [(e, reason, now)]\<rparr>, False, Some reason)
       | None \<Rightarrow> (l\<lparr>log_events := log_events l @ [e]\<rparr>, True, None))))"

definition status_of_terminal :: "assignment_terminal_state \<Rightarrow> goal_status" where
  "status_of_terminal t = (case t of TerminalVerified \<Rightarrow> GoalComplete | TerminalComplete \<Rightarrow> GoalComplete
     | TerminalCanceled \<Rightarrow> GoalCanceled | TerminalFailed \<Rightarrow> GoalFailed | _ \<Rightarrow> GoalBlocked)"

definition or_stored :: "string option \<Rightarrow> string option \<Rightarrow> string \<Rightarrow> string" where
  "or_stored x y z = (case x of Some t \<Rightarrow> t | None \<Rightarrow> (case y of Some t \<Rightarrow> t | None \<Rightarrow> z))"

definition finish_goal :: "projection \<Rightarrow> string \<Rightarrow> goal \<Rightarrow> goal" where
  "finish_goal p now g = (let status = status_of_terminal (proj_terminal_state p) in g\<lparr>
     goal_status := status, goal_current_phase := Some ''settled'', goal_current_step := None, goal_finished_at := Some now,
     goal_progress_summary := or_stored (proj_terminal_reason p) None (''Assignment '' @ goal_status_text status @ ''.''),
     goal_blocker := (if status = GoalBlocked then Some (or_stored (proj_terminal_reason p) (goal_blocker g) ''Blocked.'')
        else goal_blocker g),
     goal_error := (if status = GoalFailed then Some (or_stored (proj_terminal_reason p) (goal_error g) ''Assignment failed.'')
        else goal_error g)\<rparr>)"

definition pause_goal :: "projection \<Rightarrow> goal \<Rightarrow> goal" where
  "pause_goal p g = (let pending = find (\<lambda>c. Some (clar_id c) = proj_pending_clarification_id p) (proj_clarifications p) in g\<lparr>
     goal_status := GoalPaused, goal_current_phase := Some ''awaiting_user_input'',
     goal_current_step := Some (case pending of None \<Rightarrow> ''Awaiting required user input.'' | Some c \<Rightarrow> clar_question c),
     goal_finished_at := None,
     goal_progress_summary := (case pending of
        Some c \<Rightarrow> if clar_completed_work c \<noteq> [] then ''Awaiting user input after retaining ''
            @ nat_digits (length (clar_completed_work c)) @ '' completed work item(s).''
          else ''Awaiting required user input; the Assignment remains resumable.''
      | None \<Rightarrow> ''Awaiting required user input; the Assignment remains resumable.''),
     goal_blocker := None\<rparr>)"

definition resume_goal :: "goal \<Rightarrow> goal" where
  "resume_goal g = g\<lparr>goal_status := GoalActive, goal_current_phase := Some ''planning'',
     goal_current_step := Some ''Resume from the resolved clarification.'', goal_finished_at := None,
     goal_progress_summary := ''Authenticated user input was bound to the existing Assignment; completed work remains retained.'',
     goal_blocker := None\<rparr>"

definition goal_after :: "projection \<Rightarrow> bool \<Rightarrow> attempt_event \<Rightarrow> goal \<Rightarrow> goal" where
  "goal_after p accepted e g =
     (if accepted \<and> proj_terminal_state p \<noteq> TerminalOpen then finish_goal p (aev_occurred_at e) g
      else if accepted \<and> proj_outcome_state p = OutcomeAwaitingInput then pause_goal p g
      else if accepted \<and> aev_kind e = ClarificationResolvedEvent then resume_goal g
      else g)"

record append_result =
  ar_goal :: goal
  ar_projection :: projection
  ar_accepted :: bool
  ar_quarantined_reason :: "string option"

definition goal_projection :: "kernel_env \<Rightarrow> goal \<Rightarrow> kernel_error + projection" where
  "goal_projection env g = kbind (reduceAssignmentControlPlane env (goal_id g) (log_events (goal_log g)))
     (\<lambda>r. Inr (red_projection r))"

definition appendAssignmentEvent :: "kernel_env \<Rightarrow> goal \<Rightarrow> string \<Rightarrow> attempt_event \<Rightarrow> kernel_error + append_result" where
  "appendAssignmentEvent env g now e = kbind (append_to_log env g now e) (\<lambda>(l, accepted, reason).
     kbind (reduceAssignmentControlPlane env (goal_id g) (log_events l)) (\<lambda>r.
       let g' = (goal_after (red_projection r) accepted e g)\<lparr>goal_control_plane := Some l\<rparr> in
       kbind (goal_projection env g') (\<lambda>p.
         Inr \<lparr>ar_goal = g', ar_projection = p, ar_accepted = accepted, ar_quarantined_reason = reason\<rparr>)))"

definition clipped :: "string \<Rightarrow> nat \<Rightarrow> string" where
  "clipped t n = take n (js_trim t)"

definition beginAssignmentRun ::
  "kernel_env \<Rightarrow> goal \<Rightarrow> string \<Rightarrow> string \<Rightarrow> string \<Rightarrow> string \<Rightarrow> string \<Rightarrow> kernel_error + append_result" where
  "beginAssignmentRun env g uuid uuid' now run_id actor = kbind (goal_projection env g) (\<lambda>p.
     appendAssignmentEvent env g now \<lparr>aev_schema = ASSIGNMENT_ATTEMPT_EVENT_SCHEMA, aev_id = uuid, aev_assignment_id = goal_id g,
       aev_run_id = or_else (clipped run_id 200) uuid', aev_generation = proj_generation p + 1, aev_attempt_id = None,
       aev_kind = RunStartedEvent, aev_occurred_at = now, aev_actor = or_else (clipped actor 160) ''operator-backend'',
       aev_data = JObj [(''previous_run_id'', nullable_json (proj_run_id p)),
         (''requested_effect'', if requestedEffect (goal_requested_effect g) \<noteq> None then goal_requested_effect g
            else nullable_json (map_option effect_text (proj_requested_effect p)))]\<rparr>)"

section \<open>The settlement barrier\<close>

text \<open>The kinds of the event type; an event of another kind does not come from typed code and has no text here.\<close>

fun event_kind_text :: "event_kind \<Rightarrow> string" where
  "event_kind_text RunStartedEvent = ''run_started''"
| "event_kind_text RunSupersededEvent = ''run_superseded''"
| "event_kind_text AttemptOpened = ''attempt_opened''"
| "event_kind_text AdmissionRecorded = ''admission_recorded''"
| "event_kind_text DispatchRecorded = ''dispatch_recorded''"
| "event_kind_text LeaseRecorded = ''lease_recorded''"
| "event_kind_text EffectRecorded = ''effect_recorded''"
| "event_kind_text VerificationRecorded = ''verification_recorded''"
| "event_kind_text ReconciliationStarted = ''reconciliation_started''"
| "event_kind_text ReconciliationResolved = ''reconciliation_resolved''"
| "event_kind_text AttemptTerminal = ''attempt_terminal''"
| "event_kind_text ProviderCallRecordedEvent = ''provider_call_recorded''"
| "event_kind_text LateReceiptRecorded = ''late_receipt_recorded''"
| "event_kind_text ProgressRecorded = ''progress_recorded''"
| "event_kind_text ReadCompletionClaimed = ''read_completion_claimed''"
| "event_kind_text ReadCompletionValidated = ''read_completion_validated''"
| "event_kind_text ClarificationRequestedEvent = ''clarification_requested''"
| "event_kind_text ClarificationResolvedEvent = ''clarification_resolved''"
| "event_kind_text ReviewRequestedEvent = ''review_requested''"
| "event_kind_text ReviewResolvedEvent = ''review_resolved''"
| "event_kind_text CriterionRecorded = ''criterion_recorded''"
| "event_kind_text PrimaryArtifactRecorded = ''primary_artifact_recorded''"
| "event_kind_text NoopCompletionClaimed = ''noop_completion_claimed''"
| "event_kind_text NoopCompletionValidated = ''noop_completion_validated''"
| "event_kind_text AssignmentTerminalEvent = ''assignment_terminal''"
| "event_kind_text OtherEvent = []"

definition barrier_event ::
  "kernel_env \<Rightarrow> projection \<Rightarrow> string option \<Rightarrow> event_kind \<Rightarrow> json_object \<Rightarrow> string \<Rightarrow> attempt_event" where
  "barrier_event env p i kind d now = \<lparr>aev_schema = ASSIGNMENT_ATTEMPT_EVENT_SCHEMA,
     aev_id = ''sha256:'' @ sha256 env (json_text (number_text env) (JObj
       [(''assignment_id'', JStr (proj_assignment_id p)), (''run_id'', nullable_json (proj_run_id p)),
        (''generation'', JNum (of_int (proj_generation p))), (''attempt_id'', nullable_json i), (''kind'', JStr (event_kind_text kind)),
        (''data'', JObj d), (''at'', JStr now)])),
     aev_assignment_id = proj_assignment_id p, aev_run_id = (case proj_run_id p of None \<Rightarrow> [] | Some r \<Rightarrow> r),
     aev_generation = proj_generation p, aev_attempt_id = i, aev_kind = kind, aev_occurred_at = now,
     aev_actor = ''assignment_settlement_barrier'', aev_data = JObj d\<rparr>"

text \<open>The goal and its projection after one more event of the barrier.\<close>

definition barrier_append ::
  "kernel_env \<Rightarrow> string \<Rightarrow> string \<Rightarrow> event_kind \<Rightarrow> json_object \<Rightarrow> goal \<times> projection \<Rightarrow> kernel_error + goal \<times> projection" where
  "barrier_append env now i kind d s =
     kbind (appendAssignmentEvent env (fst s) now (barrier_event env (snd s) (Some i) kind d now))
       (\<lambda>r. Inr (ar_goal r, ar_projection r))"

definition expired_lease :: "int \<Rightarrow> attempt \<Rightarrow> bool" where
  "expired_lease now a = (case date_parse (lease_deadline_at (att_lease a)) of None \<Rightarrow> False | Some t \<Rightarrow> t \<le> now)"

definition mayHaveDispatched :: "attempt \<Rightarrow> bool" where
  "mayHaveDispatched a \<longleftrightarrow> dsp_state (att_dispatch a) \<in> {AttemptDispatched, AttemptAcknowledged}
     \<or> lease_of_state (att_lease a) \<in> {LeaseDispatching, LeaseDispatched, LeaseRetainingEvidence}"

definition expiry_effect :: "attempt_effect \<Rightarrow> effect_authority \<Rightarrow> string \<Rightarrow> attempt \<Rightarrow> json_object" where
  "expiry_effect state authority reason a = [(''effect_state'', JStr (effect_state_text state)),
     (''effect_authority'', JStr (authority_text authority)), (''authority_id'', nullable_json (dsp_id (att_dispatch a))),
     (''reason'', JStr reason), (''receipt_refs'', string_array (att_receipt_refs a)),
     (''evidence_refs'', string_array (att_evidence_refs a)), (''settlement_pending_evidence'', JBool True)]"

definition settle_expired :: "kernel_env \<Rightarrow> string \<Rightarrow> attempt \<Rightarrow> goal \<times> projection \<Rightarrow> kernel_error + goal \<times> projection" where
  "settle_expired env now pending s =
     (let a = (case find_attempt (snd s) (att_id pending) of None \<Rightarrow> pending | Some x \<Rightarrow> x); may = mayHaveDispatched a in
      if att_requested_effect a = ApplyEffect \<and> may then
        kbind (barrier_append env now (att_id a) EffectRecorded
            (expiry_effect UnknownEffect DispatchTransport ''operation_deadline_elapsed_after_possible_dispatch'' a) s)
          (barrier_append env now (att_id a) LeaseRecorded
            [(''lease_state'', JStr ''effect_unknown''), (''reason'', JStr ''reconciliation_required_after_operation_deadline'')])
      else
        kbind (barrier_append env now (att_id a) EffectRecorded
            (expiry_effect NoEffect (if may then WorkerAuthority else TransportPreDispatch)
               (if att_requested_effect a = ReadEffect then ''read_result_deadline_elapsed_without_task_evidence''
                else ''preview_deadline_elapsed_without_authoritative_completion'') a) s)
          (barrier_append env now (att_id a) AttemptTerminal
            [(''lease_state'', JStr (if att_requested_effect a = ReadEffect then ''timed_out_read'' else ''settled'')),
             (''reason'', JStr ''operation_deadline_elapsed'')]))"

fun for_each :: "('a \<Rightarrow> 's \<Rightarrow> kernel_error + 's) \<Rightarrow> 'a list \<Rightarrow> 's \<Rightarrow> kernel_error + 's" where
  "for_each f [] s = Inr s"
| "for_each f (x # xs) s = kbind (f x s) (for_each f xs)"

definition iso_or_throw :: "int \<Rightarrow> kernel_error + string" where
  "iso_or_throw t = (case iso_string t of None \<Rightarrow> Inl ''RangeError: Invalid time value'' | Some s \<Rightarrow> Inr s)"

definition settleAssignmentExpiredWork :: "kernel_env \<Rightarrow> goal \<Rightarrow> int \<Rightarrow> kernel_error + goal \<times> projection" where
  "settleAssignmentExpiredWork env g now = kbind (goal_projection env g) (\<lambda>p.
     if proj_terminal_state p \<noteq> TerminalOpen then Inr (g, p)
     else kbind (iso_or_throw now) (\<lambda>t.
       for_each (settle_expired env t) (filter (expired_lease now) (in_flight_attempts p)) (g, p)))"

definition cancel_pending :: "kernel_env \<Rightarrow> string \<Rightarrow> attempt \<Rightarrow> goal \<times> projection \<Rightarrow> kernel_error + goal \<times> projection" where
  "cancel_pending env now a s =
     (if \<not> mayHaveDispatched a then
        kbind (barrier_append env now (att_id a) EffectRecorded [(''effect_state'', JStr ''none''),
            (''effect_authority'', JStr ''transport_pre_dispatch''), (''reason'', JStr ''canceled_before_dispatch''),
            (''settlement_pending_evidence'', JBool True)] s)
          (barrier_append env now (att_id a) LeaseRecorded [(''lease_state'', JStr ''canceled_before_dispatch'')])
      else if att_requested_effect a = ApplyEffect then
        kbind (barrier_append env now (att_id a) EffectRecorded [(''effect_state'', JStr ''unknown''),
            (''effect_authority'', JStr ''dispatch_transport''), (''reason'', JStr ''canceled_after_possible_apply_dispatch''),
            (''authority_id'', nullable_json (dsp_id (att_dispatch a))), (''settlement_pending_evidence'', JBool True)] s)
          (barrier_append env now (att_id a) LeaseRecorded [(''lease_state'', JStr ''canceled_after_dispatch'')])
      else Inr s)"

text \<open>With the attempts still pending; the cancellation is deferred when there are any.\<close>

definition cancelAssignmentInFlight :: "kernel_env \<Rightarrow> goal \<Rightarrow> int \<Rightarrow> kernel_error + (goal \<times> projection) \<times> string list" where
  "cancelAssignmentInFlight env g now = kbind (goal_projection env g) (\<lambda>p. kbind (iso_or_throw now) (\<lambda>t.
     kbind (for_each (cancel_pending env t) (in_flight_attempts p) (g, p)) (\<lambda>s. Inr (s, proj_in_flight_attempt_ids (snd s)))))"

definition requestAssignmentTerminal ::
  "kernel_env \<Rightarrow> goal \<Rightarrow> assignment_terminal_state \<Rightarrow> string \<Rightarrow> int \<Rightarrow> kernel_error + append_result" where
  "requestAssignmentTerminal env g state reason now = kbind (goal_projection env g) (\<lambda>p. kbind (iso_or_throw now) (\<lambda>t.
     appendAssignmentEvent env g t (barrier_event env p None AssignmentTerminalEvent
       [(''terminal_state'', JStr (terminal_text state)), (''reason'', JStr reason)] t)))"

section \<open>Reachable goals\<close>

lemma goal_after_fields [simp]: "goal_id (goal_after p acc e g) = goal_id g"
  by (simp add: goal_after_def finish_goal_def pause_goal_def resume_goal_def Let_def)

text \<open>A goal starts without a log; the rest of the program changes its other fields only.\<close>

inductive goal_reachable :: "kernel_env \<Rightarrow> goal \<Rightarrow> bool" for env :: kernel_env where
  created: "goal_control_plane g = None \<Longrightarrow> goal_reachable env g"
| appended: "goal_reachable env g \<Longrightarrow> appendAssignmentEvent env g now e = Inr r \<Longrightarrow> goal_reachable env (ar_goal r)"
| touched: "goal_reachable env g \<Longrightarrow> goal_id h = goal_id g \<Longrightarrow> goal_control_plane h = goal_control_plane g
    \<Longrightarrow> goal_reachable env h"

text \<open>The log replays without a rejection, and what is quarantined is not in it.\<close>

definition log_clean :: "kernel_env \<Rightarrow> string \<Rightarrow> control_log \<Rightarrow> reduction \<Rightarrow> bool" where
  "log_clean env i l r \<longleftrightarrow> reduceAssignmentControlPlane env i (log_events l) = Inr r \<and> red_rejected r = []
     \<and> red_accepted r = map aev_id (log_events l)
     \<and> (\<forall>e \<in> set (log_events l). aev_schema e = ASSIGNMENT_ATTEMPT_EVENT_SCHEMA)
     \<and> (\<forall>q \<in> set (log_quarantined l). aev_id (fst q) \<notin> aev_id ` set (log_events l))"

lemma empty_clean: "log_clean env i emptyAssignmentControlPlane (initial_reduction i)"
  by (simp add: log_clean_def emptyAssignmentControlPlane_def reduceAssignmentControlPlane_def initial_reduction_def)

lemma normalize_clean:
  assumes "log_clean env i l r"
  shows "log_clean env i (normalizeAssignmentControlPlane (Some l)) r"
    "log_events (normalizeAssignmentControlPlane (Some l)) = log_events l"
proof -
  have "filter (\<lambda>e. aev_schema e = ASSIGNMENT_ATTEMPT_EVENT_SCHEMA) (log_events l) = log_events l"
    using assms by (simp add: log_clean_def filter_id_conv)
  then show "log_clean env i (normalizeAssignmentControlPlane (Some l)) r"
    "log_events (normalizeAssignmentControlPlane (Some l)) = log_events l"
    using assms by (simp_all add: log_clean_def normalizeAssignmentControlPlane_def)
qed

lemma clean_snoc:
  assumes "log_clean env i l r" "\<not> is_duplicate l e" "reduceAssignmentControlPlane env i (log_events l @ [e]) = Inr q"
    "find (\<lambda>x. aev_id (fst x) = aev_id e) (red_rejected q) = None"
  shows "log_clean env i (l\<lparr>log_events := log_events l @ [e]\<rparr>) q"
    "\<exists>p. rejectReason (red_projection r) e = None \<and> applyAcceptedEvent env (red_projection r) e = Inr (Some p)
       \<and> q = take_in e p r"
proof -
  have c: "reduceAssignmentControlPlane env i (log_events l) = Inr r" "red_rejected r = []"
      "red_accepted r = map aev_id (log_events l)"
    using assms(1) by (simp_all add: log_clean_def)
  have ok: "red_ok r" by (rule reduced_ok [OF c(1)])
  have new: "aev_id e \<notin> aev_id ` set (log_events l)" "\<forall>x \<in> set (log_quarantined l). aev_id (fst x) \<noteq> aev_id e"
    using assms(2) by (force simp: is_duplicate_def list_ex_iff)+
  then have unseen: "aev_id e \<notin> set (red_seen r)" using ok c(2,3) by (simp add: red_ok_def)
  have "reduce_event env r e = Inr q" using assms(3) by (simp add: reduced_snoc [OF c(1)])
  then show k: "\<exists>p. rejectReason (red_projection r) e = None \<and> applyAcceptedEvent env (red_projection r) e = Inr (Some p)
      \<and> q = take_in e p r"
    using unseen assms(4) c(2) by (cases rule: reduce_event_cases) (auto simp: set_aside_def)
  then have "aev_schema e = ASSIGNMENT_ATTEMPT_EVENT_SCHEMA"
    by (auto simp: rejectReason_def first_failure_append_None first_failure_Cons_None)
  with k new assms(1,3) show "log_clean env i (l\<lparr>log_events := log_events l @ [e]\<rparr>) q"
    by (auto simp: log_clean_def take_in_def)
qed

text \<open>What an append does to a goal with a clean log.\<close>

lemma store_append_cases:
  assumes "appendAssignmentEvent env g now e = Inr a" "log_clean env (goal_id g) (goal_log g) r"
  obtains (duplicate) "is_duplicate (goal_log g) e" "log_clean env (goal_id g) (goal_log (ar_goal a)) r"
      "ar_projection a = red_projection r" "log_events (goal_log (ar_goal a)) = log_events (goal_log g)"
      "ar_accepted a \<longleftrightarrow> aev_id e \<in> aev_id ` set (log_events (goal_log g))"
    | (quarantined) "\<not> ar_accepted a" "log_clean env (goal_id g) (goal_log (ar_goal a)) r"
      "ar_projection a = red_projection r" "log_events (goal_log (ar_goal a)) = log_events (goal_log g)"
      "aev_id e \<notin> aev_id ` set (log_events (goal_log g))"
    | (accepted) p q where "ar_accepted a" "rejectReason (red_projection r) e = None"
      "applyAcceptedEvent env (red_projection r) e = Inr (Some p)" "q = take_in e p r"
      "log_clean env (goal_id g) (goal_log (ar_goal a)) q" "ar_projection a = red_projection q"
      "log_events (goal_log (ar_goal a)) = log_events (goal_log g) @ [e]"
      "aev_id e \<notin> aev_id ` set (log_events (goal_log g))"
proof -
  let ?l = "goal_log g"
  obtain l acc reason s where l: "append_to_log env g now e = Inr (l, acc, reason)"
      "reduceAssignmentControlPlane env (goal_id g) (log_events l) = Inr s"
      "goal_control_plane (ar_goal a) = Some l" "goal_id (ar_goal a) = goal_id g" "ar_accepted a = acc"
      "goal_projection env (ar_goal a) = Inr (ar_projection a)"
    using assms(1) by (auto simp: appendAssignmentEvent_def Let_def kbind_Inr_iff goal_after_fields)
  have log: "goal_log (ar_goal a) = normalizeAssignmentControlPlane (Some l)" using l(3) by (simp add: goal_log_def)
  have finish: "log_clean env (goal_id g) (goal_log (ar_goal a)) u \<and> ar_projection a = red_projection u
      \<and> log_events (goal_log (ar_goal a)) = log_events l" if "log_clean env (goal_id g) l u" for u
    using normalize_clean [OF that] l(4,6) by (auto simp: log goal_projection_def log_clean_def kbind_Inr_iff)
  show thesis
  proof (cases "is_duplicate ?l e")
    case True
    with l(1) have "l = ?l" "acc \<longleftrightarrow> aev_id e \<in> aev_id ` set (log_events ?l)"
      by (auto simp: append_to_log_def Let_def list_ex_iff image_iff eq_commute)
    with duplicate [OF True] finish assms(2) l(5) show thesis by simp
  next
    case False
    with l(1) obtain rejection where rej: "rejection_of env g ?l e = Inr rejection"
        "(l, acc, reason) = (case rejection of Some x \<Rightarrow> (?l\<lparr>log_quarantined := log_quarantined ?l @ [(e, x, now)]\<rparr>, False, Some x)
          | None \<Rightarrow> (?l\<lparr>log_events := log_events ?l @ [e]\<rparr>, True, None))"
      by (auto simp: append_to_log_def Let_def kbind_Inr_iff)
    have new: "aev_id e \<notin> aev_id ` set (log_events ?l)" using False by (auto simp: is_duplicate_def list_ex_iff)
    show thesis
    proof (cases rejection)
      case (Some x)
      with rej(2) have k: "l = ?l\<lparr>log_quarantined := log_quarantined ?l @ [(e, x, now)]\<rparr>" "\<not> acc" by simp_all
      then have "log_clean env (goal_id g) l r" using assms(2) new by (auto simp: log_clean_def)
      with quarantined finish k l(5) new show thesis by simp
    next
      case None
      with rej(2) have k: "l = ?l\<lparr>log_events := log_events ?l @ [e]\<rparr>" "acc" by simp_all
      from rej(1) None obtain q where q: "reduceAssignmentControlPlane env (goal_id g) (log_events ?l @ [e]) = Inr q"
          "find (\<lambda>x. aev_id (fst x) = aev_id e) (red_rejected q) = None"
        by (auto simp: rejection_of_def kbind_Inr_iff split: if_splits)
      from clean_snoc [OF assms(2) False q] obtain p where p: "log_clean env (goal_id g) l q"
          "rejectReason (red_projection r) e = None" "applyAcceptedEvent env (red_projection r) e = Inr (Some p)" "q = take_in e p r"
        using k(1) by blast
      have "log_events (goal_log (ar_goal a)) = log_events ?l @ [e]" using finish [OF p(1)] k(1) by simp
      with accepted [OF _ p(2-4)] finish [OF p(1)] k(2) l(5) new show thesis by simp
    qed
  qed
qed

lemma reachable_clean:
  assumes "goal_reachable env g"
  obtains r where "log_clean env (goal_id g) (goal_log g) r" "goal_projection env g = Inr (red_projection r)"
proof -
  from assms have "\<exists>r. log_clean env (goal_id g) (goal_log g) r"
  proof (induction rule: goal_reachable.induct)
    case (created g)
    then show ?case using empty_clean by (auto simp: goal_log_def normalizeAssignmentControlPlane_def)
  next
    case (appended g now e a)
    then obtain r where r: "log_clean env (goal_id g) (goal_log g) r" by blast
    have "goal_id (ar_goal a) = goal_id g"
      using appended.hyps(2) by (auto simp: appendAssignmentEvent_def Let_def kbind_Inr_iff goal_after_fields)
    with appended.hyps(2) r show ?case by (elim store_append_cases) auto
  next
    case (touched g h)
    then show ?case by (simp add: goal_log_def)
  qed
  then obtain r where "log_clean env (goal_id g) (goal_log g) r" ..
  with that show thesis by (simp add: goal_projection_def log_clean_def)
qed

section \<open>Deadlines and cancellation resolve nothing\<close>

text \<open>Unknown effects stay unknown.\<close>

definition unknown_kept :: "projection \<Rightarrow> projection \<Rightarrow> bool" where
  "unknown_kept p q \<longleftrightarrow> (\<forall>i a. find_attempt p i = Some a \<and> eff_state (att_effect a) = UnknownEffect \<longrightarrow>
     (\<exists>b. find_attempt q i = Some b \<and> eff_state (att_effect b) = UnknownEffect))"

text \<open>The events of the barrier that touch an attempt.\<close>

definition weak_event :: "event_kind \<Rightarrow> json_object \<Rightarrow> bool" where
  "weak_event k d \<longleftrightarrow> k \<in> {LeaseRecorded, AttemptTerminal} \<or> k = EffectRecorded
     \<and> (\<exists>x. authority_of (data_field d ''effect_authority'') = Some x \<and> effectAuthorityRank x < 4)"

lemma authority_of_text [simp]: "authority_of (JStr (authority_text x)) = Some x"
  by (cases x) (simp_all add: authority_of_def literal_of_def AUTHORITIES_def)

lemma find_update_other: "i \<noteq> k \<Longrightarrow> (\<And>a. att_id (f a) = att_id a) \<Longrightarrow>
    find (\<lambda>a. att_id a = i) (update_first k f xs) = find (\<lambda>a. att_id a = i) xs"
  by (induction xs) auto

lemma set_attempt_find:
  assumes "find_attempt p (att_id b) = Some a"
  shows "find_attempt (set_attempt b p) i = (if i = att_id b then Some b else find_attempt p i)"
proof -
  have other: "i \<noteq> att_id b \<Longrightarrow> find (\<lambda>a. att_id a = i) (update_first (att_id b) (\<lambda>_. b) xs) = find (\<lambda>a. att_id a = i) xs" for xs
    by (induction xs) auto
  show ?thesis
    using assms find_replaced [of "att_id b" "proj_attempts p" a b] other
    by (simp add: find_attempt_def set_attempt_def)
qed

lemma unknown_kept_refl [simp]: "unknown_kept p p"
  by (simp add: unknown_kept_def)

lemma unknown_kept_trans: "unknown_kept p q \<Longrightarrow> unknown_kept q r \<Longrightarrow> unknown_kept p r"
  unfolding unknown_kept_def by metis

lemma unknown_kept_set:
  assumes "find_attempt p (att_id b) = Some a" "eff_state (att_effect a) = UnknownEffect \<Longrightarrow> eff_state (att_effect b) = UnknownEffect"
  shows "unknown_kept p (set_attempt b p)"
  using assms by (auto simp: unknown_kept_def set_attempt_find)

lemma unknown_kept_frame: "unknown_kept p q \<Longrightarrow> proj_attempts q' = proj_attempts q \<Longrightarrow> unknown_kept p q'"
  by (simp add: unknown_kept_def find_attempt_def)

lemma weak_effect:
  assumes "applyEffect a d = Inr b" "authority_of (data_field d ''effect_authority'') = Some x" "effectAuthorityRank x < 4"
    "eff_state (att_effect a) = UnknownEffect"
  shows "eff_state (att_effect b) = UnknownEffect"
  using applyEffect_moves [OF assms(1)] assms by (auto simp: effect_moves_def elim!: applyEffect_cases)

lemma weak_attempt_event:
  assumes "apply_attempt_event p e d a k = Inr (Some q)" "weak_event k d" "find_attempt p (att_id a) = Some a"
  shows "unknown_kept p q"
proof -
  have kept: "unknown_kept p q" if "changed p r = Inr (Some q)" "\<And>b. r = Inr b \<Longrightarrow> att_id b = att_id a \<and> att_effect b = att_effect a" for r
    using that assms(3) unknown_kept_set by (auto simp: changed_def kbind_Inr_iff)
  have effect: "unknown_kept p q" if rec: "effectRecorded p e d a = Inr (Some q)"
    and x: "authority_of (data_field d ''effect_authority'') = Some x" "effectAuthorityRank x < 4" for x
  proof -
    obtain b where b: "applyEffect a d = Inr b" "proj_attempts q = proj_attempts (set_attempt (note_effect (aev_occurred_at e) d b) p)"
      using rec by (auto simp: effectRecorded_def kbind_Inr_iff)
    let ?c = "note_effect (aev_occurred_at e) d b"
    have "att_id ?c = att_id b" "att_effect ?c = att_effect b" by (simp_all add: note_effect_def Let_def settle_lease_def)
    moreover have "att_id b = att_id a" using opening_fields(1) [OF applyEffect_static(1) [OF b(1)]] .
    ultimately have "unknown_kept p (set_attempt ?c p)"
      using weak_effect [OF b(1) x] assms(3) by (intro unknown_kept_set [of p ?c a]) simp_all
    then show ?thesis using b(2) by (rule unknown_kept_frame)
  qed
  from assms(2) consider "k = LeaseRecorded" | "k = AttemptTerminal"
    | x where "k = EffectRecorded" "authority_of (data_field d ''effect_authority'') = Some x" "effectAuthorityRank x < 4"
    by (auto simp: weak_event_def)
  then show ?thesis
  proof cases
    case 1
    have "att_id b = att_id a \<and> att_effect b = att_effect a" if "leaseRecorded e d a = Inr b" for b
      using that by (auto simp: leaseRecorded_def Let_def settle_lease_def split: option.splits)
    then show ?thesis using assms(1) 1 by (intro kept [of "leaseRecorded e d a"]) simp_all
  next
    case 2
    have "att_id b = att_id a \<and> att_effect b = att_effect a" if "attemptTerminal e d a = Inr b" for b
      using that by (auto simp: attemptTerminal_def settle_lease_def guard_Inr_iff)
    then show ?thesis using assms(1) 2 by (intro kept [of "attemptTerminal e d a"]) simp_all
  next
    case 3
    then show ?thesis using assms(1) effect by simp
  qed
qed

lemma weak_event_keeps:
  assumes "applyAcceptedEvent env p e = Inr (Some q)" "weak_event (aev_kind e) (jrow (aev_data e))"
  shows "unknown_kept p q"
proof -
  let ?d = "jrow (aev_data e)"
  have "apply_to_attempt p e ?d = Inr (Some q)"
    using assms by (auto simp: applyAcceptedEvent_def Let_def weak_event_def)
  then obtain a where a: "attemptFor p e = Some a"
      "apply_attempt_event (set_attempt (a\<lparr>att_updated_at := aev_occurred_at e\<rparr>) p) e ?d (a\<lparr>att_updated_at := aev_occurred_at e\<rparr>) (aev_kind e)
        = Inr (Some q)"
    by (auto simp: apply_to_attempt_def Let_def split: option.splits)
  then have f: "find_attempt p (att_id a) = Some a"
    using find_attempt_id by (fastforce simp: attemptFor_def split: if_splits)
  let ?a = "a\<lparr>att_updated_at := aev_occurred_at e\<rparr>"
  have "unknown_kept p (set_attempt ?a p)" by (rule unknown_kept_set [of p ?a a]) (simp_all add: f)
  moreover have "find_attempt (set_attempt ?a p) (att_id ?a) = Some ?a" using set_attempt_find [of p ?a a] f by simp
  ultimately show ?thesis using weak_attempt_event [OF a(2) assms(2)] unknown_kept_trans by blast
qed

text \<open>A goal with its projection, and what a loop of the barrier does to it.\<close>

definition barrier_step :: "kernel_env \<Rightarrow> goal \<times> projection \<Rightarrow> goal \<times> projection \<Rightarrow> bool" where
  "barrier_step env s t \<longleftrightarrow> (goal_reachable env (fst s) \<and> goal_projection env (fst s) = Inr (snd s) \<longrightarrow>
     goal_reachable env (fst t) \<and> goal_projection env (fst t) = Inr (snd t) \<and> unknown_kept (snd s) (snd t))"

lemma barrier_step_refl: "barrier_step env s s"
  by (simp add: barrier_step_def)

lemma barrier_step_trans: "barrier_step env s t \<Longrightarrow> barrier_step env t u \<Longrightarrow> barrier_step env s u"
  unfolding barrier_step_def using unknown_kept_trans by blast

lemma barrier_append_step:
  assumes "barrier_append env now i k d s = Inr t" "weak_event k d"
  shows "barrier_step env s t"
  unfolding barrier_step_def
proof
  let ?e = "barrier_event env (snd s) (Some i) k d now"
  assume g: "goal_reachable env (fst s) \<and> goal_projection env (fst s) = Inr (snd s)"
  obtain a where a: "appendAssignmentEvent env (fst s) now ?e = Inr a" "t = (ar_goal a, ar_projection a)"
    using assms(1) by (auto simp: barrier_append_def kbind_Inr_iff)
  have reach: "goal_reachable env (ar_goal a)" using g a(1) goal_reachable.appended by blast
  have proj: "goal_projection env (ar_goal a) = Inr (ar_projection a)"
    using a(1) by (auto simp: appendAssignmentEvent_def Let_def kbind_Inr_iff)
  obtain r where r: "log_clean env (goal_id (fst s)) (goal_log (fst s)) r" "goal_projection env (fst s) = Inr (red_projection r)"
    using reachable_clean g by blast
  have "unknown_kept (red_projection r) (ar_projection a)"
    using a(1) r(1)
  proof (cases rule: store_append_cases)
    case (accepted p q)
    have "unknown_kept (red_projection r) p"
      by (rule weak_event_keeps [OF accepted(3)]) (use assms(2) in \<open>simp add: barrier_event_def\<close>)
    then show ?thesis using accepted(4,6) by (auto intro: unknown_kept_frame simp: take_in_def)
  qed simp_all
  with reach proj a(2) r(2) g show "goal_reachable env (fst t) \<and> goal_projection env (fst t) = Inr (snd t) \<and> unknown_kept (snd s) (snd t)"
    by simp
qed

lemma for_each_step: "for_each f xs s = Inr t \<Longrightarrow> (\<And>x u v. f x u = Inr v \<Longrightarrow> barrier_step env u v) \<Longrightarrow> barrier_step env s t"
proof (induction xs arbitrary: s)
  case (Cons x xs)
  then obtain u where "f x s = Inr u" "for_each f xs u = Inr t" by (auto simp only: for_each.simps kbind_Inr_iff)
  with Cons show ?case using barrier_step_trans by metis
qed (simp add: barrier_step_refl)

lemma expiry_weak: "effectAuthorityRank x < 4 \<Longrightarrow> weak_event EffectRecorded (expiry_effect state x reason a)"
  by (simp add: weak_event_def expiry_effect_def data_field_def)

lemma settle_expired_step: "settle_expired env now a s = Inr t \<Longrightarrow> barrier_step env s t"
  by (auto simp: settle_expired_def Let_def kbind_Inr_iff weak_event_def split: if_splits
      intro!: barrier_step_trans [OF barrier_append_step barrier_append_step] expiry_weak)

lemma cancel_pending_step: "cancel_pending env now a s = Inr t \<Longrightarrow> barrier_step env s t"
  by (auto simp: cancel_pending_def kbind_Inr_iff split: if_splits
      intro!: barrier_step_refl barrier_step_trans [OF barrier_append_step barrier_append_step])
     (simp_all add: weak_event_def data_field_def authority_of_def literal_of_def AUTHORITIES_def)

lemma barrier_operations:
  assumes "goal_reachable env g" "goal_projection env g = Inr p"
    "settleAssignmentExpiredWork env g now = Inr (h, q) \<or> cancelAssignmentInFlight env g now = Inr ((h, q), pending)"
  shows "goal_reachable env h \<and> goal_projection env h = Inr q \<and> unknown_kept p q"
proof -
  have "barrier_step env (g, p) (h, q)"
    using assms(2,3)
    by (auto simp: settleAssignmentExpiredWork_def cancelAssignmentInFlight_def kbind_Inr_iff barrier_step_refl
        intro: for_each_step settle_expired_step cancel_pending_step split: if_splits)
  with assms(1,2) show ?thesis by (simp add: barrier_step_def)
qed

end
