(* ===== verification/ControlPlaneProperties.thy ===== *)
theory ControlPlaneProperties
  imports ControlPlaneStore Samples
begin

text \<open>
  Properties of every reduction of the first control plane, with two sample logs: an apply whose effect is reconciled,
  repeated and verified, and a completed read.
\<close>

section \<open>Sample logs\<close>

definition stored_event :: "nat \<Rightarrow> event_kind \<Rightarrow> string option \<Rightarrow> string \<Rightarrow> (string \<times> json) list \<Rightarrow> attempt_event" where
  "stored_event n k i actor d = \<lparr>aev_schema = ASSIGNMENT_ATTEMPT_EVENT_SCHEMA, aev_id = replicate n (CHR ''e''),
     aev_assignment_id = ''a1'', aev_run_id = ''r1'', aev_generation = 1, aev_attempt_id = i, aev_kind = k,
     aev_occurred_at = ''t'', aev_actor = actor, aev_data = JObj d\<rparr>"

definition opening_data :: "string \<Rightarrow> string \<Rightarrow> (string \<times> json) list \<Rightarrow> (string \<times> json) list" where
  "opening_data purpose effect rest = rest @ [(''purpose'', JStr purpose), (''requested_effect'', JStr effect),
     (''action_signature'', JStr ''s''), (''target_fingerprint'', JStr ''t''), (''deadline_at'', JStr ''2026-01-01T00:04:00Z'')]"

definition apply_log :: "attempt_event list" where
  "apply_log =
    [stored_event 1 RunStartedEvent None ''w'' [(''requested_effect'', JStr ''apply'')],
     stored_event 2 AttemptOpened (Some ''o1'') ''w'' (opening_data ''action'' ''apply'' []),
     stored_event 3 DispatchRecorded (Some ''o1'') ''w'' [(''dispatch_state'', JStr ''dispatched'')],
     stored_event 4 AttemptOpened (Some ''o2'') ''w''
       (opening_data ''reconciliation'' ''read'' [(''reconciliation_of_attempt_id'', JStr ''o1'')]),
     stored_event 5 ReconciliationResolved (Some ''o2'') ''w'' [(''effect_state'', JStr ''none'')],
     stored_event 6 AttemptOpened (Some ''o3'') ''w'' (opening_data ''action'' ''apply''
       [(''retry_of_attempt_id'', JStr ''o1''), (''retry_delta'', JStr ''reconciliation_none'')]),
     stored_event 7 DispatchRecorded (Some ''o3'') ''w'' [(''dispatch_state'', JStr ''acknowledged'')],
     stored_event 8 EffectRecorded (Some ''o3'') ''w'' [(''effect_state'', JStr ''applied''),
       (''effect_authority'', JStr ''native_transaction''), (''receipt_refs'', JArr [JStr ''n''])],
     stored_event 9 AttemptOpened (Some ''o4'') ''w''
       (opening_data ''verification'' ''read'' [(''reconciliation_of_attempt_id'', JStr ''o3'')]),
     stored_event 10 VerificationRecorded (Some ''o4'') ''w'' [(''verification_state'', JStr ''passed'')]]"

definition read_log :: "attempt_event list" where
  "read_log =
    [stored_event 1 RunStartedEvent None ''w'' [(''requested_effect'', JStr ''read'')],
     stored_event 2 AttemptOpened (Some ''o1'') ''w'' (opening_data ''action'' ''read'' []),
     stored_event 3 AdmissionRecorded (Some ''o1'') ''w'' [(''admission_state'', JStr ''admitted'')],
     stored_event 4 DispatchRecorded (Some ''o1'') ''w'' [(''dispatch_state'', JStr ''acknowledged'')],
     stored_event 5 EffectRecorded (Some ''o1'') ''w'' [(''effect_state'', JStr ''none''),
       (''effect_authority'', JStr ''native_host''), (''receipt_refs'', JArr [JStr ''n'']), (''evidence_refs'', JArr [JStr ''x''])],
     stored_event 6 ReadCompletionClaimed None ''w'' [(''claim_id'', JStr ''c'')],
     stored_event 7 ReadCompletionValidated None ''canonical_read_completion_validator''
       [(''claim_id'', JStr ''c''), (''accepted'', JBool True), (''supporting_attempt_ids'', JArr [JStr ''o1''])],
     stored_event 8 AssignmentTerminalEvent None ''w''
       [(''terminal_state'', JStr ''complete''), (''reason'', JStr ''authoritative_read_completed'')]]"

definition log_check :: "attempt_event list \<Rightarrow> (reduction \<Rightarrow> bool) \<Rightarrow> bool" where
  "log_check es P = (case reduceAssignmentControlPlane sample_env ''a1'' es of Inl e \<Rightarrow> False | Inr r \<Rightarrow> P r)"

definition attempt_is :: "reduction \<Rightarrow> string \<Rightarrow> (attempt \<Rightarrow> bool) \<Rightarrow> bool" where
  "attempt_is r i P = (case find_attempt (red_projection r) i of None \<Rightarrow> False | Some a \<Rightarrow> P a)"

text \<open>A goal built by appending the events of a log.\<close>

fun append_all :: "kernel_env \<Rightarrow> attempt_event list \<Rightarrow> goal \<Rightarrow> kernel_error + goal" where
  "append_all env [] g = Inr g"
| "append_all env (e # es) g = kbind (appendAssignmentEvent env g (aev_occurred_at e) e) (\<lambda>r. append_all env es (ar_goal r))"

lemma append_all_reachable: "append_all env es g = Inr h \<Longrightarrow> goal_reachable env g \<Longrightarrow> goal_reachable env h"
  by (induction es arbitrary: g) (auto simp: kbind_Inr_iff intro: goal_reachable.appended)

definition sample_goal :: goal where
  "sample_goal = \<lparr>goal_id = ''a1'', goal_status = GoalActive, goal_current_phase = None, goal_current_step = None,
     goal_finished_at = None, goal_progress_summary = [], goal_blocker = None, goal_error = None, goal_requested_effect = JNull,
     goal_control_plane = None\<rparr>"

definition goal_check :: "kernel_env \<Rightarrow> attempt_event list \<Rightarrow> (goal \<Rightarrow> bool) \<Rightarrow> bool" where
  "goal_check env es P = (case append_all env es sample_goal of Inl e \<Rightarrow> False | Inr g \<Rightarrow> P g)"

lemma goal_checkD:
  assumes "goal_check env es P"
  obtains g where "goal_reachable env g" "P g"
proof -
  have "goal_reachable env sample_goal" by (rule goal_reachable.created) (simp add: sample_goal_def)
  moreover from assms obtain g where g: "append_all env es sample_goal = Inr g" "P g"
    by (auto simp: goal_check_def split: sum.splits)
  ultimately have "goal_reachable env g" using append_all_reachable by blast
  then show thesis using g(2) by (rule that)
qed

text \<open>With a shorter digest; the deadline of the dispatched attempt is one millisecond later.\<close>

definition short_env :: kernel_env where
  "short_env = sample_env\<lparr>sha256 := (\<lambda>t. nat_digits (length t))\<rparr>"

definition expires :: "goal \<Rightarrow> bool" where
  "expires g \<longleftrightarrow> (case goal_projection short_env g of Inl e \<Rightarrow> False | Inr p \<Rightarrow>
     (case find_attempt p ''o1'' of None \<Rightarrow> False | Some a \<Rightarrow> eff_state (att_effect a) = UnknownEffect \<and>
       (case settleAssignmentExpiredWork short_env g 1767225839999 of Inl e \<Rightarrow> False | Inr (h, q) \<Rightarrow> \<not> proj_quiescent q)))"

lemma log_checkD:
  assumes "log_check es P"
  obtains r where "reduceAssignmentControlPlane sample_env ''a1'' es = Inr r" "P r"
  using assms by (auto simp: log_check_def split: sum.splits)

text \<open>One run of a log, with a check of the reduction after each event.\<close>

fun checked_run :: "reduction \<Rightarrow> attempt_event list \<Rightarrow> (reduction \<Rightarrow> bool) list \<Rightarrow> bool" where
  "checked_run r (e # es) (P # Ps) =
     (case reduce_event sample_env r e of Inl _ \<Rightarrow> False | Inr q \<Rightarrow> P q \<and> checked_run q es Ps)"
| "checked_run r es Ps = True"

lemma checked_run_reduces:
  assumes "checked_run r es Ps" "k < length es" "k < length Ps"
  shows "\<exists>q. reduce_events sample_env r (take (Suc k) es) = Inr q \<and> (Ps ! k) q"
  using assms
proof (induction r es Ps arbitrary: k rule: checked_run.induct)
  case (1 r e es P Ps)
  then obtain q where "reduce_event sample_env r e = Inr q" "P q" "checked_run q es Ps"
    by (auto split: sum.splits)
  with 1 show ?case by (cases k) simp_all
qed simp_all

lemma checked_prefix:
  assumes "checked_run (initial_reduction ''a1'') es Ps" "k < length es" "k < length Ps"
  shows "log_check (take (Suc k) es) (Ps ! k)"
  using checked_run_reduces [OF assms] by (auto simp: log_check_def reduceAssignmentControlPlane_def)

definition settled_checks :: "(reduction \<Rightarrow> bool) list" where
  "settled_checks =
    (replicate 10 (\<lambda>r. True))
      [2 := (\<lambda>r. attempt_is r ''o1'' (\<lambda>a. eff_state (att_effect a) = UnknownEffect \<and> unresolved_unknown a
          \<and> att_purpose a = ActionAttempt) \<and> red_rejected r = [] \<and> \<not> attempt_is r ''o2'' (\<lambda>a. True)),
       3 := (\<lambda>r. attempt_is r ''o2'' (\<lambda>a. att_purpose a = ReconciliationAttempt) \<and> red_rejected r = []),
       9 := (\<lambda>r. proj_terminal_state (red_projection r) = TerminalVerified \<and> red_rejected r = []
          \<and> attempt_is r ''o1'' (\<lambda>a. eff_state (att_effect a) = NoEffect)
          \<and> attempt_is r ''o3'' (\<lambda>a. eff_state (att_effect a) = AppliedEffect)
          \<and> list_all2 (\<lambda>a (i, x, s, t). att_id a = i \<and> att_requested_effect a = x
                \<and> att_action_signature a = s \<and> att_target_fingerprint a = t) (proj_attempts (red_projection r))
              [(''o1'', ApplyEffect, ''s'', ''t''), (''o2'', ReadEffect, ''s'', ''t''), (''o3'', ApplyEffect, ''s'', ''t''),
               (''o4'', ReadEffect, ''s'', ''t'')])]"

text \<open>While the effect of the first attempt is unknown: an apply on another target, under the label of a reconciliation.\<close>

definition unrelated_apply :: attempt_event where
  "unrelated_apply = stored_event 4 AttemptOpened (Some ''o2'') ''w'' [(''purpose'', JStr ''reconciliation''),
     (''requested_effect'', JStr ''apply''), (''action_signature'', JStr ''s''), (''target_fingerprint'', JStr ''other''),
     (''deadline_at'', JStr ''2026-01-01T00:04:00Z'')]"

text \<open>All sample runs are evaluated in one proof, which prepares the code equations once.\<close>

lemma control_runs:
  "checked_run (initial_reduction ''a1'') apply_log settled_checks"
  "log_check read_log (\<lambda>r. proj_terminal_state (red_projection r) = TerminalComplete \<and> red_rejected r = []
     \<and> proj_terminal_reason (red_projection r) = Some ''authoritative_read_completed''
     \<and> rdc_attempt_ids (proj_read_completion (red_projection r)) = [''o1''])"
  "goal_check sample_env [apply_log ! 0, apply_log ! 7] (\<lambda>g. map aev_id (log_events (goal_log g)) = [''e'']
     \<and> map (\<lambda>q. aev_id (fst q)) (log_quarantined (goal_log g)) = [''eeeeeeee''])"
  "(case goal_projection sample_env sample_goal of Inl e \<Rightarrow> False | Inr p \<Rightarrow>
     (case appendAssignmentEvent sample_env sample_goal ''t'' (apply_log ! 0) of Inl e \<Rightarrow> False
      | Inr a \<Rightarrow> ar_accepted a \<and> log_events (goal_log sample_goal) = []))"
  "goal_check short_env (take 3 apply_log) expires"
  "log_check (take 3 apply_log @ [unrelated_apply]) (\<lambda>r. red_rejected r = [] \<and> list_ex unresolved_unknown (proj_attempts (red_projection r))
     \<and> attempt_is r ''o2'' (\<lambda>b. att_purpose b = ReconciliationAttempt \<and> att_requested_effect b = ApplyEffect
         \<and> att_target_fingerprint b = ''other'' \<and> att_reconciliation_of b = None))"
  by code_simp+

lemmas apply_log_run = control_runs(1)
lemmas read_log_complete = control_runs(2)
lemmas stored_run = control_runs(3)
lemmas append_run = control_runs(4)
lemmas expired_run = control_runs(5)
lemmas unrelated_apply_run = control_runs(6)

lemma apply_log_checks:
  "k < 10 \<Longrightarrow> log_check (take (Suc k) apply_log) (settled_checks ! k)"
  using checked_prefix [OF apply_log_run, of k] by (simp add: apply_log_def settled_checks_def)

lemmas apply_log_dispatched = apply_log_checks [of 2, simplified settled_checks_def, simplified]
lemmas apply_log_reconciling = apply_log_checks [of 3, simplified settled_checks_def, simplified]

lemma whole_apply_log: "take 10 apply_log = apply_log"
  by (simp add: apply_log_def)

lemmas apply_log_verified = apply_log_checks [of 9, simplified settled_checks_def, simplified, unfolded whole_apply_log]

lemma attempt_isD:
  assumes "attempt_is r i P"
  obtains a where "a \<in> set (proj_attempts (red_projection r))" "att_id a = i" "find_attempt (red_projection r) i = Some a" "P a"
proof -
  from assms obtain a where a: "find_attempt (red_projection r) i = Some a" "P a"
    by (auto simp: attempt_is_def split: option.splits)
  then have "a \<in> set (proj_attempts (red_projection r))" by (auto simp: find_attempt_def find_Some_iff)
  with a find_attempt_id [OF a(1)] that show thesis by blast
qed

section \<open>Attempts\<close>

text \<open>C17: The effect of an attempt that reconciles no other only settles: from any point of a log to a later one an applied
  effect stays applied, an unknown one is resolved by native settlement or verification only, and a state of authoritative
  rank never changes. Every attempt keeps what it was opened with and its receipts and evidence, and an ended one keeps its
  admission and dispatch. The effect of an attempt opened as a reconciliation is overwritten when it resolves another.\<close>

theorem attempts_only_settle:
  assumes "reduceAssignmentControlPlane env i es = Inr r" "reduceAssignmentControlPlane env i (es @ fs) = Inr q"
    "a \<in> set (proj_attempts (red_projection r))"
  shows "\<exists>b. find_attempt (red_projection q) (att_id a) = Some b
    \<and> attempt_opening.truncate b = attempt_opening.truncate a
    \<and> set (att_receipt_refs a) \<subseteq> set (att_receipt_refs b) \<and> set (att_evidence_refs a) \<subseteq> set (att_evidence_refs b)
    \<and> (att_terminal_state a \<noteq> AttemptActive \<longrightarrow> att_terminal_state b \<noteq> AttemptActive
         \<and> att_admission b = att_admission a \<and> att_dispatch b = att_dispatch a)
    \<and> (att_purpose a \<noteq> ReconciliationAttempt \<longrightarrow>
         (eff_state (att_effect a) = AppliedEffect \<longrightarrow> eff_state (att_effect b) = AppliedEffect)
         \<and> (eff_state (att_effect a) = UnknownEffect \<and> eff_state (att_effect b) \<noteq> UnknownEffect \<longrightarrow>
              4 \<le> effectAuthorityRank (eff_authority (att_effect b)))
         \<and> (4 \<le> effectAuthorityRank (eff_authority (att_effect a)) \<longrightarrow> eff_state (att_effect b) = eff_state (att_effect a)))"
proof -
  have "attempts_advance (proj_attempts (red_projection r)) (proj_attempts (red_projection q))"
    using reduced_later [OF assms(1,2)] by (simp add: red_later_def)
  then obtain b where b: "find_attempt (red_projection q) (att_id a) = Some b" "attempt_step a b"
    using advance_find reduced_attempt(2) [OF assms(1,3)] unfolding find_attempt_def by blast
  then have adv: "attempt_advances a b" by (simp add: attempt_step_def)
  then have "att_purpose a \<noteq> ReconciliationAttempt \<Longrightarrow> effect_moves (att_effect a) (att_effect b)"
    by (simp add: attempt_advances_def)
  then show ?thesis
    using b(1) adv by (intro exI [of _ b]) (auto simp: attempt_advances_def effect_moves_def)
qed

theorem attempts_only_settle_witness:
  "\<exists>r q a b. reduceAssignmentControlPlane sample_env ''a1'' (take 3 apply_log) = Inr r
     \<and> reduceAssignmentControlPlane sample_env ''a1'' (take 3 apply_log @ drop 3 apply_log) = Inr q
     \<and> find_attempt (red_projection r) ''o1'' = Some a \<and> eff_state (att_effect a) = UnknownEffect
     \<and> find_attempt (red_projection q) ''o1'' = Some b \<and> eff_state (att_effect b) = NoEffect
     \<and> 4 \<le> effectAuthorityRank (eff_authority (att_effect b))"
proof -
  obtain r a where r: "reduceAssignmentControlPlane sample_env ''a1'' (take 3 apply_log) = Inr r"
      "a \<in> set (proj_attempts (red_projection r))" "att_id a = ''o1''" "find_attempt (red_projection r) ''o1'' = Some a"
      "eff_state (att_effect a) = UnknownEffect" "att_purpose a = ActionAttempt"
    using apply_log_dispatched by (elim log_checkD conjE attempt_isD) blast
  obtain q b where q: "reduceAssignmentControlPlane sample_env ''a1'' (take 3 apply_log @ drop 3 apply_log) = Inr q"
      "find_attempt (red_projection q) ''o1'' = Some b" "eff_state (att_effect b) = NoEffect"
    using apply_log_verified unfolding append_take_drop_id by (elim log_checkD conjE attempt_isD) blast
  from attempts_only_settle [OF r(1) q(1) r(2)] r(3,5,6) q(2,3)
  have "4 \<le> effectAuthorityRank (eff_authority (att_effect b))" by auto
  with r q show ?thesis by blast
qed

text \<open>C16: An applied attempt is proven: in every reduction the attempts have distinct identities, an attempt with an applied
  effect asked for one and is authorised by a native transaction, a native receipt or a reading of the target, and no
  effect rests on the prose of the assistant.\<close>

theorem applied_attempt_is_proven:
  assumes "reduceAssignmentControlPlane env i es = Inr r"
  shows "distinct (map att_id (proj_attempts (red_projection r)))
    \<and> (\<forall>a \<in> set (proj_attempts (red_projection r)). eff_authority (att_effect a) \<noteq> AssistantProse
         \<and> (eff_state (att_effect a) = AppliedEffect \<longrightarrow> att_requested_effect a = ApplyEffect
              \<and> eff_authority (att_effect a) \<in> {NativeTransaction, NativeReceipt, TargetReadback}))"
  using reduced_ok [OF assms] reduced_attempt(1) [OF assms] by (simp add: red_ok_def proj_wf_def attempt_ok_def)

theorem applied_attempt_is_proven_witness:
  "\<exists>r a. reduceAssignmentControlPlane sample_env ''a1'' apply_log = Inr r \<and> a \<in> set (proj_attempts (red_projection r))
     \<and> eff_state (att_effect a) = AppliedEffect \<and> eff_authority (att_effect a) \<in> {NativeTransaction, NativeReceipt, TargetReadback}"
proof -
  obtain r a where r: "reduceAssignmentControlPlane sample_env ''a1'' apply_log = Inr r"
      "a \<in> set (proj_attempts (red_projection r))" "eff_state (att_effect a) = AppliedEffect"
    using apply_log_verified by (elim log_checkD conjE attempt_isD) blast
  with applied_attempt_is_proven [OF r(1)] show ?thesis by blast
qed

lemma reduced_derived:
  assumes "reduceAssignmentControlPlane env i es = Inr r"
  shows "proj_unresolved_unknown_attempt_ids (red_projection r) =
      map att_id (filter unresolved_unknown (proj_attempts (red_projection r)))"
    "proj_in_flight_attempt_ids (red_projection r) = map att_id (in_flight_attempts (red_projection r))"
    "proj_quiescent (red_projection r) \<longleftrightarrow> in_flight_attempts (red_projection r) = []"
    "proj_apply_opportunity_consumed (red_projection r) \<longleftrightarrow>
      list_ex (\<lambda>a. att_requested_effect a = ApplyEffect \<and> eff_state (att_effect a) \<in> {UnknownEffect, AppliedEffect})
        (proj_attempts (red_projection r))"
proof -
  have e: "refreshDerived (red_projection r) = red_projection r" using reduced_ok [OF assms] by (simp add: red_ok_def)
  from arg_cong [OF e, of proj_unresolved_unknown_attempt_ids] arg_cong [OF e, of proj_in_flight_attempt_ids]
    arg_cong [OF e, of proj_quiescent] arg_cong [OF e, of proj_apply_opportunity_consumed]
  show "proj_unresolved_unknown_attempt_ids (red_projection r) =
      map att_id (filter unresolved_unknown (proj_attempts (red_projection r)))"
    "proj_in_flight_attempt_ids (red_projection r) = map att_id (in_flight_attempts (red_projection r))"
    "proj_quiescent (red_projection r) \<longleftrightarrow> in_flight_attempts (red_projection r) = []"
    "proj_apply_opportunity_consumed (red_projection r) \<longleftrightarrow>
      list_ex (\<lambda>a. att_requested_effect a = ApplyEffect \<and> eff_state (att_effect a) \<in> {UnknownEffect, AppliedEffect})
        (proj_attempts (red_projection r))"
    by (simp_all add: refreshDerived_def Let_def)
qed

lemma find_rev_Some:
  assumes "find P (rev us) = Some x"
  obtains xs ys where "us = xs @ x # ys" "P x" "\<forall>y \<in> set ys. \<not> P y"
  using assms
proof (induction us arbitrary: thesis rule: rev_induct)
  case (snoc u us)
  show ?case
  proof (cases "P u")
    case True
    with snoc.prems show ?thesis by auto
  next
    case False
    with snoc.prems(2) have "find P (rev us) = Some x" by simp
    from snoc.IH [OF _ this] obtain xs ys where k: "us = xs @ x # ys" "P x" "\<forall>y \<in> set ys. \<not> P y" by blast
    show ?thesis by (rule snoc.prems(1) [of xs "ys @ [u]"]) (use k False in auto)
  qed
qed simp

text \<open>The attempts a single event adds.\<close>

lemma opened_by:
  assumes "reduceAssignmentControlPlane env i es = Inr r" "reduceAssignmentControlPlane env i (es @ [e]) = Inr q"
    "b \<in> set (proj_attempts (red_projection q))" "att_id b \<notin> att_id ` set (proj_attempts (red_projection r))"
  obtains p where "rejectReason (red_projection r) e = None" "attemptOpened (red_projection r) e (jrow (aev_data e)) = Inr (Some p)"
    "proj_attempts (red_projection q) = proj_attempts p"
proof -
  have e: "reduce_event env r e = Inr q" using reduced_snoc [OF assms(1)] assms(2) by simp
  then show thesis
  proof (cases rule: reduce_event_cases)
    case (taken p)
    have q: "proj_attempts (red_projection q) = proj_attempts p" using taken(4) by (simp add: take_in_def)
    show thesis
    proof (cases "aev_kind e = AttemptOpened")
      case True
      then show thesis using taken(2,3) q that by (simp add: applyAcceptedEvent_def Let_def)
    next
      case False
      then have "map att_id (proj_attempts p) = map att_id (proj_attempts (red_projection r))"
        using in_place_event [OF taken(2,3)] in_place_ids by blast
      with assms(3,4) q show thesis by (metis image_eqI list.set_map)
    qed
  qed (use assms(3,4) in \<open>auto simp: set_aside_def\<close>)
qed

text \<open>C15: An unknown effect blocks: an attempt opens only in an assignment that is not ended and waits for no user input or
  review; while the effect of a preview or apply attempt is unknown its purpose is reconciliation, and after an applied effect
  it is verification, reconciliation or rollback. The purpose is a label: opening does not check which attempt is reconciled,
  nor the target, nor the effect asked for (\<open>reconciliation_opens_an_apply\<close>).\<close>

theorem unknown_effect_admits_only_reconciliation:
  assumes "reduceAssignmentControlPlane env i es = Inr r" "reduceAssignmentControlPlane env i (es @ [e]) = Inr q"
    "b \<in> set (proj_attempts (red_projection q))" "att_id b \<notin> att_id ` set (proj_attempts (red_projection r))"
  shows "proj_terminal_state (red_projection r) = TerminalOpen
    \<and> \<not> truthy (proj_pending_clarification_id (red_projection r)) \<and> \<not> truthy (proj_pending_review_id (red_projection r))
    \<and> (list_ex unresolved_unknown (proj_attempts (red_projection r)) \<longrightarrow> att_purpose b = ReconciliationAttempt)
    \<and> (list_ex (\<lambda>a. eff_state (att_effect a) = AppliedEffect) (proj_attempts (red_projection r)) \<longrightarrow>
         att_purpose b \<in> {VerificationAttempt, ReconciliationAttempt, RollbackAttempt})"
proof -
  let ?p = "red_projection r" and ?d = "jrow (aev_data e)"
  obtain p where p: "rejectReason ?p e = None" "attemptOpened ?p e ?d = Inr (Some p)"
      "proj_attempts (red_projection q) = proj_attempts p"
    using opened_by [OF assms] .
  have wait: "\<not> truthy (proj_pending_clarification_id ?p)" "\<not> truthy (proj_pending_review_id ?p)"
    using p(2) by (auto simp: attemptOpened_def interaction_checks_def guard_Inr_iff first_failure_Cons_None)
  from p(2) obtain x t where o: "first_failure (opening_checks ?p e (attempt_purpose_of (data_field ?d ''purpose''))) = None"
      "p = add_attempt (opened_attempt ?p e ?d x t) ?p"
    by (rule attemptOpened_cases)
  have b: "b = opened_attempt ?p e ?d x t" using assms(3,4) p(3) o(2) by (auto simp: add_attempt_def)
  have u: "proj_unresolved_unknown_attempt_ids ?p = map att_id (filter unresolved_unknown (proj_attempts ?p))"
    by (rule reduced_derived(1) [OF assms(1)])
  show ?thesis
    using o(1) wait fenced(1) [OF p(1)] u
    by (auto simp: b opened_attempt_def opening_checks_def Let_def first_failure_Cons_None list_ex_iff filter_empty_conv)
qed

theorem unknown_effect_admits_only_reconciliation_witness:
  "\<exists>r q b. reduceAssignmentControlPlane sample_env ''a1'' (take 3 apply_log) = Inr r
     \<and> list_ex unresolved_unknown (proj_attempts (red_projection r))
     \<and> reduceAssignmentControlPlane sample_env ''a1'' (take 3 apply_log @ [apply_log ! 3]) = Inr q
     \<and> b \<in> set (proj_attempts (red_projection q)) \<and> att_id b = ''o2'' \<and> att_purpose b = ReconciliationAttempt"
proof -
  obtain r a where r: "reduceAssignmentControlPlane sample_env ''a1'' (take 3 apply_log) = Inr r"
      "a \<in> set (proj_attempts (red_projection r))" "unresolved_unknown a" "\<not> attempt_is r ''o2'' (\<lambda>a. True)"
    using apply_log_dispatched by (elim log_checkD conjE attempt_isD) blast
  have four: "take 3 apply_log @ [apply_log ! 3] = take 4 apply_log"
    by (simp add: apply_log_def numeral_eq_Suc)
  obtain q b where q: "reduceAssignmentControlPlane sample_env ''a1'' (take 3 apply_log @ [apply_log ! 3]) = Inr q"
      "b \<in> set (proj_attempts (red_projection q))" "att_id b = ''o2''"
    using apply_log_reconciling unfolding four by (elim log_checkD conjE attempt_isD) blast
  have "\<not> (\<exists>a \<in> set (proj_attempts (red_projection r)). att_id a = ''o2'')"
    using r(4) by (auto simp: attempt_is_def find_attempt_def find_None_iff split: option.splits)
  then have "att_id b \<notin> att_id ` set (proj_attempts (red_projection r))" using q(3) by auto
  moreover have u: "list_ex unresolved_unknown (proj_attempts (red_projection r))" using r(2,3) by (auto simp: list_ex_iff)
  ultimately have "att_purpose b = ReconciliationAttempt"
    using unknown_effect_admits_only_reconciliation [OF r(1) q(1,2)] by blast
  with r q u show ?thesis by blast
qed

text \<open>The document admits only an exact-target, read-only reconciliation of an unknown attempt. The code admits an apply.\<close>

lemma reconciliation_opens_an_apply:
  "\<exists>r b. reduceAssignmentControlPlane sample_env ''a1'' (take 3 apply_log @ [unrelated_apply]) = Inr r \<and> red_rejected r = []
     \<and> list_ex unresolved_unknown (proj_attempts (red_projection r)) \<and> b \<in> set (proj_attempts (red_projection r))
     \<and> att_id b = ''o2'' \<and> att_requested_effect b = ApplyEffect \<and> att_reconciliation_of b = None"
  using unrelated_apply_run by (elim log_checkD conjE attempt_isD) blast

text \<open>C18: A repeated apply names its predecessor: an apply attempt whose action and target an earlier one of the log has
  names the latest such attempt as the one it retries, and a recognised reason why it may be tried again.\<close>

theorem repeated_apply_names_its_predecessor:
  assumes "reduceAssignmentControlPlane env i es = Inr r" "proj_attempts (red_projection r) = us @ a # vs"
    "att_requested_effect a = ApplyEffect" "c \<in> set us" "same_apply a c"
  shows "att_retry_delta a \<noteq> None
    \<and> (\<exists>xs prior ys. us = xs @ prior # ys \<and> same_apply a prior \<and> (\<forall>y \<in> set ys. \<not> same_apply a y)
         \<and> att_retry_of a = Some (att_id prior))"
proof -
  have "retries_named (proj_attempts (red_projection r))" using reduced_ok [OF assms(1)] by (simp add: red_ok_def proj_wf_def)
  then have "retry_named us a" using assms(2) by (simp add: retries_named_def)
  moreover obtain prior where prior: "find (same_apply a) (rev us) = Some prior"
    using assms(4,5) by (cases "find (same_apply a) (rev us)") (auto simp: find_None_iff)
  ultimately have named: "att_retry_of a = Some (att_id prior)" "att_retry_delta a \<noteq> None"
    using assms(3) by (simp_all add: retry_named_def)
  obtain xs ys where "us = xs @ prior # ys" "same_apply a prior" "\<forall>y \<in> set ys. \<not> same_apply a y"
    using find_rev_Some [OF prior] by blast
  with named show ?thesis by blast
qed

theorem repeated_apply_names_its_predecessor_witness:
  "\<exists>r a. reduceAssignmentControlPlane sample_env ''a1'' apply_log = Inr r \<and> a \<in> set (proj_attempts (red_projection r))
     \<and> att_id a = ''o3'' \<and> att_retry_delta a \<noteq> None"
proof -
  obtain r a1 a2 a3 a4 where r: "reduceAssignmentControlPlane sample_env ''a1'' apply_log = Inr r"
      "proj_attempts (red_projection r) = [a1, a2] @ a3 # [a4]" "att_requested_effect a3 = ApplyEffect"
      "same_apply a3 a1" "att_id a3 = ''o3''"
    using apply_log_verified
    by (elim log_checkD) (auto simp: list_all2_Cons2 same_apply_def)
  from repeated_apply_names_its_predecessor [OF r(1-3) _ r(4)] have "att_retry_delta a3 \<noteq> None" by simp
  with r show ?thesis by (intro exI [of _ r] exI [of _ a3]) simp
qed

section \<open>Events\<close>

lemma seen_events:
  assumes "reduceAssignmentControlPlane env i es = Inr r"
  shows "set (red_seen r) = aev_id ` set es"
  using assms
proof (induction es arbitrary: r rule: rev_induct)
  case Nil
  then show ?case by (auto simp: reduceAssignmentControlPlane_def initial_reduction_def)
next
  case (snoc e es)
  then obtain u where u: "reduceAssignmentControlPlane env i es = Inr u" "reduce_event env u e = Inr r"
    unfolding reduceAssignmentControlPlane_def by (auto simp: control.run_snoc kbind_Inr_iff)
  from u(2) snoc.IH [OF u(1)] show ?case
    by (cases rule: reduce_event_cases) (auto simp: set_aside_def take_in_def)
qed

text \<open>C23: Each event counts once: an event of the log is either accepted or set aside with its reason, never both and never
  twice, its repetition changes nothing, and after the end of the assignment no event changes the projection.\<close>

theorem each_event_counts_once:
  assumes "reduceAssignmentControlPlane env i es = Inr r"
  shows "distinct (red_accepted r @ map (aev_id \<circ> fst) (red_rejected r))
    \<and> set (red_accepted r @ map (aev_id \<circ> fst) (red_rejected r)) = aev_id ` set es
    \<and> (aev_id e \<in> aev_id ` set es \<longrightarrow> reduceAssignmentControlPlane env i (es @ [e]) = Inr r)
    \<and> (proj_terminal_state (red_projection r) \<noteq> TerminalOpen
         \<and> reduceAssignmentControlPlane env i (es @ fs) = Inr q \<longrightarrow> red_projection q = red_projection r)"
proof -
  have ok: "red_ok r" by (rule reduced_ok [OF assms])
  have set: "set (red_accepted r @ map (aev_id \<circ> fst) (red_rejected r)) = set (red_seen r)"
    using ok by (simp add: red_ok_def)
  have "length (red_accepted r @ map (aev_id \<circ> fst) (red_rejected r)) = card (set (red_seen r))"
    using ok distinct_card [of "red_seen r"] by (simp only: red_ok_def length_append length_map)
  then have "distinct (red_accepted r @ map (aev_id \<circ> fst) (red_rejected r))" using set by (metis card_distinct)
  moreover have "reduceAssignmentControlPlane env i (es @ [e]) = Inr r" if "aev_id e \<in> aev_id ` set es"
    using that seen_events [OF assms] by (simp add: reduced_snoc [OF assms] reduce_event_def)
  moreover have "red_projection q = red_projection r"
    if "proj_terminal_state (red_projection r) \<noteq> TerminalOpen" "reduceAssignmentControlPlane env i (es @ fs) = Inr q"
    using reduced_later [OF assms that(2)] that(1) by (simp add: red_later_def)
  ultimately show ?thesis using set seen_events [OF assms] by simp
qed

theorem each_event_counts_once_witness:
  "\<exists>r. reduceAssignmentControlPlane sample_env ''a1'' apply_log = Inr r
     \<and> proj_terminal_state (red_projection r) = TerminalVerified \<and> distinct (red_accepted r) \<and> red_rejected r = []"
proof -
  obtain r where r: "reduceAssignmentControlPlane sample_env ''a1'' apply_log = Inr r"
      "proj_terminal_state (red_projection r) = TerminalVerified" "red_rejected r = []"
    using apply_log_verified by (elim log_checkD conjE) blast
  with each_event_counts_once [OF r(1)] show ?thesis by auto
qed

section \<open>The verdict\<close>

text \<open>C19: A completed read was read: in every reduction an accepted read completion, and so an assignment completed on one,
  rests on at least one attempt, each an admitted and acknowledged read that has ended without persistent effect on
  native authority, with receipts and evidence.\<close>

theorem completed_read_was_read:
  assumes "reduceAssignmentControlPlane env i es = Inr r"
    "rdc_status (proj_read_completion (red_projection r)) = CompletionAccepted
       \<or> proj_terminal_state (red_projection r) = TerminalComplete
         \<and> proj_terminal_reason (red_projection r) = Some ''authoritative_read_completed''"
  shows "rdc_attempt_ids (proj_read_completion (red_projection r)) \<noteq> []
    \<and> (\<forall>k \<in> set (rdc_attempt_ids (proj_read_completion (red_projection r))).
         \<exists>a. find_attempt (red_projection r) k = Some a \<and> lasting_support a)"
proof -
  have "read_supported (red_projection r)" "terminal_supported (red_projection r)"
    using reduced_ok [OF assms(1)] by (simp_all add: red_ok_def proj_wf_def)
  with assms(2) show ?thesis by (auto simp: read_supported_def terminal_supported_def)
qed

theorem completed_read_was_read_witness:
  "\<exists>r a. reduceAssignmentControlPlane sample_env ''a1'' read_log = Inr r
     \<and> proj_terminal_state (red_projection r) = TerminalComplete
     \<and> find_attempt (red_projection r) ''o1'' = Some a \<and> lasting_support a"
proof -
  obtain r where r: "reduceAssignmentControlPlane sample_env ''a1'' read_log = Inr r"
      "proj_terminal_state (red_projection r) = TerminalComplete"
      "proj_terminal_reason (red_projection r) = Some ''authoritative_read_completed''"
      "rdc_attempt_ids (proj_read_completion (red_projection r)) = [''o1'']"
    using read_log_complete by (elim log_checkD conjE) blast
  with completed_read_was_read [OF r(1)] show ?thesis by auto
qed

section \<open>The stored log\<close>

text \<open>C20: The stored log replays: the log of a reachable goal is reduced without an exception and without a rejection, each of
  its events accepted once and in order, and no quarantined event is in it.\<close>

theorem stored_log_replays:
  assumes "goal_reachable env g"
  shows "\<exists>r. reduceAssignmentControlPlane env (goal_id g) (log_events (goal_log g)) = Inr r \<and> red_rejected r = []
    \<and> red_accepted r = map aev_id (log_events (goal_log g)) \<and> distinct (red_accepted r)
    \<and> (\<forall>q \<in> set (log_quarantined (goal_log g)). aev_id (fst q) \<notin> set (red_accepted r))"
proof -
  obtain r where r: "log_clean env (goal_id g) (goal_log g) r" using reachable_clean [OF assms] .
  then have red: "reduceAssignmentControlPlane env (goal_id g) (log_events (goal_log g)) = Inr r" "red_rejected r = []"
    by (simp_all add: log_clean_def)
  have ok: "red_ok r" by (rule reduced_ok [OF red(1)])
  have "card (set (red_seen r)) = length (red_accepted r)" "set (red_accepted r) = set (red_seen r)"
    using ok red(2) distinct_card [of "red_seen r"] by (simp_all add: red_ok_def)
  then have "distinct (red_accepted r)" by (metis card_distinct)
  with r red show ?thesis by (auto simp: log_clean_def)
qed

theorem stored_log_replays_witness:
  "\<exists>g r. goal_reachable sample_env g \<and> reduceAssignmentControlPlane sample_env (goal_id g) (log_events (goal_log g)) = Inr r
     \<and> red_accepted r = [''e''] \<and> red_rejected r = []
     \<and> map (\<lambda>q. aev_id (fst q)) (log_quarantined (goal_log g)) = [''eeeeeeee'']"
proof -
  obtain g where g: "goal_reachable sample_env g" "map aev_id (log_events (goal_log g)) = [''e'']
      \<and> map (\<lambda>q. aev_id (fst q)) (log_quarantined (goal_log g)) = [''eeeeeeee'']"
    by (rule goal_checkD [OF stored_run])
  from stored_log_replays [OF g(1)] g show ?thesis by auto
qed

text \<open>C21: An append is all or nothing: appending to a reachable goal returns the projection the new log reduces to; an accepted
  new event is added at the end of the log, and whatever is quarantined or repeated leaves the log and its projection as
  they were.\<close>

theorem append_is_all_or_nothing:
  assumes "goal_reachable env g" "goal_projection env g = Inr p" "appendAssignmentEvent env g now e = Inr a"
  shows "goal_projection env (ar_goal a) = Inr (ar_projection a)
    \<and> (if ar_accepted a \<and> aev_id e \<notin> aev_id ` set (log_events (goal_log g))
       then log_events (goal_log (ar_goal a)) = log_events (goal_log g) @ [e]
       else log_events (goal_log (ar_goal a)) = log_events (goal_log g) \<and> ar_projection a = p)"
proof -
  have proj: "goal_projection env (ar_goal a) = Inr (ar_projection a)"
    using assms(3) by (auto simp: appendAssignmentEvent_def Let_def kbind_Inr_iff)
  obtain r where r: "log_clean env (goal_id g) (goal_log g) r" "goal_projection env g = Inr (red_projection r)"
    using reachable_clean [OF assms(1)] .
  have p: "p = red_projection r" using r(2) assms(2) by simp
  show ?thesis
    by (rule store_append_cases [OF assms(3) r(1)]) (use proj p in auto)
qed

theorem append_is_all_or_nothing_witness:
  "\<exists>a. goal_reachable sample_env sample_goal \<and> appendAssignmentEvent sample_env sample_goal ''t'' (apply_log ! 0) = Inr a
     \<and> log_events (goal_log (ar_goal a)) = [apply_log ! 0]"
proof -
  have g: "goal_reachable sample_env sample_goal" by (rule goal_reachable.created) (simp add: sample_goal_def)
  obtain p a where a: "goal_projection sample_env sample_goal = Inr p"
      "appendAssignmentEvent sample_env sample_goal ''t'' (apply_log ! 0) = Inr a" "ar_accepted a"
      "log_events (goal_log sample_goal) = []"
    using append_run by (auto split: sum.splits)
  from append_is_all_or_nothing [OF g a(1,2)] a g show ?thesis by simp
qed

text \<open>C22: Deadlines and cancellation resolve nothing: settling the expired work of a goal and cancelling its work in flight leave
  every unknown effect unknown; only reconciliation resolves it.\<close>

theorem deadlines_resolve_nothing:
  assumes "goal_reachable env g" "goal_projection env g = Inr p"
    "settleAssignmentExpiredWork env g now = Inr (h, q) \<or> cancelAssignmentInFlight env g now = Inr ((h, q), pending)"
    "find_attempt p i = Some a" "eff_state (att_effect a) = UnknownEffect"
  shows "goal_reachable env h \<and> goal_projection env h = Inr q
    \<and> (\<exists>b. find_attempt q i = Some b \<and> eff_state (att_effect b) = UnknownEffect)"
  using barrier_operations [OF assms(1-3)] assms(4,5) by (simp add: unknown_kept_def)

theorem deadlines_resolve_nothing_witness:
  "\<exists>g h q b. goal_reachable short_env g \<and> settleAssignmentExpiredWork short_env g 1767225839999 = Inr (h, q)
     \<and> \<not> proj_quiescent q \<and> find_attempt q ''o1'' = Some b \<and> eff_state (att_effect b) = UnknownEffect"
proof -
  obtain g p a h q where g: "goal_reachable short_env g" "goal_projection short_env g = Inr p"
      "find_attempt p ''o1'' = Some a" "eff_state (att_effect a) = UnknownEffect"
      "settleAssignmentExpiredWork short_env g 1767225839999 = Inr (h, q)"
      "\<not> proj_quiescent q"
    by (rule goal_checkD [OF expired_run]) (auto simp: expires_def split: sum.splits option.splits)
  from deadlines_resolve_nothing [OF g(1,2) disjI1 [OF g(5)] g(3,4)] g show ?thesis by blast
qed

end
