(* ===== verification/TerminalBarrier.thy ===== *)
theory TerminalBarrier
  imports KernelTypes
begin

text \<open>
  The terminal barrier (\<open>assignments/assignment_kernel_v2_terminal_barrier.ts\<close>): while the lease of a provider turn is
  held, the terminal event of its assignment is deferred. The state is the process-local table of leases, by assignment
  and by lease.
\<close>

record barrier_lease =
  bl_barrier_id :: string
  bl_binding :: binding

type_synonym barriers = "barrier_lease krecord krecord"

definition normalizedBarrierId :: "string \<Rightarrow> kernel_error + string" where
  "normalizedBarrierId v = (let i = js_trim v in
     guard [(bounded_identity 239 i, ''assignment_kernel_v2_terminal_barrier_identity_invalid'')] (Inr i))"

definition leases_of :: "barriers \<Rightarrow> string \<Rightarrow> barrier_lease krecord" where
  "leases_of t a = (case rget t a of None \<Rightarrow> [] | Some r \<Rightarrow> r)"

definition beginAssignmentKernelTerminalBarrierV2 ::
  "barriers \<Rightarrow> binding \<Rightarrow> string \<Rightarrow> kernel_error + barriers \<times> barrier_lease" where
  "beginAssignmentKernelTerminalBarrierV2 t b v = kbind (normalizedBarrierId v) (\<lambda>i.
     let a = js_trim (b_assignment_id b); byId = leases_of t a; lease = \<lparr>bl_barrier_id = i, bl_binding = b\<rparr> in
     guard [(a \<noteq> [], ''assignment_kernel_v2_terminal_barrier_binding_invalid'')]
       (case rget byId i of
          Some existing \<Rightarrow> guard [(sameAssignmentBindingV2 (bl_binding existing) b,
              ''assignment_kernel_v2_terminal_barrier_binding_conflict'')]
            (Inl ''assignment_kernel_v2_terminal_barrier_already_active'')
        | None \<Rightarrow> Inr (rput a (rput i lease byId) t, lease)))"

definition endAssignmentKernelTerminalBarrierV2 :: "barriers \<Rightarrow> barrier_lease option \<Rightarrow> kernel_error + barriers" where
  "endAssignmentKernelTerminalBarrierV2 t l = (case l of
      None \<Rightarrow> Inr t
    | Some lease \<Rightarrow> (let a = b_assignment_id (bl_binding lease); byId = leases_of t a in
        case rget byId (bl_barrier_id lease) of
          None \<Rightarrow> Inr t
        | Some current \<Rightarrow> guard [(sameAssignmentBindingV2 (bl_binding current) (bl_binding lease),
              ''assignment_kernel_v2_terminal_barrier_release_conflict'')]
            (let rest = rdel (bl_barrier_id lease) byId in Inr (if rest = [] then rdel a t else rput a rest t))))"

definition assignmentKernelTerminalSettlementDeferredV2 :: "barriers \<Rightarrow> binding \<Rightarrow> bool" where
  "assignmentKernelTerminalSettlementDeferredV2 t b \<longleftrightarrow>
     list_ex (\<lambda>l. sameAssignmentBindingV2 (bl_binding l) b) (rvals (leases_of t (b_assignment_id b)))"

section \<open>Lemmas\<close>

definition leases_good :: "string \<Rightarrow> barrier_lease krecord \<Rightarrow> bool" where
  "leases_good a r \<longleftrightarrow> distinct (rkeys r)
     \<and> (\<forall>i l. rget r i = Some l \<longrightarrow> bl_barrier_id l = i \<and> js_trim (b_assignment_id (bl_binding l)) = a)"

definition barriers_ok :: "barriers \<Rightarrow> bool" where
  "barriers_ok t \<longleftrightarrow> distinct (rkeys t) \<and> (\<forall>a r. rget t a = Some r \<longrightarrow> r \<noteq> [] \<and> leases_good a r)"

inductive barriers_reachable :: "barriers \<Rightarrow> bool" where
  start: "barriers_reachable []"
| begun: "barriers_reachable t \<Longrightarrow> beginAssignmentKernelTerminalBarrierV2 t b v = Inr (t', l) \<Longrightarrow> barriers_reachable t'"
| ended: "barriers_reachable t \<Longrightarrow> endAssignmentKernelTerminalBarrierV2 t l = Inr t' \<Longrightarrow> barriers_reachable t'"

lemma delete_put_new: "rget r k = None \<Longrightarrow> rdel k (rput k v r) = r"
  by (induction r) (auto split: if_splits)

lemma put_put_back: "rget r k = Some v \<Longrightarrow> rput k v (rput k w r) = r"
  by (induction r) auto

lemma put_same: "rget r k = Some v \<Longrightarrow> rput k v r = r"
  by (induction r) auto

lemma begin_cases:
  assumes "beginAssignmentKernelTerminalBarrierV2 t b v = Inr (t', l)"
  obtains i where "normalizedBarrierId v = Inr i" "js_trim (b_assignment_id b) \<noteq> []"
    "rget (leases_of t (js_trim (b_assignment_id b))) i = None" "l = \<lparr>bl_barrier_id = i, bl_binding = b\<rparr>"
    "t' = rput (js_trim (b_assignment_id b)) (rput i l (leases_of t (js_trim (b_assignment_id b)))) t"
  using assms
  by (auto simp: beginAssignmentKernelTerminalBarrierV2_def Let_def kbind_Inr_iff guard_Inr_iff first_failure_Cons_None
      split: option.splits)

lemma barriers_ok_empty: "barriers_ok []"
  by (simp add: barriers_ok_def rkeys_def)

lemma leases_good_empty: "leases_good a []"
  by (simp add: leases_good_def rkeys_def)

lemma distinct_keys_delete: "distinct (rkeys r) \<Longrightarrow> distinct (rkeys (rdel k r))"
  by (simp add: rkeys_def distinct_delete)

lemma leases_ok: "barriers_ok t \<Longrightarrow> leases_good a (leases_of t a)"
  by (cases "rget t a") (auto simp: leases_of_def barriers_ok_def leases_good_empty)

lemma leases_of_put: "leases_of (rput a r t) c = (if c = a then r else leases_of t c)"
  by (simp add: leases_of_def kr.get_put)

lemma leases_good_put:
  "leases_good a r \<Longrightarrow> bl_barrier_id l = i \<Longrightarrow> js_trim (b_assignment_id (bl_binding l)) = a \<Longrightarrow> leases_good a (rput i l r)"
  by (simp add: leases_good_def kr.get_put)

lemma put_not_Nil: "rput k v r \<noteq> []"
  by (cases r) auto

lemma barriers_ok_put: "barriers_ok t \<Longrightarrow> r \<noteq> [] \<Longrightarrow> leases_good a r \<Longrightarrow> barriers_ok (rput a r t)"
  by (simp add: barriers_ok_def kr.get_put)

lemma begin_ok:
  assumes "barriers_ok t" "beginAssignmentKernelTerminalBarrierV2 t b v = Inr (t', l)"
  shows "barriers_ok t'"
  using assms(2)
proof (cases rule: begin_cases)
  case (1 i)
  then show ?thesis
    using barriers_ok_put [OF assms(1) put_not_Nil leases_good_put [OF leases_ok [OF assms(1)]]] by simp
qed

lemma end_ok:
  assumes "barriers_ok t" "endAssignmentKernelTerminalBarrierV2 t l = Inr t'"
  shows "barriers_ok t'"
proof -
  have del: "barriers_ok (rdel a t)" for a
    using assms(1) by (auto simp: barriers_ok_def distinct_keys_delete delete_conv' split: if_splits)
  have "leases_good a (rdel i (leases_of t a))" for a i
    using leases_ok [OF assms(1), of a] by (auto simp: leases_good_def distinct_keys_delete delete_conv' split: if_splits)
  with del assms barriers_ok_put [OF assms(1)] show ?thesis
    by (auto simp: endAssignmentKernelTerminalBarrierV2_def Let_def guard_Inr_iff split: option.splits if_splits)
qed

lemma reachable_barriers: "barriers_reachable t \<Longrightarrow> barriers_ok t"
  by (induction rule: barriers_reachable.induct) (auto simp: barriers_ok_empty intro: begin_ok end_ok)

lemma js_trim_idem: "js_trim (js_trim v) = js_trim v"
proof -
  obtain t u where t: "t = dropWhile is_space v" and u: "u = js_trim v" by blast
  have ru: "rev u = dropWhile is_space (rev t)" by (simp add: t u js_trim_def)
  have split: "t = u @ rev (takeWhile is_space (rev t))"
    using takeWhile_dropWhile_id [of is_space "rev t"] unfolding ru [symmetric] by (metis rev_append rev_rev_ident)
  have "dropWhile is_space u = u"
  proof (cases u)
    case (Cons c cs)
    then have "dropWhile is_space v = c # cs @ rev (takeWhile is_space (rev t))" using split t by simp
    then have "\<not> is_space c" by (simp add: dropWhile_eq_Cons_conv)
    then show ?thesis by (simp add: Cons)
  qed simp
  then have "js_trim u = rev (dropWhile is_space (rev u))" by (simp add: js_trim_def)
  then show ?thesis using ru by (simp add: dropWhile_idem) (metis rev_rev_ident u)
qed

text \<open>The keys of the table are trimmed, so an assignment id with surrounding space finds nothing in it.\<close>

lemma no_leases_untrimmed: "barriers_ok t \<Longrightarrow> js_trim a \<noteq> a \<Longrightarrow> leases_of t a = []"
proof (rule ccontr)
  assume ok: "barriers_ok t" and a: "js_trim a \<noteq> a" and some: "leases_of t a \<noteq> []"
  then obtain r where r: "rget t a = Some r" by (auto simp: leases_of_def split: option.splits)
  then have g: "r \<noteq> []" "leases_good a r" using ok by (auto simp: barriers_ok_def)
  from g(1) obtain i l r' where "r = (i, l) # r'" by (metis list.exhaust prod.exhaust)
  then have "rget r i = Some l" by simp
  with g(2) have "js_trim (b_assignment_id (bl_binding l)) = a" by (simp add: leases_good_def)
  then show False using a js_trim_idem [of "b_assignment_id (bl_binding l)"] by simp
qed

lemma deferred_begun:
  assumes "barriers_ok t" "beginAssignmentKernelTerminalBarrierV2 t b v = Inr (t', l)"
  shows "assignmentKernelTerminalSettlementDeferredV2 t' c \<longleftrightarrow>
    assignmentKernelTerminalSettlementDeferredV2 t c \<or> c = b \<and> js_trim (b_assignment_id b) = b_assignment_id b"
  using assms(2)
proof (cases rule: begin_cases)
  case (1 i)
  let ?a = "js_trim (b_assignment_id b)"
  have "rvals (rput i l (leases_of t ?a)) = rvals (leases_of t ?a) @ [l]"
    using 1(3) by (simp add: rput_new rhas_iff [symmetric] rhas_def rvals_def)
  then show ?thesis using 1(4,5) by (auto simp: assignmentKernelTerminalSettlementDeferredV2_def leases_of_put)
qed

lemma end_begun:
  assumes "barriers_ok t" "beginAssignmentKernelTerminalBarrierV2 t b v = Inr (t', l)"
  shows "endAssignmentKernelTerminalBarrierV2 t' (Some l) = Inr (if js_trim (b_assignment_id b) = b_assignment_id b then t else t')"
  using assms(2)
proof (cases rule: begin_cases)
  case (1 i)
  let ?a = "b_assignment_id b"
  show ?thesis
  proof (cases "js_trim ?a = ?a")
    case True
    have new: "rget (leases_of t ?a) i = None" using 1(3) True by simp
    have "leases_of t ?a = [] \<longleftrightarrow> rget t ?a = None"
      using assms(1) by (auto simp: leases_of_def barriers_ok_def split: option.splits)
    moreover have "rget t ?a = Some (leases_of t ?a)" if "rget t ?a \<noteq> None" using that by (auto simp: leases_of_def)
    ultimately show ?thesis
      using 1 True new
      by (auto simp: endAssignmentKernelTerminalBarrierV2_def Let_def leases_of_put kr.get_put guard_def delete_put_new put_put_back put_same)
  next
    case False
    have "leases_of t' ?a = []" using no_leases_untrimmed [OF begin_ok [OF assms] False] .
    then show ?thesis using False 1(4) by (simp add: endAssignmentKernelTerminalBarrierV2_def Let_def)
  qed
qed

lemma begin_twice:
  assumes "beginAssignmentKernelTerminalBarrierV2 t b v = Inr (t', l)"
  shows "beginAssignmentKernelTerminalBarrierV2 t' b v = Inl ''assignment_kernel_v2_terminal_barrier_already_active''"
  using assms
proof (cases rule: begin_cases)
  case (1 i)
  then show ?thesis by (simp add: beginAssignmentKernelTerminalBarrierV2_def Let_def leases_of_put kr.get_put guard_def)
qed

section \<open>The contract of the barrier\<close>

text \<open>C25: What a barrier defers, and its release. After a lease is begun, the terminal event is deferred for its binding
  and for those deferred before, for no other; a second begin of the same lease is refused; and ending the lease restores the
  table as it was. All this if the assignment id carries no surrounding space: for an id with surrounding space a lease
  defers nothing, and ending it leaves the table with the lease.\<close>

theorem barrier_defers_until_released:
  assumes "barriers_reachable t" "beginAssignmentKernelTerminalBarrierV2 t b v = Inr (t', l)"
  shows "(assignmentKernelTerminalSettlementDeferredV2 t' c \<longleftrightarrow>
        assignmentKernelTerminalSettlementDeferredV2 t c \<or> c = b \<and> js_trim (b_assignment_id b) = b_assignment_id b)
    \<and> beginAssignmentKernelTerminalBarrierV2 t' b v = Inl ''assignment_kernel_v2_terminal_barrier_already_active''
    \<and> endAssignmentKernelTerminalBarrierV2 t' (Some l) = Inr (if js_trim (b_assignment_id b) = b_assignment_id b then t else t')"
proof -
  have ok: "barriers_ok t" by (rule reachable_barriers [OF assms(1)])
  show ?thesis
    using deferred_begun [OF ok assms(2)] end_begun [OF ok assms(2)] begin_twice [OF assms(2)] by blast
qed

definition held_binding :: binding where
  "held_binding = \<lparr>b_assignment_id = ''a'', b_run_id = ''r'', b_generation = 1, b_session_id = ''s'',
     b_principal_id = ''p'', b_document_fingerprint = None\<rparr>"

lemma held_run: "beginAssignmentKernelTerminalBarrierV2 [] held_binding ''x''
    = Inr ([(''a'', [(''x'', \<lparr>bl_barrier_id = ''x'', bl_binding = held_binding\<rparr>)])],
        \<lparr>bl_barrier_id = ''x'', bl_binding = held_binding\<rparr>)"
  and held_trim: "js_trim (b_assignment_id held_binding) = b_assignment_id held_binding"
  by code_simp+

theorem barrier_defers_until_released_witness:
  "assignmentKernelTerminalSettlementDeferredV2 [(''a'', [(''x'', \<lparr>bl_barrier_id = ''x'', bl_binding = held_binding\<rparr>)])] held_binding
   \<and> endAssignmentKernelTerminalBarrierV2 [(''a'', [(''x'', \<lparr>bl_barrier_id = ''x'', bl_binding = held_binding\<rparr>)])]
        (Some \<lparr>bl_barrier_id = ''x'', bl_binding = held_binding\<rparr>) = Inr []"
  using barrier_defers_until_released [OF barriers_reachable.start held_run] held_trim by auto

end
