(* ===== verification/RecoveryOrder.thy ===== *)
theory RecoveryOrder
  imports HistoryProperties DependencyOrder
begin

text \<open>
  The order in which retained completions are recovered
  (\<open>assignments/assignment_kernel_v2_recovery_order.ts\<close>): a depth-first visit of the operations in flight that
  lists the children of an operation before it. \<open>pending\<close> is the set of operations not yet visited. The fuel bounds
  the depth of the visit, which removes an operation from \<open>pending\<close> at every level.
\<close>

type_synonym recovery = "string list \<times> string list"

fun recover :: "nat \<Rightarrow> (string \<Rightarrow> string list) \<Rightarrow> string \<Rightarrow> recovery \<Rightarrow> recovery option"
  and recover_all :: "nat \<Rightarrow> (string \<Rightarrow> string list) \<Rightarrow> string list \<Rightarrow> recovery \<Rightarrow> recovery option"
where
  "recover 0 g i st = None"
| "recover (Suc n) g i (pending, ordered) =
     (if i \<notin> set pending then Some (pending, ordered)
      else (case recover_all n g (g i) (filter (\<lambda>k. k \<noteq> i) pending, ordered) of
          None \<Rightarrow> None
        | Some (p, r) \<Rightarrow> Some (p, r @ [i])))"
| "recover_all n g [] st = Some st"
| "recover_all n g (c # cs) st = (case recover n g c st of None \<Rightarrow> None | Some st' \<Rightarrow> recover_all n g cs st')"

definition children_of :: "snapshot \<Rightarrow> string \<Rightarrow> string list" where
  "children_of s i = map op_id (filter (\<lambda>c. op_parent_id c = Some i) (rvals (sn_operations s)))"

definition completionRecoveryOrderV2 :: "snapshot \<Rightarrow> string list option" where
  "completionRecoveryOrderV2 s = map_option snd
     (recover_all (Suc (length (sn_in_flight_operation_ids s))) (children_of s)
       (sn_in_flight_operation_ids s) (sn_in_flight_operation_ids s, []))"

section \<open>Enough fuel\<close>

lemma filter_shorter: "i \<in> set p \<Longrightarrow> length (filter (\<lambda>k. k \<noteq> i) p) < length p"
  by (induction p) (auto intro: le_imp_less_Suc)

lemma recover_fuel:
  "length (fst st) < n \<Longrightarrow> \<exists>p r. recover n g i st = Some (p, r) \<and> length p \<le> length (fst st)"
  "length (fst st) < n \<or> cs = [] \<Longrightarrow> \<exists>p r. recover_all n g cs st = Some (p, r) \<and> length p \<le> length (fst st)"
proof (induction n g i st and n g cs st rule: recover_recover_all.induct)
  case (2 n g i pending ordered)
  show ?case
  proof (cases "i \<in> set pending")
    case True
    then have l: "length (filter (\<lambda>k. k \<noteq> i) pending) < length pending" by (rule filter_shorter)
    then obtain p r where "recover_all n g (g i) (filter (\<lambda>k. k \<noteq> i) pending, ordered) = Some (p, r)"
        "length p \<le> length (filter (\<lambda>k. k \<noteq> i) pending)"
      using 2 True by fastforce
    with True l show ?thesis by auto
  qed simp
next
  case (4 n g c cs st)
  then obtain p r where p: "recover n g c st = Some (p, r)" "length p \<le> length (fst st)" by auto
  then obtain p' r' where "recover_all n g cs (p, r) = Some (p', r')" "length p' \<le> length p"
    using 4 by fastforce
  with p show ?case by auto
qed (auto simp: prod_eq_iff)

section \<open>What is in the order, and in which order\<close>

text \<open>A visit moves operations from \<open>pending\<close> to the order and loses none.\<close>

definition moved :: "recovery \<Rightarrow> recovery \<Rightarrow> bool" where
  "moved st st' \<longleftrightarrow> set (fst st') \<union> set (snd st') = set (fst st) \<union> set (snd st) \<and> set (fst st') \<subseteq> set (fst st)"

text \<open>
  The invariant of the visit: the order lists each operation once, its children in flight before it, and what is neither
  pending nor listed is on the path of the visit, of smaller rank than anything visited from now on.
\<close>

definition visit_ok :: "(string \<Rightarrow> string list) \<Rightarrow> string set \<Rightarrow> (string \<Rightarrow> int) \<Rightarrow> int \<Rightarrow> recovery \<Rightarrow> bool" where
  "visit_ok g I rank m st \<longleftrightarrow> work_order (\<lambda>i. filter (\<lambda>c. c \<in> I) (g i)) (rev (snd st)) \<and> set (fst st) \<inter> set (snd st) = {}
     \<and> (\<forall>k \<in> I. m \<le> rank k \<longrightarrow> k \<in> set (fst st) \<union> set (snd st))"

lemma moved_refl: "moved st st"
  by (simp add: moved_def)

lemma moved_trans: "moved a b \<Longrightarrow> moved b c \<Longrightarrow> moved a c"
  unfolding moved_def by blast

lemma visit_ok_later: "visit_ok g I rank m st \<Longrightarrow> m \<le> m' \<Longrightarrow> visit_ok g I rank m' st"
  unfolding visit_ok_def by force

lemma visit_ok_moved: "visit_ok g I rank m st \<Longrightarrow> visit_ok g I rank m' st' \<Longrightarrow> moved st st' \<Longrightarrow> visit_ok g I rank m st'"
  unfolding visit_ok_def moved_def by blast

lemma recover_ordered:
  "\<forall>i \<in> I. \<forall>c \<in> set (g i). rank i < rank c \<Longrightarrow> recover n g i st = Some st' \<Longrightarrow> visit_ok g I rank (rank i) st \<Longrightarrow> set (fst st) \<subseteq> I \<Longrightarrow>
      visit_ok g I rank (rank i) st' \<and> moved st st' \<and> i \<notin> set (fst st')"
  "\<forall>i \<in> I. \<forall>c \<in> set (g i). rank i < rank c \<Longrightarrow> recover_all n g cs st = Some st' \<Longrightarrow> visit_ok g I rank m st \<Longrightarrow> set (fst st) \<subseteq> I \<Longrightarrow>
      \<forall>c \<in> set cs. m \<le> rank c \<Longrightarrow> visit_ok g I rank m st' \<and> moved st st' \<and> set cs \<inter> set (fst st') = {}"
proof (induction n g i st and n g cs st arbitrary: st' and st' m rule: recover_recover_all.induct)
  case (2 n g i pending ordered)
  show ?case
  proof (cases "i \<in> set pending")
    case False
    with 2 show ?thesis by (auto simp: moved_refl)
  next
    case True
    let ?st = "(filter (\<lambda>k. k \<noteq> i) pending, ordered)"
    from True "2.prems"(2) obtain p r where p: "recover_all n g (g i) ?st = Some (p, r)" "st' = (p, r @ [i])"
      by (auto split: option.splits)
    have iI: "i \<in> I" using True "2.prems"(4) by auto
    have ok: "visit_ok g I rank (rank i + 1) ?st" using "2.prems"(3) by (force simp: visit_ok_def)
    have sub: "set (fst ?st) \<subseteq> I" using "2.prems"(4) by auto
    have later: "\<forall>c \<in> set (g i). rank i + 1 \<le> rank c" using "2.prems"(1) iI by (auto intro: zless_imp_add1_zle)
    from "2.IH" [OF _ "2.prems"(1) p(1) ok sub later] True
    have r: "visit_ok g I rank (rank i + 1) (p, r)" "moved ?st (p, r)" "set (g i) \<inter> set p = {}" by simp_all
    have notr: "i \<notin> set p" "i \<notin> set r"
      using r(2) True "2.prems"(3) by (auto simp: moved_def visit_ok_def)
    have "c \<in> set r" if "c \<in> set (g i)" "c \<in> I" for c
      using that r(1,3) later by (auto simp: visit_ok_def)
    with r notr True "2.prems"(3) have "visit_ok g I rank (rank i) (p, r @ [i])" "moved (pending, ordered) (p, r @ [i])"
      by (auto simp: visit_ok_def moved_def)
    with p(2) notr show ?thesis by simp
  qed
next
  case (4 n g c cs st)
  then obtain u where u: "recover n g c st = Some u" "recover_all n g cs u = Some st'" by (auto split: option.splits)
  from "4.IH"(1) [OF "4.prems"(1) u(1) visit_ok_later [OF "4.prems"(3)] "4.prems"(4)] "4.prems"(5)
  have c: "visit_ok g I rank (rank c) u" "moved st u" "c \<notin> set (fst u)" by auto
  have sub: "set (fst u) \<subseteq> I" using c(2) "4.prems"(4) by (auto simp: moved_def)
  from "4.IH"(2) [OF u(1) "4.prems"(1) u(2) visit_ok_moved [OF "4.prems"(3) c(1,2)] sub] "4.prems"(5)
  have cs: "visit_ok g I rank m st'" "moved u st'" "set cs \<inter> set (fst st') = {}" by auto
  with c moved_trans [OF c(2) cs(2)] show ?case by (auto simp: moved_def)
qed (auto simp: moved_refl)

lemma work_order_distinct: "work_order g xs \<Longrightarrow> distinct xs"
  by (induction xs) auto

lemma work_order_before:
  assumes "work_order g (rev xs)" "i \<in> set xs" "c \<in> set (g i)"
  shows "\<exists>us vs. xs = us @ i # vs \<and> c \<in> set us"
  using assms
proof (induction xs rule: rev_induct)
  case (snoc x xs)
  show ?case
  proof (cases "i = x")
    case True
    with snoc.prems show ?thesis by auto
  next
    case False
    with snoc obtain us vs where "xs = us @ i # vs" "c \<in> set us" by auto
    then show ?thesis by (intro exI [of _ us] exI [of _ "vs @ [x]"]) simp
  qed
qed simp

section \<open>The order of a reachable snapshot\<close>

definition admission_rank :: "snapshot \<Rightarrow> string \<Rightarrow> int" where
  "admission_rank s i = (case rget (sn_operations s) i of None \<Rightarrow> 0 | Some p \<Rightarrow> the (op_admitted_version p))"

lemma children_of_iff:
  assumes "accepted s"
  shows "c \<in> set (children_of s i) \<longleftrightarrow> (\<exists>p. rget (sn_operations s) c = Some p \<and> op_parent_id p = Some i)"
proof -
  have "kr.well_keyed op_id (sn_operations s)" using assms by (simp add: accepted_def snapshot_wf_def operations_ok_def)
  then show ?thesis by (auto simp: children_of_def kr.well_keyed_def rvals_iff)
qed

lemma well_keyed_idents:
  assumes "kr.well_keyed f r"
  shows "map f (rvals r) = rkeys r"
proof -
  have "f (snd x) = fst x" if "x \<in> set r" for x
    using assms that by (metis kr.well_keyed_def map_of_eq_Some_iff prod.collapse rkeys_def)
  then show ?thesis by (simp add: rvals_def rkeys_def)
qed

lemma in_flight_distinct:
  assumes "accepted s"
  shows "distinct (sn_in_flight_operation_ids s)"
proof -
  have wk: "kr.well_keyed op_id (sn_operations s)" and d: "derived s"
    using assms by (simp_all add: accepted_def snapshot_wf_def operations_ok_def)
  then have "distinct (map op_id (rvals (sn_operations s)))"
    by (simp add: well_keyed_idents kr.well_keyed_def)
  then show ?thesis by (simp add: derived_relations(1) [OF d] derived_in_flight_def distinct_map_filter)
qed

lemma admission_ranked:
  assumes "history env evs st" "rs_snapshot st = Some s" "rget (sn_operations s) [] = None" "c \<in> set (children_of s i)"
  shows "admission_rank s i < admission_rank s c"
proof -
  obtain q where q: "rget (sn_operations s) c = Some q" "op_parent_id q = Some i"
    using children_of_iff [OF history_snapshot [OF assms(1,2)]] assms(4) by blast
  show ?thesis
  proof (cases "role_or_root q = RootRole")
    case True
    with root_has_no_parent [OF assms(1,2) q(1)] q(2) have i: "i = []" by (simp add: truthy_def)
    obtain n where "op_admitted_version q = Some (int n + 1)" using operation_origin [OF assms(1,2) q(1)] by blast
    with i q(1) assms(3) show ?thesis by (simp add: admission_rank_def)
  next
    case False
    from child_points_back [OF assms(1,2) q(1) False] q show ?thesis
      by (auto simp: admission_rank_def admitted_before_def)
  qed
qed

text \<open>C24: Completions are recovered children first: if no operation of a reachable snapshot has the empty identity (which
  the reducer does not rule out), then whatever operations are in flight, the recovery order exists, lists each of them once
  and nothing else, and lists every operation before the parent it names. The reducer refuses the result of an operation with
  an unsettled blocking child, so no other order could recover them all.\<close>

theorem recovery_is_children_first:
  assumes "history env evs st" "rs_snapshot st = Some s" "rget (sn_operations s) [] = None"
  shows "\<exists>order. completionRecoveryOrderV2 s = Some order \<and> distinct order
    \<and> set order = set (sn_in_flight_operation_ids s)
    \<and> (\<forall>c \<in> set order. \<forall>p. rget (sn_operations s) c = Some p \<longrightarrow>
          (case op_parent_id p of None \<Rightarrow> True
           | Some i \<Rightarrow> i \<in> set order \<longrightarrow> (\<exists>us vs. order = us @ i # vs \<and> c \<in> set us)))"
proof -
  let ?ids = "sn_in_flight_operation_ids s" and ?g = "children_of s" and ?rank = "admission_rank s"
  let ?low = "Min (insert 0 (?rank ` set ?ids))"
  have acc: "accepted s" using history_snapshot [OF assms(1,2)] .
  obtain p r where r: "recover_all (Suc (length ?ids)) ?g ?ids (?ids, []) = Some (p, r)"
    using recover_fuel(2) [of "(?ids, [])" "Suc (length ?ids)" ?ids ?g] by auto
  have ok: "visit_ok ?g (set ?ids) ?rank ?low (?ids, [])" by (simp add: visit_ok_def)
  have "visit_ok ?g (set ?ids) ?rank ?low (p, r) \<and> moved (?ids, []) (p, r) \<and> set ?ids \<inter> set p = {}"
    using recover_ordered(2) [OF _ r ok] admission_ranked [OF assms] by simp
  then have wo: "work_order (\<lambda>i. filter (\<lambda>c. c \<in> set ?ids) (?g i)) (rev r)" and all: "set r = set ?ids"
    by (auto simp: visit_ok_def moved_def)
  have "\<exists>us vs. r = us @ i # vs \<and> c \<in> set us"
    if "c \<in> set r" "rget (sn_operations s) c = Some q" "op_parent_id q = Some i" "i \<in> set r" for c q i
    using work_order_before [OF wo that(4), of c] that all children_of_iff [OF acc, of c i] by auto
  with r all work_order_distinct [OF wo] show ?thesis
    by (intro exI [of _ r]) (auto simp: completionRecoveryOrderV2_def split: option.splits)
qed

lemma family_order:
  assumes "map (\<lambda>p. (op_id p, op_parent_id p)) (rvals (sn_operations s)) = [(''o1'', None), (''o2'', Some ''o1'')]"
    "sn_in_flight_operation_ids s = [''o1'', ''o2'']"
  shows "completionRecoveryOrderV2 s = Some [''o2'', ''o1'']"
proof -
  obtain p q where "rvals (sn_operations s) = [p, q]" "op_id p = ''o1''" "op_parent_id p = None"
      "op_id q = ''o2''" "op_parent_id q = Some ''o1''"
    using assms(1) by (auto simp: map_eq_Cons_conv)
  then have "children_of s ''o1'' = [''o2'']" "children_of s ''o2'' = []" by (simp_all add: children_of_def)
  then show ?thesis by (simp add: completionRecoveryOrderV2_def assms(2))
qed

theorem recovery_is_children_first_witness:
  "\<exists>st s. history sample_env family_events st \<and> rs_snapshot st = Some s
     \<and> completionRecoveryOrderV2 s = Some [''o2'', ''o1''] \<and> set (sn_in_flight_operation_ids s) = {''o2'', ''o1''}"
proof -
  obtain st s where h: "history sample_env family_events st" "rs_snapshot st = Some s" "rget (sn_operations s) [] = None"
      "map (\<lambda>p. (op_id p, op_parent_id p)) (rvals (sn_operations s)) = [(''o1'', None), (''o2'', Some ''o1'')]"
      "sn_in_flight_operation_ids s = [''o1'', ''o2'']"
    using family_run by (elim run_checkD conjE) (rule that, assumption+)
  have "completionRecoveryOrderV2 s = Some [''o2'', ''o1'']" by (rule family_order) (rule h(4,5))+
  with recovery_is_children_first [OF h(1-3)] h(1,2) show ?thesis by (intro exI [of _ st] exI [of _ s]) auto
qed

end
