(* ===== verification/JournalCache.thy ===== *)
theory JournalCache
  imports Journal Samples
begin

text \<open>
  The content-verified cache of journals (\<open>assignments/content_verified_journal_v2.ts\<close>): a journal is reused only when the
  text of the events read equals the text it was kept under. The cache is a map in insertion order from the digest of a
  text to a fork of the journal and its size; the oldest entries are evicted first. A handle is the journal a caller of
  \<open>open\<close> holds, with the text of its events. \<open>JSON.stringify\<close> of one event and of a snapshot are parameters.
\<close>

section \<open>The cache\<close>

record json_texts =
  event_json :: "event \<Rightarrow> string"
  snapshot_json :: "snapshot \<Rightarrow> string"

record cache_limits =
  cl_entries :: int
  cl_bytes :: int

record journal_slot =
  slot_journal :: journal
  slot_bytes :: int

record journal_cache =
  jc_entries :: "journal_slot krecord"
  jc_bytes :: int

record journal_handle =
  jh_journal :: journal
  jh_text :: string

definition DEFAULT_CACHE_LIMITS :: cache_limits where
  "DEFAULT_CACHE_LIMITS = \<lparr>cl_entries = 8, cl_bytes = 64 * 1024 * 1024\<rparr>"

definition createContentVerifiedJournalV2 :: "cache_limits \<Rightarrow> kernel_error + journal_cache" where
  "createContentVerifiedJournalV2 l =
     guard [(1 \<le> cl_entries l \<and> cl_entries l \<le> 256 \<and> isSafeInteger (cl_bytes l) \<and> 1 \<le> cl_bytes l,
         ''journal_cache_bounds_invalid'')]
       (Inr \<lparr>jc_entries = [], jc_bytes = 0\<rparr>)"

definition events_json :: "json_texts \<Rightarrow> event list \<Rightarrow> string" where
  "events_json tx evs = ''['' @ join_text '','' (map (event_json tx) evs) @ '']''"

definition forget_entry :: "string \<Rightarrow> journal_cache \<Rightarrow> journal_cache" where
  "forget_entry key c = (case rget (jc_entries c) key of
      None \<Rightarrow> c
    | Some slot \<Rightarrow> c\<lparr>jc_entries := rdel key (jc_entries c), jc_bytes := jc_bytes c - slot_bytes slot\<rparr>)"

fun evict :: "cache_limits \<Rightarrow> journal_slot krecord \<Rightarrow> int \<Rightarrow> journal_cache" where
  "evict l [] n = \<lparr>jc_entries = [], jc_bytes = n\<rparr>"
| "evict l ((key, slot) # r) n =
     (if cl_entries l < int (length ((key, slot) # r)) \<or> cl_bytes l < n then evict l r (n - slot_bytes slot)
      else \<lparr>jc_entries = (key, slot) # r, jc_bytes = n\<rparr>)"

definition retain_journal ::
  "cache_limits \<Rightarrow> kernel_env \<Rightarrow> json_texts \<Rightarrow> string \<Rightarrow> journal \<Rightarrow> journal_cache \<Rightarrow> (kernel_error + unit) \<times> journal_cache" where
  "retain_journal l env tx t j c = (let key = sha256 env t; c' = forget_entry key c in case journal_snapshot j of
      Inl e \<Rightarrow> (Inl e, c')
    | Inr s \<Rightarrow> (let size = int (length t) + int (length (snapshot_json tx s)) in
        (Inr (), if cl_bytes l < size then c'
          else evict l (rput key \<lparr>slot_journal = journal_fork j, slot_bytes = size\<rparr> (jc_entries c')) (jc_bytes c' + size))))"

text \<open>An event identity that occurs twice makes \<open>open\<close> reduce the events first, for the reducer's rejection.\<close>

definition unique_or_reduced :: "kernel_env \<Rightarrow> event list \<Rightarrow> kernel_error + unit" where
  "unique_or_reduced env evs = (if distinct (map ev_event_id evs) then Inr ()
     else kbind (reduceAssignmentEventsV2 env evs) (\<lambda>_. Inr ()))"

definition open_journal ::
  "cache_limits \<Rightarrow> kernel_env \<Rightarrow> json_texts \<Rightarrow> journal_cache \<Rightarrow> event list \<Rightarrow> (kernel_error + journal_handle) \<times> journal_cache"
where
  "open_journal l env tx c evs = (case unique_or_reduced env evs of
      Inl e \<Rightarrow> (Inl e, c)
    | Inr _ \<Rightarrow> (let t = events_json tx evs; key = sha256 env t in case rget (jc_entries c) key of
        Some slot \<Rightarrow> (Inr \<lparr>jh_journal = journal_fork (slot_journal slot), jh_text = t\<rparr>,
          c\<lparr>jc_entries := rput key slot (rdel key (jc_entries c))\<rparr>)
      | None \<Rightarrow> (case construct env evs of
            Inl e \<Rightarrow> (Inl e, c)
          | Inr j \<Rightarrow> if evs = [] then (Inr \<lparr>jh_journal = j, jh_text = t\<rparr>, c)
              else (case retain_journal l env tx t j c of
                  (Inl e, c') \<Rightarrow> (Inl e, c')
                | (Inr _, c') \<Rightarrow> (Inr \<lparr>jh_journal = j, jh_text = t\<rparr>, c')))))"

definition extended_text :: "json_texts \<Rightarrow> string \<Rightarrow> event \<Rightarrow> string" where
  "extended_text tx t ev = take (length t - 1) t @ (if 2 < length t then '','' else []) @ event_json tx ev @ '']''"

definition handle_append ::
  "cache_limits \<Rightarrow> kernel_env \<Rightarrow> json_texts \<Rightarrow> journal_cache \<Rightarrow> journal_handle \<Rightarrow> event
     \<Rightarrow> (kernel_error + snapshot) \<times> journal_handle \<times> journal_cache" where
  "handle_append l env tx c h ev = (case journal_append env (jh_journal h) ev of
      (Inl e, j) \<Rightarrow> (Inl e, h\<lparr>jh_journal := j\<rparr>, c)
    | (Inr s, j) \<Rightarrow> (let t = extended_text tx (jh_text h) ev in case retain_journal l env tx t j c of
          (Inl e, c') \<Rightarrow> (Inl e, \<lparr>jh_journal = j, jh_text = t\<rparr>, c')
        | (Inr _, c') \<Rightarrow> (Inr s, \<lparr>jh_journal = j, jh_text = t\<rparr>, c')))"

definition reset_journals :: "journal_cache \<Rightarrow> journal_cache" where
  "reset_journals c = c\<lparr>jc_entries := [], jc_bytes := 0\<rparr>"

text \<open>What \<open>open\<close> computes without a cache.\<close>

definition fresh_open :: "kernel_env \<Rightarrow> event list \<Rightarrow> kernel_error + journal" where
  "fresh_open env evs = kbind (unique_or_reduced env evs) (\<lambda>_. construct env evs)"

section \<open>The caches of the program\<close>

text \<open>\<open>H\<close>: the histories whose texts the cache is used for.\<close>

inductive cache_reachable :: "cache_limits \<Rightarrow> kernel_env \<Rightarrow> json_texts \<Rightarrow> event list set \<Rightarrow> journal_cache \<Rightarrow> bool"
  and handle_for :: "cache_limits \<Rightarrow> kernel_env \<Rightarrow> json_texts \<Rightarrow> event list set \<Rightarrow> journal_handle \<Rightarrow> event list \<Rightarrow> bool"
  for l env tx H where
  created: "createContentVerifiedJournalV2 l = Inr c \<Longrightarrow> cache_reachable l env tx H c"
| emptied: "cache_reachable l env tx H c \<Longrightarrow> cache_reachable l env tx H (reset_journals c)"
| opened: "cache_reachable l env tx H c \<Longrightarrow> evs \<in> H \<Longrightarrow> open_journal l env tx c evs = (x, c') \<Longrightarrow> cache_reachable l env tx H c'"
| handled: "cache_reachable l env tx H c \<Longrightarrow> evs \<in> H \<Longrightarrow> open_journal l env tx c evs = (Inr h, c') \<Longrightarrow> handle_for l env tx H h evs"
| noted: "cache_reachable l env tx H c \<Longrightarrow> handle_for l env tx H h evs \<Longrightarrow> evs @ [ev] \<in> H \<Longrightarrow>
    handle_append l env tx c h ev = (x, h', c') \<Longrightarrow> cache_reachable l env tx H c'"
| extended: "cache_reachable l env tx H c \<Longrightarrow> handle_for l env tx H h evs \<Longrightarrow> evs @ [ev] \<in> H \<Longrightarrow>
    handle_append l env tx c h ev = (Inr s, h', c') \<Longrightarrow> handle_for l env tx H h' (evs @ [ev])"

section \<open>Lemmas\<close>

lemma load_append: "load env j (evs @ fs) = kbind (load env j evs) (\<lambda>k. load env k fs)"
proof (induction env j evs rule: load.induct)
  case (2 env j ev evs)
  then show ?case
    by (cases "applyEvent env (j_state j) ev") (auto simp: guard_def split: option.splits)
qed simp

lemma load_appended:
  assumes "load env j evs = Inr k" "journal_append env k ev = (Inr s, k')"
  shows "load env j (evs @ [ev]) = Inr k'"
  using assms by (auto simp: load_append journal_append_def guard_Inr_iff split: option.splits sum.splits)

lemma constructed_ok: "construct env evs = Inr j \<Longrightarrow> journal_ok env j"
  using load_ok journal_ok_empty unfolding construct_def by blast

lemma load_length: "load env j evs = Inr k \<Longrightarrow> length (j_events j) \<le> length (j_events k)"
proof (induction env j evs rule: load.induct)
  case (2 env j ev evs)
  have "length (j_events j) \<le> length (j_events (commit ev st j))" for st by (simp add: commit_def)
  with 2 show ?case by (auto simp: kbind_Inr_iff guard_Inr_iff split: option.splits intro: le_trans)
qed simp

lemma constructed_snapshot:
  assumes "construct env evs = Inr j" "evs \<noteq> []"
  obtains s where "journal_snapshot j = Inr s"
proof -
  obtain e es where e: "evs = e # es" using assms(2) by (cases evs) auto
  then obtain st where "load env (commit e st empty_journal) es = Inr j"
    using assms(1) by (auto simp: construct_def empty_journal_def kbind_Inr_iff)
  from load_length [OF this] have "j_events j \<noteq> []" by (auto simp: commit_def)
  moreover have "history env (j_events j) (j_state j)"
    using constructed_ok [OF assms(1)] by (simp add: journal_ok_def history_iff)
  ultimately have "rs_snapshot (j_state j) \<noteq> None"
    using history_version [of env "j_events j" "j_state j"] by (cases "rs_snapshot (j_state j)") auto
  then show thesis using that by (auto simp: journal_snapshot_def current_def)
qed

lemma join_text_snoc: "join_text sep (xs @ [y]) = (if xs = [] then y else join_text sep xs @ sep @ y)"
  by (induction sep xs rule: join_text.induct) auto

lemma join_text_Nil: "xs \<noteq> [] \<Longrightarrow> [] \<notin> set xs \<Longrightarrow> join_text sep xs \<noteq> []"
  by (cases "(sep, xs)" rule: join_text.cases) auto

lemma extended_text_events:
  assumes "\<forall>e. event_json tx e \<noteq> []"
  shows "extended_text tx (events_json tx evs) ev = events_json tx (evs @ [ev])"
proof (cases "evs = []")
  case False
  have "join_text '','' (map (event_json tx) evs) \<noteq> []"
    using False assms by (intro join_text_Nil) (simp, metis ex_map_conv)
  with False show ?thesis
    by (simp add: extended_text_def events_json_def join_text_snoc)
qed (simp add: extended_text_def events_json_def)

definition total_bytes :: "journal_slot krecord \<Rightarrow> int" where
  "total_bytes r = sum_list (map (slot_bytes \<circ> snd) r)"

definition slot_ok :: "kernel_env \<Rightarrow> json_texts \<Rightarrow> event list set \<Rightarrow> string \<times> journal_slot \<Rightarrow> bool" where
  "slot_ok env tx H x \<longleftrightarrow> 0 \<le> slot_bytes (snd x)
     \<and> (\<exists>evs \<in> H. fst x = sha256 env (events_json tx evs) \<and> construct env evs = Inr (slot_journal (snd x)))"

definition cache_ok :: "cache_limits \<Rightarrow> kernel_env \<Rightarrow> json_texts \<Rightarrow> event list set \<Rightarrow> journal_cache \<Rightarrow> bool" where
  "cache_ok l env tx H c \<longleftrightarrow> 1 \<le> cl_entries l \<and> 1 \<le> cl_bytes l
     \<and> int (length (jc_entries c)) \<le> cl_entries l \<and> jc_bytes c \<le> cl_bytes l \<and> jc_bytes c = total_bytes (jc_entries c)
     \<and> distinct (rkeys (jc_entries c)) \<and> list_all (slot_ok env tx H) (jc_entries c)"

definition handle_ok :: "kernel_env \<Rightarrow> json_texts \<Rightarrow> event list set \<Rightarrow> journal_handle \<Rightarrow> event list \<Rightarrow> bool" where
  "handle_ok env tx H h evs \<longleftrightarrow> construct env evs = Inr (jh_journal h) \<and> jh_text h = events_json tx evs"

lemma total_bytes_simps [simp]:
  "total_bytes [] = 0" "total_bytes (x # r) = slot_bytes (snd x) + total_bytes r" "total_bytes (r @ q) = total_bytes r + total_bytes q"
  by (simp_all add: total_bytes_def)

lemma total_bytes_delete:
  "distinct (rkeys r) \<Longrightarrow> rget r k = Some slot \<Longrightarrow> total_bytes (rdel k r) = total_bytes r - slot_bytes slot"
proof (induction r)
  case (Cons x r)
  show ?case
  proof (cases "fst x = k")
    case True
    then have "rdel k r = r" using Cons.prems(1) by (simp add: rkeys_def delete_idem image_image)
    then show ?thesis using True Cons.prems(2) by (cases x) simp
  next
    case False
    then show ?thesis using Cons by (cases x) (simp add: rkeys_def)
  qed
qed simp

lemma evict_ok:
  "1 \<le> cl_entries l \<Longrightarrow> 1 \<le> cl_bytes l \<Longrightarrow> n = total_bytes r \<Longrightarrow> int (length (jc_entries (evict l r n))) \<le> cl_entries l \<and> jc_bytes (evict l r n) \<le> cl_bytes l
    \<and> jc_bytes (evict l r n) = total_bytes (jc_entries (evict l r n)) \<and> (\<exists>p. r = p @ jc_entries (evict l r n))"
proof (induction l r n rule: evict.induct)
  case (2 l k slot r n)
  show ?case
  proof (cases "cl_entries l < int (length ((k, slot) # r)) \<or> cl_bytes l < n")
    case True
    then have "evict l ((k, slot) # r) n = evict l r (n - slot_bytes slot)" by simp
    moreover have "n - slot_bytes slot = total_bytes r" using 2(4) by simp
    ultimately show ?thesis using 2(1) [OF True 2(2,3)] by (metis append_Cons)
  qed (use 2(4) in auto)
qed auto

lemma set_rdel: "set (rdel k r) \<subseteq> set r"
  by (induction r) auto

lemma length_rdel_less: "k \<in> fst ` set r \<Longrightarrow> length (rdel k r) < length r"
  by (induction r) (auto intro: le_imp_less_Suc length_delete_le less_SucI)

lemma slot_found:
  assumes "list_all (slot_ok env tx H) r" "rget r k = Some slot"
  shows "slot_ok env tx H (k, slot)"
  using assms map_of_SomeD by (fastforce simp: list_all_iff)

lemma forget_ok:
  assumes "cache_ok l env tx H c"
  shows "cache_ok l env tx H (forget_entry k c)" "k \<notin> set (rkeys (jc_entries (forget_entry k c)))"
proof -
  show "cache_ok l env tx H (forget_entry k c)"
  proof (cases "rget (jc_entries c) k")
    case None
    then show ?thesis using assms by (simp add: forget_entry_def)
  next
    case (Some slot)
    have c: "distinct (rkeys (jc_entries c))" "list_all (slot_ok env tx H) (jc_entries c)"
      using assms by (simp_all add: cache_ok_def)
    have "0 \<le> slot_bytes slot" using slot_found [OF c(2) Some] by (simp add: slot_ok_def)
    moreover have "length (rdel k (jc_entries c)) \<le> length (jc_entries c)" by (rule length_delete_le)
    moreover have "list_all (slot_ok env tx H) (rdel k (jc_entries c))"
      using c(2) set_rdel [of k "jc_entries c"] by (auto simp: list_all_iff)
    moreover have "distinct (rkeys (rdel k (jc_entries c)))"
      using c(1) by (simp add: rkeys_def distinct_delete)
    ultimately show ?thesis
      using assms total_bytes_delete [OF c(1) Some] by (simp add: cache_ok_def forget_entry_def Some)
  qed
  show "k \<notin> set (rkeys (jc_entries (forget_entry k c)))"
  proof (cases "rget (jc_entries c) k")
    case None
    then have "k \<notin> fst ` set (jc_entries c)" by (simp add: map_of_eq_None_iff)
    with None show ?thesis by (simp add: forget_entry_def rkeys_def)
  next
    case (Some slot)
    then show ?thesis by (simp add: forget_entry_def rkeys_def delete_keys)
  qed
qed

lemma evicted_ok:
  assumes "1 \<le> cl_entries l" "1 \<le> cl_bytes l" "n = total_bytes r" "distinct (rkeys r)" "list_all (slot_ok env tx H) r"
  shows "cache_ok l env tx H (evict l r n)"
proof -
  obtain p where "r = p @ jc_entries (evict l r n)" using evict_ok [OF assms(1-3)] by blast
  then have "rkeys r = rkeys p @ rkeys (jc_entries (evict l r n))"
      "list_all (slot_ok env tx H) (p @ jc_entries (evict l r n))"
    using assms(5) by (metis map_append rkeys_def)+
  then show ?thesis using evict_ok [OF assms(1-3)] assms(1,2,4) by (simp add: cache_ok_def)
qed

lemma retain_ok:
  assumes "cache_ok l env tx H c" "evs \<in> H" "construct env evs = Inr j" "evs \<noteq> []"
  obtains c' where "retain_journal l env tx (events_json tx evs) j c = (Inr (), c')" "cache_ok l env tx H c'"
proof -
  let ?key = "sha256 env (events_json tx evs)"
  let ?c = "forget_entry ?key c"
  obtain s where s: "journal_snapshot j = Inr s" using constructed_snapshot [OF assms(3,4)] .
  let ?size = "int (length (events_json tx evs)) + int (length (snapshot_json tx s))"
  let ?slot = "\<lparr>slot_journal = journal_fork j, slot_bytes = ?size\<rparr>"
  have ok: "cache_ok l env tx H ?c" and new: "?key \<notin> set (rkeys (jc_entries ?c))"
    using forget_ok [OF assms(1)] by simp_all
  have put: "rput ?key ?slot (jc_entries ?c) = jc_entries ?c @ [(?key, ?slot)]"
    using new by (simp add: rput_new)
  have "slot_ok env tx H (?key, ?slot)"
    using assms(2,3) fork_same [OF constructed_ok [OF assms(3)]] by (auto simp: slot_ok_def)
  then have "cache_ok l env tx H (evict l (jc_entries ?c @ [(?key, ?slot)]) (jc_bytes ?c + ?size))"
    using ok new by (intro evicted_ok) (simp_all add: cache_ok_def rkeys_def)
  with ok s put that show thesis
    by (cases "cl_bytes l < ?size") (simp_all add: retain_journal_def Let_def)
qed

section \<open>Opening and appending\<close>

definition texts_distinct :: "kernel_env \<Rightarrow> json_texts \<Rightarrow> event list set \<Rightarrow> bool" where
  "texts_distinct env tx H \<longleftrightarrow> inj_on (\<lambda>evs. sha256 env (events_json tx evs)) H \<and> (\<forall>e. event_json tx e \<noteq> [])"

lemma open_ok:
  assumes "texts_distinct env tx H" "cache_ok l env tx H c" "evs \<in> H" "open_journal l env tx c evs = (x, c')"
  shows "cache_ok l env tx H c'" "map_sum id jh_journal x = fresh_open env evs"
    "x = Inr h \<Longrightarrow> handle_ok env tx H h evs"
proof -
  let ?t = "events_json tx evs"
  let ?key = "sha256 env ?t"
  have "cache_ok l env tx H c' \<and> map_sum id jh_journal x = fresh_open env evs \<and> (\<forall>h. x = Inr h \<longrightarrow> handle_ok env tx H h evs)"
  proof (cases "unique_or_reduced env evs")
    case (Inl e)
    then show ?thesis using assms by (auto simp: open_journal_def fresh_open_def)
  next
    case (Inr u)
    show ?thesis
    proof (cases "rget (jc_entries c) ?key")
      case (Some slot)
      have c: "distinct (rkeys (jc_entries c))" "list_all (slot_ok env tx H) (jc_entries c)"
        using assms(2) by (simp_all add: cache_ok_def)
      have ok: "slot_ok env tx H (?key, slot)" by (rule slot_found [OF c(2) Some])
      then have j: "construct env evs = Inr (slot_journal slot)"
        using assms(1,3) by (auto simp: slot_ok_def texts_distinct_def dest: inj_onD)
      have put: "rput ?key slot (rdel ?key (jc_entries c)) = rdel ?key (jc_entries c) @ [(?key, slot)]"
        by (rule rput_new) (simp add: rkeys_def delete_keys)
      have "int (length (rdel ?key (jc_entries c))) < int (length (jc_entries c))"
        using map_of_SomeD [OF Some] by (force intro: length_rdel_less)
      then have "cache_ok l env tx H (c\<lparr>jc_entries := rput ?key slot (rdel ?key (jc_entries c))\<rparr>)"
        using assms(2) c ok total_bytes_delete [OF c(1) Some] set_rdel [of ?key "jc_entries c"]
        by (auto simp: cache_ok_def put rkeys_def delete_keys distinct_removeAll list_all_iff)
      then show ?thesis
        using assms(4) Some Inr j fork_same [OF constructed_ok [OF j]]
        by (auto simp: open_journal_def fresh_open_def Let_def handle_ok_def)
    next
      case None
      show ?thesis
      proof (cases "construct env evs")
        case (Inl e)
        then show ?thesis using assms(2,4) Inr None by (auto simp: open_journal_def fresh_open_def Let_def)
      next
        case j: (Inr j)
        show ?thesis
        proof (cases "evs = []")
          case True
          then show ?thesis
            using assms(2,4) Inr None j by (auto simp: open_journal_def fresh_open_def Let_def handle_ok_def)
        next
          case False
          obtain c'' where "retain_journal l env tx ?t j c = (Inr (), c'')" "cache_ok l env tx H c''"
            using retain_ok [OF assms(2,3) j False] .
          then show ?thesis
            using assms(4) Inr None j False by (auto simp: open_journal_def fresh_open_def Let_def handle_ok_def)
        qed
      qed
    qed
  qed
  then show "cache_ok l env tx H c'" "map_sum id jh_journal x = fresh_open env evs"
    "x = Inr h \<Longrightarrow> handle_ok env tx H h evs" by blast+
qed

lemma handle_append_ok:
  assumes "texts_distinct env tx H" "cache_ok l env tx H c" "handle_ok env tx H h evs" "evs @ [ev] \<in> H"
    "handle_append l env tx c h ev = (x, h', c')"
  shows "cache_ok l env tx H c'" "x = Inr s \<Longrightarrow> handle_ok env tx H h' (evs @ [ev])"
    "x = fst (journal_append env (jh_journal h) ev)"
proof -
  obtain y j where a: "journal_append env (jh_journal h) ev = (y, j)" by fastforce
  have "cache_ok l env tx H c' \<and> (\<forall>s. x = Inr s \<longrightarrow> handle_ok env tx H h' (evs @ [ev])) \<and> x = y"
  proof (cases y)
    case (Inl e)
    then show ?thesis using assms(2,5) a by (auto simp: handle_append_def)
  next
    case (Inr s)
    have t: "extended_text tx (jh_text h) ev = events_json tx (evs @ [ev])"
      using assms(1,3) by (simp add: texts_distinct_def handle_ok_def extended_text_events)
    have j: "construct env (evs @ [ev]) = Inr j"
      using assms(3) a Inr unfolding construct_def handle_ok_def by (auto intro: load_appended)
    obtain c'' where "retain_journal l env tx (events_json tx (evs @ [ev])) j c = (Inr (), c'')" "cache_ok l env tx H c''"
      using retain_ok [OF assms(2,4) j] by blast
    then show ?thesis using assms(5) a Inr t j by (auto simp: handle_append_def Let_def handle_ok_def)
  qed
  then show "cache_ok l env tx H c'" "x = Inr s \<Longrightarrow> handle_ok env tx H h' (evs @ [ev])"
    "x = fst (journal_append env (jh_journal h) ev)" using a by auto
qed

lemma reachable_cache:
  assumes "texts_distinct env tx H"
  shows "cache_reachable l env tx H c \<Longrightarrow> cache_ok l env tx H c"
    "handle_for l env tx H h evs \<Longrightarrow> handle_ok env tx H h evs"
proof (induction rule: cache_reachable_handle_for.inducts)
  case (created c)
  then show ?case
    by (auto simp: createContentVerifiedJournalV2_def guard_Inr_iff cache_ok_def rkeys_def)
next
  case (emptied c)
  then show ?case by (simp add: reset_journals_def cache_ok_def rkeys_def)
next
  case (opened c evs x c')
  then show ?case using open_ok(1) [OF assms] by blast
next
  case (handled c evs h c')
  then show ?case using open_ok(3) [OF assms] by blast
next
  case (noted c h evs ev x h' c')
  then show ?case using handle_append_ok(1) [OF assms] by blast
next
  case (extended c h evs ev s h' c')
  then show ?case using handle_append_ok(2) [OF assms] by blast
qed

section \<open>The cache changes nothing\<close>

text \<open>C26: The journal cache changes nothing but time: as long as no two histories it is used for have texts of the same digest,
  a journal opened through it, after any sequence of openings and appends, is the one a fresh construction from the
  events gives, or fails as it does; and the cache stays within its limits and counts its bytes exactly.\<close>

theorem cached_open_is_fresh:
  assumes "inj_on (\<lambda>evs. sha256 env (events_json tx evs)) H" "\<forall>e. event_json tx e \<noteq> []"
    "cache_reachable l env tx H c" "evs \<in> H"
  shows "map_sum id jh_journal (fst (open_journal l env tx c evs)) = fresh_open env evs
    \<and> int (length (jc_entries c)) \<le> cl_entries l \<and> jc_bytes c \<le> cl_bytes l
    \<and> jc_bytes c = sum_list (map (slot_bytes \<circ> snd) (jc_entries c))"
proof -
  have H: "texts_distinct env tx H" using assms(1,2) by (simp add: texts_distinct_def)
  obtain x c' where o: "open_journal l env tx c evs = (x, c')" by fastforce
  have c: "cache_ok l env tx H c" by (rule reachable_cache(1) [OF H assms(3)])
  then show ?thesis using open_ok(2) [OF H c assms(4) o] o by (simp add: cache_ok_def total_bytes_def)
qed

definition sample_texts :: json_texts where
  "sample_texts = \<lparr>event_json = (\<lambda>e. ''{'' @ ev_event_id e @ ''}''), snapshot_json = (\<lambda>s. ''s'')\<rparr>"

text \<open>The first three events of the sample are opened twice; the second time they come from the cache.\<close>

theorem cached_open_is_fresh_witness:
  "\<exists>st c. cache_reachable DEFAULT_CACHE_LIMITS sample_env sample_texts {take 3 sample_events, take 4 sample_events} c
     \<and> map_sum id jh_journal (fst (open_journal DEFAULT_CACHE_LIMITS sample_env sample_texts c (take 3 sample_events)))
         = Inr (sample_journal 3 st)"
proof -
  let ?l = DEFAULT_CACHE_LIMITS and ?H = "{take 3 sample_events, take 4 sample_events}"
  let ?c = "\<lparr>jc_entries = [], jc_bytes = 0\<rparr>"
  obtain st s where h: "history sample_env (take 3 sample_events) st" "rs_snapshot st = Some s"
    using sample_dispatched by (rule sample_checkD)
  have d: "distinct (map ev_event_id (take 3 sample_events))"
    using sample_ids(1) by (simp add: take_map [symmetric])
  have j: "construct sample_env (take 3 sample_events) = Inr (sample_journal 3 st)"
    using construct_roundtrip [OF reachable_ok [OF sample_journal_reachable [OF h(1)]]] by (simp add: sample_journal_def)
  obtain x c where c: "open_journal ?l sample_env sample_texts ?c (take 3 sample_events) = (x, c)" by fastforce
  have r: "cache_reachable ?l sample_env sample_texts ?H c"
  proof (rule cache_reachable_handle_for.opened [OF _ _ c])
    show "cache_reachable ?l sample_env sample_texts ?H ?c"
      by (rule cache_reachable_handle_for.created)
         (simp add: createContentVerifiedJournalV2_def DEFAULT_CACHE_LIMITS_def guard_def isSafeInteger_def max_safe_integer_def)
  qed simp
  have inj: "inj_on (\<lambda>evs. sha256 sample_env (events_json sample_texts evs)) ?H"
    by (simp add: sample_env_def sample_texts_def events_json_def sample_events_def sample_event_def)
  have ne: "\<forall>e. event_json sample_texts e \<noteq> []" by (simp add: sample_texts_def)
  from cached_open_is_fresh [OF inj ne r] d j have "map_sum id jh_journal
      (fst (open_journal ?l sample_env sample_texts c (take 3 sample_events))) = Inr (sample_journal 3 st)"
    by (simp add: fresh_open_def unique_or_reduced_def)
  with r show ?thesis by blast
qed

end
