(* ===== verification/JournalObjects.thy ===== *)
theory JournalObjects
  imports Journal
begin

text \<open>
  \<open>AssignmentJournalV2\<close> (\<open>reducer.ts\<close>) over an explicit object store. A journal refers to a state object, and a state
  object to a snapshot, a map and a set, which the reducer changes where they lie. Forks share the snapshot of the journal
  they continue. \<open>Journal\<close> is the abstraction: values in place of references. This theory shows that copying before every
  append makes it sound.
\<close>

section \<open>Objects\<close>

text \<open>
  One store for each kind of mutable object; what is allocated lies below \<open>os_free\<close>. Retained events are not among them:
  they are copied on the way in and out and no code writes to them. The containers of events and of their index belong to
  one journal each and are never shared, so a journal object holds their contents.
\<close>

record state_object =
  so_snapshot :: "nat option"
  so_superseded :: bool
  so_clarifications :: nat
  so_holds :: nat

record object_store =
  os_states :: "nat \<Rightarrow> state_object"
  os_snapshots :: "nat \<Rightarrow> snapshot"
  os_maps :: "nat \<Rightarrow> string krecord"
  os_sets :: "nat \<Rightarrow> string list"
  os_free :: nat

record journal_object =
  jo_events :: "event list"
  jo_by_id :: "event krecord"
  jo_state :: nat

text \<open>What the objects stand for.\<close>

definition state_of :: "object_store \<Rightarrow> nat \<Rightarrow> reducer_state" where
  "state_of h l = (let o' = os_states h l in
     \<lparr>rs_snapshot = map_option (os_snapshots h) (so_snapshot o'), rs_superseded = so_superseded o',
      rs_clarification_by_variable = os_maps h (so_clarifications o'), rs_provider_usage_hold_ids = os_sets h (so_holds o')\<rparr>)"

definition journal_of :: "object_store \<Rightarrow> journal_object \<Rightarrow> journal" where
  "journal_of h j = \<lparr>j_events = jo_events j, j_by_id = jo_by_id j, j_state = state_of h (jo_state j)\<rparr>"

section \<open>Operations\<close>

text \<open>A state object over new containers; \<open>clarificationByVariable: new Map(...)\<close> and \<open>providerUsageHoldIds: new Set(...)\<close>.\<close>

definition new_state_object :: "nat option \<Rightarrow> bool \<Rightarrow> string krecord \<Rightarrow> string list \<Rightarrow> object_store \<Rightarrow> nat \<times> object_store" where
  "new_state_object snap over clar holds h = (let l = os_free h in
     (l, h\<lparr>os_states := (os_states h)(l := \<lparr>so_snapshot = snap, so_superseded = over, so_clarifications = l, so_holds = l\<rparr>),
          os_maps := (os_maps h)(l := clar), os_sets := (os_sets h)(l := holds), os_free := l + 1\<rparr>))"

definition initial_state_object :: "object_store \<Rightarrow> nat \<times> object_store" where
  "initial_state_object h = new_state_object None False [] [] h"

text \<open>The copy \<open>append\<close> makes: \<open>structuredClone\<close> of the snapshot, new containers.\<close>

definition clone_state :: "nat \<Rightarrow> object_store \<Rightarrow> nat \<times> object_store" where
  "clone_state l h = (let o' = os_states h l;
       (snap, h1) = (case so_snapshot o' of
           None \<Rightarrow> (None, h)
         | Some k \<Rightarrow> (Some (os_free h), h\<lparr>os_snapshots := (os_snapshots h)(os_free h := os_snapshots h k), os_free := os_free h + 1\<rparr>))
     in new_state_object snap (so_superseded o') (os_maps h (so_clarifications o')) (os_sets h (so_holds o')) h1)"

text \<open>The copy \<open>fork\<close> makes: new containers, but the same snapshot.\<close>

definition share_state :: "nat \<Rightarrow> object_store \<Rightarrow> nat \<times> object_store" where
  "share_state l h = (let o' = os_states h l in
     new_state_object (so_snapshot o') (so_superseded o') (os_maps h (so_clarifications o')) (os_sets h (so_holds o')) h)"

text \<open>
  The reducer writes to the objects it is given: the fields of the state object, its map and its set, and at the end a new
  snapshot (\<open>state.snapshot = withDerivedState(snapshot)\<close>). What a handler has written before it throws, and what it leaves
  in the snapshot object it started from, is a parameter: \<open>residue\<close> may be anything.
\<close>

definition write_through :: "nat \<Rightarrow> reducer_state \<Rightarrow> object_store \<Rightarrow> object_store" where
  "write_through l st h = (let o' = os_states h l in
     h\<lparr>os_states := (os_states h)(l := o'\<lparr>so_superseded := rs_superseded st\<rparr>),
       os_snapshots := (case (so_snapshot o', rs_snapshot st) of
           (Some k, Some s) \<Rightarrow> (os_snapshots h)(k := s) | _ \<Rightarrow> os_snapshots h),
       os_maps := (os_maps h)(so_clarifications o' := rs_clarification_by_variable st),
       os_sets := (os_sets h)(so_holds o' := rs_provider_usage_hold_ids st)\<rparr>)"

definition assign_snapshot :: "nat \<Rightarrow> snapshot option \<Rightarrow> object_store \<Rightarrow> object_store" where
  "assign_snapshot l x h = (case x of
      None \<Rightarrow> h\<lparr>os_states := (os_states h)(l := (os_states h l)\<lparr>so_snapshot := None\<rparr>)\<rparr>
    | Some s \<Rightarrow> h\<lparr>os_states := (os_states h)(l := (os_states h l)\<lparr>so_snapshot := Some (os_free h)\<rparr>),
         os_snapshots := (os_snapshots h)(os_free h := s), os_free := os_free h + 1\<rparr>)"

type_synonym residue = "event \<Rightarrow> reducer_state \<Rightarrow> reducer_state"

definition apply_in_place :: "kernel_env \<Rightarrow> residue \<Rightarrow> nat \<Rightarrow> event \<Rightarrow> object_store \<Rightarrow> (kernel_error + unit) \<times> object_store" where
  "apply_in_place env residue l ev h = (let left = residue ev (state_of h l) in
     case applyEvent env (state_of h l) ev of
       Inl e \<Rightarrow> (Inl e, write_through l left h)
     | Inr st \<Rightarrow> (Inr (), assign_snapshot l (rs_snapshot st) (write_through l (st\<lparr>rs_snapshot := rs_snapshot left\<rparr>) h)))"

text \<open>The constructor reduces in place, on the objects it has just made; an exception leaves no journal.\<close>

definition retain_event :: "event \<Rightarrow> nat \<Rightarrow> journal_object \<Rightarrow> journal_object" where
  "retain_event ev l j = \<lparr>jo_events = jo_events j @ [ev], jo_by_id = rput (ev_event_id ev) ev (jo_by_id j), jo_state = l\<rparr>"

fun load_object :: "kernel_env \<Rightarrow> residue \<Rightarrow> journal_object \<Rightarrow> event list \<Rightarrow> object_store \<Rightarrow> (kernel_error + journal_object) \<times> object_store" where
  "load_object env residue j [] h = (Inr j, h)"
| "load_object env residue j (ev # evs) h = (case rget (jo_by_id j) (ev_event_id ev) of
      Some existing \<Rightarrow> (if same_event env existing ev then load_object env residue j evs h
        else (Inl ''assignment_event_id_conflict'', h))
    | None \<Rightarrow> (case apply_in_place env residue (jo_state j) ev h of
        (Inl e, h') \<Rightarrow> (Inl e, h')
      | (Inr _, h') \<Rightarrow> load_object env residue (retain_event ev (jo_state j) j) evs h'))"

definition construct_object :: "kernel_env \<Rightarrow> residue \<Rightarrow> event list \<Rightarrow> object_store \<Rightarrow> (kernel_error + journal_object) \<times> object_store" where
  "construct_object env residue evs h = (case initial_state_object h of
      (l, h1) \<Rightarrow> load_object env residue \<lparr>jo_events = [], jo_by_id = [], jo_state = l\<rparr> evs h1)"

text \<open>\<open>fork\<close> makes an empty journal and replaces its containers and its state.\<close>

definition fork_object :: "journal_object \<Rightarrow> object_store \<Rightarrow> journal_object \<times> object_store" where
  "fork_object j h = (case share_state (jo_state j) (snd (initial_state_object h)) of
      (l, h1) \<Rightarrow> (\<lparr>jo_events = jo_events j, jo_by_id = fold (\<lambda>ev. rput (ev_event_id ev) ev) (jo_events j) [], jo_state = l\<rparr>, h1))"

definition snapshot_object :: "journal_object \<Rightarrow> object_store \<Rightarrow> kernel_error + snapshot" where
  "snapshot_object j h = current (state_of h (jo_state j))"

definition append_object :: "kernel_env \<Rightarrow> residue \<Rightarrow> journal_object \<Rightarrow> event \<Rightarrow> object_store
    \<Rightarrow> (kernel_error + snapshot) \<times> journal_object \<times> object_store" where
  "append_object env residue j ev h = (case rget (jo_by_id j) (ev_event_id ev) of
      Some existing \<Rightarrow> (guard [(same_event env existing ev, ''assignment_event_id_conflict'')] (snapshot_object j h), j, h)
    | None \<Rightarrow> (case clone_state (jo_state j) h of (l, h1) \<Rightarrow>
        (case apply_in_place env residue l ev h1 of
          (Inl e, h2) \<Rightarrow> (Inl e, j, h2)
        | (Inr _, h2) \<Rightarrow> let j' = retain_event ev l j in (snapshot_object j' h2, j', h2))))"

text \<open>The journal objects of a running program, and the store they live in.\<close>

inductive world :: "kernel_env \<Rightarrow> residue \<Rightarrow> object_store \<Rightarrow> journal_object list \<Rightarrow> bool" for env residue where
  started: "world env residue h []"
| constructed: "world env residue h js \<Longrightarrow> construct_object env residue evs h = (Inr j, h') \<Longrightarrow> world env residue h' (js @ [j])"
| not_constructed: "world env residue h js \<Longrightarrow> construct_object env residue evs h = (Inl e, h') \<Longrightarrow> world env residue h' js"
| forked: "world env residue h js \<Longrightarrow> i < length js \<Longrightarrow> fork_object (js ! i) h = (j, h') \<Longrightarrow> world env residue h' (js @ [j])"
| appended: "world env residue h js \<Longrightarrow> i < length js \<Longrightarrow> append_object env residue (js ! i) ev h = (x, j, h') \<Longrightarrow>
    world env residue h' (js[i := j])"

section \<open>What an operation leaves alone\<close>

text \<open>Everything allocated below \<open>n\<close> is as it was.\<close>

definition same_below :: "nat \<Rightarrow> object_store \<Rightarrow> object_store \<Rightarrow> bool" where
  "same_below n h h' \<longleftrightarrow> n \<le> os_free h \<and> os_free h \<le> os_free h' \<and> (\<forall>k<n. os_states h' k = os_states h k
     \<and> os_snapshots h' k = os_snapshots h k \<and> os_maps h' k = os_maps h k \<and> os_sets h' k = os_sets h k)"

text \<open>The objects a state refers to lie between two marks.\<close>

definition between :: "nat \<Rightarrow> nat \<Rightarrow> object_store \<Rightarrow> nat \<Rightarrow> bool" where
  "between m n h l \<longleftrightarrow> (\<forall>k\<in>{l, so_clarifications (os_states h l), so_holds (os_states h l)}
     \<union> set_option (so_snapshot (os_states h l)). m \<le> k \<and> k < n)"

lemmas object_defs = same_below_def between_def state_of_def Let_def

lemma same_below_refl: "n \<le> os_free h \<Longrightarrow> same_below n h h"
  by (simp add: same_below_def)

lemma same_below_trans: "same_below n h h' \<Longrightarrow> same_below n h' h'' \<Longrightarrow> same_below n h h''"
  by (simp add: same_below_def)

lemma same_below_mono: "same_below n h h' \<Longrightarrow> m \<le> n \<Longrightarrow> same_below m h h'"
  by (simp add: same_below_def)

text \<open>A state whose objects lie below the mark stands for what it did.\<close>

lemma same_below_state:
  assumes "same_below n h h'" "between m n h l"
  shows "state_of h' l = state_of h l" "between m n h' l"
proof -
  have s: "os_states h' l = os_states h l"
    and m: "os_maps h' (so_clarifications (os_states h l)) = os_maps h (so_clarifications (os_states h l))"
    and t: "os_sets h' (so_holds (os_states h l)) = os_sets h (so_holds (os_states h l))"
    using assms by (simp_all add: same_below_def between_def)
  have "map_option (os_snapshots h') (so_snapshot (os_states h l)) = map_option (os_snapshots h) (so_snapshot (os_states h l))"
    using assms by (cases "so_snapshot (os_states h l)") (simp_all add: same_below_def between_def)
  then show "state_of h' l = state_of h l" by (simp add: state_of_def s m t)
  show "between m n h' l" using assms(2) s by (simp add: between_def)
qed

lemma between_weaken: "between m n h l \<Longrightarrow> m' \<le> m \<Longrightarrow> n \<le> n' \<Longrightarrow> between m' n' h l"
  by (auto simp: between_def)


section \<open>Copies\<close>

lemma new_state_object:
  assumes "new_state_object snap over clar holds h = (l, h')" "n \<le> os_free h" "\<And>k. snap = Some k \<Longrightarrow> m \<le> k \<and> k < os_free h" "m \<le> os_free h"
  shows "same_below n h h'" "between m (os_free h') h' l"
    "state_of h' l = \<lparr>rs_snapshot = map_option (os_snapshots h) snap, rs_superseded = over,
       rs_clarification_by_variable = clar, rs_provider_usage_hold_ids = holds\<rparr>"
  using assms by (auto simp: new_state_object_def object_defs less_Suc_eq)

lemma initial_state_object:
  assumes "initial_state_object h = (l, h')"
  shows "same_below (os_free h) h h'" "between (os_free h) (os_free h') h' l" "state_of h' l = initial_reducer_state"
  using new_state_object [of None False "[]" "[]" h l h' "os_free h" "os_free h"] assms
  by (simp_all add: initial_state_object_def initial_reducer_state_def)

text \<open>A clone stands for the same state and shares nothing with the original.\<close>

lemma clone_state:
  assumes "clone_state l h = (l', h')"
  shows "same_below (os_free h) h h'" "between (os_free h) (os_free h') h' l'" "state_of h' l' = state_of h l"
  using assms
  by (auto simp: clone_state_def new_state_object_def object_defs less_Suc_eq split: option.splits)

lemma share_state:
  assumes "share_state l h = (l', h')" "between 0 n h l" "n \<le> os_free h"
  shows "same_below n h h'" "between 0 (os_free h') h' l'" "state_of h' l' = state_of h l"
  using assms
  by (auto simp: share_state_def new_state_object_def object_defs less_Suc_eq)

section \<open>The reducer in place\<close>

lemma write_through:
  assumes "between n (os_free h) h l" "n \<le> os_free h"
  shows "same_below n h (write_through l st h)" "between n (os_free (write_through l st h)) (write_through l st h) l"
  using assms by (auto simp: write_through_def object_defs split: option.splits)

lemma assign_snapshot:
  assumes "between n (os_free h) h l" "n \<le> os_free h"
  shows "same_below n h (assign_snapshot l x h)" "between n (os_free (assign_snapshot l x h)) (assign_snapshot l x h) l"
  using assms by (auto simp: assign_snapshot_def object_defs less_Suc_eq split: option.splits)

lemma state_of_assigned:
  "state_of (assign_snapshot l (rs_snapshot st) (write_through l (st\<lparr>rs_snapshot := x\<rparr>) h)) l = st"
  by (cases "rs_snapshot st") (simp_all add: assign_snapshot_def write_through_def state_of_def Let_def)

text \<open>On objects above the mark, the reducer does what \<open>applyEvent\<close> says and touches nothing below.\<close>

lemma apply_in_place:
  assumes "apply_in_place env residue l ev h = (x, h')" "between n (os_free h) h l" "n \<le> os_free h"
  shows "same_below n h h'" "between n (os_free h') h' l"
    "x = kbind (applyEvent env (state_of h l) ev) (\<lambda>_. Inr ())" "applyEvent env (state_of h l) ev = Inr st \<Longrightarrow> state_of h' l = st"
proof -
  let ?left = "residue ev (state_of h l)"
  have d: "apply_in_place env residue l ev h = (case applyEvent env (state_of h l) ev of
       Inl e \<Rightarrow> (Inl e, write_through l ?left h)
     | Inr st \<Rightarrow> (Inr (), assign_snapshot l (rs_snapshot st) (write_through l (st\<lparr>rs_snapshot := rs_snapshot ?left\<rparr>) h)))"
    unfolding apply_in_place_def Let_def ..
  have w: "same_below n h (write_through l t h)" "between n (os_free (write_through l t h)) (write_through l t h) l"
    "n \<le> os_free (write_through l t h)" for t
    using write_through [OF assms(2,3), of t] by (auto simp: same_below_def)
  show "same_below n h h'" "between n (os_free h') h' l"
    using assms(1) w assign_snapshot [OF w(2,3)] same_below_trans [OF w(1) assign_snapshot(1) [OF w(2,3)]]
    by (auto simp: d split: sum.splits)
  show "x = kbind (applyEvent env (state_of h l) ev) (\<lambda>_. Inr ())"
    using assms(1) by (auto simp: d split: sum.splits)
  show "applyEvent env (state_of h l) ev = Inr st \<Longrightarrow> state_of h' l = st"
    using assms(1) state_of_assigned by (auto simp: d)
qed


section \<open>Operations on objects and their abstraction\<close>

text \<open>A journal object is as new if everything it refers to was allocated after the mark.\<close>

lemma load_object:
  assumes "load_object env residue j evs h = (x, h')" "between n (os_free h) h (jo_state j)" "n \<le> os_free h"
  shows "same_below n h h' \<and> (\<forall>j'. x = Inr j' \<longrightarrow> between n (os_free h') h' (jo_state j'))
    \<and> load env (journal_of h j) evs = kbind x (\<lambda>j'. Inr (journal_of h' j'))"
  using assms
proof (induction evs arbitrary: j h)
  case Nil
  then show ?case by (auto simp: same_below_refl)
next
  case (Cons ev evs)
  show ?case
  proof (cases "rget (jo_by_id j) (ev_event_id ev)")
    case (Some existing)
    then show ?thesis
      using Cons.prems Cons.IH [of j h] by (auto simp: journal_of_def guard_def same_below_refl split: if_splits)
  next
    case None
    obtain y h1 where a: "apply_in_place env residue (jo_state j) ev h = (y, h1)" by fastforce
    note p = apply_in_place [OF a Cons.prems(2,3)]
    show ?thesis
    proof (cases "applyEvent env (state_of h (jo_state j)) ev")
      case (Inl e)
      then show ?thesis using Cons.prems(1) None a p(1,3) by (auto simp: journal_of_def)
    next
      case (Inr st)
      let ?j = "retain_event ev (jo_state j) j"
      have l: "load_object env residue ?j evs h1 = (x, h')"
        using Cons.prems(1) None a p(3) Inr by simp
      have r: "journal_of h1 ?j = commit ev st (journal_of h j)"
        using p(4) [OF Inr] by (simp add: journal_of_def retain_event_def commit_def)
      have b: "between n (os_free h1) h1 (jo_state ?j)" "n \<le> os_free h1"
        using p(1,2) by (simp_all add: retain_event_def same_below_def)
      have "load env (journal_of h j) (ev # evs) = load env (journal_of h1 ?j) evs"
        using None Inr r by (simp add: journal_of_def)
      then show ?thesis using Cons.IH [OF l b] same_below_trans [OF p(1)] by simp
    qed
  qed
qed

lemma construct_object:
  assumes "construct_object env residue evs h = (x, h')"
  shows "same_below (os_free h) h h'" "x = Inr j \<Longrightarrow> between (os_free h) (os_free h') h' (jo_state j)"
    "construct env evs = kbind x (\<lambda>j. Inr (journal_of h' j))"
proof -
  obtain l h1 where i: "initial_state_object h = (l, h1)" by fastforce
  note i' = initial_state_object [OF i]
  let ?j = "\<lparr>jo_events = [], jo_by_id = [], jo_state = l\<rparr>"
  have e: "journal_of h1 ?j = empty_journal"
    using i'(3) by (simp add: journal_of_def empty_journal_def)
  have l: "load_object env residue ?j evs h1 = (x, h')"
    using assms i by (simp add: construct_object_def)
  have b: "between (os_free h) (os_free h1) h1 (jo_state ?j)" "os_free h \<le> os_free h1"
    using i'(1,2) by (simp_all add: same_below_def)
  note p = load_object [OF l b]
  show "same_below (os_free h) h h'" using same_below_trans [OF i'(1)] p by blast
  show "x = Inr j \<Longrightarrow> between (os_free h) (os_free h') h' (jo_state j)" using p by blast
  show "construct env evs = kbind x (\<lambda>j. Inr (journal_of h' j))" using p e by (simp add: construct_def)
qed

lemma fork_object:
  assumes "fork_object j h = (j', h')" "between 0 (os_free h) h (jo_state j)"
  shows "same_below (os_free h) h h'" "between 0 (os_free h') h' (jo_state j')" "journal_of h' j' = journal_fork (journal_of h j)"
proof -
  obtain l h1 where i: "initial_state_object h = (l, h1)" by fastforce
  obtain l' h2 where c: "share_state (jo_state j) h1 = (l', h2)" by fastforce
  note i' = initial_state_object [OF i]
  note k = same_below_state [OF i'(1) assms(2)]
  have f: "os_free h \<le> os_free h1" using i'(1) by (simp add: same_below_def)
  note c' = share_state [OF c k(2) f]
  have d: "j' = \<lparr>jo_events = jo_events j, jo_by_id = fold (\<lambda>ev. rput (ev_event_id ev) ev) (jo_events j) [], jo_state = l'\<rparr>"
    "h' = h2" using assms(1) i c by (simp_all add: fork_object_def)
  show "same_below (os_free h) h h'" using same_below_trans [OF i'(1) c'(1)] d by simp
  show "between 0 (os_free h') h' (jo_state j')" using c'(2) d by simp
  show "journal_of h' j' = journal_fork (journal_of h j)"
    using c'(3) k(1) d by (simp add: journal_of_def journal_fork_def)
qed

lemma append_object:
  assumes "append_object env residue j ev h = (x, j', h')" "between 0 (os_free h) h (jo_state j)"
  shows "same_below (os_free h) h h'" "between 0 (os_free h') h' (jo_state j')"
    "journal_append env (journal_of h j) ev = (x, journal_of h' j')" "x = Inl e \<Longrightarrow> j' = j"
proof -
  have "same_below (os_free h) h h' \<and> between 0 (os_free h') h' (jo_state j')
    \<and> journal_append env (journal_of h j) ev = (x, journal_of h' j') \<and> (\<forall>e. x = Inl e \<longrightarrow> j' = j)"
  proof (cases "rget (jo_by_id j) (ev_event_id ev)")
    case (Some existing)
    then show ?thesis
      using assms by (auto simp: append_object_def journal_append_def journal_of_def snapshot_object_def same_below_refl)
  next
    case None
    obtain l h1 where c: "clone_state (jo_state j) h = (l, h1)" by fastforce
    note c' = clone_state [OF c]
    have f: "os_free h \<le> os_free h1" using c'(1) by (simp add: same_below_def)
    obtain y h2 where a: "apply_in_place env residue l ev h1 = (y, h2)" by fastforce
    note p = apply_in_place [OF a c'(2) f]
    have s: "same_below (os_free h) h h2" using same_below_trans [OF c'(1) p(1)] .
    show ?thesis
    proof (cases "applyEvent env (state_of h (jo_state j)) ev")
      case (Inl e)
      then have d: "x = Inl e" "j' = j" "h' = h2"
        using assms(1) None c a p(3) c'(3) by (simp_all add: append_object_def)
      then show ?thesis
        using None Inl s same_below_state [OF s assms(2)] between_weaken [of 0 "os_free h" h2 "jo_state j" 0 "os_free h2"]
        by (auto simp: journal_append_def journal_of_def same_below_def)
    next
      case (Inr st)
      let ?j = "retain_event ev l j"
      have d: "x = current st" "j' = ?j" "h' = h2"
        using assms(1) None c a p(3) p(4) Inr c'(3) by (simp_all add: append_object_def snapshot_object_def retain_event_def)
      have t: "state_of h2 l = st" using p(4) Inr c'(3) by simp
      have "rs_snapshot st \<noteq> None"
        using applies_kernel_step [OF Inr] by (cases rule: kernel_step.cases) simp_all
      then show ?thesis
        using None Inr s d t between_weaken [OF p(2), of 0 "os_free h2"]
        by (auto simp: journal_append_def journal_of_def retain_event_def commit_def current_def)
    qed
  qed
  then show "same_below (os_free h) h h'" "between 0 (os_free h') h' (jo_state j')"
    "journal_append env (journal_of h j) ev = (x, journal_of h' j')" "x = Inl e \<Longrightarrow> j' = j" by blast+
qed


section \<open>Every journal object is a journal\<close>

lemma journal_object_kept:
  assumes "same_below (os_free h) h h'" "between 0 (os_free h) h (jo_state j)"
  shows "journal_of h' j = journal_of h j" "between 0 (os_free h') h' (jo_state j)"
  using same_below_state [OF assms] assms(1) between_weaken [of 0 "os_free h" h' "jo_state j" 0 "os_free h'"]
  by (simp_all add: journal_of_def same_below_def)

definition world_ok :: "kernel_env \<Rightarrow> object_store \<Rightarrow> journal_object list \<Rightarrow> bool" where
  "world_ok env h js \<longleftrightarrow> (\<forall>j\<in>set js. between 0 (os_free h) h (jo_state j) \<and> journal_reachable env (journal_of h j))"

lemma world_ok_kept: "world_ok env h js \<Longrightarrow> same_below (os_free h) h h' \<Longrightarrow> world_ok env h' js"
  using journal_object_kept by (auto simp: world_ok_def)

lemma world_ok_snoc:
  "world_ok env h js \<Longrightarrow> between 0 (os_free h) h (jo_state j) \<Longrightarrow> journal_reachable env (journal_of h j) \<Longrightarrow> world_ok env h (js @ [j])"
  by (auto simp: world_ok_def)

lemma world_ok: "world env residue h js \<Longrightarrow> world_ok env h js"
proof (induction rule: world.induct)
  case (started h)
  show ?case by (simp add: world_ok_def)
next
  case (constructed h js evs j h')
  note c = construct_object [OF constructed(2)]
  have "between 0 (os_free h') h' (jo_state j)" using between_weaken [OF c(2) [OF refl], of 0 "os_free h'"] by simp
  moreover have "journal_reachable env (journal_of h' j)" using c(3) by (intro journal_reachable.constructed) simp
  ultimately show ?case using world_ok_kept [OF constructed.IH c(1)] by (rule world_ok_snoc [rotated])
next
  case (not_constructed h js evs e h')
  show ?case using not_constructed.IH construct_object(1) [OF not_constructed(2)] by (rule world_ok_kept)
next
  case (forked h js i j h')
  have i: "between 0 (os_free h) h (jo_state (js ! i))" "journal_reachable env (journal_of h (js ! i))"
    using forked.IH forked(2) by (simp_all add: world_ok_def)
  note c = fork_object [OF forked(3) i(1)]
  show ?case
    using world_ok_snoc [OF world_ok_kept [OF forked.IH c(1)] c(2)] c(3) journal_reachable.forked [OF i(2)] by simp
next
  case (appended h js i ev x j h')
  have i: "between 0 (os_free h) h (jo_state (js ! i))" "journal_reachable env (journal_of h (js ! i))"
    using appended.IH appended(2) by (simp_all add: world_ok_def)
  note c = append_object [OF appended(3) i(1)]
  have "journal_reachable env (journal_of h' j)"
    using journal_reachable.appended [OF i(2), of ev] c(3) by simp
  then show ?case
    using world_ok_kept [OF appended.IH c(1)] c(2) set_update_subset_insert [of js i j] by (auto simp: world_ok_def)
qed

end
