(* ===== verification/Spec2Isabelle.thy ===== *)
theory Spec2Isabelle
  imports HistoryProperties ProgressProperties SettlementProperties Deviations ControlPlaneProperties TerminalBarrier
    RecoveryOrder JournalCache JournalObjects
begin

text \<open>
  The Assignment Kernel V2 of the operator backend: \<open>src/apps/operator-backend/src/domain/assignment-kernel/\<close> with the
  contract package \<open>src/packages/assignment-kernel-v2-contracts/\<close>. An assignment is a request to inspect or change a
  Revit model that a language model works on. The kernel keeps its truth: an append-only journal of typed events and a
  pure reducer from events to a snapshot. Everything else (the provider loop, the native host, the stores) only proposes
  events and reads snapshots.

  \<^bold>\<open>Parts, and how they interact.\<close> A caller appends an event to a journal (\<open>Journal\<close>), which passes it to the reducer
  (\<open>applyEvent\<close>). The reducer checks version, identity, binding and control state, dispatches on the event to a handler,
  and recomputes the derived fields and the outcome. A handler checks its event against the snapshot with the validators of the
  component it belongs to and returns the changed snapshot or an error code. The progress controller reads a snapshot and
  decides what may happen next; its decision becomes another event.

  \<^item> Data: \<open>KernelTypes\<close>, \<open>KernelState\<close> (\<open>identity.ts\<close>, \<open>criteria.ts\<close>, \<open>assignment_spec.ts\<close>, \<open>operation.ts\<close>,
    \<open>observation.ts\<close>, \<open>events.ts\<close>, \<open>snapshot.ts\<close>). \<open>JsonRecords\<close> reads untyped JSON as the code does.
  \<^item> Reducer: \<open>Admission\<close> (operations enter), \<open>Settlement\<close> (dispatch, result, observation, reconciliation), \<open>Evaluation\<close>
    (criteria), \<open>Interaction\<close> and \<open>Checkpoint\<close> (inputs, reviews, failures, plans, terminal), \<open>ProviderCalls\<close> (the call ledger),
    \<open>DerivedState\<close> (\<open>withDerivedState\<close>), \<open>Reducer\<close> (\<open>applyEvent\<close>), \<open>Journal\<close> (\<open>AssignmentJournalV2\<close> by value) and \<open>JournalObjects\<close>
    (the same class over an object store, with its mutable state, clones and shared snapshots), all of \<open>reducer.ts\<close>.
  \<^item> Policies a handler consults: \<open>ExecutionPolicy\<close>, \<open>OperationScope\<close>, \<open>TargetIdentity\<close>, \<open>InputRegistry\<close>,
    \<open>SemanticAdmissibility\<close>, \<open>ProviderUsage\<close>, \<open>AdvisoryFollowups\<close>, \<open>WorkBudget\<close>, \<open>FollowupAllocation\<close>, \<open>ExecutionTime\<close>,
    \<open>WorkPlan\<close>, \<open>DependencyOrder\<close>, \<open>WorkPlanScope\<close>, \<open>WorkPlanLocation\<close>, \<open>ResultDelivery\<close>.
  \<^item> Repetition and continuation of operations: \<open>RetryReaders\<close>, \<open>WriteContinuations\<close>, \<open>NativeReaders\<close>, over the contract package
    (\<open>NativeArtifact\<close>, \<open>NativeContinuation\<close>, \<open>ContractChecks\<close>).
  \<^item> Outcome: \<open>Postcondition\<close>, \<open>Outcome\<close>, \<open>SavedPartial\<close> (\<open>outcome.ts\<close>, \<open>verified_saved_partial.ts\<close>).
  \<^item> Progress: \<open>ProgressController\<close>, \<open>ProgressDecision\<close>, \<open>ProgressEpoch\<close>, \<open>NativeProgress\<close>, \<open>ConstructionPacing\<close>
    (\<open>progress/\<close>), and the read-only \<open>CriterionEvaluator\<close> and \<open>Projections\<close> (\<open>criterion_evaluator.ts\<close>,
    \<open>progress/telemetry.ts\<close>, \<open>progress/replay.ts\<close>).

  Around the kernel, in \<open>src/apps/operator-backend/src/assignments/\<close>:

  \<^item> The first assignment control plane (\<open>control_plane.ts\<close>), which records the attempts of a run beside the kernel:
    \<open>ControlPlaneData\<close> (records), \<open>ControlPlaneEffects\<close> (authority over an effect), \<open>ControlPlane\<close> (projection, progress, fence),
    \<open>ControlPlaneHandlers\<close> and \<open>ControlPlaneAttempts\<close> (one definition per event), \<open>ControlPlaneReducer\<close> (the reduction).
  \<^item> \<open>ControlPlaneStore\<close>: the log a goal stores, appending to it (\<open>control_plane_store.ts\<close>) and the settlement of expired and
    cancelled work (\<open>settlement_barrier.ts\<close>), which appends events of its own.
  \<^item> \<open>TerminalBarrier\<close> (\<open>assignment_kernel_v2_terminal_barrier.ts\<close>): leases that defer the terminal event of an assignment.
  \<^item> \<open>JournalCache\<close> (\<open>content_verified_journal_v2.ts\<close>): the bounded cache through which the store opens journals.
  \<^item> \<open>RecoveryOrder\<close> (\<open>assignment_kernel_v2_recovery_order.ts\<close>): the order in which the completions of a snapshot are
    recovered, children before parents as the reducer demands.

  Definitions carry the names of the functions they translate; helpers name one condition of the source. \<open>PROJECT.json\<close>
  maps each to its lines.

  \<^bold>\<open>What is shown.\<close> \<open>Lifecycle\<close>, \<open>Invariants\<close> and \<open>History\<close> prove, handler by handler, that every accepted event keeps
  the snapshot well formed and only moves it forward. \<open>EventSourcing\<close> states as locales what a history needs of a
  reducer; \<open>Transitions\<close> interprets them on \<open>applyEvent\<close> and gives the reducer as a step relation. \<open>Provenance\<close> traces
  every record to the event it came with. \<open>SnapshotProperties\<close>, \<open>HistoryProperties\<close>, \<open>AdmissionProperties\<close>,
  \<open>SettlementProperties\<close>, \<open>WorkProperties\<close> and \<open>ProgressProperties\<close> hold the properties of reachable snapshots, of
  histories, of single events, of settlement, of work plans and outcomes, and of the progress controller. The properties of
  the journal as a whole are in this file: first of the journal as a value, then of the journal objects of a running program
  (\<open>world\<close>), which \<open>JournalObjects\<close> shows to denote journals that no operation on another object changes. \<open>Deviations\<close> shows where the reducer does less than its document says.
  \<open>ControlPlaneInvariants\<close> and \<open>ControlPlaneHistory\<close> prove what every event of the first control plane keeps and which way an
  attempt moves, again through the locale of \<open>EventSourcing\<close>; \<open>ControlPlaneProperties\<close> holds its properties and those of
  the stored log (\<open>goal_reachable\<close>: a goal without a log, appended to in any way). \<open>TerminalBarrier\<close>,
  \<open>RecoveryOrder\<close> and \<open>JournalCache\<close> carry their own properties.
  \<open>Samples\<close> holds the concrete histories at which the hypotheses of the properties are shown to hold.

  \<^bold>\<open>How the code is read.\<close>

  \<^item> An exception is \<open>Inl\<close> of its code; messages are dropped. The first control plane stores the reason of a rejection,
    which is therefore kept word for word; \<open>Inr None\<close> of one of its handlers is the \<open>RangeError\<close> of a date. \<open>applyEvent\<close> is a function from reducer state to reducer state;
    the writes of the code to the state object it is given, and whatever it has written before it throws, are modelled in
    \<open>JournalObjects\<close>, which justifies reading a journal by value.
  \<^item> An object with dynamic keys is an association list in insertion order (\<open>'v krecord\<close>), so \<open>Object.values\<close> has the
    order of the code. Keys are taken not to be array indices or names of \<open>Object.prototype\<close>.
  \<^item> Strings are lists of ASCII characters, so their length is their byte length. An absent optional field is \<open>None\<close>;
    where the code tests a string for truth, the empty string is false (\<open>truthy\<close>).
  \<^item> Numbers of the data model are safe integers and are modelled by \<open>int\<close>, with \<open>isSafeInteger\<close> where the code checks it.
    Values of facts may be rational.
  \<^item> A comparison of canonical JSON texts is equality of the values compared, with object keys sorted where they are data.
    Events are compared by their canonical text, a parameter.
  \<^item> Fields whose type admits one literal are kept only where the code checks them. Checks that a TypeScript type makes
    vacuous are left out.
  \<^item> Parameters (\<open>kernel_env\<close>): SHA-256, the collation of \<open>localeCompare\<close>, the text of a number, and the canonical text of
    an event; for the cache, \<open>JSON.stringify\<close> of an event and a snapshot (\<open>json_texts\<close>). The theorems hold for all of
    them; \<open>cached_open_is_fresh\<close> assumes that the digests of the texts in use differ.
  \<^item> \<open>Date.parse\<close> is modelled on full ISO date-times (\<open>date_parse\<close>), the form the program writes; other texts a host may
    parse count as unparsable.
  \<^item> Sorting by a time that does not parse is unspecified in the language; it is read as the first.

  \<^bold>\<open>Bounds.\<close> The dependency visit of \<open>DependencyOrder\<close> carries fuel, one more than the number of items; \<open>dependency_order_decides\<close>
  shows that it never runs out. The visit of \<open>RecoveryOrder\<close> carries one more than the number of operations in flight, of which
  it removes one at every level; \<open>recovery_is_children_first\<close> shows that this is enough. The walk to the ancestors of an operation (\<open>ProgressEpoch\<close>) is bounded by eight
  operations in the code itself. All other recursion is structural.

  \<^bold>\<open>Not modelled.\<close> The persistence of the stores and the timers that wait on them, the HTTP and MCP transports, the provider loop and its prompts, the native hosts, and
  the drafting and redline heuristics over floating-point geometry outside the kernel directory: they are effects and
  numerics around the kernel and add no state to an assignment. The publication parsers of the contract package check wire
  envelopes the kernel does not call. The display projections of work-plan locations only format text.
\<close>

section \<open>The journal\<close>

text \<open>C34: A journal is restored from the events it retains: constructing a journal from them gives back the same
  events, index and reducer state, and a fork starts from exactly that journal.\<close>

theorem journal_roundtrip:
  assumes "journal_reachable env j"
  shows "construct env (j_events j) = Inr j \<and> journal_fork j = j"
  using construct_roundtrip [OF reachable_ok [OF assms]] fork_same [OF reachable_ok [OF assms]] by simp

theorem journal_roundtrip_witness:
  "\<exists>st. construct sample_env (take 11 sample_events) = Inr (sample_journal 11 st) \<and> rs_snapshot st \<noteq> None"
proof -
  obtain st s where h: "history sample_env (take 11 sample_events) st" "rs_snapshot st = Some s"
    using sample_complete by (rule sample_checkD)
  from journal_roundtrip [OF sample_journal_reachable [OF h(1)]] h(2)
  show ?thesis by (intro exI [of _ st]) (simp add: sample_journal_def)
qed

text \<open>Appending is idempotent: delivering the same event again gives the same result and the same journal.\<close>

theorem append_is_idempotent:
  "journal_append env (snd (journal_append env j ev)) ev = journal_append env j ev"
proof (cases "rget (j_by_id j) (ev_event_id ev)")
  case None
  then show ?thesis
    by (cases "applyEvent env (j_state j) ev")
       (simp_all add: journal_append_def commit_def same_event_def guard_def)
next
  case (Some existing)
  then show ?thesis by (simp add: journal_append_def)
qed

text \<open>An event identity is never reused for different content: the append throws the conflict code and leaves the
  journal as it was.\<close>

theorem event_identity_conflict:
  assumes "journal_reachable env j" "existing \<in> set (j_events j)" "ev_event_id ev = ev_event_id existing"
    "canonicalEventText env ev \<noteq> canonicalEventText env existing"
  shows "journal_append env j ev = (Inl ''assignment_event_id_conflict'', j)"
proof -
  have ok: "journal_ok env j" by (rule reachable_ok) (rule assms(1))
  then have "rget (j_by_id j) (ev_event_id ev) = Some existing"
    using assms(2,3) by (simp add: journal_ok_def rget_index)
  then show ?thesis using assms(4) by (simp add: journal_append_def same_event_def guard_def)
qed

theorem event_identity_conflict_witness:
  "\<exists>st. journal_append sample_env (sample_journal 3 st) ((sample_event 2 RunStarted)\<lparr>ev_occurred_at := ''u''\<rparr>)
     = (Inl ''assignment_event_id_conflict'', sample_journal 3 st)"
proof -
  obtain st s where h: "history sample_env (take 3 sample_events) st" "rs_snapshot st = Some s"
    using sample_dispatched by (rule sample_checkD)
  have "sample_event 2 (OperationAdmitted sample_operation) \<in> set (j_events (sample_journal 3 st))"
    by (simp add: sample_journal_def sample_events_def)
  from event_identity_conflict [OF sample_journal_reachable [OF h(1)] this]
  show ?thesis by (intro exI [of _ st]) (simp add: sample_env_def sample_event_def)
qed

text \<open>C5: A terminal assignment is final: no event whatsoever changes its journal.\<close>

theorem terminal_is_final:
  assumes "journal_reachable env j" "journal_snapshot j = Inr s" "sn_terminal s"
  shows "snd (journal_append env j ev) = j"
  using reachable_ok [OF assms(1)]
proof (cases rule: append_cases [where ev = ev])
  case (accepted st)
  have "rs_snapshot (j_state j) = Some s"
    using assms(2) by (simp add: journal_snapshot_def current_def split: option.splits)
  then have "\<not> sn_terminal s"
    using applyEvent_moves(1) [OF accepted(2)] history_ok [OF reachable_history [OF assms(1)]] by blast
  with assms(3) show ?thesis by simp
qed simp_all

theorem terminal_is_final_witness:
  "\<exists>st. snd (journal_append sample_env (sample_journal 11 st) (sample_event 12 RunStarted)) = sample_journal 11 st"
proof -
  obtain st s where h: "history sample_env (take 11 sample_events) st" "rs_snapshot st = Some s" "sn_terminal s"
    using sample_complete by (rule sample_checkD) blast
  have "journal_snapshot (sample_journal 11 st) = Inr s"
    using h(2) by (simp add: journal_snapshot_def current_def sample_journal_def)
  from terminal_is_final [OF sample_journal_reachable [OF h(1)] this h(3)] show ?thesis by blast
qed

section \<open>The log a journal implements\<close>

text \<open>
  What a client of the journal may think it is: a list of events, extended by an event of a new identity when the
  history with it still reduces. No index, no incremental state.
\<close>

definition log_append :: "kernel_env \<Rightarrow> event list \<Rightarrow> event \<Rightarrow> event list" where
  "log_append env evs ev = (if ev_event_id ev \<in> ev_event_id ` set evs then evs
     else case reduceAssignmentEventsV2 env (evs @ [ev]) of Inl e \<Rightarrow> evs | Inr s \<Rightarrow> evs @ [ev])"

lemma reduce_accepted:
  assumes "applyEvents env initial_reducer_state evs = Inr st" "applyEvent env st ev = Inr st'"
  obtains s where "reduceAssignmentEventsV2 env (evs @ [ev]) = Inr s" "rs_snapshot st' = Some s"
proof -
  have "rs_snapshot st' \<noteq> None"
    using applies_kernel_step [OF assms(2)] by (cases rule: kernel_step.cases) simp_all
  then show thesis
    using assms that by (auto simp: reduceAssignmentEventsV2_def kernel.run_snoc current_def)
qed

lemma log_append_journal:
  assumes "journal_ok env j"
  shows "j_events (snd (journal_append env j ev)) = log_append env (j_events j) ev"
  using assms
proof (cases rule: append_cases [where ev = ev])
  case (repeated existing)
  then have "ev_event_id ev \<in> ev_event_id ` set (j_events j)" by (metis imageI)
  then show ?thesis using repeated(3) by (simp add: log_append_def)
next
  case (rejected e)
  then show ?thesis
    using assms by (simp add: log_append_def journal_ok_def reduceAssignmentEventsV2_def kernel.run_snoc)
next
  case (accepted st)
  have "applyEvents env initial_reducer_state (j_events j) = Inr (j_state j)"
    using assms by (simp add: journal_ok_def)
  then obtain s where "reduceAssignmentEventsV2 env (j_events j @ [ev]) = Inr s"
    using accepted(2) by (rule reduce_accepted)
  then show ?thesis using accepted(1,3) by (simp add: log_append_def commit_def)
qed

lemma append_run_ok:
  "journal_ok env j \<Longrightarrow> journal_ok env (fold (\<lambda>ev j. snd (journal_append env j ev)) evs j)"
  by (induction evs arbitrary: j) (simp_all add: append_ok)

text \<open>C3: The journal, with its index and its incrementally kept state, implements the plain log: whatever is appended to
  a reachable journal, in whatever order, its events are those the log holds, and its snapshot is their reduction.\<close>

theorem journal_refines_log:
  assumes "journal_reachable env j"
  shows "j_events (fold (\<lambda>ev j. snd (journal_append env j ev)) evs j)
      = fold (\<lambda>ev log. log_append env log ev) evs (j_events j)
    \<and> journal_snapshot (fold (\<lambda>ev j. snd (journal_append env j ev)) evs j)
      = reduceAssignmentEventsV2 env (fold (\<lambda>ev log. log_append env log ev) evs (j_events j))"
proof -
  have "journal_ok env j \<Longrightarrow> j_events (fold (\<lambda>ev j. snd (journal_append env j ev)) evs j)
      = fold (\<lambda>ev log. log_append env log ev) evs (j_events j)" for j
    by (induction evs arbitrary: j) (simp_all add: append_ok log_append_journal)
  then show ?thesis
    using reachable_ok [OF assms] append_run_ok [of env j evs]
    by (simp add: journal_ok_def journal_snapshot_def reduceAssignmentEventsV2_def)
qed

text \<open>An event out of order and a repeated one leave the log of the first three sample events as it was.\<close>

theorem journal_refines_log_witness:
  "\<exists>st. j_events (fold (\<lambda>ev j. snd (journal_append sample_env j ev)) [sample_event 9 RunStarted, sample_event 3 RunStarted]
        (sample_journal 3 st)) = take 3 sample_events"
proof -
  obtain st s where h: "history sample_env (take 3 sample_events) st" "rs_snapshot st = Some s"
    using sample_dispatched by (rule sample_checkD)
  have v: "sn_assignment_version s = 3"
    using history_version [OF h(1)] h(2) by (simp add: sample_ids)
  have e: "applyEvent sample_env st (sample_event 9 RunStarted) = Inl ''assignment_event_out_of_order''"
    using h(2) v by (simp add: applyEvent_def validateVersion_def expected_version_def sample_event_def guard_def)
  have a: "applyEvents sample_env initial_reducer_state (take 3 sample_events) = Inr st"
    using reachable_ok [OF sample_journal_reachable [OF h(1)]] by (simp add: journal_ok_def sample_journal_def)
  have "log_append sample_env (take 3 sample_events) (sample_event 9 RunStarted) = take 3 sample_events"
    using e a by (simp add: log_append_def reduceAssignmentEventsV2_def kernel.run_snoc)
  moreover have "log_append sample_env (take 3 sample_events) (sample_event 3 RunStarted) = take 3 sample_events"
    by (simp add: log_append_def sample_events_def sample_event_def)
  moreover have "j_events (sample_journal 3 st) = take 3 sample_events" by (simp add: sample_journal_def)
  ultimately show ?thesis
    using journal_refines_log [OF sample_journal_reachable [OF h(1)],
        of "[sample_event 9 RunStarted, sample_event 3 RunStarted]"]
    by (intro exI [of _ st]) simp
qed

section \<open>Journal objects\<close>

text \<open>C8: Whatever objects the program holds, and however they share: the snapshot of a journal object is the
  reduction of the events that object retains. Journals may have been constructed, forked and appended to in any order,
  with appends and constructions that threw in between, and whatever a throwing handler left in the objects it was given.\<close>

theorem object_snapshot_is_reduction:
  assumes "world env residue h js" "j \<in> set js"
  shows "snapshot_object j h = reduceAssignmentEventsV2 env (jo_events j)"
  using reachable_ok [of env "journal_of h j"] world_ok [OF assms(1)] assms(2)
  by (auto simp: world_ok_def journal_ok_def journal_of_def snapshot_object_def reduceAssignmentEventsV2_def)

text \<open>The journal of the first three sample events and a fork of it, with handlers that would reset whatever they are given.\<close>

definition reset_residue :: residue where
  "reset_residue ev st = initial_reducer_state\<lparr>rs_snapshot := rs_snapshot st, rs_superseded := True\<rparr>"

lemma sample_world:
  obtains h st s j k where "world sample_env reset_residue h [j, k]" "history sample_env (take 3 sample_events) st"
    "rs_snapshot st = Some s" "journal_of h j = sample_journal 3 st" "journal_of h k = sample_journal 3 st"
proof -
  obtain st s where t: "history sample_env (take 3 sample_events) st" "rs_snapshot st = Some s"
    using sample_dispatched by (rule sample_checkD)
  note r = sample_journal_reachable [OF t(1)]
  fix h0
  obtain x h1 where c: "construct_object sample_env reset_residue (take 3 sample_events) h0 = (x, h1)" by fastforce
  have "construct sample_env (take 3 sample_events) = Inr (sample_journal 3 st)"
    using construct_roundtrip [OF reachable_ok [OF r]] by (simp add: sample_journal_def)
  then obtain j where j: "x = Inr j" "journal_of h1 j = sample_journal 3 st"
    using construct_object(3) [OF c] by (cases x) simp_all
  have w: "world sample_env reset_residue h1 [j]"
    using world.constructed [OF world.started, of sample_env reset_residue "take 3 sample_events" h0 j h1] c j(1) by simp
  obtain k h2 where f: "fork_object j h1 = (k, h2)" by fastforce
  have b: "between 0 (os_free h1) h1 (jo_state j)" using world_ok [OF w] by (simp add: world_ok_def)
  have "world sample_env reset_residue h2 [j, k]" using world.forked [OF w, of 0 k h2] f by simp
  moreover have "journal_of h2 j = sample_journal 3 st"
    using journal_object_kept(1) [OF fork_object(1) [OF f b] b] j(2) by simp
  moreover have "journal_of h2 k = sample_journal 3 st"
    using fork_object(3) [OF f b] fork_same [OF reachable_ok [OF r]] j(2) by simp
  ultimately show thesis using that t by blast
qed

theorem object_snapshot_is_reduction_witness:
  "\<exists>h st s j k. world sample_env reset_residue h [j, k] \<and> snapshot_object k h = Inr s
     \<and> reduceAssignmentEventsV2 sample_env (take 3 sample_events) = Inr s"
proof -
  obtain h st s j k where w: "world sample_env reset_residue h [j, k]" "rs_snapshot st = Some s"
    "journal_of h k = sample_journal 3 st" by (rule sample_world)
  have s: "snapshot_object k h = Inr s" "jo_events k = take 3 sample_events"
    using w(2,3) by (simp_all add: journal_of_def sample_journal_def snapshot_object_def current_def)
  then show ?thesis using object_snapshot_is_reduction [OF w(1), of k] w(1) by (metis list.set_intros)
qed

text \<open>C33: An append is atomic, and it touches no other journal. On the objects of the program it does what
  \<open>journal_append\<close> says of their contents; every other journal object, forks that share the snapshot included, denotes
  what it did; and if it throws, the journal refers to the object it did, which denotes what it did, whatever the handler
  wrote to its own objects before it threw. It holds because the state is cloned before the reducer runs on it.\<close>

theorem append_is_atomic:
  assumes "world env residue h js" "i < length js" "append_object env residue (js ! i) ev h = (result, j', h')"
  shows "journal_append env (journal_of h (js ! i)) ev = (result, journal_of h' j')
    \<and> (\<forall>k<length js. journal_of h' (js ! k) = journal_of h (js ! k))
    \<and> (\<forall>e. result = Inl e \<longrightarrow> j' = js ! i)"
proof -
  have b: "between 0 (os_free h) h (jo_state (js ! k))" if "k < length js" for k
    using world_ok [OF assms(1)] that by (simp add: world_ok_def)
  note a = append_object [OF assms(3) b [OF assms(2)]]
  show ?thesis using a(3,4) journal_object_kept(1) [OF a(1) b] by blast
qed

text \<open>An event out of order, appended to the fork.\<close>

theorem append_is_atomic_witness:
  "\<exists>h st j k h'. world sample_env reset_residue h [j, k]
     \<and> append_object sample_env reset_residue k (sample_event 9 RunStarted) h = (Inl ''assignment_event_out_of_order'', k, h')
     \<and> journal_of h' j = sample_journal 3 st \<and> journal_of h' k = sample_journal 3 st"
proof -
  obtain h st s j k where w: "world sample_env reset_residue h [j, k]" "history sample_env (take 3 sample_events) st"
    "rs_snapshot st = Some s" "journal_of h j = sample_journal 3 st" "journal_of h k = sample_journal 3 st"
    by (rule sample_world)
  let ?ev = "sample_event 9 RunStarted"
  have v: "sn_assignment_version s = 3"
    using history_version [OF w(2)] w(3) by (simp add: sample_ids)
  have "applyEvent sample_env st ?ev = Inl ''assignment_event_out_of_order''"
    using w(3) v by (simp add: applyEvent_def validateVersion_def expected_version_def sample_event_def guard_def)
  moreover have "rget (index_of (take 3 sample_events)) (ev_event_id ?ev) = None"
    by (simp add: sample_events_def sample_event_def index_of_def numeral_eq_Suc)
  ultimately have r: "journal_append sample_env (sample_journal 3 st) ?ev
      = (Inl ''assignment_event_out_of_order'', sample_journal 3 st)"
    by (simp add: journal_append_def sample_journal_def)
  obtain x j' h' where a: "append_object sample_env reset_residue k ?ev h = (x, j', h')" by (metis prod_cases3)
  note t = append_is_atomic [OF w(1), of 1 ?ev x j' h']
  have "journal_append sample_env (journal_of h k) ?ev = (x, journal_of h' j')" using t a by simp
  then have x: "x = Inl ''assignment_event_out_of_order''" using r w(5) by simp
  have k: "j' = k" using t a x by simp
  have "\<forall>i<length [j, k]. journal_of h' ([j, k] ! i) = journal_of h ([j, k] ! i)" using t a by simp
  then have "journal_of h' j = journal_of h j" "journal_of h' k = journal_of h k"
    by (metis length_Cons list.size(3) nth_Cons_0 zero_less_Suc, metis One_nat_def lessI length_Cons list.size(3) nth_Cons_0 nth_Cons_Suc)
  then show ?thesis using w(1,4,5) a x k by metis
qed

end
